(* ===== verification/Prelude.thy ===== *)
theory Prelude
  imports Main "HOL-Library.Sublist"
begin

text \<open>
  What the components share: the string functions of Go's \<open>strings\<close> and \<open>strconv\<close>
  packages the gateway uses (a Go string is a byte string, here a \<open>char list\<close>), the
  error-propagating bind on sums, the early-stopping filter loop of the collection
  handlers, and the generic facts about them. The collection \<open>go_str\<close> holds the
  rewrite rules on separators and joins that the text codec rests on.
\<close>

named_theorems go_str

section \<open>Errors as values\<close>

fun sbind :: "'e + 'a \<Rightarrow> ('a \<Rightarrow> 'e + 'b) \<Rightarrow> 'e + 'b" where
  "sbind (Inl e) f = Inl e"
| "sbind (Inr x) f = f x"

lemma sbind_Inr_iff [simp]: "sbind m f = Inr y \<longleftrightarrow> (\<exists>x. m = Inr x \<and> f x = Inr y)"
  by (cases m) auto

lemma sbind_Inl_iff: "sbind m f = Inl e \<longleftrightarrow> m = Inl e \<or> (\<exists>x. m = Inr x \<and> f x = Inl e)"
  by (cases m) auto

fun smap_list :: "('a \<Rightarrow> 'e + 'b) \<Rightarrow> 'a list \<Rightarrow> 'e + 'b list" where
  "smap_list f [] = Inr []"
| "smap_list f (x # xs) = sbind (f x) (\<lambda>y. sbind (smap_list f xs) (\<lambda>ys. Inr (y # ys)))"

lemma smap_list_Inr:
  "smap_list f xs = Inr ys \<longleftrightarrow> list_all2 (\<lambda>x y. f x = Inr y) xs ys"
  by (induction xs arbitrary: ys) (auto simp: list_all2_Cons1)

lemma smap_list_map: "smap_list f xs = Inr ys \<Longrightarrow> map f xs = map Inr ys"
  by (induction xs arbitrary: ys) auto

lemma smap_list_all_Inr:
  "(\<And>x. x \<in> set xs \<Longrightarrow> f x = Inr (g x)) \<Longrightarrow> smap_list f xs = Inr (map g xs)"
  by (induction xs) auto

lemma smap_list_cong [fundef_cong]:
  "xs = ys \<Longrightarrow> (\<And>x. x \<in> set ys \<Longrightarrow> f x = g x) \<Longrightarrow> smap_list f xs = smap_list g ys"
  by (induction ys arbitrary: xs) auto

section \<open>Package strings\<close>

text \<open>\<open>strings.Index\<close>, \<open>strings.Contains\<close>, \<open>strings.Split\<close> (for a separator that is
  not empty), \<open>strings.Join\<close>.\<close>

fun str_index :: "string \<Rightarrow> string \<Rightarrow> nat option" where
  "str_index sub [] = (if sub = [] then Some 0 else None)"
| "str_index sub (c # cs) =
     (if prefix sub (c # cs) then Some 0 else map_option Suc (str_index sub cs))"

definition str_contains :: "string \<Rightarrow> string \<Rightarrow> bool" where
  "str_contains s sub \<longleftrightarrow> str_index sub s \<noteq> None"

lemma str_index_bound: "str_index sub s = Some i \<Longrightarrow> i + length sub \<le> length s"
  by (induction sub s arbitrary: i rule: str_index.induct)
     (auto dest: prefix_length_le split: if_splits)

lemma str_index_shrinks:
  assumes "str_index sub s = Some i" "sub \<noteq> []"
  shows "length s - (i + length sub) < length s"
  using str_index_bound [OF assms(1)] assms(2) by (cases sub) auto

function go_split :: "string \<Rightarrow> string \<Rightarrow> string list" where
  "go_split sep s =
     (if sep = [] then [s]
      else case str_index sep s of
        None \<Rightarrow> [s]
      | Some i \<Rightarrow> take i s # go_split sep (drop (i + length sep) s))"
  by pat_completeness auto
termination
  by (relation "measure (\<lambda>(sep, s). length s)") (auto dest: str_index_shrinks)

declare go_split.simps [simp del]

fun go_join :: "string \<Rightarrow> string list \<Rightarrow> string" where
  "go_join sep [] = []"
| "go_join sep [x] = x"
| "go_join sep (x # y # xs) = x @ sep @ go_join sep (y # xs)"

lemma str_index_single_None [go_str]: "str_index [c] s = None \<longleftrightarrow> c \<notin> set s"
  by (induction s) auto

lemma str_contains_single [go_str]: "str_contains s [c] \<longleftrightarrow> c \<in> set s"
  by (simp add: str_contains_def str_index_single_None)

lemma str_index_single_append [go_str]:
  "c \<notin> set a \<Longrightarrow> str_index [c] (a @ c # b) = Some (length a)"
  by (induction a) auto

lemma go_split_none [go_str]: "c \<notin> set s \<Longrightarrow> go_split [c] s = [s]"
  by (subst go_split.simps) (simp add: str_index_single_None [THEN iffD2])

lemma go_split_append [go_str]:
  "c \<notin> set a \<Longrightarrow> go_split [c] (a @ c # b) = a # go_split [c] b"
  by (subst go_split.simps) (simp add: go_str)

lemma go_split_single_append [go_str]: "go_split [c] (c # b) = [] # go_split [c] b"
  using go_split_append [of c "[]" b] by simp

lemma go_split_nonempty: "go_split sep s \<noteq> []"
  by (subst go_split.simps) (simp split: option.split)

text \<open>Splitting a join gives the tokens back when none of them holds the separator.\<close>

lemma go_split_join [go_str]:
  "toks \<noteq> [] \<Longrightarrow> \<forall>t \<in> set toks. c \<notin> set t \<Longrightarrow> go_split [c] (go_join [c] toks) = toks"
proof (induction "[c]" toks rule: go_join.induct)
  case (3 x y xs)
  then show ?case by (simp add: go_str)
qed (simp_all add: go_str)

text \<open>Splitting blocks that each end in the separator gives the blocks and a last empty one.\<close>

lemma go_split_blocks [go_str]:
  "\<forall>b \<in> set bs. c \<notin> set b \<Longrightarrow> go_split [c] (concat (map (\<lambda>b. b @ [c]) bs)) = bs @ [[]]"
  by (induction bs) (auto simp: go_str)

lemma set_go_join: "set (go_join sep toks) \<subseteq> set sep \<union> (\<Union>t \<in> set toks. set t)"
  by (induction sep toks rule: go_join.induct) auto

text \<open>\<open>strings.TrimSpace\<close>: white space is what \<open>unicode.IsSpace\<close> says, in UTF-8: the six
  ASCII characters and the encodings of U+0085, U+00A0, U+1680, U+2000..U+200A, U+2028,
  U+2029, U+202F, U+205F and U+3000. A leading rune is read forwards, a trailing one
  backwards (UTF-8 is self-synchronising, so the two readings agree).\<close>

definition ascii_space :: "char \<Rightarrow> bool" where
  "ascii_space c \<longleftrightarrow> c \<in> set [CHR 0x09, CHR 0x0A, CHR 0x0B, CHR 0x0C, CHR 0x0D, CHR 0x20]"

definition wide_spaces :: "string list" where
  "wide_spaces =
     [[CHR 0xC2, CHR 0x85], [CHR 0xC2, CHR 0xA0], [CHR 0xE1, CHR 0x9A, CHR 0x80],
      [CHR 0xE2, CHR 0x80, CHR 0x80], [CHR 0xE2, CHR 0x80, CHR 0x81],
      [CHR 0xE2, CHR 0x80, CHR 0x82], [CHR 0xE2, CHR 0x80, CHR 0x83],
      [CHR 0xE2, CHR 0x80, CHR 0x84], [CHR 0xE2, CHR 0x80, CHR 0x85],
      [CHR 0xE2, CHR 0x80, CHR 0x86], [CHR 0xE2, CHR 0x80, CHR 0x87],
      [CHR 0xE2, CHR 0x80, CHR 0x88], [CHR 0xE2, CHR 0x80, CHR 0x89],
      [CHR 0xE2, CHR 0x80, CHR 0x8A], [CHR 0xE2, CHR 0x80, CHR 0xA8],
      [CHR 0xE2, CHR 0x80, CHR 0xA9], [CHR 0xE2, CHR 0x80, CHR 0xAF],
      [CHR 0xE2, CHR 0x81, CHR 0x9F], [CHR 0xE3, CHR 0x80, CHR 0x80]]"

fun trim_left :: "(char \<Rightarrow> bool) \<Rightarrow> string list \<Rightarrow> string \<Rightarrow> nat \<Rightarrow> string" where
  "trim_left p ws s 0 = s"
| "trim_left p ws s (Suc k) =
     (case s of
        [] \<Rightarrow> []
      | c # cs \<Rightarrow>
          if p c then trim_left p ws cs k
          else case find (\<lambda>w. prefix w s) ws of
                 None \<Rightarrow> s
               | Some w \<Rightarrow> trim_left p ws (drop (length w) s) k)"

definition trim_space_left :: "string \<Rightarrow> string" where
  "trim_space_left s = trim_left ascii_space wide_spaces s (length s)"

definition trim_space_right :: "string \<Rightarrow> string" where
  "trim_space_right s = rev (trim_left ascii_space (map rev wide_spaces) (rev s) (length s))"

definition trim_space :: "string \<Rightarrow> string" where
  "trim_space s = trim_space_right (trim_space_left s)"

lemma trim_left_stop:
  "s = [] \<or> (\<not> p (hd s) \<and> (\<forall>w \<in> set ws. \<not> prefix w s)) \<Longrightarrow> trim_left p ws s k = s"
  by (cases k; cases s) (auto simp: find_None_iff dest: find_Some_iff [THEN iffD1] split: option.split)

text \<open>A string whose first and last bytes are printable ASCII is its own trimming.\<close>

definition printable_ascii :: "char \<Rightarrow> bool" where
  "printable_ascii c \<longleftrightarrow> of_char c > (0x20 :: nat) \<and> of_char c < (0x7F :: nat)"

lemma printable_not_space: "printable_ascii c \<Longrightarrow> \<not> ascii_space c"
  by (auto simp: printable_ascii_def ascii_space_def)

lemma printable_not_wide:
  "printable_ascii c \<Longrightarrow> \<forall>w \<in> set wide_spaces. \<not> prefix w (c # cs)"
  "printable_ascii c \<Longrightarrow> \<forall>w \<in> set (map rev wide_spaces). \<not> prefix w (c # cs)"
  by (auto simp: printable_ascii_def wide_spaces_def)

lemma trim_space_printable:
  assumes "s \<noteq> []" "printable_ascii (hd s)" "printable_ascii (last s)"
  shows "trim_space s = s"
proof -
  from assms obtain c cs where s: "s = c # cs" "printable_ascii c" by (cases s) auto
  from assms obtain d ds where r: "rev s = d # ds" "printable_ascii d"
    by (cases "rev s") (auto simp: last_rev hd_rev)
  have l: "trim_space_left s = s"
    unfolding trim_space_left_def using s
    by (intro trim_left_stop) (auto simp: printable_not_space dest: printable_not_wide(1))
  have "trim_left ascii_space (map rev wide_spaces) (rev s) (length s) = rev s"
    using r printable_not_wide(2) [of d ds]
    by (intro trim_left_stop) (simp add: printable_not_space)
  then have "trim_space_right s = s"
    unfolding trim_space_right_def by simp
  with l show ?thesis by (simp add: trim_space_def)
qed

lemma trim_space_Nil [simp]: "trim_space [] = []"
  by (simp add: trim_space_def trim_space_left_def trim_space_right_def)

end
