(* ===== verification/Json.thy ===== *)
theory Json
  imports Prelude
begin

text \<open>
  JSON documents as \<open>encoding/json\<close> sees them once the text is scanned: a tree whose
  numbers keep their literal text (what \<open>json.Number\<close> and \<open>json.RawMessage\<close> carry) and
  whose objects keep their members in order, duplicates included. The theory models how the
  decoder binds an object to a Go struct (an exact field name wins over a case-folded one,
  members are taken in document order, null leaves a string as it is) and to a map (the
  last duplicate wins).
\<close>

datatype json =
    JNull
  | JBool bool
  | JNum string
  | JStr string
  | JArr "json list"
  | JObj "(string \<times> json) list"

lemma size_json_arr [termination_simp]: "x \<in> set xs \<Longrightarrow> size x < size (JArr xs)"
  by (induction xs) auto

lemma size_json_obj [termination_simp]:
  "(k, v) \<in> set kvs \<Longrightarrow> size v < size (JObj kvs)"
proof -
  assume "(k, v) \<in> set kvs"
  then have "size v \<le> size_list (size_prod (\<lambda>_. 0) size) kvs"
    by (induction kvs) auto
  then show ?thesis by simp
qed

section \<open>Objects as maps\<close>

definition jmap :: "(string \<times> json) list \<Rightarrow> (string \<rightharpoonup> json)" where
  "jmap kvs = map_of (rev kvs)"

section \<open>Objects as structs\<close>

text \<open>Folding of member names: ASCII letters fold to lower case, and so do the two
  non-ASCII runes whose simple fold is an ASCII letter, the Kelvin sign and the long s.\<close>

definition fold_char :: "char \<Rightarrow> char" where
  "fold_char c = (if 65 \<le> (of_char c :: nat) \<and> (of_char c :: nat) \<le> 90
                  then char_of ((of_char c :: nat) + 32) else c)"

fun fold_name :: "string \<Rightarrow> string" where
  "fold_name [] = []"
| "fold_name [a] = [fold_char a]"
| "fold_name [a, b] =
     (if a = CHR 0xC5 \<and> b = CHR 0xBF then ''s'' else [fold_char a, fold_char b])"
| "fold_name (a # b # c # r) =
     (if a = CHR 0xC5 \<and> b = CHR 0xBF then CHR ''s'' # fold_name (c # r)
      else if a = CHR 0xE2 \<and> b = CHR 0x84 \<and> c = CHR 0xAA then CHR ''k'' # fold_name r
      else fold_char a # fold_name (b # c # r))"

definition match_field :: "string list \<Rightarrow> string \<Rightarrow> string option" where
  "match_field fields key =
     (if key \<in> set fields then Some key
      else find (\<lambda>f. fold_name f = fold_name key) fields)"

definition field_values :: "string list \<Rightarrow> (string \<times> json) list \<Rightarrow> string \<Rightarrow> json list" where
  "field_values fields kvs f =
     map snd (filter (\<lambda>kv. match_field fields (fst kv) = Some f) kvs)"

text \<open>A Go string field: each string member overwrites it, null leaves it, anything else is
  a type error (\<open>None\<close>).\<close>

fun last_string :: "json list \<Rightarrow> string \<Rightarrow> string option" where
  "last_string [] acc = Some acc"
| "last_string (JStr s # r) acc = last_string r s"
| "last_string (JNull # r) acc = last_string r acc"
| "last_string (x # r) acc = None"

definition string_field :: "string list \<Rightarrow> (string \<times> json) list \<Rightarrow> string \<Rightarrow> string option" where
  "string_field fields kvs f = last_string (field_values fields kvs f) []"

text \<open>A member written with \<open>omitempty\<close>.\<close>

definition omit_empty :: "string \<Rightarrow> string \<Rightarrow> (string \<times> json) list" where
  "omit_empty f s = (if s = [] then [] else [(f, JStr s)])"

lemma match_field_exact [simp]: "k \<in> set fields \<Longrightarrow> match_field fields k = Some k"
  by (simp add: match_field_def)

lemma field_values_Nil [simp]: "field_values fields [] f = []"
  by (simp add: field_values_def)

lemma field_values_append [simp]:
  "field_values fields (xs @ ys) f = field_values fields xs f @ field_values fields ys f"
  by (simp add: field_values_def)

lemma field_values_Cons_exact [simp]:
  "k \<in> set fields \<Longrightarrow>
   field_values fields ((k, v) # r) f = (if k = f then v # field_values fields r f
                                          else field_values fields r f)"
  by (simp add: field_values_def)

lemma field_values_omit [simp]:
  "k \<in> set fields \<Longrightarrow>
   field_values fields (omit_empty k s) f = (if k = f \<and> s \<noteq> [] then [JStr s] else [])"
  by (auto simp: omit_empty_def)

section \<open>Fields that are not strings\<close>

text \<open>What a JSON value gives a struct, a pointer field, a slice field: null leaves a struct at its
  zero value, makes a pointer nil and a slice empty. A field takes its last member. (Where a member
  is duplicated and object-valued, Go merges the later one into the earlier; documents are taken
  without such duplicates.)\<close>

definition struct_members :: "json \<Rightarrow> (string \<times> json) list option" where
  "struct_members j = (case j of JNull \<Rightarrow> Some [] | JObj kvs \<Rightarrow> Some kvs | _ \<Rightarrow> None)"

definition ptr_member :: "(json \<Rightarrow> 'a option) \<Rightarrow> json \<Rightarrow> 'a option option" where
  "ptr_member dec j = (if j = JNull then Some None else map_option Some (dec j))"

definition list_member :: "(json \<Rightarrow> 'a option) \<Rightarrow> json \<Rightarrow> 'a list option" where
  "list_member dec j =
     (case j of JNull \<Rightarrow> Some [] | JArr xs \<Rightarrow> those (map dec xs) | _ \<Rightarrow> None)"

definition bind_last :: "(json \<Rightarrow> 'a option) \<Rightarrow> 'a \<Rightarrow> json list \<Rightarrow> 'a option" where
  "bind_last dec zero vs = map_option (\<lambda>rs. last (zero # rs)) (those (map dec vs))"

text \<open>The element of a \<open>[]string\<close>.\<close>

definition string_elem :: "json \<Rightarrow> string option" where
  "string_elem j = (case j of JNull \<Rightarrow> Some [] | JStr s \<Rightarrow> Some s | _ \<Rightarrow> None)"

lemma bind_last_Nil [simp]: "bind_last dec zero [] = Some zero"
  by (simp add: bind_last_def)

lemma bind_last_one [simp]: "bind_last dec zero [v] = dec v"
  by (cases "dec v") (simp_all add: bind_last_def)

lemma those_map_inverse:
  "(\<And>x. x \<in> set xs \<Longrightarrow> dec (enc x) = Some x) \<Longrightarrow> those (map dec (map enc xs)) = Some xs"
  by (induction xs) auto

lemma those_eq_map: "those xs = Some ys \<longleftrightarrow> xs = map Some ys"
  by (induction xs arbitrary: ys) (auto split: option.splits)

lemma list_member_inverse [simp]:
  "(\<And>x. x \<in> set xs \<Longrightarrow> dec (enc x) = Some x) \<Longrightarrow> list_member dec (JArr (map enc xs)) = Some xs"
  by (simp add: list_member_def those_map_inverse del: map_map)

text \<open>Members written with \<open>omitempty\<close>: a pointer, a slice.\<close>

definition omit_nil :: "string \<Rightarrow> ('a \<Rightarrow> json) \<Rightarrow> 'a option \<Rightarrow> (string \<times> json) list" where
  "omit_nil f enc x = (case x of None \<Rightarrow> [] | Some v \<Rightarrow> [(f, enc v)])"

definition omit_list :: "string \<Rightarrow> ('a \<Rightarrow> json) \<Rightarrow> 'a list \<Rightarrow> (string \<times> json) list" where
  "omit_list f enc xs = (if xs = [] then [] else [(f, JArr (map enc xs))])"

lemma field_values_omit_nil [simp]:
  "k \<in> set fields \<Longrightarrow> field_values fields (omit_nil k enc x) f =
     (if k = f then (case x of None \<Rightarrow> [] | Some v \<Rightarrow> [enc v]) else [])"
  by (cases x) (simp_all add: omit_nil_def)

lemma field_values_omit_list [simp]:
  "k \<in> set fields \<Longrightarrow> field_values fields (omit_list k enc xs) f =
     (if k = f \<and> xs \<noteq> [] then [JArr (map enc xs)] else [])"
  by (auto simp: omit_list_def)

text \<open>A \<open>[]json.RawMessage\<close>: its elements as they are. They are smaller than the object.\<close>

definition raw_list :: "json \<Rightarrow> json list option" where
  "raw_list j = (case j of JNull \<Rightarrow> Some [] | JArr xs \<Rightarrow> Some xs | _ \<Rightarrow> None)"

lemma bind_last_raw_size:
  assumes "bind_last raw_list [] (field_values keys kvs f) = Some xs" "x \<in> set xs"
  shows "size x < size (JObj kvs)"
proof -
  let ?vs = "field_values keys kvs f"
  from assms(1) obtain rs where rs: "map raw_list ?vs = map Some rs" "xs = last ([] # rs)"
    by (auto simp: bind_last_def those_eq_map)
  with assms(2) have "rs \<noteq> []" by (auto split: if_splits)
  with rs have "Some xs \<in> set (map raw_list ?vs)" by simp
  then obtain v where v: "v \<in> set ?vs" "raw_list v = Some xs" by auto
  have "v = JArr xs" using v(2) assms(2) by (auto simp: raw_list_def split: json.splits)
  moreover from v(1) obtain k where "(k, v) \<in> set kvs" by (auto simp: field_values_def)
  ultimately show ?thesis using size_json_arr [OF assms(2)] size_json_obj [of k v kvs] by simp
qed

end
