(* ===== verification/SweComponent.thy ===== *)
theory SweComponent
  imports Json
begin

text \<open>
  \<open>pkg/swecommon/component.go\<close> and \<open>schema.go\<close>: the SWE Common data components, the
  record schema with its \<open>Validate\<close>, and the schema document (\<open>MarshalSchema\<close>,
  \<open>UnmarshalSchema\<close>) through the wire envelope. The sealed Go interface
  \<open>DataComponent\<close> is a datatype; a Go interface value that may be nil is an
  \<open>option\<close>, and so is a \<open>*DataRecord\<close>. A Go error is \<open>Inl\<close>; a nil dereference is
  the error \<open>NilDeref\<close>.
\<close>

section \<open>Components (component.go)\<close>

type_synonym ComponentKind = string

definition KindRecord :: ComponentKind where "KindRecord = ''DataRecord''"
definition KindQuantity :: ComponentKind where "KindQuantity = ''Quantity''"
definition KindCount :: ComponentKind where "KindCount = ''Count''"
definition KindTime :: ComponentKind where "KindTime = ''Time''"
definition KindBoolean :: ComponentKind where "KindBoolean = ''Boolean''"
definition KindText :: ComponentKind where "KindText = ''Text''"
definition KindCategory :: ComponentKind where "KindCategory = ''Category''"

lemmas kind_defs = KindRecord_def KindQuantity_def KindCount_def KindTime_def KindBoolean_def
  KindText_def KindCategory_def

record CommonFields =
  LabelValue :: string
  DefinitionValue :: string
  NilValue :: string

datatype DataComponent =
    Quantity CommonFields (UoMCode: string) (UoMHref: string)
  | Count CommonFields
  | Time CommonFields (TimeUoMHref: string) (ReferenceFrame: string)
  | Boolean CommonFields
  | Text CommonFields
  | Category CommonFields (CodeSpace: string)
  | RecordPtr "DataRecord option"
and DataRecord = DataRecord (RecCommon: CommonFields) (Fields: "Field list")
and Field = Field (Name: string) (Component: "DataComponent option")

fun Kind :: "DataComponent \<Rightarrow> ComponentKind" where
  "Kind (Quantity _ _ _) = KindQuantity"
| "Kind (Count _) = KindCount"
| "Kind (Time _ _ _) = KindTime"
| "Kind (Boolean _) = KindBoolean"
| "Kind (Text _) = KindText"
| "Kind (Category _ _) = KindCategory"
| "Kind (RecordPtr _) = KindRecord"

text \<open>The embedded base; reading it through a nil \<open>*DataRecord\<close> dereferences nil.\<close>

fun common :: "DataComponent \<Rightarrow> CommonFields option" where
  "common (Quantity cf _ _) = Some cf"
| "common (Count cf) = Some cf"
| "common (Time cf _ _) = Some cf"
| "common (Boolean cf) = Some cf"
| "common (Text cf) = Some cf"
| "common (Category cf _) = Some cf"
| "common (RecordPtr r) = map_option RecCommon r"

section \<open>Record schemas (schema.go)\<close>

datatype swe_error =
    NilRecord
  | NoFields
  | EmptyFieldName nat
  | DuplicateField string
  | NilComponentField string
  | NestedRecord string
  | NilComponent
  | NilRecordComponent
  | NilDeref
  | InField string swe_error
  | UnknownType string
  | NotARecord string
  | JsonType

fun FieldByName :: "DataRecord option \<Rightarrow> string \<Rightarrow> Field option" where
  "FieldByName None name = None"
| "FieldByName (Some r) name = find (\<lambda>f. Name f = name) (Fields r)"

text \<open>The loop of \<open>Validate\<close>: \<open>i\<close> is the index, \<open>seen\<close> the names met so far. The result
  is the Go error, \<open>None\<close> for nil.\<close>

fun validateFields :: "nat \<Rightarrow> string list \<Rightarrow> Field list \<Rightarrow> swe_error option" where
  "validateFields i seen [] = None"
| "validateFields i seen (Field name c # fs) =
     (if name = [] then Some (EmptyFieldName i)
      else if name \<in> set seen then Some (DuplicateField name)
      else case c of
             None \<Rightarrow> Some (NilComponentField name)
           | Some (RecordPtr _) \<Rightarrow> Some (NestedRecord name)
           | Some _ \<Rightarrow> validateFields (Suc i) (name # seen) fs)"

fun Validate :: "DataRecord option \<Rightarrow> swe_error option" where
  "Validate None = Some NilRecord"
| "Validate (Some r) =
     (if Fields r = [] then Some NoFields else validateFields 0 [] (Fields r))"

datatype schemaEnvelope = SchemaEnvelope
    (EType: string) (ELabel: string) (EDefinition: string) (ENilValue: string)
    (EUoMCode: string) (EUoMHref: string) (EReferenceFrame: string) (ECodeSpace: string)
    (EFields: "fieldEnvelope list")
and fieldEnvelope = FieldEnvelope (FEName: string) (FEComponent: schemaEnvelope)

definition baseEnvelope ::
  "string \<Rightarrow> CommonFields \<Rightarrow> string \<Rightarrow> string \<Rightarrow> string \<Rightarrow> string \<Rightarrow> fieldEnvelope list \<Rightarrow> schemaEnvelope"
where
  "baseEnvelope t cf code href frame space fs =
     SchemaEnvelope t (LabelValue cf) (DefinitionValue cf) (NilValue cf) code href frame space fs"

fun envelopeFromComponent :: "DataComponent option \<Rightarrow> swe_error + schemaEnvelope"
and envelopesFromFields :: "Field list \<Rightarrow> swe_error + fieldEnvelope list" where
  "envelopeFromComponent None = Inl NilComponent"
| "envelopeFromComponent (Some (Quantity cf code href)) =
     Inr (baseEnvelope KindQuantity cf code href [] [] [])"
| "envelopeFromComponent (Some (Count cf)) = Inr (baseEnvelope KindCount cf [] [] [] [] [])"
| "envelopeFromComponent (Some (Time cf href frame)) =
     Inr (baseEnvelope KindTime cf [] href frame [] [])"
| "envelopeFromComponent (Some (Boolean cf)) = Inr (baseEnvelope KindBoolean cf [] [] [] [] [])"
| "envelopeFromComponent (Some (Text cf)) = Inr (baseEnvelope KindText cf [] [] [] [] [])"
| "envelopeFromComponent (Some (Category cf space)) =
     Inr (baseEnvelope KindCategory cf [] [] [] space [])"
| "envelopeFromComponent (Some (RecordPtr None)) = Inl NilDeref"
| "envelopeFromComponent (Some (RecordPtr (Some (DataRecord cf fs)))) =
     sbind (envelopesFromFields fs) (\<lambda>es. Inr (baseEnvelope KindRecord cf [] [] [] [] es))"
| "envelopesFromFields [] = Inr []"
| "envelopesFromFields (Field name c # fs) =
     (case envelopeFromComponent c of
        Inl e \<Rightarrow> Inl (InField name e)
      | Inr sub \<Rightarrow> sbind (envelopesFromFields fs) (\<lambda>es. Inr (FieldEnvelope name sub # es)))"

fun componentFromEnvelope :: "schemaEnvelope \<Rightarrow> swe_error + DataComponent"
and fieldsFromEnvelopes :: "fieldEnvelope list \<Rightarrow> swe_error + Field list" where
  "componentFromEnvelope (SchemaEnvelope t label def nilv code href frame space fs) =
     (let base = \<lparr>LabelValue = label, DefinitionValue = def, NilValue = nilv\<rparr> in
      if t = KindQuantity then Inr (Quantity base code href)
      else if t = KindCount then Inr (Count base)
      else if t = KindTime then Inr (Time base href frame)
      else if t = KindBoolean then Inr (Boolean base)
      else if t = KindText then Inr (Text base)
      else if t = KindCategory then Inr (Category base space)
      else if t = KindRecord then
        sbind (fieldsFromEnvelopes fs) (\<lambda>fl. Inr (RecordPtr (Some (DataRecord base fl))))
      else Inl (UnknownType t))"
| "fieldsFromEnvelopes [] = Inr []"
| "fieldsFromEnvelopes (FieldEnvelope name env # fs) =
     (case componentFromEnvelope env of
        Inl e \<Rightarrow> Inl (InField name e)
      | Inr sub \<Rightarrow> sbind (fieldsFromEnvelopes fs) (\<lambda>fl. Inr (Field name (Some sub) # fl)))"

text \<open>The envelopes as JSON: the struct tags of \<open>schemaEnvelope\<close>, and the splatted field
  shape of \<open>fieldEnvelope.MarshalJSON\<close> and \<open>UnmarshalJSON\<close>.\<close>

definition envelopeKeys :: "string list" where
  "envelopeKeys = [''type'', ''label'', ''definition'', ''nilValue'', ''uomCode'', ''uomHref'',
                   ''referenceFrame'', ''codeSpace'', ''fields'']"

definition fieldAliasKeys :: "string list" where
  "fieldAliasKeys = ''name'' # envelopeKeys"

fun envelopeMembers :: "schemaEnvelope \<Rightarrow> (string \<times> json) list"
and fieldEnvelopeMarshal :: "fieldEnvelope \<Rightarrow> json" where
  "envelopeMembers (SchemaEnvelope t label def nilv code href frame space fs) =
     [(''type'', JStr t)] @ omit_empty ''label'' label @ omit_empty ''definition'' def @
     omit_empty ''nilValue'' nilv @ omit_empty ''uomCode'' code @ omit_empty ''uomHref'' href @
     omit_empty ''referenceFrame'' frame @ omit_empty ''codeSpace'' space @
     (if fs = [] then [] else [(''fields'', JArr (map fieldEnvelopeMarshal fs))])"
| "fieldEnvelopeMarshal (FieldEnvelope name env) =
     JObj ((''name'', JStr name) # envelopeMembers env)"

definition envelopeMarshal :: "schemaEnvelope \<Rightarrow> json" where
  "envelopeMarshal env = JObj (envelopeMembers env)"

definition zeroEnvelope :: schemaEnvelope where
  "zeroEnvelope = SchemaEnvelope [] [] [] [] [] [] [] [] []"

text \<open>Binding the members; \<open>fss\<close> are the field lists of the \<open>fields\<close> members, decoded in
  document order, of which the last stays.\<close>

definition bindEnvelope ::
  "string list \<Rightarrow> (string \<times> json) list \<Rightarrow> fieldEnvelope list list \<Rightarrow> swe_error + schemaEnvelope"
where
  "bindEnvelope keys kvs fss =
     (case those (map (string_field keys kvs)
              [''type'', ''label'', ''definition'', ''nilValue'', ''uomCode'', ''uomHref'',
               ''referenceFrame'', ''codeSpace'']) of
        Some [t, l, d, n, c, h, f, s] \<Rightarrow>
          Inr (SchemaEnvelope t l d n c h f s (if fss = [] then [] else last fss))
      | _ \<Rightarrow> Inl JsonType)"

function (sequential) envelopeUnmarshal :: "json \<Rightarrow> swe_error + schemaEnvelope"
and fieldEnvelopeUnmarshal :: "json \<Rightarrow> swe_error + fieldEnvelope"
and fieldsUnmarshal :: "json \<Rightarrow> swe_error + fieldEnvelope list" where
  "envelopeUnmarshal JNull = Inr zeroEnvelope"
| "envelopeUnmarshal (JObj kvs) =
     sbind (smap_list (\<lambda>kv. fieldsUnmarshal (snd kv))
              (filter (\<lambda>kv. match_field envelopeKeys (fst kv) = Some ''fields'') kvs))
       (bindEnvelope envelopeKeys kvs)"
| "envelopeUnmarshal _ = Inl JsonType"
| "fieldEnvelopeUnmarshal JNull = Inr (FieldEnvelope [] zeroEnvelope)"
| "fieldEnvelopeUnmarshal (JObj kvs) =
     sbind (smap_list (\<lambda>kv. fieldsUnmarshal (snd kv))
              (filter (\<lambda>kv. match_field fieldAliasKeys (fst kv) = Some ''fields'') kvs))
       (\<lambda>fss. sbind (bindEnvelope fieldAliasKeys kvs fss)
          (\<lambda>env. case string_field fieldAliasKeys kvs ''name'' of
                    None \<Rightarrow> Inl JsonType
                  | Some name \<Rightarrow> Inr (FieldEnvelope name env)))"
| "fieldEnvelopeUnmarshal _ = Inl JsonType"
| "fieldsUnmarshal JNull = Inr []"
| "fieldsUnmarshal (JArr xs) = smap_list fieldEnvelopeUnmarshal xs"
| "fieldsUnmarshal _ = Inl JsonType"
  by pat_completeness auto
termination
  by (relation "measure (case_sum size (case_sum size size))")
     (auto intro: size_json_arr size_json_obj simp del: json.size)

definition MarshalSchema :: "DataRecord option \<Rightarrow> swe_error + json" where
  "MarshalSchema r =
     (case Validate r of
        Some e \<Rightarrow> Inl e
      | None \<Rightarrow> sbind (envelopeFromComponent (Some (RecordPtr r))) (\<lambda>env. Inr (envelopeMarshal env)))"

definition UnmarshalSchema :: "json \<Rightarrow> swe_error + DataRecord" where
  "UnmarshalSchema doc =
     sbind (envelopeUnmarshal doc) (\<lambda>env.
       if EType env \<noteq> KindRecord then Inl (NotARecord (EType env))
       else sbind (componentFromEnvelope env) (\<lambda>c.
         case c of
           RecordPtr (Some rec) \<Rightarrow>
             (case Validate (Some rec) of Some e \<Rightarrow> Inl e | None \<Rightarrow> Inr rec)
         | _ \<Rightarrow> Inl (NotARecord (Kind c))))"

section \<open>The schema document round trip\<close>

lemma envelopeKeys_mem [simp]:
  "''type'' \<in> set envelopeKeys" "''label'' \<in> set envelopeKeys" "''definition'' \<in> set envelopeKeys"
  "''nilValue'' \<in> set envelopeKeys" "''uomCode'' \<in> set envelopeKeys" "''uomHref'' \<in> set envelopeKeys"
  "''referenceFrame'' \<in> set envelopeKeys" "''codeSpace'' \<in> set envelopeKeys"
  "''fields'' \<in> set envelopeKeys"
  by (simp_all add: envelopeKeys_def)

lemma fieldAliasKeys_mem [simp]:
  "''name'' \<in> set fieldAliasKeys" "k \<in> set envelopeKeys \<Longrightarrow> k \<in> set fieldAliasKeys"
  by (simp_all add: fieldAliasKeys_def)

lemma last_string_opt [simp]: "last_string (if s \<noteq> [] then [JStr s] else []) [] = Some s"
  by simp

lemma fields_filter_members:
  assumes "set envelopeKeys \<subseteq> set keys"
  shows "filter (\<lambda>kv. match_field keys (fst kv) = Some ''fields'') (envelopeMembers env) =
     (if EFields env = [] then [] else [(''fields'', JArr (map fieldEnvelopeMarshal (EFields env)))])"
  using assms by (cases env) (auto simp: omit_empty_def envelopeKeys_def)

lemma bindEnvelope_members:
  assumes "set envelopeKeys \<subseteq> set keys"
  shows "bindEnvelope keys (envelopeMembers env) fss =
     Inr (case env of SchemaEnvelope t l d n c h f s fs \<Rightarrow>
            SchemaEnvelope t l d n c h f s (if fss = [] then [] else last fss))"
proof -
  have [simp]: "k \<in> set keys" if "k \<in> set envelopeKeys" for k using assms that by blast
  show ?thesis
    by (cases env) (simp add: bindEnvelope_def string_field_def)
qed

lemma string_field_name [simp]:
  "k \<noteq> ''name'' \<Longrightarrow> string_field fieldAliasKeys ((''name'', v) # kvs) k = string_field fieldAliasKeys kvs k"
  by (simp add: string_field_def)

lemma bindEnvelope_name [simp]:
  "bindEnvelope fieldAliasKeys ((''name'', v) # kvs) fss = bindEnvelope fieldAliasKeys kvs fss"
  by (simp add: bindEnvelope_def)

lemma name_members [simp]: "field_values fieldAliasKeys (envelopeMembers env) ''name'' = []"
  by (cases env) simp

lemma envelopeKeys_subset [simp]: "set envelopeKeys \<subseteq> set fieldAliasKeys"
  by (auto simp: fieldAliasKeys_def)

lemma fieldEnvelope_roundtrip_step:
  assumes "smap_list fieldEnvelopeUnmarshal (map fieldEnvelopeMarshal (EFields env)) = Inr (EFields env)"
  shows "fieldEnvelopeUnmarshal (fieldEnvelopeMarshal (FieldEnvelope name env)) = Inr (FieldEnvelope name env)"
    and "envelopeUnmarshal (envelopeMarshal env) = Inr env"
  using assms
  by (cases env; simp add: fields_filter_members bindEnvelope_members string_field_def envelopeMarshal_def
        del: envelopeMembers.simps)+

lemma fieldEnvelopes_roundtrip:
  "smap_list fieldEnvelopeUnmarshal (map fieldEnvelopeMarshal (EFields env)) = Inr (EFields env)"
  "fieldEnvelopeUnmarshal (fieldEnvelopeMarshal fe) = Inr fe"
proof (induction env and fe)
  case (SchemaEnvelope t l d n c h f s fs)
  then show ?case by (simp add: smap_list_Inr list_all2_conv_all_nth)
next
  case (FieldEnvelope name env)
  then show ?case by (rule fieldEnvelope_roundtrip_step)
qed

lemma envelope_roundtrip: "envelopeUnmarshal (envelopeMarshal env) = Inr env"
  by (rule fieldEnvelope_roundtrip_step(2)) (rule fieldEnvelopes_roundtrip)

text \<open>The typed layer: what \<open>envelopeFromComponent\<close> produces is read back exactly.\<close>

lemma component_envelope_roundtrip:
  "envelopeFromComponent c = Inr env \<Longrightarrow> map_option Inr c = Some (componentFromEnvelope env)"
  "envelopesFromFields fs = Inr es \<Longrightarrow> fieldsFromEnvelopes es = Inr fs"
proof (induction c and fs arbitrary: env and es
       rule: envelopeFromComponent_envelopesFromFields.induct)
  case (11 name c fs)
  then show ?case by (cases c) (auto split: sum.splits)
qed (auto simp: baseEnvelope_def kind_defs)

lemma validateFields_None:
  "validateFields i seen fs = None \<longleftrightarrow>
     distinct (map Name fs) \<and> set (map Name fs) \<inter> set seen = {} \<and>
     (\<forall>f \<in> set fs. Name f \<noteq> [] \<and> (\<exists>c. Component f = Some c \<and> Kind c \<noteq> KindRecord))"
proof (induction i seen fs rule: validateFields.induct)
  case (2 i seen name c fs)
  show ?case
  proof (cases c)
    case (Some d)
    with 2 show ?thesis by (cases d) (auto simp: kind_defs)
  qed auto
qed auto

text \<open>What a validated schema is: a record with at least one field, distinct names that are
  not empty, and a scalar component in every field.\<close>

lemma Validate_None:
  "Validate (Some r) = None \<longleftrightarrow>
     Fields r \<noteq> [] \<and> distinct (map Name (Fields r)) \<and>
     (\<forall>f \<in> set (Fields r). Name f \<noteq> [] \<and> (\<exists>c. Component f = Some c \<and> Kind c \<noteq> KindRecord))"
  by (simp add: validateFields_None)

lemma envelopeFromComponent_scalar:
  "Kind c \<noteq> KindRecord \<Longrightarrow> \<exists>env. envelopeFromComponent (Some c) = Inr env"
  by (cases c) auto

lemma envelopesFromFields_total:
  "\<forall>f \<in> set fs. \<exists>c. Component f = Some c \<and> Kind c \<noteq> KindRecord \<Longrightarrow>
   \<exists>es. envelopesFromFields fs = Inr es"
proof (induction fs)
  case (Cons f fs)
  then obtain name c es where "f = Field name (Some c)" "Kind c \<noteq> KindRecord"
      "envelopesFromFields fs = Inr es"
    by (cases f) auto
  then show ?case using envelopeFromComponent_scalar [of c] by auto
qed simp

lemma MarshalSchema_valid:
  assumes "Validate (Some r) = None"
  obtains doc where "MarshalSchema (Some r) = Inr doc" "UnmarshalSchema doc = Inr r"
proof -
  obtain cf fs where r: "r = DataRecord cf fs" by (cases r)
  with assms obtain es where es: "envelopesFromFields fs = Inr es"
    using envelopesFromFields_total [of fs] by (auto simp: validateFields_None split: if_splits)
  define env where "env = baseEnvelope KindRecord cf [] [] [] [] es"
  have env: "envelopeFromComponent (Some (RecordPtr (Some r))) = Inr env"
    by (simp add: r es env_def)
  then have "componentFromEnvelope env = Inr (RecordPtr (Some r))"
    using component_envelope_roundtrip(1) by fastforce
  then have "UnmarshalSchema (envelopeMarshal env) = Inr r"
    using assms by (simp add: UnmarshalSchema_def envelope_roundtrip env_def baseEnvelope_def)
  moreover have "MarshalSchema (Some r) = Inr (envelopeMarshal env)"
    using assms env by (simp add: MarshalSchema_def)
  ultimately show thesis using that by blast
qed

lemma UnmarshalSchema_valid: "UnmarshalSchema doc = Inr r \<Longrightarrow> Validate (Some r) = None"
proof -
  assume "UnmarshalSchema doc = Inr r"
  then obtain c where
    "(case c of
        RecordPtr (Some rec) \<Rightarrow> (case Validate (Some rec) of Some e \<Rightarrow> Inl e | None \<Rightarrow> Inr rec)
      | _ \<Rightarrow> Inl (NotARecord (Kind c))) = (Inr r :: swe_error + DataRecord)"
    by (auto simp: UnmarshalSchema_def simp del: Validate.simps split: if_splits)
  then show ?thesis
    by (cases c) (auto simp del: Validate.simps split: option.splits)
qed

lemma FieldByName_valid:
  assumes "Validate (Some r) = None" "f \<in> set (Fields r)"
  shows "FieldByName (Some r) (Name f) = Some f"
proof -
  have "find (\<lambda>g. Name g = Name f) fs = Some f" if "f \<in> set fs" "distinct (map Name fs)" for fs
    using that by (induction fs) auto
  with assms show ?thesis by (auto simp: Validate_None simp del: Validate.simps)
qed

end
