(* ===== verification/Strconv.thy ===== *)
theory Strconv
  imports Prelude "HOL-Library.Char_ord"
begin

text \<open>
  The parts of Go's \<open>strconv\<close> the program uses on integers and booleans:
  \<open>FormatInt(i, 10)\<close>, \<open>ParseUint(s, 10, bits)\<close>, \<open>ParseInt(s, 10, bits)\<close>, \<open>Atoi\<close>,
  \<open>FormatBool\<close> and \<open>ParseBool\<close>, with the round trips the codecs rest on. A parse error
  (syntax or range) is \<open>None\<close>.
\<close>

section \<open>Decimal numerals\<close>

definition digit_char :: "nat \<Rightarrow> char" where
  "digit_char d = char_of (48 + d)"

definition is_digit :: "char \<Rightarrow> bool" where
  "is_digit c \<longleftrightarrow> 48 \<le> (of_char c :: nat) \<and> (of_char c :: nat) \<le> 57"

definition digit_val :: "char \<Rightarrow> nat" where
  "digit_val c = of_char c - 48"

function dec_digits :: "int \<Rightarrow> string" where
  "dec_digits n = (if n < 10 then [digit_char (nat n)]
                   else dec_digits (n div 10) @ [digit_char (nat (n mod 10))])"
  by pat_completeness auto
termination
  by (relation "measure nat") auto

declare dec_digits.simps [simp del]

definition format_int :: "int \<Rightarrow> string" where
  "format_int i = (if i < 0 then CHR ''-'' # dec_digits (- i) else dec_digits i)"

definition dec_value :: "string \<Rightarrow> int" where
  "dec_value s = foldl (\<lambda>n c. 10 * n + int (digit_val c)) 0 s"

definition parse_uint :: "nat \<Rightarrow> string \<Rightarrow> int option" where
  "parse_uint bits s =
     (if s \<noteq> [] \<and> list_all is_digit s \<and> dec_value s < 2 ^ bits then Some (dec_value s) else None)"

definition parse_int :: "nat \<Rightarrow> string \<Rightarrow> int option" where
  "parse_int bits s =
     (case s of
        [] \<Rightarrow> None
      | c # cs \<Rightarrow>
          let neg = (c = CHR ''-''); body = (if c = CHR ''-'' \<or> c = CHR ''+'' then cs else s)
          in case parse_uint bits body of
               None \<Rightarrow> None
             | Some n \<Rightarrow>
                 if \<not> neg \<and> n \<ge> 2 ^ (bits - 1) then None
                 else if neg \<and> n > 2 ^ (bits - 1) then None
                 else Some (if neg then - n else n))"

definition go_atoi :: "string \<Rightarrow> int option" where
  "go_atoi s = parse_int 64 s"

lemma of_char_digit_char: "d < 10 \<Longrightarrow> (of_char (digit_char d) :: nat) = 48 + d"
  by (simp add: digit_char_def)

lemma is_digit_digit_char [simp]: "d < 10 \<Longrightarrow> is_digit (digit_char d)"
  by (simp add: is_digit_def of_char_digit_char)

lemma digit_val_digit_char [simp]: "d < 10 \<Longrightarrow> digit_val (digit_char d) = d"
  by (simp add: digit_val_def of_char_digit_char)

lemma dec_digits_nonempty [simp]: "dec_digits n \<noteq> []"
  by (subst dec_digits.simps) simp

lemma dec_digits_all_digits: "list_all is_digit (dec_digits n)"
proof (induction n rule: dec_digits.induct)
  case (1 n)
  then show ?case by (subst dec_digits.simps) simp
qed

lemma dec_value_snoc [simp]: "dec_value (s @ [c]) = 10 * dec_value s + int (digit_val c)"
  by (simp add: dec_value_def)

lemma dec_value_single [simp]: "dec_value [c] = int (digit_val c)"
  by (simp add: dec_value_def)

lemma dec_value_nonneg: "0 \<le> dec_value s"
  by (induction s rule: rev_induct) (simp_all add: dec_value_def)

lemma dec_value_digits: "0 \<le> n \<Longrightarrow> dec_value (dec_digits n) = n"
proof (induction n rule: dec_digits.induct)
  case (1 n)
  then show ?case by (subst dec_digits.simps) auto
qed

lemma digit_not_sign: "is_digit c \<Longrightarrow> c \<noteq> CHR ''-'' \<and> c \<noteq> CHR ''+''"
  by (auto simp: is_digit_def)

lemma dec_digits_hd: "\<exists>c cs. dec_digits n = c # cs \<and> is_digit c"
  using dec_digits_all_digits [of n] by (cases "dec_digits n") auto

lemma parse_uint_digits: "0 \<le> n \<Longrightarrow> n < 2 ^ bits \<Longrightarrow> parse_uint bits (dec_digits n) = Some n"
  by (simp add: parse_uint_def dec_value_digits dec_digits_all_digits)

theorem parse_int_format_int:
  assumes "- (2 ^ 63) \<le> i" "i < 2 ^ 63"
  shows "parse_int 64 (format_int i) = Some i"
proof (cases "i < 0")
  case True
  with assms have "parse_uint 64 (dec_digits (- i)) = Some (- i)"
    by (intro parse_uint_digits) auto
  with True assms show ?thesis
    by (simp add: parse_int_def format_int_def)
next
  case False
  with assms have "parse_uint 64 (dec_digits i) = Some i"
    by (intro parse_uint_digits) auto
  moreover obtain c cs where "dec_digits i = c # cs" "is_digit c"
    using dec_digits_hd by blast
  ultimately show ?thesis
    using False assms digit_not_sign [of c] by (simp add: parse_int_def format_int_def)
qed

lemma parse_int_range:
  assumes "parse_int 64 s = Some i"
  shows "- (2 ^ 63) \<le> i \<and> i < 2 ^ 63"
  using assms dec_value_nonneg
  by (auto simp: parse_int_def parse_uint_def Let_def not_le not_less
           intro: order_trans [of _ 0] le_less_trans [of _ 0]
           split: list.splits if_splits option.splits)

lemma format_int_nonempty [simp]: "format_int i \<noteq> []"
  by (simp add: format_int_def)

lemma format_int_chars: "c \<in> set (format_int i) \<Longrightarrow> is_digit c \<or> c = CHR ''-''"
  using dec_digits_all_digits by (auto simp: format_int_def list_all_iff split: if_splits)

lemma is_digit_printable: "is_digit c \<Longrightarrow> printable_ascii c"
  by (simp add: is_digit_def printable_ascii_def)

lemma format_int_printable: "list_all printable_ascii (format_int i)"
  using format_int_chars is_digit_printable
  by (auto simp: list_all_iff printable_ascii_def dest!: format_int_chars)

section \<open>Booleans\<close>

definition format_bool :: "bool \<Rightarrow> string" where
  "format_bool b = (if b then ''true'' else ''false'')"

definition parse_bool :: "string \<Rightarrow> bool option" where
  "parse_bool s =
     (if s \<in> set [''1'', ''t'', ''T'', ''true'', ''TRUE'', ''True''] then Some True
      else if s \<in> set [''0'', ''f'', ''F'', ''false'', ''FALSE'', ''False''] then Some False
      else None)"

lemma parse_bool_format_bool [simp]: "parse_bool (format_bool b) = Some b"
  by (simp add: parse_bool_def format_bool_def)

lemma format_bool_nonempty [simp]: "format_bool b \<noteq> []"
  by (simp add: format_bool_def)

end
