(* ===== verification/Float64.thy ===== *)
theory Float64
  imports Prelude "HOL-Library.Word"
begin

unbundle bit_operations_syntax

text \<open>
  Go's \<open>float64\<close> as its IEEE 754 bit pattern (what \<open>math.Float64bits\<close> reads), with the
  operations the program uses: \<open>math.IsNaN\<close>, \<open>math.IsInf(v, 0)\<close>, \<open>==\<close>, \<open><\<close>, the
  conversions from integers (round to nearest, ties to even), from \<open>float32\<close>, and to
  \<open>int64\<close>. Ordering reads the pattern as a sign and a magnitude: for values that are not
  NaN the IEEE order is the order of the signed magnitudes, with both zeros equal.
\<close>

type_synonym f64 = "64 word"
type_synonym f32 = "32 word"

definition f64_mag :: "f64 \<Rightarrow> int" where
  "f64_mag x = uint (take_bit 63 x)"

definition f64_neg :: "f64 \<Rightarrow> bool" where
  "f64_neg x \<longleftrightarrow> bit x 63"

definition f64_inf_mag :: int where
  "f64_inf_mag = 0x7FF0000000000000"

definition f64_is_nan :: "f64 \<Rightarrow> bool" where
  "f64_is_nan x \<longleftrightarrow> f64_mag x > f64_inf_mag"

definition f64_is_inf :: "f64 \<Rightarrow> bool" where
  "f64_is_inf x \<longleftrightarrow> f64_mag x = f64_inf_mag"

definition f64_finite :: "f64 \<Rightarrow> bool" where
  "f64_finite x \<longleftrightarrow> \<not> f64_is_nan x \<and> \<not> f64_is_inf x"

definition f64_key :: "f64 \<Rightarrow> int" where
  "f64_key x = (if f64_neg x then - f64_mag x else f64_mag x)"

definition f64_lt :: "f64 \<Rightarrow> f64 \<Rightarrow> bool" where
  "f64_lt x y \<longleftrightarrow> \<not> f64_is_nan x \<and> \<not> f64_is_nan y \<and> f64_key x < f64_key y"

definition f64_eq :: "f64 \<Rightarrow> f64 \<Rightarrow> bool" where
  "f64_eq x y \<longleftrightarrow> \<not> f64_is_nan x \<and> \<not> f64_is_nan y \<and> f64_key x = f64_key y"

lemma f64_lt_nan [simp]: "f64_is_nan x \<Longrightarrow> \<not> f64_lt x y" "f64_is_nan y \<Longrightarrow> \<not> f64_lt x y"
  by (simp_all add: f64_lt_def)

lemma f64_lt_irrefl [simp]: "\<not> f64_lt x x"
  by (simp add: f64_lt_def)

lemma f64_lt_trans: "f64_lt x y \<Longrightarrow> f64_lt y z \<Longrightarrow> f64_lt x z"
  by (simp add: f64_lt_def)

lemma f64_not_lt: "\<not> f64_is_nan x \<Longrightarrow> \<not> f64_is_nan y \<Longrightarrow> \<not> f64_lt x y \<longleftrightarrow> f64_key y \<le> f64_key x"
  by (auto simp: f64_lt_def)

section \<open>Conversions\<close>

text \<open>\<open>bit_len n\<close> is the number of binary digits of \<open>n\<close>.\<close>

function bit_len :: "int \<Rightarrow> nat" where
  "bit_len n = (if n \<le> 0 then 0 else Suc (bit_len (n div 2)))"
  by pat_completeness auto
termination
  by (relation "measure nat") auto

declare bit_len.simps [simp del]

text \<open>The value of a positive integer below \<open>2 ^ 1023\<close>: the leading bit's position gives
  the exponent; a mantissa longer than 53 bits is rounded to nearest, ties to even, and a
  carry out of the mantissa moves into the exponent by itself.\<close>

definition f64_round_mag :: "int \<Rightarrow> int" where
  "f64_round_mag n =
     (if n = 0 then 0
      else let e = bit_len n - 1 in
        if e \<le> 52 then (int e + 1023) * 2 ^ 52 + (n * 2 ^ (52 - e) - 2 ^ 52)
        else let s = e - 52; q = n div 2 ^ s; r = n mod 2 ^ s; half = 2 ^ (s - 1);
                 q' = (if half < r \<or> (r = half \<and> odd q) then q + 1 else q)
             in (int e + 1023) * 2 ^ 52 + (q' - 2 ^ 52))"

definition f64_of_int :: "int \<Rightarrow> f64" where
  "f64_of_int i =
     (if i < 0 then word_of_int (2 ^ 63 + f64_round_mag (- i))
      else word_of_int (f64_round_mag i))"

text \<open>Widening a \<open>float32\<close> is exact; a NaN stays a NaN (made quiet).\<close>

definition f64_of_f32 :: "f32 \<Rightarrow> f64" where
  "f64_of_f32 x =
     (let e = uint (take_bit 8 (drop_bit 23 x)); m = uint (take_bit 23 x);
          mag = (if e = 255 then
                   (if m = 0 then f64_inf_mag
                    else f64_inf_mag + (if m < 2 ^ 22 then m + 2 ^ 22 else m) * 2 ^ 29)
                 else if e = 0 then
                   (if m = 0 then 0
                    else let k = bit_len m - 1
                         in (int k + 874) * 2 ^ 52 + (m * 2 ^ (52 - k) - 2 ^ 52))
                 else (e + 896) * 2 ^ 52 + m * 2 ^ 29)
      in if bit x 31 then word_of_int (2 ^ 63 + mag) else word_of_int mag)"

text \<open>\<open>int64(f)\<close> truncates towards zero. Out of range (and for NaN) the Go specification
  leaves the value to the implementation; this is amd64's, the least \<open>int64\<close>.\<close>

definition f64_trunc :: "f64 \<Rightarrow> int" where
  "f64_trunc x =
     (let e = nat (f64_mag x div 2 ^ 52); m = f64_mag x mod 2 ^ 52 + 2 ^ 52;
          v = (if e < 1023 then 0
               else if e - 1023 \<le> 52 then m div 2 ^ (52 - (e - 1023))
               else m * 2 ^ (e - 1023 - 52))
      in if f64_neg x then - v else v)"

definition f64_to_int64 :: "f64 \<Rightarrow> int" where
  "f64_to_int64 x =
     (if \<not> f64_finite x then - (2 ^ 63)
      else let t = f64_trunc x in if - (2 ^ 63) \<le> t \<and> t < 2 ^ 63 then t else - (2 ^ 63))"

lemma f64_to_int64_range: "- (2 ^ 63) \<le> f64_to_int64 x \<and> f64_to_int64 x < 2 ^ 63"
  by (simp add: f64_to_int64_def Let_def)

end
