(* ===== verification/SweValues.thy ===== *)
theory SweValues
  imports SweComponent Strconv Float64
begin

text \<open>
  \<open>pkg/swecommon/values.go\<close>: a row of typed values and their coercion to the canonical Go
  type of the field's component. Go's \<open>any\<close> is a datatype with one constructor per dynamic
  type the code distinguishes, integers at their width. The text conversions of
  \<open>float64\<close> and \<open>time.Time\<close> (\<open>strconv.ParseFloat\<close>, \<open>strconv.FormatFloat\<close>,
  \<open>time.Parse\<close>, \<open>Time.Format\<close>) are parameters, the fields of the record \<open>stdlib\<close>;
  \<open>stdlib_laws\<close> states what their documentation says of them.
\<close>

section \<open>Dynamic values and the parameters\<close>

datatype any =
    ANil
  | AF64 f64
  | AF32 f32
  | AInt "64 word"
  | AInt8 "8 word"
  | AInt16 "16 word"
  | AInt32 "32 word"
  | AInt64 "64 word"
  | AUint "64 word"
  | AUint8 "8 word"
  | AUint16 "16 word"
  | AUint32 "32 word"
  | AUint64 "64 word"
  | AStr string
  | ABool bool
  | ATime int
  | AOther json

type_synonym Values = "string \<rightharpoonup> any"

record stdlib =
  ParseFloat :: "string \<Rightarrow> f64 option"
  FormatFloat :: "f64 \<Rightarrow> string"
  ParseTimeNano :: "string \<Rightarrow> int option"
  ParseTime :: "string \<Rightarrow> int option"
  FormatTime :: "int \<Rightarrow> string"

text \<open>\<open>FormatFloat(f, 'f', -1, 64)\<close> writes the shortest decimal that \<open>ParseFloat\<close> reads back
  as \<open>f\<close>, in digits, signs and a point for a finite value; formatting an instant gives text
  that \<open>time.Parse\<close> accepts.\<close>

definition decimal_char :: "char \<Rightarrow> bool" where
  "decimal_char c \<longleftrightarrow> is_digit c \<or> c = CHR ''-'' \<or> c = CHR ''.''"

definition stdlib_laws :: "stdlib \<Rightarrow> bool" where
  "stdlib_laws S \<longleftrightarrow>
     (\<forall>f. f64_finite f \<longrightarrow>
        ParseFloat S (FormatFloat S f) = Some f \<and>
        FormatFloat S f \<noteq> [] \<and> list_all decimal_char (FormatFloat S f)) \<and>
     (\<forall>t. ParseTimeNano S (FormatTime S t) \<noteq> None)"

datatype val_error =
    ParseFloatError string
  | NotANumber
  | NotExact
  | ParseIntError string
  | NotAnInteger
  | ParseTimeError string
  | NotATime
  | ParseBoolError string
  | NotABool
  | NotAString
  | NestedValue

section \<open>Coercions\<close>

fun coerceFloat :: "stdlib \<Rightarrow> any \<Rightarrow> val_error + f64" where
  "coerceFloat S (AF64 n) = Inr n"
| "coerceFloat S (AF32 n) = Inr (f64_of_f32 n)"
| "coerceFloat S (AInt n) = Inr (f64_of_int (sint n))"
| "coerceFloat S (AInt8 n) = Inr (f64_of_int (sint n))"
| "coerceFloat S (AInt16 n) = Inr (f64_of_int (sint n))"
| "coerceFloat S (AInt32 n) = Inr (f64_of_int (sint n))"
| "coerceFloat S (AInt64 n) = Inr (f64_of_int (sint n))"
| "coerceFloat S (AUint n) = Inr (f64_of_int (uint n))"
| "coerceFloat S (AUint8 n) = Inr (f64_of_int (uint n))"
| "coerceFloat S (AUint16 n) = Inr (f64_of_int (uint n))"
| "coerceFloat S (AUint32 n) = Inr (f64_of_int (uint n))"
| "coerceFloat S (AUint64 n) = Inr (f64_of_int (uint n))"
| "coerceFloat S (AStr s) =
     (case ParseFloat S s of None \<Rightarrow> Inl (ParseFloatError s) | Some f \<Rightarrow> Inr f)"
| "coerceFloat S v = Inl NotANumber"

text \<open>A conversion to \<open>int64\<close> keeps the low 64 bits: signed types extend their sign, unsigned
  ones their zeros. A \<open>float32\<close> is checked on its exact \<open>float64\<close> value: where the
  truncation is exact both widths agree that it is.\<close>

definition floatToInt :: "f64 \<Rightarrow> val_error + 64 word" where
  "floatToInt n = (let i = f64_to_int64 n in
     if f64_eq (f64_of_int i) n then Inr (word_of_int i) else Inl NotExact)"

fun coerceInt :: "any \<Rightarrow> val_error + 64 word" where
  "coerceInt (AInt64 n) = Inr n"
| "coerceInt (AInt n) = Inr n"
| "coerceInt (AInt8 n) = Inr (scast n)"
| "coerceInt (AInt16 n) = Inr (scast n)"
| "coerceInt (AInt32 n) = Inr (scast n)"
| "coerceInt (AUint n) = Inr n"
| "coerceInt (AUint8 n) = Inr (ucast n)"
| "coerceInt (AUint16 n) = Inr (ucast n)"
| "coerceInt (AUint32 n) = Inr (ucast n)"
| "coerceInt (AUint64 n) = Inr n"
| "coerceInt (AF32 n) = floatToInt (f64_of_f32 n)"
| "coerceInt (AF64 n) = floatToInt n"
| "coerceInt (AStr s) =
     (case parse_int 64 s of None \<Rightarrow> Inl (ParseIntError s) | Some i \<Rightarrow> Inr (word_of_int i))"
| "coerceInt v = Inl NotAnInteger"

fun coerceTime :: "stdlib \<Rightarrow> any \<Rightarrow> val_error + string" where
  "coerceTime S (ATime t) = Inr (FormatTime S t)"
| "coerceTime S (AStr s) =
     (if ParseTimeNano S s = None \<and> ParseTime S s = None then Inl (ParseTimeError s) else Inr s)"
| "coerceTime S v = Inl NotATime"

fun coerceBool :: "any \<Rightarrow> val_error + bool" where
  "coerceBool (ABool b) = Inr b"
| "coerceBool (AStr s) =
     (case parse_bool s of None \<Rightarrow> Inl (ParseBoolError s) | Some b \<Rightarrow> Inr b)"
| "coerceBool v = Inl NotABool"

fun coerceString :: "any \<Rightarrow> val_error + string" where
  "coerceString (AStr s) = Inr s"
| "coerceString v = Inl NotAString"

text \<open>\<open>normalizeValue\<close> returns the canonical value and whether it is nil.\<close>

definition normalizeValue :: "stdlib \<Rightarrow> DataComponent \<Rightarrow> any \<Rightarrow> val_error + (any \<times> bool)" where
  "normalizeValue S c v =
     (if v = ANil then Inr (ANil, True)
      else case c of
        Quantity _ _ _ \<Rightarrow> sbind (coerceFloat S v) (\<lambda>f. Inr (AF64 f, False))
      | Count _ \<Rightarrow> sbind (coerceInt v) (\<lambda>i. Inr (AInt64 i, False))
      | Time _ _ _ \<Rightarrow> sbind (coerceTime S v) (\<lambda>s. Inr (AStr s, False))
      | Boolean _ \<Rightarrow> sbind (coerceBool v) (\<lambda>b. Inr (ABool b, False))
      | Text _ \<Rightarrow> sbind (coerceString v) (\<lambda>s. Inr (AStr s, False))
      | Category _ _ \<Rightarrow> sbind (coerceString v) (\<lambda>s. Inr (AStr s, False))
      | RecordPtr _ \<Rightarrow> Inl NestedValue)"

definition fieldValue :: "Values \<Rightarrow> string \<Rightarrow> any" where
  "fieldValue row name = (case row name of None \<Rightarrow> ANil | Some v \<Rightarrow> v)"

text \<open>\<open>nilValueOf\<close> (json.go): the declared stand-in token, empty when there is none.\<close>

definition nilValueOf :: "DataComponent \<Rightarrow> string" where
  "nilValueOf c = (case common c of None \<Rightarrow> [] | Some cf \<Rightarrow> NilValue cf)"

definition matchesNilToken :: "stdlib \<Rightarrow> DataComponent \<Rightarrow> any \<Rightarrow> bool" where
  "matchesNilToken S c v =
     (let nilStr = nilValueOf c in
      if nilStr = [] \<or> v = ANil then False
      else case v of
        AStr s \<Rightarrow> s = nilStr
      | _ \<Rightarrow>
         (case c of
            Quantity _ _ _ \<Rightarrow>
              (case coerceFloat S v of Inl _ \<Rightarrow> False | Inr f \<Rightarrow> FormatFloat S f = nilStr)
          | Count _ \<Rightarrow>
              (case coerceInt v of Inl _ \<Rightarrow> False | Inr i \<Rightarrow> format_int (sint i) = nilStr)
          | Time _ _ _ \<Rightarrow>
              (case coerceTime S v of Inl _ \<Rightarrow> False | Inr s \<Rightarrow> s = nilStr)
          | Boolean _ \<Rightarrow>
              (case coerceBool v of Inl _ \<Rightarrow> False | Inr b \<Rightarrow> format_bool b = nilStr)
          | _ \<Rightarrow> False))"

text \<open>The prologue the three encoders share: a value that matches the nil token is treated as
  nil, and the rest is normalised.\<close>

definition emitValue :: "stdlib \<Rightarrow> DataComponent \<Rightarrow> any \<Rightarrow> val_error + (any \<times> bool)" where
  "emitValue S c v = normalizeValue S c (if matchesNilToken S c v then ANil else v)"

section \<open>Canonical values\<close>

definition canonical :: "DataComponent \<Rightarrow> any \<Rightarrow> bool" where
  "canonical c v =
     (case c of
        Quantity _ _ _ \<Rightarrow> (case v of AF64 _ \<Rightarrow> True | _ \<Rightarrow> False)
      | Count _ \<Rightarrow> (case v of AInt64 _ \<Rightarrow> True | _ \<Rightarrow> False)
      | Boolean _ \<Rightarrow> (case v of ABool _ \<Rightarrow> True | _ \<Rightarrow> False)
      | RecordPtr _ \<Rightarrow> False
      | _ \<Rightarrow> (case v of AStr _ \<Rightarrow> True | _ \<Rightarrow> False))"

lemma canonicalE:
  assumes "canonical c v"
  obtains (quantity) cf code href f where "c = Quantity cf code href" "v = AF64 f"
  | (count) cf i where "c = Count cf" "v = AInt64 i"
  | (time) cf href frame s where "c = Time cf href frame" "v = AStr s"
  | (boolean) cf b where "c = Boolean cf" "v = ABool b"
  | (str) cf s where "c = Text cf" "v = AStr s"
  | (category) cf space s where "c = Category cf space" "v = AStr s"
  using assms by (cases c; cases v) (simp_all add: canonical_def)

lemma normalizeValue_nil [simp]: "normalizeValue S c ANil = Inr (ANil, True)"
  by (simp add: normalizeValue_def)

lemma normalizeValue_Inr:
  "normalizeValue S c v = Inr (w, b) \<Longrightarrow>
     (v = ANil \<and> w = ANil \<and> b) \<or> (v \<noteq> ANil \<and> canonical c w \<and> \<not> b)"
  by (cases c) (auto simp: normalizeValue_def canonical_def split: if_splits)

text \<open>Whatever an encoder is given, what it emits is nil or a value of the field's Go type.\<close>

lemma emitValue_Inr:
  "emitValue S c v = Inr (w, b) \<Longrightarrow> (b \<and> w = ANil) \<or> (\<not> b \<and> canonical c w)"
  unfolding emitValue_def by (drule normalizeValue_Inr) auto

text \<open>A time value is canonical text when \<open>time.Parse\<close> accepts it.\<close>

definition time_ok :: "stdlib \<Rightarrow> DataComponent \<Rightarrow> any \<Rightarrow> bool" where
  "time_ok S c v \<longleftrightarrow>
     (case (c, v) of
        (Time _ _ _, AStr s) \<Rightarrow> ParseTimeNano S s \<noteq> None \<or> ParseTime S s \<noteq> None
      | _ \<Rightarrow> True)"

lemma normalizeValue_canonical:
  "canonical c v \<Longrightarrow> time_ok S c v \<Longrightarrow> normalizeValue S c v = Inr (v, False)"
  by (erule canonicalE) (auto simp: normalizeValue_def time_ok_def)

lemma normalizeValue_time_ok:
  "stdlib_laws S \<Longrightarrow> normalizeValue S c v = Inr (w, b) \<Longrightarrow> time_ok S c w"
  by (cases c; cases v)
     (auto simp: normalizeValue_def time_ok_def stdlib_laws_def split: if_splits)

text \<open>Normalising is idempotent.\<close>

lemma normalizeValue_idem:
  assumes "stdlib_laws S" "normalizeValue S c v = Inr (w, b)"
  shows "normalizeValue S c w = Inr (w, b)"
  using normalizeValue_Inr [OF assms(2)] normalizeValue_time_ok [OF assms]
    normalizeValue_canonical [of c w S] by auto

section \<open>Exactness of the integer coercion\<close>

lemma coerceInt_float_exact:
  assumes "coerceInt (AF64 f) = Inr i"
  shows "f64_eq (f64_of_int (sint i)) f"
proof -
  have "sint (word_of_int (f64_to_int64 f) :: 64 word) = f64_to_int64 f"
    using f64_to_int64_range [of f] by (simp add: signed_take_bit_int_eq_self sint_sbintrunc')
  with assms show ?thesis
    by (auto simp: floatToInt_def Let_def split: if_splits)
qed

lemma sint_high_bit:
  fixes n :: "64 word"
  assumes "2 ^ 63 \<le> uint n"
  shows "sint n = uint n - 2 ^ 64" "sint n < 0"
proof -
  have b: "uint n < 2 ^ 64" using uint_lt2p [of n] by simp
  then have "uint n div 2 ^ 63 = 1" using assms by simp
  then have "bit (uint n) 63" by (simp add: bit_iff_odd)
  with b show "sint n = uint n - 2 ^ 64"
    by (simp add: sint_uint signed_take_bit_eq_take_bit_minus take_bit_int_eq_self bit_uint_iff)
  with b show "sint n < 0" by simp
qed

text \<open>An instance of the parameters that keeps the laws, for evaluating the model: a float is
  written as the decimal numeral of its bit pattern, an instant as the numeral of its
  nanoseconds, and any text is accepted as a time.\<close>

definition bitsStdlib :: stdlib where
  "bitsStdlib =
     \<lparr>ParseFloat = (\<lambda>s. map_option word_of_int (parse_uint 64 s)),
      FormatFloat = (\<lambda>f. dec_digits (uint f)),
      ParseTimeNano = (\<lambda>s. Some 0), ParseTime = (\<lambda>s. Some 0),
      FormatTime = format_int\<rparr>"

lemma bitsStdlib_laws: "stdlib_laws bitsStdlib"
proof -
  have "parse_uint 64 (dec_digits (uint f)) = Some (uint f)" for f :: f64
    using uint_lt2p [of f] by (intro parse_uint_digits) simp_all
  moreover have "list_all decimal_char (dec_digits n)" for n
    using dec_digits_all_digits [of n] by (auto simp: list_all_iff decimal_char_def)
  ultimately show ?thesis by (simp add: stdlib_laws_def bitsStdlib_def)
qed

end
