(* ===== verification/SweBinary.thy ===== *)
theory SweBinary
  imports SweValues
begin

unbundle bit_operations_syntax

text \<open>
  \<open>pkg/swecommon/binary.go\<close>: the packed-primitives binary encoding. A stream is a byte
  list. Go's interface \<open>binary.ByteOrder\<close> is the record \<open>byte_order\<close>, its contract the
  locale \<open>byte_order_laws\<close>; the codec's round trip is proved once inside the locale and
  interpreted at the order that \<open>BinaryEncoding\<close> selects. The writer wraps an
  \<open>io.Writer\<close>, which is a parameter: a function that says, from what was written so far
  and the next chunk, whether the write fails.
\<close>

section \<open>Byte orders\<close>

type_synonym byte = "8 word"

datatype BinaryByteOrder = BigEndian | LittleEndian

record BinaryEncoding =
  ByteOrder :: BinaryByteOrder

definition DefaultBinaryEncoding :: BinaryEncoding where
  "DefaultBinaryEncoding = \<lparr>ByteOrder = BigEndian\<rparr>"

record byte_order =
  PutUint32 :: "32 word \<Rightarrow> byte list"
  Uint32 :: "byte list \<Rightarrow> 32 word"
  PutUint64 :: "64 word \<Rightarrow> byte list"
  Uint64 :: "byte list \<Rightarrow> 64 word"

text \<open>\<open>putBE n v\<close> are the \<open>n\<close> low bytes of \<open>v\<close>, most significant first; \<open>getBE\<close> shifts
  the bytes back in.\<close>

fun putBE :: "nat \<Rightarrow> 'a::len word \<Rightarrow> byte list" where
  "putBE 0 v = []"
| "putBE (Suc n) v = ucast (drop_bit (8 * n) v) # putBE n v"

fun getBE :: "byte list \<Rightarrow> 'a::len word" where
  "getBE [] = 0"
| "getBE (b # bs) = push_bit (8 * length bs) (ucast b) OR getBE bs"

definition bigEndian :: byte_order where
  "bigEndian = \<lparr>PutUint32 = putBE 4, Uint32 = getBE, PutUint64 = putBE 8, Uint64 = getBE\<rparr>"

definition littleEndian :: byte_order where
  "littleEndian =
     \<lparr>PutUint32 = (\<lambda>v. rev (putBE 4 v)), Uint32 = (\<lambda>bs. getBE (rev bs)),
      PutUint64 = (\<lambda>v. rev (putBE 8 v)), Uint64 = (\<lambda>bs. getBE (rev bs))\<rparr>"

definition order :: "BinaryByteOrder \<Rightarrow> byte_order" where
  "order b = (if b = LittleEndian then littleEndian else bigEndian)"

text \<open>A Go string as its bytes and back.\<close>

definition bytes_of :: "string \<Rightarrow> byte list" where
  "bytes_of s = map (\<lambda>c. word_of_nat (of_char c)) s"

definition string_of :: "byte list \<Rightarrow> string" where
  "string_of bs = map (\<lambda>b. char_of (unat b)) bs"

section \<open>The writer\<close>

datatype io_error = EOF | UnexpectedEOF | IOError string

type_synonym io_writer = "byte list \<Rightarrow> byte list \<Rightarrow> io_error option"

record binaryWriter =
  out :: "byte list"
  err :: "io_error option"

definition writeBytes :: "io_writer \<Rightarrow> binaryWriter \<Rightarrow> byte list \<Rightarrow> binaryWriter" where
  "writeBytes W bw p =
     (if err bw \<noteq> None then bw
      else case W (out bw) p of
             None \<Rightarrow> bw\<lparr>out := out bw @ p\<rparr>
           | Some e \<Rightarrow> bw\<lparr>err := Some e\<rparr>)"

definition writeUint32 :: "io_writer \<Rightarrow> byte_order \<Rightarrow> binaryWriter \<Rightarrow> 32 word \<Rightarrow> binaryWriter" where
  "writeUint32 W ord bw v = (if err bw \<noteq> None then bw else writeBytes W bw (PutUint32 ord v))"

definition writeUint64 :: "io_writer \<Rightarrow> byte_order \<Rightarrow> binaryWriter \<Rightarrow> 64 word \<Rightarrow> binaryWriter" where
  "writeUint64 W ord bw v = (if err bw \<noteq> None then bw else writeBytes W bw (PutUint64 ord v))"

section \<open>Encoding\<close>

datatype field_error =
    FieldValue string val_error
  | FieldTooLong string nat
  | FieldPanic string
  | FieldIO string io_error
  | RowIO io_error

datatype bin_error =
    BinSchema swe_error
  | BinRow nat field_error
  | BinBitmap io_error

text \<open>The emitted value of one field of a row. A nil component has no kind to dispatch on:
  Go panics there unless the value is nil; \<open>Validate\<close> excludes it.\<close>

definition emitField :: "stdlib \<Rightarrow> Values \<Rightarrow> Field \<Rightarrow> field_error + (any \<times> bool)" where
  "emitField S row f =
     (case Component f of
        None \<Rightarrow> if fieldValue row (Name f) = ANil then Inr (ANil, True) else Inl (FieldPanic (Name f))
      | Some c \<Rightarrow>
          (case emitValue S c (fieldValue row (Name f)) of
             Inl e \<Rightarrow> Inl (FieldValue (Name f) e)
           | Inr p \<Rightarrow> Inr p))"

definition setNilBit :: "byte list \<Rightarrow> nat \<Rightarrow> byte list" where
  "setNilBit bm i = bm[i div 8 := (bm ! (i div 8)) OR push_bit (7 - i mod 8) 1]"

definition nilBit :: "byte list \<Rightarrow> nat \<Rightarrow> bool" where
  "nilBit bm i \<longleftrightarrow> (bm ! (i div 8)) AND push_bit (7 - i mod 8) 1 \<noteq> 0"

text \<open>The first loop of \<open>binaryWriteRow\<close>: field \<open>i\<close> marks its bit or stores its value.\<close>

fun scanFields ::
  "stdlib \<Rightarrow> Values \<Rightarrow> nat \<Rightarrow> Field list \<Rightarrow> byte list \<Rightarrow> any list \<Rightarrow>
   field_error + (byte list \<times> any list)"
where
  "scanFields S row i [] bm canon = Inr (bm, canon)"
| "scanFields S row i (f # fs) bm canon =
     (case emitField S row f of
        Inl e \<Rightarrow> Inl e
      | Inr (w, isNil) \<Rightarrow>
          if isNil then scanFields S row (Suc i) fs (setNilBit bm i) canon
          else scanFields S row (Suc i) fs bm (canon[i := w]))"

text \<open>\<open>binaryWriteField\<close>: the type assertions on the canonical value panic on another
  dynamic type.\<close>

definition binaryWriteField ::
  "io_writer \<Rightarrow> byte_order \<Rightarrow> string \<Rightarrow> binaryWriter \<Rightarrow> DataComponent \<Rightarrow> any \<Rightarrow>
   field_error + binaryWriter"
where
  "binaryWriteField W ord name bw c v =
     (let done = (\<lambda>bw'. case err bw' of Some e \<Rightarrow> Inl (FieldIO name e) | None \<Rightarrow> Inr bw');
          str = (case v of
                   AStr s \<Rightarrow>
                     if length s > 2 ^ 32 - 1 then Inl (FieldTooLong name (length s))
                     else done (writeBytes W (writeUint32 W ord bw (word_of_nat (length s)))
                                  (bytes_of s))
                 | _ \<Rightarrow> Inl (FieldPanic name))
      in case c of
           Quantity _ _ _ \<Rightarrow>
             (case v of AF64 f \<Rightarrow> done (writeUint64 W ord bw f) | _ \<Rightarrow> Inl (FieldPanic name))
         | Count _ \<Rightarrow>
             (case v of AInt64 i \<Rightarrow> done (writeUint64 W ord bw i) | _ \<Rightarrow> Inl (FieldPanic name))
         | Boolean _ \<Rightarrow>
             (case v of ABool b \<Rightarrow> done (writeBytes W bw (if b then [1] else [0]))
                      | _ \<Rightarrow> Inl (FieldPanic name))
         | Time _ _ _ \<Rightarrow> str
         | Text _ \<Rightarrow> str
         | Category _ _ \<Rightarrow> str
         | RecordPtr _ \<Rightarrow> Inl (FieldPanic name))"

fun writeFields ::
  "io_writer \<Rightarrow> byte_order \<Rightarrow> byte list \<Rightarrow> any list \<Rightarrow> nat \<Rightarrow> Field list \<Rightarrow> binaryWriter \<Rightarrow>
   field_error + binaryWriter"
where
  "writeFields W ord bm canon i [] bw = Inr bw"
| "writeFields W ord bm canon i (f # fs) bw =
     (if nilBit bm i then writeFields W ord bm canon (Suc i) fs bw
      else case Component f of
             None \<Rightarrow> Inl (FieldPanic (Name f))
           | Some c \<Rightarrow>
               sbind (binaryWriteField W ord (Name f) bw c (canon ! i))
                 (writeFields W ord bm canon (Suc i) fs))"

definition binaryWriteRow ::
  "io_writer \<Rightarrow> stdlib \<Rightarrow> byte_order \<Rightarrow> Field list \<Rightarrow> Values \<Rightarrow> binaryWriter \<Rightarrow>
   field_error + binaryWriter"
where
  "binaryWriteRow W S ord fs row bw =
     sbind (scanFields S row 0 fs (replicate ((length fs + 7) div 8) 0)
              (replicate (length fs) ANil))
       (\<lambda>(bm, canon).
          let bw1 = writeBytes W bw bm in
          case err bw1 of
            Some e \<Rightarrow> Inl (RowIO e)
          | None \<Rightarrow> writeFields W ord bm canon 0 fs bw1)"

fun binaryWriteRows ::
  "io_writer \<Rightarrow> stdlib \<Rightarrow> byte_order \<Rightarrow> Field list \<Rightarrow> nat \<Rightarrow> Values list \<Rightarrow> binaryWriter \<Rightarrow>
   bin_error + binaryWriter"
where
  "binaryWriteRows W S ord fs ri [] bw = Inr bw"
| "binaryWriteRows W S ord fs ri (row # rows) bw =
     (case binaryWriteRow W S ord fs row bw of
        Inl e \<Rightarrow> Inl (BinRow ri e)
      | Inr bw' \<Rightarrow> binaryWriteRows W S ord fs (Suc ri) rows bw')"

definition EncodeBinary ::
  "io_writer \<Rightarrow> stdlib \<Rightarrow> DataRecord option \<Rightarrow> Values list \<Rightarrow> BinaryEncoding \<Rightarrow>
   bin_error + byte list"
where
  "EncodeBinary W S schema rows enc =
     (case schema of
        None \<Rightarrow> Inl (BinSchema NilRecord)
      | Some r \<Rightarrow>
         (case Validate schema of
            Some e \<Rightarrow> Inl (BinSchema e)
          | None \<Rightarrow>
              sbind (binaryWriteRows W S (order (ByteOrder enc)) (Fields r) 0 rows
                       \<lparr>out = [], err = None\<rparr>)
                (\<lambda>bw. Inr (out bw))))"

text \<open>\<open>MarshalBinaryRows\<close> writes to a \<open>bytes.Buffer\<close>, whose writes never fail.\<close>

definition MarshalBinaryRows ::
  "stdlib \<Rightarrow> DataRecord option \<Rightarrow> Values list \<Rightarrow> BinaryEncoding \<Rightarrow> bin_error + byte list"
where
  "MarshalBinaryRows S schema rows enc = EncodeBinary (\<lambda>_ _. None) S schema rows enc"

section \<open>Decoding\<close>

text \<open>\<open>io.ReadFull\<close>: reading nothing at the end of the stream is \<open>EOF\<close>, reading only a part
  is \<open>UnexpectedEOF\<close>, and an empty buffer is always full.\<close>

definition readFull :: "nat \<Rightarrow> byte list \<Rightarrow> io_error + (byte list \<times> byte list)" where
  "readFull n bs =
     (if n \<le> length bs then Inr (take n bs, drop n bs)
      else if bs = [] then Inl EOF else Inl UnexpectedEOF)"

definition readUint32 :: "byte_order \<Rightarrow> byte list \<Rightarrow> io_error + (32 word \<times> byte list)" where
  "readUint32 ord bs = sbind (readFull 4 bs) (\<lambda>(buf, rest). Inr (Uint32 ord buf, rest))"

definition readUint64 :: "byte_order \<Rightarrow> byte list \<Rightarrow> io_error + (64 word \<times> byte list)" where
  "readUint64 ord bs = sbind (readFull 8 bs) (\<lambda>(buf, rest). Inr (Uint64 ord buf, rest))"

definition readByte :: "byte list \<Rightarrow> io_error + (byte \<times> byte list)" where
  "readByte bs = sbind (readFull 1 bs) (\<lambda>(buf, rest). Inr (buf ! 0, rest))"

definition readString :: "byte_order \<Rightarrow> byte list \<Rightarrow> io_error + (any \<times> byte list)" where
  "readString ord bs =
     sbind (readUint32 ord bs) (\<lambda>(n, rest).
       sbind (readFull (unat n) rest) (\<lambda>(buf, rest'). Inr (AStr (string_of buf), rest')))"

definition binaryReadField ::
  "byte_order \<Rightarrow> string \<Rightarrow> DataComponent \<Rightarrow> byte list \<Rightarrow> field_error + (any \<times> byte list)"
where
  "binaryReadField ord name c bs =
     (let wrap = (\<lambda>r. case r of Inl e \<Rightarrow> Inl (FieldIO name e) | Inr p \<Rightarrow> Inr p) in
      case c of
        Quantity _ _ _ \<Rightarrow> wrap (sbind (readUint64 ord bs) (\<lambda>(u, rest). Inr (AF64 u, rest)))
      | Count _ \<Rightarrow> wrap (sbind (readUint64 ord bs) (\<lambda>(u, rest). Inr (AInt64 u, rest)))
      | Boolean _ \<Rightarrow> wrap (sbind (readByte bs) (\<lambda>(b, rest). Inr (ABool (b \<noteq> 0), rest)))
      | Time _ _ _ \<Rightarrow> wrap (readString ord bs)
      | Text _ \<Rightarrow> wrap (readString ord bs)
      | Category _ _ \<Rightarrow> wrap (readString ord bs)
      | RecordPtr _ \<Rightarrow> Inl (FieldPanic name))"

fun readFields ::
  "byte_order \<Rightarrow> byte list \<Rightarrow> nat \<Rightarrow> Field list \<Rightarrow> byte list \<Rightarrow> Values \<Rightarrow>
   field_error + (Values \<times> byte list)"
where
  "readFields ord bm i [] bs row = Inr (row, bs)"
| "readFields ord bm i (f # fs) bs row =
     (if nilBit bm i then readFields ord bm (Suc i) fs bs (row(Name f \<mapsto> ANil))
      else case Component f of
             None \<Rightarrow> Inl (FieldPanic (Name f))
           | Some c \<Rightarrow>
               sbind (binaryReadField ord (Name f) c bs) (\<lambda>(v, rest).
                 readFields ord bm (Suc i) fs rest (row(Name f \<mapsto> v))))"

text \<open>The \<open>for\<close> loop of \<open>DecodeBinary\<close>; \<open>None\<close> is a loop that does not end.\<close>

partial_function (option) decodeRows ::
  "byte_order \<Rightarrow> Field list \<Rightarrow> byte list \<Rightarrow> Values list \<Rightarrow> (bin_error + Values list) option"
where
  "decodeRows ord fs bs acc =
     (case readFull ((length fs + 7) div 8) bs of
        Inl e \<Rightarrow> Some (if e = EOF then Inr acc else Inl (BinBitmap e))
      | Inr p \<Rightarrow>
          (case readFields ord (fst p) 0 fs (snd p) Map.empty of
             Inl e \<Rightarrow> Some (Inl (BinRow (length acc) e))
           | Inr q \<Rightarrow> decodeRows ord fs (snd q) (acc @ [fst q])))"

definition DecodeBinary ::
  "byte list \<Rightarrow> DataRecord option \<Rightarrow> BinaryEncoding \<Rightarrow> (bin_error + Values list) option"
where
  "DecodeBinary bs schema enc =
     (case schema of
        None \<Rightarrow> Some (Inl (BinSchema NilRecord))
      | Some r \<Rightarrow>
         (case Validate schema of
            Some e \<Rightarrow> Some (Inl (BinSchema e))
          | None \<Rightarrow> decodeRows (order (ByteOrder enc)) (Fields r) bs []))"

section \<open>Bytes, strings and bits\<close>

lemma length_putBE [simp]: "length (putBE n v) = n"
  by (induction n) auto

lemma getBE_putBE_take: "getBE (putBE n v) = take_bit (8 * n) v"
proof (induction n)
  case (Suc n)
  have "push_bit (8 * n) (ucast (ucast (drop_bit (8 * n) v) :: byte)) OR take_bit (8 * n) v =
        take_bit (8 * Suc n) v"
    by (rule bit_word_eqI) (auto simp: bit_simps)
  with Suc show ?case by simp
qed simp

lemma getBE_putBE_32: "getBE (putBE 4 v) = (v :: 32 word)"
  by (simp add: getBE_putBE_take take_bit_word_eq_self)

lemma getBE_putBE_64: "getBE (putBE 8 v) = (v :: 64 word)"
  by (simp add: getBE_putBE_take take_bit_word_eq_self)

lemma string_of_bytes_of [simp]: "string_of (bytes_of s) = s"
proof -
  have "char_of (unat (word_of_nat (of_char c) :: byte)) = c" for c
    by (simp add: unat_of_nat)
  then show ?thesis by (simp add: string_of_def bytes_of_def comp_def)
qed

lemma length_bytes_of [simp]: "length (bytes_of s) = length s"
  by (simp add: bytes_of_def)

lemma nilBit_bit: "nilBit bm i \<longleftrightarrow> bit (bm ! (i div 8)) (7 - i mod 8)"
  by (simp add: nilBit_def bit_iff_and_push_bit_not_eq_0)

lemma nilBit_setNilBit:
  assumes "i < 8 * length bm" 
  shows "nilBit (setNilBit bm i) j \<longleftrightarrow> j = i \<or> nilBit bm j"
proof -
  have l: "i div 8 < length bm" using assms by (simp add: less_mult_imp_div_less mult.commute)
  show ?thesis
  proof (cases "j div 8 = i div 8")
    case True
    have "7 - j mod 8 = 7 - i mod 8 \<longleftrightarrow> j = i"
    proof -
      have "7 - j mod 8 = 7 - i mod 8 \<longleftrightarrow> j mod 8 = i mod 8"
        using mod_less_divisor [of 8 i] mod_less_divisor [of 8 j] by linarith
      also have "\<dots> \<longleftrightarrow> j = i" using True by (metis div_mult_mod_eq)
      finally show ?thesis .
    qed
    with True l show ?thesis
      by (auto simp: nilBit_bit setNilBit_def bit_simps)
  next
    case False
    with l show ?thesis by (auto simp: nilBit_bit setNilBit_def)
  qed
qed

lemma nilBit_replicate [simp]: "k < 8 * n \<Longrightarrow> \<not> nilBit (replicate n 0) k"
  by (simp add: nilBit_bit less_mult_imp_div_less mult.commute)

lemma length_setNilBit [simp]: "length (setNilBit bm i) = length bm"
  by (simp add: setNilBit_def)

section \<open>The two loops of a row, against the list of emitted values\<close>

definition emitRow :: "stdlib \<Rightarrow> Values \<Rightarrow> Field list \<Rightarrow> field_error + (any \<times> bool) list" where
  "emitRow S row fs = smap_list (emitField S row) fs"

lemma emitRow_Cons:
  "emitRow S row (f # fs) =
     (case emitField S row f of Inl e \<Rightarrow> Inl e
      | Inr p \<Rightarrow> sbind (emitRow S row fs) (\<lambda>ps. Inr (p # ps)))"
  by (simp add: emitRow_def split: sum.split)

text \<open>What the first loop establishes for the second: bit \<open>k\<close> says whether value \<open>k\<close> is nil,
  and slot \<open>k\<close> holds it when it is not.\<close>

definition row_marked :: "(any \<times> bool) list \<Rightarrow> nat \<Rightarrow> byte list \<Rightarrow> any list \<Rightarrow> bool" where
  "row_marked ps i bm canon \<longleftrightarrow>
     (\<forall>k < length ps. (nilBit bm (i + k) \<longleftrightarrow> snd (ps ! k)) \<and>
        (\<not> snd (ps ! k) \<longrightarrow> canon ! (i + k) = fst (ps ! k)))"

lemma row_marked_Cons:
  "row_marked (p # ps) i bm canon \<longleftrightarrow>
     (nilBit bm i \<longleftrightarrow> snd p) \<and> (\<not> snd p \<longrightarrow> canon ! i = fst p) \<and> row_marked ps (Suc i) bm canon"
  by (auto simp: row_marked_def All_less_Suc2 simp del: add_Suc_right simp flip: add_Suc_shift)

lemma scanFields_emitRow:
  assumes "scanFields S row i fs bm canon = Inr (bm', canon')"
    and "i + length fs \<le> 8 * length bm" "i + length fs \<le> length canon"
    and "\<forall>k \<in> {i..<i + length fs}. \<not> nilBit bm k"
  shows "length bm' = length bm \<and> (\<forall>k < i. nilBit bm' k = nilBit bm k \<and> canon' ! k = canon ! k) \<and>
         (\<exists>ps. emitRow S row fs = Inr ps \<and> row_marked ps i bm' canon')"
  using assms
proof (induction S row i fs bm canon arbitrary: bm' canon' rule: scanFields.induct)
  case (1 S row i bm canon)
  then show ?case by (simp add: emitRow_def row_marked_def)
next
  case (2 S row i f fs bm canon)
  from "2.prems" obtain w b where em: "emitField S row f = Inr (w, b)"
    by (auto split: sum.splits)
  have i8: "i < 8 * length bm" using "2.prems" by simp
  show ?case
  proof (cases b)
    case True
    with em "2.prems" have "scanFields S row (Suc i) fs (setNilBit bm i) canon = Inr (bm', canon')"
      by simp
    from "2.IH"(1) [OF em refl True this] "2.prems" i8
    obtain ps where "length bm' = length bm" "\<forall>k < Suc i. nilBit bm' k = nilBit (setNilBit bm i) k \<and> canon' ! k = canon ! k"
        "emitRow S row fs = Inr ps" "row_marked ps (Suc i) bm' canon'"
      by (auto simp: nilBit_setNilBit)
    with em True i8 show ?thesis
      by (auto simp: emitRow_Cons row_marked_Cons nilBit_setNilBit)
  next
    case False
    with em "2.prems" have "scanFields S row (Suc i) fs bm (canon[i := w]) = Inr (bm', canon')"
      by simp
    from "2.IH"(2) [OF em refl False this] "2.prems"
    obtain ps where "length bm' = length bm" "\<forall>k < Suc i. nilBit bm' k = nilBit bm k \<and> canon' ! k = canon[i := w] ! k"
        "emitRow S row fs = Inr ps" "row_marked ps (Suc i) bm' canon'"
      by auto
    with em False "2.prems" show ?thesis
      by (auto simp: emitRow_Cons row_marked_Cons)
  qed
qed

section \<open>What a successful write leaves in the stream\<close>

fun fieldBytes :: "byte_order \<Rightarrow> any \<Rightarrow> byte list" where
  "fieldBytes ord (AF64 f) = PutUint64 ord f"
| "fieldBytes ord (AInt64 i) = PutUint64 ord i"
| "fieldBytes ord (ABool b) = (if b then [1] else [0])"
| "fieldBytes ord (AStr s) = PutUint32 ord (word_of_nat (length s)) @ bytes_of s"
| "fieldBytes ord v = []"

fun short :: "any \<Rightarrow> bool" where
  "short (AStr s) = (length s < 2 ^ 32)"
| "short v = True"

definition rowBytes :: "byte_order \<Rightarrow> (any \<times> bool) list \<Rightarrow> byte list" where
  "rowBytes ord ps = concat (map (fieldBytes ord \<circ> fst) (filter (Not \<circ> snd) ps))"

lemma writeBytes_ok:
  "err (writeBytes W bw p) = None \<longleftrightarrow> err bw = None \<and> W (out bw) p = None"
  "err (writeBytes W bw p) = None \<Longrightarrow> out (writeBytes W bw p) = out bw @ p"
  by (auto simp: writeBytes_def split: option.splits)

lemma binaryWriteField_ok:
  assumes "binaryWriteField W ord name bw c v = Inr bw'" "err bw = None"
  shows "err bw' = None \<and> out bw' = out bw @ fieldBytes ord v \<and> short v"
  using assms
  by (cases c; cases v)
     (auto simp: binaryWriteField_def Let_def writeUint32_def writeUint64_def writeBytes_ok
           split: if_splits option.splits)

lemma writeFields_ok:
  assumes "writeFields W ord bm canon i fs bw = Inr bw'" "err bw = None"
    and "row_marked ps i bm canon" "length ps = length fs"
  shows "err bw' = None \<and> out bw' = out bw @ rowBytes ord ps \<and>
         (\<forall>p \<in> set ps. snd p \<or> short (fst p))"
  using assms
proof (induction fs arbitrary: i bw ps)
  case Nil
  then show ?case by (simp add: rowBytes_def)
next
  case (Cons f fs)
  then obtain p ps' where ps: "ps = p # ps'" and m: "row_marked ps' (Suc i) bm canon"
      and b: "nilBit bm i \<longleftrightarrow> snd p" "\<not> snd p \<longrightarrow> canon ! i = fst p" "length ps' = length fs"
    by (cases ps) (auto simp: row_marked_Cons)
  show ?case
  proof (cases "snd p")
    case True
    with Cons.prems b have "writeFields W ord bm canon (Suc i) fs bw = Inr bw'" by simp
    from Cons.IH [OF this Cons.prems(2) m b(3)] True ps show ?thesis
      by (simp add: rowBytes_def)
  next
    case False
    with Cons.prems b obtain c bw1 where
        w: "binaryWriteField W ord (Name f) bw c (fst p) = Inr bw1"
      and r: "writeFields W ord bm canon (Suc i) fs bw1 = Inr bw'"
      by (auto split: option.splits)
    from binaryWriteField_ok [OF w Cons.prems(2)]
    have "err bw1 = None" "out bw1 = out bw @ fieldBytes ord (fst p)" "short (fst p)" by auto
    with Cons.IH [OF r _ m b(3)] False ps show ?thesis
      by (simp add: rowBytes_def)
  qed
qed

text \<open>The values of a row that can be written: nil, or canonical for the field's component.\<close>

definition row_typed :: "Field list \<Rightarrow> (any \<times> bool) list \<Rightarrow> bool" where
  "row_typed fs ps \<longleftrightarrow>
     list_all2 (\<lambda>f p. if snd p then fst p = ANil
                      else \<exists>c. Component f = Some c \<and> canonical c (fst p)) fs ps"

lemma emitField_typed:
  "emitField S row f = Inr p \<Longrightarrow>
   if snd p then fst p = ANil else \<exists>c. Component f = Some c \<and> canonical c (fst p)"
  by (cases p) (auto simp: emitField_def dest: emitValue_Inr split: option.splits sum.splits if_splits)

lemma emitRow_typed: "emitRow S row fs = Inr ps \<Longrightarrow> row_typed fs ps"
  unfolding emitRow_def smap_list_Inr row_typed_def
  by (erule list_all2_mono) (rule emitField_typed)

lemma row_typed_length: "row_typed fs ps \<Longrightarrow> length ps = length fs"
  by (simp add: row_typed_def list_all2_lengthD)

lemma binaryWriteRow_ok:
  assumes "binaryWriteRow W S ord fs row bw = Inr bw'" "err bw = None"
  obtains bm ps canon where "err bw' = None" "out bw' = out bw @ bm @ rowBytes ord ps"
    "length bm = (length fs + 7) div 8" "emitRow S row fs = Inr ps" "row_marked ps 0 bm canon"
    "\<forall>p \<in> set ps. snd p \<or> short (fst p)"
proof -
  from assms obtain bm canon where
      sc: "scanFields S row 0 fs (replicate ((length fs + 7) div 8) 0)
             (replicate (length fs) ANil) = Inr (bm, canon)"
    and e: "err (writeBytes W bw bm) = None"
    and w: "writeFields W ord bm canon 0 fs (writeBytes W bw bm) = Inr bw'"
    by (auto simp: binaryWriteRow_def Let_def split: option.splits)
  have "length fs \<le> 8 * ((length fs + 7) div 8)" by linarith
  with scanFields_emitRow [OF sc] obtain ps where
      ps: "length bm = (length fs + 7) div 8" "emitRow S row fs = Inr ps" "row_marked ps 0 bm canon"
    by auto
  have "length ps = length fs" using ps(2) by (intro row_typed_length emitRow_typed)
  from writeFields_ok [OF w e ps(3) this] writeBytes_ok(2) [OF e] ps show thesis
    by (intro that [of bm ps canon]) auto
qed

section \<open>The contract of a byte order, and the codec over it\<close>

locale byte_order_laws =
  fixes ord :: byte_order
  assumes length_put32: "length (PutUint32 ord v) = 4"
    and get_put32: "Uint32 ord (PutUint32 ord v) = v"
    and length_put64: "length (PutUint64 ord u) = 8"
    and get_put64: "Uint64 ord (PutUint64 ord u) = u"
begin

lemma readFull_append: "length p = n \<Longrightarrow> readFull n (p @ rest) = Inr (p, rest)"
  by (simp add: readFull_def)

lemma readUint32_put: "readUint32 ord (PutUint32 ord v @ rest) = Inr (v, rest)"
  by (simp add: readUint32_def readFull_append length_put32 get_put32)

lemma readUint64_put: "readUint64 ord (PutUint64 ord u @ rest) = Inr (u, rest)"
  by (simp add: readUint64_def readFull_append length_put64 get_put64)

lemma readString_put:
  "length s < 2 ^ 32 \<Longrightarrow>
   readString ord (PutUint32 ord (word_of_nat (length s)) @ bytes_of s @ rest) = Inr (AStr s, rest)"
  by (simp add: readString_def readUint32_put readFull_append unat_of_nat take_bit_nat_eq_self)

lemma readByte_put: "readByte (b # rest) = Inr (b, rest)"
  by (simp add: readByte_def readFull_def)

lemma binaryReadField_fieldBytes:
  assumes "canonical c v" "short v"
  shows "binaryReadField ord name c (fieldBytes ord v @ rest) = Inr (v, rest)"
  using assms
  by (cases rule: canonicalE [OF assms(1)])
     (auto simp: binaryReadField_def readUint64_put readString_put readByte_put)

lemma readFields_rowBytes:
  assumes "row_typed fs ps" "\<forall>p \<in> set ps. snd p \<or> short (fst p)" "row_marked ps i bm canon"
  shows "readFields ord bm i fs (rowBytes ord ps @ rest) row =
           Inr (row(map Name fs [\<mapsto>] map fst ps), rest)"
  using assms
proof (induction fs arbitrary: i ps row)
  case Nil
  then show ?case by (simp add: row_typed_def rowBytes_def)
next
  case (Cons f fs)
  then obtain p ps' where ps: "ps = p # ps'" and t: "row_typed fs ps'"
      and m: "row_marked ps' (Suc i) bm canon" and b: "nilBit bm i \<longleftrightarrow> snd p"
      and s: "\<forall>p \<in> set ps'. snd p \<or> short (fst p)"
    by (cases ps) (auto simp: row_marked_Cons row_typed_def)
  note IH = Cons.IH [OF t s m]
  show ?case
  proof (cases "snd p")
    case True
    with Cons.prems ps have "fst p = ANil" by (simp add: row_typed_def)
    have "readFields ord bm i (f # fs) (rowBytes ord ps @ rest) row =
            readFields ord bm (Suc i) fs (rowBytes ord ps' @ rest) (row(Name f \<mapsto> ANil))"
      using True ps b by (simp add: rowBytes_def)
    also have "\<dots> = Inr ((row(Name f \<mapsto> ANil))(map Name fs [\<mapsto>] map fst ps'), rest)"
      by (rule IH)
    finally show ?thesis using ps \<open>fst p = ANil\<close> by simp
  next
    case False
    with Cons.prems ps obtain c where "Component f = Some c" "canonical c (fst p)" "short (fst p)"
      by (auto simp: row_typed_def)
    then have "readFields ord bm i (f # fs) (rowBytes ord ps @ rest) row =
            readFields ord bm (Suc i) fs (rowBytes ord ps' @ rest) (row(Name f \<mapsto> fst p))"
      using False ps b by (simp add: rowBytes_def binaryReadField_fieldBytes)
    also have "\<dots> = Inr ((row(Name f \<mapsto> fst p))(map Name fs [\<mapsto>] map fst ps'), rest)"
      by (rule IH)
    finally show ?thesis using ps by simp
  qed
qed

end

text \<open>The decoded form of a row: each schema field bound to what the encoder emitted for it.\<close>

definition emittedValue :: "stdlib \<Rightarrow> Values \<Rightarrow> Field \<Rightarrow> any" where
  "emittedValue S row f = (case emitField S row f of Inl _ \<Rightarrow> ANil | Inr p \<Rightarrow> fst p)"

definition decodedRow :: "stdlib \<Rightarrow> Field list \<Rightarrow> Values \<Rightarrow> Values" where
  "decodedRow S fs row = Map.empty(map Name fs [\<mapsto>] map (emittedValue S row) fs)"

lemma emitRow_emittedValue:
  "emitRow S row fs = Inr ps \<Longrightarrow> map fst ps = map (emittedValue S row) fs"
  by (induction fs arbitrary: ps)
     (auto simp: emitRow_def emittedValue_def split: sum.splits)

context byte_order_laws
begin

text \<open>One step of the decoding loop undoes one written row, whatever follows it.\<close>

lemma decodeRows_row:
  assumes "binaryWriteRow W S ord fs row bw = Inr bw'" "err bw = None" "fs \<noteq> []"
  obtains chunk where "err bw' = None" "out bw' = out bw @ chunk"
    "\<And>rest acc. decodeRows ord fs (chunk @ rest) acc = decodeRows ord fs rest (acc @ [decodedRow S fs row])"
proof -
  from binaryWriteRow_ok [OF assms(1,2)] obtain bm ps canon where
      w: "err bw' = None" "out bw' = out bw @ bm @ rowBytes ord ps"
    and bm: "length bm = (length fs + 7) div 8" and em: "emitRow S row fs = Inr ps"
    and m: "row_marked ps 0 bm canon" and s: "\<forall>p \<in> set ps. snd p \<or> short (fst p)"
    by metis
  have "decodeRows ord fs ((bm @ rowBytes ord ps) @ rest) acc =
          decodeRows ord fs rest (acc @ [decodedRow S fs row])" for rest acc
    by (subst decodeRows.simps)
       (simp add: readFull_append [OF bm] readFields_rowBytes [OF emitRow_typed [OF em] s m]
          emitRow_emittedValue [OF em] decodedRow_def)
  with w that show thesis by blast
qed

lemma decodeRows_rows:
  assumes "binaryWriteRows W S ord fs ri rows bw = Inr bw'" "err bw = None" "fs \<noteq> []"
  shows "err bw' = None \<and> (\<exists>chunk. out bw' = out bw @ chunk \<and>
           (\<forall>acc. decodeRows ord fs chunk acc = Some (Inr (acc @ map (decodedRow S fs) rows))))"
  using assms
proof (induction rows arbitrary: ri bw)
  case Nil
  then have "(length fs + 7) div 8 \<noteq> 0" by (cases fs) auto
  with Nil show ?case by (auto simp: decodeRows.simps readFull_def)
next
  case (Cons row rows)
  then obtain bw1 where row: "binaryWriteRow W S ord fs row bw = Inr bw1"
      and rest: "binaryWriteRows W S ord fs (Suc ri) rows bw1 = Inr bw'"
    by (auto split: sum.splits)
  from decodeRows_row [OF row Cons.prems(2,3)] obtain chunk where
      c: "err bw1 = None" "out bw1 = out bw @ chunk"
         "\<And>rest acc. decodeRows ord fs (chunk @ rest) acc = decodeRows ord fs rest (acc @ [decodedRow S fs row])"
    by metis
  from Cons.IH [OF rest c(1) Cons.prems(3)] obtain chunk' where
      "err bw' = None" "out bw' = out bw1 @ chunk'"
      "\<forall>acc. decodeRows ord fs chunk' acc = Some (Inr (acc @ map (decodedRow S fs) rows))"
    by blast
  with c show ?case by (intro conjI exI [of _ "chunk @ chunk'"]) auto
qed

end

text \<open>Both of the code's byte orders keep the contract.\<close>

interpretation bin: byte_order_laws "order b" for b
  by unfold_locales
     (simp_all add: order_def bigEndian_def littleEndian_def getBE_putBE_32 getBE_putBE_64)

lemma EncodeBinary_roundtrip:
  assumes "EncodeBinary W S (Some r) rows enc = Inr bs"
  shows "DecodeBinary bs (Some r) enc = Some (Inr (map (decodedRow S (Fields r)) rows))"
proof -
  from assms have v: "Validate (Some r) = None" 
    and e: "sbind (binaryWriteRows W S (order (ByteOrder enc)) (Fields r) 0 rows
                       \<lparr>out = [], err = None\<rparr>) (\<lambda>bw. Inr (out bw)) = (Inr bs :: bin_error + byte list)"
    by (auto simp: EncodeBinary_def simp del: Validate.simps split: option.splits)
  from v have "Fields r \<noteq> []" by (simp add: Validate_None del: Validate.simps)
  with e bin.decodeRows_rows [of W S "ByteOrder enc" "Fields r" 0 rows "\<lparr>out = [], err = None\<rparr>"] v
  show ?thesis
    by (fastforce simp: DecodeBinary_def simp del: Validate.simps)
qed

section \<open>Termination and success\<close>

lemma readFull_shrinks:
  "readFull n bs = Inr p \<Longrightarrow> length bs = n + length (snd p)"
  by (auto simp: readFull_def split: if_splits)

lemma binaryReadField_shrinks:
  "binaryReadField ord name c bs = Inr p \<Longrightarrow> length (snd p) \<le> length bs"
  by (cases c)
     (auto simp: binaryReadField_def readUint64_def readUint32_def readString_def readByte_def
           split: sum.splits dest!: readFull_shrinks)

lemma readFields_shrinks:
  "readFields ord bm i fs bs row = Inr q \<Longrightarrow> length (snd q) \<le> length bs"
proof (induction ord bm i fs bs row rule: readFields.induct)
  case (2 ord bm i f fs bs row)
  show ?case
  proof (cases "nilBit bm i")
    case True
    with "2.prems" have "readFields ord bm (Suc i) fs bs (row(Name f \<mapsto> ANil)) = Inr q" by simp
    from "2.IH"(1) [OF True this] show ?thesis .
  next
    case False
    with "2.prems" obtain c p where c: "Component f = Some c"
        and r: "binaryReadField ord (Name f) c bs = Inr p"
        and q: "readFields ord bm (Suc i) fs (snd p) (row(Name f \<mapsto> fst p)) = Inr q"
      by (auto split: option.splits)
    from "2.IH"(2) [OF False c q] binaryReadField_shrinks [OF r]
    show ?thesis by simp
  qed
qed auto

lemma decodeRows_returns:
  assumes "fs \<noteq> []"
  shows "\<exists>r. decodeRows ord fs bs acc = Some r"
proof (induction bs arbitrary: acc rule: length_induct)
  case (1 bs)
  have pos: "0 < (length fs + 7) div 8" using assms by (cases fs) auto
  show ?case
  proof (cases "readFull ((length fs + 7) div 8) bs")
    case (Inl e)
    then show ?thesis by (simp add: decodeRows.simps)
  next
    case (Inr p)
    show ?thesis
    proof (cases "readFields ord (fst p) 0 fs (snd p) Map.empty")
      case (Inl e)
      with Inr show ?thesis by (simp add: decodeRows.simps)
    next
      case q: (Inr q)
      have "length (snd q) < length bs"
        using readFull_shrinks [OF Inr] readFields_shrinks [OF q] pos by linarith
      with 1 obtain r where "decodeRows ord fs (snd q) (acc @ [fst q]) = Some r" by blast
      with Inr q show ?thesis by (subst decodeRows.simps) simp
    qed
  qed
qed

text \<open>What an encoder needs of a row to succeed.\<close>

definition row_encodable :: "stdlib \<Rightarrow> Field list \<Rightarrow> Values \<Rightarrow> bool" where
  "row_encodable S fs row \<longleftrightarrow>
     list_all (\<lambda>f. case emitField S row f of Inl _ \<Rightarrow> False | Inr p \<Rightarrow> snd p \<or> short (fst p)) fs"

lemma row_encodable_iff:
  "row_encodable S fs row \<longleftrightarrow>
     (\<forall>f \<in> set fs. \<exists>p. emitField S row f = Inr p \<and> (snd p \<or> short (fst p)))"
proof -
  have "(case x of Inl _ \<Rightarrow> False | Inr p \<Rightarrow> snd p \<or> short (fst p)) \<longleftrightarrow>
        (\<exists>p. x = Inr p \<and> (snd p \<or> short (fst p)))" for x :: "field_error + any \<times> bool"
    by (cases x) auto
  then show ?thesis by (simp add: row_encodable_def list_all_iff)
qed

lemma emitRow_mem:
  assumes "emitRow S row fs = Inr ps"
  shows "f \<in> set fs \<Longrightarrow> \<exists>p \<in> set ps. emitField S row f = Inr p"
    and "p \<in> set ps \<Longrightarrow> \<exists>f \<in> set fs. emitField S row f = Inr p"
proof -
  have img: "Inr ` set ps = emitField S row ` set fs"
    using smap_list_map [OF assms [unfolded emitRow_def]] by (metis set_map)
  show "\<exists>p \<in> set ps. emitField S row f = Inr p" if "f \<in> set fs"
  proof -
    from that have "emitField S row f \<in> Inr ` set ps" by (simp add: img)
    then show ?thesis by blast
  qed
  show "\<exists>f \<in> set fs. emitField S row f = Inr p" if "p \<in> set ps"
  proof -
    from that have "Inr p \<in> emitField S row ` set fs" by (simp flip: img)
    then show ?thesis by force
  qed
qed

lemma scanFields_total:
  assumes "\<forall>f \<in> set fs. \<exists>p. emitField S row f = Inr p"
  shows "\<exists>bm' canon'. scanFields S row i fs bm canon = Inr (bm', canon')"
  using assms
proof (induction fs arbitrary: i bm canon)
  case (Cons f fs)
  then obtain w b where "emitField S row f = Inr (w, b)" by fastforce
  with Cons show ?case by (cases b) auto
qed simp

abbreviation buffer :: io_writer where
  "buffer \<equiv> (\<lambda>_ _. None)"

lemma binaryWriteField_total:
  assumes "canonical c v" "short v" "err bw = None"
  shows "\<exists>bw'. binaryWriteField buffer ord name bw c v = Inr bw' \<and> err bw' = None"
  using assms
  by (cases rule: canonicalE [OF assms(1)])
     (auto simp: binaryWriteField_def writeBytes_def writeUint32_def writeUint64_def)

lemma writeFields_total:
  assumes "row_typed fs ps" "\<forall>p \<in> set ps. snd p \<or> short (fst p)" "row_marked ps i bm canon"
    "err bw = None"
  shows "\<exists>bw'. writeFields buffer ord bm canon i fs bw = Inr bw' \<and> err bw' = None"
  using assms
proof (induction fs arbitrary: i ps bw)
  case (Cons f fs)
  then obtain p ps' where ps: "ps = p # ps'" and t: "row_typed fs ps'"
      and m: "row_marked ps' (Suc i) bm canon" 
      and b: "nilBit bm i \<longleftrightarrow> snd p" "\<not> snd p \<longrightarrow> canon ! i = fst p"
      and s: "\<forall>p \<in> set ps'. snd p \<or> short (fst p)"
    by (cases ps) (auto simp: row_marked_Cons row_typed_def)
  show ?case
  proof (cases "snd p")
    case True
    with b Cons.IH [OF t s m Cons.prems(4)] show ?thesis by simp
  next
    case False
    with Cons.prems ps obtain c where c: "Component f = Some c" "canonical c (fst p)" "short (fst p)"
      by (auto simp: row_typed_def)
    from binaryWriteField_total [OF c(2,3) Cons.prems(4)] obtain bw1 where
      "binaryWriteField buffer ord (Name f) bw c (fst p) = Inr bw1" "err bw1 = None" by blast
    with False b c Cons.IH [OF t s m, of bw1] show ?thesis by simp
  qed
qed simp

lemma binaryWriteRow_total:
  assumes "row_encodable S fs row" "err bw = None"
  shows "\<exists>bw'. binaryWriteRow buffer S ord fs row bw = Inr bw' \<and> err bw' = None"
proof -
  have "\<forall>f \<in> set fs. \<exists>p. emitField S row f = Inr p"
    using row_encodable_iff assms(1) by blast
  then obtain bm canon where sc: "scanFields S row 0 fs (replicate ((length fs + 7) div 8) 0)
             (replicate (length fs) ANil) = Inr (bm, canon)"
    using scanFields_total by blast
  have "length fs \<le> 8 * ((length fs + 7) div 8)" by linarith
  with scanFields_emitRow [OF sc] obtain ps where
      em: "emitRow S row fs = Inr ps" and m: "row_marked ps 0 bm canon"
    by auto
  have "snd p \<or> short (fst p)" if "p \<in> set ps" for p
  proof -
    from emitRow_mem(2) [OF em that] assms(1) show ?thesis
      by (fastforce simp: row_encodable_iff)
  qed
  then have s: "\<forall>p \<in> set ps. snd p \<or> short (fst p)" by blast
  have "err (writeBytes buffer bw bm) = None" using assms(2) by (simp add: writeBytes_def)
  from writeFields_total [OF emitRow_typed [OF em] s m this] sc this show ?thesis
    by (simp add: binaryWriteRow_def)
qed

lemma binaryWriteRow_encodable:
  assumes "binaryWriteRow W S ord fs row bw = Inr bw'" "err bw = None"
  shows "row_encodable S fs row"
proof -
  from binaryWriteRow_ok [OF assms] obtain ps where
      em: "emitRow S row fs = Inr ps" and s: "\<forall>p \<in> set ps. snd p \<or> short (fst p)"
    by metis
  show ?thesis
    unfolding row_encodable_iff using emitRow_mem(1) [OF em] s by fastforce
qed

lemma binaryWriteRows_total:
  "err bw = None \<Longrightarrow>
   (\<exists>bw'. binaryWriteRows buffer S ord fs ri rows bw = Inr bw') \<longleftrightarrow>
     (\<forall>row \<in> set rows. row_encodable S fs row)"
proof (induction rows arbitrary: ri bw)
  case (Cons row rows)
  show ?case
  proof (cases "row_encodable S fs row")
    case True
    from binaryWriteRow_total [OF this Cons.prems] obtain bw1 where
      "binaryWriteRow buffer S ord fs row bw = Inr bw1" "err bw1 = None" by blast
    with Cons.IH [of bw1 "Suc ri"] True show ?thesis by simp
  next
    case False
    with binaryWriteRow_encodable [OF _ Cons.prems, of buffer S ord fs row] obtain e where
      "binaryWriteRow buffer S ord fs row bw = Inl e" by (metis sum.exhaust)
    with False show ?thesis by simp
  qed
qed simp

section \<open>Properties\<close>

text \<open>Claim C2: the binary codec round-trips. Whatever \<open>EncodeBinary\<close> writes without error,
  for any writer, any schema, rows and byte order, \<open>DecodeBinary\<close> returns from, with one row
  per input row in which every schema field is bound to what the encoder emitted for it
  (its canonical value, or nil when it was nil, missing or equal to the nil token).\<close>

theorem binary_roundtrip:
  assumes "EncodeBinary W S schema rows enc = Inr bs"
  shows "DecodeBinary bs schema enc =
           Some (Inr (map (decodedRow S (Fields (the schema))) rows))"
proof (cases schema)
  case None
  with assms show ?thesis by (simp add: EncodeBinary_def)
next
  case (Some r)
  with assms EncodeBinary_roundtrip show ?thesis by simp
qed


definition countCommon :: CommonFields where
  "countCommon = \<lparr>LabelValue = [], DefinitionValue = [], NilValue = ''-1''\<rparr>"

definition plainCommon :: CommonFields where
  "plainCommon = \<lparr>LabelValue = [], DefinitionValue = [], NilValue = []\<rparr>"

definition sampleSchema :: "DataRecord option" where
  "sampleSchema = Some (DataRecord plainCommon
     [Field ''n'' (Some (Count countCommon)),
      Field ''ok'' (Some (Boolean plainCommon)),
      Field ''note'' (Some (Text plainCommon))])"

definition sampleRow :: Values where
  "sampleRow = [''n'' \<mapsto> AInt 7, ''note'' \<mapsto> AStr ''hi'']"

lemma sampleSchema_valid: "Validate sampleSchema = None"
  by (simp add: sampleSchema_def plainCommon_def countCommon_def)

lemma sample_scan: "scanFields bitsStdlib sampleRow 0 (Fields (the sampleSchema))
     (replicate ((length (Fields (the sampleSchema)) + 7) div 8) 0)
     (replicate (length (Fields (the sampleSchema))) ANil) = Inr ([0x40], [AInt64 7, ANil, AStr ''hi''])"
  by code_simp



lemma sample_bytes:
  "putBE 8 (7 :: 64 word) = [0, 0, 0, 0, 0, 0, 0, 7]" "putBE 4 (2 :: 32 word) = [0, 0, 0, 2]"
  "bytes_of ''hi'' = [0x68, 0x69]" "\<not> nilBit [0x40] 0" "nilBit [0x40] (Suc 0)"
  "\<not> nilBit [0x40] (Suc (Suc 0))"
  by code_simp+

lemma sample_fields:
  "writeFields buffer bigEndian [0x40] [AInt64 7, ANil, AStr ''hi''] 0 (Fields (the sampleSchema))
     (writeBytes buffer \<lparr>out = [], err = None\<rparr> [0x40]) =
   Inr \<lparr>out = [0x40, 0, 0, 0, 0, 0, 0, 0, 7, 0, 0, 0, 2, 0x68, 0x69], err = None\<rparr>"
  by (simp add: sampleSchema_def writeBytes_def writeUint64_def writeUint32_def
       binaryWriteField_def bigEndian_def sample_bytes)

lemma sample_encodes:
  "EncodeBinary buffer bitsStdlib sampleSchema [sampleRow] DefaultBinaryEncoding =
     Inr [0x40, 0, 0, 0, 0, 0, 0, 0, 7, 0, 0, 0, 2, 0x68, 0x69]"
proof -
  obtain r where r: "sampleSchema = Some r" by (simp add: sampleSchema_def)
  have "binaryWriteRow buffer bitsStdlib bigEndian (Fields r) sampleRow \<lparr>out = [], err = None\<rparr>
    = Inr \<lparr>out = [0x40, 0, 0, 0, 0, 0, 0, 0, 7, 0, 0, 0, 2, 0x68, 0x69], err = None\<rparr>"
    unfolding binaryWriteRow_def sample_scan [unfolded r option.sel] sbind.simps prod.case Let_def
      sample_fields [unfolded r option.sel] by (simp add: writeBytes_def)
  with sampleSchema_valid show ?thesis
    by (simp add: EncodeBinary_def DefaultBinaryEncoding_def order_def r del: Validate.simps)
qed


theorem binary_roundtrip_witness:
  "DecodeBinary [0x40, 0, 0, 0, 0, 0, 0, 0, 7, 0, 0, 0, 2, 0x68, 0x69] sampleSchema
     DefaultBinaryEncoding =
   Some (Inr [decodedRow bitsStdlib (Fields (the sampleSchema)) sampleRow]) \<and>
   decodedRow bitsStdlib (Fields (the sampleSchema)) sampleRow =
     [''n'' \<mapsto> AInt64 7, ''ok'' \<mapsto> ANil, ''note'' \<mapsto> AStr ''hi'']"
proof
  show "DecodeBinary [0x40, 0, 0, 0, 0, 0, 0, 0, 7, 0, 0, 0, 2, 0x68, 0x69] sampleSchema
     DefaultBinaryEncoding =
   Some (Inr [decodedRow bitsStdlib (Fields (the sampleSchema)) sampleRow])"
    using binary_roundtrip [OF sample_encodes] by simp
  show "decodedRow bitsStdlib (Fields (the sampleSchema)) sampleRow =
     [''n'' \<mapsto> AInt64 7, ''ok'' \<mapsto> ANil, ''note'' \<mapsto> AStr ''hi'']"
    by (simp add: decodedRow_def sampleSchema_def emittedValue_def emitField_def emitValue_def
        normalizeValue_def matchesNilToken_def nilValueOf_def fieldValue_def sampleRow_def
        plainCommon_def countCommon_def format_int_def dec_digits.simps)
qed

text \<open>Encoding to a buffer succeeds exactly when the schema validates and every field of
  every row coerces to its component and has a length that fits the \<open>uint32\<close> prefix.\<close>

theorem binary_encode_succeeds:
  "(\<exists>bs. MarshalBinaryRows S schema rows enc = Inr bs) \<longleftrightarrow>
     (\<exists>r. schema = Some r \<and> Validate schema = None \<and>
          list_all (row_encodable S (Fields r)) rows)"
  by (cases schema)
     (auto simp: MarshalBinaryRows_def EncodeBinary_def list_all_iff binaryWriteRows_total
           simp del: Validate.simps split: option.splits)

text \<open>Claim C35: \<open>DecodeBinary\<close> returns on every input, however malformed: each turn of its
  unbounded loop consumes at least one byte, because a valid schema has a field and its
  nil bitmap a byte.\<close>

theorem binary_decode_returns:
  "\<exists>res. DecodeBinary bs schema enc = Some res"
proof (cases schema)
  case (Some r)
  show ?thesis
  proof (cases "Validate schema")
    case None
    with Some have "Fields r \<noteq> []" by (simp add: Validate_None del: Validate.simps)
    from decodeRows_returns [OF this] Some None show ?thesis
      by (simp add: DecodeBinary_def del: Validate.simps)
  qed (simp add: Some DecodeBinary_def del: Validate.simps)
qed (simp add: DecodeBinary_def)

text \<open>A stream cut right after the nil bitmap of a record, before its first field that is
  not nil, is reported with the plain \<open>EOF\<close> and not with \<open>UnexpectedEOF\<close>, although
  the record is incomplete.\<close>

theorem binary_cut_after_bitmap:
  assumes "Validate (Some r) = None" "Fields r = f # fs"
    and "length bm = (length (Fields r) + 7) div 8" "\<not> nilBit bm 0"
  shows "DecodeBinary bm (Some r) enc = Some (Inl (BinRow 0 (FieldIO (Name f) EOF)))"
proof -
  from assms obtain c where c: "Component f = Some c" "Kind c \<noteq> KindRecord"
    by (auto simp: Validate_None simp del: Validate.simps)
  then have "binaryReadField ord (Name f) c [] = Inl (FieldIO (Name f) EOF)" for ord
    by (cases c) (simp_all add: binaryReadField_def readUint64_def readByte_def readString_def
        readUint32_def readFull_def)
  with c assms show ?thesis
    by (simp add: DecodeBinary_def decodeRows.simps readFull_def del: Validate.simps)
qed

theorem binary_cut_after_bitmap_witness:
  "DecodeBinary [0] sampleSchema DefaultBinaryEncoding =
     Some (Inl (BinRow 0 (FieldIO ''n'' EOF)))"
proof -
  obtain r where r: "sampleSchema = Some r" by (simp add: sampleSchema_def)
  then have fs: "Fields r = Field ''n'' (Some (Count countCommon)) # tl (Fields r)" "length (Fields r) = 3"
    by (auto simp: sampleSchema_def)
  have "\<not> nilBit [0] 0" by code_simp
  with binary_cut_after_bitmap [OF sampleSchema_valid [unfolded r] fs(1), of "[0]" DefaultBinaryEncoding] fs(2) r
  show ?thesis by simp
qed
end
