(* ===== verification/SweText.thy ===== *)
theory SweText
  imports SweBinary
begin

text \<open>
  \<open>pkg/swecommon/text.go\<close>: the SWE TextEncoding (CSV-shaped). The output of the encoder
  is the text handed to its \<open>bufio.Writer\<close>; the writer under it is the parameter
  \<open>text_sink\<close>, which says from what was written so far whether a write, or the final flush,
  fails. The input of the decoder is the result of \<open>io.ReadAll\<close>.
\<close>

section \<open>Separators\<close>

record TextEncoding =
  TokenSeparator :: string
  BlockSeparator :: string
  DecimalSeparator :: string
  CollapseWhiteSpace :: bool
  EmitHeader :: bool

definition newline :: string where
  "newline = [CHR 0x0A]"

definition DefaultTextEncoding :: TextEncoding where
  "DefaultTextEncoding =
     \<lparr>TokenSeparator = '','', BlockSeparator = newline, DecimalSeparator = ''.'',
      CollapseWhiteSpace = True, EmitHeader = False\<rparr>"

datatype text_error =
    TextSchema swe_error
  | DecimalNotSupported string
  | SeparatorsEqual
  | NameHasSeparator string
  | TokenHasSeparator nat string
  | TextField nat string val_error
  | TextPanic nat string
  | TextIO io_error
  | HeaderColumns nat
  | HeaderName nat string
  | TokenCount nat nat

definition resolve :: "TextEncoding \<Rightarrow> text_error + TextEncoding" where
  "resolve te0 =
     (let te1 = (if TokenSeparator te0 = [] then te0\<lparr>TokenSeparator := '',''\<rparr> else te0);
          te2 = (if BlockSeparator te1 = [] then te1\<lparr>BlockSeparator := newline\<rparr> else te1);
          te = (if DecimalSeparator te2 = [] then te2\<lparr>DecimalSeparator := ''.''\<rparr> else te2)
      in if DecimalSeparator te \<noteq> ''.'' then Inl (DecimalNotSupported (DecimalSeparator te))
         else if TokenSeparator te = BlockSeparator te then Inl SeparatorsEqual
         else Inr te)"

text \<open>The two containment checks.\<close>

definition has_separator :: "TextEncoding \<Rightarrow> string \<Rightarrow> bool" where
  "has_separator te s \<longleftrightarrow>
     str_contains s (TokenSeparator te) \<or> str_contains s (BlockSeparator te)"

fun validateFieldNamesAgainstSeparators :: "Field list \<Rightarrow> TextEncoding \<Rightarrow> text_error option" where
  "validateFieldNamesAgainstSeparators [] te = None"
| "validateFieldNamesAgainstSeparators (f # fs) te =
     (if has_separator te (Name f) then Some (NameHasSeparator (Name f))
      else validateFieldNamesAgainstSeparators fs te)"

definition validateTokenAgainstSeparators :: "string \<Rightarrow> TextEncoding \<Rightarrow> bool" where
  "validateTokenAgainstSeparators token te = (\<not> has_separator te token)"

section \<open>Encoding\<close>

record text_sink =
  WriteString :: "string \<Rightarrow> string \<Rightarrow> io_error option"
  Flush :: "string \<Rightarrow> io_error option"

definition textBuffer :: text_sink where
  "textBuffer = \<lparr>WriteString = (\<lambda>_ _. None), Flush = (\<lambda>_. None)\<rparr>"

definition writeString :: "text_sink \<Rightarrow> string \<Rightarrow> string \<Rightarrow> text_error + string" where
  "writeString W buf s =
     (case WriteString W buf s of Some e \<Rightarrow> Inl (TextIO e) | None \<Rightarrow> Inr (buf @ s))"

text \<open>The token of a value that \<open>normalizeValue\<close> returned.\<close>

definition textToken :: "stdlib \<Rightarrow> DataComponent \<Rightarrow> any \<times> bool \<Rightarrow> string" where
  "textToken S c p =
     (if snd p then nilValueOf c
      else case fst p of
        AF64 f \<Rightarrow> FormatFloat S f
      | AInt64 i \<Rightarrow> format_int (sint i)
      | ABool b \<Rightarrow> format_bool b
      | AStr s \<Rightarrow> s
      | _ \<Rightarrow> [])"

definition textEncodeField :: "stdlib \<Rightarrow> DataComponent \<Rightarrow> any \<Rightarrow> val_error + string" where
  "textEncodeField S c v = sbind (emitValue S c v) (\<lambda>p. Inr (textToken S c p))"

fun encodeFields ::
  "text_sink \<Rightarrow> stdlib \<Rightarrow> TextEncoding \<Rightarrow> nat \<Rightarrow> nat \<Rightarrow> Field list \<Rightarrow> Values \<Rightarrow> string \<Rightarrow>
   text_error + string"
where
  "encodeFields W S te ri fi [] row buf = Inr buf"
| "encodeFields W S te ri fi (f # fs) row buf =
     sbind (if fi > 0 then writeString W buf (TokenSeparator te) else Inr buf) (\<lambda>buf1.
       case Component f of
         None \<Rightarrow> Inl (TextPanic ri (Name f))
       | Some c \<Rightarrow>
           (case textEncodeField S c (fieldValue row (Name f)) of
              Inl e \<Rightarrow> Inl (TextField ri (Name f) e)
            | Inr token \<Rightarrow>
                if \<not> validateTokenAgainstSeparators token te then Inl (TokenHasSeparator ri (Name f))
                else sbind (writeString W buf1 token) (\<lambda>buf2.
                       encodeFields W S te ri (Suc fi) fs row buf2)))"

fun encodeRows ::
  "text_sink \<Rightarrow> stdlib \<Rightarrow> TextEncoding \<Rightarrow> nat \<Rightarrow> Field list \<Rightarrow> Values list \<Rightarrow> string \<Rightarrow>
   text_error + string"
where
  "encodeRows W S te ri fs [] buf = Inr buf"
| "encodeRows W S te ri fs (row # rows) buf =
     sbind (encodeFields W S te ri 0 fs row buf) (\<lambda>buf1.
       sbind (writeString W buf1 (BlockSeparator te)) (\<lambda>buf2.
         encodeRows W S te (Suc ri) fs rows buf2))"

fun encodeNames :: "text_sink \<Rightarrow> TextEncoding \<Rightarrow> nat \<Rightarrow> Field list \<Rightarrow> string \<Rightarrow> text_error + string" where
  "encodeNames W te i [] buf = Inr buf"
| "encodeNames W te i (f # fs) buf =
     sbind (if i > 0 then writeString W buf (TokenSeparator te) else Inr buf) (\<lambda>buf1.
       sbind (writeString W buf1 (Name f)) (\<lambda>buf2. encodeNames W te (Suc i) fs buf2))"

definition encodeHeader :: "text_sink \<Rightarrow> TextEncoding \<Rightarrow> Field list \<Rightarrow> text_error + string" where
  "encodeHeader W te fs =
     (if EmitHeader te
      then sbind (encodeNames W te 0 fs []) (\<lambda>buf. writeString W buf (BlockSeparator te))
      else Inr [])"

definition EncodeText ::
  "text_sink \<Rightarrow> stdlib \<Rightarrow> DataRecord option \<Rightarrow> Values list \<Rightarrow> TextEncoding \<Rightarrow> text_error + string"
where
  "EncodeText W S schema rows enc =
     (case schema of
        None \<Rightarrow> Inl (TextSchema NilRecord)
      | Some r \<Rightarrow>
         (case Validate schema of
            Some e \<Rightarrow> Inl (TextSchema e)
          | None \<Rightarrow>
              sbind (resolve enc) (\<lambda>te.
                case validateFieldNamesAgainstSeparators (Fields r) te of
                  Some e \<Rightarrow> Inl e
                | None \<Rightarrow>
                    sbind (encodeHeader W te (Fields r)) (\<lambda>buf.
                      sbind (encodeRows W S te 0 (Fields r) rows buf) (\<lambda>buf'.
                        case Flush W buf' of Some e \<Rightarrow> Inl (TextIO e) | None \<Rightarrow> Inr buf')))))"

definition MarshalTextRows ::
  "stdlib \<Rightarrow> DataRecord option \<Rightarrow> Values list \<Rightarrow> TextEncoding \<Rightarrow> text_error + string"
where
  "MarshalTextRows S schema rows enc = EncodeText textBuffer S schema rows enc"

section \<open>Decoding\<close>

definition collapse :: "TextEncoding \<Rightarrow> string \<Rightarrow> string" where
  "collapse te tok = (if CollapseWhiteSpace te then trim_space tok else tok)"

definition textDecodeField :: "stdlib \<Rightarrow> DataComponent \<Rightarrow> string \<Rightarrow> val_error + any" where
  "textDecodeField S c tok =
     (if (nilValueOf c \<noteq> [] \<and> tok = nilValueOf c) \<or> (nilValueOf c = [] \<and> tok = []) then Inr ANil
      else case c of
        Quantity _ _ _ \<Rightarrow>
          (case ParseFloat S tok of None \<Rightarrow> Inl (ParseFloatError tok) | Some f \<Rightarrow> Inr (AF64 f))
      | Count _ \<Rightarrow>
          (case parse_int 64 tok of None \<Rightarrow> Inl (ParseIntError tok)
                                  | Some i \<Rightarrow> Inr (AInt64 (word_of_int i)))
      | Time _ _ _ \<Rightarrow> Inr (AStr tok)
      | Boolean _ \<Rightarrow>
          (case parse_bool tok of None \<Rightarrow> Inl (ParseBoolError tok) | Some b \<Rightarrow> Inr (ABool b))
      | Text _ \<Rightarrow> Inr (AStr tok)
      | Category _ _ \<Rightarrow> Inr (AStr tok)
      | RecordPtr _ \<Rightarrow> Inl NestedValue)"

fun validateColumns :: "TextEncoding \<Rightarrow> nat \<Rightarrow> string list \<Rightarrow> Field list \<Rightarrow> text_error option" where
  "validateColumns te i (tok # toks) (f # fs) =
     (if collapse te tok \<noteq> Name f then Some (HeaderName i (collapse te tok))
      else validateColumns te (Suc i) toks fs)"
| "validateColumns te i _ _ = None"

definition validateHeader :: "string \<Rightarrow> Field list \<Rightarrow> TextEncoding \<Rightarrow> text_error option" where
  "validateHeader block fs te =
     (let tokens = go_split (TokenSeparator te) block in
      if length tokens \<noteq> length fs then Some (HeaderColumns (length tokens))
      else validateColumns te 0 tokens fs)"

fun decodeTokens ::
  "stdlib \<Rightarrow> TextEncoding \<Rightarrow> nat \<Rightarrow> Field list \<Rightarrow> string list \<Rightarrow> Values \<Rightarrow> text_error + Values"
where
  "decodeTokens S te bi (f # fs) (tok # toks) row =
     (case Component f of
        None \<Rightarrow> Inl (TextPanic bi (Name f))
      | Some c \<Rightarrow>
          (case textDecodeField S c (collapse te tok) of
             Inl e \<Rightarrow> Inl (TextField bi (Name f) e)
           | Inr v \<Rightarrow> decodeTokens S te bi fs toks (row(Name f \<mapsto> v))))"
| "decodeTokens S te bi _ _ row = Inr row"

fun decodeBlocks ::
  "stdlib \<Rightarrow> TextEncoding \<Rightarrow> nat \<Rightarrow> Field list \<Rightarrow> string list \<Rightarrow> Values list \<Rightarrow>
   text_error + Values list"
where
  "decodeBlocks S te bi fs [] acc = Inr acc"
| "decodeBlocks S te bi fs (block # blocks) acc =
     (let tokens = go_split (TokenSeparator te) block in
      if length tokens \<noteq> length fs then Inl (TokenCount bi (length tokens))
      else sbind (decodeTokens S te bi fs tokens Map.empty) (\<lambda>row.
             decodeBlocks S te (Suc bi) fs blocks (acc @ [row])))"

text \<open>The loop over the blocks starts by consuming the header when one is expected.\<close>

definition decodeAll ::
  "stdlib \<Rightarrow> TextEncoding \<Rightarrow> Field list \<Rightarrow> string list \<Rightarrow> text_error + Values list"
where
  "decodeAll S te fs blocks =
     (case blocks of
        [] \<Rightarrow> Inr []
      | b # bs \<Rightarrow>
          if EmitHeader te then
            (case validateHeader b fs te of
               Some e \<Rightarrow> Inl e
             | None \<Rightarrow> decodeBlocks S te 1 fs bs [])
          else decodeBlocks S te 0 fs blocks [])"

definition DecodeText ::
  "stdlib \<Rightarrow> io_error + string \<Rightarrow> DataRecord option \<Rightarrow> TextEncoding \<Rightarrow> text_error + Values list"
where
  "DecodeText S input schema enc =
     (case schema of
        None \<Rightarrow> Inl (TextSchema NilRecord)
      | Some r \<Rightarrow>
         (case Validate schema of
            Some e \<Rightarrow> Inl (TextSchema e)
          | None \<Rightarrow>
              sbind (resolve enc) (\<lambda>te.
                case input of
                  Inl e \<Rightarrow> Inl (TextIO e)
                | Inr raw \<Rightarrow>
                    if raw = [] then Inr []
                    else let blocks = go_split (BlockSeparator te) raw;
                             blocks' = (if last blocks = [] then butlast blocks else blocks)
                         in decodeAll S te (Fields r) blocks')))"

section \<open>What the encoder writes\<close>

lemma writeString_Inr [simp]:
  "writeString W buf s = Inr buf' \<longleftrightarrow> WriteString W buf s = None \<and> buf' = buf @ s"
  by (auto simp: writeString_def split: option.splits)

text \<open>The tokens of a row: what each field's value is written as.\<close>

definition row_tokens :: "stdlib \<Rightarrow> TextEncoding \<Rightarrow> Field list \<Rightarrow> Values \<Rightarrow> string list \<Rightarrow> bool" where
  "row_tokens S te fs row toks \<longleftrightarrow>
     list_all2 (\<lambda>f tok. \<not> has_separator te tok \<and>
        (\<exists>c. Component f = Some c \<and> textEncodeField S c (fieldValue row (Name f)) = Inr tok)) fs toks"

lemma go_join_Cons: "go_join sep (t # ts) = t @ concat (map ((@) sep) ts)"
proof (induction ts arbitrary: t)
  case (Cons u us)
  show ?case by (simp add: Cons.IH [of u])
qed simp

lemma encodeFields_tail:
  assumes "encodeFields W S te ri fi fs row buf = Inr buf'" "fi > 0"
  shows "\<exists>toks. row_tokens S te fs row toks \<and>
           buf' = buf @ concat (map ((@) (TokenSeparator te)) toks)"
  using assms
proof (induction W S te ri fi fs row buf rule: encodeFields.induct)
  case (1 W S te ri fi row buf)
  then show ?case by (auto simp: row_tokens_def)
next
  case (2 W S te ri fi f fs row buf)
  from "2.prems" obtain c tok where c: "Component f = Some c"
      "textEncodeField S c (fieldValue row (Name f)) = Inr tok" "\<not> has_separator te tok"
    and e: "encodeFields W S te ri (Suc fi) fs row ((buf @ TokenSeparator te) @ tok) = Inr buf'"
    and w: "WriteString W buf (TokenSeparator te) = None"
      "WriteString W (buf @ TokenSeparator te) tok = None"
    by (auto simp: validateTokenAgainstSeparators_def split: option.splits sum.splits if_splits)
  have "\<not> \<not> validateTokenAgainstSeparators tok te" using c(3)
    by (simp add: validateTokenAgainstSeparators_def)
  from "2.IH" [OF c(1) c(2) this e] obtain toks where
    "row_tokens S te fs row toks"
    "buf' = ((buf @ TokenSeparator te) @ tok) @ concat (map ((@) (TokenSeparator te)) toks)"
    by auto
  with c show ?case
    by (intro exI [of _ "tok # toks"]) (auto simp: row_tokens_def)
qed

lemma encodeFields_ok:
  assumes "encodeFields W S te ri 0 fs row buf = Inr buf'"
  shows "\<exists>toks. row_tokens S te fs row toks \<and> buf' = buf @ go_join (TokenSeparator te) toks"
proof (cases fs)
  case Nil
  with assms show ?thesis by (auto simp: row_tokens_def)
next
  case (Cons f fs')
  with assms obtain c tok where c: "Component f = Some c"
      "textEncodeField S c (fieldValue row (Name f)) = Inr tok" "\<not> has_separator te tok"
    and e: "encodeFields W S te ri (Suc 0) fs' row (buf @ tok) = Inr buf'"
    by (auto simp: validateTokenAgainstSeparators_def split: option.splits sum.splits if_splits)
  from encodeFields_tail [OF e] c Cons show ?thesis
    by (auto simp: row_tokens_def list_all2_Cons1 go_join_Cons)
qed

lemma encodeNames_tail:
  "encodeNames W te i fs buf = Inr buf' \<Longrightarrow> i > 0 \<Longrightarrow>
   buf' = buf @ concat (map ((@) (TokenSeparator te)) (map Name fs))"
  by (induction fs arbitrary: i buf) fastforce+

lemma encodeNames_ok:
  "encodeNames W te 0 fs buf = Inr buf' \<Longrightarrow> buf' = buf @ go_join (TokenSeparator te) (map Name fs)"
  by (cases fs) (auto simp: go_join_Cons dest!: encodeNames_tail)

text \<open>The text of rows: each row is a block that ends in the block separator.\<close>

definition blocks_text :: "TextEncoding \<Rightarrow> string list list \<Rightarrow> string" where
  "blocks_text te tokss =
     concat (map (\<lambda>b. b @ BlockSeparator te) (map (go_join (TokenSeparator te)) tokss))"

lemma encodeRows_ok:
  assumes "encodeRows W S te ri fs rows buf = Inr buf'"
  shows "\<exists>tokss. list_all2 (row_tokens S te fs) rows tokss \<and> buf' = buf @ blocks_text te tokss"
  using assms
proof (induction rows arbitrary: ri buf)
  case Nil
  then show ?case by (simp add: blocks_text_def)
next
  case (Cons row rows)
  from Cons.prems obtain buf1 where
      f: "encodeFields W S te ri 0 fs row buf = Inr buf1"
    and r: "encodeRows W S te (Suc ri) fs rows (buf1 @ BlockSeparator te) = Inr buf'"
    by auto
  from encodeFields_ok [OF f] Cons.IH [OF r] obtain toks tokss where
    "row_tokens S te fs row toks" "buf1 = buf @ go_join (TokenSeparator te) toks"
    "list_all2 (row_tokens S te fs) rows tokss" 
    "buf' = (buf1 @ BlockSeparator te) @ blocks_text te tokss" by blast
  then show ?case by (intro exI [of _ "toks # tokss"]) (auto simp: blocks_text_def)
qed

lemma validateFieldNames_None:
  "validateFieldNamesAgainstSeparators fs te = None \<longleftrightarrow> (\<forall>f \<in> set fs. \<not> has_separator te (Name f))"
  by (induction fs) auto

lemma EncodeText_ok:
  assumes "EncodeText W S (Some r) rows enc = Inr txt"
  obtains te tokss where "Validate (Some r) = None" "resolve enc = Inr te"
    "\<forall>f \<in> set (Fields r). \<not> has_separator te (Name f)"
    "list_all2 (row_tokens S te (Fields r)) rows tokss"
    "txt = blocks_text te ((if EmitHeader te then [map Name (Fields r)] else []) @ tokss)"
proof -
  from assms obtain te buf where v: "Validate (Some r) = None" "resolve enc = Inr te"
      "validateFieldNamesAgainstSeparators (Fields r) te = None"
    and h: "encodeHeader W te (Fields r) = Inr buf"
    and e: "encodeRows W S te 0 (Fields r) rows buf = Inr txt"
    by (auto simp: EncodeText_def simp del: Validate.simps split: option.splits)
  from h have "buf = blocks_text te (if EmitHeader te then [map Name (Fields r)] else [])"
    by (auto simp: encodeHeader_def blocks_text_def dest: encodeNames_ok split: if_splits)
  moreover from encodeRows_ok [OF e] obtain tokss where
    "list_all2 (row_tokens S te (Fields r)) rows tokss" "txt = buf @ blocks_text te tokss" by blast
  ultimately show thesis
    using v by (intro that [of te tokss])
      (simp_all add: validateFieldNames_None blocks_text_def del: Validate.simps)
qed

section \<open>What the decoder reads back\<close>

text \<open>The value a token is read as: a token equal to the field's nil token (empty when none is
  declared) is nil, text is trimmed when the encoding collapses white space, and the rest is
  the value that was written.\<close>

definition textDecoded :: "stdlib \<Rightarrow> TextEncoding \<Rightarrow> DataComponent \<Rightarrow> any \<times> bool \<Rightarrow> any" where
  "textDecoded S te c p =
     (let tok = collapse te (textToken S c p) in
      if tok = nilValueOf c then ANil
      else case fst p of AStr _ \<Rightarrow> AStr tok | w \<Rightarrow> w)"

definition finite_value :: "any \<Rightarrow> bool" where
  "finite_value v \<longleftrightarrow> (case v of AF64 f \<Rightarrow> f64_finite f | _ \<Rightarrow> True)"

lemma decimal_char_printable: "decimal_char c \<Longrightarrow> printable_ascii c"
  unfolding decimal_char_def using is_digit_printable [of c] by (auto simp: printable_ascii_def)

lemma collapse_printable:
  assumes "list_all printable_ascii s" "s \<noteq> []"
  shows "collapse te s = s"
  using assms by (auto simp: collapse_def list_all_iff intro!: trim_space_printable)

lemma collapse_Nil [simp]: "collapse te [] = []"
  by (simp add: collapse_def)

lemma format_bool_printable: "list_all printable_ascii (format_bool b)"
  by (auto simp: format_bool_def printable_ascii_def)

lemma textDecodeField_textToken:
  assumes S: "stdlib_laws S" and e: "emitValue S c v = Inr p" and "finite_value (fst p)"
    and nil: "collapse te (nilValueOf c) = nilValueOf c"
  shows "textDecodeField S c (collapse te (textToken S c p)) = Inr (textDecoded S te c p)"
proof (cases "snd p")
  case True
  with nil show ?thesis by (auto simp: textDecodeField_def textDecoded_def textToken_def)
next
  case False
  with emitValue_Inr [of S c v "fst p" "snd p", simplified] e have "canonical c (fst p)" by simp
  then show ?thesis
  proof (cases rule: canonicalE)
    case (quantity cf code href f)
    with assms False have f: "ParseFloat S (FormatFloat S f) = Some f" "FormatFloat S f \<noteq> []"
        "list_all decimal_char (FormatFloat S f)"
      by (auto simp: stdlib_laws_def finite_value_def)
    then have "collapse te (FormatFloat S f) = FormatFloat S f"
      by (intro collapse_printable) (auto simp: list_all_iff decimal_char_printable)
    with f False quantity show ?thesis
      by (auto simp: textDecodeField_def textDecoded_def textToken_def)
  next
    case (count cf i)
    have "collapse te (format_int (sint i)) = format_int (sint i)"
      by (intro collapse_printable format_int_printable) simp
    moreover have "parse_int 64 (format_int (sint i)) = Some (sint i)"
      using sint_range_size [of i] by (intro parse_int_format_int) (simp_all add: word_size)
    ultimately show ?thesis using False count
      by (auto simp: textDecodeField_def textDecoded_def textToken_def)
  next
    case (boolean cf b)
    have "collapse te (format_bool b) = format_bool b"
      by (intro collapse_printable format_bool_printable) simp
    with False boolean show ?thesis
      by (auto simp: textDecodeField_def textDecoded_def textToken_def)
  qed (use False in \<open>auto simp: textDecodeField_def textDecoded_def textToken_def Let_def\<close>)
qed

text \<open>The row a schema and a row of values are read back as.\<close>

definition textValue :: "stdlib \<Rightarrow> TextEncoding \<Rightarrow> Values \<Rightarrow> Field \<Rightarrow> any" where
  "textValue S te row f =
     (case Component f of
        None \<Rightarrow> ANil
      | Some c \<Rightarrow> (case emitValue S c (fieldValue row (Name f)) of
                     Inl _ \<Rightarrow> ANil | Inr p \<Rightarrow> textDecoded S te c p))"

definition textRow :: "stdlib \<Rightarrow> TextEncoding \<Rightarrow> Field list \<Rightarrow> Values \<Rightarrow> Values" where
  "textRow S te fs row = Map.empty(map Name fs [\<mapsto>] map (textValue S te row) fs)"

definition finite_row :: "stdlib \<Rightarrow> Field list \<Rightarrow> Values \<Rightarrow> bool" where
  "finite_row S fs row \<longleftrightarrow> list_all (\<lambda>f. finite_value (emittedValue S row f)) fs"

definition trimmed_nils :: "TextEncoding \<Rightarrow> Field list \<Rightarrow> bool" where
  "trimmed_nils te fs \<longleftrightarrow>
     list_all (\<lambda>f. case Component f of None \<Rightarrow> True
                   | Some c \<Rightarrow> collapse te (nilValueOf c) = nilValueOf c) fs"

definition trimmed_names :: "TextEncoding \<Rightarrow> Field list \<Rightarrow> bool" where
  "trimmed_names te fs \<longleftrightarrow> list_all (\<lambda>f. collapse te (Name f) = Name f) fs"

lemma decodeTokens_row:
  assumes "stdlib_laws S" "row_tokens S te fs row toks" "finite_row S fs row" "trimmed_nils te fs"
  shows "decodeTokens S te bi fs toks acc =
           Inr (acc(map Name fs [\<mapsto>] map (textValue S te row) fs))"
  using assms(2-)
proof (induction fs arbitrary: toks acc)
  case Nil
  then show ?case by simp
next
  case (Cons f fs)
  from Cons.prems(1) obtain tok toks' c p where toks: "toks = tok # toks'"
      and rt: "row_tokens S te fs row toks'" and c: "Component f = Some c"
      and em: "emitValue S c (fieldValue row (Name f)) = Inr p" and tok: "tok = textToken S c p"
    by (auto simp: row_tokens_def list_all2_Cons1 textEncodeField_def)
  have "finite_value (fst p)" "finite_row S fs row"
    using Cons.prems(2) c em by (simp_all add: finite_row_def emittedValue_def emitField_def)
  moreover have "collapse te (nilValueOf c) = nilValueOf c" and tn: "trimmed_nils te fs"
    using Cons.prems(3) c by (simp_all add: trimmed_nils_def)
  ultimately have d: "textDecodeField S c (collapse te tok) = Inr (textValue S te row f)"
    using textDecodeField_textToken [OF assms(1) em] c em tok by (simp add: textValue_def)
  have "decodeTokens S te bi (f # fs) toks acc =
          decodeTokens S te bi fs toks' (acc(Name f \<mapsto> textValue S te row f))"
    using c d toks by simp
  also have "\<dots> = Inr ((acc(Name f \<mapsto> textValue S te row f))(map Name fs [\<mapsto>] map (textValue S te row) fs))"
    by (rule Cons.IH) (fact rt \<open>finite_row S fs row\<close> tn)+
  finally show ?case by simp
qed

lemma row_tokens_clean:
  "row_tokens S te fs row toks \<Longrightarrow> \<forall>tok \<in> set toks. \<not> has_separator te tok"
  by (auto simp: row_tokens_def list_all2_conv_all_nth in_set_conv_nth)

lemma row_tokens_split:
  assumes "row_tokens S te fs row toks" "fs \<noteq> []" "TokenSeparator te = [t]"
  shows "go_split [t] (go_join [t] toks) = toks" "length toks = length fs" "toks \<noteq> []"
proof -
  from assms show "length toks = length fs" "toks \<noteq> []"
    by (auto simp: row_tokens_def dest: list_all2_lengthD)
  moreover have "\<forall>tok \<in> set toks. t \<notin> set tok"
    using row_tokens_clean [OF assms(1)] assms(3) by (simp add: has_separator_def go_str)
  ultimately show "go_split [t] (go_join [t] toks) = toks" by (intro go_split_join)
qed

lemma decodeBlocks_rows:
  assumes "stdlib_laws S" "fs \<noteq> []" "TokenSeparator te = [t]" "trimmed_nils te fs"
    and "list_all2 (row_tokens S te fs) rows tokss" "list_all (finite_row S fs) rows"
  shows "decodeBlocks S te bi fs (map (go_join [t]) tokss) acc =
           Inr (acc @ map (textRow S te fs) rows)"
  using assms(5,6)
proof (induction rows arbitrary: tokss bi acc)
  case (Cons row rows)
  from Cons.prems obtain toks tokss' where toks: "tokss = toks # tokss'"
      "row_tokens S te fs row toks" "list_all2 (row_tokens S te fs) rows tokss'"
    and fin: "finite_row S fs row" "list_all (finite_row S fs) rows"
    by (auto simp: list_all2_Cons1)
  have d: "decodeTokens S te bi fs toks Map.empty = Inr (textRow S te fs row)"
    unfolding textRow_def by (rule decodeTokens_row [OF assms(1) toks(2) fin(1) assms(4)])
  have "decodeBlocks S te bi fs (map (go_join [t]) tokss) acc =
          decodeBlocks S te (Suc bi) fs (map (go_join [t]) tokss') (acc @ [textRow S te fs row])"
    using row_tokens_split [OF toks(2) assms(2,3)] assms(3) d toks(1) by simp
  with Cons.IH [OF toks(3) fin(2)] show ?case by simp
qed simp

lemma blocks_split:
  assumes "BlockSeparator te = [b]" "\<forall>x \<in> set blocks. b \<notin> set x"
  shows "go_split [b] (concat (map (\<lambda>x. x @ BlockSeparator te) blocks)) = blocks @ [[]]"
  using go_split_blocks [of blocks b] assms by simp

lemma join_clean:
  assumes "\<forall>tok \<in> set toks. \<not> has_separator te tok" "TokenSeparator te = [t]"
    "BlockSeparator te = [b]" "t \<noteq> b"
  shows "b \<notin> set (go_join [t] toks)"
proof -
  have "\<forall>tok \<in> set toks. b \<notin> set tok"
    using assms(1,3) by (simp add: has_separator_def go_str)
  with set_go_join [of "[t]" toks] assms(4) show ?thesis by auto
qed

lemma validateColumns_names:
  "trimmed_names te fs \<Longrightarrow> validateColumns te i (map Name fs) fs = None"
  by (induction fs arbitrary: i) (auto simp: trimmed_names_def)

lemma EncodeText_roundtrip:
  assumes e: "EncodeText W S (Some r) rows enc = Inr txt"
    and te: "resolve enc = Inr te" "TokenSeparator te = [t]" "BlockSeparator te = [b]"
    and S: "stdlib_laws S" "trimmed_nils te (Fields r)" "list_all (finite_row S (Fields r)) rows"
    and h: "EmitHeader te \<Longrightarrow> trimmed_names te (Fields r)"
  shows "DecodeText S (Inr txt) (Some r) enc = Inr (map (textRow S te (Fields r)) rows)"
proof -
  from EncodeText_ok [OF e] te(1) obtain tokss where v: "Validate (Some r) = None"
    and names: "\<forall>f \<in> set (Fields r). \<not> has_separator te (Name f)"
    and toks: "list_all2 (row_tokens S te (Fields r)) rows tokss"
    and tx: "txt = blocks_text te ((if EmitHeader te then [map Name (Fields r)] else []) @ tokss)"
    by (metis Inr_inject)
  from v have fs: "Fields r \<noteq> []" by (simp add: Validate_None del: Validate.simps)
  from te have tb: "t \<noteq> b" by (auto simp: resolve_def Let_def split: if_splits)
  define blocks where "blocks = map (go_join [t]) ((if EmitHeader te then [map Name (Fields r)] else []) @ tokss)"
  have clean: "\<forall>tok \<in> set toks. \<not> has_separator te tok" if "toks \<in> set tokss" for toks
    using toks that by (metis (no_types, lifting) in_set_conv_nth list_all2_conv_all_nth row_tokens_clean)
  have "\<forall>x \<in> set blocks. b \<notin> set x"
    using clean names join_clean [OF _ te(2,3) tb] by (auto simp: blocks_def)
  from blocks_split [OF te(3) this] have split: "go_split [b] txt = blocks @ [[]]"
    by (simp add: tx blocks_text_def blocks_def te)
  have "decodeAll S te (Fields r) blocks = Inr (map (textRow S te (Fields r)) rows)"
  proof (cases "EmitHeader te")
    case True
    have "go_split [t] (go_join [t] (map Name (Fields r))) = map Name (Fields r)"
      using fs names te(2) by (intro go_split_join) (auto simp: has_separator_def go_str)
    then have "validateHeader (go_join [t] (map Name (Fields r))) (Fields r) te = None"
      using validateColumns_names [OF h [OF True]] te(2) by (simp add: validateHeader_def)
    with decodeBlocks_rows [OF S(1) fs te(2) S(2) toks S(3)] True show ?thesis
      by (simp add: decodeAll_def blocks_def)
  next
    case False
    with decodeBlocks_rows [OF S(1) fs te(2) S(2) toks S(3)] show ?thesis
      by (cases rows; cases tokss) (simp_all add: decodeAll_def blocks_def)
  qed
  moreover have "txt = [] \<longrightarrow> rows = []"
    using toks tx te by (cases tokss) (auto simp: blocks_text_def)
  ultimately show ?thesis
    using v te split by (auto simp: DecodeText_def simp del: Validate.simps)
qed
section \<open>Properties\<close>

text \<open>Claim C36: with one-character separators (the default ones are), what \<open>EncodeText\<close> writes,
  \<open>DecodeText\<close> reads back: the same number of rows, every value the one that was emitted, up
  to what the format cannot carry (a token equal to the nil token is nil, an empty one without a
  nil token is nil, text is trimmed when white space is collapsed). Assumed: the documented laws of
  the float and time conversions, finite floats, nil tokens that survive trimming, and, with a
  header, field names that do.\<close>

theorem text_roundtrip:
  assumes "EncodeText W S (Some r) rows enc = Inr csv"
    and "resolve enc = Inr te" "TokenSeparator te = [t]" "BlockSeparator te = [b]"
    and "stdlib_laws S" "trimmed_nils te (Fields r)" "list_all (finite_row S (Fields r)) rows"
    and "EmitHeader te \<Longrightarrow> trimmed_names te (Fields r)"
  shows "DecodeText S (Inr csv) (Some r) enc = Inr (map (textRow S te (Fields r)) rows)"
  by (rule EncodeText_roundtrip) (fact assms)+

definition csvWithHeader :: TextEncoding where
  "csvWithHeader = DefaultTextEncoding\<lparr>EmitHeader := True\<rparr>"

lemma csvWithHeader_resolve: "resolve csvWithHeader = Inr csvWithHeader"
  by (simp add: resolve_def csvWithHeader_def DefaultTextEncoding_def newline_def)

lemma sample_csv:
  "EncodeText textBuffer bitsStdlib (Some (the sampleSchema)) [sampleRow] csvWithHeader =
     Inr (''n,ok,note'' @ newline @ ''7,,hi'' @ newline)"
  by code_simp

theorem text_roundtrip_witness:
  "DecodeText bitsStdlib (Inr (''n,ok,note'' @ newline @ ''7,,hi'' @ newline))
     (Some (the sampleSchema)) csvWithHeader =
   Inr [textRow bitsStdlib csvWithHeader (Fields (the sampleSchema)) sampleRow]"
proof -
  have "trimmed_nils csvWithHeader (Fields (the sampleSchema))"
    "list_all (finite_row bitsStdlib (Fields (the sampleSchema))) [sampleRow]"
    "trimmed_names csvWithHeader (Fields (the sampleSchema))"
    by code_simp+
  then show ?thesis
    using text_roundtrip [OF sample_csv csvWithHeader_resolve _ _ bitsStdlib_laws]
    by (simp add: csvWithHeader_def DefaultTextEncoding_def newline_def)
qed

text \<open>With a separator of two characters the containment check of the encoder is not
  enough. The tokens \<open>a:\<close> and \<open>b\<close> both pass it for the separator \<open>::\<close>, but the row is
  written as \<open>a:::b\<close>, and the leftmost split reads it back as \<open>a\<close> and \<open>:b\<close>.\<close>

definition pairSchema :: DataRecord where
  "pairSchema = DataRecord plainCommon
     [Field ''x'' (Some (Text plainCommon)), Field ''y'' (Some (Text plainCommon))]"

definition colonEncoding :: TextEncoding where
  "colonEncoding = DefaultTextEncoding\<lparr>TokenSeparator := ''::''\<rparr>"

definition colonRow :: Values where
  "colonRow = [''x'' \<mapsto> AStr ''a:'', ''y'' \<mapsto> AStr ''b'']"

theorem text_overlap_misreads:
  "MarshalTextRows bitsStdlib (Some pairSchema) [colonRow] colonEncoding =
     Inr (''a:::b'' @ newline) \<and>
   DecodeText bitsStdlib (Inr (''a:::b'' @ newline)) (Some pairSchema) colonEncoding =
     Inr [[''x'' \<mapsto> AStr ''a'', ''y'' \<mapsto> AStr '':b'']]"
proof
  show "MarshalTextRows bitsStdlib (Some pairSchema) [colonRow] colonEncoding =
     Inr (''a:::b'' @ newline)" by code_simp
  have "go_split newline (''a:::b'' @ newline) = [''a:::b'', []]"
    "go_split ''::'' ''a:::b'' = [''a'', '':b'']" "trim_space ''a'' = ''a''" "trim_space '':b'' = '':b''"
    by code_simp+
  then show "DecodeText bitsStdlib (Inr (''a:::b'' @ newline)) (Some pairSchema) colonEncoding =
     Inr [[''x'' \<mapsto> AStr ''a'', ''y'' \<mapsto> AStr '':b'']]"
    by (simp add: DecodeText_def pairSchema_def plainCommon_def resolve_def colonEncoding_def
        DefaultTextEncoding_def decodeAll_def textDecodeField_def nilValueOf_def collapse_def
        newline_def)
qed
end
