(* ===== verification/Utf8.thy ===== *)
theory Utf8
  imports Prelude
begin

text \<open>
  How \<open>encoding/json\<close> writes a string that is not valid UTF-8: the SWE Common encoder and the SensorML
  documents share it.
\<close>

text \<open>Bytes that are not valid UTF-8 are replaced by U+FFFD one by one. \<open>utf8_len\<close> is the
  length of the rune the string starts with, 0 when it starts with none.\<close>

definition tail_byte :: "nat \<Rightarrow> nat \<Rightarrow> char \<Rightarrow> bool" where
  "tail_byte lo hi c \<longleftrightarrow> lo \<le> of_char c \<and> of_char c \<le> hi"

definition utf8_len :: "string \<Rightarrow> nat" where
  "utf8_len s =
     (let b = (\<lambda>i. of_char (s ! i) :: nat);
          ok = (\<lambda>i lo hi. i < length s \<and> tail_byte lo hi (s ! i))
      in if s = [] then 0
         else if b 0 < 0x80 then 1
         else if 0xC2 \<le> b 0 \<and> b 0 \<le> 0xDF then (if ok 1 0x80 0xBF then 2 else 0)
         else if 0xE0 \<le> b 0 \<and> b 0 \<le> 0xEF then
           (if ok 1 (if b 0 = 0xE0 then 0xA0 else 0x80) (if b 0 = 0xED then 0x9F else 0xBF) \<and>
               ok 2 0x80 0xBF then 3 else 0)
         else if 0xF0 \<le> b 0 \<and> b 0 \<le> 0xF4 then
           (if ok 1 (if b 0 = 0xF0 then 0x90 else 0x80) (if b 0 = 0xF4 then 0x8F else 0xBF) \<and>
               ok 2 0x80 0xBF \<and> ok 3 0x80 0xBF then 4 else 0)
         else 0)"

function coerce_utf8 :: "string \<Rightarrow> string" where
  "coerce_utf8 s =
     (if s = [] then []
      else if utf8_len s = 0 then [CHR 0xEF, CHR 0xBF, CHR 0xBD] @ coerce_utf8 (drop 1 s)
      else take (utf8_len s) s @ coerce_utf8 (drop (utf8_len s) s))"
  by pat_completeness auto
termination by (relation "measure length") auto

declare coerce_utf8.simps [simp del]

lemma coerce_utf8_Nil [simp]: "coerce_utf8 [] = []"
  by (simp add: coerce_utf8.simps)

lemma coerce_utf8_empty [simp]: "coerce_utf8 s = [] \<longleftrightarrow> s = []"
  by (subst coerce_utf8.simps) auto

end
