(* ===== verification/SweJson.thy ===== *)
theory SweJson
  imports SweBinary Utf8 "HOL-Library.List_Lexorder" "HOL-Library.Char_ord"
begin

text \<open>
  \<open>pkg/swecommon/json.go\<close>: the schema-bound JSON encoding, on JSON trees. The number text
  \<open>encoding/json\<close> writes for a float is the parameter \<open>num\<close>; \<open>json_float_laws\<close> says what
  its documentation promises of it. What scanning the input gives, and whether the underlying
  writer fails, are parameters too.
\<close>

section \<open>Numbers of encoding/json\<close>

text \<open>\<open>isValidNumber\<close>: an optional minus, an integer part without a leading zero, an optional
  fraction and an optional exponent.\<close>

definition skip_digits :: "string \<Rightarrow> string" where
  "skip_digits s = dropWhile is_digit s"

definition valid_exponent :: "string \<Rightarrow> bool" where
  "valid_exponent s =
     (case s of
        [] \<Rightarrow> True
      | e # r \<Rightarrow>
          if e \<in> set ''eE'' then
            (let d = (case r of c # r' \<Rightarrow> if c \<in> set ''+-'' then r' else r | [] \<Rightarrow> r)
             in d \<noteq> [] \<and> skip_digits d = [])
          else False)"

definition valid_fraction :: "string \<Rightarrow> bool" where
  "valid_fraction s =
     (case s of
        c # d # r \<Rightarrow> if c = CHR ''.'' \<and> is_digit d then valid_exponent (skip_digits r)
                     else valid_exponent s
      | _ \<Rightarrow> valid_exponent s)"

definition valid_number :: "string \<Rightarrow> bool" where
  "valid_number s =
     (let u = (case s of c # r \<Rightarrow> if c = CHR ''-'' then r else s | [] \<Rightarrow> s) in
      case u of
        [] \<Rightarrow> False
      | c # r \<Rightarrow> if c = CHR ''0'' then valid_fraction r
                 else is_digit c \<and> valid_fraction (skip_digits r))"

section \<open>Encoding\<close>

datatype json_error =
    JsonSchema swe_error
  | JsonRow nat field_error
  | UnsupportedValue
  | JsonSyntax
  | JsonTypeError
  | JsonIO io_error

fun jsonRow ::
  "stdlib \<Rightarrow> nat \<Rightarrow> Field list \<Rightarrow> Values \<Rightarrow> Values \<Rightarrow> json_error + Values"
where
  "jsonRow S i [] row acc = Inr acc"
| "jsonRow S i (f # fs) row acc =
     (case emitField S row f of
        Inl e \<Rightarrow> Inl (JsonRow i e)
      | Inr (canon, isNil) \<Rightarrow>
          if isNil then jsonRow S i fs row (acc(Name f \<mapsto> ANil))
          else jsonRow S i fs row (acc(Name f \<mapsto> canon)))"

fun jsonRows ::
  "stdlib \<Rightarrow> nat \<Rightarrow> Field list \<Rightarrow> Values list \<Rightarrow> json_error + Values list"
where
  "jsonRows S i fs [] = Inr []"
| "jsonRows S i fs (row # rows) =
     sbind (jsonRow S i fs row Map.empty) (\<lambda>obj.
       sbind (jsonRows S (Suc i) fs rows) (\<lambda>objs. Inr (obj # objs)))"

text \<open>\<open>json.Marshal\<close> of the canonical values and of a map, whose keys it sorts; a float that is
  not finite is an error.\<close>

definition marshalAny :: "(f64 \<Rightarrow> string) \<Rightarrow> any \<Rightarrow> json_error + json" where
  "marshalAny num v =
     (case v of
        ANil \<Rightarrow> Inr JNull
      | AF64 f \<Rightarrow> if f64_finite f then Inr (JNum (num f)) else Inl UnsupportedValue
      | AInt64 i \<Rightarrow> Inr (JNum (format_int (sint i)))
      | ABool b \<Rightarrow> Inr (JBool b)
      | AStr s \<Rightarrow> Inr (JStr (coerce_utf8 s))
      | _ \<Rightarrow> Inl JsonTypeError)"

definition marshalMap :: "(f64 \<Rightarrow> string) \<Rightarrow> string list \<Rightarrow> Values \<Rightarrow> json_error + json" where
  "marshalMap num keys m =
     sbind (smap_list (\<lambda>k. sbind (marshalAny num (fieldValue m k)) (\<lambda>j. Inr (coerce_utf8 k, j)))
              (sort (remdups keys)))
       (\<lambda>kvs. Inr (JObj kvs))"

definition EncodeJSON ::
  "(json \<Rightarrow> io_error option) \<Rightarrow> stdlib \<Rightarrow> (f64 \<Rightarrow> string) \<Rightarrow> DataRecord option \<Rightarrow> Values list \<Rightarrow>
   json_error + json"
where
  "EncodeJSON W S num schema rows =
     (case schema of
        None \<Rightarrow> Inl (JsonSchema NilRecord)
      | Some r \<Rightarrow>
         (case Validate schema of
            Some e \<Rightarrow> Inl (JsonSchema e)
          | None \<Rightarrow>
              sbind (jsonRows S 0 (Fields r) rows) (\<lambda>objs.
                sbind (smap_list (marshalMap num (map Name (Fields r))) objs) (\<lambda>js.
                  case W (JArr js) of Some e \<Rightarrow> Inl (JsonIO e) | None \<Rightarrow> Inr (JArr js)))))"

definition MarshalJSONRows ::
  "stdlib \<Rightarrow> (f64 \<Rightarrow> string) \<Rightarrow> DataRecord option \<Rightarrow> Values list \<Rightarrow> json_error + json"
where
  "MarshalJSONRows S num schema rows = EncodeJSON (\<lambda>_. None) S num schema rows"

section \<open>Decoding\<close>

text \<open>\<open>json.Unmarshal\<close> into a \<open>json.Number\<close>: a number literal, or a string that is one.\<close>

definition jsonNumber :: "json \<Rightarrow> string option" where
  "jsonNumber j =
     (case j of
        JNum s \<Rightarrow> Some s
      | JStr s \<Rightarrow> if valid_number s then Some s else None
      | _ \<Rightarrow> None)"

definition jsonString :: "json \<Rightarrow> val_error + any" where
  "jsonString j = (case j of JStr s \<Rightarrow> Inr (AStr s) | _ \<Rightarrow> Inl NotAString)"

definition jsonDecodeField :: "stdlib \<Rightarrow> DataComponent \<Rightarrow> json \<Rightarrow> val_error + any" where
  "jsonDecodeField S c j =
     (case c of
        Quantity _ _ _ \<Rightarrow>
          (case jsonNumber j of
             None \<Rightarrow> Inl NotANumber
           | Some n \<Rightarrow> (case ParseFloat S n of None \<Rightarrow> Inl (ParseFloatError n) | Some f \<Rightarrow> Inr (AF64 f)))
      | Count _ \<Rightarrow>
          (case jsonNumber j of
             None \<Rightarrow> Inl NotANumber
           | Some n \<Rightarrow> (case parse_int 64 n of None \<Rightarrow> Inl (ParseIntError n)
                                             | Some i \<Rightarrow> Inr (AInt64 (word_of_int i))))
      | Time _ _ _ \<Rightarrow> jsonString j
      | Boolean _ \<Rightarrow> (case j of JBool b \<Rightarrow> Inr (ABool b) | _ \<Rightarrow> Inl NotABool)
      | Text _ \<Rightarrow> jsonString j
      | Category _ _ \<Rightarrow> jsonString j
      | RecordPtr _ \<Rightarrow> Inl NestedValue)"

fun jsonDecodeRow ::
  "stdlib \<Rightarrow> nat \<Rightarrow> Field list \<Rightarrow> (string \<rightharpoonup> json) \<Rightarrow> Values \<Rightarrow> json_error + Values"
where
  "jsonDecodeRow S i [] raw acc = Inr acc"
| "jsonDecodeRow S i (f # fs) raw acc =
     (case raw (Name f) of
        None \<Rightarrow> jsonDecodeRow S i fs raw acc
      | Some j \<Rightarrow>
          if j = JNull then jsonDecodeRow S i fs raw (acc(Name f \<mapsto> ANil))
          else case Component f of
                 None \<Rightarrow> Inl (JsonRow i (FieldPanic (Name f)))
               | Some c \<Rightarrow>
                   (case jsonDecodeField S c j of
                      Inl e \<Rightarrow> Inl (JsonRow i (FieldValue (Name f) e))
                    | Inr v \<Rightarrow> jsonDecodeRow S i fs raw (acc(Name f \<mapsto> v))))"

fun jsonDecodeRows ::
  "stdlib \<Rightarrow> nat \<Rightarrow> Field list \<Rightarrow> (string \<rightharpoonup> json) list \<Rightarrow> json_error + Values list"
where
  "jsonDecodeRows S i fs [] = Inr []"
| "jsonDecodeRows S i fs (raw # raws) =
     sbind (jsonDecodeRow S i fs raw Map.empty) (\<lambda>row.
       sbind (jsonDecodeRows S (Suc i) fs raws) (\<lambda>rows. Inr (row # rows)))"

text \<open>Binding the document to \<open>[]map[string]json.RawMessage\<close>.\<close>

definition rawRow :: "json \<Rightarrow> json_error + (string \<rightharpoonup> json)" where
  "rawRow j = (case j of JObj kvs \<Rightarrow> Inr (jmap kvs) | JNull \<Rightarrow> Inr Map.empty | _ \<Rightarrow> Inl JsonTypeError)"

definition rawRows :: "json \<Rightarrow> json_error + (string \<rightharpoonup> json) list" where
  "rawRows j = (case j of JArr xs \<Rightarrow> smap_list rawRow xs | JNull \<Rightarrow> Inr [] | _ \<Rightarrow> Inl JsonTypeError)"

definition DecodeJSON ::
  "stdlib \<Rightarrow> json_error + json \<Rightarrow> DataRecord option \<Rightarrow> json_error + Values list"
where
  "DecodeJSON S input schema =
     (case schema of
        None \<Rightarrow> Inl (JsonSchema NilRecord)
      | Some r \<Rightarrow>
         (case Validate schema of
            Some e \<Rightarrow> Inl (JsonSchema e)
          | None \<Rightarrow>
              sbind input (\<lambda>doc. sbind (rawRows doc) (\<lambda>raws. jsonDecodeRows S 0 (Fields r) raws))))"

section \<open>The round trip\<close>

definition json_float_laws :: "stdlib \<Rightarrow> (f64 \<Rightarrow> string) \<Rightarrow> bool" where
  "json_float_laws S num \<longleftrightarrow> (\<forall>f. f64_finite f \<longrightarrow> ParseFloat S (num f) = Some f)"

text \<open>The value an emitted one is read back as, and the row.\<close>

definition jsonDecoded :: "any \<Rightarrow> any" where
  "jsonDecoded v = (case v of AStr s \<Rightarrow> AStr (coerce_utf8 s) | _ \<Rightarrow> v)"

definition jsonDecodedRow :: "stdlib \<Rightarrow> Field list \<Rightarrow> Values \<Rightarrow> Values" where
  "jsonDecodedRow S fs row =
     Map.empty(map Name fs [\<mapsto>] map (\<lambda>f. jsonDecoded (emittedValue S row f)) fs)"

lemma jsonDecodeField_marshalAny:
  assumes "json_float_laws S num" "canonical c v" "marshalAny num v = Inr j"
  shows "j \<noteq> JNull \<and> jsonDecodeField S c j = Inr (jsonDecoded v)"
  using assms(2)
proof (cases rule: canonicalE)
  case (quantity cf code href f)
  with assms show ?thesis
    by (auto simp: marshalAny_def json_float_laws_def jsonDecodeField_def jsonNumber_def
        jsonDecoded_def split: if_splits)
next
  case (count cf i)
  have "parse_int 64 (format_int (sint i)) = Some (sint i)"
    using sint_range_size [of i] by (intro parse_int_format_int) (simp_all add: word_size)
  with count assms show ?thesis
    by (auto simp: marshalAny_def jsonDecodeField_def jsonNumber_def jsonDecoded_def)
qed (use assms in \<open>auto simp: marshalAny_def jsonDecodeField_def jsonString_def jsonDecoded_def\<close>)

lemma jsonRow_ok:
  "jsonRow S i fs row acc = Inr m \<Longrightarrow>
   m = acc(map Name fs [\<mapsto>] map (emittedValue S row) fs) \<and>
   (\<forall>f \<in> set fs. \<exists>p. emitField S row f = Inr p)"
proof (induction S i fs row acc rule: jsonRow.induct)
  case (2 S i f fs row acc)
  from "2.prems" obtain w b where em: "emitField S row f = Inr (w, b)"
    by (auto split: sum.splits)
  have w: "b \<Longrightarrow> w = ANil" "emittedValue S row f = w"
    using emitField_typed [OF em] em by (auto simp: emittedValue_def)
  with "2.prems" em have r: "jsonRow S i fs row (acc(Name f \<mapsto> w)) = Inr m"
    by (cases b) simp_all
  have "m = (acc(Name f \<mapsto> w))(map Name fs [\<mapsto>] map (emittedValue S row) fs) \<and>
        (\<forall>f \<in> set fs. \<exists>p. emitField S row f = Inr p)"
  proof (cases b)
    case True
    with w r have "jsonRow S i fs row (acc(Name f \<mapsto> ANil)) = Inr m" by simp
    from "2.IH"(1) [OF em refl True this] show ?thesis unfolding w(1) [OF True] .
  next
    case False
    from "2.IH"(2) [OF em refl False r] show ?thesis .
  qed
  with w em show ?case by (metis (no_types, lifting) list.simps(9) map_upds_Cons set_ConsD)
qed simp

lemma fieldValue_row:
  assumes "distinct (map Name fs)" "f \<in> set fs"
  shows "fieldValue (Map.empty(map Name fs [\<mapsto>] map g fs)) (Name f) = g f"
proof -
  have "(acc(map Name fs [\<mapsto>] map g fs)) (Name f) = Some (g f)" for acc
    using assms
  proof (induction fs arbitrary: acc)
    case (Cons h hs)
    show ?case
    proof (cases "f \<in> set hs")
      case True
      with Cons.prems have "Name f \<noteq> Name h" by (metis distinct.simps(2) image_eqI list.simps(9) set_map)
      with True Cons show ?thesis by simp
    next
      case False
      with Cons.prems have "f = h" "Name f \<notin> set (map Name hs)" by auto
      then show ?thesis by (simp add: map_upds_twist)
    qed
  qed simp
  then show ?thesis by (simp add: fieldValue_def)
qed

lemma marshalMap_lookup:
  assumes "marshalMap num keys m = Inr j" "\<forall>k \<in> set keys. coerce_utf8 k = k" "k \<in> set keys"
  shows "\<exists>kvs v. j = JObj kvs \<and> marshalAny num (fieldValue m k) = Inr v \<and> jmap kvs k = Some v"
proof -
  let ?f = "\<lambda>k. sbind (marshalAny num (fieldValue m k)) (\<lambda>j. Inr (coerce_utf8 k, j))"
  from assms(1) obtain kvs where j: "j = JObj kvs"
    and sm: "smap_list ?f (sort (remdups keys)) = Inr kvs"
    by (auto simp: marshalMap_def)
  have l: "list_all2 (\<lambda>k kv. fst kv = k \<and> marshalAny num (fieldValue m k) = Inr (snd kv))
          (sort (remdups keys)) kvs"
    by (rule list.rel_mono_strong [OF sm [unfolded smap_list_Inr]]) (use assms(2) in auto)
  then have keys: "map fst kvs = sort (remdups keys)"
    by (simp add: list_all2_conv_all_nth list_eq_iff_nth_eq)
  from assms(3) obtain n where n: "n < length kvs" "sort (remdups keys) ! n = k"
    using keys by (metis in_set_conv_nth length_map set_remdups set_sort)
  with list_all2_nthD2 [OF l n(1)] have kv: "kvs ! n \<in> set kvs" "fst (kvs ! n) = k"
      "marshalAny num (fieldValue m k) = Inr (snd (kvs ! n))" by auto
  have "distinct (map fst (rev kvs))"
    by (simp add: keys flip: rev_map)
  moreover have "(k, snd (kvs ! n)) \<in> set (rev kvs)" using kv(1,2) by (metis prod.collapse set_rev)
  ultimately have "jmap kvs k = Some (snd (kvs ! n))"
    unfolding jmap_def by (rule map_of_is_SomeI)
  with j kv(3) show ?thesis by blast
qed

lemma jsonDecodeRow_total:
  assumes "\<And>f. f \<in> set fs \<Longrightarrow>
     (raw (Name f) = Some JNull \<and> g f = ANil) \<or>
     (\<exists>c j. raw (Name f) = Some j \<and> j \<noteq> JNull \<and> Component f = Some c \<and> jsonDecodeField S c j = Inr (g f))"
  shows "jsonDecodeRow S i fs raw acc = Inr (acc(map Name fs [\<mapsto>] map g fs))"
  using assms
proof (induction fs arbitrary: acc)
  case (Cons f fs)
  have "jsonDecodeRow S i (f # fs) raw acc = jsonDecodeRow S i fs raw (acc(Name f \<mapsto> g f))"
    using Cons.prems [of f] by auto
  also have "\<dots> = Inr ((acc(Name f \<mapsto> g f))(map Name fs [\<mapsto>] map g fs))"
    by (rule Cons.IH) (use Cons.prems in simp)
  finally show ?case by simp
qed simp

lemma json_row_roundtrip:
  assumes S: "json_float_laws S num"
    and fs: "distinct (map Name fs)" "\<forall>f \<in> set fs. coerce_utf8 (Name f) = Name f"
    and m: "jsonRow S i fs row Map.empty = Inr m" "marshalMap num (map Name fs) m = Inr j"
  shows "\<exists>raw. rawRow j = Inr raw \<and>
           (\<forall>k. jsonDecodeRow S k fs raw Map.empty = Inr (jsonDecodedRow S fs row))"
proof -
  obtain kvs where j: "j = JObj kvs" using m(2) by (auto simp: marshalMap_def)
  have "(jmap kvs (Name f) = Some JNull \<and> jsonDecoded (emittedValue S row f) = ANil) \<or>
        (\<exists>c v. jmap kvs (Name f) = Some v \<and> v \<noteq> JNull \<and> Component f = Some c \<and>
           jsonDecodeField S c v = Inr (jsonDecoded (emittedValue S row f)))"
    if f: "f \<in> set fs" for f
  proof -
    from jsonRow_ok [OF m(1)] f obtain p where p: "emitField S row f = Inr p" by blast
    from jsonRow_ok [OF m(1)] fieldValue_row [OF fs(1) f, of "emittedValue S row"]
    have v: "fieldValue m (Name f) = fst p" using p by (simp add: emittedValue_def)
    from marshalMap_lookup [OF m(2), of "Name f"] fs(2) f v j obtain x where
      x: "marshalAny num (fst p) = Inr x" "jmap kvs (Name f) = Some x" by auto
    have e: "emittedValue S row f = fst p" using p by (simp add: emittedValue_def)
    show ?thesis
    proof (cases "snd p")
      case True
      with emitField_typed [OF p] x e show ?thesis by (auto simp: marshalAny_def jsonDecoded_def)
    next
      case False
      with emitField_typed [OF p] obtain c where "Component f = Some c" "canonical c (fst p)" by auto
      with jsonDecodeField_marshalAny [OF S this(2) x(1)] x e show ?thesis by auto
    qed
  qed
  then have "jsonDecodeRow S k fs (jmap kvs) Map.empty = Inr (jsonDecodedRow S fs row)" for k
    unfolding jsonDecodedRow_def by (intro jsonDecodeRow_total) blast
  then show ?thesis by (simp add: rawRow_def j)
qed

lemma json_rows_roundtrip:
  assumes S: "json_float_laws S num"
    and fs: "distinct (map Name fs)" "\<forall>f \<in> set fs. coerce_utf8 (Name f) = Name f"
    and m: "jsonRows S i fs rows = Inr ms" "smap_list (marshalMap num (map Name fs)) ms = Inr js"
  shows "\<exists>raws. smap_list rawRow js = Inr raws \<and>
           (\<forall>k. jsonDecodeRows S k fs raws = Inr (map (jsonDecodedRow S fs) rows))"
  using m
proof (induction rows arbitrary: i ms js)
  case (Cons row rows)
  from Cons.prems obtain m ms' j js' where ms: "ms = m # ms'" "js = j # js'"
      and r: "jsonRow S i fs row Map.empty = Inr m" "marshalMap num (map Name fs) m = Inr j"
      and rs: "jsonRows S (Suc i) fs rows = Inr ms'" "smap_list (marshalMap num (map Name fs)) ms' = Inr js'"
    by auto
  from json_row_roundtrip [OF S fs r] Cons.IH [OF rs] ms show ?case by auto
qed auto

section \<open>Properties\<close>

text \<open>Claim C37: the JSON rows round-trip. What \<open>EncodeJSON\<close> writes, \<open>DecodeJSON\<close> reads back with one
  row per row and every schema field bound: to null for a nil or nil-token value, to the
  emitted value otherwise, invalid UTF-8 replaced. Assumed: the documented law of the float text,
  and field names that are valid UTF-8.\<close>

theorem json_roundtrip:
  assumes "EncodeJSON W S num (Some r) rows = Inr doc" "json_float_laws S num"
    and "\<forall>f \<in> set (Fields r). coerce_utf8 (Name f) = Name f"
  shows "DecodeJSON S (Inr doc) (Some r) = Inr (map (jsonDecodedRow S (Fields r)) rows)"
proof -
  from assms(1) obtain ms js where v: "Validate (Some r) = None"
    and m: "jsonRows S 0 (Fields r) rows = Inr ms"
      "smap_list (marshalMap num (map Name (Fields r))) ms = Inr js" and doc: "doc = JArr js"
    by (auto simp: EncodeJSON_def simp del: Validate.simps split: option.splits)
  from v have "distinct (map Name (Fields r))" by (simp add: Validate_None del: Validate.simps)
  from json_rows_roundtrip [OF assms(2) this assms(3) m] v doc show ?thesis
    by (auto simp: DecodeJSON_def rawRows_def simp del: Validate.simps)
qed

lemma sample_json:
  "EncodeJSON (\<lambda>_. None) bitsStdlib (FormatFloat bitsStdlib) (Some (the sampleSchema)) [sampleRow] =
     Inr (JArr [JObj [(''n'', JNum ''7''), (''note'', JStr ''hi''), (''ok'', JNull)]])"
  by code_simp

lemma bits_json_laws: "json_float_laws bitsStdlib (FormatFloat bitsStdlib)"
  using bitsStdlib_laws by (simp add: json_float_laws_def stdlib_laws_def)

theorem json_roundtrip_witness:
  "DecodeJSON bitsStdlib
     (Inr (JArr [JObj [(''n'', JNum ''7''), (''note'', JStr ''hi''), (''ok'', JNull)]]))
     (Some (the sampleSchema)) =
   Inr [jsonDecodedRow bitsStdlib (Fields (the sampleSchema)) sampleRow]"
proof -
  have "list_all (\<lambda>f. coerce_utf8 (Name f) = Name f) (Fields (the sampleSchema))" by code_simp
  with json_roundtrip [OF sample_json bits_json_laws] show ?thesis by (simp add: list_all_iff)
qed

definition field_presence :: "(string \<rightharpoonup> json) \<Rightarrow> Values \<Rightarrow> Field \<Rightarrow> bool" where
  "field_presence raw row f \<longleftrightarrow>
     (case raw (Name f) of
        None \<Rightarrow> row (Name f) = None
      | Some j \<Rightarrow> if j = JNull then row (Name f) = Some ANil
                  else \<exists>c v. Component f = Some c \<and> row (Name f) = Some v \<and> canonical c v)"

definition row_presence :: "Field list \<Rightarrow> (string \<rightharpoonup> json) \<Rightarrow> Values \<Rightarrow> bool" where
  "row_presence fs raw row \<longleftrightarrow>
     dom row \<subseteq> Name ` set fs \<and> (\<forall>f \<in> set fs. field_presence raw row f)"

lemma jsonDecodeField_canonical:
  "jsonDecodeField S c j = Inr v \<Longrightarrow> canonical c v"
  by (cases c) (auto simp: jsonDecodeField_def jsonString_def canonical_def
                   split: option.splits json.splits)

lemma jsonDecodeRow_frame:
  "jsonDecodeRow S i fs raw acc = Inr row \<Longrightarrow> n \<notin> Name ` set fs \<Longrightarrow> row n = acc n"
  by (induction S i fs raw acc rule: jsonDecodeRow.induct)
     (auto split: option.splits if_splits sum.splits)

lemma jsonDecodeRow_presence:
  assumes "jsonDecodeRow S i fs raw acc = Inr row" "distinct (map Name fs)" "dom acc \<inter> Name ` set fs = {}"
  shows "\<forall>f \<in> set fs. field_presence raw row f"
  using assms
proof (induction S i fs raw acc rule: jsonDecodeRow.induct)
  case (2 S i f fs raw acc)
  have n: "Name f \<notin> Name ` set fs" "distinct (map Name fs)" using "2.prems"(2) by auto
  show ?case
  proof (cases "raw (Name f)")
    case None
    with "2.prems" have r: "jsonDecodeRow S i fs raw acc = Inr row" by simp
    with jsonDecodeRow_frame [OF r n(1)] "2.prems"(3) have "row (Name f) = None" by auto
    moreover have "dom acc \<inter> Name ` set fs = {}" using "2.prems"(3) by auto
    ultimately show ?thesis using "2.IH"(1) [OF None r n(2)] None by (simp add: field_presence_def [of _ _ f])
  next
    case (Some j)
    obtain v where r: "jsonDecodeRow S i fs raw (acc(Name f \<mapsto> v)) = Inr row"
      and v: "if j = JNull then v = ANil else \<exists>c. Component f = Some c \<and> jsonDecodeField S c j = Inr v"
      using "2.prems"(1) Some by (auto split: option.splits sum.splits if_splits)
    have row: "row (Name f) = Some v" using jsonDecodeRow_frame [OF r n(1)] by simp
    have d: "dom (acc(Name f \<mapsto> v)) \<inter> Name ` set fs = {}" using "2.prems"(3) n by auto
    show ?thesis
    proof (cases "j = JNull")
      case True
      with v have v: "v = ANil" by simp
      note IH = "2.IH"(2) [OF Some True r [unfolded v] n(2) d [unfolded v]]
      show ?thesis using row Some True v IH by (simp add: field_presence_def [of _ _ f])
    next
      case False
      with v obtain c where c: "Component f = Some c" "jsonDecodeField S c j = Inr v" by auto
      from "2.IH"(3) [OF Some False c r n(2) d] jsonDecodeField_canonical [OF c(2)] c row Some False
      show ?thesis by (simp add: field_presence_def [of _ _ f])
    qed
  qed
qed simp

lemma jsonDecodeRows_presence:
  "jsonDecodeRows S i fs raws = Inr rows \<Longrightarrow> distinct (map Name fs) \<Longrightarrow>
   list_all2 (row_presence fs) raws rows"
proof (induction raws arbitrary: i rows)
  case (Cons raw raws)
  then obtain row rows' where r: "rows = row # rows'" "jsonDecodeRow S i fs raw Map.empty = Inr row"
      "jsonDecodeRows S (Suc i) fs raws = Inr rows'" by auto
  have "dom row \<subseteq> Name ` set fs"
    using jsonDecodeRow_frame [OF r(2)] by fastforce
  with jsonDecodeRow_presence [OF r(2) Cons.prems(2)] have "row_presence fs raw row"
    by (simp add: row_presence_def)
  with Cons r show ?case by simp
qed simp

text \<open>A decoded row tells an omitted field from a null one. A schema field is unbound
  exactly when the object has no such member, bound to nil exactly when the member is null, and
  bound to a value of its component's type otherwise; nothing else is bound.\<close>

theorem json_decode_presence:
  assumes "DecodeJSON S (Inr doc) (Some r) = Inr rows"
  shows "\<exists>raws. rawRows doc = Inr raws \<and> list_all2 (row_presence (Fields r)) raws rows"
proof -
  from assms obtain raws where "Validate (Some r) = None" "rawRows doc = Inr raws"
      "jsonDecodeRows S 0 (Fields r) raws = Inr rows"
    by (auto simp: DecodeJSON_def simp del: Validate.simps split: option.splits)
  with jsonDecodeRows_presence show ?thesis by (auto simp: Validate_None simp del: Validate.simps)
qed

lemma partial_json:
  "\<exists>row. DecodeJSON bitsStdlib (Inr (JArr [JObj [(''n'', JNum ''7''), (''ok'', JNull)]]))
     (Some (the sampleSchema)) = Inr [row]"
proof -
  have "parse_int 64 ''7'' = Some 7" by code_simp
  with sampleSchema_valid show ?thesis
    by (simp add: DecodeJSON_def rawRows_def rawRow_def jmap_def sampleSchema_def jsonDecodeField_def
        jsonNumber_def)
qed

theorem json_decode_presence_witness:
  "\<exists>row. DecodeJSON bitsStdlib (Inr (JArr [JObj [(''n'', JNum ''7''), (''ok'', JNull)]]))
     (Some (the sampleSchema)) = Inr [row] \<and> row ''note'' = None \<and> row ''ok'' = Some ANil"
proof -
  from partial_json obtain row where
    row: "DecodeJSON bitsStdlib (Inr (JArr [JObj [(''n'', JNum ''7''), (''ok'', JNull)]]))
     (Some (the sampleSchema)) = Inr [row]" by blast
  from json_decode_presence [OF row] have
    "row_presence (Fields (the sampleSchema)) [''n'' \<mapsto> JNum ''7'', ''ok'' \<mapsto> JNull] row"
    by (auto simp: rawRows_def rawRow_def jmap_def fun_upd_twist)
  with row show ?thesis by (auto simp: row_presence_def field_presence_def sampleSchema_def)
qed
end
