(* ===== verification/Http.thy ===== *)
theory Http
  imports Json Strconv
begin

text \<open>
  What the handlers see of \<open>net/http\<close>: a request as its parsed query, headers, path values
  and body, a response as a status, the headers set on it and a body. Reading the body is its
  result: all the bytes, the \<open>MaxBytesError\<close> of the body limit, or another read error.
\<close>

datatype body_read = BodyOk string | BodyTooLarge int | BodyError

record request =
  Method :: string
  RawQuery :: string
  PathValue :: "string \<Rightarrow> string"
  Query :: "string \<Rightarrow> string list"
  Header :: "string \<Rightarrow> string list"
  Body :: body_read

text \<open>\<open>url.Values.Get\<close> and \<open>http.Header.Get\<close>: the first value, empty when there is none.\<close>

definition first_value :: "string list \<Rightarrow> string" where
  "first_value vs = (case vs of [] \<Rightarrow> [] | v # _ \<Rightarrow> v)"

definition query_get :: "request \<Rightarrow> string \<Rightarrow> string" where
  "query_get r k = first_value (Query r k)"

definition header_get :: "request \<Rightarrow> string \<Rightarrow> string" where
  "header_get r k = first_value (Header r k)"

datatype body = NoBody | JsonBody json | TextBody string

record response =
  Status :: nat
  Headers :: "(string \<times> string) list"
  RespBody :: body

text \<open>\<open>strings.ToLower\<close> on the ASCII letters: the tokens it is applied to here are compared with
  ASCII names, which no other rune lowers to (the Kelvin sign apart).\<close>

definition to_lower :: "string \<Rightarrow> string" where
  "to_lower s = map fold_char s"

lemma to_lower_Nil [simp]: "to_lower [] = []"
  by (simp add: to_lower_def)

text \<open>\<open>writeJSONError\<close> (handlers.go): the error body, after the headers set so far.\<close>

definition contentTypeJSON :: "string \<times> string" where
  "contentTypeJSON = (''Content-Type'', ''application/json'')"

definition writeJSONError :: "(string \<times> string) list \<Rightarrow> nat \<Rightarrow> string \<Rightarrow> response" where
  "writeJSONError hs status msg =
     \<lparr>Status = status, Headers = hs @ [contentTypeJSON],
      RespBody = JsonBody (JObj [(''error'', JStr msg), (''status'', JNum (format_int (int status)))])\<rparr>"

definition noContent :: "(string \<times> string) list \<Rightarrow> response" where
  "noContent hs = \<lparr>Status = 204, Headers = hs, RespBody = NoBody\<rparr>"

lemma writeJSONError_Status [simp]: "Status (writeJSONError hs st msg) = st"
  by (simp add: writeJSONError_def)

lemma noContent_Status [simp]: "Status (noContent hs) = 204"
  by (simp add: noContent_def)

end
