(* ===== verification/Negotiation.thy ===== *)
theory Negotiation
  imports SweValues Http
begin

text \<open>
  \<open>gateway/cs-api/negotiation.go\<close>: content negotiation over the Accept header and the
  \<open>?f=\<close> override. A quality value is a \<open>float64\<close>, read by \<open>strconv.ParseFloat\<close> (a
  parameter), so NaN and the infinities are among the values the comparisons meet.
\<close>

section \<open>Media types and families\<close>

type_synonym MediaType = string

definition MediaJSON :: MediaType where "MediaJSON = ''application/json''"
definition MediaJSONLD :: MediaType where "MediaJSONLD = ''application/ld+json''"
definition MediaGeoJSON :: MediaType where "MediaGeoJSON = ''application/geo+json''"
definition MediaSensorML :: MediaType where "MediaSensorML = ''application/sml+json''"
definition MediaSensorMLLegacy :: MediaType where "MediaSensorMLLegacy = ''application/sensorml+json''"
definition MediaOMS :: MediaType where "MediaOMS = ''application/om+json''"
definition MediaSWEJSON :: MediaType where "MediaSWEJSON = ''application/swe+json''"
definition MediaSWECsv :: MediaType where "MediaSWECsv = ''application/swe+csv''"
definition MediaSWEBinary :: MediaType where "MediaSWEBinary = ''application/swe+binary''"
definition MediaOAS3JSON :: MediaType where
  "MediaOAS3JSON = ''application/vnd.oai.openapi+json;version=3.0''"
definition MediaOAS3YAML :: MediaType where
  "MediaOAS3YAML = ''application/vnd.oai.openapi;version=3.0''"

lemmas media_defs = MediaJSON_def MediaJSONLD_def MediaGeoJSON_def MediaSensorML_def
  MediaSensorMLLegacy_def MediaOMS_def MediaSWEJSON_def MediaSWECsv_def MediaSWEBinary_def
  MediaOAS3JSON_def MediaOAS3YAML_def

datatype ResourceFamily =
    FamilySystemItem | FamilySystemCollection | FamilyDatastreamItem | FamilyDatastreamCollection
  | FamilyObservationCollection | FamilySpatial | FamilyService | FamilyAPI
  | FamilyProcedureCollection | FamilyProcedureItem | FamilyDeploymentCollection
  | FamilyDeploymentItem | FamilySamplingFeatureCollection | FamilySamplingFeatureItem
  | FamilyPropertyCollection | FamilyPropertyItem | FamilyControlStreamCollection
  | FamilyControlStreamItem | FamilySystemEventCollection | FamilySystemEventItem
  | FamilyFeasibilityCollection | FamilyFeasibilityItem

definition supported :: "ResourceFamily \<Rightarrow> MediaType list" where
  "supported fam =
     (case fam of
        FamilySystemItem \<Rightarrow> [MediaJSON, MediaSensorML, MediaSensorMLLegacy, MediaJSONLD]
      | FamilySystemCollection \<Rightarrow> [MediaJSON, MediaGeoJSON]
      | FamilyDatastreamItem \<Rightarrow> [MediaJSON]
      | FamilyDatastreamCollection \<Rightarrow> [MediaJSON]
      | FamilyObservationCollection \<Rightarrow>
          [MediaJSON, MediaOMS, MediaSWEJSON, MediaSWECsv, MediaSWEBinary]
      | FamilySpatial \<Rightarrow> [MediaGeoJSON, MediaJSON]
      | FamilyService \<Rightarrow> [MediaJSON, MediaJSONLD]
      | FamilyProcedureCollection \<Rightarrow> [MediaJSON, MediaGeoJSON]
      | FamilyProcedureItem \<Rightarrow> [MediaJSON, MediaSensorML, MediaSensorMLLegacy]
      | FamilyDeploymentCollection \<Rightarrow> [MediaJSON, MediaGeoJSON]
      | FamilyDeploymentItem \<Rightarrow> [MediaJSON, MediaSensorML, MediaSensorMLLegacy]
      | FamilySamplingFeatureCollection \<Rightarrow> [MediaJSON, MediaGeoJSON]
      | FamilySamplingFeatureItem \<Rightarrow> [MediaJSON]
      | FamilyPropertyCollection \<Rightarrow> [MediaJSON]
      | FamilyPropertyItem \<Rightarrow> [MediaJSON, MediaSensorML, MediaSensorMLLegacy]
      | FamilyAPI \<Rightarrow> [MediaOAS3JSON, MediaJSON, MediaOAS3YAML]
      | _ \<Rightarrow> [MediaJSON])"

definition shortMediaNames :: "string \<rightharpoonup> MediaType" where
  "shortMediaNames =
     [''json'' \<mapsto> MediaJSON, ''geojson'' \<mapsto> MediaGeoJSON, ''sensorml'' \<mapsto> MediaSensorML,
      ''om'' \<mapsto> MediaOMS, ''swejson'' \<mapsto> MediaSWEJSON, ''swecsv'' \<mapsto> MediaSWECsv,
      ''swebin'' \<mapsto> MediaSWEBinary, ''jsonld'' \<mapsto> MediaJSONLD,
      ''openapi'' \<mapsto> MediaOAS3JSON, ''yaml'' \<mapsto> MediaOAS3YAML]"

section \<open>The Accept header\<close>

record acceptPart =
  MimeType :: string
  MimeSub :: string
  Quality :: f64

definition f64_one :: f64 where "f64_one = 0x3FF0000000000000"
definition f64_minus_one :: f64 where "f64_minus_one = 0xBFF0000000000000"
definition f64_zero :: f64 where "f64_zero = 0"

text \<open>\<open>media[:i], media[i+1:]\<close> at the first slash.\<close>

definition split_slash :: "string \<Rightarrow> (string \<times> string) option" where
  "split_slash s = map_option (\<lambda>i. (take i s, drop (i + 1) s)) (str_index ''/'' s)"

definition matches :: "acceptPart \<Rightarrow> MediaType \<Rightarrow> bool" where
  "matches p media =
     (let m = (case str_index '';'' media of None \<Rightarrow> media | Some i \<Rightarrow> trim_space (take i media)) in
      case split_slash m of
        None \<Rightarrow> False
      | Some (mt, ms) \<Rightarrow>
          \<not> (MimeType p \<noteq> ''*'' \<and> MimeType p \<noteq> mt) \<and> \<not> (MimeSub p \<noteq> ''*'' \<and> MimeSub p \<noteq> ms))"

text \<open>The parameter loop: every \<open>q=\<close> that parses overwrites the last.\<close>

fun paramQ :: "stdlib \<Rightarrow> string list \<Rightarrow> f64 \<Rightarrow> f64" where
  "paramQ S [] acc = acc"
| "paramQ S (param # params) acc =
     (let p = trim_space param in
      if \<not> prefix ''q='' p then paramQ S params acc
      else case ParseFloat S (drop 2 p) of
             None \<Rightarrow> paramQ S params acc
           | Some v \<Rightarrow> paramQ S params v)"

definition parsePart :: "stdlib \<Rightarrow> string \<Rightarrow> acceptPart option" where
  "parsePart S raw =
     (let seg = trim_space raw in
      if seg = [] then None
      else let fields = go_split '';'' seg in
        case split_slash (trim_space (hd fields)) of
          None \<Rightarrow> None
        | Some (t, s) \<Rightarrow>
            Some \<lparr>MimeType = to_lower t, MimeSub = to_lower s, Quality = paramQ S (tl fields) f64_one\<rparr>)"

definition parseAccept :: "stdlib \<Rightarrow> string \<Rightarrow> acceptPart list" where
  "parseAccept S h = List.map_filter (parsePart S) (go_split '','' h)"

section \<open>Choosing\<close>

text \<open>\<open>sort.SliceStable\<close>: insertion from the end while the comparison says less (what the
  library does on a slice this short; every stable sort gives the same list).\<close>

fun insert_stable :: "('a \<Rightarrow> 'a \<Rightarrow> bool) \<Rightarrow> 'a \<Rightarrow> 'a list \<Rightarrow> 'a list" where
  "insert_stable lt x [] = [x]"
| "insert_stable lt x (y # ys) = (if lt x y then y # insert_stable lt x ys else x # y # ys)"

definition slice_stable :: "('a \<Rightarrow> 'a \<Rightarrow> bool) \<Rightarrow> 'a list \<Rightarrow> 'a list" where
  "slice_stable lt xs = rev (foldl (\<lambda>rs x. insert_stable lt x rs) [] xs)"

record offer =
  OfferMedia :: MediaType
  OfferQ :: f64
  OfferIdx :: nat

definition bestQ :: "acceptPart list \<Rightarrow> MediaType \<Rightarrow> f64" where
  "bestQ parts m =
     foldl (\<lambda>best p. if \<not> matches p m then best else if f64_lt best (Quality p) then Quality p else best)
       f64_minus_one parts"

fun offersFrom :: "acceptPart list \<Rightarrow> nat \<Rightarrow> MediaType list \<Rightarrow> offer list" where
  "offersFrom parts i [] = []"
| "offersFrom parts i (m # ms) =
     (if f64_lt f64_zero (bestQ parts m)
      then \<lparr>OfferMedia = m, OfferQ = bestQ parts m, OfferIdx = i\<rparr> # offersFrom parts (Suc i) ms
      else offersFrom parts (Suc i) ms)"

definition offer_less :: "offer \<Rightarrow> offer \<Rightarrow> bool" where
  "offer_less a b = (if \<not> f64_eq (OfferQ a) (OfferQ b) then f64_lt (OfferQ b) (OfferQ a) else OfferIdx a < OfferIdx b)"

definition Negotiate :: "stdlib \<Rightarrow> string \<Rightarrow> ResourceFamily \<Rightarrow> MediaType option" where
  "Negotiate S accept0 fam =
     (let accept = trim_space accept0 in
      if accept = [] then Some (hd (supported fam))
      else let offers = offersFrom (parseAccept S accept) 0 (supported fam) in
        if offers = [] then None else Some (OfferMedia (hd (slice_stable offer_less offers))))"

definition NegotiateRequest :: "stdlib \<Rightarrow> request \<Rightarrow> ResourceFamily \<Rightarrow> MediaType option" where
  "NegotiateRequest S r fam =
     (let short = to_lower (trim_space (query_get r ''f'')) in
      if short \<noteq> [] then
        (case shortMediaNames short of
           None \<Rightarrow> None
         | Some m \<Rightarrow> find (\<lambda>s. s = m) (supported fam))
      else Negotiate S (header_get r ''Accept'') fam)"

text \<open>The 406 response.\<close>

definition writeNotAcceptableList :: "MediaType list \<Rightarrow> response" where
  "writeNotAcceptableList ms =
     \<lparr>Status = 406, Headers = [(''Content-Type'', MediaJSON)],
      RespBody = TextBody (''{'' @ [CHR 0x22] @ ''error'' @ [CHR 0x22] @ '':'' @ [CHR 0x22] @
        ''not acceptable'' @ [CHR 0x22] @ '','' @ [CHR 0x22] @ ''supported'' @ [CHR 0x22] @ '':['' @
        [CHR 0x22] @ go_join ([CHR 0x22] @ '','' @ [CHR 0x22]) ms @ [CHR 0x22] @ '']}'')\<rparr>"

definition WriteNotAcceptable :: "ResourceFamily \<Rightarrow> response" where
  "WriteNotAcceptable fam = writeNotAcceptableList (supported fam)"

section \<open>The choice is the first best one\<close>

lemma supported_nonempty [simp]: "supported fam \<noteq> []"
  by (cases fam) (simp_all add: supported_def)

lemma f64_consts: "\<not> f64_is_nan f64_minus_one" "\<not> f64_is_nan f64_zero" "f64_lt f64_minus_one f64_zero"
  by code_simp+

lemma f64_lt_right_not_nan: "f64_lt x y \<Longrightarrow> \<not> f64_is_nan y"
  by (simp add: f64_lt_def)

text \<open>\<open>bestQ\<close> is the largest quality among the matching parts, -1 when none exceeds it.\<close>

lemma bestQ_fold:
  assumes "\<not> f64_is_nan b" and r: "r = foldl (\<lambda>best p. if \<not> matches p m then best else if f64_lt best (Quality p) then Quality p else best) b parts"
  shows "\<not> f64_is_nan r \<and> \<not> f64_lt r b \<and> (r = b \<or> (\<exists>p \<in> set parts. matches p m \<and> Quality p = r)) \<and>
         (\<forall>p \<in> set parts. matches p m \<longrightarrow> \<not> f64_lt r (Quality p))"
  using assms(1) unfolding r
proof (induction parts arbitrary: b)
  case Nil
  then show ?case by simp
next
  case (Cons p ps)
  define b' where "b' = (if \<not> matches p m then b else if f64_lt b (Quality p) then Quality p else b)"
  have b': "\<not> f64_is_nan b'" "\<not> f64_lt b' b" "matches p m \<Longrightarrow> \<not> f64_lt b' (Quality p)"
    "b' = b \<or> (matches p m \<and> Quality p = b')"
    using Cons.prems f64_lt_trans [of b "Quality p" b] f64_lt_right_not_nan [of b "Quality p"]
    by (auto simp: b'_def)
  let ?r = "foldl (\<lambda>best p. if \<not> matches p m then best else if f64_lt best (Quality p) then Quality p else best) b' ps"
  note IH = Cons.IH [OF b'(1)]
  have step: "\<not> f64_lt ?r x" if "\<not> f64_lt b' x" for x
  proof
    assume "f64_lt ?r x"
    moreover from this have "\<not> f64_is_nan x" by (rule f64_lt_right_not_nan)
    ultimately show False
      using that IH b'(1) by (auto simp: f64_lt_def)
  qed
  show ?case using IH b' step [of b] step [of "Quality p"] by (auto simp flip: b'_def)
qed

lemmas bestQ_max = bestQ_fold [OF f64_consts(1) bestQ_def]

lemma offers_mem:
  "o1 \<in> set (offersFrom parts i ms) \<longleftrightarrow>
     (\<exists>k < length ms. o1 = \<lparr>OfferMedia = ms ! k, OfferQ = bestQ parts (ms ! k), OfferIdx = i + k\<rparr> \<and>
        f64_lt f64_zero (bestQ parts (ms ! k)))"
proof (induction ms arbitrary: i)
  case (Cons m ms)
  show ?case using Cons [of "Suc i"] by (auto simp: less_Suc_eq_0_disj)
qed simp

text \<open>The head of a stable sort is a minimal element, for a comparison that is a strict order
  under which the other elements are comparable.\<close>

lemma insert_stable_set [simp]: "set (insert_stable lt x ys) = insert x (set ys)"
  by (induction ys) auto

lemma insert_stable_sorted:
  assumes "\<And>a b c. a \<in> A \<Longrightarrow> b \<in> A \<Longrightarrow> c \<in> A \<Longrightarrow> lt a b \<Longrightarrow> lt b c \<Longrightarrow> lt a c"
    and "\<And>a b. a \<in> A \<Longrightarrow> b \<in> A \<Longrightarrow> a \<noteq> b \<Longrightarrow> lt a b \<or> lt b a"
    and "sorted_wrt (\<lambda>a b. lt b a) ys" "set ys \<subseteq> A" "x \<in> A" "x \<notin> set ys"
  shows "sorted_wrt (\<lambda>a b. lt b a) (insert_stable lt x ys)"
  using assms(3,4,6)
proof (induction ys)
  case (Cons y ys)
  show ?case
  proof (cases "lt x y")
    case False
    with assms(2) [of x y] assms(5) Cons.prems have "lt y x" by auto
    moreover from this assms(1) [of _ y x] assms(5) Cons.prems have "\<forall>z \<in> set ys. lt z x" by auto
    ultimately show ?thesis using False Cons.prems by simp
  qed (use Cons in auto)
qed simp

lemma slice_stable_sorted:
  assumes "\<And>a b c. a \<in> A \<Longrightarrow> b \<in> A \<Longrightarrow> c \<in> A \<Longrightarrow> lt a b \<Longrightarrow> lt b c \<Longrightarrow> lt a c"
    and "\<And>a b. a \<in> A \<Longrightarrow> b \<in> A \<Longrightarrow> a \<noteq> b \<Longrightarrow> lt a b \<or> lt b a"
    and "distinct xs" "set xs \<subseteq> A"
  shows "sorted_wrt lt (slice_stable lt xs) \<and> set (slice_stable lt xs) = set xs"
proof -
  have "sorted_wrt (\<lambda>a b. lt b a) (foldl (\<lambda>rs x. insert_stable lt x rs) rs xs) \<and>
        set (foldl (\<lambda>rs x. insert_stable lt x rs) rs xs) = set rs \<union> set xs"
    if "sorted_wrt (\<lambda>a b. lt b a) rs" "set rs \<subseteq> A" "set rs \<inter> set xs = {}" for rs
    using assms(3,4) that
  proof (induction xs arbitrary: rs)
    case (Cons x xs)
    have "sorted_wrt (\<lambda>a b. lt b a) (insert_stable lt x rs)"
      using Cons.prems by (intro insert_stable_sorted [OF assms(1,2)]) auto
    with Cons show ?case by simp
  qed simp
  from this [of "[]"] show ?thesis by (simp add: slice_stable_def sorted_wrt_rev)
qed

text \<open>So the chosen offer precedes every other: a larger quality, or the same and an earlier
  place in the family's preference order.\<close>

lemma chosen_offer:
  assumes "offersFrom parts i ms \<noteq> []"
    and best: "best = hd (slice_stable offer_less (offersFrom parts i ms))"
  shows "best \<in> set (offersFrom parts i ms) \<and>
         (\<forall>y \<in> set (offersFrom parts i ms). y = best \<or> offer_less best y)"
proof -
  let ?os = "offersFrom parts i ms"
  let ?A = "set ?os"
  have nn: "\<not> f64_is_nan (OfferQ a)" if "a \<in> ?A" for a
    using that unfolding offers_mem by (auto dest: f64_lt_right_not_nan)
  have tr: "offer_less a c" if "a \<in> ?A" "b \<in> ?A" "c \<in> ?A" "offer_less a b" "offer_less b c" for a b c
    using that(4,5) nn [OF that(1)] nn [OF that(2)] nn [OF that(3)]
    by (auto simp: offer_less_def f64_eq_def f64_lt_def split: if_splits)
  have tot: "offer_less a b \<or> offer_less b a" if "a \<in> ?A" "b \<in> ?A" "a \<noteq> b" for a b
  proof -
    from that have "OfferIdx a \<noteq> OfferIdx b" by (auto simp: offers_mem)
    with nn [OF that(1)] nn [OF that(2)] show ?thesis
      by (auto simp: offer_less_def f64_eq_def f64_lt_def)
  qed
  have "distinct (offersFrom parts j ms')" for j ms'
  proof (induction ms' arbitrary: j)
    case (Cons m ms')
    have "\<forall>x \<in> set (offersFrom parts (Suc j) ms'). Suc j \<le> OfferIdx x" by (auto simp: offers_mem)
    with Cons show ?case by force
  qed simp
  from slice_stable_sorted [OF tr tot this order.refl, of i ms]
  have s: "sorted_wrt offer_less (slice_stable offer_less ?os)" "set (slice_stable offer_less ?os) = ?A"
    by auto
  with assms(1) have "slice_stable offer_less ?os \<noteq> []" by auto
  with s show ?thesis unfolding best
    by (cases "slice_stable offer_less ?os") auto
qed

lemma Negotiate_None:
  "Negotiate S accept fam = None \<longleftrightarrow>
     trim_space accept \<noteq> [] \<and>
     (\<forall>m \<in> set (supported fam). \<not> f64_lt f64_zero (bestQ (parseAccept S (trim_space accept)) m))"
proof -
  have "offersFrom parts i ms = [] \<longleftrightarrow> (\<forall>m \<in> set ms. \<not> f64_lt f64_zero (bestQ parts m))" for parts i ms
    by (induction ms arbitrary: i) auto
  then show ?thesis by (simp add: Negotiate_def Let_def)
qed

lemma bestQ_positive:
  "f64_lt f64_zero (bestQ parts m) \<longleftrightarrow> (\<exists>p \<in> set parts. matches p m \<and> f64_lt f64_zero (Quality p))"
proof
  assume pos: "f64_lt f64_zero (bestQ parts m)"
  then have "bestQ parts m \<noteq> f64_minus_one" using f64_consts(3) by (auto simp: f64_lt_def)
  with pos bestQ_max [of parts m] show "\<exists>p \<in> set parts. matches p m \<and> f64_lt f64_zero (Quality p)"
    by metis
next
  assume "\<exists>p \<in> set parts. matches p m \<and> f64_lt f64_zero (Quality p)"
  then obtain p where p: "p \<in> set parts" "matches p m" "f64_lt f64_zero (Quality p)" by blast
  with bestQ_max [of parts m] show "f64_lt f64_zero (bestQ parts m)"
    by (auto simp: f64_lt_def)
qed

lemma negotiate_best_mem:
  assumes "Negotiate S accept fam = Some m"
  shows "m \<in> set (supported fam)"
proof (cases "trim_space accept = []")
  case True
  with assms show ?thesis by (auto simp: Negotiate_def)
next
  case False
  let ?os = "offersFrom (parseAccept S (trim_space accept)) 0 (supported fam)"
  from assms False have ne: "?os \<noteq> []" and m: "m = OfferMedia (hd (slice_stable offer_less ?os))"
    by (auto simp: Negotiate_def Let_def split: if_splits)
  from chosen_offer [OF ne refl] m show ?thesis by (auto simp: offers_mem)
qed

section \<open>Properties\<close>

text \<open>Claim C38: a successful negotiation over a non-blank Accept header picks the best entry of
  the family's list. Some part of the header matches it with a positive quality; no part that
  matches any entry of the list asks for a larger one; and every entry that precedes it in the
  preference order has a strictly smaller quality.\<close>

theorem negotiate_best:
  assumes "Negotiate S accept fam = Some m" "trim_space accept \<noteq> []"
  defines "parts \<equiv> parseAccept S (trim_space accept)"
  shows "\<exists>k < length (supported fam). m = supported fam ! k \<and>
           (\<exists>p \<in> set parts. matches p m \<and> Quality p = bestQ parts m \<and> f64_lt f64_zero (Quality p)) \<and>
           (\<forall>m' \<in> set (supported fam). \<forall>p \<in> set parts.
              matches p m' \<longrightarrow> \<not> f64_lt (bestQ parts m) (Quality p)) \<and>
           (\<forall>j < k. f64_lt (bestQ parts (supported fam ! j)) (bestQ parts m))"
proof -
  let ?ms = "supported fam"
  let ?os = "offersFrom parts 0 ?ms"
  from assms have ne: "?os \<noteq> []" and m: "m = OfferMedia (hd (slice_stable offer_less ?os))"
    by (auto simp: Negotiate_def Let_def split: if_splits)
  from chosen_offer [OF ne refl] obtain k where k: "k < length ?ms"
      "hd (slice_stable offer_less ?os) = \<lparr>OfferMedia = ?ms ! k, OfferQ = bestQ parts (?ms ! k), OfferIdx = k\<rparr>"
      "f64_lt f64_zero (bestQ parts (?ms ! k))" by (auto simp: offers_mem)
  with m have mk: "m = ?ms ! k" by simp
  have nn: "\<not> f64_is_nan (bestQ parts x)" for x using bestQ_max [of parts x] by blast
  have best: "\<not> f64_lt (bestQ parts m) (bestQ parts (?ms ! j))"
      "j < k \<longrightarrow> f64_lt (bestQ parts (?ms ! j)) (bestQ parts m)" if j: "j < length ?ms" for j
  proof -
    let ?o = "\<lparr>OfferMedia = ?ms ! j, OfferQ = bestQ parts (?ms ! j), OfferIdx = j\<rparr>"
    show "\<not> f64_lt (bestQ parts m) (bestQ parts (?ms ! j))"
      "j < k \<longrightarrow> f64_lt (bestQ parts (?ms ! j)) (bestQ parts m)"
    proof (atomize (full), cases "f64_lt f64_zero (bestQ parts (?ms ! j))")
      case True
      with j have "?o \<in> set ?os" by (auto simp: offers_mem)
      with chosen_offer [OF ne refl] k(2)
      have "?o = \<lparr>OfferMedia = ?ms ! k, OfferQ = bestQ parts (?ms ! k), OfferIdx = k\<rparr> \<or>
            offer_less \<lparr>OfferMedia = ?ms ! k, OfferQ = bestQ parts (?ms ! k), OfferIdx = k\<rparr> ?o" by metis
      then show "\<not> f64_lt (bestQ parts m) (bestQ parts (?ms ! j)) \<and>
        (j < k \<longrightarrow> f64_lt (bestQ parts (?ms ! j)) (bestQ parts m))"
        using nn by (auto simp: offer_less_def f64_eq_def f64_lt_def mk split: if_splits)
    next
      case False
      then show "\<not> f64_lt (bestQ parts m) (bestQ parts (?ms ! j)) \<and>
        (j < k \<longrightarrow> f64_lt (bestQ parts (?ms ! j)) (bestQ parts m))"
        using k(3) nn f64_consts(2) by (auto simp: f64_lt_def mk)
    qed
  qed
  have "bestQ parts m \<noteq> f64_minus_one" using k(3) f64_consts(3) by (auto simp: f64_lt_def mk)
  with bestQ_max [of parts m] k(3) mk
  have "\<exists>p \<in> set parts. matches p m \<and> Quality p = bestQ parts m \<and> f64_lt f64_zero (Quality p)" by metis
  moreover have "\<not> f64_lt (bestQ parts m) (Quality p)"
    if "m' \<in> set ?ms" "p \<in> set parts" "matches p m'" for m' p
  proof -
    from that obtain j where "j < length ?ms" "m' = ?ms ! j" by (metis in_set_conv_nth)
    with best(1) [of j] have "\<not> f64_lt (bestQ parts m) (bestQ parts m')" by simp
    moreover have "\<not> f64_lt (bestQ parts m') (Quality p)" using bestQ_max [of parts m'] that(2,3) by blast
    ultimately show ?thesis using nn [of m] nn [of m'] unfolding f64_lt_def by linarith
  qed
  moreover have "\<forall>j < k. f64_lt (bestQ parts (?ms ! j)) (bestQ parts m)"
    using best(2) k(1) by simp
  ultimately show ?thesis using k(1) mk by blast
qed

text \<open>406 exactly when the header is not blank and no part of it matches an entry of the
  family's list with a positive quality; a blank header always gets the family's default.\<close>

theorem negotiate_not_acceptable:
  "Negotiate S accept fam = None \<longleftrightarrow>
     trim_space accept \<noteq> [] \<and>
     (\<forall>m \<in> set (supported fam). \<forall>p \<in> set (parseAccept S (trim_space accept)).
        matches p m \<longrightarrow> \<not> f64_lt f64_zero (Quality p))"
  by (auto simp: Negotiate_None bestQ_positive)

text \<open>A non-blank \<open>?f=\<close> decides alone: the response type is the one its short name
  stands for when the family supports it, and 406 otherwise, whatever the Accept header. Without
  it the answer is \<open>Negotiate\<close>'s, and in both cases it is one of the family's types.\<close>

theorem negotiate_request_override:
  "(to_lower (trim_space (query_get r ''f'')) \<noteq> [] \<longrightarrow>
      NegotiateRequest S r fam =
        (case shortMediaNames (to_lower (trim_space (query_get r ''f''))) of
           None \<Rightarrow> None
         | Some m \<Rightarrow> if m \<in> set (supported fam) then Some m else None)) \<and>
   (to_lower (trim_space (query_get r ''f'')) = [] \<longrightarrow>
      NegotiateRequest S r fam = Negotiate S (header_get r ''Accept'') fam) \<and>
   (\<forall>m. NegotiateRequest S r fam = Some m \<longrightarrow> m \<in> set (supported fam))"
proof -
  have find: "find (\<lambda>s. s = m) ms = (if m \<in> set ms then Some m else None)" for m and ms :: "MediaType list"
    by (induction ms) auto
  let ?short = "to_lower (trim_space (query_get r ''f''))"
  have given: "NegotiateRequest S r fam =
        (case shortMediaNames ?short of
           None \<Rightarrow> None | Some m \<Rightarrow> if m \<in> set (supported fam) then Some m else None)"
    if "?short \<noteq> []" using that unfolding NegotiateRequest_def Let_def by (simp only: find if_True not_False_eq_True simp_thms)
  have absent: "NegotiateRequest S r fam = Negotiate S (header_get r ''Accept'') fam"
    if "?short = []" using that by (simp add: NegotiateRequest_def)
  have "m \<in> set (supported fam)" if "NegotiateRequest S r fam = Some m" for m
  proof (cases "?short = []")
    case True
    with absent that show ?thesis by (metis negotiate_best_mem)
  next
    case False
    with given that show ?thesis by (auto split: option.splits if_splits)
  qed
  with given absent show ?thesis by blast
qed

text \<open>The numbers of the examples below.\<close>

definition halfStdlib :: stdlib where
  "halfStdlib = bitsStdlib\<lparr>ParseFloat := (\<lambda>s. if s = ''0.5'' then Some 0x3FE0000000000000
                                           else if s = ''0'' then Some 0 else None)\<rparr>"

theorem negotiate_best_witness:
  "Negotiate halfStdlib ''application/json;q=0.5, application/geo+json, text/html'' FamilySystemCollection =
     Some MediaGeoJSON \<and>
   (\<exists>p \<in> set (parseAccept halfStdlib (trim_space ''application/json;q=0.5, application/geo+json, text/html'')).
      matches p MediaGeoJSON \<and> f64_lt f64_zero (Quality p))"
proof -
  have n: "Negotiate halfStdlib ''application/json;q=0.5, application/geo+json, text/html''
      FamilySystemCollection = Some MediaGeoJSON" by code_simp
  have "trim_space ''application/json;q=0.5, application/geo+json, text/html'' \<noteq> []" by code_simp
  from negotiate_best [OF n this] n show ?thesis by blast
qed

definition yamlRequest :: request where
  "yamlRequest = \<lparr>Method = ''GET'', RawQuery = [], PathValue = (\<lambda>_. []), Query = (\<lambda>k. if k = ''f'' then ['' YAML ''] else []),
                  Header = (\<lambda>k. if k = ''Accept'' then [''application/json''] else []), Body = BodyOk []\<rparr>"

theorem negotiate_request_override_witness:
  "NegotiateRequest bitsStdlib yamlRequest FamilyAPI = Some MediaOAS3YAML \<and>
   NegotiateRequest bitsStdlib yamlRequest FamilySystemItem = None"
proof -
  have short: "to_lower (trim_space (query_get yamlRequest ''f'')) = ''yaml''" by code_simp
  have known: "shortMediaNames ''yaml'' = Some MediaOAS3YAML" by (simp add: shortMediaNames_def)
  have mem: "MediaOAS3YAML \<in> set (supported FamilyAPI)" "MediaOAS3YAML \<notin> set (supported FamilySystemItem)"
    by (simp_all add: supported_def media_defs)
  note ov = negotiate_request_override [THEN conjunct1, rule_format, of yamlRequest bitsStdlib]
  show ?thesis
    using ov [of FamilyAPI] ov [of FamilySystemItem] unfolding short known by (simp add: mem)
qed

theorem negotiate_not_acceptable_witness:
  "Negotiate halfStdlib ''application/json;q=0, text/html'' FamilySystemItem = None \<and>
   trim_space ''application/json;q=0, text/html'' \<noteq> [] \<and>
   list_all (\<lambda>m. list_all (\<lambda>p. \<not> (matches p m \<and> f64_lt f64_zero (Quality p)))
       (parseAccept halfStdlib (trim_space ''application/json;q=0, text/html'')))
     (supported FamilySystemItem)"
proof -
  have n: "Negotiate halfStdlib ''application/json;q=0, text/html'' FamilySystemItem = None" by code_simp
  with negotiate_not_acceptable [of halfStdlib "''application/json;q=0, text/html''" FamilySystemItem]
  show ?thesis by (simp add: list_all_iff)
qed

end
