(* ===== verification/Vocabulary.thy ===== *)
theory Vocabulary
  imports Main
begin

text \<open>
  The dotted predicate names the triples carry (\<open>parser/sensorml/predicates.go\<close>,
  \<open>vocabulary/csapi/predicates.go\<close>, \<open>vocabulary/csapi/product_predicates.go\<close>) and the class
  IRIs that are the objects of type triples (\<open>vocabulary/csapi/iris.go\<close>,
  \<open>vocabulary/sosa/iris.go\<close>). \<open>vocab_defs\<close> collects their definitions: comparing two
  predicates is evaluating two literals.
\<close>

named_theorems vocab_defs

section \<open>SensorML predicates\<close>

definition PredType :: string where [vocab_defs]:
  "PredType = ''sensorml.process.type''"

definition PredLabel :: string where [vocab_defs]:
  "PredLabel = ''sensorml.process.label''"

definition PredDescription :: string where [vocab_defs]:
  "PredDescription = ''sensorml.process.description''"

definition PredDefinition :: string where [vocab_defs]:
  "PredDefinition = ''sensorml.process.definition''"

definition PredHosts :: string where [vocab_defs]:
  "PredHosts = ''sensorml.system.hosts''"

definition PredIsHostedBy :: string where [vocab_defs]:
  "PredIsHostedBy = ''sensorml.component.is-hosted-by''"

definition PredHasSubSystem :: string where [vocab_defs]:
  "PredHasSubSystem = ''sensorml.process.has-sub-system''"

definition PredUsedProcedure :: string where [vocab_defs]:
  "PredUsedProcedure = ''sensorml.process.used-procedure''"

definition PredAttachedTo :: string where [vocab_defs]:
  "PredAttachedTo = ''sensorml.process.attached-to''"

definition PredIdentifierValue :: string where [vocab_defs]:
  "PredIdentifierValue = ''sensorml.identifier.value''"

definition PredCapabilityValue :: string where [vocab_defs]:
  "PredCapabilityValue = ''sensorml.capability.value''"

definition PredCharacteristicValue :: string where [vocab_defs]:
  "PredCharacteristicValue = ''sensorml.characteristic.value''"

definition PredPosition :: string where [vocab_defs]:
  "PredPosition = ''sensorml.process.position''"

definition PredUniqueID :: string where [vocab_defs]:
  "PredUniqueID = ''sensorml.process.uid''"

section \<open>CS API predicates\<close>

definition PredDatastreamSystem :: string where [vocab_defs]:
  "PredDatastreamSystem = ''csapi.datastream.produced-by''"

definition PredObservedProperty :: string where [vocab_defs]:
  "PredObservedProperty = ''csapi.datastream.observed-property''"

definition PredDatastreamSchema :: string where [vocab_defs]:
  "PredDatastreamSchema = ''csapi.datastream.result-schema''"

definition predDatastreamPhenomenonTime :: string where [vocab_defs]:
  "predDatastreamPhenomenonTime = ''cs-api.datastream.phenomenon-time''"

definition predDatastreamResultTime :: string where [vocab_defs]:
  "predDatastreamResultTime = ''cs-api.datastream.result-time''"

definition predDeploymentDeployedSystems :: string where [vocab_defs]:
  "predDeploymentDeployedSystems = ''cs-api.deployment.deployed-systems''"

definition predDeploymentParent :: string where [vocab_defs]:
  "predDeploymentParent = ''cs-api.deployment.parent''"

definition predSamplingFeatureHostedProcedure :: string where [vocab_defs]:
  "predSamplingFeatureHostedProcedure = ''cs-api.samplingfeature.hosted-procedure''"

definition predPropertyDefinition :: string where [vocab_defs]:
  "predPropertyDefinition = ''cs-api.property.definition''"

definition predPropertyBaseProperty :: string where [vocab_defs]:
  "predPropertyBaseProperty = ''cs-api.property.base-property''"

definition PredControlStreamSystem :: string where [vocab_defs]:
  "PredControlStreamSystem = ''csapi.controlstream.controls-system''"

definition predControlStreamInputName :: string where [vocab_defs]:
  "predControlStreamInputName = ''cs-api.controlstream.input-name''"

definition predControlStreamAsync :: string where [vocab_defs]:
  "predControlStreamAsync = ''cs-api.controlstream.async''"

definition predControlStreamCommandFormat :: string where [vocab_defs]:
  "predControlStreamCommandFormat = ''cs-api.controlstream.command-format''"

definition predControlStreamSchema :: string where [vocab_defs]:
  "predControlStreamSchema = ''csapi.controlstream.command-schema''"

definition predControlStreamControlledProperties :: string where [vocab_defs]:
  "predControlStreamControlledProperties = ''cs-api.controlstream.controlled-properties''"

definition predControlStreamIssueTime :: string where [vocab_defs]:
  "predControlStreamIssueTime = ''cs-api.controlstream.issue-time''"

definition predControlStreamExecutionTime :: string where [vocab_defs]:
  "predControlStreamExecutionTime = ''cs-api.controlstream.execution-time''"

definition PredCommandControlStream :: string where [vocab_defs]:
  "PredCommandControlStream = ''csapi.command.part-of-control-stream''"

definition predCommandStatus :: string where [vocab_defs]:
  "predCommandStatus = ''cs-api.command.status''"

definition predCommandIssueTime :: string where [vocab_defs]:
  "predCommandIssueTime = ''cs-api.command.issue-time''"

definition predCommandExecutionTime :: string where [vocab_defs]:
  "predCommandExecutionTime = ''cs-api.command.execution-time''"

definition predCommandSender :: string where [vocab_defs]:
  "predCommandSender = ''cs-api.command.sender''"

definition predCommandParams :: string where [vocab_defs]:
  "predCommandParams = ''cs-api.command.params''"

definition PredSystemEventSystem :: string where [vocab_defs]:
  "PredSystemEventSystem = ''csapi.systemevent.for-system''"

definition predSystemEventTime :: string where [vocab_defs]:
  "predSystemEventTime = ''cs-api.systemevent.time''"

definition predSystemEventType :: string where [vocab_defs]:
  "predSystemEventType = ''cs-api.systemevent.type''"

definition predSystemEventMessage :: string where [vocab_defs]:
  "predSystemEventMessage = ''cs-api.systemevent.message''"

definition predSystemEventSeverity :: string where [vocab_defs]:
  "predSystemEventSeverity = ''cs-api.systemevent.severity''"

definition predSystemEventSource :: string where [vocab_defs]:
  "predSystemEventSource = ''cs-api.systemevent.source''"

definition predSystemEventPayload :: string where [vocab_defs]:
  "predSystemEventPayload = ''cs-api.systemevent.payload''"

definition predSystemEventKeywords :: string where [vocab_defs]:
  "predSystemEventKeywords = ''cs-api.systemevent.keywords''"

definition PredFeasibilityControlStream :: string where [vocab_defs]:
  "PredFeasibilityControlStream = ''cs-api.feasibility.controlstream''"

definition predFeasibilityStatus :: string where [vocab_defs]:
  "predFeasibilityStatus = ''cs-api.feasibility.status''"

definition predFeasibilityParams :: string where [vocab_defs]:
  "predFeasibilityParams = ''cs-api.feasibility.params''"

definition predFeasibilityResult :: string where [vocab_defs]:
  "predFeasibilityResult = ''cs-api.feasibility.result''"

section \<open>Geo predicates\<close>

text \<open>Constants of the framework's vocabulary package; the repository records their values
  (\<open>openspec/changes/migrate-semstreams-beta147/evidence/development/go-spatial\<close>).\<close>

definition GeoLocationLongitude :: string where [vocab_defs]:
  "GeoLocationLongitude = ''geo.location.longitude''"

definition GeoLocationLatitude :: string where [vocab_defs]:
  "GeoLocationLatitude = ''geo.location.latitude''"

definition GeoLocationAltitude :: string where [vocab_defs]:
  "GeoLocationAltitude = ''geo.location.altitude''"

section \<open>Class IRIs\<close>

definition DatastreamTypeIRI :: string where [vocab_defs]:
  "DatastreamTypeIRI = ''http://www.opengis.net/spec/ogcapi-connectedsystems-1/1.0/Datastream''"

definition ControlStreamIRI :: string where [vocab_defs]:
  "ControlStreamIRI = ''http://www.opengis.net/spec/ogcapi-connectedsystems-1/1.0/ControlStream''"

definition CommandIRI :: string where [vocab_defs]:
  "CommandIRI = ''http://www.opengis.net/spec/ogcapi-connectedsystems-1/1.0/Command''"

definition SystemEventIRI :: string where [vocab_defs]:
  "SystemEventIRI = ''http://www.opengis.net/spec/ogcapi-connectedsystems-1/1.0/SystemEvent''"

definition FeasibilityIRI :: string where [vocab_defs]:
  "FeasibilityIRI = ''https://c360studio.com/semconnect/vocab/cs-api/Feasibility''"

definition SWESchemaDocumentIRI :: string where [vocab_defs]:
  "SWESchemaDocumentIRI = ''http://www.opengis.net/spec/ogcapi-connectedsystems-1/1.0/SWESchemaDocument''"

definition SSNSystem :: string where [vocab_defs]:
  "SSNSystem = ''http://www.w3.org/ns/ssn/System''"

definition SosaSensor :: string where [vocab_defs]:
  "SosaSensor = ''http://www.w3.org/ns/sosa/Sensor''"

definition SosaProcedure :: string where [vocab_defs]:
  "SosaProcedure = ''http://www.w3.org/ns/sosa/Procedure''"

definition SosaObservableProperty :: string where [vocab_defs]:
  "SosaObservableProperty = ''http://www.w3.org/ns/sosa/ObservableProperty''"

definition SosaSample :: string where [vocab_defs]:
  "SosaSample = ''http://www.w3.org/ns/sosa/Sample''"

definition SosaFeatureOfInterest :: string where [vocab_defs]:
  "SosaFeatureOfInterest = ''http://www.w3.org/ns/sosa/FeatureOfInterest''"

definition SSNDeployment :: string where [vocab_defs]:
  "SSNDeployment = ''http://www.w3.org/ns/ssn/Deployment''"

text \<open>The predicates the PATCH and projection code tells apart are pairwise different.\<close>

lemma patch_predicates_distinct [simp]:
  "distinct [PredType, PredLabel, PredDescription, PredPosition, PredUniqueID, PredIsHostedBy,
     PredDatastreamSystem, PredObservedProperty, PredDatastreamSchema,
     predDatastreamPhenomenonTime, predDatastreamResultTime,
     GeoLocationLongitude, GeoLocationLatitude, GeoLocationAltitude]"
  by (simp add: vocab_defs)

end
