(* ===== verification/EntityIds.thy ===== *)
theory EntityIds
  imports Strconv
begin

text \<open>
  Entity IDs: the six dotted tokens that name an entity of the graph, and how the gateway mints
  one from a client's identifier (\<open>uniqueIDToToken\<close>, \<open>mintEntityID\<close> and their relatives in
  \<open>gateway/cs-api/systems_post.go\<close>). The validators of the framework's \<open>types\<close> package,
  SHA-256 and the UUID generator are parameters, the fields of \<open>entity_ids\<close>;
  \<open>entity_id_laws\<close> states their documented behaviour.
\<close>

section \<open>The framework's ID functions\<close>

record entity_ids =
  ValidateEntityID :: "string \<Rightarrow> string option"
  ValidateEntityIDPrefix :: "string \<Rightarrow> string option"
  MatchEntityIDPattern :: "string \<Rightarrow> string \<Rightarrow> string + bool"
  MaxEntityIDBytes :: nat
  Sha256Hex :: "string \<Rightarrow> string"
  NewUUID :: string

text \<open>A token is a letter or digit followed by letters, digits, underscores and hyphens.\<close>

definition is_lower_hex :: "char \<Rightarrow> bool" where
  "is_lower_hex c \<longleftrightarrow> is_digit c \<or> (97 \<le> (of_char c :: nat) \<and> (of_char c :: nat) \<le> 102)"

definition is_alnum :: "char \<Rightarrow> bool" where
  "is_alnum c \<longleftrightarrow> is_digit c \<or> (97 \<le> (of_char c :: nat) \<and> (of_char c :: nat) \<le> 122) \<or>
     (65 \<le> (of_char c :: nat) \<and> (of_char c :: nat) \<le> 90)"

definition id_char :: "char \<Rightarrow> bool" where
  "id_char c \<longleftrightarrow> is_alnum c \<or> c = CHR ''_'' \<or> c = CHR ''-''"

definition id_token :: "string \<Rightarrow> bool" where
  "id_token s \<longleftrightarrow> (case s of [] \<Rightarrow> False | c # cs \<Rightarrow> is_alnum c \<and> list_all id_char cs)"

text \<open>The documented behaviour: a valid prefix is made of tokens; an ID of six tokens within the
  length limit is accepted and nothing else is; the hex digest has 64 digits; a UUID is a token.\<close>

definition entity_id_laws :: "entity_ids \<Rightarrow> bool" where
  "entity_id_laws E \<longleftrightarrow>
     (\<forall>p. ValidateEntityIDPrefix E p = None \<longrightarrow> list_all id_token (go_split ''.'' p)) \<and>
     (\<forall>s. ValidateEntityID E s = None \<longleftrightarrow>
        length (go_split ''.'' s) = 6 \<and> list_all id_token (go_split ''.'' s) \<and>
        length s \<le> MaxEntityIDBytes E) \<and>
     (\<forall>s. length (Sha256Hex E s) = 64 \<and> list_all is_lower_hex (Sha256Hex E s)) \<and>
     id_token (NewUUID E)"

section \<open>Tokens from identifiers\<close>

text \<open>\<open>nonIDTokenChar.ReplaceAllString(s, "_")\<close>: every maximal run of characters outside the
  token set becomes one underscore.\<close>

function replace_runs :: "string \<Rightarrow> string" where
  "replace_runs [] = []"
| "replace_runs (c # cs) =
     (if id_char c then c # replace_runs cs
      else CHR ''_'' # replace_runs (dropWhile (\<lambda>d. \<not> id_char d) cs))"
  by pat_completeness auto
termination by (relation "measure length") (auto simp: length_dropWhile_le less_Suc_eq_le)

text \<open>\<open>strings.Trim(s, "_-")\<close>.\<close>

definition trim_seps :: "string \<Rightarrow> string" where
  "trim_seps s =
     (let p = (\<lambda>c. c = CHR ''_'' \<or> c = CHR ''-'')
      in rev (dropWhile p (rev (dropWhile p s))))"

text \<open>The scheme loop drops everything up to and including the last colon.\<close>

function strip_schemes :: "string \<Rightarrow> string" where
  "strip_schemes s =
     (case str_index '':'' s of None \<Rightarrow> s | Some i \<Rightarrow> strip_schemes (drop (i + 1) s))"
  by pat_completeness auto
termination
  by (relation "measure length") (auto dest: str_index_shrinks [where sub = "'':''"])

declare strip_schemes.simps [simp del]

definition uniqueIDToToken :: "entity_ids \<Rightarrow> string \<Rightarrow> string" where
  "uniqueIDToToken E uniqueID =
     (let s = trim_seps (replace_runs (strip_schemes uniqueID))
      in if s = [] then NewUUID E else s)"

section \<open>Minting\<close>

definition mintEntityIDWithToken :: "entity_ids \<Rightarrow> string \<Rightarrow> string \<Rightarrow> string \<Rightarrow> string" where
  "mintEntityIDWithToken E pre ordinaryToken digestSource =
     (let candidate = pre @ ''.'' @ ordinaryToken in
      if ValidateEntityID E candidate = None then candidate
      else pre @ ''.h-'' @ Sha256Hex E digestSource)"

definition mintEntityID :: "entity_ids \<Rightarrow> string \<Rightarrow> string \<Rightarrow> string" where
  "mintEntityID E pre exactSource =
     mintEntityIDWithToken E pre (uniqueIDToToken E exactSource) exactSource"

definition nestedSensorMLDigestDomain :: string where
  "nestedSensorMLDigestDomain = ''semconnect:sensorml-child:v1'' @ [CHR 0x00]"

text \<open>\<open>strings.LastIndexByte(s, '.')\<close> splits into what precedes and what follows the last dot.\<close>

definition split_last_dot :: "string \<Rightarrow> (string \<times> string) option" where
  "split_last_dot s =
     (if CHR ''.'' \<in> set s
      then Some (rev (tl (dropWhile (\<lambda>c. c \<noteq> CHR ''.'') (rev s))),
                 rev (takeWhile (\<lambda>c. c \<noteq> CHR ''.'') (rev s)))
      else None)"

definition mintNestedSensorMLEntityID :: "entity_ids \<Rightarrow> string \<Rightarrow> string \<Rightarrow> string" where
  "mintNestedSensorMLEntityID E parentID localID =
     (case split_last_dot parentID of
        None \<Rightarrow> parentID @ ''_'' @ uniqueIDToToken E localID
      | Some (pre, parentInstance) \<Rightarrow>
          mintEntityIDWithToken E pre (parentInstance @ ''_'' @ uniqueIDToToken E localID)
            (nestedSensorMLDigestDomain @ parentID @ [CHR 0x00] @ localID))"

section \<open>A minted token is a token\<close>

lemma replace_runs_chars: "c \<in> set (replace_runs s) \<Longrightarrow> id_char c"
  by (induction s rule: replace_runs.induct) (auto simp: id_char_def split: if_splits)

lemma set_trim_seps: "set (trim_seps s) \<subseteq> set s"
  by (auto simp: trim_seps_def Let_def dest!: set_dropWhileD)

lemma trim_seps_hd:
  assumes "trim_seps s \<noteq> []"
  shows "hd (trim_seps s) \<noteq> CHR ''_''" "hd (trim_seps s) \<noteq> CHR ''-''"
proof -
  define p where "p = (\<lambda>c. c = CHR ''_'' \<or> c = CHR ''-'')"
  define u where "u = dropWhile p s"
  have t: "trim_seps s = rev (dropWhile p (rev u))"
    unfolding trim_seps_def p_def u_def Let_def by (rule refl)
  have "dropWhile p (rev u) \<noteq> []" using assms t by simp
  moreover obtain pre where "rev u = pre @ dropWhile p (rev u)" by (metis takeWhile_dropWhile_id)
  then have "u = rev (dropWhile p (rev u)) @ rev pre" by (metis rev_append rev_rev_ident)
  ultimately have "hd (trim_seps s) = hd u" "u \<noteq> []" using t by (metis hd_append2 rev_is_Nil_conv, auto)
  moreover have "\<not> p (hd u)" using \<open>u \<noteq> []\<close> unfolding u_def by (rule hd_dropWhile)
  ultimately show "hd (trim_seps s) \<noteq> CHR ''_''" "hd (trim_seps s) \<noteq> CHR ''-''"
    by (auto simp: p_def)
qed

lemma uniqueIDToToken_token:
  assumes "id_token (NewUUID E)"
  shows "id_token (uniqueIDToToken E uid)"
proof (cases "trim_seps (replace_runs (strip_schemes uid))")
  case Nil
  with assms show ?thesis by (simp add: uniqueIDToToken_def)
next
  case (Cons c cs)
  let ?s = "trim_seps (replace_runs (strip_schemes uid))"
  have all: "d \<in> set ?s \<Longrightarrow> id_char d" for d
    using set_trim_seps replace_runs_chars by blast
  from trim_seps_hd [of "replace_runs (strip_schemes uid)"] Cons
  have "c \<noteq> CHR ''_''" "c \<noteq> CHR ''-''" by simp_all
  with all [of c] Cons have "is_alnum c" by (simp add: id_char_def)
  with all Cons show ?thesis by (auto simp: uniqueIDToToken_def id_token_def list_all_iff)
qed

lemma id_char_not_dot: "id_char c \<Longrightarrow> c \<noteq> CHR ''.''"
  by (auto simp: id_char_def is_alnum_def is_digit_def)

lemma id_token_no_dot: "id_token s \<Longrightarrow> CHR ''.'' \<notin> set s"
  using id_char_not_dot by (fastforce simp: id_token_def list_all_iff id_char_def split: list.splits)

text \<open>Appending one token to a prefix appends one token to its split.\<close>

lemma go_split_snoc:
  assumes "c \<notin> set tok"
  shows "go_split [c] (p @ [c] @ tok) = go_split [c] p @ [tok]"
proof (induction p rule: length_induct)
  case (1 p)
  show ?case
  proof (cases "c \<in> set p")
    case False
    with assms show ?thesis by (simp add: go_split_append go_split_none)
  next
    case True
    then obtain a b where p: "p = a @ c # b" "c \<notin> set a" by (metis split_list_first)
    with 1 have "go_split [c] (b @ [c] @ tok) = go_split [c] b @ [tok]" by simp
    with p show ?thesis by (simp add: go_split_append)
  qed
qed

lemma digest_token: "length d = 64 \<Longrightarrow> list_all is_lower_hex d \<Longrightarrow> id_token (''h-'' @ d)"
  by (auto simp: id_token_def is_alnum_def list_all_iff id_char_def is_lower_hex_def)

lemma mintEntityIDWithToken_valid:
  assumes E: "entity_id_laws E"
    and p: "ValidateEntityIDPrefix E pre = None" "length (go_split ''.'' pre) = 5"
      "length pre + 67 \<le> MaxEntityIDBytes E"
  shows "ValidateEntityID E (mintEntityIDWithToken E pre tok src) = None"
proof (cases "ValidateEntityID E (pre @ ''.'' @ tok) = None")
  case False
  let ?d = "''h-'' @ Sha256Hex E src"
  have d: "id_token ?d" "length ?d = 66"
    using E digest_token [of "Sha256Hex E src"] by (simp_all add: entity_id_laws_def)
  have "go_split ''.'' (pre @ ''.'' @ ?d) = go_split ''.'' pre @ [?d]"
    by (rule go_split_snoc) (rule id_token_no_dot [OF d(1)])
  moreover have "list_all id_token (go_split ''.'' pre)" using E p(1) by (simp add: entity_id_laws_def)
  ultimately have "ValidateEntityID E (pre @ ''.'' @ ?d) = None"
    using E p(2,3) d by (simp add: entity_id_laws_def)
  with False show ?thesis by (simp add: mintEntityIDWithToken_def Let_def)
qed (simp add: mintEntityIDWithToken_def)

lemma split_last_dot_snoc:
  "CHR ''.'' \<notin> set tok \<Longrightarrow> split_last_dot (pre @ ''.'' @ tok) = Some (pre, tok)"
  by (simp add: split_last_dot_def dropWhile_append takeWhile_append)

text \<open>A minted ID is the prefix and one token, so an ID minted for a component under it has the same prefix.\<close>

lemma mintEntityID_snoc:
  assumes "entity_id_laws E"
  shows "\<exists>tok. mintEntityID E pre uid = pre @ ''.'' @ tok \<and> CHR ''.'' \<notin> set tok"
proof -
  have "id_token (''h-'' @ Sha256Hex E uid)"
    using assms by (intro digest_token) (simp_all add: entity_id_laws_def)
  then have "CHR ''.'' \<notin> set (''h-'' @ Sha256Hex E uid)" by (rule id_token_no_dot)
  moreover have "CHR ''.'' \<notin> set (uniqueIDToToken E uid)"
    using assms by (intro id_token_no_dot uniqueIDToToken_token) (simp add: entity_id_laws_def)
  ultimately show ?thesis
    by (auto simp: mintEntityID_def mintEntityIDWithToken_def Let_def)
qed

lemma mintNested_valid:
  assumes "entity_id_laws E" "ValidateEntityIDPrefix E pre = None" "length (go_split ''.'' pre) = 5"
    "length pre + 67 \<le> MaxEntityIDBytes E"
  shows "ValidateEntityID E (mintNestedSensorMLEntityID E (mintEntityID E pre uid) localID) = None"
proof -
  obtain tok where "mintEntityID E pre uid = pre @ ''.'' @ tok" "CHR ''.'' \<notin> set tok"
    using mintEntityID_snoc [OF assms(1)] by blast
  then show ?thesis
    using mintEntityIDWithToken_valid [OF assms] split_last_dot_snoc [of tok pre]
    by (simp add: mintNestedSensorMLEntityID_def)
qed

end
