(* ===== verification/Config.thy ===== *)
theory Config
  imports EntityIds
begin

text \<open>
  \<open>gateway/cs-api/config.go\<close>: the gateway's configuration, its defaults and its validation.
  Durations are nanoseconds, as in \<open>time.Duration\<close>. \<open>Config.Validate\<close> is
  \<open>validateConfig\<close> here. The framework's prefix validator is a field of \<open>entity_ids\<close>.
\<close>

definition millisecond :: int where "millisecond = 1000000"
definition second :: int where "second = 1000 * millisecond"
definition minute :: int where "minute = 60 * second"
definition hour :: int where "hour = 60 * minute"

lemmas duration_defs = millisecond_def second_def minute_def hour_def

record Config =
  BindAddress :: string
  StandaloneServer :: bool
  QueryTimeout :: int
  ReadHeaderTimeout :: int
  ReadTimeout :: int
  WriteTimeout :: int
  IdleTimeout :: int
  MaxRequestBytes :: int
  DefaultListLimit :: int
  MaxListLimit :: int
  PublishTimeout :: int
  ObservationsStream :: string
  ObservationsSubjectPrefix :: string
  ObservationsMaxAge :: int
  ObservationsMaxBytes :: int
  ObservationsReplicas :: int
  SchemaArtifactsBucket :: string
  SchemaArtifactsMaxBytes :: int
  SchemaArtifactsReplicas :: int
  SystemIDPrefix :: string
  DatastreamIDPrefix :: string
  ProcedureIDPrefix :: string
  DeploymentIDPrefix :: string
  SamplingFeatureIDPrefix :: string
  PropertyIDPrefix :: string
  ControlStreamIDPrefix :: string
  CommandIDPrefix :: string
  FeasibilityIDPrefix :: string
  SystemEventIDPrefix :: string
  SchemaArtifactIDPrefix :: string

definition DefaultConfig :: Config where
  "DefaultConfig =
     \<lparr>BindAddress = '':8080'',
      StandaloneServer = False,
      QueryTimeout = 5 * second,
      ReadHeaderTimeout = 5 * second,
      ReadTimeout = 30 * second,
      WriteTimeout = 60 * second,
      IdleTimeout = 120 * second,
      MaxRequestBytes = 2 ^ 20,
      DefaultListLimit = 100,
      MaxListLimit = 1000,
      PublishTimeout = 5 * second,
      ObservationsStream = ''CS_API_OBSERVATIONS'',
      ObservationsSubjectPrefix = ''cs-api.observations'',
      ObservationsMaxAge = 30 * 24 * hour,
      ObservationsMaxBytes = 2 ^ 30,
      ObservationsReplicas = 1,
      SchemaArtifactsBucket = ''CS_API_ARTIFACTS'',
      SchemaArtifactsMaxBytes = 0,
      SchemaArtifactsReplicas = 1,
      SystemIDPrefix = ''c360.semconnect.systems.csapi.system'',
      DatastreamIDPrefix = ''c360.semconnect.systems.csapi.datastream'',
      ProcedureIDPrefix = ''c360.semconnect.systems.csapi.procedure'',
      DeploymentIDPrefix = ''c360.semconnect.systems.csapi.deployment'',
      SamplingFeatureIDPrefix = ''c360.semconnect.systems.csapi.samplingfeature'',
      PropertyIDPrefix = ''c360.semconnect.systems.csapi.property'',
      ControlStreamIDPrefix = ''c360.semconnect.systems.csapi.controlstream'',
      CommandIDPrefix = ''c360.semconnect.systems.csapi.command'',
      FeasibilityIDPrefix = ''c360.semconnect.systems.csapi.feasibility'',
      SystemEventIDPrefix = ''c360.semconnect.systems.csapi.systemevent'',
      SchemaArtifactIDPrefix = ''c360.semconnect.systems.csapi.schema''\<rparr>"

text \<open>\<open>ApplyDefaults\<close> assigns the default to every field that is zero, but for the three
  whose zero value means something.\<close>

definition orDefault :: "'a \<Rightarrow> 'a \<Rightarrow> 'a \<Rightarrow> 'a" where
  "orDefault z v d = (if v = z then d else v)"

lemma orDefault_idem [simp]: "orDefault z (orDefault z v d) d = orDefault z v d"
  by (simp add: orDefault_def)

definition ApplyDefaults :: "Config \<Rightarrow> Config" where
  "ApplyDefaults c =
     (let d = DefaultConfig in
      c\<lparr>BindAddress := orDefault [] (BindAddress c) (BindAddress d),
        QueryTimeout := orDefault 0 (QueryTimeout c) (QueryTimeout d),
        ReadHeaderTimeout := orDefault 0 (ReadHeaderTimeout c) (ReadHeaderTimeout d),
        ReadTimeout := orDefault 0 (ReadTimeout c) (ReadTimeout d),
        WriteTimeout := orDefault 0 (WriteTimeout c) (WriteTimeout d),
        IdleTimeout := orDefault 0 (IdleTimeout c) (IdleTimeout d),
        MaxRequestBytes := orDefault 0 (MaxRequestBytes c) (MaxRequestBytes d),
        DefaultListLimit := orDefault 0 (DefaultListLimit c) (DefaultListLimit d),
        MaxListLimit := orDefault 0 (MaxListLimit c) (MaxListLimit d),
        PublishTimeout := orDefault 0 (PublishTimeout c) (PublishTimeout d),
        ObservationsStream := orDefault [] (ObservationsStream c) (ObservationsStream d),
        ObservationsSubjectPrefix := orDefault [] (ObservationsSubjectPrefix c) (ObservationsSubjectPrefix d),
        ObservationsMaxAge := orDefault 0 (ObservationsMaxAge c) (ObservationsMaxAge d),
        ObservationsReplicas := orDefault 0 (ObservationsReplicas c) (ObservationsReplicas d),
        SchemaArtifactsBucket := orDefault [] (SchemaArtifactsBucket c) (SchemaArtifactsBucket d),
        SchemaArtifactsReplicas := orDefault 0 (SchemaArtifactsReplicas c) (SchemaArtifactsReplicas d),
        SystemIDPrefix := orDefault [] (SystemIDPrefix c) (SystemIDPrefix d),
        DatastreamIDPrefix := orDefault [] (DatastreamIDPrefix c) (DatastreamIDPrefix d),
        ProcedureIDPrefix := orDefault [] (ProcedureIDPrefix c) (ProcedureIDPrefix d),
        DeploymentIDPrefix := orDefault [] (DeploymentIDPrefix c) (DeploymentIDPrefix d),
        SamplingFeatureIDPrefix := orDefault [] (SamplingFeatureIDPrefix c) (SamplingFeatureIDPrefix d),
        PropertyIDPrefix := orDefault [] (PropertyIDPrefix c) (PropertyIDPrefix d),
        ControlStreamIDPrefix := orDefault [] (ControlStreamIDPrefix c) (ControlStreamIDPrefix d),
        CommandIDPrefix := orDefault [] (CommandIDPrefix c) (CommandIDPrefix d),
        FeasibilityIDPrefix := orDefault [] (FeasibilityIDPrefix c) (FeasibilityIDPrefix d),
        SystemEventIDPrefix := orDefault [] (SystemEventIDPrefix c) (SystemEventIDPrefix d),
        SchemaArtifactIDPrefix := orDefault [] (SchemaArtifactIDPrefix c) (SchemaArtifactIDPrefix d)\<rparr>)"

datatype config_error =
    QueryTimeoutFloor | QueryTimeoutCeiling | MaxRequestBytesFloor | DefaultListLimitFloor
  | MaxListLimitFloor | BindAddressRequired | PublishTimeoutFloor | PublishTimeoutCeiling
  | ObservationsStreamRequired | SubjectPrefixRequired | MaxAgeFloor | MaxBytesFloor
  | ReplicasRange | ArtifactsBucketName | ArtifactsMaxBytesFloor | ArtifactsReplicasRange
  | PrefixRequired string | PrefixTokens string | PrefixInvalid string string | PrefixNoRoom string

definition digestEntityIDSuffixBytes :: nat where
  "digestEntityIDSuffixBytes = 1 + 2 + 64"

definition validateEntityIDPrefix :: "entity_ids \<Rightarrow> string \<Rightarrow> string \<Rightarrow> config_error option" where
  "validateEntityIDPrefix E pre fieldName =
     (if pre = [] then Some (PrefixRequired fieldName)
      else if length (go_split ''.'' pre) \<noteq> 5 then Some (PrefixTokens fieldName)
      else case ValidateEntityIDPrefix E pre of
        Some e \<Rightarrow> Some (PrefixInvalid fieldName e)
      | None \<Rightarrow>
          if length pre + digestEntityIDSuffixBytes > MaxEntityIDBytes E
          then Some (PrefixNoRoom fieldName) else None)"

text \<open>The prefix checks run in this order, and the first error is returned.\<close>

definition idPrefixes :: "Config \<Rightarrow> (string \<times> string) list" where
  "idPrefixes c =
     [(SystemIDPrefix c, ''system_id_prefix''), (ProcedureIDPrefix c, ''procedure_id_prefix''),
      (DeploymentIDPrefix c, ''deployment_id_prefix''),
      (SamplingFeatureIDPrefix c, ''sampling_feature_id_prefix''),
      (PropertyIDPrefix c, ''property_id_prefix''),
      (ControlStreamIDPrefix c, ''controlstream_id_prefix''),
      (CommandIDPrefix c, ''command_id_prefix''), (FeasibilityIDPrefix c, ''feasibility_id_prefix''),
      (SystemEventIDPrefix c, ''system_event_id_prefix''),
      (DatastreamIDPrefix c, ''datastream_id_prefix''),
      (SchemaArtifactIDPrefix c, ''schema_artifact_id_prefix'')]"

fun firstPrefixError :: "entity_ids \<Rightarrow> (string \<times> string) list \<Rightarrow> config_error option" where
  "firstPrefixError E [] = None"
| "firstPrefixError E ((p, f) # r) =
     (case validateEntityIDPrefix E p f of Some e \<Rightarrow> Some e | None \<Rightarrow> firstPrefixError E r)"

definition validateConfig :: "entity_ids \<Rightarrow> Config \<Rightarrow> config_error option" where
  "validateConfig E c =
     (if QueryTimeout c < 100 * millisecond then Some QueryTimeoutFloor
      else if QueryTimeout c > 30 * second then Some QueryTimeoutCeiling
      else if MaxRequestBytes c < 1024 then Some MaxRequestBytesFloor
      else if DefaultListLimit c < 1 then Some DefaultListLimitFloor
      else if MaxListLimit c < DefaultListLimit c then Some MaxListLimitFloor
      else if StandaloneServer c \<and> BindAddress c = [] then Some BindAddressRequired
      else if PublishTimeout c < 100 * millisecond then Some PublishTimeoutFloor
      else if PublishTimeout c > 30 * second then Some PublishTimeoutCeiling
      else if ObservationsStream c = [] then Some ObservationsStreamRequired
      else if ObservationsSubjectPrefix c = [] then Some SubjectPrefixRequired
      else if ObservationsMaxAge c < minute then Some MaxAgeFloor
      else if ObservationsMaxBytes c \<le> 0 then Some MaxBytesFloor
      else if ObservationsReplicas c < 1 \<or> ObservationsReplicas c > 5 then Some ReplicasRange
      else if SchemaArtifactsBucket c \<noteq> ''CS_API_ARTIFACTS'' then Some ArtifactsBucketName
      else if SchemaArtifactsMaxBytes c < 0 then Some ArtifactsMaxBytesFloor
      else if SchemaArtifactsReplicas c < 1 \<or> SchemaArtifactsReplicas c > 5
        then Some ArtifactsReplicasRange
      else firstPrefixError E (idPrefixes c))"

lemma firstPrefixError_None:
  "firstPrefixError E ps = None \<longleftrightarrow> (\<forall>(p, f) \<in> set ps. validateEntityIDPrefix E p f = None)"
  by (induction ps) (auto split: option.splits)

lemma validateEntityIDPrefix_None:
  "validateEntityIDPrefix E p f = None \<longleftrightarrow>
     length (go_split ''.'' p) = 5 \<and> p \<noteq> [] \<and> ValidateEntityIDPrefix E p = None \<and>
     length p + 67 \<le> MaxEntityIDBytes E"
  by (auto simp: validateEntityIDPrefix_def digestEntityIDSuffixBytes_def split: option.splits)


lemma ApplyDefaults_fields:
  "QueryTimeout (ApplyDefaults c) = orDefault 0 (QueryTimeout c) (QueryTimeout DefaultConfig)"
  "MaxRequestBytes (ApplyDefaults c) = orDefault 0 (MaxRequestBytes c) (MaxRequestBytes DefaultConfig)"
  "DefaultListLimit (ApplyDefaults c) = orDefault 0 (DefaultListLimit c) (DefaultListLimit DefaultConfig)"
  "MaxListLimit (ApplyDefaults c) = orDefault 0 (MaxListLimit c) (MaxListLimit DefaultConfig)"
  "PublishTimeout (ApplyDefaults c) = orDefault 0 (PublishTimeout c) (PublishTimeout DefaultConfig)"
  "ObservationsMaxAge (ApplyDefaults c) = orDefault 0 (ObservationsMaxAge c) (ObservationsMaxAge DefaultConfig)"
  "ObservationsReplicas (ApplyDefaults c) = orDefault 0 (ObservationsReplicas c) (ObservationsReplicas DefaultConfig)"
  "SchemaArtifactsReplicas (ApplyDefaults c) = orDefault 0 (SchemaArtifactsReplicas c) (SchemaArtifactsReplicas DefaultConfig)"
  "BindAddress (ApplyDefaults c) = orDefault [] (BindAddress c) (BindAddress DefaultConfig)"
  "ObservationsStream (ApplyDefaults c) = orDefault [] (ObservationsStream c) (ObservationsStream DefaultConfig)"
  "ObservationsSubjectPrefix (ApplyDefaults c) = orDefault [] (ObservationsSubjectPrefix c) (ObservationsSubjectPrefix DefaultConfig)"
  "SchemaArtifactsBucket (ApplyDefaults c) = orDefault [] (SchemaArtifactsBucket c) (SchemaArtifactsBucket DefaultConfig)"
  "SystemIDPrefix (ApplyDefaults c) = orDefault [] (SystemIDPrefix c) (SystemIDPrefix DefaultConfig)"
  "ProcedureIDPrefix (ApplyDefaults c) = orDefault [] (ProcedureIDPrefix c) (ProcedureIDPrefix DefaultConfig)"
  "DeploymentIDPrefix (ApplyDefaults c) = orDefault [] (DeploymentIDPrefix c) (DeploymentIDPrefix DefaultConfig)"
  "SamplingFeatureIDPrefix (ApplyDefaults c) = orDefault [] (SamplingFeatureIDPrefix c) (SamplingFeatureIDPrefix DefaultConfig)"
  "PropertyIDPrefix (ApplyDefaults c) = orDefault [] (PropertyIDPrefix c) (PropertyIDPrefix DefaultConfig)"
  "ControlStreamIDPrefix (ApplyDefaults c) = orDefault [] (ControlStreamIDPrefix c) (ControlStreamIDPrefix DefaultConfig)"
  "CommandIDPrefix (ApplyDefaults c) = orDefault [] (CommandIDPrefix c) (CommandIDPrefix DefaultConfig)"
  "FeasibilityIDPrefix (ApplyDefaults c) = orDefault [] (FeasibilityIDPrefix c) (FeasibilityIDPrefix DefaultConfig)"
  "SystemEventIDPrefix (ApplyDefaults c) = orDefault [] (SystemEventIDPrefix c) (SystemEventIDPrefix DefaultConfig)"
  "DatastreamIDPrefix (ApplyDefaults c) = orDefault [] (DatastreamIDPrefix c) (DatastreamIDPrefix DefaultConfig)"
  "SchemaArtifactIDPrefix (ApplyDefaults c) = orDefault [] (SchemaArtifactIDPrefix c) (SchemaArtifactIDPrefix DefaultConfig)"
  "ReadHeaderTimeout (ApplyDefaults c) = orDefault 0 (ReadHeaderTimeout c) (ReadHeaderTimeout DefaultConfig)"
  "ReadTimeout (ApplyDefaults c) = orDefault 0 (ReadTimeout c) (ReadTimeout DefaultConfig)"
  "WriteTimeout (ApplyDefaults c) = orDefault 0 (WriteTimeout c) (WriteTimeout DefaultConfig)"
  "IdleTimeout (ApplyDefaults c) = orDefault 0 (IdleTimeout c) (IdleTimeout DefaultConfig)"
  "StandaloneServer (ApplyDefaults c) = StandaloneServer c"
  "ObservationsMaxBytes (ApplyDefaults c) = ObservationsMaxBytes c"
  "SchemaArtifactsMaxBytes (ApplyDefaults c) = SchemaArtifactsMaxBytes c"
  by (simp_all add: ApplyDefaults_def Let_def)

lemma if_Some_None: "(if b then Some e else r) = None \<longleftrightarrow> \<not> b \<and> r = None"
  by simp

lemma validateConfig_None:
  "validateConfig E c = None \<longleftrightarrow>
     (100 * millisecond \<le> QueryTimeout c \<and> QueryTimeout c \<le> 30 * second) \<and>
     1024 \<le> MaxRequestBytes c \<and> 1 \<le> DefaultListLimit c \<and> DefaultListLimit c \<le> MaxListLimit c \<and>
     (100 * millisecond \<le> PublishTimeout c \<and> PublishTimeout c \<le> 30 * second) \<and>
     minute \<le> ObservationsMaxAge c \<and>
     (\<not> (StandaloneServer c \<and> BindAddress c = []) \<and> ObservationsStream c \<noteq> [] \<and>
      ObservationsSubjectPrefix c \<noteq> [] \<and> 0 < ObservationsMaxBytes c) \<and>
     1 \<le> ObservationsReplicas c \<and> ObservationsReplicas c \<le> 5 \<and>
     SchemaArtifactsBucket c = ''CS_API_ARTIFACTS'' \<and> 0 \<le> SchemaArtifactsMaxBytes c \<and>
     1 \<le> SchemaArtifactsReplicas c \<and> SchemaArtifactsReplicas c \<le> 5 \<and>
     firstPrefixError E (idPrefixes c) = None"
  unfolding validateConfig_def if_Some_None not_less not_le de_Morgan_disj not_not
  by (rule iffI; elim conjE; intro conjI; assumption)

lemma orDefault_prefix:
  "validateEntityIDPrefix E d f = None \<Longrightarrow>
   validateEntityIDPrefix E (orDefault [] p d) f = None \<longleftrightarrow> p = [] \<or> validateEntityIDPrefix E p f = None"
  by (auto simp: orDefault_def)

lemma defaulted_prefixes:
  assumes "\<forall>(p, f) \<in> set (idPrefixes DefaultConfig). validateEntityIDPrefix E p f = None"
  shows "(\<forall>(p, f) \<in> set (idPrefixes (ApplyDefaults c)). validateEntityIDPrefix E p f = None) \<longleftrightarrow>
     (\<forall>(p, f) \<in> set (idPrefixes c). p = [] \<or> validateEntityIDPrefix E p f = None)"
  using assms unfolding idPrefixes_def ApplyDefaults_fields list.set ball_simps prod.case
  by (simp only: orDefault_prefix)

section \<open>Properties\<close>

text \<open>What the loaded configuration must be for the defaulted one to validate. Every
  field may be left zero but \<open>ObservationsMaxBytes\<close>, which has to be set; a field that is
  set has to keep its bounds; the list limits are compared after both defaults are in. Assumed:
  the default prefixes pass the framework's validator.\<close>

theorem config_accepted:
  assumes "\<forall>(p, f) \<in> set (idPrefixes DefaultConfig). validateEntityIDPrefix E p f = None"
  shows "validateConfig E (ApplyDefaults c) = None \<longleftrightarrow>
     (QueryTimeout c = 0 \<or> (100 * millisecond \<le> QueryTimeout c \<and> QueryTimeout c \<le> 30 * second)) \<and>
     (MaxRequestBytes c = 0 \<or> 1024 \<le> MaxRequestBytes c) \<and>
     1 \<le> orDefault 0 (DefaultListLimit c) 100 \<and>
     orDefault 0 (DefaultListLimit c) 100 \<le> orDefault 0 (MaxListLimit c) 1000 \<and>
     (PublishTimeout c = 0 \<or> (100 * millisecond \<le> PublishTimeout c \<and> PublishTimeout c \<le> 30 * second)) \<and>
     (ObservationsMaxAge c = 0 \<or> minute \<le> ObservationsMaxAge c) \<and>
     0 < ObservationsMaxBytes c \<and>
     0 \<le> ObservationsReplicas c \<and> ObservationsReplicas c \<le> 5 \<and>
     SchemaArtifactsBucket c \<in> {[], ''CS_API_ARTIFACTS''} \<and>
     0 \<le> SchemaArtifactsMaxBytes c \<and>
     0 \<le> SchemaArtifactsReplicas c \<and> SchemaArtifactsReplicas c \<le> 5 \<and>
     (\<forall>(p, f) \<in> set (idPrefixes c). p = [] \<or> validateEntityIDPrefix E p f = None)"
  unfolding validateConfig_None ApplyDefaults_fields firstPrefixError_None
    defaulted_prefixes [OF assms]
  by (intro arg_cong2 [where f = "(\<and>)"]) (auto simp: DefaultConfig_def orDefault_def duration_defs)

text \<open>Defaulting is idempotent.\<close>

theorem config_defaults_idempotent: "ApplyDefaults (ApplyDefaults c) = ApplyDefaults c"
  by (rule Config.equality) (simp_all add: ApplyDefaults_fields)

text \<open>Claim C39: under a validated configuration the ID minted for a resource is valid, whatever the client
  sent: the sanitised token when it fits, the full digest otherwise; and so is the ID minted for a
  component of a SensorML body under it. (The IDs of schema artifacts are minted another way.)
  Assumed: the documented behaviour of the framework's ID functions.\<close>

theorem minted_ids_valid:
  assumes "validateConfig E c = None" "entity_id_laws E" "(pre, f) \<in> set (idPrefixes c)"
  shows "ValidateEntityID E (mintEntityID E pre uid) = None \<and>
         ValidateEntityID E (mintNestedSensorMLEntityID E (mintEntityID E pre uid) localID) = None"
proof -
  from assms(1) have "firstPrefixError E (idPrefixes c) = None"
    by (simp add: validateConfig_def split: if_splits)
  with assms(3) have "validateEntityIDPrefix E pre f = None" by (auto simp: firstPrefixError_None)
  then show ?thesis
    using mintEntityIDWithToken_valid [OF assms(2)] mintNested_valid [OF assms(2)]
    by (simp add: validateEntityIDPrefix_None mintEntityID_def)
qed

text \<open>The token minted from an identifier depends only on what follows its last colon, so
  \<open>urn:a:1\<close> and \<open>urn:b:1\<close> name the same entity: the code strips every colon-separated part
  and not just a URI scheme.\<close>

theorem token_ignores_namespace:
  "uniqueIDToToken E (u @ '':'' @ t) = uniqueIDToToken E t"
proof -
  have "strip_schemes (u @ '':'' @ t) = strip_schemes t"
  proof (induction u rule: length_induct)
    case (1 u)
    show ?case
    proof (cases "CHR '':'' \<in> set u")
      case False
      then have "str_index '':'' (u @ CHR '':'' # t) = Some (length u)" by (rule str_index_single_append)
      then show ?thesis by (subst strip_schemes.simps) simp
    next
      case True
      then obtain a b where u: "u = a @ CHR '':'' # b" "CHR '':'' \<notin> set a" by (metis split_list_first)
      then have "str_index '':'' (u @ '':'' @ t) = Some (length a)"
        using str_index_single_append [of "CHR '':''" a "b @ '':'' @ t"] by simp
      then have "strip_schemes (u @ '':'' @ t) = strip_schemes (b @ '':'' @ t)"
        using u by (subst strip_schemes.simps) simp
      with 1 u show ?thesis by simp
    qed
  qed
  then show ?thesis by (simp add: uniqueIDToToken_def)
qed

text \<open>An instance of the framework's functions that keeps the laws.\<close>

definition sampleIds :: entity_ids where
  "sampleIds =
     \<lparr>ValidateEntityID = (\<lambda>s. if length (go_split ''.'' s) = 6 \<and> list_all id_token (go_split ''.'' s) \<and>
                               length s \<le> 255 then None else Some ''invalid''),
      ValidateEntityIDPrefix = (\<lambda>s. if list_all id_token (go_split ''.'' s) then None else Some ''invalid''),
      MatchEntityIDPattern = (\<lambda>pat s. Inr (go_split ''.'' pat = go_split ''.'' s \<or>
         (length (go_split ''.'' pat) = length (go_split ''.'' s) \<and>
          list_all2 (\<lambda>a b. a = ''*'' \<or> a = b) (go_split ''.'' pat) (go_split ''.'' s)))),
      MaxEntityIDBytes = 255,
      Sha256Hex = (\<lambda>s. replicate 64 CHR ''0''),
      NewUUID = ''u''\<rparr>"

lemma sampleIds_laws: "entity_id_laws sampleIds"
  by (simp add: entity_id_laws_def sampleIds_def list_all_iff is_lower_hex_def is_digit_def
      id_token_def is_alnum_def)

lemma sampleIds_defaults:
  "\<forall>(p, f) \<in> set (idPrefixes DefaultConfig). validateEntityIDPrefix sampleIds p f = None"
proof -
  have "list_all (\<lambda>(p, f). validateEntityIDPrefix sampleIds p f = None) (idPrefixes DefaultConfig)"
    by code_simp
  then show ?thesis by (simp add: list_all_iff case_prod_beta)
qed

theorem config_accepted_witness: "validateConfig sampleIds (ApplyDefaults DefaultConfig) = None"
proof -
  have "\<forall>(p, f) \<in> set (idPrefixes DefaultConfig). p = [] \<or> validateEntityIDPrefix sampleIds p f = None"
    by (rule ballI) (use sampleIds_defaults in \<open>simp add: case_prod_beta\<close>)
  then show ?thesis
    unfolding config_accepted [OF sampleIds_defaults, of DefaultConfig]
    by (simp add: DefaultConfig_def orDefault_def duration_defs)
qed

theorem minted_ids_valid_witness:
  "ValidateEntityID sampleIds (mintEntityID sampleIds (SystemIDPrefix DefaultConfig) ''urn:x:s 1'') = None \<and>
   ValidateEntityID sampleIds (mintNestedSensorMLEntityID sampleIds
     (mintEntityID sampleIds (SystemIDPrefix DefaultConfig) ''urn:x:s 1'') ''battery'') = None"
proof -
  have "firstPrefixError sampleIds (idPrefixes DefaultConfig) = None"
    unfolding firstPrefixError_None by (rule sampleIds_defaults)
  then have "validateConfig sampleIds DefaultConfig = None"
    unfolding validateConfig_None by (simp add: DefaultConfig_def duration_defs)
  moreover have "(SystemIDPrefix DefaultConfig, ''system_id_prefix'') \<in> set (idPrefixes DefaultConfig)"
    by (simp add: idPrefixes_def)
  ultimately show ?thesis using minted_ids_valid [OF _ sampleIds_laws] by blast
qed

end
