(* ===== verification/Graph.thy ===== *)
theory Graph
  imports Vocabulary Config SweValues Http
begin

text \<open>
  The graph the gateway reads and writes, as its code sees it: triples and entity states, the
  typed requests of the mutation and query subjects with their replies, and the errors that
  travel up to the HTTP layer. The framework (semstreams) and NATS are parameters: \<open>env\<close> holds
  their pure functions and constants, \<open>backend\<close> the operations that change the outside world.
\<close>

section \<open>Triples and entities\<close>

datatype obj = OStr string | OFloat f64 | OBool bool | OJson json

record triple =
  Subject :: string
  Predicate :: string
  Object :: obj
  Datatype :: string

definition str_triple :: "string \<Rightarrow> string \<Rightarrow> string \<Rightarrow> triple" where
  "str_triple s p v = \<lparr>Subject = s, Predicate = p, Object = OStr v, Datatype = []\<rparr>"

lemma str_triple_sel [simp]:
  "Subject (str_triple s p v) = s" "Predicate (str_triple s p v) = p"
  "Object (str_triple s p v) = OStr v" "Datatype (str_triple s p v) = []"
  by (simp_all add: str_triple_def)

record message_type =
  Domain :: string
  MsgCategory :: string
  Version :: string

record storage_ref =
  StorageInstance :: string
  StorageKey :: string
  ContentType :: string
  StorageSize :: nat

record entity_state =
  EntityID :: string
  EntityTriples :: "triple list"
  EntityStorageRef :: "storage_ref option"

record exact_entity =
  Entity :: "entity_state option"
  KVRevision :: nat

text \<open>\<open>firstStringObject\<close> and \<open>allStringObjects\<close> of \<open>gateway/cs-api/sensorml.go\<close>.\<close>

fun firstStringObject :: "triple list \<Rightarrow> string list \<Rightarrow> string option" where
  "firstStringObject [] preds = None"
| "firstStringObject (t # ts) preds =
     (case Object t of
        OStr s \<Rightarrow> if Predicate t \<in> set preds then Some s else firstStringObject ts preds
      | _ \<Rightarrow> firstStringObject ts preds)"

fun allStringObjects :: "triple list \<Rightarrow> string \<Rightarrow> string list" where
  "allStringObjects [] p = []"
| "allStringObjects (t # ts) p =
     (case Object t of
        OStr s \<Rightarrow> if Predicate t = p then s # allStringObjects ts p else allStringObjects ts p
      | _ \<Rightarrow> allStringObjects ts p)"

text \<open>\<open>rootSubjectTriples\<close> and \<open>triplesForPredicates\<close> of \<open>graph_mutations.go\<close>.\<close>

definition rootSubjectTriples :: "string \<Rightarrow> triple list \<Rightarrow> triple list" where
  "rootSubjectTriples entityID ts = filter (\<lambda>t. Subject t = entityID) ts"

definition triplesForPredicates :: "triple list \<Rightarrow> string list \<Rightarrow> triple list" where
  "triplesForPredicates ts preds = filter (\<lambda>t. Predicate t \<in> set preds) ts"

section \<open>Errors\<close>

datatype nats_error = NoResponders | Timeout | DeadlineExceeded | ConnectionClosed | Canceled | OtherNats string

datatype gerr =
    Plain string
  | NatsErr nats_error
  | Classified string string
  | EntityNotFound string
  | EntityConflict string
  | CommitUnknown string gerr
  | WrapInvalid string gerr
  | WrapTransient string gerr
  | Wrap string gerr

text \<open>\<open>errors.As(err, *commitUnknownError)\<close> and \<open>errors.Is\<close> on the two sentinels: along the
  chain of wrapped errors.\<close>

fun commitUnknownOf :: "gerr \<Rightarrow> string option" where
  "commitUnknownOf (CommitUnknown c e) = Some c"
| "commitUnknownOf (WrapInvalid op e) = commitUnknownOf e"
| "commitUnknownOf (WrapTransient op e) = commitUnknownOf e"
| "commitUnknownOf (Wrap op e) = commitUnknownOf e"
| "commitUnknownOf e = None"

fun isEntityNotFound :: "gerr \<Rightarrow> bool" where
  "isEntityNotFound (EntityNotFound s) = True"
| "isEntityNotFound (CommitUnknown c e) = isEntityNotFound e"
| "isEntityNotFound (WrapInvalid op e) = isEntityNotFound e"
| "isEntityNotFound (WrapTransient op e) = isEntityNotFound e"
| "isEntityNotFound (Wrap op e) = isEntityNotFound e"
| "isEntityNotFound e = False"

fun isEntityConflict :: "gerr \<Rightarrow> bool" where
  "isEntityConflict (EntityConflict s) = True"
| "isEntityConflict (CommitUnknown c e) = isEntityConflict e"
| "isEntityConflict (WrapInvalid op e) = isEntityConflict e"
| "isEntityConflict (WrapTransient op e) = isEntityConflict e"
| "isEntityConflict (Wrap op e) = isEntityConflict e"
| "isEntityConflict e = False"

text \<open>\<open>errors.As(err, *errs.ClassifiedError)\<close>: the graph error code of a reply.\<close>

fun codeOf :: "gerr \<Rightarrow> string option" where
  "codeOf (Classified code s) = Some code"
| "codeOf (CommitUnknown c e) = codeOf e"
| "codeOf (WrapInvalid op e) = codeOf e"
| "codeOf (WrapTransient op e) = codeOf e"
| "codeOf (Wrap op e) = codeOf e"
| "codeOf e = None"

section \<open>Projection contracts\<close>

record predicate_group =
  GroupName :: string
  Mode :: string
  GroupPredicates :: "string list"

record contract =
  ContractName :: string
  MessageType :: string
  EntityPattern :: string
  BirthPredicates :: "string list"
  Groups :: "predicate_group list"
  IndexingProfile :: string

section \<open>The framework\<close>

text \<open>The error codes are constants of the framework's graph package; they are compared for
  equality, and their documentation gives each a meaning of its own.\<close>

record env =
  Ids :: entity_ids
  Cfg :: Config
  IsInvalid :: "gerr \<Rightarrow> bool"
  IsTransient :: "gerr \<Rightarrow> bool"
  ErrText :: "gerr \<Rightarrow> string"
  CodeEntityExists :: string
  CodeEntityNotFound :: string
  CodeRevisionMismatch :: string
  CodeInvalidRequest :: string
  CodeStructuralInvalid :: string
  CodeInternal :: string
  EntityIndexingProfile :: string
  EntityReferenceDatatype :: string
  ModeReconcile :: string
  TypeKey :: "message_type \<Rightarrow> string"
  TypeIsValid :: "message_type \<Rightarrow> bool"
  ContractOK :: "contract \<Rightarrow> string option"
  MarshalEntityState :: "string \<Rightarrow> triple list \<Rightarrow> string option"
  StateContractError :: "string \<Rightarrow> string option \<times> string"
  ResolveSubject :: "string \<Rightarrow> string + string"
  PointOf :: "json \<Rightarrow> (f64 \<times> f64 \<times> f64 option) option"
  ParseMediaType :: "string \<Rightarrow> string option"
  Std :: stdlib
  JsonFloat :: "f64 \<Rightarrow> string"
  ParseJson :: "string \<Rightarrow> json option"
  JsonText :: "json \<Rightarrow> string"
  EnvelopeText :: "json \<Rightarrow> string"
  FeatureJson :: "json \<Rightarrow> json option"
  GeometryJson :: "json \<Rightarrow> json option"
  SerializeJSONLD :: "triple list \<Rightarrow> string option"
  ToLower :: "string \<Rightarrow> string"
  ToUpper :: "string \<Rightarrow> string"
  Now :: string
  PolygonOf :: "json \<Rightarrow> (f64 \<times> f64) list list option"
  PointJson :: "f64 \<Rightarrow> f64 \<Rightarrow> f64 option \<Rightarrow> json"
  FeaturesJson :: "(json \<times> json option \<times> (string \<times> json) list) list \<Rightarrow> json"

text \<open>\<open>PointOf\<close> is what \<open>geojson.UnmarshalGeometry\<close> and the \<open>Point\<close> methods make of a
  geometry: the coordinates of a valid Point. \<open>ParseJson\<close> scans a body (\<open>None\<close>: a syntax
  error), \<open>JsonText\<close> is the text of a value of the scanned document, what a \<open>json.RawMessage\<close>
  holds and what \<open>json.Marshal\<close> writes; documents are taken in their compact form.
  \<open>EnvelopeText\<close> is the JSON of the framework's \<open>BaseMessage\<close> around a payload, \<open>FeatureJson\<close> and
  \<open>GeometryJson\<close> what \<open>json.Marshal\<close> writes for what \<open>geojson.UnmarshalFeature\<close> and
  \<open>geojson.UnmarshalGeometry\<close> read (\<open>None\<close>: they refuse it), \<open>SerializeJSONLD\<close> is
  \<open>export.Serialize\<close>, \<open>ToLower\<close> and \<open>ToUpper\<close> are those of \<open>strings\<close> on UTF-8 text,
  \<open>Now\<close> the time of the request in RFC 3339. \<open>PolygonOf\<close> is the rings of what
  \<open>geojson.UnmarshalGeometry\<close> reads as a Polygon, \<open>PointJson\<close> and \<open>FeaturesJson\<close> what
  \<open>json.Marshal\<close> writes for a \<open>geojson.Point\<close> and for a \<open>geojson.FeatureCollection\<close> whose features
  have an ID, a geometry and properties.\<close>

text \<open>The documented classes of the framework's wrappers.\<close>

definition errs_laws :: "env \<Rightarrow> bool" where
  "errs_laws X \<longleftrightarrow>
     (\<forall>op e. IsInvalid X (WrapInvalid op e)) \<and>
     (\<forall>op e. \<not> IsInvalid X (WrapTransient op e) \<and> IsTransient X (WrapTransient op e))"

datatype outcome = MutationApplied | MutationUnchanged | OutcomeOther string

datatype missing_reason = MissingNotFound | MissingError | ReasonOther string

datatype graph_request =
    CreateEntityRequest string "triple list" message_type "storage_ref option" string string string
  | ReconcilePredicatesRequest string nat "string list" "triple list" string string
  | DeleteEntityRequest string nat string string
  | EntityQuery string
  | BatchQuery "string list"
  | PredicateQuery string string int
  | SpatialBoundsQuery f64 f64 f64 f64 int
  | SpatialPolygonQuery json int

text \<open>The entity of an exact read: absent or null, bytes the framework cannot decode, or a state.\<close>

datatype entity_payload = EntityNull | EntityBad string | EntityGood entity_state

datatype reply_data =
    CreateResponse outcome "entity_state option" nat
  | ReconcileResponse outcome "entity_state option" nat
  | DeleteResponse outcome string nat
  | EntityResponse entity_payload nat
  | BatchResponse "entity_state list" "(string \<times> missing_reason) list"
  | PredicateResponse "string list"
  | JsonReply json
  | Undecodable string

text \<open>What a request gives: no reply, a reply that the framework classifies as an error (its graph
  error code, if it has one, and its text), or data. What reading an object gives.\<close>

datatype nats_result = NatsFail nats_error | Rejected "string option" string | Data reply_data

definition replyError :: "string option \<Rightarrow> string \<Rightarrow> gerr" where
  "replyError code s = (case code of Some c \<Rightarrow> Classified c s | None \<Rightarrow> Plain s)"

datatype store_result = ObjectNotFound | StoreFail nats_error | Bytes string

text \<open>Whether a subject passes a NATS filter, token by token: \<open>*\<close> stands for any token, a last \<open>>\<close> for one or
  more.\<close>

fun tokensMatch :: "string list \<Rightarrow> string list \<Rightarrow> bool" where
  "tokensMatch [] [] = True"
| "tokensMatch (f # fs) (s # ss) =
     (if fs = [] \<and> f = ''>'' then True else (f = ''*'' \<or> f = s) \<and> tokensMatch fs ss)"
| "tokensMatch _ _ = False"

definition subjectMatches :: "string \<Rightarrow> string \<Rightarrow> bool" where
  "subjectMatches flt subject \<longleftrightarrow> tokensMatch (go_split ''.'' flt) (go_split ''.'' subject)"

lemma tokensMatch_refl [simp]: "tokensMatch ts ts"
  by (induction ts) auto

lemma subjectMatches_refl [simp]: "subjectMatches s s"
  by (simp add: subjectMatches_def)

text \<open>A message of the observation stream. \<open>Deliver\<close> is what an ordered consumer on the stream
  fetches: up to so many messages of a subject filter from a start sequence on, or all of them.\<close>

record stream_msg =
  MsgData :: string
  Sequence :: nat
  MsgSubject :: string

text \<open>The operations on the outside world; a state of it is a value of type \<open>'s\<close>.\<close>

record 's backend =
  Request :: "graph_request \<Rightarrow> 's \<Rightarrow> nats_result \<times> 's"
  GetBytes :: "string \<Rightarrow> 's \<Rightarrow> store_result \<times> 's"
  PutBytes :: "string \<Rightarrow> string \<Rightarrow> 's \<Rightarrow> nats_error option \<times> 's"
  PurgeSubject :: "string \<Rightarrow> 's \<Rightarrow> nats_error option \<times> 's"
  PublishMsg :: "string \<Rightarrow> string \<Rightarrow> (string \<rightharpoonup> string) \<Rightarrow> 's \<Rightarrow> nats_error option \<times> 's"
  Deliver :: "string \<Rightarrow> nat option \<Rightarrow> int \<Rightarrow> 's \<Rightarrow> (nats_error + stream_msg list) \<times> 's"

section \<open>The gateway's state\<close>

record Identity =
  IdSubject :: string
  Forwarded :: "string \<rightharpoonup> string"
  Verified :: bool

datatype commit_state = NotCommitted | CommitStateUnknown | CommitVerified

record audit_record =
  AuditRequestID :: string
  AuditTraceID :: string
  AuditOperation :: string
  AuditEntityID :: string
  CommitState :: commit_state
  AuditRevision :: nat
  AuditIdentity :: Identity
  AuditError :: "gerr option"

text \<open>\<open>World\<close> is the outside state, \<open>Audit\<close> the audit records in order, \<open>Errs\<close> the counter
  behind \<open>/health\<close>. Request IDs are UUIDs; here they are drawn from \<open>FreshIDs\<close>. The last four
  say whether \<open>Start\<close> has stored the handles of the object store, the stream cleaner, the
  publisher and the stream reader.\<close>

record 's gateway =
  World :: 's
  Audit :: "audit_record list"
  Errs :: nat
  FreshIDs :: "string list"
  StoreReady :: bool
  CleanerReady :: bool
  PublisherReady :: bool
  ReaderReady :: bool

text \<open>The request's context: whether it is cancelled, its trace ID (empty when it has none), and the
  ID that \<open>NewTraceContext\<close> would make for it.\<close>

record context_state =
  Cancelled :: "nats_error option"
  TraceID :: string
  NewTraceID :: string

end
