(* ===== verification/Sensorml.thy ===== *)
theory Sensorml
  imports Graph Utf8 "HOL-Library.Monad_Syntax"
begin

text \<open>
  \<open>parser/sensorml\<close>: the SensorML process types (\<open>types_common.go\<close>, \<open>types_process.go\<close>,
  \<open>types_physical.go\<close>), their JSON (\<open>json.go\<close>) and the triples of a process
  (\<open>graphable.go\<close>). A value of Go type \<open>any\<close> is an \<open>obj\<close>, nil is \<open>None\<close>. A position
  holds the JSON value it was read from.
\<close>

section \<open>Types\<close>

record Reference =
  Href :: string
  RefTitle :: string
  Role :: string

record Term =
  TermDefinition :: string
  TermLabel :: string
  TermValue :: "obj option"
  UoM :: string
  SweTypeOf :: string

record SlotComponent =
  SlotName :: string
  SlotType :: string
  SlotDefinition :: string
  SlotLabel :: string
  SlotUoM :: string

record Connection =
  Source :: string
  Destination :: string

record AbstractProcess =
  ProcessID :: string
  Label :: string
  Description :: string
  Definition :: string
  UniqueID :: string
  Identifiers :: "Term list"
  Classifiers :: "Term list"
  Characteristics :: "Term list"
  Capabilities :: "Term list"
  Keywords :: "string list"
  Inputs :: "SlotComponent list"
  Outputs :: "SlotComponent list"
  Parameters :: "SlotComponent list"
  TypeOf :: "Reference option"
  Position :: "json option"

datatype Process =
    PhysicalSystem AbstractProcess "Reference option" "Process list" "Connection list"
  | PhysicalComponent AbstractProcess "Reference option" "Reference option"
  | SimpleProcess AbstractProcess "Reference option"
  | AggregateProcess AbstractProcess "Process list" "Connection list"

definition TypePhysicalSystem :: string where "TypePhysicalSystem = ''PhysicalSystem''"
definition TypePhysicalComponent :: string where "TypePhysicalComponent = ''PhysicalComponent''"
definition TypeSimpleProcess :: string where "TypeSimpleProcess = ''SimpleProcess''"
definition TypeAggregateProcess :: string where "TypeAggregateProcess = ''AggregateProcess''"

lemmas process_types = TypePhysicalSystem_def TypePhysicalComponent_def TypeSimpleProcess_def
  TypeAggregateProcess_def

lemma process_type_tests:
  "TypePhysicalSystem \<noteq> []" "TypePhysicalComponent \<noteq> []" "TypeSimpleProcess \<noteq> []" "TypeAggregateProcess \<noteq> []"
  "TypePhysicalComponent \<noteq> TypePhysicalSystem" "TypeSimpleProcess \<noteq> TypePhysicalSystem"
  "TypeSimpleProcess \<noteq> TypePhysicalComponent" "TypeAggregateProcess \<noteq> TypePhysicalSystem"
  "TypeAggregateProcess \<noteq> TypePhysicalComponent" "TypeAggregateProcess \<noteq> TypeSimpleProcess"
  by (simp_all add: process_types)

fun ProcessType :: "Process \<Rightarrow> string" where
  "ProcessType (PhysicalSystem b a cs ns) = TypePhysicalSystem"
| "ProcessType (PhysicalComponent b m a) = TypePhysicalComponent"
| "ProcessType (SimpleProcess b m) = TypeSimpleProcess"
| "ProcessType (AggregateProcess b cs ns) = TypeAggregateProcess"

fun Base :: "Process \<Rightarrow> AbstractProcess" where
  "Base (PhysicalSystem b a cs ns) = b"
| "Base (PhysicalComponent b m a) = b"
| "Base (SimpleProcess b m) = b"
| "Base (AggregateProcess b cs ns) = b"

definition LocalID :: "Process \<Rightarrow> string" where
  "LocalID p = ProcessID (Base p)"

section \<open>Values of type any\<close>

text \<open>A JSON value decoded into \<open>any\<close>: a number becomes a float64, and is an error when it is out
  of range. Arrays and objects are kept as they are.\<close>

fun numbers_ok :: "(string \<Rightarrow> f64 option) \<Rightarrow> json \<Rightarrow> bool" where
  "numbers_ok pf (JNum t) = (pf t \<noteq> None)"
| "numbers_ok pf (JArr xs) = list_all (numbers_ok pf) xs"
| "numbers_ok pf (JObj kvs) = list_all (\<lambda>kv. numbers_ok pf (snd kv)) kvs"
| "numbers_ok pf j = True"

definition anyFromJson :: "(string \<Rightarrow> f64 option) \<Rightarrow> json \<Rightarrow> obj option option" where
  "anyFromJson pf j =
     (case j of
        JNull \<Rightarrow> Some None
      | JStr s \<Rightarrow> Some (Some (OStr s))
      | JBool b \<Rightarrow> Some (Some (OBool b))
      | JNum t \<Rightarrow> map_option (\<lambda>f. Some (OFloat f)) (pf t)
      | _ \<Rightarrow> if numbers_ok pf j then Some (Some (OJson j)) else None)"

text \<open>Strings are written as valid UTF-8, the strings inside a value and its member names too.\<close>

fun coerceJson :: "json \<Rightarrow> json" where
  "coerceJson (JStr s) = JStr (coerce_utf8 s)"
| "coerceJson (JArr xs) = JArr (map coerceJson xs)"
| "coerceJson (JObj kvs) = JObj (map (\<lambda>kv. (coerce_utf8 (fst kv), coerceJson (snd kv))) kvs)"
| "coerceJson j = j"

definition objJson :: "(f64 \<Rightarrow> string) \<Rightarrow> obj \<Rightarrow> json" where
  "objJson ff x =
     (case x of OStr s \<Rightarrow> JStr (coerce_utf8 s) | OFloat f \<Rightarrow> JNum (ff f) | OBool b \<Rightarrow> JBool b
      | OJson j \<Rightarrow> coerceJson j)"

section \<open>Decoding\<close>

definition referenceKeys :: "string list" where
  "referenceKeys = [''href'', ''title'', ''role'']"

definition decodeReference :: "json \<Rightarrow> Reference option" where
  "decodeReference j =
     do { kvs \<leftarrow> struct_members j;
          h \<leftarrow> string_field referenceKeys kvs ''href'';
          t \<leftarrow> string_field referenceKeys kvs ''title'';
          r \<leftarrow> string_field referenceKeys kvs ''role'';
          Some \<lparr>Href = h, RefTitle = t, Role = r\<rparr> }"

definition termKeys :: "string list" where
  "termKeys = [''definition'', ''label'', ''value'', ''uom'', ''sweType'']"

definition decodeTerm :: "(string \<Rightarrow> f64 option) \<Rightarrow> json \<Rightarrow> Term option" where
  "decodeTerm pf j =
     do { kvs \<leftarrow> struct_members j;
          d \<leftarrow> string_field termKeys kvs ''definition'';
          l \<leftarrow> string_field termKeys kvs ''label'';
          v \<leftarrow> bind_last (anyFromJson pf) None (field_values termKeys kvs ''value'');
          u \<leftarrow> string_field termKeys kvs ''uom'';
          s \<leftarrow> string_field termKeys kvs ''sweType'';
          Some \<lparr>TermDefinition = d, TermLabel = l, TermValue = v, UoM = u, SweTypeOf = s\<rparr> }"

definition slotKeys :: "string list" where
  "slotKeys = [''name'', ''type'', ''definition'', ''label'', ''uom'']"

definition decodeSlot :: "json \<Rightarrow> SlotComponent option" where
  "decodeSlot j =
     do { kvs \<leftarrow> struct_members j;
          n \<leftarrow> string_field slotKeys kvs ''name'';
          t \<leftarrow> string_field slotKeys kvs ''type'';
          d \<leftarrow> string_field slotKeys kvs ''definition'';
          l \<leftarrow> string_field slotKeys kvs ''label'';
          u \<leftarrow> string_field slotKeys kvs ''uom'';
          Some \<lparr>SlotName = n, SlotType = t, SlotDefinition = d, SlotLabel = l, SlotUoM = u\<rparr> }"

definition connectionKeys :: "string list" where
  "connectionKeys = [''source'', ''destination'']"

definition decodeConnection :: "json \<Rightarrow> Connection option" where
  "decodeConnection j =
     do { kvs \<leftarrow> struct_members j;
          s \<leftarrow> string_field connectionKeys kvs ''source'';
          d \<leftarrow> string_field connectionKeys kvs ''destination'';
          Some \<lparr>Source = s, Destination = d\<rparr> }"

definition baseKeys :: "string list" where
  "baseKeys = [''id'', ''label'', ''description'', ''definition'', ''uniqueId'', ''identifiers'',
     ''classifiers'', ''characteristics'', ''capabilities'', ''keywords'', ''inputs'', ''outputs'',
     ''parameters'', ''typeOf'', ''position'']"

definition physicalSystemKeys :: "string list" where
  "physicalSystemKeys = baseKeys @ [''attachedTo'', ''components'', ''connections'']"

definition physicalComponentKeys :: "string list" where
  "physicalComponentKeys = baseKeys @ [''method'', ''attachedTo'']"

definition simpleProcessKeys :: "string list" where
  "simpleProcessKeys = baseKeys @ [''method'']"

definition aggregateProcessKeys :: "string list" where
  "aggregateProcessKeys = baseKeys @ [''components'', ''connections'']"

lemmas process_keys = baseKeys_def physicalSystemKeys_def physicalComponentKeys_def
  simpleProcessKeys_def aggregateProcessKeys_def

definition list_field ::
  "(json \<Rightarrow> 'a option) \<Rightarrow> string list \<Rightarrow> (string \<times> json) list \<Rightarrow> string \<Rightarrow> 'a list option"
where
  "list_field dec keys kvs f = bind_last (list_member dec) [] (field_values keys kvs f)"

definition ptr_field ::
  "(json \<Rightarrow> 'a option) \<Rightarrow> string list \<Rightarrow> (string \<times> json) list \<Rightarrow> string \<Rightarrow> 'a option option"
where
  "ptr_field dec keys kvs f = bind_last (ptr_member dec) None (field_values keys kvs f)"

definition decodeBase ::
  "(string \<Rightarrow> f64 option) \<Rightarrow> string list \<Rightarrow> (string \<times> json) list \<Rightarrow> AbstractProcess option"
where
  "decodeBase pf keys kvs =
     do { i \<leftarrow> string_field keys kvs ''id'';
          l \<leftarrow> string_field keys kvs ''label'';
          d \<leftarrow> string_field keys kvs ''description'';
          df \<leftarrow> string_field keys kvs ''definition'';
          u \<leftarrow> string_field keys kvs ''uniqueId'';
          ids \<leftarrow> list_field (decodeTerm pf) keys kvs ''identifiers'';
          cls \<leftarrow> list_field (decodeTerm pf) keys kvs ''classifiers'';
          chs \<leftarrow> list_field (decodeTerm pf) keys kvs ''characteristics'';
          cps \<leftarrow> list_field (decodeTerm pf) keys kvs ''capabilities'';
          kws \<leftarrow> list_field string_elem keys kvs ''keywords'';
          ins \<leftarrow> list_field decodeSlot keys kvs ''inputs'';
          outs \<leftarrow> list_field decodeSlot keys kvs ''outputs'';
          prs \<leftarrow> list_field decodeSlot keys kvs ''parameters'';
          ty \<leftarrow> ptr_field decodeReference keys kvs ''typeOf'';
          pos \<leftarrow> ptr_field Some keys kvs ''position'';
          Some \<lparr>ProcessID = i, Label = l, Description = d, Definition = df, UniqueID = u,
                Identifiers = ids, Classifiers = cls, Characteristics = chs, Capabilities = cps,
                Keywords = kws, Inputs = ins, Outputs = outs, Parameters = prs, TypeOf = ty,
                Position = pos\<rparr> }"

datatype sml_error =
    ProbeError
  | MissingType
  | UnknownProcessType string
  | DecodeError string
  | ComponentError sml_error

definition orError :: "sml_error \<Rightarrow> 'a option \<Rightarrow> sml_error + 'a" where
  "orError e x = (case x of None \<Rightarrow> Inl e | Some v \<Rightarrow> Inr v)"

definition probeType :: "json \<Rightarrow> string option" where
  "probeType j = do { kvs \<leftarrow> struct_members j; string_field [''type''] kvs ''type'' }"

definition unmarshalPhysicalComponent ::
  "(string \<Rightarrow> f64 option) \<Rightarrow> (string \<times> json) list \<Rightarrow> Process option"
where
  "unmarshalPhysicalComponent pf kvs =
     do { b \<leftarrow> decodeBase pf physicalComponentKeys kvs;
          m \<leftarrow> ptr_field decodeReference physicalComponentKeys kvs ''method'';
          a \<leftarrow> ptr_field decodeReference physicalComponentKeys kvs ''attachedTo'';
          Some (PhysicalComponent b m a) }"

definition unmarshalSimpleProcess ::
  "(string \<Rightarrow> f64 option) \<Rightarrow> (string \<times> json) list \<Rightarrow> Process option"
where
  "unmarshalSimpleProcess pf kvs =
     do { b \<leftarrow> decodeBase pf simpleProcessKeys kvs;
          m \<leftarrow> ptr_field decodeReference simpleProcessKeys kvs ''method'';
          Some (SimpleProcess b m) }"

text \<open>The envelopes of the two composite kinds: everything but the children, which stay raw.\<close>

definition systemEnvelope ::
  "(string \<Rightarrow> f64 option) \<Rightarrow> (string \<times> json) list \<Rightarrow>
   (AbstractProcess \<times> Reference option \<times> Connection list) option"
where
  "systemEnvelope pf kvs =
     do { b \<leftarrow> decodeBase pf physicalSystemKeys kvs;
          a \<leftarrow> ptr_field decodeReference physicalSystemKeys kvs ''attachedTo'';
          ns \<leftarrow> list_field decodeConnection physicalSystemKeys kvs ''connections'';
          Some (b, a, ns) }"

definition aggregateEnvelope ::
  "(string \<Rightarrow> f64 option) \<Rightarrow> (string \<times> json) list \<Rightarrow> (AbstractProcess \<times> Connection list) option"
where
  "aggregateEnvelope pf kvs =
     do { b \<leftarrow> decodeBase pf aggregateProcessKeys kvs;
          ns \<leftarrow> list_field decodeConnection aggregateProcessKeys kvs ''connections'';
          Some (b, ns) }"

definition rawComponents :: "string list \<Rightarrow> (string \<times> json) list \<Rightarrow> json list option" where
  "rawComponents keys kvs = bind_last raw_list [] (field_values keys kvs ''components'')"

lemma rawComponents_size:
  assumes "struct_members doc = Some kvs" "rawComponents keys kvs = Some raws" "r \<in> set raws"
  shows "size r < size doc"
proof (cases doc)
  case (JObj kvs')
  with assms bind_last_raw_size [of keys kvs "''components''" raws r] show ?thesis
    by (simp add: struct_members_def rawComponents_def)
qed (use assms in \<open>auto simp: struct_members_def rawComponents_def\<close>)

definition component_error :: "sml_error + 'a \<Rightarrow> sml_error + 'a" where
  "component_error r = (case r of Inl e \<Rightarrow> Inl (ComponentError e) | Inr x \<Rightarrow> Inr x)"

function UnmarshalProcess :: "(string \<Rightarrow> f64 option) \<Rightarrow> json \<Rightarrow> sml_error + Process" where
  "UnmarshalProcess pf doc =
     (case probeType doc of
        None \<Rightarrow> Inl ProbeError
      | Some ty \<Rightarrow>
          if ty = [] then Inl MissingType
          else
            (case struct_members doc of
               None \<Rightarrow> Inl ProbeError
             | Some kvs \<Rightarrow>
                 if ty = TypePhysicalSystem then
                   (case (systemEnvelope pf kvs, rawComponents physicalSystemKeys kvs) of
                      (Some (b, a, ns), Some raws) \<Rightarrow>
                        sbind (smap_list (\<lambda>r. component_error (UnmarshalProcess pf r)) raws)
                          (\<lambda>cs. Inr (PhysicalSystem b a cs ns))
                    | _ \<Rightarrow> Inl (DecodeError TypePhysicalSystem))
                 else if ty = TypePhysicalComponent then
                   orError (DecodeError TypePhysicalComponent) (unmarshalPhysicalComponent pf kvs)
                 else if ty = TypeSimpleProcess then
                   orError (DecodeError TypeSimpleProcess) (unmarshalSimpleProcess pf kvs)
                 else if ty = TypeAggregateProcess then
                   (case (aggregateEnvelope pf kvs, rawComponents aggregateProcessKeys kvs) of
                      (Some (b, ns), Some raws) \<Rightarrow>
                        sbind (smap_list (\<lambda>r. component_error (UnmarshalProcess pf r)) raws)
                          (\<lambda>cs. Inr (AggregateProcess b cs ns))
                    | _ \<Rightarrow> Inl (DecodeError TypeAggregateProcess))
                 else Inl (UnknownProcessType ty)))"
  by pat_completeness auto

termination
  by (relation "measure (\<lambda>(pf, doc). size doc)") (auto intro: rawComponents_size [OF _ sym])

declare UnmarshalProcess.simps [simp del]

section \<open>Encoding\<close>

definition referenceJson :: "Reference \<Rightarrow> json" where
  "referenceJson r = JObj (omit_empty ''href'' (coerce_utf8 (Href r)) @ omit_empty ''title'' (coerce_utf8 (RefTitle r)) @
     omit_empty ''role'' (coerce_utf8 (Role r)))"

definition termJson :: "(f64 \<Rightarrow> string) \<Rightarrow> Term \<Rightarrow> json" where
  "termJson ff t = JObj (omit_empty ''definition'' (coerce_utf8 (TermDefinition t)) @ omit_empty ''label'' (coerce_utf8 (TermLabel t)) @
     omit_nil ''value'' (objJson ff) (TermValue t) @ omit_empty ''uom'' (coerce_utf8 (UoM t)) @
     omit_empty ''sweType'' (coerce_utf8 (SweTypeOf t)))"

definition slotJson :: "SlotComponent \<Rightarrow> json" where
  "slotJson s = JObj ((''name'', JStr (coerce_utf8 (SlotName s))) # omit_empty ''type'' (coerce_utf8 (SlotType s)) @
     omit_empty ''definition'' (coerce_utf8 (SlotDefinition s)) @ omit_empty ''label'' (coerce_utf8 (SlotLabel s)) @
     omit_empty ''uom'' (coerce_utf8 (SlotUoM s)))"

definition connectionJson :: "Connection \<Rightarrow> json" where
  "connectionJson c = JObj [(''source'', JStr (coerce_utf8 (Source c))), (''destination'', JStr (coerce_utf8 (Destination c)))]"

definition baseMembers :: "(f64 \<Rightarrow> string) \<Rightarrow> AbstractProcess \<Rightarrow> (string \<times> json) list" where
  "baseMembers ff b =
     omit_empty ''id'' (coerce_utf8 (ProcessID b)) @ omit_empty ''label'' (coerce_utf8 (Label b)) @
     omit_empty ''description'' (coerce_utf8 (Description b)) @ omit_empty ''definition'' (coerce_utf8 (Definition b)) @
     omit_empty ''uniqueId'' (coerce_utf8 (UniqueID b)) @ omit_list ''identifiers'' (termJson ff) (Identifiers b) @
     omit_list ''classifiers'' (termJson ff) (Classifiers b) @
     omit_list ''characteristics'' (termJson ff) (Characteristics b) @
     omit_list ''capabilities'' (termJson ff) (Capabilities b) @
     omit_list ''keywords'' (\<lambda>k. JStr (coerce_utf8 k)) (Keywords b) @ omit_list ''inputs'' slotJson (Inputs b) @
     omit_list ''outputs'' slotJson (Outputs b) @ omit_list ''parameters'' slotJson (Parameters b) @
     omit_nil ''typeOf'' referenceJson (TypeOf b) @ omit_nil ''position'' coerceJson (Position b)"

fun processJson :: "(f64 \<Rightarrow> string) \<Rightarrow> Process \<Rightarrow> json" where
  "processJson ff (PhysicalSystem b a cs ns) =
     JObj ((''type'', JStr TypePhysicalSystem) # baseMembers ff b @
       omit_nil ''attachedTo'' referenceJson a @
       omit_list ''components'' id (map (processJson ff) cs) @
       omit_list ''connections'' connectionJson ns)"
| "processJson ff (PhysicalComponent b m a) =
     JObj ((''type'', JStr TypePhysicalComponent) # baseMembers ff b @
       omit_nil ''method'' referenceJson m @ omit_nil ''attachedTo'' referenceJson a)"
| "processJson ff (SimpleProcess b m) =
     JObj ((''type'', JStr TypeSimpleProcess) # baseMembers ff b @ omit_nil ''method'' referenceJson m)"
| "processJson ff (AggregateProcess b cs ns) =
     JObj ((''type'', JStr TypeAggregateProcess) # baseMembers ff b @
       omit_list ''components'' id (map (processJson ff) cs) @
       omit_list ''connections'' connectionJson ns)"

text \<open>\<open>json.Marshal\<close> fails on a float that is not finite, wherever it is.\<close>

definition term_finite :: "Term \<Rightarrow> bool" where
  "term_finite t = (case TermValue t of Some (OFloat f) \<Rightarrow> f64_finite f | _ \<Rightarrow> True)"

definition base_finite :: "AbstractProcess \<Rightarrow> bool" where
  "base_finite b = list_all term_finite (Identifiers b @ Classifiers b @ Characteristics b @ Capabilities b)"

fun process_finite :: "Process \<Rightarrow> bool" where
  "process_finite (PhysicalSystem b a cs ns) = (base_finite b \<and> list_all process_finite cs)"
| "process_finite (PhysicalComponent b m a) = base_finite b"
| "process_finite (SimpleProcess b m) = base_finite b"
| "process_finite (AggregateProcess b cs ns) = (base_finite b \<and> list_all process_finite cs)"

text \<open>It compacts what a \<open>MarshalJSON\<close> returns, and the scanner that does so, the one that reads a text
  as well, refuses arrays and objects that nest deeper than 10,000 levels.\<close>

fun nesting :: "json \<Rightarrow> nat" where
  "nesting (JArr xs) = Suc (foldr max (map nesting xs) 0)"
| "nesting (JObj kvs) = Suc (foldr max (map (\<lambda>kv. nesting (snd kv)) kvs) 0)"
| "nesting j = 0"

definition maxNestingDepth :: nat where
  "maxNestingDepth = 10000"

definition MarshalProcess :: "(f64 \<Rightarrow> string) \<Rightarrow> Process \<Rightarrow> json option" where
  "MarshalProcess ff p =
     (if process_finite p \<and> nesting (processJson ff p) \<le> maxNestingDepth then Some (processJson ff p) else None)"

section \<open>Triples\<close>

text \<open>\<open>Asset\<close>: a process with its entity ID; \<open>childFn\<close> is \<open>ChildIDFn\<close>.\<close>

definition processClassIRI :: "Process \<Rightarrow> string" where
  "processClassIRI p =
     (case p of PhysicalSystem _ _ _ _ \<Rightarrow> SSNSystem | PhysicalComponent _ _ _ \<Rightarrow> SosaSensor
      | SimpleProcess _ _ \<Rightarrow> SosaProcedure | AggregateProcess _ _ _ \<Rightarrow> SosaProcedure)"

definition childID :: "(string \<Rightarrow> string) option \<Rightarrow> Process \<Rightarrow> string" where
  "childID childFn child =
     (let local = LocalID child in
      if local = [] then []
      else case childFn of Some f \<Rightarrow> f local | None \<Rightarrow> local)"

definition ref_triple :: "env \<Rightarrow> string \<Rightarrow> string \<Rightarrow> string \<Rightarrow> triple" where
  "ref_triple X s p v = \<lparr>Subject = s, Predicate = p, Object = OStr v, Datatype = EntityReferenceDatatype X\<rparr>"

lemma ref_triple_sel [simp]:
  "Subject (ref_triple X s p v) = s" "Predicate (ref_triple X s p v) = p"
  "Object (ref_triple X s p v) = OStr v" "Datatype (ref_triple X s p v) = EntityReferenceDatatype X"
  by (simp_all add: ref_triple_def)

definition opt_triple :: "string \<Rightarrow> string \<Rightarrow> string \<Rightarrow> triple list" where
  "opt_triple s p v = (if v = [] then [] else [str_triple s p v])"

definition href_triple :: "string \<Rightarrow> string \<Rightarrow> Reference option \<Rightarrow> triple list" where
  "href_triple s p r = (case r of None \<Rightarrow> [] | Some r \<Rightarrow> opt_triple s p (Href r))"

definition value_triples :: "string \<Rightarrow> string \<Rightarrow> Term list \<Rightarrow> triple list" where
  "value_triples s p ts =
     concat (map (\<lambda>t. case TermValue t of None \<Rightarrow> []
        | Some v \<Rightarrow> [\<lparr>Subject = s, Predicate = p, Object = v, Datatype = []\<rparr>]) ts)"

definition physicalSystemTriples ::
  "env \<Rightarrow> (string \<Rightarrow> string) option \<Rightarrow> string \<Rightarrow> Reference option \<Rightarrow> Process list \<Rightarrow> triple list"
where
  "physicalSystemTriples X childFn eid a cs =
     href_triple eid PredAttachedTo a @
     concat (map (\<lambda>c. let k = childID childFn c in
        if k = [] then [] else [ref_triple X eid PredHosts k, ref_triple X k PredIsHostedBy eid]) cs)"

definition aggregateProcessTriples ::
  "env \<Rightarrow> (string \<Rightarrow> string) option \<Rightarrow> string \<Rightarrow> Process list \<Rightarrow> triple list"
where
  "aggregateProcessTriples X childFn eid cs =
     concat (map (\<lambda>c. let k = childID childFn c in
        if k = [] then [] else [ref_triple X eid PredHasSubSystem k]) cs)"

definition typeSpecificTriples ::
  "env \<Rightarrow> (string \<Rightarrow> string) option \<Rightarrow> string \<Rightarrow> Process \<Rightarrow> triple list"
where
  "typeSpecificTriples X childFn eid p =
     (case p of
        PhysicalSystem b a cs ns \<Rightarrow> physicalSystemTriples X childFn eid a cs
      | PhysicalComponent b m a \<Rightarrow> href_triple eid PredUsedProcedure m @ href_triple eid PredAttachedTo a
      | SimpleProcess b m \<Rightarrow> href_triple eid PredUsedProcedure m
      | AggregateProcess b cs ns \<Rightarrow> aggregateProcessTriples X childFn eid cs)"

definition processTriples ::
  "env \<Rightarrow> (string \<Rightarrow> string) option \<Rightarrow> string \<Rightarrow> Process \<Rightarrow> triple list"
where
  "processTriples X childFn eid p =
     (let b = Base p in
      [str_triple eid PredType (processClassIRI p)] @
      opt_triple eid PredLabel (Label b) @ opt_triple eid PredDescription (Description b) @
      opt_triple eid PredDefinition (Definition b) @ opt_triple eid PredUniqueID (UniqueID b) @
      value_triples eid PredIdentifierValue (Identifiers b) @
      value_triples eid PredCapabilityValue (filter (\<lambda>t. TermLabel t \<noteq> []) (Capabilities b)) @
      value_triples eid PredCharacteristicValue (filter (\<lambda>t. TermLabel t \<noteq> []) (Characteristics b)) @
      (case Position b of None \<Rightarrow> [] | Some raw \<Rightarrow> [str_triple eid PredPosition (JsonText X raw)]) @
      typeSpecificTriples X childFn eid p)"

section \<open>The round trip\<close>

definition any_ok :: "(string \<Rightarrow> f64 option) \<Rightarrow> obj \<Rightarrow> bool" where
  "any_ok pf x =
     (case x of OFloat f \<Rightarrow> f64_finite f
      | OJson j \<Rightarrow> (case j of JArr xs \<Rightarrow> numbers_ok pf j | JObj kvs \<Rightarrow> numbers_ok pf j | _ \<Rightarrow> False)
      | _ \<Rightarrow> True)"

definition term_ok :: "(string \<Rightarrow> f64 option) \<Rightarrow> Term \<Rightarrow> bool" where
  "term_ok pf t = (case TermValue t of None \<Rightarrow> True | Some v \<Rightarrow> any_ok pf v)"

definition base_ok :: "(string \<Rightarrow> f64 option) \<Rightarrow> AbstractProcess \<Rightarrow> bool" where
  "base_ok pf b \<longleftrightarrow>
     list_all (term_ok pf) (Identifiers b @ Classifiers b @ Characteristics b @ Capabilities b) \<and>
     Position b \<noteq> Some JNull"

fun process_ok :: "(string \<Rightarrow> f64 option) \<Rightarrow> Process \<Rightarrow> bool" where
  "process_ok pf (PhysicalSystem b a cs ns) = (base_ok pf b \<and> list_all (process_ok pf) cs)"
| "process_ok pf (PhysicalComponent b m a) = base_ok pf b"
| "process_ok pf (SimpleProcess b m) = base_ok pf b"
| "process_ok pf (AggregateProcess b cs ns) = (base_ok pf b \<and> list_all (process_ok pf) cs)"

definition float_text_laws :: "(string \<Rightarrow> f64 option) \<Rightarrow> (f64 \<Rightarrow> string) \<Rightarrow> bool" where
  "float_text_laws pf ff \<longleftrightarrow> (\<forall>f. f64_finite f \<longrightarrow> pf (ff f) = Some f)"

text \<open>What a process becomes when every string of it is made valid UTF-8; a process whose strings are
  valid stays as it is.\<close>

definition utf8Obj :: "obj \<Rightarrow> obj" where
  "utf8Obj x = (case x of OStr s \<Rightarrow> OStr (coerce_utf8 s) | OJson j \<Rightarrow> OJson (coerceJson j) | _ \<Rightarrow> x)"

definition utf8Reference :: "Reference \<Rightarrow> Reference" where
  "utf8Reference r = \<lparr>Href = coerce_utf8 (Href r), RefTitle = coerce_utf8 (RefTitle r), Role = coerce_utf8 (Role r)\<rparr>"

definition utf8Term :: "Term \<Rightarrow> Term" where
  "utf8Term t =
     \<lparr>TermDefinition = coerce_utf8 (TermDefinition t), TermLabel = coerce_utf8 (TermLabel t),
      TermValue = map_option utf8Obj (TermValue t), UoM = coerce_utf8 (UoM t), SweTypeOf = coerce_utf8 (SweTypeOf t)\<rparr>"

definition utf8Slot :: "SlotComponent \<Rightarrow> SlotComponent" where
  "utf8Slot s =
     \<lparr>SlotName = coerce_utf8 (SlotName s), SlotType = coerce_utf8 (SlotType s),
      SlotDefinition = coerce_utf8 (SlotDefinition s), SlotLabel = coerce_utf8 (SlotLabel s),
      SlotUoM = coerce_utf8 (SlotUoM s)\<rparr>"

definition utf8Connection :: "Connection \<Rightarrow> Connection" where
  "utf8Connection c = \<lparr>Source = coerce_utf8 (Source c), Destination = coerce_utf8 (Destination c)\<rparr>"

definition utf8Base :: "AbstractProcess \<Rightarrow> AbstractProcess" where
  "utf8Base b =
     \<lparr>ProcessID = coerce_utf8 (ProcessID b), Label = coerce_utf8 (Label b),
      Description = coerce_utf8 (Description b), Definition = coerce_utf8 (Definition b),
      UniqueID = coerce_utf8 (UniqueID b), Identifiers = map utf8Term (Identifiers b),
      Classifiers = map utf8Term (Classifiers b), Characteristics = map utf8Term (Characteristics b),
      Capabilities = map utf8Term (Capabilities b), Keywords = map coerce_utf8 (Keywords b),
      Inputs = map utf8Slot (Inputs b), Outputs = map utf8Slot (Outputs b), Parameters = map utf8Slot (Parameters b),
      TypeOf = map_option utf8Reference (TypeOf b), Position = map_option coerceJson (Position b)\<rparr>"

fun utf8Process :: "Process \<Rightarrow> Process" where
  "utf8Process (PhysicalSystem b a cs ns) =
     PhysicalSystem (utf8Base b) (map_option utf8Reference a) (map utf8Process cs) (map utf8Connection ns)"
| "utf8Process (PhysicalComponent b m a) =
     PhysicalComponent (utf8Base b) (map_option utf8Reference m) (map_option utf8Reference a)"
| "utf8Process (SimpleProcess b m) = SimpleProcess (utf8Base b) (map_option utf8Reference m)"
| "utf8Process (AggregateProcess b cs ns) = AggregateProcess (utf8Base b) (map utf8Process cs) (map utf8Connection ns)"

lemma numbers_ok_coerce [simp]: "numbers_ok pf (coerceJson j) = numbers_ok pf j"
  by (induction j rule: coerceJson.induct) (auto simp: list_all_iff)

lemma coerceJson_null [simp]: "coerceJson j = JNull \<longleftrightarrow> j = JNull"
  by (cases j) simp_all

lemma last_string_omit [simp]: "last_string (if s \<noteq> [] then [JStr s] else []) [] = Some s"
  by simp

lemma last_string_text [simp]: "last_string (if s \<noteq> [] then [JStr (coerce_utf8 s)] else []) [] = Some (coerce_utf8 s)"
  by simp

lemma struct_members_obj [simp]: "struct_members (JObj kvs) = Some kvs"
  by (simp add: struct_members_def)

lemma anyFromJson_objJson:
  assumes "float_text_laws pf ff" "any_ok pf x"
  shows "anyFromJson pf (objJson ff x) = Some (Some (utf8Obj x))"
proof (cases x)
  case (OJson j)
  have "numbers_ok pf (coerceJson j) = numbers_ok pf j" by simp
  with OJson assms(2) show ?thesis
    by (cases j) (simp_all add: anyFromJson_def objJson_def any_ok_def utf8Obj_def del: numbers_ok_coerce)
qed (use assms in \<open>simp_all add: anyFromJson_def objJson_def any_ok_def float_text_laws_def utf8Obj_def\<close>)

lemma decodeReference_json [simp]: "decodeReference (referenceJson r) = Some (utf8Reference r)"
  by (simp add: utf8Reference_def decodeReference_def referenceJson_def string_field_def referenceKeys_def)

lemma referenceJson_not_null [simp]: "referenceJson r \<noteq> JNull"
  by (simp add: referenceJson_def)

lemma decodeSlot_json [simp]: "decodeSlot (slotJson s) = Some (utf8Slot s)"
  by (simp add: utf8Slot_def decodeSlot_def slotJson_def string_field_def slotKeys_def)

lemma decodeConnection_json [simp]: "decodeConnection (connectionJson c) = Some (utf8Connection c)"
  by (simp add: utf8Connection_def decodeConnection_def connectionJson_def string_field_def connectionKeys_def)

lemma decodeTerm_json:
  assumes "float_text_laws pf ff" "term_ok pf t"
  shows "decodeTerm pf (termJson ff t) = Some (utf8Term t)"
proof -
  have v: "bind_last (anyFromJson pf) None
      (case TermValue t of None \<Rightarrow> [] | Some v \<Rightarrow> [objJson ff v]) = Some (map_option utf8Obj (TermValue t))"
    using assms anyFromJson_objJson by (auto simp: term_ok_def split: option.splits)
  then show ?thesis
    by (simp add: utf8Term_def decodeTerm_def termJson_def string_field_def termKeys_def)
qed

lemma list_field_members:
  assumes "\<And>x. x \<in> set xs \<Longrightarrow> dec (enc x) = Some (h x)"
  shows "bind_last (list_member dec) [] (if xs \<noteq> [] then [JArr (map enc xs)] else []) = Some (map h xs)"
proof -
  have "map (\<lambda>x. dec (enc x)) xs = map Some (map h xs)" using assms by simp
  then have "list_member dec (JArr (map enc xs)) = Some (map h xs)"
    by (simp add: list_member_def those_eq_map comp_def)
  then show ?thesis by simp
qed

lemma ptr_field_members:
  assumes "\<And>v. x = Some v \<Longrightarrow> dec (enc v) = Some (h v) \<and> enc v \<noteq> JNull"
  shows "bind_last (ptr_member dec) None (case x of None \<Rightarrow> [] | Some v \<Rightarrow> [enc v]) = Some (map_option h x)"
  using assms by (cases x) (auto simp: ptr_member_def)

lemma base_fields:
  assumes "set baseKeys \<subseteq> set keys"
  shows
    "field_values keys (baseMembers ff b) ''id'' = (if coerce_utf8 (ProcessID b) \<noteq> [] then [JStr (coerce_utf8 (ProcessID b))] else [])"
    "field_values keys (baseMembers ff b) ''label'' = (if coerce_utf8 (Label b) \<noteq> [] then [JStr (coerce_utf8 (Label b))] else [])"
    "field_values keys (baseMembers ff b) ''description'' = (if coerce_utf8 (Description b) \<noteq> [] then [JStr (coerce_utf8 (Description b))] else [])"
    "field_values keys (baseMembers ff b) ''definition'' = (if coerce_utf8 (Definition b) \<noteq> [] then [JStr (coerce_utf8 (Definition b))] else [])"
    "field_values keys (baseMembers ff b) ''uniqueId'' = (if coerce_utf8 (UniqueID b) \<noteq> [] then [JStr (coerce_utf8 (UniqueID b))] else [])"
    "field_values keys (baseMembers ff b) ''identifiers'' = (if Identifiers b \<noteq> [] then [JArr (map (termJson ff) (Identifiers b))] else [])"
    "field_values keys (baseMembers ff b) ''classifiers'' = (if Classifiers b \<noteq> [] then [JArr (map (termJson ff) (Classifiers b))] else [])"
    "field_values keys (baseMembers ff b) ''characteristics'' = (if Characteristics b \<noteq> [] then [JArr (map (termJson ff) (Characteristics b))] else [])"
    "field_values keys (baseMembers ff b) ''capabilities'' = (if Capabilities b \<noteq> [] then [JArr (map (termJson ff) (Capabilities b))] else [])"
    "field_values keys (baseMembers ff b) ''keywords'' = (if Keywords b \<noteq> [] then [JArr (map (\<lambda>k. JStr (coerce_utf8 k)) (Keywords b))] else [])"
    "field_values keys (baseMembers ff b) ''inputs'' = (if Inputs b \<noteq> [] then [JArr (map slotJson (Inputs b))] else [])"
    "field_values keys (baseMembers ff b) ''outputs'' = (if Outputs b \<noteq> [] then [JArr (map slotJson (Outputs b))] else [])"
    "field_values keys (baseMembers ff b) ''parameters'' = (if Parameters b \<noteq> [] then [JArr (map slotJson (Parameters b))] else [])"
    "field_values keys (baseMembers ff b) ''typeOf'' = (case TypeOf b of None \<Rightarrow> [] | Some v \<Rightarrow> [referenceJson v])"
    "field_values keys (baseMembers ff b) ''position'' = (case Position b of None \<Rightarrow> [] | Some v \<Rightarrow> [coerceJson v])"
  using assms by (simp_all add: baseMembers_def baseKeys_def del: coerce_utf8_empty)

text \<open>The members around the base's own do not touch its fields.\<close>

definition quiet :: "string list \<Rightarrow> (string \<times> json) list \<Rightarrow> bool" where
  "quiet keys kvs \<longleftrightarrow> list_all (\<lambda>f. field_values keys kvs f = []) baseKeys"

lemma decodeBase_members:
  assumes keys: "set baseKeys \<subseteq> set keys" and q: "quiet keys pre" "quiet keys post"
    and pf: "float_text_laws pf ff" and ok: "base_ok pf b"
  shows "decodeBase pf keys (pre @ baseMembers ff b @ post) = Some (utf8Base b)"
proof -
  note quiet = q [unfolded quiet_def baseKeys_def, simplified]
  have t: "x \<in> set (Identifiers b) \<union> set (Classifiers b) \<union> set (Characteristics b) \<union> set (Capabilities b)
      \<Longrightarrow> decodeTerm pf (termJson ff x) = Some (utf8Term x)" for x
    using decodeTerm_json [OF pf] ok by (auto simp: base_ok_def list_all_iff)
  have terms: "bind_last (list_member (decodeTerm pf)) []
      (if ts \<noteq> [] then [JArr (map (termJson ff) ts)] else []) = Some (map utf8Term ts)"
    if "set ts \<subseteq> set (Identifiers b) \<union> set (Classifiers b) \<union> set (Characteristics b) \<union> set (Capabilities b)" for ts
    by (rule list_field_members) (use t that in blast)
  have terms4: "bind_last (list_member (decodeTerm pf)) [] (if f b \<noteq> [] then [JArr (map (termJson ff) (f b))] else []) = Some (map utf8Term (f b))"
    if "f = Identifiers \<or> f = Classifiers \<or> f = Characteristics \<or> f = Capabilities" for f
    by (rule terms) (use that in auto)
  note terms' = terms4 [of Identifiers, simplified simp_thms] terms4 [of Classifiers, simplified simp_thms]
    terms4 [of Characteristics, simplified simp_thms] terms4 [of Capabilities, simplified simp_thms]
  have strings: "bind_last (list_member string_elem) [] (if ts \<noteq> [] then [JArr (map (\<lambda>k. JStr (coerce_utf8 k)) ts)] else []) =
      Some (map coerce_utf8 ts)" for ts
    by (rule list_field_members) (simp add: string_elem_def)
  have slots: "bind_last (list_member decodeSlot) [] (if ts \<noteq> [] then [JArr (map slotJson ts)] else []) = Some (map utf8Slot ts)" for ts
    by (rule list_field_members) simp
  have refs: "bind_last (ptr_member decodeReference) None (case x of None \<Rightarrow> [] | Some v \<Rightarrow> [referenceJson v]) =
      Some (map_option utf8Reference x)" for x
    by (rule ptr_field_members) simp
  have pos: "bind_last (ptr_member Some) None (case Position b of None \<Rightarrow> [] | Some v \<Rightarrow> [coerceJson v]) =
      Some (map_option coerceJson (Position b))"
    by (rule ptr_field_members) (use ok in \<open>auto simp: base_ok_def\<close>)
  show ?thesis
    unfolding decodeBase_def string_field_def list_field_def ptr_field_def
    by (simp only: field_values_append quiet base_fields [OF keys] append_Nil append_Nil2
        last_string_omit terms' strings slots refs pos bind.bind_lunit utf8Base_def)
qed

lemma field_values_unmatched:
  assumes "match_field keys k = None"
  shows "field_values keys ((k, v) # r) f = field_values keys r f"
    "field_values keys (omit_empty k s) f = []"
    "field_values keys (omit_nil k enc x) f = []"
    "field_values keys (omit_list k enc' xs) f = []"
  using assms by (simp_all add: field_values_def omit_empty_def omit_nil_def omit_list_def split: option.splits)

lemma type_is_other:
  "match_field physicalSystemKeys ''type'' = None" "match_field physicalComponentKeys ''type'' = None"
  "match_field simpleProcessKeys ''type'' = None" "match_field aggregateProcessKeys ''type'' = None"
  by code_simp+

lemma others_not_type:
  "list_all (\<lambda>k. match_field [''type''] k = None)
     (baseKeys @ [''attachedTo'', ''components'', ''connections'', ''method''])"
  by code_simp

lemma probe_members:
  assumes "field_values [''type''] post ''type'' = []"
  shows "probeType (JObj ((''type'', JStr ty) # baseMembers ff b @ post)) = Some ty"
proof -
  note k = others_not_type [unfolded baseKeys_def, simplified]
  have "field_values [''type''] (baseMembers ff b) ''type'' = []"
    unfolding baseMembers_def by (simp only: field_values_append field_values_unmatched k append_Nil)
  with assms show ?thesis
    by (simp add: probeType_def string_field_def)
qed

lemma quiet_type:
  "match_field keys ''type'' = None \<Longrightarrow> quiet keys [(''type'', v)]"
  by (simp add: quiet_def field_values_unmatched list_all_iff)

lemma base_subset:
  "set baseKeys \<subseteq> set physicalSystemKeys" "set baseKeys \<subseteq> set physicalComponentKeys"
  "set baseKeys \<subseteq> set simpleProcessKeys" "set baseKeys \<subseteq> set aggregateProcessKeys"
  by (auto simp: process_keys)

text \<open>What follows the base in each kind: it carries no base field, and its own fields read back.\<close>

lemma extra_members:
  "k \<in> set keys \<Longrightarrow> k \<notin> set baseKeys \<Longrightarrow> quiet keys (omit_nil k enc x)"
  "k \<in> set keys \<Longrightarrow> k \<notin> set baseKeys \<Longrightarrow> quiet keys (omit_list k enc' xs)"
  "quiet keys xs' \<Longrightarrow> quiet keys ys' \<Longrightarrow> quiet keys (xs' @ ys')"
  "quiet keys []"
  by (auto simp: quiet_def list_all_iff)

lemma field_values_other:
  assumes "k \<in> set keys" "f \<noteq> k"
  shows "field_values keys (omit_empty k s) f = []" "field_values keys (omit_nil k enc x) f = []"
    "field_values keys (omit_list k enc' xs) f = []"
  using assms by auto

lemma baseKeys_members:
  "''id'' \<in> set baseKeys" "''label'' \<in> set baseKeys" "''description'' \<in> set baseKeys"
  "''definition'' \<in> set baseKeys" "''uniqueId'' \<in> set baseKeys" "''identifiers'' \<in> set baseKeys"
  "''classifiers'' \<in> set baseKeys" "''characteristics'' \<in> set baseKeys" "''capabilities'' \<in> set baseKeys"
  "''keywords'' \<in> set baseKeys" "''inputs'' \<in> set baseKeys" "''outputs'' \<in> set baseKeys"
  "''parameters'' \<in> set baseKeys" "''typeOf'' \<in> set baseKeys" "''position'' \<in> set baseKeys"
  by (simp_all add: baseKeys_def)

lemma field_values_base_other:
  assumes "set baseKeys \<subseteq> set keys" "f \<notin> set baseKeys"
  shows "field_values keys (baseMembers ff b) f = []"
proof -
  have "k \<in> set keys \<and> f \<noteq> k" if "k \<in> set baseKeys" for k using assms that by auto
  note k = this [THEN conjunct1] this [THEN conjunct2]
  show ?thesis
    unfolding baseMembers_def
    by (simp only: field_values_append field_values_other k baseKeys_members append_Nil simp_thms)
qed

lemma ptr_field_reference:
  "bind_last (ptr_member decodeReference) None (case x of None \<Rightarrow> [] | Some v \<Rightarrow> [referenceJson v]) =
     Some (map_option utf8Reference x)"
  by (rule ptr_field_members) simp

lemma list_field_connections:
  "bind_last (list_member decodeConnection) [] (if ns \<noteq> [] then [JArr (map connectionJson ns)] else []) =
     Some (map utf8Connection ns)"
  by (rule list_field_members) simp

lemma raw_components:
  "bind_last raw_list [] (if xs \<noteq> [] then [JArr xs] else []) = Some xs"
  by (simp add: raw_list_def)

lemma extra_keys:
  "''attachedTo'' \<notin> set baseKeys" "''components'' \<notin> set baseKeys" "''connections'' \<notin> set baseKeys"
  "''method'' \<notin> set baseKeys"
  "''attachedTo'' \<in> set physicalSystemKeys" "''components'' \<in> set physicalSystemKeys"
  "''connections'' \<in> set physicalSystemKeys" "''method'' \<in> set physicalComponentKeys"
  "''attachedTo'' \<in> set physicalComponentKeys" "''method'' \<in> set simpleProcessKeys"
  "''components'' \<in> set aggregateProcessKeys" "''connections'' \<in> set aggregateProcessKeys"
  by (simp_all add: process_keys)

lemma member_distinct:
  "''attachedTo'' \<noteq> ''components''" "''attachedTo'' \<noteq> ''connections''" "''components'' \<noteq> ''connections''"
  "''method'' \<noteq> ''attachedTo''"
  by simp_all

lemmas extra_fields = field_values_append field_values_omit_list field_values_omit_nil
  field_values_unmatched(1) [OF type_is_other(1)] field_values_unmatched(1) [OF type_is_other(2)]
  field_values_unmatched(1) [OF type_is_other(3)] field_values_unmatched(1) [OF type_is_other(4)]
  field_values_base_other [OF base_subset(1)] field_values_base_other [OF base_subset(2)]
  field_values_base_other [OF base_subset(3)] field_values_base_other [OF base_subset(4)]
  extra_keys member_distinct member_distinct [symmetric] list.map_id simp_thms if_True if_False
  append_Nil append_Nil2

lemma smap_list_components:
  assumes "\<And>c. c \<in> set cs \<Longrightarrow> UnmarshalProcess pf (enc c) = Inr (h c)"
  shows "smap_list (\<lambda>r. component_error (UnmarshalProcess pf r)) (map enc cs) = Inr (map h cs)"
  using assms by (induction cs) (simp_all add: component_error_def)

lemma process_roundtrip:
  assumes "float_text_laws pf ff"
  shows "process_ok pf p \<Longrightarrow> UnmarshalProcess pf (processJson ff p) = Inr (utf8Process p)"
proof (induction p)
  case (PhysicalSystem b a cs ns)
  let ?post = "omit_nil ''attachedTo'' referenceJson a @
       omit_list ''components'' id (map (processJson ff) cs) @ omit_list ''connections'' connectionJson ns"
  let ?kvs = "(''type'', JStr TypePhysicalSystem) # baseMembers ff b @ ?post"
  have q: "quiet physicalSystemKeys ?post"
    by (intro extra_members) (simp_all add: extra_keys)
  have base: "decodeBase pf physicalSystemKeys ?kvs = Some (utf8Base b)"
    using decodeBase_members [OF base_subset(1) quiet_type [OF type_is_other(1)] q assms] PhysicalSystem.prems
    by simp
  have probe: "probeType (JObj ?kvs) = Some TypePhysicalSystem"
    by (rule probe_members) (use others_not_type in \<open>simp add: field_values_unmatched\<close>)
  have "systemEnvelope pf ?kvs = Some (utf8Base b, map_option utf8Reference a, map utf8Connection ns)"
    unfolding systemEnvelope_def base ptr_field_def list_field_def
    by (simp only: extra_fields ptr_field_reference list_field_connections bind.bind_lunit)
  moreover have "rawComponents physicalSystemKeys ?kvs = Some (map (processJson ff) cs)"
    unfolding rawComponents_def by (simp only: extra_fields) (simp add: raw_list_def)
  moreover have "smap_list (\<lambda>r. component_error (UnmarshalProcess pf r)) (map (processJson ff) cs) = Inr (map utf8Process cs)"
    using PhysicalSystem by (intro smap_list_components) (simp add: list_all_iff)
  ultimately show ?case
    by (subst UnmarshalProcess.simps) (simp add: probe process_type_tests)
next
  case (PhysicalComponent b m a)
  let ?post = "omit_nil ''method'' referenceJson m @ omit_nil ''attachedTo'' referenceJson a"
  let ?kvs = "(''type'', JStr TypePhysicalComponent) # baseMembers ff b @ ?post"
  have q: "quiet physicalComponentKeys ?post"
    by (intro extra_members) (simp_all add: extra_keys)
  have base: "decodeBase pf physicalComponentKeys ?kvs = Some (utf8Base b)"
    using decodeBase_members [OF base_subset(2) quiet_type [OF type_is_other(2)] q assms] PhysicalComponent.prems
    by simp
  have probe: "probeType (JObj ?kvs) = Some TypePhysicalComponent"
    by (rule probe_members) (use others_not_type in \<open>simp add: field_values_unmatched\<close>)
  have "unmarshalPhysicalComponent pf ?kvs = Some (utf8Process (PhysicalComponent b m a))"
    unfolding unmarshalPhysicalComponent_def base ptr_field_def
    by (simp only: extra_fields ptr_field_reference bind.bind_lunit utf8Process.simps)
  then show ?case
    by (subst UnmarshalProcess.simps) (simp add: probe process_type_tests orError_def)
next
  case (SimpleProcess b m)
  let ?post = "omit_nil ''method'' referenceJson m"
  let ?kvs = "(''type'', JStr TypeSimpleProcess) # baseMembers ff b @ ?post"
  have q: "quiet simpleProcessKeys ?post"
    by (intro extra_members) (simp_all add: extra_keys)
  have base: "decodeBase pf simpleProcessKeys ?kvs = Some (utf8Base b)"
    using decodeBase_members [OF base_subset(3) quiet_type [OF type_is_other(3)] q assms] SimpleProcess.prems
    by simp
  have probe: "probeType (JObj ?kvs) = Some TypeSimpleProcess"
    by (rule probe_members) (use others_not_type in \<open>simp add: field_values_unmatched\<close>)
  have "unmarshalSimpleProcess pf ?kvs = Some (utf8Process (SimpleProcess b m))"
    unfolding unmarshalSimpleProcess_def base ptr_field_def
    by (simp only: extra_fields ptr_field_reference bind.bind_lunit utf8Process.simps)
  then show ?case
    by (subst UnmarshalProcess.simps) (simp add: probe process_type_tests orError_def)
next
  case (AggregateProcess b cs ns)
  let ?post = "omit_list ''components'' id (map (processJson ff) cs) @ omit_list ''connections'' connectionJson ns"
  let ?kvs = "(''type'', JStr TypeAggregateProcess) # baseMembers ff b @ ?post"
  have q: "quiet aggregateProcessKeys ?post"
    by (intro extra_members) (simp_all add: extra_keys)
  have base: "decodeBase pf aggregateProcessKeys ?kvs = Some (utf8Base b)"
    using decodeBase_members [OF base_subset(4) quiet_type [OF type_is_other(4)] q assms] AggregateProcess.prems
    by simp
  have probe: "probeType (JObj ?kvs) = Some TypeAggregateProcess"
    by (rule probe_members) (use others_not_type in \<open>simp add: field_values_unmatched\<close>)
  have "aggregateEnvelope pf ?kvs = Some (utf8Base b, map utf8Connection ns)"
    unfolding aggregateEnvelope_def base list_field_def
    by (simp only: extra_fields list_field_connections bind.bind_lunit)
  moreover have "rawComponents aggregateProcessKeys ?kvs = Some (map (processJson ff) cs)"
    unfolding rawComponents_def by (simp only: extra_fields) (simp add: raw_list_def)
  moreover have "smap_list (\<lambda>r. component_error (UnmarshalProcess pf r)) (map (processJson ff) cs) = Inr (map utf8Process cs)"
    using AggregateProcess by (intro smap_list_components) (simp add: list_all_iff)
  ultimately show ?case
    by (subst UnmarshalProcess.simps) (simp add: probe process_type_tests)
qed


text \<open>The zero value with an ID.\<close>

definition bareBase :: "string \<Rightarrow> AbstractProcess" where
  "bareBase i =
     \<lparr>ProcessID = i, Label = [], Description = [], Definition = [], UniqueID = [], Identifiers = [],
      Classifiers = [], Characteristics = [], Capabilities = [], Keywords = [], Inputs = [],
      Outputs = [], Parameters = [], TypeOf = None, Position = None\<rparr>"

definition sampleTerm :: "obj \<Rightarrow> Term" where
  "sampleTerm v = \<lparr>TermDefinition = ''urn:def'', TermLabel = ''l'', TermValue = Some v, UoM = [], SweTypeOf = []\<rparr>"

text \<open>A rig whose label is ASCII and a battery whose label is not valid UTF-8.\<close>

definition sampleProcess :: "string \<Rightarrow> Process" where
  "sampleProcess label =
     PhysicalSystem ((bareBase ''rig'')\<lparr>Label := ''Rig'', UniqueID := ''urn:x:rig'',
         Identifiers := [sampleTerm (OStr ''sn-1''), sampleTerm (OFloat 42)], Keywords := [''a'', [] ]\<rparr>)
       (Some \<lparr>Href = ''http://p'', RefTitle = [], Role = []\<rparr>)
       [PhysicalComponent ((bareBase ''battery'')\<lparr>Label := label\<rparr>) (Some \<lparr>Href = ''urn:m'', RefTitle = [], Role = []\<rparr>) None,
        AggregateProcess (bareBase ''agg'') [SimpleProcess (bareBase []) None] []]
       [\<lparr>Source = ''battery/out'', Destination = ''agg/in''\<rparr>]"

lemma sample_utf8: "utf8Process (sampleProcess [CHR 0xFF]) = sampleProcess [CHR 0xEF, CHR 0xBF, CHR 0xBD]"
  by code_simp

lemma sample_nesting: "nesting (processJson (FormatFloat bitsStdlib) (sampleProcess label)) \<le> maxNestingDepth"
  by (simp add: sampleProcess_def maxNestingDepth_def baseMembers_def bareBase_def sampleTerm_def omit_empty_def omit_nil_def
      omit_list_def termJson_def objJson_def referenceJson_def connectionJson_def)


end
