(* ===== verification/Projection.thy ===== *)
theory Projection
  imports Graph
begin

text \<open>
  \<open>gateway/cs-api/projection_contracts.go\<close>, and the contract checks of
  \<open>graph_mutations.go\<close>: which predicates each kind of resource may carry, which of them a
  reconcile owns, and which contract an entity falls under. Registering predicates in the
  framework's vocabulary registry is not modelled.
\<close>

section \<open>Names and message types\<close>

definition systemProjectionContractName :: string where "systemProjectionContractName = ''cs-api.system''"
definition datastreamProjectionContractName :: string where "datastreamProjectionContractName = ''cs-api.datastream''"
definition procedureProjectionContractName :: string where "procedureProjectionContractName = ''cs-api.procedure''"
definition deploymentProjectionContractName :: string where "deploymentProjectionContractName = ''cs-api.deployment''"
definition samplingFeatureProjectionContractName :: string where
  "samplingFeatureProjectionContractName = ''cs-api.sampling-feature''"
definition propertyProjectionContractName :: string where "propertyProjectionContractName = ''cs-api.property''"
definition controlStreamProjectionContractName :: string where
  "controlStreamProjectionContractName = ''cs-api.control-stream''"
definition commandProjectionContractName :: string where "commandProjectionContractName = ''cs-api.command''"
definition systemEventProjectionContractName :: string where
  "systemEventProjectionContractName = ''cs-api.system-event''"
definition feasibilityProjectionContractName :: string where
  "feasibilityProjectionContractName = ''cs-api.feasibility''"
definition schemaArtifactProjectionContractName :: string where
  "schemaArtifactProjectionContractName = ''cs-api.schema-artifact''"

lemmas contract_names = systemProjectionContractName_def datastreamProjectionContractName_def
  procedureProjectionContractName_def deploymentProjectionContractName_def
  samplingFeatureProjectionContractName_def propertyProjectionContractName_def
  controlStreamProjectionContractName_def commandProjectionContractName_def
  systemEventProjectionContractName_def feasibilityProjectionContractName_def
  schemaArtifactProjectionContractName_def

definition c360Type :: "string \<Rightarrow> message_type" where
  "c360Type cat = \<lparr>Domain = ''c360'', MsgCategory = cat, Version = ''v1''\<rparr>"

definition systemProjectionMessageType :: message_type where
  "systemProjectionMessageType = c360Type ''csapi-system''"
definition datastreamProjectionMessageType :: message_type where
  "datastreamProjectionMessageType = c360Type ''csapi-datastream''"
definition procedureProjectionMessageType :: message_type where
  "procedureProjectionMessageType = c360Type ''csapi-procedure''"
definition deploymentProjectionMessageType :: message_type where
  "deploymentProjectionMessageType = c360Type ''csapi-deployment''"
definition samplingFeatureProjectionMessageType :: message_type where
  "samplingFeatureProjectionMessageType = c360Type ''csapi-sampling-feature''"
definition propertyProjectionMessageType :: message_type where
  "propertyProjectionMessageType = c360Type ''csapi-property''"
definition controlStreamProjectionMessageType :: message_type where
  "controlStreamProjectionMessageType = c360Type ''csapi-control-stream''"
definition commandProjectionMessageType :: message_type where
  "commandProjectionMessageType = c360Type ''csapi-command''"
definition systemEventProjectionMessageType :: message_type where
  "systemEventProjectionMessageType = c360Type ''csapi-system-event''"
definition feasibilityProjectionMessageType :: message_type where
  "feasibilityProjectionMessageType = c360Type ''csapi-feasibility''"
definition schemaArtifactProjectionMessageType :: message_type where
  "schemaArtifactProjectionMessageType = c360Type ''csapi-schema-artifact''"

section \<open>The contracts\<close>

definition representationContract ::
  "env \<Rightarrow> string \<Rightarrow> message_type \<Rightarrow> string \<Rightarrow> string list \<Rightarrow> contract"
where
  "representationContract X name mt pattern predicates =
     \<lparr>ContractName = name, MessageType = TypeKey X mt, EntityPattern = pattern,
      BirthPredicates = [PredType, EntityIndexingProfile X],
      Groups = [\<lparr>GroupName = ''representation'', Mode = ModeReconcile X, GroupPredicates = predicates\<rparr>],
      IndexingProfile = ''content''\<rparr>"

definition birthOnlyContract ::
  "env \<Rightarrow> string \<Rightarrow> message_type \<Rightarrow> string \<Rightarrow> string list \<Rightarrow> contract"
where
  "birthOnlyContract X name mt pattern predicates =
     \<lparr>ContractName = name, MessageType = TypeKey X mt, EntityPattern = pattern,
      BirthPredicates = [PredType, EntityIndexingProfile X] @ predicates, Groups = [],
      IndexingProfile = ''content''\<rparr>"

definition commonPredicates :: "string list" where
  "commonPredicates =
     [PredUniqueID, PredLabel, PredDescription, PredDefinition, PredIdentifierValue,
      PredCapabilityValue, PredCharacteristicValue]"

definition geoPredicates :: "string list" where
  "geoPredicates = [GeoLocationLongitude, GeoLocationLatitude, GeoLocationAltitude]"

definition systemPredicates :: "string list" where
  "systemPredicates =
     commonPredicates @ [PredPosition, PredHosts, PredIsHostedBy, PredAttachedTo] @ geoPredicates"

definition datastreamPredicates :: "string list" where
  "datastreamPredicates =
     commonPredicates @ [PredDatastreamSystem, PredObservedProperty, PredDatastreamSchema,
                         predDatastreamPhenomenonTime, predDatastreamResultTime]"

definition projectionContracts :: "env \<Rightarrow> contract list" where
  "projectionContracts X =
     (let cfg = Cfg X; common = commonPredicates;
          procedure = common @ [PredUsedProcedure, PredAttachedTo, PredHasSubSystem];
          deployment = common @ [PredPosition] @ geoPredicates @
                       [predDeploymentDeployedSystems, predDeploymentParent];
          samplingFeature = common @ [PredPosition] @ geoPredicates @ [predSamplingFeatureHostedProcedure];
          controlStream = common @
            [PredControlStreamSystem, predControlStreamInputName, predControlStreamAsync,
             predControlStreamCommandFormat, predControlStreamSchema,
             predControlStreamControlledProperties, predControlStreamIssueTime,
             predControlStreamExecutionTime];
          command = common @
            [PredCommandControlStream, predCommandStatus, predCommandIssueTime,
             predCommandExecutionTime, predCommandSender, predCommandParams];
          systemEvent = common @
            [PredSystemEventSystem, predSystemEventTime, predSystemEventType, predSystemEventMessage,
             predSystemEventSeverity, predSystemEventSource, predSystemEventPayload,
             predSystemEventKeywords];
          feasibility = common @
            [PredFeasibilityControlStream, predFeasibilityStatus, predFeasibilityParams,
             predFeasibilityResult]
      in
      [representationContract X systemProjectionContractName systemProjectionMessageType
         (SystemIDPrefix cfg @ ''.*'') systemPredicates,
       representationContract X datastreamProjectionContractName datastreamProjectionMessageType
         ''*.*.*.*.*.*'' datastreamPredicates,
       birthOnlyContract X procedureProjectionContractName procedureProjectionMessageType
         (ProcedureIDPrefix cfg @ ''.*'') procedure,
       birthOnlyContract X deploymentProjectionContractName deploymentProjectionMessageType
         (DeploymentIDPrefix cfg @ ''.*'') deployment,
       birthOnlyContract X samplingFeatureProjectionContractName samplingFeatureProjectionMessageType
         (SamplingFeatureIDPrefix cfg @ ''.*'') samplingFeature,
       birthOnlyContract X propertyProjectionContractName propertyProjectionMessageType
         (PropertyIDPrefix cfg @ ''.*'') (common @ [predPropertyDefinition, predPropertyBaseProperty]),
       birthOnlyContract X controlStreamProjectionContractName controlStreamProjectionMessageType
         (ControlStreamIDPrefix cfg @ ''.*'') controlStream,
       birthOnlyContract X commandProjectionContractName commandProjectionMessageType
         (CommandIDPrefix cfg @ ''.*'') command,
       birthOnlyContract X systemEventProjectionContractName systemEventProjectionMessageType
         (SystemEventIDPrefix cfg @ ''.*'') systemEvent,
       birthOnlyContract X feasibilityProjectionContractName feasibilityProjectionMessageType
         (FeasibilityIDPrefix cfg @ ''.*'') feasibility,
       birthOnlyContract X schemaArtifactProjectionContractName schemaArtifactProjectionMessageType
         (SchemaArtifactIDPrefix cfg @ ''.*'') []])"

definition projectionContractByName :: "env \<Rightarrow> string \<Rightarrow> contract option" where
  "projectionContractByName X name = find (\<lambda>c. ContractName c = name) (projectionContracts X)"

section \<open>Which contract\<close>

text \<open>\<open>projectionForTriples\<close>: by the type triple, then by the ID's prefix, and a System when
  nothing else matches.\<close>

definition projectionForTriples :: "env \<Rightarrow> string \<Rightarrow> triple list \<Rightarrow> string \<times> message_type" where
  "projectionForTriples X entityID triples =
     (let cfg = Cfg X;
          typeIRI = (case firstStringObject triples [PredType] of None \<Rightarrow> [] | Some s \<Rightarrow> s);
          candidates =
            [(ProcedureIDPrefix cfg, procedureProjectionContractName, procedureProjectionMessageType),
             (DeploymentIDPrefix cfg, deploymentProjectionContractName, deploymentProjectionMessageType),
             (SamplingFeatureIDPrefix cfg, samplingFeatureProjectionContractName, samplingFeatureProjectionMessageType),
             (PropertyIDPrefix cfg, propertyProjectionContractName, propertyProjectionMessageType),
             (SystemIDPrefix cfg, systemProjectionContractName, systemProjectionMessageType)]
      in if typeIRI = DatastreamTypeIRI then (datastreamProjectionContractName, datastreamProjectionMessageType)
         else if typeIRI = ControlStreamIRI then (controlStreamProjectionContractName, controlStreamProjectionMessageType)
         else if typeIRI = CommandIRI then (commandProjectionContractName, commandProjectionMessageType)
         else if typeIRI = SystemEventIRI then (systemEventProjectionContractName, systemEventProjectionMessageType)
         else if typeIRI = FeasibilityIRI then (feasibilityProjectionContractName, feasibilityProjectionMessageType)
         else if typeIRI = SWESchemaDocumentIRI
           then (schemaArtifactProjectionContractName, schemaArtifactProjectionMessageType)
         else case find (\<lambda>(p, c, mt). length entityID > length p \<and> take (length p) entityID = p) candidates of
                Some (p, c, mt) \<Rightarrow> (c, mt)
              | None \<Rightarrow> (systemProjectionContractName, systemProjectionMessageType))"

section \<open>Checking facts against a contract\<close>

datatype fact_error =
    MatchPattern string
  | PatternMismatch string
  | SubjectMismatch nat
  | Undeclared string

definition allowedPredicates :: "contract \<Rightarrow> string list" where
  "allowedPredicates c = BirthPredicates c @ concat (map GroupPredicates (Groups c))"

fun checkFacts :: "contract \<Rightarrow> string \<Rightarrow> nat \<Rightarrow> triple list \<Rightarrow> fact_error option" where
  "checkFacts c entityID i [] = None"
| "checkFacts c entityID i (t # ts) =
     (if Subject t \<noteq> entityID then Some (SubjectMismatch i)
      else if Predicate t \<notin> set (allowedPredicates c) then Some (Undeclared (Predicate t))
      else checkFacts c entityID (Suc i) ts)"

definition validateProjectionFacts :: "env \<Rightarrow> contract \<Rightarrow> string \<Rightarrow> triple list \<Rightarrow> fact_error option" where
  "validateProjectionFacts X c entityID triples =
     (case MatchEntityIDPattern (Ids X) (EntityPattern c) entityID of
        Inl e \<Rightarrow> Some (MatchPattern e)
      | Inr matched \<Rightarrow>
          if \<not> matched then Some (PatternMismatch (EntityPattern c))
          else checkFacts c entityID 0 triples)"

lemma checkFacts_None:
  "checkFacts c entityID i ts = None \<longleftrightarrow>
     (\<forall>t \<in> set ts. Subject t = entityID \<and> Predicate t \<in> set (allowedPredicates c))"
  by (induction ts arbitrary: i) auto

text \<open>The two contracts that a reconcile accepts are those with a representation group.\<close>

lemma contract_system:
  "projectionContractByName X systemProjectionContractName =
     Some (representationContract X systemProjectionContractName systemProjectionMessageType
             (SystemIDPrefix (Cfg X) @ ''.*'') systemPredicates)"
  by (simp add: projectionContractByName_def projectionContracts_def representationContract_def Let_def)

lemma contract_datastream:
  "projectionContractByName X datastreamProjectionContractName =
     Some (representationContract X datastreamProjectionContractName datastreamProjectionMessageType
             ''*.*.*.*.*.*'' datastreamPredicates)"
  by (simp add: projectionContractByName_def projectionContracts_def representationContract_def Let_def
      contract_names)

lemma projectionContractByName_groups:
  assumes "projectionContractByName X name = Some c" "Groups c \<noteq> []"
  shows "name \<in> {systemProjectionContractName, datastreamProjectionContractName} \<and>
         (\<exists>ps. Groups c = [\<lparr>GroupName = ''representation'', Mode = ModeReconcile X, GroupPredicates = ps\<rparr>] \<and>
               BirthPredicates c = [PredType, EntityIndexingProfile X])"
proof -
  from assms(1) have "c \<in> set (projectionContracts X)" "ContractName c = name"
    by (auto simp: projectionContractByName_def find_Some_iff)
  with assms(2) show ?thesis
    by (auto simp: projectionContracts_def Let_def representationContract_def birthOnlyContract_def)
qed

end
