(* ===== verification/SensorMLView.thy ===== *)
theory SensorMLView
  imports Sensorml Projection
begin

text \<open>
  \<open>gateway/cs-api/sensorml.go\<close>: rebuilding a SensorML process from the triples of an entity, and
  the forward direction of \<open>systems_post.go\<close>: the System a SensorML body describes. What the
  reverse mapping cannot recover is \<open>lossyProcess\<close>.
\<close>

section \<open>The reverse mapping\<close>

datatype rebuild_error = NoTypeTriple | UnsupportedType string | NoEntityID | NoTriples

definition value_terms :: "string \<Rightarrow> triple list \<Rightarrow> Term list" where
  "value_terms p ts =
     map (\<lambda>t. \<lparr>TermDefinition = [], TermLabel = [], TermValue = Some (Object t), UoM = [], SweTypeOf = []\<rparr>)
       (filter (\<lambda>t. Predicate t = p) ts)"

definition or_empty :: "string option \<Rightarrow> string" where
  "or_empty x = (case x of None \<Rightarrow> [] | Some s \<Rightarrow> s)"

definition buildAbstractProcess :: "triple list \<Rightarrow> string \<Rightarrow> AbstractProcess" where
  "buildAbstractProcess ts eid =
     (bareBase eid)
       \<lparr>UniqueID := or_empty (firstStringObject ts [PredUniqueID]),
        Label := or_empty (firstStringObject ts [PredLabel]),
        Description := or_empty (firstStringObject ts [PredDescription]),
        Definition := or_empty (firstStringObject ts [PredDefinition]),
        Identifiers := value_terms PredIdentifierValue ts,
        Capabilities := value_terms PredCapabilityValue ts,
        Characteristics := value_terms PredCharacteristicValue ts\<rparr>"

definition childRefsFromIDs :: "string list \<Rightarrow> string \<Rightarrow> Process list" where
  "childRefsFromIDs ids kind =
     concat (map (\<lambda>i.
       if kind = TypePhysicalComponent then [PhysicalComponent (bareBase i) None None]
       else if kind = TypeSimpleProcess then [SimpleProcess (bareBase i) None]
       else []) ids)"

definition reconstructHostedComponents :: "triple list \<Rightarrow> Process list" where
  "reconstructHostedComponents ts =
     (let ids = allStringObjects ts PredHosts
      in if ids = [] then [] else childRefsFromIDs ids TypePhysicalComponent)"

definition href_ref :: "string option \<Rightarrow> Reference option" where
  "href_ref x = map_option (\<lambda>h. \<lparr>Href = h, RefTitle = [], Role = []\<rparr>) x"

definition reconstructProcessFromTriples :: "triple list \<Rightarrow> string \<Rightarrow> rebuild_error + Process" where
  "reconstructProcessFromTriples ts eid =
     (case firstStringObject ts [PredType] of
        None \<Rightarrow> Inl NoTypeTriple
      | Some typeIRI \<Rightarrow>
          let base = buildAbstractProcess ts eid;
              proc = href_ref (firstStringObject ts [PredUsedProcedure]);
              attached = href_ref (firstStringObject ts [PredAttachedTo]) in
          if typeIRI = SSNSystem then
            Inr (PhysicalSystem base attached (reconstructHostedComponents ts) [])
          else if typeIRI = SosaSensor then Inr (PhysicalComponent base proc attached)
          else if typeIRI = SosaProcedure then
            let subs = allStringObjects ts PredHasSubSystem in
            if subs \<noteq> [] then Inr (AggregateProcess base (childRefsFromIDs subs TypeSimpleProcess) [])
            else Inr (SimpleProcess base proc)
          else Inl (UnsupportedType typeIRI))"

definition processReconstructionFromState :: "entity_state \<Rightarrow> rebuild_error + Process" where
  "processReconstructionFromState st =
     (if EntityID st = [] then Inl NoEntityID
      else if EntityTriples st = [] then Inl NoTriples
      else reconstructProcessFromTriples (EntityTriples st) (EntityID st))"

section \<open>A System from a SensorML body\<close>

definition mintSystemEntityID :: "env \<Rightarrow> string \<Rightarrow> string" where
  "mintSystemEntityID X uniqueID = mintEntityID (Ids X) (SystemIDPrefix (Cfg X)) uniqueID"

definition float_triple :: "string \<Rightarrow> string \<Rightarrow> f64 \<Rightarrow> triple" where
  "float_triple s p v = \<lparr>Subject = s, Predicate = p, Object = OFloat v, Datatype = []\<rparr>"

definition pointProjectionTriplesFromGeometry :: "env \<Rightarrow> string \<Rightarrow> json option \<Rightarrow> triple list" where
  "pointProjectionTriplesFromGeometry X eid geometry =
     (case geometry of
        None \<Rightarrow> []
      | Some g \<Rightarrow>
          (case PointOf X g of
             None \<Rightarrow> []
           | Some (lon, lat, alt) \<Rightarrow>
               [float_triple eid GeoLocationLongitude lon, float_triple eid GeoLocationLatitude lat] @
               (case alt of None \<Rightarrow> [] | Some a \<Rightarrow> [float_triple eid GeoLocationAltitude a])))"

definition sensorMLRootTriples :: "env \<Rightarrow> string \<Rightarrow> Process \<Rightarrow> triple list" where
  "sensorMLRootTriples X eid p =
     rootSubjectTriples eid (processTriples X (Some (mintNestedSensorMLEntityID (Ids X) eid)) eid p)"

definition buildSystemTriplesFromSensorML :: "env \<Rightarrow> string \<Rightarrow> string + (string \<times> triple list)" where
  "buildSystemTriplesFromSensorML X body =
     (case ParseJson X body of
        None \<Rightarrow> Inl ''invalid SensorML JSON''
      | Some doc \<Rightarrow>
          (case UnmarshalProcess (ParseFloat (Std X)) doc of
             Inl e \<Rightarrow> Inl ''invalid SensorML JSON''
           | Inr process \<Rightarrow>
               let entityID = mintSystemEntityID X (UniqueID (Base process));
                   triples = sensorMLRootTriples X entityID process
               in if triples = [] then Inl ''SensorML process produced no representable triples''
                  else Inr (entityID, triples @
                         (case Position (Base process) of
                            None \<Rightarrow> []
                          | Some raw \<Rightarrow> pointProjectionTriplesFromGeometry X entityID (Some raw)))))"

section \<open>Looking up the triples of a process\<close>

lemma firstStringObject_append:
  "firstStringObject (xs @ ys) ps =
     (case firstStringObject xs ps of Some v \<Rightarrow> Some v | None \<Rightarrow> firstStringObject ys ps)"
  by (induction xs) (auto split: obj.splits)

lemma allStringObjects_append [simp]:
  "allStringObjects (xs @ ys) p = allStringObjects xs p @ allStringObjects ys p"
  by (induction xs) (auto split: obj.splits)

lemma firstStringObject_other:
  "(\<And>t. t \<in> set ts \<Longrightarrow> Predicate t \<notin> set ps) \<Longrightarrow> firstStringObject ts ps = None"
  by (induction ts) (auto split: obj.splits)

lemma allStringObjects_other:
  "(\<And>t. t \<in> set ts \<Longrightarrow> Predicate t \<noteq> p) \<Longrightarrow> allStringObjects ts p = []"
  by (induction ts) (auto split: obj.splits)

lemma value_terms_append [simp]: "value_terms p (xs @ ys) = value_terms p xs @ value_terms p ys"
  by (simp add: value_terms_def)

lemma value_terms_other: "(\<And>t. t \<in> set ts \<Longrightarrow> Predicate t \<noteq> p) \<Longrightarrow> value_terms p ts = []"
  by (auto simp: value_terms_def filter_empty_conv)

lemma root_append [simp]:
  "rootSubjectTriples e (xs @ ys) = rootSubjectTriples e xs @ rootSubjectTriples e ys"
  by (simp add: rootSubjectTriples_def)

lemma root_all: "(\<And>t. t \<in> set ts \<Longrightarrow> Subject t = e) \<Longrightarrow> rootSubjectTriples e ts = ts"
  by (simp add: rootSubjectTriples_def)

lemma in_pieces:
  "t \<in> set (opt_triple s p v) \<Longrightarrow> Subject t = s \<and> Predicate t = p"
  "t \<in> set (href_triple s p r) \<Longrightarrow> Subject t = s \<and> Predicate t = p"
  "t \<in> set (value_triples s p ts) \<Longrightarrow> Subject t = s \<and> Predicate t = p"
  by (auto simp: opt_triple_def href_triple_def value_triples_def split: if_splits option.splits)

lemma piece_predicate:
  "t \<in> set (opt_triple s p v) \<Longrightarrow> Predicate t = p"
  "t \<in> set (href_triple s p r) \<Longrightarrow> Predicate t = p"
  "t \<in> set (value_triples s p ts) \<Longrightarrow> Predicate t = p"
  by (simp_all add: in_pieces)

lemma sensorml_predicates_distinct:
  "distinct [PredType, PredLabel, PredDescription, PredDefinition, PredUniqueID, PredIdentifierValue,
     PredCapabilityValue, PredCharacteristicValue, PredPosition, PredHosts, PredIsHostedBy,
     PredHasSubSystem, PredUsedProcedure, PredAttachedTo]"
  by (simp add: vocab_defs)

lemma sensorml_predicates_distinct':
  "distinct [PredAttachedTo, PredUsedProcedure, PredHasSubSystem, PredIsHostedBy, PredHosts, PredPosition,
     PredCharacteristicValue, PredCapabilityValue, PredIdentifierValue, PredUniqueID, PredDefinition,
     PredDescription, PredLabel, PredType]"
  by (simp add: vocab_defs)

lemmas pred_neqs = sensorml_predicates_distinct [simplified] sensorml_predicates_distinct' [simplified]

lemma first_opt [simp]:
  "firstStringObject (opt_triple s p v) ps = (if p \<in> set ps \<and> v \<noteq> [] then Some v else None)"
  by (simp add: opt_triple_def)

lemma first_href [simp]:
  "firstStringObject (href_triple s p r) ps =
     (if p \<in> set ps then (case r of None \<Rightarrow> None | Some r \<Rightarrow> if Href r = [] then None else Some (Href r)) else None)"
  by (simp add: href_triple_def opt_triple_def split: option.splits)

lemma first_values [simp]: "p \<notin> set ps \<Longrightarrow> firstStringObject (value_triples s p ts) ps = None"
  by (rule firstStringObject_other) (auto dest: in_pieces)

lemma all_other_pieces [simp]:
  "p \<noteq> q \<Longrightarrow> allStringObjects (opt_triple s p v) q = []"
  "p \<noteq> q \<Longrightarrow> allStringObjects (href_triple s p r) q = []"
  "p \<noteq> q \<Longrightarrow> allStringObjects (value_triples s p ts) q = []"
  by (rule allStringObjects_other, auto dest: in_pieces)+

lemma value_terms_pieces [simp]:
  "p \<noteq> q \<Longrightarrow> value_terms q (opt_triple s p v) = []"
  "p \<noteq> q \<Longrightarrow> value_terms q (href_triple s p r) = []"
  "p \<noteq> q \<Longrightarrow> value_terms q (value_triples s p ts) = []"
  by (rule value_terms_other, auto dest: in_pieces)+

text \<open>The value of a term is all that its triple keeps.\<close>

definition lossy_terms :: "Term list \<Rightarrow> Term list" where
  "lossy_terms ts =
     concat (map (\<lambda>t. case TermValue t of None \<Rightarrow> []
        | Some v \<Rightarrow> [\<lparr>TermDefinition = [], TermLabel = [], TermValue = Some v, UoM = [], SweTypeOf = []\<rparr>]) ts)"

lemma value_terms_same [simp]: "value_terms p (value_triples s p ts) = lossy_terms ts"
  by (induction ts) (auto simp: value_terms_def value_triples_def lossy_terms_def split: option.splits)

lemma first_cons [simp]:
  "firstStringObject [] ps = None"
  by simp

definition children :: "(string \<Rightarrow> string) \<Rightarrow> Process list \<Rightarrow> string list" where
  "children childFn cs = filter (\<lambda>k. k \<noteq> []) (map (childID (Some childFn)) cs)"

definition hosted_triples :: "env \<Rightarrow> string \<Rightarrow> string list \<Rightarrow> triple list" where
  "hosted_triples X eid ks =
     concat (map (\<lambda>k. ref_triple X eid PredHosts k # (if k = eid then [ref_triple X eid PredIsHostedBy eid] else [])) ks)"

lemma root_system_triples:
  "rootSubjectTriples eid (physicalSystemTriples X (Some childFn) eid a cs) =
     href_triple eid PredAttachedTo a @ hosted_triples X eid (children childFn cs)"
proof -
  have "rootSubjectTriples eid (concat (map (\<lambda>c. let k = childID (Some childFn) c in
        if k = [] then [] else [ref_triple X eid PredHosts k, ref_triple X k PredIsHostedBy eid]) cs)) =
      hosted_triples X eid (children childFn cs)"
    by (induction cs) (auto simp: rootSubjectTriples_def hosted_triples_def children_def Let_def)
  moreover have "rootSubjectTriples eid (href_triple eid PredAttachedTo a) = href_triple eid PredAttachedTo a"
    by (rule root_all) (auto dest: in_pieces)
  ultimately show ?thesis by (simp add: physicalSystemTriples_def)
qed

definition subsystem_triples :: "env \<Rightarrow> string \<Rightarrow> string list \<Rightarrow> triple list" where
  "subsystem_triples X eid ks = map (\<lambda>k. ref_triple X eid PredHasSubSystem k) ks"

lemma aggregate_triples:
  "aggregateProcessTriples X (Some childFn) eid cs = subsystem_triples X eid (children childFn cs)"
  by (induction cs) (auto simp: aggregateProcessTriples_def subsystem_triples_def children_def Let_def)

definition rootTypeTriples :: "env \<Rightarrow> (string \<Rightarrow> string) \<Rightarrow> string \<Rightarrow> Process \<Rightarrow> triple list" where
  "rootTypeTriples X childFn eid p =
     (case p of
        PhysicalSystem b a cs ns \<Rightarrow> href_triple eid PredAttachedTo a @ hosted_triples X eid (children childFn cs)
      | PhysicalComponent b m a \<Rightarrow> href_triple eid PredUsedProcedure m @ href_triple eid PredAttachedTo a
      | SimpleProcess b m \<Rightarrow> href_triple eid PredUsedProcedure m
      | AggregateProcess b cs ns \<Rightarrow> subsystem_triples X eid (children childFn cs))"

definition baseTriples :: "env \<Rightarrow> string \<Rightarrow> string \<Rightarrow> AbstractProcess \<Rightarrow> triple list" where
  "baseTriples X eid cls b =
     str_triple eid PredType cls #
     opt_triple eid PredLabel (Label b) @ opt_triple eid PredDescription (Description b) @
     opt_triple eid PredDefinition (Definition b) @ opt_triple eid PredUniqueID (UniqueID b) @
     value_triples eid PredIdentifierValue (Identifiers b) @
     value_triples eid PredCapabilityValue (filter (\<lambda>t. TermLabel t \<noteq> []) (Capabilities b)) @
     value_triples eid PredCharacteristicValue (filter (\<lambda>t. TermLabel t \<noteq> []) (Characteristics b)) @
     (case Position b of None \<Rightarrow> [] | Some raw \<Rightarrow> [str_triple eid PredPosition (JsonText X raw)])"

lemma baseTriples_subject: "t \<in> set (baseTriples X eid cls b) \<Longrightarrow> Subject t = eid"
  by (auto simp: baseTriples_def dest: in_pieces split: option.splits)

lemma rootTypeTriples_subject: "t \<in> set (rootTypeTriples X childFn eid p) \<Longrightarrow> Subject t = eid"
  by (cases p) (auto simp: rootTypeTriples_def hosted_triples_def subsystem_triples_def dest: in_pieces split: if_splits)

lemma root_typeSpecific:
  "rootSubjectTriples eid (typeSpecificTriples X (Some childFn) eid p) = rootTypeTriples X childFn eid p"
proof (cases p)
  case (PhysicalSystem b a cs ns)
  then show ?thesis by (simp add: typeSpecificTriples_def rootTypeTriples_def root_system_triples)
next
  case (PhysicalComponent b m a)
  show ?thesis
    unfolding PhysicalComponent typeSpecificTriples_def rootTypeTriples_def Process.case
    by (intro root_all) (auto dest: in_pieces)
next
  case (SimpleProcess b m)
  show ?thesis
    unfolding SimpleProcess typeSpecificTriples_def rootTypeTriples_def Process.case
    by (intro root_all) (auto dest: in_pieces)
next
  case (AggregateProcess b cs ns)
  show ?thesis
    unfolding AggregateProcess typeSpecificTriples_def rootTypeTriples_def Process.case aggregate_triples
    by (intro root_all) (auto simp: subsystem_triples_def)
qed

lemma sensorMLRootTriples_eq:
  "sensorMLRootTriples X eid p =
     baseTriples X eid (processClassIRI p) (Base p) @
     rootTypeTriples X (mintNestedSensorMLEntityID (Ids X) eid) eid p"
proof -
  have "processTriples X (Some f) eid p =
      baseTriples X eid (processClassIRI p) (Base p) @ typeSpecificTriples X (Some f) eid p" for f
    by (simp add: processTriples_def baseTriples_def Let_def)
  then show ?thesis
    by (simp add: sensorMLRootTriples_def root_typeSpecific root_all [OF baseTriples_subject])
qed

section \<open>What a SensorML write keeps\<close>

text \<open>What the triples carry of the base: not the lists that \<open>sensorml.go\<close> documents as never emitted
  (inputs, outputs, parameters, keywords, the type reference, all of a term but its value), nor a capability or
  characteristic without a label, nor the classifiers.\<close>

definition carriedBase :: "string \<Rightarrow> AbstractProcess \<Rightarrow> AbstractProcess" where
  "carriedBase eid b =
     (bareBase eid)
       \<lparr>UniqueID := UniqueID b, Label := Label b, Description := Description b, Definition := Definition b,
        Identifiers := lossy_terms (Identifiers b),
        Capabilities := lossy_terms (filter (\<lambda>t. TermLabel t \<noteq> []) (Capabilities b)),
        Characteristics := lossy_terms (filter (\<lambda>t. TermLabel t \<noteq> []) (Characteristics b)),
        Position := Position b\<rparr>"

text \<open>What is rebuilt of it: the position is carried and not read, which is not documented.\<close>

definition lossyBase :: "string \<Rightarrow> AbstractProcess \<Rightarrow> AbstractProcess" where
  "lossyBase eid b = (carriedBase eid b)\<lparr>Position := None\<rparr>"

definition lossyRef :: "Reference option \<Rightarrow> Reference option" where
  "lossyRef r = (case r of None \<Rightarrow> None
     | Some r \<Rightarrow> if Href r = [] then None else Some \<lparr>Href = Href r, RefTitle = [], Role = []\<rparr>)"

definition lossyProcess :: "(string \<Rightarrow> string) \<Rightarrow> string \<Rightarrow> Process \<Rightarrow> Process" where
  "lossyProcess childFn eid p =
     (case p of
        PhysicalSystem b a cs ns \<Rightarrow>
          PhysicalSystem (lossyBase eid b) (lossyRef a)
            (map (\<lambda>k. PhysicalComponent (bareBase k) None None) (children childFn cs)) []
      | PhysicalComponent b m a \<Rightarrow> PhysicalComponent (lossyBase eid b) (lossyRef m) (lossyRef a)
      | SimpleProcess b m \<Rightarrow> SimpleProcess (lossyBase eid b) (lossyRef m)
      | AggregateProcess b cs ns \<Rightarrow>
          if children childFn cs = [] then SimpleProcess (lossyBase eid b) None
          else AggregateProcess (lossyBase eid b)
                 (map (\<lambda>k. SimpleProcess (bareBase k) None) (children childFn cs)) [])"

lemma or_empty_if [simp]: "or_empty (if v \<noteq> [] then Some v else None) = v"
  by (simp add: or_empty_def)

definition structural :: "string list" where
  "structural = [PredAttachedTo, PredHosts, PredIsHostedBy, PredUsedProcedure, PredHasSubSystem]"

lemma rootTypeTriples_structural:
  "t \<in> set (rootTypeTriples X f eid p) \<Longrightarrow> Predicate t \<in> set structural"
  by (cases p) (auto simp: rootTypeTriples_def hosted_triples_def subsystem_triples_def structural_def
      dest: in_pieces split: if_splits)

lemma first_structural:
  "set ps \<inter> set structural = {} \<Longrightarrow> firstStringObject (rootTypeTriples X f eid p) ps = None"
  by (rule firstStringObject_other) (use rootTypeTriples_structural in blast)

lemma value_terms_structural:
  "q \<notin> set structural \<Longrightarrow> value_terms q (rootTypeTriples X f eid p) = []"
  by (rule value_terms_other) (use rootTypeTriples_structural in blast)

text \<open>All the lookups read the triples at one predicate.\<close>

definition at :: "string \<Rightarrow> triple list \<Rightarrow> triple list" where
  "at q ts = filter (\<lambda>t. Predicate t = q) ts"

lemma at_append [simp]: "at q (xs @ ys) = at q xs @ at q ys"
  by (simp add: at_def)

lemma at_simps [simp]:
  "at q [] = []"
  "at q (t # ts) = (if Predicate t = q then t # at q ts else at q ts)"
  by (simp_all add: at_def)

lemma at_pieces [simp]:
  "at q (opt_triple s p v) = (if p = q then opt_triple s p v else [])"
  "at q (href_triple s p r) = (if p = q then href_triple s p r else [])"
  "at q (value_triples s p ts) = (if p = q then value_triples s p ts else [])"
  by (auto simp: at_def filter_empty_conv filter_id_conv dest: in_pieces)

lemma at_position [simp]:
  "at q (case x of None \<Rightarrow> [] | Some raw \<Rightarrow> [str_triple s p (g raw)]) =
     (if p = q then (case x of None \<Rightarrow> [] | Some raw \<Rightarrow> [str_triple s p (g raw)]) else [])"
  by (simp split: option.splits)

lemma first_at: "firstStringObject ts [p] = firstStringObject (at p ts) [p]"
  by (induction ts) (auto split: obj.splits)

lemma all_at: "allStringObjects ts p = allStringObjects (at p ts) p"
  by (induction ts) (auto split: obj.splits)

lemma values_at: "value_terms p ts = value_terms p (at p ts)"
  by (simp add: value_terms_def at_def)

lemma at_base:
  "at PredType (baseTriples X eid cls b) = [str_triple eid PredType cls]"
  "at PredLabel (baseTriples X eid cls b) = opt_triple eid PredLabel (Label b)"
  "at PredDescription (baseTriples X eid cls b) = opt_triple eid PredDescription (Description b)"
  "at PredDefinition (baseTriples X eid cls b) = opt_triple eid PredDefinition (Definition b)"
  "at PredUniqueID (baseTriples X eid cls b) = opt_triple eid PredUniqueID (UniqueID b)"
  "at PredIdentifierValue (baseTriples X eid cls b) = value_triples eid PredIdentifierValue (Identifiers b)"
  "at PredCapabilityValue (baseTriples X eid cls b) =
     value_triples eid PredCapabilityValue (filter (\<lambda>t. TermLabel t \<noteq> []) (Capabilities b))"
  "at PredCharacteristicValue (baseTriples X eid cls b) =
     value_triples eid PredCharacteristicValue (filter (\<lambda>t. TermLabel t \<noteq> []) (Characteristics b))"
  "at PredAttachedTo (baseTriples X eid cls b) = []"
  "at PredUsedProcedure (baseTriples X eid cls b) = []"
  "at PredHosts (baseTriples X eid cls b) = []"
  "at PredHasSubSystem (baseTriples X eid cls b) = []"
  by (simp_all add: baseTriples_def pred_neqs)

lemma at_structural: "q \<notin> set structural \<Longrightarrow> at q (rootTypeTriples X f eid p) = []"
  using rootTypeTriples_structural by (fastforce simp: at_def filter_empty_conv)

lemma not_structural:
  "PredType \<notin> set structural" "PredLabel \<notin> set structural" "PredDescription \<notin> set structural"
  "PredDefinition \<notin> set structural" "PredUniqueID \<notin> set structural"
  "PredIdentifierValue \<notin> set structural" "PredCapabilityValue \<notin> set structural"
  "PredCharacteristicValue \<notin> set structural"
  by (simp_all add: structural_def pred_neqs)

lemma base_rebuilt:
  "buildAbstractProcess (baseTriples X eid cls b @ rootTypeTriples X f eid p) eid = lossyBase eid b"
  unfolding buildAbstractProcess_def lossyBase_def carriedBase_def
  by (simp add: bareBase_def first_at [of "_ @ _"] values_at [of _ "_ @ _"] at_base at_structural [OF not_structural(2)]
      at_structural [OF not_structural(3)] at_structural [OF not_structural(4)] at_structural [OF not_structural(5)]
      at_structural [OF not_structural(6)] at_structural [OF not_structural(7)] at_structural [OF not_structural(8)] del: value_terms_append)

lemma at_hosted [simp]:
  "at PredAttachedTo (hosted_triples X eid ks) = []" "at PredUsedProcedure (hosted_triples X eid ks) = []"
  "at PredHasSubSystem (hosted_triples X eid ks) = []"
  by (induction ks) (auto simp: hosted_triples_def pred_neqs)

lemma at_subsystem [simp]:
  "at PredUsedProcedure (subsystem_triples X eid ks) = []"
  by (induction ks) (auto simp: subsystem_triples_def pred_neqs)

lemma all_hosted [simp]: "allStringObjects (hosted_triples X eid ks) PredHosts = ks"
  by (induction ks) (auto simp: hosted_triples_def pred_neqs)

lemma all_subsystem [simp]: "allStringObjects (subsystem_triples X eid ks) PredHasSubSystem = ks"
  by (induction ks) (auto simp: subsystem_triples_def)

lemma childRefs [simp]:
  "childRefsFromIDs ids TypePhysicalComponent = map (\<lambda>i. PhysicalComponent (bareBase i) None None) ids"
  "childRefsFromIDs ids TypeSimpleProcess = map (\<lambda>i. SimpleProcess (bareBase i) None) ids"
  by (induction ids) (auto simp: childRefsFromIDs_def process_type_tests)

lemma href_ref_first [simp]:
  "href_ref (case r of None \<Rightarrow> None | Some r \<Rightarrow> if Href r = [] then None else Some (Href r)) = lossyRef r"
  by (auto simp: href_ref_def lossyRef_def split: option.splits)

lemma href_ref_None [simp]: "href_ref None = None"
  by (simp add: href_ref_def)

lemma class_iris:
  "SSNSystem \<noteq> SosaSensor" "SosaSensor \<noteq> SSNSystem" "SosaProcedure \<noteq> SSNSystem" "SosaProcedure \<noteq> SosaSensor"
  by (simp_all add: vocab_defs)

lemma reconstruct_root:
  "reconstructProcessFromTriples
     (baseTriples X eid (processClassIRI p) (Base p) @ rootTypeTriples X f eid p) eid =
   Inr (lossyProcess f eid p)"
proof -
  let ?ts = "baseTriples X eid (processClassIRI p) (Base p) @ rootTypeTriples X f eid p"
  have ty: "firstStringObject ?ts [PredType] = Some (processClassIRI p)"
    by (subst first_at) (simp add: at_base at_structural not_structural)
  have proc: "href_ref (firstStringObject ?ts [PredUsedProcedure]) =
      href_ref (firstStringObject (at PredUsedProcedure (rootTypeTriples X f eid p)) [PredUsedProcedure])"
    by (subst first_at) (simp add: at_base)
  have att: "href_ref (firstStringObject ?ts [PredAttachedTo]) =
      href_ref (firstStringObject (at PredAttachedTo (rootTypeTriples X f eid p)) [PredAttachedTo])"
    by (subst first_at) (simp add: at_base)
  have hosts: "allStringObjects ?ts PredHosts = allStringObjects (rootTypeTriples X f eid p) PredHosts"
    "allStringObjects ?ts PredHasSubSystem = allStringObjects (rootTypeTriples X f eid p) PredHasSubSystem"
    by (simp_all add: all_at [of "baseTriples _ _ _ _"] at_base)
  show ?thesis
    unfolding reconstructProcessFromTriples_def ty option.case base_rebuilt Let_def proc att
      reconstructHostedComponents_def hosts
    by (cases p)
       (simp_all add: processClassIRI_def rootTypeTriples_def lossyProcess_def class_iris pred_neqs)
qed

text \<open>Claim C29: what is read back of a SensorML body. For every process kind, rebuilding the process from
  the root triples of its projection gives the process with its entity ID, its label, description,
  definition and unique ID, the values of its identifiers and labelled capabilities and
  characteristics, its references reduced to their targets, and its named children as bare
  references in order; nothing else is invented. An aggregate without a named child comes back as a
  simple process. The position is lost although the triples carry it, which is not among the losses
  the code documents.\<close>

theorem sensorml_read_back:
  "reconstructProcessFromTriples (sensorMLRootTriples X eid p) eid =
     Inr (lossyProcess (mintNestedSensorMLEntityID (Ids X) eid) eid p) \<and>
   Position (Base (lossyProcess (mintNestedSensorMLEntityID (Ids X) eid) eid p)) = None \<and>
   (case Position (Base p) of None \<Rightarrow> True
    | Some raw \<Rightarrow> str_triple eid PredPosition (JsonText X raw) \<in> set (sensorMLRootTriples X eid p))"
proof (intro conjI)
  show "reconstructProcessFromTriples (sensorMLRootTriples X eid p) eid =
     Inr (lossyProcess (mintNestedSensorMLEntityID (Ids X) eid) eid p)"
    by (simp add: sensorMLRootTriples_eq reconstruct_root)
  show "Position (Base (lossyProcess (mintNestedSensorMLEntityID (Ids X) eid) eid p)) = None"
    by (cases p) (simp_all add: lossyProcess_def lossyBase_def)
  show "case Position (Base p) of None \<Rightarrow> True
    | Some raw \<Rightarrow> str_triple eid PredPosition (JsonText X raw) \<in> set (sensorMLRootTriples X eid p)"
    by (auto simp: sensorMLRootTriples_eq baseTriples_def split: option.split)
qed

section \<open>The System contract on SensorML bodies\<close>

definition uses_undeclared :: "(string \<Rightarrow> string) \<Rightarrow> Process \<Rightarrow> bool" where
  "uses_undeclared f p =
     (case p of
        PhysicalSystem b a cs ns \<Rightarrow> False
      | PhysicalComponent b m a \<Rightarrow> lossyRef m \<noteq> None
      | SimpleProcess b m \<Rightarrow> lossyRef m \<noteq> None
      | AggregateProcess b cs ns \<Rightarrow> children f cs \<noteq> [])"

definition systemContract :: "env \<Rightarrow> contract" where
  "systemContract X = representationContract X systemProjectionContractName systemProjectionMessageType
     (SystemIDPrefix (Cfg X) @ ''.*'') systemPredicates"

lemma allowed_system:
  "set (allowedPredicates (systemContract X)) = {PredType, EntityIndexingProfile X} \<union> set systemPredicates"
  by (simp add: systemContract_def representationContract_def allowedPredicates_def)

lemma pointProjection_pieces:
  "t \<in> set (pointProjectionTriplesFromGeometry X eid g) \<Longrightarrow>
     Subject t = eid \<and> Predicate t \<in> set geoPredicates"
  by (auto simp: pointProjectionTriplesFromGeometry_def float_triple_def geoPredicates_def split: option.splits)

lemma baseTriples_declared:
  assumes "t \<in> set (baseTriples X eid cls b)"
  shows "Predicate t \<in> set (PredType # systemPredicates)"
proof -
  let ?P = "{PredType, PredLabel, PredDescription, PredDefinition, PredUniqueID, PredIdentifierValue,
    PredCapabilityValue, PredCharacteristicValue, PredPosition}"
  have "Predicate t \<in> ?P"
    using assms unfolding baseTriples_def set_append list.set
    by (elim UnE insertE) (auto simp: piece_predicate split: option.splits)
  moreover have "?P \<subseteq> set (PredType # systemPredicates)"
    by (simp add: systemPredicates_def commonPredicates_def)
  ultimately show ?thesis by blast
qed

lemma undeclared_predicates:
  "PredUsedProcedure \<notin> {PredType} \<union> set systemPredicates" "PredHasSubSystem \<notin> {PredType} \<union> set systemPredicates"
  by (simp_all add: systemPredicates_def commonPredicates_def geoPredicates_def vocab_defs)

lemma rootTypeTriples_within:
  assumes "PredAttachedTo \<in> A" "PredHosts \<in> A" "PredIsHostedBy \<in> A"
    and "PredUsedProcedure \<notin> A" "PredHasSubSystem \<notin> A"
  shows "(\<forall>t \<in> set (rootTypeTriples X f eid p). Predicate t \<in> A) \<longleftrightarrow> \<not> uses_undeclared f p"
proof -
  have href: "(\<forall>t \<in> set (href_triple eid q r). Predicate t \<in> A) \<longleftrightarrow> lossyRef r = None \<or> q \<in> A" for q r
    by (auto simp: href_triple_def opt_triple_def lossyRef_def split: option.splits)
  have subs: "(\<forall>t \<in> set (subsystem_triples X eid ks). Predicate t \<in> A) \<longleftrightarrow> ks = []" for ks
    using assms by (cases ks) (auto simp: subsystem_triples_def)
  have hosted: "(\<forall>t \<in> set (hosted_triples X eid ks). Predicate t \<in> A)" for ks
    using assms by (auto simp: hosted_triples_def split: if_splits)
  show ?thesis
    using assms hosted
    by (cases p) (simp_all add: rootTypeTriples_def uses_undeclared_def href subs ball_Un)
qed

lemma rootTypeTriples_declared:
  assumes "EntityIndexingProfile X \<notin> {PredUsedProcedure, PredHasSubSystem}"
  shows "(\<forall>t \<in> set (rootTypeTriples X f eid p). Predicate t \<in> {PredType, EntityIndexingProfile X} \<union> set systemPredicates)
     \<longleftrightarrow> \<not> uses_undeclared f p"
proof (rule rootTypeTriples_within)
  show "PredAttachedTo \<in> {PredType, EntityIndexingProfile X} \<union> set systemPredicates"
    "PredHosts \<in> {PredType, EntityIndexingProfile X} \<union> set systemPredicates"
    "PredIsHostedBy \<in> {PredType, EntityIndexingProfile X} \<union> set systemPredicates"
    by (simp_all add: systemPredicates_def)
  show "PredUsedProcedure \<notin> {PredType, EntityIndexingProfile X} \<union> set systemPredicates"
    "PredHasSubSystem \<notin> {PredType, EntityIndexingProfile X} \<union> set systemPredicates"
    using undeclared_predicates assms by auto
qed

text \<open>Claim C30: a SensorML body is projected onto its root entity alone, and the System contract
  accepts the projection exactly when the process needs no predicate the contract lacks. The ID is
  minted from the body's own unique ID, every fact is about that ID however the components are
  nested, and the facts pass \<open>validateProjectionFacts\<close> unless the process names a method
  (a component or simple process) or has named children under an aggregate: those bodies are
  refused although the read side renders both.\<close>

theorem sensorml_projection_scope:
  assumes "buildSystemTriplesFromSensorML X body = Inr (eid, ts)"
    and "EntityIndexingProfile X \<notin> {PredUsedProcedure, PredHasSubSystem}"
    and "MatchEntityIDPattern (Ids X) (SystemIDPrefix (Cfg X) @ ''.*'') eid = Inr True"
  shows "\<exists>doc p. ParseJson X body = Some doc \<and> UnmarshalProcess (ParseFloat (Std X)) doc = Inr p \<and>
     eid = mintSystemEntityID X (UniqueID (Base p)) \<and> list_all (\<lambda>t. Subject t = eid) ts \<and>
     (validateProjectionFacts X (systemContract X) eid ts = None \<longleftrightarrow>
        \<not> uses_undeclared (mintNestedSensorMLEntityID (Ids X) eid) p)"
proof -
  from assms(1) obtain doc p where doc: "ParseJson X body = Some doc"
      "UnmarshalProcess (ParseFloat (Std X)) doc = Inr p" "eid = mintSystemEntityID X (UniqueID (Base p))"
    and ts: "ts = sensorMLRootTriples X eid p @ (case Position (Base p) of None \<Rightarrow> []
        | Some raw \<Rightarrow> pointProjectionTriplesFromGeometry X eid (Some raw))"
    by (auto simp: buildSystemTriplesFromSensorML_def Let_def split: option.splits sum.splits if_splits)
  let ?f = "mintNestedSensorMLEntityID (Ids X) eid"
  let ?pos = "case Position (Base p) of None \<Rightarrow> [] | Some raw \<Rightarrow> pointProjectionTriplesFromGeometry X eid (Some raw)"
  have pos: "Subject t = eid \<and> Predicate t \<in> set systemPredicates" if "t \<in> set ?pos" for t
    using that pointProjection_pieces [of t X eid] by (auto simp: systemPredicates_def split: option.splits)
  have subj: "Subject t = eid" if "t \<in> set ts" for t
    using that pos unfolding ts sensorMLRootTriples_eq
    by (auto dest: baseTriples_subject rootTypeTriples_subject)
  have "validateProjectionFacts X (systemContract X) eid ts = None \<longleftrightarrow>
      (\<forall>t \<in> set ts. Predicate t \<in> set (allowedPredicates (systemContract X)))"
    using assms(3) subj
    by (auto simp: validateProjectionFacts_def systemContract_def representationContract_def checkFacts_None)
  also have "\<dots> \<longleftrightarrow> (\<forall>t \<in> set (rootTypeTriples X ?f eid p).
      Predicate t \<in> {PredType, EntityIndexingProfile X} \<union> set systemPredicates)"
    using baseTriples_declared pos unfolding ts sensorMLRootTriples_eq allowed_system by fastforce
  also have "\<dots> \<longleftrightarrow> \<not> uses_undeclared ?f p" by (rule rootTypeTriples_declared [OF assms(2)])
  finally show ?thesis using doc subj by (auto simp: list_all_iff)
qed

end
