(* ===== verification/Mutations.thy ===== *)
theory Mutations
  imports Projection
begin

text \<open>
  \<open>gateway/cs-api/graph_mutations.go\<close>: the typed mutations with their audit trail, the exact
  entity read and the entity PUT/DELETE helpers of \<open>systems.go\<close> and \<open>systems_crd.go\<close>, and the
  mapping of errors to HTTP responses. Every operation takes the gateway state and returns its
  result with the state it leaves.
\<close>

section \<open>Attempts and the audit log\<close>

record attempt =
  RequestID :: string
  AttemptTrace :: string
  AttemptIdentity :: Identity
  Operation :: string
  AttemptEntity :: string
  AttemptRevision :: nat

definition newMutationAttempt ::
  "context_state \<Rightarrow> Identity \<Rightarrow> string \<Rightarrow> string \<Rightarrow> nat \<Rightarrow> 's gateway \<Rightarrow> attempt \<times> 's gateway"
where
  "newMutationAttempt ctx identity op entityID kv g =
     (\<lparr>RequestID = first_value (FreshIDs g), AttemptTrace = (if TraceID ctx = [] then NewTraceID ctx else TraceID ctx),
       AttemptIdentity = identity,
       Operation = op, AttemptEntity = entityID, AttemptRevision = kv\<rparr>,
      g\<lparr>FreshIDs := tl (FreshIDs g)\<rparr>)"

definition auditMutation ::
  "attempt \<Rightarrow> commit_state \<Rightarrow> nat \<Rightarrow> gerr option \<Rightarrow> 's gateway \<Rightarrow> 's gateway"
where
  "auditMutation a commit kv err g =
     g\<lparr>Audit := Audit g @
        [\<lparr>AuditRequestID = RequestID a, AuditTraceID = AttemptTrace a, AuditOperation = Operation a,
          AuditEntityID = AttemptEntity a,
          CommitState = commit, AuditRevision = kv, AuditIdentity = AttemptIdentity a,
          AuditError = err\<rparr>]\<rparr>"

lemma auditMutation_World [simp]: "World (auditMutation a commit kv err g) = World g"
  by (simp add: auditMutation_def)

section \<open>One request\<close>

text \<open>\<open>json.Marshal\<close> of a payload fails on a float that is not finite.\<close>

definition triple_marshals :: "triple \<Rightarrow> bool" where
  "triple_marshals t = (case Object t of OFloat f \<Rightarrow> f64_finite f | _ \<Rightarrow> True)"

fun payload_marshals :: "graph_request \<Rightarrow> bool" where
  "payload_marshals (CreateEntityRequest e ts mt sr pr tr rq) = list_all triple_marshals ts"
| "payload_marshals (ReconcilePredicatesRequest e kv ps ts tr rq) = list_all triple_marshals ts"
| "payload_marshals r = True"

definition mutationFailure :: "env \<Rightarrow> string \<Rightarrow> gerr \<Rightarrow> gerr" where
  "mutationFailure X op e =
     (let classify = (if IsInvalid X e then WrapInvalid op e
                      else if IsTransient X e then WrapTransient op e else Wrap op e)
      in case codeOf e of
           None \<Rightarrow> classify
         | Some code \<Rightarrow>
             if code = CodeEntityExists X then EntityConflict (ErrText X e)
             else if code = CodeEntityNotFound X then EntityNotFound (ErrText X e)
             else if code = CodeRevisionMismatch X then EntityConflict (ErrText X e)
             else if code = CodeInvalidRequest X \<or> code = CodeStructuralInvalid X then WrapInvalid op e
             else if code = CodeInternal X then Wrap op (Plain (ErrText X e))
             else classify)"

definition requestTypedMutation ::
  "env \<Rightarrow> 's backend \<Rightarrow> context_state \<Rightarrow> graph_request \<Rightarrow> attempt \<Rightarrow> 's gateway \<Rightarrow>
   (gerr + reply_data) \<times> 's gateway"
where
  "requestTypedMutation X B ctx payload a g =
     (case Cancelled ctx of
        Some e \<Rightarrow>
          let w = WrapTransient (Operation a) (NatsErr e)
          in (Inl w, auditMutation a NotCommitted (AttemptRevision a) (Some w) g)
      | None \<Rightarrow>
          if \<not> payload_marshals payload then
            let w = Wrap (Operation a) (Plain ''unsupported value'')
            in (Inl w, auditMutation a NotCommitted (AttemptRevision a) (Some w) g)
          else
            let (reply, world) = Request B payload (World g); g' = g\<lparr>World := world\<rparr> in
            (case reply of
               NatsFail e \<Rightarrow>
                 if e = NoResponders then
                   let w = WrapTransient (Operation a) (NatsErr e)
                   in (Inl w, auditMutation a NotCommitted (AttemptRevision a) (Some w) g')
                 else
                   let w = WrapTransient (Operation a) (CommitUnknown (RequestID a) (NatsErr e))
                   in (Inl w, auditMutation a CommitStateUnknown (AttemptRevision a) (Some w) g')
             | Rejected code s \<Rightarrow>
                 let w = mutationFailure X (Operation a) (replyError code s)
                 in (Inl w, auditMutation a NotCommitted (AttemptRevision a) (Some w) g')
             | Data d \<Rightarrow> (Inr d, g')))"

definition graphMutationCreateOp :: string where "graphMutationCreateOp = ''entity.create''"
definition graphMutationReconcileOp :: string where "graphMutationReconcileOp = ''entity.reconcile''"
definition graphMutationDeleteOp :: string where "graphMutationDeleteOp = ''entity.delete''"

definition graphMutationSubject :: "env \<Rightarrow> string \<Rightarrow> gerr + string" where
  "graphMutationSubject X operation =
     (if operation \<notin> {graphMutationCreateOp, graphMutationReconcileOp, graphMutationDeleteOp}
      then Inl (Plain operation)
      else case ResolveSubject X operation of Inl e \<Rightarrow> Inl (Plain e) | Inr s \<Rightarrow> Inr s)"

text \<open>\<open>validateProjectedTriples\<close> (systems_post.go).\<close>

definition validateProjectedTriples :: "env \<Rightarrow> string \<Rightarrow> triple list \<Rightarrow> gerr option" where
  "validateProjectedTriples X entityID triples =
     (if entityID = [] then Some (Plain ''entity id is empty'')
      else if triples = [] then Some (Plain ''no triples to ingest'')
      else if list_ex (\<lambda>t. Subject t = [] \<or> Subject t \<noteq> entityID) triples
        then Some (Plain ''subject mismatch'')
      else map_option Plain (MarshalEntityState X entityID triples))"

section \<open>Create\<close>

definition createProjectedEntity ::
  "env \<Rightarrow> 's backend \<Rightarrow> context_state \<Rightarrow> string \<Rightarrow> string \<Rightarrow> triple list \<Rightarrow> message_type \<Rightarrow>
   storage_ref option \<Rightarrow> Identity \<Rightarrow> string \<Rightarrow> 's gateway \<Rightarrow> (gerr + unit) \<times> 's gateway"
where
  "createProjectedEntity X B ctx contractName entityID triples mt storageRef identity op g =
     (if \<not> TypeIsValid X mt then (Inl (WrapInvalid op (Plain ''message type'')), g)
      else case validateProjectedTriples X entityID triples of
        Some e \<Rightarrow> (Inl (WrapInvalid op e), g)
      | None \<Rightarrow>
      (case projectionContractByName X contractName of
        None \<Rightarrow> (Inl (WrapInvalid op (Plain contractName)), g)
      | Some contract \<Rightarrow>
         if MessageType contract \<noteq> TypeKey X mt then (Inl (WrapInvalid op (Plain contractName)), g)
         else case ContractOK X contract of
           Some e \<Rightarrow> (Inl (WrapInvalid op (Plain e)), g)
         | None \<Rightarrow>
         (case validateProjectionFacts X contract entityID triples of
           Some e \<Rightarrow> (Inl (WrapInvalid op (Plain ''projection facts'')), g)
         | None \<Rightarrow>
           let (a, g1) = newMutationAttempt ctx identity op entityID 0 g in
           (case graphMutationSubject X graphMutationCreateOp of
              Inl e \<Rightarrow> (Inl (Wrap op e), g1)
            | Inr subject \<Rightarrow>
              (case requestTypedMutation X B ctx
                      (CreateEntityRequest entityID triples mt storageRef (IndexingProfile contract)
                         (AttemptTrace a) (RequestID a)) a g1 of
                 (Inl e, g2) \<Rightarrow> (Inl e, g2)
               | (Inr d, g2) \<Rightarrow>
                   (case d of
                      CreateResponse MutationApplied (Some e) kv \<Rightarrow>
                        if EntityID e = entityID \<and> kv \<noteq> 0
                        then (Inr (), auditMutation a CommitVerified kv None g2)
                        else let w = WrapTransient op (CommitUnknown (RequestID a) (Plain ''invalid typed create response''))
                             in (Inl w, auditMutation a CommitStateUnknown 0 (Some w) g2)
                    | _ \<Rightarrow> let w = WrapTransient op (CommitUnknown (RequestID a) (Plain ''invalid typed create response''))
                           in (Inl w, auditMutation a CommitStateUnknown 0 (Some w) g2)))))))"

section \<open>Reconcile\<close>

definition representationGroup :: "env \<Rightarrow> contract \<Rightarrow> string list option" where
  "representationGroup X c =
     (case Groups c of
        [grp] \<Rightarrow> if GroupName grp = ''representation'' \<and> Mode grp = ModeReconcile X
                 then Some (GroupPredicates grp) else None
      | _ \<Rightarrow> None)"

definition reconcileEntity ::
  "env \<Rightarrow> 's backend \<Rightarrow> context_state \<Rightarrow> exact_entity \<Rightarrow> triple list \<Rightarrow> Identity \<Rightarrow> string \<Rightarrow>
   's gateway \<Rightarrow> (gerr + unit) \<times> 's gateway"
where
  "reconcileEntity X B ctx exact desired identity op g =
     (case Entity exact of
        None \<Rightarrow> (Inl (WrapInvalid op (Plain ''exact entity'')), g)
      | Some current \<Rightarrow>
        if KVRevision exact = 0 then (Inl (WrapInvalid op (Plain ''exact entity'')), g)
        else case validateProjectedTriples X (EntityID current) desired of
          Some e \<Rightarrow> (Inl (WrapInvalid op e), g)
        | None \<Rightarrow>
          let (a, g1) = newMutationAttempt ctx identity op (EntityID current) (KVRevision exact) g;
              contractName = fst (projectionForTriples X (EntityID current) (EntityTriples current))
          in
          (case projectionContractByName X contractName of
             None \<Rightarrow> (Inl (WrapInvalid op (Plain ''no representation reconcile group'')), g1)
           | Some contract \<Rightarrow>
             (case representationGroup X contract of
                None \<Rightarrow> (Inl (WrapInvalid op (Plain ''no representation reconcile group'')), g1)
              | Some preds \<Rightarrow>
                (case validateProjectionFacts X contract (EntityID current) desired of
                   Some e \<Rightarrow> (Inl (WrapInvalid op (Plain ''projection facts'')), g1)
                 | None \<Rightarrow>
                   (case graphMutationSubject X graphMutationReconcileOp of
                      Inl e \<Rightarrow> (Inl (Wrap op e), g1)
                    | Inr subject \<Rightarrow>
                      (case requestTypedMutation X B ctx
                              (ReconcilePredicatesRequest (EntityID current) (KVRevision exact) preds
                                 (triplesForPredicates desired preds) (AttemptTrace a) (RequestID a)) a g1 of
                         (Inl e, g2) \<Rightarrow> (Inl e, g2)
                       | (Inr d, g2) \<Rightarrow>
                           let unknown =
                             (let w = WrapTransient op (CommitUnknown (RequestID a) (Plain ''invalid typed reconcile response''))
                              in (Inl w, auditMutation a CommitStateUnknown (KVRevision exact) (Some w) g2))
                           in (case d of
                                 ReconcileResponse oc (Some e) kv \<Rightarrow>
                                   if (oc = MutationApplied \<or> oc = MutationUnchanged) \<and>
                                      EntityID e = EntityID current \<and> kv \<noteq> 0
                                   then (Inr (), auditMutation a CommitVerified kv None g2)
                                   else unknown
                               | _ \<Rightarrow> unknown)))))))"

section \<open>Delete\<close>

definition deleteExactEntity ::
  "env \<Rightarrow> 's backend \<Rightarrow> context_state \<Rightarrow> exact_entity \<Rightarrow> Identity \<Rightarrow> 's gateway \<Rightarrow>
   (gerr + unit) \<times> 's gateway"
where
  "deleteExactEntity X B ctx exact identity g =
     (case Entity exact of
        None \<Rightarrow> (Inl (WrapInvalid ''deleteEntity'' (Plain ''exact entity'')), g)
      | Some current \<Rightarrow>
        if KVRevision exact = 0 then (Inl (WrapInvalid ''deleteEntity'' (Plain ''exact entity'')), g)
        else
          let (a, g1) = newMutationAttempt ctx identity ''deleteEntity'' (EntityID current) (KVRevision exact) g in
          (case graphMutationSubject X graphMutationDeleteOp of
             Inl e \<Rightarrow> (Inl (Wrap ''deleteEntity'' e), g1)
           | Inr subject \<Rightarrow>
             (case requestTypedMutation X B ctx
                     (DeleteEntityRequest (EntityID current) (KVRevision exact) (AttemptTrace a) (RequestID a)) a g1 of
                (Inl e, g2) \<Rightarrow> (Inl e, g2)
              | (Inr d, g2) \<Rightarrow>
                  let unknown =
                    (let w = WrapTransient ''deleteEntity'' (CommitUnknown (RequestID a) (Plain ''invalid typed delete response''))
                     in (Inl w, auditMutation a CommitStateUnknown (KVRevision exact) (Some w) g2))
                  in (case d of
                        DeleteResponse oc eid kv \<Rightarrow>
                          if oc = MutationApplied \<and> eid = EntityID current \<and> kv = KVRevision exact
                          then (Inr (), auditMutation a CommitVerified (KVRevision exact) None g2)
                          else unknown
                      | _ \<Rightarrow> unknown))))"

section \<open>The exact read\<close>

definition classifyEntityQueryFailure :: "env \<Rightarrow> gerr \<Rightarrow> gerr" where
  "classifyEntityQueryFailure X e =
     (if codeOf e = Some (CodeEntityNotFound X) then EntityNotFound (ErrText X e)
      else if IsInvalid X e then WrapInvalid ''fetchEntity'' e
      else if IsTransient X e then WrapTransient ''fetchEntity'' e
      else Wrap ''fetchEntity'' e)"

text \<open>The transport failures that are transient (\<open>classifyJetStreamErr\<close> has the same table).\<close>

definition classifyTransport :: "string \<Rightarrow> nats_error \<Rightarrow> gerr" where
  "classifyTransport op e =
     (if e \<in> {NoResponders, Timeout, DeadlineExceeded, ConnectionClosed}
      then WrapTransient op (NatsErr e) else Wrap op (NatsErr e))"

definition fetchEntityExact ::
  "env \<Rightarrow> 's backend \<Rightarrow> string \<Rightarrow> 's gateway \<Rightarrow> (gerr + exact_entity) \<times> 's gateway"
where
  "fetchEntityExact X B eid g =
     (case ValidateEntityID (Ids X) eid of
        Some e \<Rightarrow> (Inl (WrapInvalid ''fetchEntity'' (Plain e)), g)
      | None \<Rightarrow>
          let (reply, world) = Request B (EntityQuery eid) (World g); g' = g\<lparr>World := world\<rparr>;
              internal = Classified (CodeInternal X) ''invalid exact entity response'';
              contractErr = (\<lambda>s. case StateContractError X s of (code, t) \<Rightarrow> replyError code t)
          in
          (case reply of
             NatsFail e \<Rightarrow> (Inl (classifyTransport ''fetchEntity'' e), g')
           | Rejected code s \<Rightarrow> (Inl (classifyEntityQueryFailure X (replyError code s)), g')
           | Data d \<Rightarrow>
               (case d of
                  EntityResponse payload kv \<Rightarrow>
                    if payload = EntityNull \<or> kv = 0 then (Inl internal, g')
                    else (case payload of
                            EntityGood e \<Rightarrow>
                              if EntityID e \<noteq> eid then (Inl (contractErr (EntityID e)), g')
                              else (Inr \<lparr>Entity = Some e, KVRevision = kv\<rparr>, g')
                          | EntityBad s \<Rightarrow> (Inl (contractErr s), g')
                          | EntityNull \<Rightarrow> (Inl internal, g'))
                | _ \<Rightarrow> (Inl internal, g'))))"

definition fetchEntity ::
  "env \<Rightarrow> 's backend \<Rightarrow> string \<Rightarrow> 's gateway \<Rightarrow> (gerr + entity_state) \<times> 's gateway"
where
  "fetchEntity X B eid g =
     (case fetchEntityExact X B eid g of
        (Inl e, g') \<Rightarrow> (Inl e, g')
      | (Inr ex, g') \<Rightarrow> (case Entity ex of Some e \<Rightarrow> (Inr e, g') | None \<Rightarrow> (Inl (Plain ''nil entity''), g')))"

section \<open>Ingest, put, replace, delete\<close>

definition singleSubject :: "triple list \<Rightarrow> gerr + string" where
  "singleSubject triples =
     (case triples of
        [] \<Rightarrow> Inl (Plain ''no triples to ingest'')
      | t # ts \<Rightarrow>
          if Subject t = [] then Inl (Plain ''triple subject is empty'')
          else if list_all (\<lambda>u. Subject u = Subject t) ts then Inr (Subject t)
          else Inl (Plain ''subject mismatch''))"

definition ingestTriples ::
  "env \<Rightarrow> 's backend \<Rightarrow> context_state \<Rightarrow> triple list \<Rightarrow> Identity \<Rightarrow> 's gateway \<Rightarrow>
   (gerr + unit) \<times> 's gateway"
where
  "ingestTriples X B ctx triples identity g =
     (case singleSubject triples of
        Inl e \<Rightarrow> (Inl (WrapInvalid ''ingestTriples'' e), g)
      | Inr entityID \<Rightarrow>
          let (contractName, mt) = projectionForTriples X entityID triples in
          createProjectedEntity X B ctx contractName entityID triples mt None identity ''ingestTriples'' g)"

definition ingestProjectedTriples ::
  "env \<Rightarrow> 's backend \<Rightarrow> context_state \<Rightarrow> string \<Rightarrow> triple list \<Rightarrow> message_type \<Rightarrow> Identity \<Rightarrow>
   's gateway \<Rightarrow> (gerr + unit) \<times> 's gateway"
where
  "ingestProjectedTriples X B ctx entityID triples mt identity g =
     (case validateProjectedTriples X entityID triples of
        Some e \<Rightarrow> (Inl (WrapInvalid ''ingestProjectedTriples'' e), g)
      | None \<Rightarrow>
          createProjectedEntity X B ctx systemProjectionContractName entityID triples mt None identity
            ''ingestTriples'' g)"

definition replaceEntityTriples ::
  "env \<Rightarrow> 's backend \<Rightarrow> context_state \<Rightarrow> exact_entity \<Rightarrow> triple list \<Rightarrow> Identity \<Rightarrow> 's gateway \<Rightarrow>
   (gerr + unit) \<times> 's gateway"
where
  "replaceEntityTriples X B ctx current triples identity g =
     reconcileEntity X B ctx current triples identity ''replaceEntityTriples'' g"

definition putEntityTriples ::
  "env \<Rightarrow> 's backend \<Rightarrow> context_state \<Rightarrow> string \<Rightarrow> triple list \<Rightarrow> Identity \<Rightarrow> 's gateway \<Rightarrow>
   (gerr + unit) \<times> 's gateway"
where
  "putEntityTriples X B ctx entityID triples identity g =
     (case fetchEntityExact X B entityID g of
        (Inl e, g') \<Rightarrow>
          if isEntityNotFound e then ingestTriples X B ctx triples identity g' else (Inl e, g')
      | (Inr current, g') \<Rightarrow> replaceEntityTriples X B ctx current triples identity g')"

definition deleteEntity ::
  "env \<Rightarrow> 's backend \<Rightarrow> context_state \<Rightarrow> string \<Rightarrow> Identity \<Rightarrow> 's gateway \<Rightarrow>
   (gerr + unit) \<times> 's gateway"
where
  "deleteEntity X B ctx entityID identity g =
     (case fetchEntityExact X B entityID g of
        (Inl e, g') \<Rightarrow> if isEntityNotFound e then (Inr (), g') else (Inl e, g')
      | (Inr exact, g') \<Rightarrow> deleteExactEntity X B ctx exact identity g')"

section \<open>Errors to responses\<close>

definition attemptedID :: "string \<Rightarrow> string \<times> string" where
  "attemptedID eid = (''X-CS-Attempted-ID'', eid)"

definition writeBackendError ::
  "env \<Rightarrow> (string \<times> string) list \<Rightarrow> gerr \<Rightarrow> 's gateway \<Rightarrow> response \<times> 's gateway"
where
  "writeBackendError X hs e g =
     (let (hs', status, msg) =
        (case commitUnknownOf e of
           Some c \<Rightarrow> (hs @ [(''X-CS-Commit-Uncertain'', ''true''), (''X-CS-Correlation-ID'', c)], 503,
                      ''commit outcome unknown; verify resource state before retrying'')
         | None \<Rightarrow>
             if isEntityNotFound e then (hs, 404, ErrText X e)
             else if isEntityConflict e then (hs, 409, ErrText X e)
             else if IsInvalid X e then (hs, 400, ErrText X e)
             else if IsTransient X e then (hs, 503, ''service unavailable'')
             else (hs, 500, ''internal server error''))
      in (writeJSONError hs' status msg, if status \<ge> 500 then g\<lparr>Errs := Suc (Errs g)\<rparr> else g))"

section \<open>The audit trail\<close>

lemma commitUnknownOf_mutationFailure [simp]:
  "commitUnknownOf (mutationFailure X op (replyError code s)) = None"
  by (auto simp: mutationFailure_def replyError_def Let_def split: option.splits)

text \<open>What a failed request leaves: one record, which says whether the outcome is known.\<close>

definition audited_failure :: "attempt \<Rightarrow> 's gateway \<Rightarrow> gerr \<Rightarrow> 's gateway \<Rightarrow> bool" where
  "audited_failure a g e g' \<longleftrightarrow>
     (\<exists>kv. Audit g' = Audit g @
        [\<lparr>AuditRequestID = RequestID a, AuditTraceID = AttemptTrace a, AuditOperation = Operation a,
          AuditEntityID = AttemptEntity a,
          CommitState = (if commitUnknownOf e = None then NotCommitted else CommitStateUnknown),
          AuditRevision = kv, AuditIdentity = AttemptIdentity a, AuditError = Some e\<rparr>]) \<and>
     commitUnknownOf e \<in> {None, Some (RequestID a)}"

lemma requestTypedMutation_Inl:
  assumes "requestTypedMutation X B ctx payload a g = (Inl e, g')"
  shows "audited_failure a g e g'"
  using assms
  by (auto simp: requestTypedMutation_def audited_failure_def auditMutation_def Let_def
      split: option.splits if_splits prod.splits nats_result.splits)

lemma requestTypedMutation_Inr:
  assumes "requestTypedMutation X B ctx payload a g = (Inr d, g')"
  shows "Cancelled ctx = None \<and> payload_marshals payload \<and>
         Request B payload (World g) = (Data d, World g') \<and> g' = g\<lparr>World := World g'\<rparr>"
  using assms
  by (auto simp: requestTypedMutation_def Let_def
      split: option.splits if_splits prod.splits nats_result.splits)

text \<open>An operation is audited when it either stops before any request, leaving the world and the
  log alone and never claiming an unknown outcome, or adds exactly one record, whose commit state
  is verified on success, unknown when the error says so (under the record's request ID), and
  not-committed on every other error.\<close>

definition audited :: "'s gateway \<Rightarrow> gerr + unit \<Rightarrow> 's gateway \<Rightarrow> bool" where
  "audited g res g' \<longleftrightarrow>
     (Audit g' = Audit g \<and> World g' = World g \<and> (\<exists>e. res = Inl e \<and> commitUnknownOf e = None)) \<or>
     (\<exists>r. Audit g' = Audit g @ [r] \<and>
        (case res of
           Inr _ \<Rightarrow> CommitState r = CommitVerified \<and> AuditError r = None
         | Inl e \<Rightarrow> AuditError r = Some e \<and>
                    CommitState r = (if commitUnknownOf e = None then NotCommitted else CommitStateUnknown) \<and>
                    (\<forall>c. commitUnknownOf e = Some c \<longrightarrow> c = AuditRequestID r)))"

lemma audited_refused:
  "commitUnknownOf e = None \<Longrightarrow> audited g (Inl e) g"
  "commitUnknownOf e = None \<Longrightarrow> audited g (Inl e) (snd (newMutationAttempt ctx identity op eid kv g))"
  by (auto simp: audited_def newMutationAttempt_def)

lemma audited_failureI:
  assumes "audited_failure a g1 e g'" "Audit g1 = Audit g"
  shows "audited g (Inl e) g'"
  using assms by (auto simp: audited_def audited_failure_def)

lemma audited_unknown:
  assumes "Audit g2 = Audit g"
  shows "audited g (Inl (WrapTransient op (CommitUnknown (RequestID a) e)))
           (auditMutation a CommitStateUnknown kv (Some (WrapTransient op (CommitUnknown (RequestID a) e))) g2)"
  using assms by (auto simp: audited_def auditMutation_def)

lemma audited_verified:
  "Audit g2 = Audit g \<Longrightarrow> audited g (Inr ()) (auditMutation a CommitVerified kv None g2)"
  by (auto simp: audited_def auditMutation_def)

lemma newMutationAttempt_Audit [simp]:
  "Audit (snd (newMutationAttempt ctx identity op eid kv g)) = Audit g"
  "World (snd (newMutationAttempt ctx identity op eid kv g)) = World g"
  by (simp_all add: newMutationAttempt_def)

lemma requestTypedMutation_Audit:
  "requestTypedMutation X B ctx payload a g = (Inr d, g') \<Longrightarrow> Audit g' = Audit g"
  by (drule requestTypedMutation_Inr) (metis gateway.select_convs(2) gateway.surjective gateway.update_convs(1))

lemmas audited_intros = audited_refused audited_verified audited_unknown

lemma newMutationAttempt_eq:
  "newMutationAttempt ctx identity op eid kv g = (a, g1) \<Longrightarrow>
   Audit g1 = Audit g \<and> World g1 = World g \<and> AttemptEntity a = eid \<and> AttemptRevision a = kv \<and>
   Operation a = op \<and> AttemptIdentity a = identity"
  by (auto simp: newMutationAttempt_def)

lemma validateProjectedTriples_plain:
  "validateProjectedTriples X eid ts = Some e \<Longrightarrow> commitUnknownOf e = None"
  by (auto simp: validateProjectedTriples_def split: if_splits)

lemma graphMutationSubject_plain:
  "graphMutationSubject X op = Inl e \<Longrightarrow> commitUnknownOf e = None"
  by (auto simp: graphMutationSubject_def split: if_splits sum.splits)

lemma audited_stop:
  "Audit g1 = Audit g \<Longrightarrow> World g1 = World g \<Longrightarrow> commitUnknownOf e = None \<Longrightarrow>
     audited g (Inl (Wrap op e)) g1"
  "Audit g1 = Audit g \<Longrightarrow> World g1 = World g \<Longrightarrow> commitUnknownOf e = None \<Longrightarrow>
     audited g (Inl (WrapInvalid op e)) g1"
  by (simp_all add: audited_def)

lemma createProjectedEntity_audited:
  assumes "createProjectedEntity X B ctx name eid ts mt sr identity op g = (res, g')"
  shows "audited g res g'"
  using assms unfolding createProjectedEntity_def
  by (auto simp: Let_def commitUnknownOf.simps split: if_splits option.splits prod.splits sum.splits reply_data.splits outcome.splits
      intro!: audited_verified audited_unknown
      intro: audited_stop audited_failureI
      dest!: newMutationAttempt_eq requestTypedMutation_Inl requestTypedMutation_Audit
      dest: validateProjectedTriples_plain graphMutationSubject_plain)

lemma reconcileEntity_audited:
  assumes "reconcileEntity X B ctx exact desired identity op g = (res, g')"
  shows "audited g res g'"
  using assms unfolding reconcileEntity_def
  by (auto simp: Let_def commitUnknownOf.simps split: if_splits option.splits prod.splits sum.splits reply_data.splits
      intro!: audited_verified audited_unknown
      intro: audited_stop audited_failureI
      dest!: newMutationAttempt_eq requestTypedMutation_Inl requestTypedMutation_Audit
      dest: validateProjectedTriples_plain graphMutationSubject_plain)

lemma deleteExactEntity_audited:
  assumes "deleteExactEntity X B ctx exact identity g = (res, g')"
  shows "audited g res g'"
  using assms unfolding deleteExactEntity_def
  by (auto simp: Let_def commitUnknownOf.simps split: if_splits option.splits prod.splits sum.splits reply_data.splits
      intro!: audited_verified audited_unknown
      intro: audited_stop audited_failureI
      dest!: newMutationAttempt_eq requestTypedMutation_Inl requestTypedMutation_Audit
      dest: validateProjectedTriples_plain graphMutationSubject_plain)

section \<open>What a successful mutation did\<close>

lemma createProjectedEntity_ok:
  assumes "createProjectedEntity X B ctx name eid ts mt sr identity op g = (Inr (), g')"
  shows "\<exists>c tr rq e kv. projectionContractByName X name = Some c \<and>
     validateProjectionFacts X c eid ts = None \<and>
     Request B (CreateEntityRequest eid ts mt sr (IndexingProfile c) tr rq) (World g) =
       (Data (CreateResponse MutationApplied (Some e) kv), World g') \<and>
     EntityID e = eid \<and> kv \<noteq> 0"
  using assms unfolding createProjectedEntity_def
  by (auto simp: Let_def auditMutation_def split: if_splits option.splits prod.splits sum.splits reply_data.splits outcome.splits
      dest!: newMutationAttempt_eq requestTypedMutation_Inr; blast)

lemma reconcileEntity_ok:
  assumes "reconcileEntity X B ctx exact desired identity op g = (Inr (), g')"
  shows "\<exists>current c preds tr rq oc e kv. Entity exact = Some current \<and> KVRevision exact \<noteq> 0 \<and>
     projectionContractByName X (fst (projectionForTriples X (EntityID current) (EntityTriples current))) = Some c \<and>
     representationGroup X c = Some preds \<and>
     validateProjectionFacts X c (EntityID current) desired = None \<and>
     Request B (ReconcilePredicatesRequest (EntityID current) (KVRevision exact) preds
                  (triplesForPredicates desired preds) tr rq) (World g) =
       (Data (ReconcileResponse oc (Some e) kv), World g') \<and>
     oc \<in> {MutationApplied, MutationUnchanged} \<and> EntityID e = EntityID current \<and> kv \<noteq> 0"
  using assms unfolding reconcileEntity_def
  by (auto simp: Let_def auditMutation_def split: if_splits option.splits prod.splits sum.splits reply_data.splits
      dest!: newMutationAttempt_eq requestTypedMutation_Inr; blast) 

lemma deleteExactEntity_ok:
  assumes "deleteExactEntity X B ctx exact identity g = (Inr (), g')"
  shows "\<exists>current tr rq. Entity exact = Some current \<and> KVRevision exact \<noteq> 0 \<and>
     Request B (DeleteEntityRequest (EntityID current) (KVRevision exact) tr rq) (World g) =
       (Data (DeleteResponse MutationApplied (EntityID current) (KVRevision exact)), World g')"
  using assms unfolding deleteExactEntity_def
  by (auto simp: Let_def auditMutation_def split: if_splits option.splits prod.splits sum.splits reply_data.splits
      dest!: newMutationAttempt_eq requestTypedMutation_Inr; blast)

lemma fetchEntityExact_ok:
  assumes "fetchEntityExact X B eid g = (Inr ex, g')"
  shows "\<exists>e kv. ex = \<lparr>Entity = Some e, KVRevision = kv\<rparr> \<and> EntityID e = eid \<and> kv \<noteq> 0 \<and>
     Request B (EntityQuery eid) (World g) = (Data (EntityResponse (EntityGood e) kv), World g') \<and>
     Audit g' = Audit g"
  using assms unfolding fetchEntityExact_def
  by (auto simp: Let_def split: if_splits option.splits prod.splits nats_result.splits reply_data.splits
      entity_payload.splits)

lemma fetchEntityExact_err:
  assumes "fetchEntityExact X B eid g = (Inl e, g')"
  shows "Audit g' = Audit g \<and> (World g' = World g \<or> World g' = snd (Request B (EntityQuery eid) (World g)))"
  using assms unfolding fetchEntityExact_def
  by (auto simp: Let_def split: if_splits option.splits prod.splits nats_result.splits reply_data.splits
      entity_payload.splits)

lemma representation_contract:
  assumes "projectionContractByName X name = Some c" "representationGroup X c = Some preds"
  shows "preds \<in> {systemPredicates, datastreamPredicates} \<and>
         set (allowedPredicates c) = {PredType, EntityIndexingProfile X} \<union> set preds"
proof -
  from assms(2) have "Groups c \<noteq> []" by (auto simp: representationGroup_def)
  with projectionContractByName_groups [OF assms(1)]
  have "name = systemProjectionContractName \<or> name = datastreamProjectionContractName" by blast
  with assms show ?thesis
    by (auto simp: contract_system contract_datastream representationContract_def
        representationGroup_def allowedPredicates_def)
qed

lemma PredType_not_owned:
  "PredType \<notin> set systemPredicates" "PredType \<notin> set datastreamPredicates"
  by (simp_all add: systemPredicates_def datastreamPredicates_def commonPredicates_def
      geoPredicates_def vocab_defs)

end
