(* ===== verification/GraphContract.thy ===== *)
theory GraphContract
  imports Mutations "HOL-Library.AList"
begin

text \<open>
  What the graph mutations promise to the handlers above them: one mutation per request, at the
  revision that was read; an audit trail and an HTTP response that agree on whether the outcome is
  known; the error table of \<open>docs/adr/004\<close>; and, for a graph service that keeps its documented
  contract, what a PUT and a DELETE leave in the graph.
\<close>

section \<open>One attempt\<close>

text \<open>Between two worlds: nothing, the exact read of \<open>eid\<close>, or the read and one mutation. A
  reconcile or a delete names the entity that was read and the revision the read gave.\<close>

fun authorised :: "string \<Rightarrow> nats_result \<Rightarrow> graph_request \<Rightarrow> bool" where
  "authorised eid r (CreateEntityRequest e ts mt sr pr tr rq) = True"
| "authorised eid r (ReconcilePredicatesRequest e kv ps ts tr rq) =
     (e = eid \<and> kv \<noteq> 0 \<and> (\<exists>st. r = Data (EntityResponse (EntityGood st) kv) \<and> EntityID st = eid))"
| "authorised eid r (DeleteEntityRequest e kv tr rq) =
     (e = eid \<and> kv \<noteq> 0 \<and> (\<exists>st. r = Data (EntityResponse (EntityGood st) kv) \<and> EntityID st = eid))"
| "authorised eid r q = False"

definition attempted :: "'s backend \<Rightarrow> string \<Rightarrow> 's \<Rightarrow> 's \<Rightarrow> bool" where
  "attempted B eid w w' \<longleftrightarrow>
     w' = w \<or>
     w' = snd (Request B (EntityQuery eid) w) \<or>
     (\<exists>m. authorised eid (fst (Request B (EntityQuery eid) w)) m \<and>
          w' = snd (Request B m (snd (Request B (EntityQuery eid) w))))"

lemma requestTypedMutation_World:
  "World (snd (requestTypedMutation X B ctx payload a g)) \<in>
     {World g, snd (Request B payload (World g))}"
  by (auto simp: requestTypedMutation_def Let_def auditMutation_def
      split: option.splits if_splits prod.splits nats_result.splits)

lemma requestTypedMutation_World_eq:
  "requestTypedMutation X B ctx payload a g = (res, g') \<Longrightarrow>
     World g' = World g \<or> World g' = snd (Request B payload (World g))"
  using requestTypedMutation_World [of X B ctx payload a g] by auto

definition sentReq :: "'s backend \<Rightarrow> graph_request \<Rightarrow> 's \<Rightarrow> 's \<Rightarrow> bool" where
  "sentReq B req w w' \<longleftrightarrow> w' = w \<or> w' = snd (Request B req w)"

lemma sentReq_refl [simp]: "sentReq B req w w" by (simp add: sentReq_def)

lemma requestTypedMutation_sentReq:
  "requestTypedMutation X B ctx payload a g = (res, g') \<Longrightarrow> sentReq B payload (World g) (World g')"
  using requestTypedMutation_World_eq by (simp add: sentReq_def) blast

lemma newMutationAttempt_World: "newMutationAttempt ctx identity op eid kv g = (a, g1) \<Longrightarrow> World g1 = World g"
  by (simp add: newMutationAttempt_eq)

lemma createProjectedEntity_World:
  assumes "createProjectedEntity X B ctx name eid ts mt sr identity op g = (res, g')"
  shows "World g' = World g \<or>
     (\<exists>pr tr rq. World g' = snd (Request B (CreateEntityRequest eid ts mt sr pr tr rq) (World g)))"
proof -
  have "\<exists>pr tr rq. sentReq B (CreateEntityRequest eid ts mt sr pr tr rq) (World g) (World g')"
    using assms unfolding createProjectedEntity_def
    by (auto simp: Let_def split: if_splits option.splits prod.splits sum.splits
        reply_data.splits outcome.splits
        dest!: newMutationAttempt_World requestTypedMutation_sentReq; blast)
  then show ?thesis by (auto simp: sentReq_def)
qed

lemma reconcileEntity_World:
  assumes "reconcileEntity X B ctx exact desired identity op g = (res, g')"
  shows "World g' = World g \<or>
     (\<exists>current ps tr rq. Entity exact = Some current \<and> KVRevision exact \<noteq> 0 \<and>
        ps \<in> {systemPredicates, datastreamPredicates} \<and>
        World g' = snd (Request B (ReconcilePredicatesRequest (EntityID current) (KVRevision exact) ps
                                     (triplesForPredicates desired ps) tr rq) (World g)))"
proof -
  have "World g' = World g \<or>
     (\<exists>current c name ps tr rq. Entity exact = Some current \<and> KVRevision exact \<noteq> 0 \<and>
        projectionContractByName X name = Some c \<and> representationGroup X c = Some ps \<and>
        sentReq B (ReconcilePredicatesRequest (EntityID current) (KVRevision exact) ps
                     (triplesForPredicates desired ps) tr rq) (World g) (World g'))"
    using assms unfolding reconcileEntity_def
    by (auto simp: Let_def split: if_splits option.splits prod.splits sum.splits
        reply_data.splits
        dest!: newMutationAttempt_World requestTypedMutation_sentReq; blast)
  then show ?thesis unfolding sentReq_def by (meson representation_contract)
qed

lemma deleteExactEntity_World:
  assumes "deleteExactEntity X B ctx exact identity g = (res, g')"
  shows "World g' = World g \<or>
     (\<exists>current tr rq. Entity exact = Some current \<and> KVRevision exact \<noteq> 0 \<and>
        World g' = snd (Request B (DeleteEntityRequest (EntityID current) (KVRevision exact) tr rq) (World g)))"
proof -
  have "World g' = World g \<or> (\<exists>current tr rq. Entity exact = Some current \<and> KVRevision exact \<noteq> 0 \<and>
       sentReq B (DeleteEntityRequest (EntityID current) (KVRevision exact) tr rq) (World g) (World g'))"
    using assms unfolding deleteExactEntity_def
    by (auto simp: Let_def split: if_splits option.splits prod.splits sum.splits reply_data.splits
        dest!: newMutationAttempt_World requestTypedMutation_sentReq; blast)
  then show ?thesis by (auto simp: sentReq_def)
qed

lemma ingestTriples_World:
  assumes "ingestTriples X B ctx ts identity g = (res, g')"
  shows "World g' = World g \<or>
     (\<exists>eid mt pr tr rq. World g' = snd (Request B (CreateEntityRequest eid ts mt None pr tr rq) (World g)))"
  using assms unfolding ingestTriples_def
  by (auto split: sum.splits prod.splits dest!: createProjectedEntity_World; blast)

lemma attempted_read:
  "w' = w \<or> w' = snd (Request B (EntityQuery eid) w) \<Longrightarrow> attempted B eid w w'"
  by (auto simp: attempted_def)

lemma attempted_step:
  assumes "w1 = w \<or> w1 = snd (Request B (EntityQuery eid) w)"
    and "w' = w1 \<or> (w1 = snd (Request B (EntityQuery eid) w) \<and>
           (\<exists>m. authorised eid (fst (Request B (EntityQuery eid) w)) m \<and> w' = snd (Request B m w1)))"
  shows "attempted B eid w w'"
  using assms by (auto simp: attempted_def)

text \<open>A read that says the entity is not there did ask the graph.\<close>

lemma fetchEntityExact_missing:
  assumes "fetchEntityExact X B eid g = (Inl e, g')" "isEntityNotFound e"
  shows "\<exists>s. Request B (EntityQuery eid) (World g) = (Rejected (Some (CodeEntityNotFound X)) s, World g')"
  using assms unfolding fetchEntityExact_def
  by (auto simp: Let_def classifyTransport_def classifyEntityQueryFailure_def replyError_def
      split: if_splits option.splits prod.splits nats_result.splits reply_data.splits
      entity_payload.splits)

lemma putEntityTriples_attempted:
  assumes "putEntityTriples X B ctx eid ts identity g = (res, g')"
  shows "attempted B eid (World g) (World g')"
proof (cases "fetchEntityExact X B eid g")
  case (Pair r g1)
  show ?thesis
  proof (cases r)
    case (Inl e)
    show ?thesis
    proof (cases "isEntityNotFound e")
      case True
      from fetchEntityExact_missing [OF Pair [unfolded Inl] True]
      have w1: "World g1 = snd (Request B (EntityQuery eid) (World g))" by (metis snd_conv)
      have "ingestTriples X B ctx ts identity g1 = (res, g')"
        using assms Pair Inl True by (simp add: putEntityTriples_def)
      from ingestTriples_World [OF this] show ?thesis
        by (intro attempted_step [of "World g1"]) (use w1 in \<open>auto intro: authorised.simps(1) [THEN iffD2]\<close>)
    next
      case False
      with assms Pair Inl show ?thesis
        by (intro attempted_read) (auto simp: putEntityTriples_def dest: fetchEntityExact_err)
    qed
  next
    case (Inr ex)
    from fetchEntityExact_ok [OF Pair [unfolded Inr]] obtain e kv where
      ex: "ex = \<lparr>Entity = Some e, KVRevision = kv\<rparr>" "EntityID e = eid" "kv \<noteq> 0" and
      rq: "Request B (EntityQuery eid) (World g) = (Data (EntityResponse (EntityGood e) kv), World g1)"
      by blast
    have "reconcileEntity X B ctx ex ts identity ''replaceEntityTriples'' g1 = (res, g')"
      using assms Pair Inr by (simp add: putEntityTriples_def replaceEntityTriples_def)
    from reconcileEntity_World [OF this] show ?thesis
    proof (rule disjE)
      assume "World g' = World g1"
      with rq show ?thesis by (intro attempted_read) simp
    next
      assume "\<exists>current ps tr rq. Entity ex = Some current \<and> KVRevision ex \<noteq> 0 \<and>
        ps \<in> {systemPredicates, datastreamPredicates} \<and>
        World g' = snd (Request B (ReconcilePredicatesRequest (EntityID current) (KVRevision ex) ps
                                     (triplesForPredicates ts ps) tr rq) (World g1))"
      then obtain ps tr q where
        "World g' = snd (Request B (ReconcilePredicatesRequest eid kv ps (triplesForPredicates ts ps) tr q) (World g1))"
        using ex by auto
      with rq ex show ?thesis unfolding attempted_def
        by (intro disjI2 exI [of _ "ReconcilePredicatesRequest eid kv ps (triplesForPredicates ts ps) tr q"]) simp
    qed
  qed
qed

lemma deleteEntity_attempted:
  assumes "deleteEntity X B ctx eid identity g = (res, g')"
  shows "attempted B eid (World g) (World g')"
proof (cases "fetchEntityExact X B eid g")
  case (Pair r g1)
  show ?thesis
  proof (cases r)
    case (Inl e)
    with assms Pair show ?thesis
      by (intro attempted_read) (auto simp: deleteEntity_def dest: fetchEntityExact_err split: if_splits)
  next
    case (Inr ex)
    from fetchEntityExact_ok [OF Pair [unfolded Inr]] obtain e kv where
      ex: "ex = \<lparr>Entity = Some e, KVRevision = kv\<rparr>" "EntityID e = eid" "kv \<noteq> 0" and
      rq: "Request B (EntityQuery eid) (World g) = (Data (EntityResponse (EntityGood e) kv), World g1)"
      by blast
    have "deleteExactEntity X B ctx ex identity g1 = (res, g')"
      using assms Pair Inr by (simp add: deleteEntity_def)
    from deleteExactEntity_World [OF this] consider "World g' = World g1"
      | tr q where "World g' = snd (Request B (DeleteEntityRequest eid kv tr q) (World g1))"
      using ex by auto
    then show ?thesis
    proof cases
      case 1 with rq show ?thesis by (intro attempted_read) simp
    next
      case (2 tr q) with rq ex show ?thesis unfolding attempted_def
        by (intro disjI2 exI [of _ "DeleteEntityRequest eid kv tr q"]) simp
    qed
  qed
qed

text \<open>Claim C5: whatever it answers, an entity PUT and an entity DELETE send the graph at most one
  exact read and one mutation, never a retry and never a mutation without the read; a reconcile
  or a delete carries the ID that was read and exactly the nonzero revision the read gave.\<close>

theorem single_attempt:
  "attempted B eid (World g) (World (snd (putEntityTriples X B ctx eid ts identity g))) \<and>
   attempted B eid (World g) (World (snd (deleteEntity X B ctx eid identity g)))"
  by (metis deleteEntity_attempted prod.collapse putEntityTriples_attempted)

section \<open>What the client and the log are told\<close>

text \<open>The records an operation added, and how they and the response must agree: a failure names a
  correlation ID in the response's headers exactly when the log holds a record of unknown outcome,
  and it is that record's request ID; a success has only verified records.\<close>

definition new_records :: "'s gateway \<Rightarrow> 's gateway \<Rightarrow> audit_record list" where
  "new_records g g' = drop (length (Audit g)) (Audit g')"

text \<open>What an error response says of a mutation whose outcome is unknown, if there is one: the marker, the
  ID of its request and a 503; of any other error it says neither.\<close>

definition announces :: "env \<Rightarrow> (string \<times> string) list \<Rightarrow> gerr \<Rightarrow> 's gateway \<Rightarrow> audit_record option \<Rightarrow> bool" where
  "announces X hs e g u \<longleftrightarrow>
     (let resp = fst (writeBackendError X hs e g) in
      map_of (Headers resp) ''X-CS-Commit-Uncertain'' = map_option (\<lambda>r. ''true'') u \<and>
      map_of (Headers resp) ''X-CS-Correlation-ID'' = map_option AuditRequestID u \<and>
      (u \<noteq> None \<longrightarrow> Status resp = 503))"

definition reported :: "env \<Rightarrow> 's gateway \<Rightarrow> gerr + unit \<Rightarrow> 's gateway \<Rightarrow> bool" where
  "reported X g res g' \<longleftrightarrow>
     Audit g' = Audit g @ new_records g g' \<and> length (new_records g g') \<le> 1 \<and>
     (case res of
        Inl e \<Rightarrow>
          let u = find (\<lambda>r. CommitState r = CommitStateUnknown) (new_records g g') in
          announces X [] e g' u \<and> (\<forall>i. announces X [attemptedID i] e g' u) \<and>
          list_all (\<lambda>r. CommitState r \<noteq> CommitVerified) (new_records g g')
      | Inr _ \<Rightarrow> list_all (\<lambda>r. CommitState r = CommitVerified) (new_records g g'))"

lemma writeBackendError_Headers:
  "Headers (fst (writeBackendError X hs e g)) =
     hs @ (case commitUnknownOf e of
             Some c \<Rightarrow> [(''X-CS-Commit-Uncertain'', ''true''), (''X-CS-Correlation-ID'', c)]
           | None \<Rightarrow> []) @ [contentTypeJSON]"
  by (cases "commitUnknownOf e") (simp_all add: writeBackendError_def writeJSONError_def split: prod.split if_split)

lemma writeBackendError_Status:
  "Status (fst (writeBackendError X hs e g)) =
     (if commitUnknownOf e \<noteq> None then 503 else if isEntityNotFound e then 404
      else if isEntityConflict e then 409 else if IsInvalid X e then 400 else if IsTransient X e then 503 else 500)"
  by (cases "commitUnknownOf e") (simp_all add: writeBackendError_def writeJSONError_def)

lemma announces_iff:
  "hs = [] \<or> hs = [attemptedID i] \<Longrightarrow>
   announces X hs e g u \<longleftrightarrow> commitUnknownOf e = map_option AuditRequestID u"
  by (cases u; cases "commitUnknownOf e")
    (auto simp: announces_def writeBackendError_Headers writeBackendError_Status contentTypeJSON_def attemptedID_def Let_def)

lemma announced:
  "announces X [] e g u \<and> (\<forall>i. announces X [attemptedID i] e g u) \<longleftrightarrow> commitUnknownOf e = map_option AuditRequestID u"
  using announces_iff [of "[]"] announces_iff [of "[attemptedID _]"] by blast

lemma new_records_append: "Audit g' = Audit g @ rs \<Longrightarrow> new_records g g' = rs"
  by (simp add: new_records_def)

lemma reported_audited:
  assumes "audited g1 res g'" "Audit g1 = Audit g"
  shows "reported X g res g'"
proof -
  from assms(1) [unfolded audited_def] show ?thesis
  proof (elim disjE conjE exE)
    fix e assume "Audit g' = Audit g1" "res = Inl e" "commitUnknownOf e = None"
    with assms(2) new_records_append [of g' g "[]"] show ?thesis
      by (simp add: reported_def Let_def announced)
  next
    fix r
    assume r: "Audit g' = Audit g1 @ [r]"
      "case res of Inl e \<Rightarrow> AuditError r = Some e \<and>
          CommitState r = (if commitUnknownOf e = None then NotCommitted else CommitStateUnknown) \<and>
          (\<forall>c. commitUnknownOf e = Some c \<longrightarrow> c = AuditRequestID r)
        | Inr _ \<Rightarrow> CommitState r = CommitVerified \<and> AuditError r = None"
    with assms(2) have n: "new_records g g' = [r]" by (intro new_records_append) simp
    from r assms(2) n show ?thesis
      by (cases res) (auto simp: reported_def Let_def announced split: if_splits)
  qed
qed

lemma reported_quiet:
  assumes "Audit g' = Audit g" "\<And>e. res = Inl e \<Longrightarrow> commitUnknownOf e = None"
  shows "reported X g res g'"
  using assms new_records_append [of g' g "[]"]
  by (cases res) (simp_all add: reported_def Let_def announced)

lemma fetchEntityExact_plain:
  assumes "fetchEntityExact X B eid g = (Inl e, g')"
  shows "commitUnknownOf e = None"
  using assms unfolding fetchEntityExact_def
  by (auto simp: Let_def classifyTransport_def classifyEntityQueryFailure_def replyError_def
      split: if_splits option.splits prod.splits nats_result.splits reply_data.splits
      entity_payload.splits)

lemma fetchEntityExact_Audit:
  "fetchEntityExact X B eid g = (res, g') \<Longrightarrow> Audit g' = Audit g"
  by (cases res) (auto dest: fetchEntityExact_ok fetchEntityExact_err)

lemma singleSubject_plain: "singleSubject ts = Inl e \<Longrightarrow> commitUnknownOf e = None"
  by (auto simp: singleSubject_def split: list.splits if_splits)

lemma ingestTriples_audited:
  assumes "ingestTriples X B ctx ts identity g = (res, g')"
  shows "audited g res g'"
  using assms unfolding ingestTriples_def
  by (auto split: sum.splits prod.splits dest: createProjectedEntity_audited
      intro!: audited_refused(1) simp: singleSubject_plain)

lemma putEntityTriples_reported:
  assumes "putEntityTriples X B ctx eid ts identity g = (res, g')"
  shows "reported X g res g'"
proof (cases "fetchEntityExact X B eid g")
  case (Pair r g1)
  note audit = fetchEntityExact_Audit [OF Pair]
  show ?thesis
  proof (cases r)
    case (Inr ex)
    then have "reconcileEntity X B ctx ex ts identity ''replaceEntityTriples'' g1 = (res, g')"
      using assms Pair by (simp add: putEntityTriples_def replaceEntityTriples_def)
    then show ?thesis by (intro reported_audited [OF _ audit] reconcileEntity_audited)
  next
    case (Inl e)
    show ?thesis
    proof (cases "isEntityNotFound e")
      case True
      then have "ingestTriples X B ctx ts identity g1 = (res, g')"
        using assms Pair Inl by (simp add: putEntityTriples_def)
      then show ?thesis by (intro reported_audited [OF _ audit] ingestTriples_audited)
    next
      case False
      then have "res = Inl e" "g' = g1" using assms Pair Inl by (simp_all add: putEntityTriples_def)
      with Pair Inl audit show ?thesis by (intro reported_quiet) (auto dest: fetchEntityExact_plain)
    qed
  qed
qed

lemma deleteEntity_reported:
  assumes "deleteEntity X B ctx eid identity g = (res, g')"
  shows "reported X g res g'"
proof (cases "fetchEntityExact X B eid g")
  case (Pair r g1)
  note audit = fetchEntityExact_Audit [OF Pair]
  from assms Pair consider
      e where "r = Inl e" "res = Inl e \<or> res = Inr ()" "g' = g1"
    | ex where "deleteExactEntity X B ctx ex identity g1 = (res, g')"
    by (auto simp: deleteEntity_def split: sum.splits if_splits)
  then show ?thesis
  proof cases
    case 1 with Pair audit show ?thesis by (intro reported_quiet) (auto dest: fetchEntityExact_plain)
  next
    case 2 then show ?thesis by (intro reported_audited [OF _ audit] deleteExactEntity_audited)
  qed
qed

text \<open>Claim C3: an unknown commit is never hidden and never invented. For a create, a PUT and a
  DELETE of an entity, the failure response carries the uncertainty marker and the correlation ID
  exactly when the one audit record of the request says that the outcome is unknown; the correlation ID is
  then that record's request ID and the status 503. A success leaves only verified records, and no operation leaves more than one.\<close>

theorem commit_uncertainty_reported:
  "(\<lambda>(res, g'). reported X g res g') (ingestTriples X B ctx ts identity g) \<and>
   (\<lambda>(res, g'). reported X g res g') (putEntityTriples X B ctx eid ts identity g) \<and>
   (\<lambda>(res, g'). reported X g res g') (deleteEntity X B ctx eid identity g)"
  by (auto split: prod.splits intro: deleteEntity_reported putEntityTriples_reported
      reported_audited [OF ingestTriples_audited])

section \<open>The error table\<close>

text \<open>The HTTP classification that \<open>docs/adr/004\<close> fixes for the replies of a typed mutation.
  \<open>Rejected\<close> without a graph error code of the table falls back on the framework's own class.\<close>

definition documented_status :: "env \<Rightarrow> nats_result \<Rightarrow> nat \<times> bool" where
  "documented_status X r =
     (case r of
        NatsFail NoResponders \<Rightarrow> (503, False)
      | NatsFail _ \<Rightarrow> (503, True)
      | Rejected (Some c) s \<Rightarrow>
          (if c = CodeEntityExists X \<or> c = CodeRevisionMismatch X then 409
           else if c = CodeEntityNotFound X then 404
           else if c = CodeInvalidRequest X \<or> c = CodeStructuralInvalid X then 400
           else if c = CodeInternal X then 500
           else if IsInvalid X (Classified c s) then 400
           else if IsTransient X (Classified c s) then 503 else 500, False)
      | Rejected None s \<Rightarrow>
          (if IsInvalid X (Plain s) then 400 else if IsTransient X (Plain s) then 503 else 500, False)
      | Data d \<Rightarrow> (200, False))"

definition wrap_laws :: "env \<Rightarrow> bool" where
  "wrap_laws X \<longleftrightarrow>
     (\<forall>op e. IsInvalid X (Wrap op e) = IsInvalid X e \<and> IsTransient X (Wrap op e) = IsTransient X e)"

lemma mutationFailure_status:
  assumes "errs_laws X" "wrap_laws X" "distinct [CodeEntityExists X, CodeEntityNotFound X,
      CodeRevisionMismatch X, CodeInvalidRequest X, CodeStructuralInvalid X, CodeInternal X]"
    and "\<not> IsInvalid X (Plain (ErrText X (replyError code s)))"
    and "\<not> IsTransient X (Plain (ErrText X (replyError code s)))"
  shows "Status (fst (writeBackendError X [] (mutationFailure X op (replyError code s)) g)) =
     fst (documented_status X (Rejected code s))"
  using assms
  by (cases code)
    (auto simp: documented_status_def replyError_def mutationFailure_def writeBackendError_def
      writeJSONError_def errs_laws_def wrap_laws_def Let_def)

text \<open>Claim C6: every failed typed mutation is answered with the documented status, and with the
  uncertainty marker exactly where the table asks for it: a conflict or a stale revision is 409, a
  missing entity 404, an invalid request 400, an internal graph error 500 even when the transport
  classed it otherwise, no responders 503, and a lost reply 503 with the marker. Assumed: what the
  framework documents of its error wrappers, that its codes differ, and that the text of an
  unclassified error carries no class.\<close>

theorem mutation_error_table:
  assumes "errs_laws X" "wrap_laws X" "distinct [CodeEntityExists X, CodeEntityNotFound X,
      CodeRevisionMismatch X, CodeInvalidRequest X, CodeStructuralInvalid X, CodeInternal X]"
    and "\<And>t. \<not> IsInvalid X (Plain t) \<and> \<not> IsTransient X (Plain t)"
    and "Cancelled ctx = None" "payload_marshals payload"
    and "Request B payload (World g) = (reply, w)"
    and "requestTypedMutation X B ctx payload a g = (Inl e, g')"
  shows "let resp = fst (writeBackendError X [] e g')
         in (Status resp, map_of (Headers resp) ''X-CS-Commit-Uncertain'' = Some ''true'') =
            documented_status X reply"
proof (cases reply)
  case (NatsFail n)
  with assms(5-8) have e: "e = WrapTransient (Operation a)
      (if n = NoResponders then NatsErr n else CommitUnknown (RequestID a) (NatsErr n))"
    by (auto simp: requestTypedMutation_def Let_def split: if_splits)
  have "IsTransient X e" "\<not> IsInvalid X e" using assms(1) by (simp_all add: e errs_laws_def)
  then show ?thesis unfolding NatsFail
    by (cases n) (simp_all add: e documented_status_def writeBackendError_def
        writeJSONError_def contentTypeJSON_def Let_def)
next
  case (Rejected code s)
  with assms(5-8) have e: "e = mutationFailure X (Operation a) (replyError code s)"
    by (auto simp: requestTypedMutation_def Let_def)
  have "map_of (Headers (fst (writeBackendError X [] e g'))) ''X-CS-Commit-Uncertain'' = None"
    unfolding e by (simp add: writeBackendError_def writeJSONError_def contentTypeJSON_def Let_def)
  moreover have "snd (documented_status X (Rejected code s)) = False"
    by (cases code) (simp_all add: documented_status_def)
  ultimately show ?thesis
    using mutationFailure_status [OF assms(1-3)] assms(4) e Rejected by (simp add: Let_def prod_eq_iff)
next
  case (Data d)
  with assms(5-8) show ?thesis by (simp add: requestTypedMutation_def Let_def)
qed

end
