(* ===== verification/GraphModel.thy ===== *)
theory GraphModel
  imports GraphContract
begin

text \<open>
  The contract of the graph service, as \<open>docs/adr/004\<close> and the beta.160 migration spec state it
  (strict create, reconcile of exactly the named predicates at the expected revision, delete at
  the expected revision), and what the gateway's PUT and DELETE give on top of any service that
  keeps it. An in-memory graph shows that the contract can hold.
\<close>

section \<open>The contract\<close>

type_synonym contents = "string \<rightharpoonup> triple list \<times> nat"

definition owned :: "string list \<Rightarrow> triple list \<Rightarrow> triple set" where
  "owned ps ts = {t \<in> set ts. Predicate t \<in> set ps}"

definition others :: "string list \<Rightarrow> triple list \<Rightarrow> triple set" where
  "others ps ts = {t \<in> set ts. Predicate t \<notin> set ps}"

text \<open>A read changes nothing; what it finds is there, and what it reports missing is not.\<close>

definition query_law :: "env \<Rightarrow> 's backend \<Rightarrow> ('s \<Rightarrow> contents) \<Rightarrow> bool" where
  "query_law X B ents \<longleftrightarrow>
     (\<forall>eid w. ents (snd (Request B (EntityQuery eid) w)) = ents w) \<and>
     (\<forall>eid w w' e kv. Request B (EntityQuery eid) w = (Data (EntityResponse (EntityGood e) kv), w') \<longrightarrow>
        ents w eid = Some (EntityTriples e, kv)) \<and>
     (\<forall>eid w w' s. Request B (EntityQuery eid) w = (Rejected (Some (CodeEntityNotFound X)) s, w') \<longrightarrow>
        ents w eid = None)"

text \<open>An applied create adds an entity that was not there, with the given facts and nothing but the
  indexing profile beside them.\<close>

definition create_law :: "env \<Rightarrow> 's backend \<Rightarrow> ('s \<Rightarrow> contents) \<Rightarrow> bool" where
  "create_law X B ents \<longleftrightarrow>
     (\<forall>eid ts mt sr pr tr rq w w' st kv.
        Request B (CreateEntityRequest eid ts mt sr pr tr rq) w =
          (Data (CreateResponse MutationApplied (Some st) kv), w') \<longrightarrow>
        ents w eid = None \<and>
        (\<exists>new. ents w' = (ents w)(eid \<mapsto> (new, kv)) \<and>
               others [EntityIndexingProfile X] new = others [EntityIndexingProfile X] ts))"

text \<open>A reconcile replaces the facts under the named predicates and keeps the others.\<close>

definition reconcile_law :: "env \<Rightarrow> 's backend \<Rightarrow> ('s \<Rightarrow> contents) \<Rightarrow> bool" where
  "reconcile_law X B ents \<longleftrightarrow>
     (\<forall>eid kv ps ts tr rq w w' oc st kv'.
        Request B (ReconcilePredicatesRequest eid kv ps ts tr rq) w =
          (Data (ReconcileResponse oc (Some st) kv'), w') \<and> oc \<in> {MutationApplied, MutationUnchanged} \<longrightarrow>
        (\<exists>old new. ents w eid = Some (old, kv) \<and> ents w' = (ents w)(eid \<mapsto> (new, kv')) \<and>
               owned ps new = owned ps ts \<and> others ps new = others ps old))"

definition delete_law :: "env \<Rightarrow> 's backend \<Rightarrow> ('s \<Rightarrow> contents) \<Rightarrow> bool" where
  "delete_law X B ents \<longleftrightarrow>
     (\<forall>eid kv tr rq w w'.
        Request B (DeleteEntityRequest eid kv tr rq) w = (Data (DeleteResponse MutationApplied eid kv), w') \<longrightarrow>
        (\<exists>old. ents w eid = Some (old, kv)) \<and> ents w' = (ents w)(eid := None))"

text \<open>A mutation that is refused, or that no responder received, changed nothing.\<close>

definition refusal_law :: "env \<Rightarrow> 's backend \<Rightarrow> ('s \<Rightarrow> contents) \<Rightarrow> bool" where
  "refusal_law X B ents \<longleftrightarrow>
     (\<forall>m w c s. fst (Request B m w) \<in> {Rejected c s, NatsFail NoResponders} \<longrightarrow>
        ents (snd (Request B m w)) = ents w)"

definition graph_contract :: "env \<Rightarrow> 's backend \<Rightarrow> ('s \<Rightarrow> contents) \<Rightarrow> bool" where
  "graph_contract X B ents \<longleftrightarrow>
     query_law X B ents \<and> create_law X B ents \<and> reconcile_law X B ents \<and> delete_law X B ents \<and>
     refusal_law X B ents"

section \<open>PUT and DELETE over the contract\<close>

lemma fetchEntityExact_contents:
  assumes "query_law X B ents" "fetchEntityExact X B eid g = (res, g')"
  shows "ents (World g') = ents (World g)"
proof (cases res)
  case (Inl e)
  with fetchEntityExact_err assms show ?thesis unfolding query_law_def by metis
next
  case (Inr ex)
  with fetchEntityExact_ok [of X B eid g ex g'] assms(2) obtain e kv where
    "Request B (EntityQuery eid) (World g) = (Data (EntityResponse (EntityGood e) kv), World g')" by blast
  with assms(1) show ?thesis unfolding query_law_def by (metis snd_conv)
qed

lemma create_contents:
  assumes "create_law X B ents" "createProjectedEntity X B ctx name eid ts mt sr identity op g = (Inr (), g')"
  shows "ents (World g) eid = None \<and>
     (\<exists>new kv. ents (World g') = (ents (World g))(eid \<mapsto> (new, kv)) \<and>
        others [EntityIndexingProfile X] new = others [EntityIndexingProfile X] ts)"
proof -
  from createProjectedEntity_ok [OF assms(2)] obtain pr tr rq e kv where
    "Request B (CreateEntityRequest eid ts mt sr pr tr rq) (World g) =
       (Data (CreateResponse MutationApplied (Some e) kv), World g')" by blast
  with assms(1) show ?thesis unfolding create_law_def by blast
qed

lemma owned_triplesForPredicates [simp]: "owned ps (triplesForPredicates ts ps) = owned ps ts"
  by (auto simp: owned_def triplesForPredicates_def)

lemma reconcile_contents:
  assumes "reconcile_law X B ents" "reconcileEntity X B ctx exact desired identity op g = (Inr (), g')"
  shows "\<exists>current ps old new kv. Entity exact = Some current \<and>
     ps \<in> {systemPredicates, datastreamPredicates} \<and>
     ents (World g) (EntityID current) = Some (old, KVRevision exact) \<and>
     ents (World g') = (ents (World g))(EntityID current \<mapsto> (new, kv)) \<and>
     owned ps new = owned ps desired \<and> others ps new = others ps old \<and>
     (\<forall>t \<in> set desired. Predicate t \<in> {PredType, EntityIndexingProfile X} \<union> set ps)"
proof -
  from reconcileEntity_ok [OF assms(2)] obtain current c ps tr rq oc e kv where
    cur: "Entity exact = Some current" and
    ps: "projectionContractByName X (fst (projectionForTriples X (EntityID current) (EntityTriples current))) = Some c"
      "representationGroup X c = Some ps" and
    facts: "validateProjectionFacts X c (EntityID current) desired = None" and
    rq: "Request B (ReconcilePredicatesRequest (EntityID current) (KVRevision exact) ps
          (triplesForPredicates desired ps) tr rq) (World g) =
        (Data (ReconcileResponse oc (Some e) kv), World g')" "oc \<in> {MutationApplied, MutationUnchanged}"
    by blast
  from assms(1) [unfolded reconcile_law_def] rq obtain old new where
    "ents (World g) (EntityID current) = Some (old, KVRevision exact)"
    "ents (World g') = (ents (World g))(EntityID current \<mapsto> (new, kv))"
    "owned ps new = owned ps (triplesForPredicates desired ps)" "others ps new = others ps old"
    by blast
  moreover have "\<forall>t \<in> set desired. Predicate t \<in> {PredType, EntityIndexingProfile X} \<union> set ps"
    using facts representation_contract [OF ps]
    by (auto simp: validateProjectionFacts_def checkFacts_None split: sum.splits if_splits)
  ultimately show ?thesis using cur representation_contract [OF ps] by auto
qed

text \<open>The specification of a PUT: one entity changes. A missing one is created with the facts of the
  request; of an existing one the representation becomes that of the request and every other fact,
  its type among them, stays.\<close>

definition put_spec :: "env \<Rightarrow> string \<Rightarrow> triple list \<Rightarrow> contents \<Rightarrow> contents \<Rightarrow> bool" where
  "put_spec X eid ts m m' \<longleftrightarrow>
     (\<exists>new kv. m' = m(eid \<mapsto> (new, kv)) \<and>
        (case m eid of
           None \<Rightarrow> others [EntityIndexingProfile X] new = others [EntityIndexingProfile X] ts
         | Some (old, r) \<Rightarrow>
             (\<exists>ps \<in> {systemPredicates, datastreamPredicates}.
                owned ps new = owned ps ts \<and> others ps new = others ps old)))"

lemma singleSubject_all:
  "singleSubject ts = Inr s \<Longrightarrow> ts \<noteq> [] \<and> (\<forall>t \<in> set ts. Subject t = s)"
  by (auto simp: singleSubject_def list_all_iff split: list.splits if_splits)

lemma put_contents:
  assumes "graph_contract X B ents" "list_all (\<lambda>t. Subject t = eid) ts"
    and "putEntityTriples X B ctx eid ts identity g = (Inr (), g')"
  shows "put_spec X eid ts (ents (World g)) (ents (World g'))"
proof (cases "fetchEntityExact X B eid g")
  case (Pair r g1)
  have laws: "query_law X B ents" "create_law X B ents" "reconcile_law X B ents"
    using assms(1) by (simp_all add: graph_contract_def)
  have same: "ents (World g1) = ents (World g)" by (rule fetchEntityExact_contents [OF laws(1) Pair])
  show ?thesis
  proof (cases r)
    case (Inr ex)
    from fetchEntityExact_ok [OF Pair [unfolded Inr]] obtain e kv where
      ex: "ex = \<lparr>Entity = Some e, KVRevision = kv\<rparr>" "EntityID e = eid" by blast
    have "reconcileEntity X B ctx ex ts identity ''replaceEntityTriples'' g1 = (Inr (), g')"
      using assms(3) Pair Inr by (simp add: putEntityTriples_def replaceEntityTriples_def)
    from reconcile_contents [OF laws(3) this] ex same show ?thesis
      by (auto simp: put_spec_def)
  next
    case (Inl e)
    then have "ingestTriples X B ctx ts identity g1 = (Inr (), g')"
      using assms(3) Pair by (simp add: putEntityTriples_def split: if_splits)
    then obtain s name mt where s: "singleSubject ts = Inr s" and
      c: "createProjectedEntity X B ctx name s ts mt None identity ''ingestTriples'' g1 = (Inr (), g')"
      by (auto simp: ingestTriples_def split: sum.splits prod.splits)
    from singleSubject_all [OF s] assms(2) have "s = eid" by (cases ts) auto
    with create_contents [OF laws(2) c] same show ?thesis by (auto simp: put_spec_def)
  qed
qed

text \<open>Claim C1: a PUT that reports success has refined the abstract one, over every graph service that
  keeps its contract: a single entity changed, created as sent or with exactly its representation
  replaced. The old type triple survives every replacement.\<close>

theorem put_refines:
  assumes "graph_contract X B ents" "list_all (\<lambda>t. Subject t = eid) ts"
    and "putEntityTriples X B ctx eid ts identity g = (Inr (), g')"
  shows "put_spec X eid ts (ents (World g)) (ents (World g'))"
  using assms by (rule put_contents)

lemma delete_contents:
  assumes "graph_contract X B ents" "deleteEntity X B ctx eid identity g = (Inr (), g')"
  shows "ents (World g') = (ents (World g))(eid := None)"
proof (cases "fetchEntityExact X B eid g")
  case (Pair r g1)
  have laws: "query_law X B ents" "delete_law X B ents"
    using assms(1) by (simp_all add: graph_contract_def)
  have same: "ents (World g1) = ents (World g)" by (rule fetchEntityExact_contents [OF laws(1) Pair])
  show ?thesis
  proof (cases r)
    case (Inl e)
    with assms(2) Pair have "isEntityNotFound e" "g' = g1"
      by (simp_all add: deleteEntity_def split: if_splits)
    with fetchEntityExact_missing [OF Pair [unfolded Inl]] laws(1) same show ?thesis
      unfolding query_law_def by (metis fun_upd_triv)
  next
    case (Inr ex)
    from fetchEntityExact_ok [OF Pair [unfolded Inr]] obtain e kv where
      ex: "ex = \<lparr>Entity = Some e, KVRevision = kv\<rparr>" "EntityID e = eid" by blast
    have "deleteExactEntity X B ctx ex identity g1 = (Inr (), g')"
      using assms(2) Pair Inr by (simp add: deleteEntity_def)
    from deleteExactEntity_ok [OF this] ex laws(2) same show ?thesis
      unfolding delete_law_def by auto
  qed
qed

text \<open>A DELETE that reports success leaves the entity absent and every other entity as it
  was, whether or not it was there before.\<close>

theorem delete_refines:
  assumes "graph_contract X B ents" "deleteEntity X B ctx eid identity g = (Inr (), g')"
  shows "ents (World g') = (ents (World g))(eid := None)"
  using assms by (rule delete_contents)

text \<open>A write that fails with a known outcome has changed nothing.\<close>

lemma requestTypedMutation_refused:
  assumes "refusal_law X B ents" "requestTypedMutation X B ctx payload a g = (Inl e, g')" "commitUnknownOf e = None"
  shows "ents (World g') = ents (World g)"
proof (cases "Request B payload (World g)")
  case (Pair r w)
  from assms(1) have law: "fst (Request B payload (World g)) \<in> {Rejected c s, NatsFail NoResponders} \<Longrightarrow>
      ents (snd (Request B payload (World g))) = ents (World g)" for c s
    unfolding refusal_law_def by blast
  show ?thesis
    using assms(2,3) law Pair
    by (cases r) (auto simp: requestTypedMutation_def Let_def auditMutation_def
        split: option.splits if_splits)
qed

lemma create_refused:
  assumes "refusal_law X B ents"
    and "createProjectedEntity X B ctx name eid ts mt sr identity op g = (Inl e, g')" "commitUnknownOf e = None"
  shows "ents (World g') = ents (World g)"
  using assms(2,3) unfolding createProjectedEntity_def
  by (auto simp: Let_def split: if_splits option.splits prod.splits sum.splits reply_data.splits outcome.splits
      dest!: newMutationAttempt_eq requestTypedMutation_refused [OF assms(1)])

lemma reconcile_refused:
  assumes "refusal_law X B ents"
    and "reconcileEntity X B ctx exact desired identity op g = (Inl e, g')" "commitUnknownOf e = None"
  shows "ents (World g') = ents (World g)"
  using assms(2,3) unfolding reconcileEntity_def
  by (auto simp: Let_def split: if_splits option.splits prod.splits sum.splits reply_data.splits
      dest!: newMutationAttempt_eq requestTypedMutation_refused [OF assms(1)])

lemma delete_refused:
  assumes "refusal_law X B ents"
    and "deleteExactEntity X B ctx exact identity g = (Inl e, g')" "commitUnknownOf e = None"
  shows "ents (World g') = ents (World g)"
  using assms(2,3) unfolding deleteExactEntity_def
  by (auto simp: Let_def split: if_splits option.splits prod.splits sum.splits reply_data.splits
      dest!: newMutationAttempt_eq requestTypedMutation_refused [OF assms(1)])

lemma ingest_refused:
  assumes "refusal_law X B ents"
    and "ingestTriples X B ctx ts identity g = (Inl e, g')" "commitUnknownOf e = None"
  shows "ents (World g') = ents (World g)"
  using assms(2,3) unfolding ingestTriples_def
  by (auto split: sum.splits prod.splits dest: create_refused [OF assms(1)])

lemma put_refused:
  assumes "graph_contract X B ents"
    and "putEntityTriples X B ctx eid ts identity g = (Inl e, g')" "commitUnknownOf e = None"
  shows "ents (World g') = ents (World g)"
proof (cases "fetchEntityExact X B eid g")
  case (Pair r g1)
  have laws: "query_law X B ents" "refusal_law X B ents" using assms(1) by (simp_all add: graph_contract_def)
  have same: "ents (World g1) = ents (World g)" by (rule fetchEntityExact_contents [OF laws(1) Pair])
  show ?thesis
  proof (cases r)
    case (Inr ex)
    then have "reconcileEntity X B ctx ex ts identity ''replaceEntityTriples'' g1 = (Inl e, g')"
      using assms(2) Pair by (simp add: putEntityTriples_def replaceEntityTriples_def)
    with reconcile_refused [OF laws(2)] assms(3) same show ?thesis by metis
  next
    case (Inl e1)
    with assms(2) Pair ingest_refused [OF laws(2)] assms(3) same show ?thesis
      by (cases "isEntityNotFound e1") (auto simp: putEntityTriples_def)
  qed
qed

lemma deleteEntity_refused:
  assumes "graph_contract X B ents"
    and "deleteEntity X B ctx eid identity g = (Inl e, g')" "commitUnknownOf e = None"
  shows "ents (World g') = ents (World g)"
proof (cases "fetchEntityExact X B eid g")
  case (Pair r g1)
  have laws: "query_law X B ents" "refusal_law X B ents" using assms(1) by (simp_all add: graph_contract_def)
  have same: "ents (World g1) = ents (World g)" by (rule fetchEntityExact_contents [OF laws(1) Pair])
  show ?thesis
  proof (cases r)
    case (Inr ex)
    then have "deleteExactEntity X B ctx ex identity g1 = (Inl e, g')"
      using assms(2) Pair by (simp add: deleteEntity_def)
    with delete_refused [OF laws(2)] assms(3) same show ?thesis by metis
  next
    case (Inl e1)
    with assms(2) Pair same show ?thesis by (cases "isEntityNotFound e1") (auto simp: deleteEntity_def)
  qed
qed

section \<open>An in-memory graph\<close>

text \<open>A graph service, an object store and a stream that keep everything in memory, and framework
  functions that keep their laws: they show that the hypotheses of this development can hold.\<close>

record memory =
  Entities :: "(string \<times> triple list \<times> nat) list"
  Objects :: "(string \<times> string) list"
  Messages :: "stream_msg list"

definition notFoundCode :: string where "notFoundCode = ''ENTITY_NOT_FOUND''"
definition existsCode :: string where "existsCode = ''ENTITY_EXISTS''"
definition mismatchCode :: string where "mismatchCode = ''REVISION_MISMATCH''"

definition state_of :: "string \<Rightarrow> triple list \<Rightarrow> storage_ref option \<Rightarrow> entity_state" where
  "state_of eid ts sr = \<lparr>EntityID = eid, EntityTriples = ts, EntityStorageRef = sr\<rparr>"

fun memoryRequest :: "graph_request \<Rightarrow> memory \<Rightarrow> nats_result \<times> memory" where
  "memoryRequest (CreateEntityRequest eid ts mt sr pr tr rq) w =
     (case map_of (Entities w) eid of
        Some _ \<Rightarrow> (Rejected (Some existsCode) eid, w)
      | None \<Rightarrow> (Data (CreateResponse MutationApplied (Some (state_of eid ts sr)) 1),
                 w\<lparr>Entities := AList.update eid (ts, 1) (Entities w)\<rparr>))"
| "memoryRequest (ReconcilePredicatesRequest eid kv ps ts tr rq) w =
     (case map_of (Entities w) eid of
        None \<Rightarrow> (Rejected (Some notFoundCode) eid, w)
      | Some (old, r) \<Rightarrow>
          if r \<noteq> kv then (Rejected (Some mismatchCode) eid, w)
          else let new = filter (\<lambda>t. Predicate t \<notin> set ps) old @ triplesForPredicates ts ps
               in (Data (ReconcileResponse MutationApplied (Some (state_of eid new None)) (Suc kv)),
                   w\<lparr>Entities := AList.update eid (new, Suc kv) (Entities w)\<rparr>))"
| "memoryRequest (DeleteEntityRequest eid kv tr rq) w =
     (case map_of (Entities w) eid of
        None \<Rightarrow> (Rejected (Some notFoundCode) eid, w)
      | Some (old, r) \<Rightarrow>
          if r \<noteq> kv then (Rejected (Some mismatchCode) eid, w)
          else (Data (DeleteResponse MutationApplied eid kv),
                w\<lparr>Entities := AList.delete eid (Entities w)\<rparr>))"
| "memoryRequest (EntityQuery eid) w =
     (case map_of (Entities w) eid of
        None \<Rightarrow> (Rejected (Some notFoundCode) eid, w)
      | Some (ts, kv) \<Rightarrow> (Data (EntityResponse (EntityGood (state_of eid ts None)) kv), w))"
| "memoryRequest (BatchQuery ids) w =
     (Data (BatchResponse
        (concat (map (\<lambda>i. case map_of (Entities w) i of None \<Rightarrow> [] | Some (ts, kv) \<Rightarrow> [state_of i ts None]) ids))
        (concat (map (\<lambda>i. case map_of (Entities w) i of None \<Rightarrow> [(i, MissingNotFound)] | Some _ \<Rightarrow> []) ids))), w)"
| "memoryRequest (PredicateQuery p v limit) w =
     (Data (PredicateResponse
        (take (nat limit) (map fst (filter (\<lambda>(i, ts, kv). \<exists>t \<in> set ts. Predicate t = p \<and> Object t = OStr v)
           (Entities w))))), w)"
| "memoryRequest (SpatialBoundsQuery n s e we limit) w = (Data (JsonReply (JArr [])), w)"
| "memoryRequest (SpatialPolygonQuery j limit) w = (Data (JsonReply (JArr [])), w)"

definition memoryBackend :: "memory backend" where
  "memoryBackend =
     \<lparr>Request = memoryRequest,
      GetBytes = (\<lambda>k w. (case map_of (Objects w) k of None \<Rightarrow> ObjectNotFound | Some b \<Rightarrow> Bytes b, w)),
      PutBytes = (\<lambda>k b w. (None, w\<lparr>Objects := AList.update k b (Objects w)\<rparr>)),
      PurgeSubject = (\<lambda>s w. (None, w\<lparr>Messages := filter (\<lambda>m. MsgSubject m \<noteq> s) (Messages w)\<rparr>)),
      PublishMsg = (\<lambda>s d hs w. (None, w\<lparr>Messages := Messages w @
        [\<lparr>MsgData = d, Sequence = Suc (fold max (map Sequence (Messages w)) 0), MsgSubject = s\<rparr>]\<rparr>)),
      Deliver = (\<lambda>s start n w. (Inr (take (nat n) (filter (\<lambda>m. subjectMatches s (MsgSubject m) \<and>
        (case start of None \<Rightarrow> True | Some k \<Rightarrow> k \<le> Sequence m)) (Messages w))), w))\<rparr>"

definition memoryContents :: "memory \<Rightarrow> contents" where
  "memoryContents w = map_of (Entities w)"

fun sampleInvalid :: "gerr \<Rightarrow> bool" where
  "sampleInvalid (WrapInvalid op e) = True"
| "sampleInvalid (Wrap op e) = sampleInvalid e"
| "sampleInvalid e = False"

fun sampleTransient :: "gerr \<Rightarrow> bool" where
  "sampleTransient (WrapTransient op e) = True"
| "sampleTransient (Wrap op e) = sampleTransient e"
| "sampleTransient e = False"

definition sampleEnv :: env where
  "sampleEnv =
     \<lparr>Ids = sampleIds, Cfg = DefaultConfig, IsInvalid = sampleInvalid, IsTransient = sampleTransient,
      ErrText = (\<lambda>e. ''error''),
      CodeEntityExists = existsCode, CodeEntityNotFound = notFoundCode, CodeRevisionMismatch = mismatchCode,
      CodeInvalidRequest = ''INVALID_REQUEST'', CodeStructuralInvalid = ''STRUCTURAL_INVALID'',
      CodeInternal = ''INTERNAL'', EntityIndexingProfile = ''entity.indexing.profile'',
      EntityReferenceDatatype = ''entity-reference'', ModeReconcile = ''reconcile'',
      TypeKey = (\<lambda>mt. go_join ''.'' [Domain mt, MsgCategory mt, Version mt]),
      TypeIsValid = (\<lambda>mt. Domain mt \<noteq> [] \<and> MsgCategory mt \<noteq> [] \<and> Version mt \<noteq> []),
      ContractOK = (\<lambda>c. None), MarshalEntityState = (\<lambda>eid ts. None),
      StateContractError = (\<lambda>s. (Some ''STRUCTURAL_INVALID'', s)),
      ResolveSubject = (\<lambda>op. Inr (''graph.mutation.'' @ op)), PointOf = (\<lambda>s. None),
      ParseMediaType = (\<lambda>s. Some (to_lower s)),
      Std = bitsStdlib, JsonFloat = FormatFloat bitsStdlib, ParseJson = (\<lambda>s. None),
      JsonText = (\<lambda>j. []), EnvelopeText = (\<lambda>j. []), FeatureJson = Some, GeometryJson = Some,
      SerializeJSONLD = (\<lambda>ts. Some []), ToLower = to_lower, ToUpper = (\<lambda>s. s), Now = ''2026-01-01T00:00:00Z'',
      PolygonOf = (\<lambda>j. None), PointJson = (\<lambda>x y z. JNull), FeaturesJson = (\<lambda>fs. JArr [])\<rparr>"

lemmas code_names = notFoundCode_def existsCode_def mismatchCode_def

lemma sampleEnv_laws: "errs_laws sampleEnv" "wrap_laws sampleEnv"
  by (simp_all add: errs_laws_def wrap_laws_def sampleEnv_def)

lemma sampleEnv_codes:
  "distinct [CodeEntityExists sampleEnv, CodeEntityNotFound sampleEnv, CodeRevisionMismatch sampleEnv,
             CodeInvalidRequest sampleEnv, CodeStructuralInvalid sampleEnv, CodeInternal sampleEnv]"
  by (simp add: sampleEnv_def code_names)

lemma memory_query: "query_law sampleEnv memoryBackend memoryContents"
  by (auto simp: query_law_def memoryBackend_def memoryContents_def state_of_def split: option.splits prod.splits)

lemma memory_create: "create_law sampleEnv memoryBackend memoryContents"
  by (auto simp: create_law_def memoryBackend_def memoryContents_def update_conv' split: option.splits)

lemma memory_reconcile: "reconcile_law sampleEnv memoryBackend memoryContents"
  by (auto simp: reconcile_law_def memoryBackend_def memoryContents_def update_conv' Let_def owned_def
      others_def triplesForPredicates_def split: option.splits if_splits prod.splits)

lemma memory_delete: "delete_law sampleEnv memoryBackend memoryContents"
  by (auto simp: delete_law_def memoryBackend_def memoryContents_def delete_conv'
      split: option.splits if_splits prod.splits)

lemma memory_refusal: "refusal_law sampleEnv memoryBackend memoryContents"
  unfolding refusal_law_def memoryBackend_def backend.select_convs
proof (intro allI impI)
  fix m w c s assume "fst (memoryRequest m w) \<in> {Rejected c s, NatsFail NoResponders}"
  then show "memoryContents (snd (memoryRequest m w)) = memoryContents w"
    by (cases m) (auto simp: Let_def split: option.splits if_splits prod.splits)
qed

lemma memory_contract: "graph_contract sampleEnv memoryBackend memoryContents"
  by (simp add: graph_contract_def memory_query memory_create memory_reconcile memory_delete memory_refusal)

definition anonymous :: Identity where
  "anonymous = \<lparr>IdSubject = [], Forwarded = Map.empty, Verified = False\<rparr>"

definition background :: context_state where
  "background = \<lparr>Cancelled = None, TraceID = ''t'', NewTraceID = ''n''\<rparr>"

definition emptyGateway :: "memory gateway" where
  "emptyGateway = \<lparr>World = \<lparr>Entities = [], Objects = [], Messages = []\<rparr>, Audit = [], Errs = 0,
     FreshIDs = [''r1'', ''r2'', ''r3''], StoreReady = True, CleanerReady = True, PublisherReady = True,
     ReaderReady = True\<rparr>"

definition sampleSystemID :: string where
  "sampleSystemID = SystemIDPrefix DefaultConfig @ ''.s1''"

definition sampleTriples :: "triple list" where
  "sampleTriples = [str_triple sampleSystemID PredType SSNSystem, str_triple sampleSystemID PredLabel ''S'']"

definition seededGateway :: "memory gateway" where
  "seededGateway =
     snd (putEntityTriples sampleEnv memoryBackend background sampleSystemID sampleTriples anonymous emptyGateway)"

definition renamedTriples :: "triple list" where
  "renamedTriples = [str_triple sampleSystemID PredType SosaSensor, str_triple sampleSystemID PredLabel ''T'']"

lemma put_replaces:
  "fst (putEntityTriples sampleEnv memoryBackend background sampleSystemID renamedTriples anonymous seededGateway) = Inr ()"
  by code_simp

lemma delete_succeeds:
  "fst (deleteEntity sampleEnv memoryBackend background sampleSystemID anonymous seededGateway) = Inr ()"
  by code_simp

theorem put_refines_witness:
  "put_spec sampleEnv sampleSystemID renamedTriples (memoryContents (World seededGateway))
     (memoryContents (World (snd (putEntityTriples sampleEnv memoryBackend background sampleSystemID
        renamedTriples anonymous seededGateway))))"
proof (rule put_refines [OF memory_contract])
  show "list_all (\<lambda>t. Subject t = sampleSystemID) renamedTriples"
    by (simp add: renamedTriples_def)
  show "putEntityTriples sampleEnv memoryBackend background sampleSystemID renamedTriples anonymous seededGateway =
    (Inr (), snd (putEntityTriples sampleEnv memoryBackend background sampleSystemID renamedTriples anonymous seededGateway))"
    using put_replaces by (simp add: prod_eq_iff)
qed

theorem delete_refines_witness:
  "memoryContents (World (snd (deleteEntity sampleEnv memoryBackend background sampleSystemID anonymous seededGateway))) =
   (memoryContents (World seededGateway))(sampleSystemID := None)"
proof (rule delete_refines [OF memory_contract])
  show "deleteEntity sampleEnv memoryBackend background sampleSystemID anonymous seededGateway =
    (Inr (), snd (deleteEntity sampleEnv memoryBackend background sampleSystemID anonymous seededGateway))"
    using delete_succeeds by (simp add: prod_eq_iff)
qed

text \<open>A revision that is not the current one is refused with a conflict: 409.\<close>

definition staleAttempt :: attempt where
  "staleAttempt = fst (newMutationAttempt background anonymous ''replaceEntityTriples'' sampleSystemID 7 seededGateway)"

definition staleRequest :: graph_request where
  "staleRequest = ReconcilePredicatesRequest sampleSystemID 7 systemPredicates [] ''t'' ''r2''"

theorem mutation_error_table_witness:
  "Status (fst (writeBackendError sampleEnv [] (EntityConflict ''error'') seededGateway)) = 409 \<and>
   documented_status sampleEnv (Rejected (Some mismatchCode) sampleSystemID) = (409, False)"
proof -
  let ?r = "requestTypedMutation sampleEnv memoryBackend background staleRequest staleAttempt seededGateway"
  have q: "Request memoryBackend staleRequest (World seededGateway) =
      (Rejected (Some mismatchCode) sampleSystemID, World seededGateway)"
    by code_simp
  have e: "fst ?r = Inl (EntityConflict ''error'')" by code_simp
  have "let resp = fst (writeBackendError sampleEnv [] (EntityConflict ''error'') (snd ?r))
        in (Status resp, map_of (Headers resp) ''X-CS-Commit-Uncertain'' = Some ''true'') =
           documented_status sampleEnv (Rejected (Some mismatchCode) sampleSystemID)"
    by (rule mutation_error_table [OF sampleEnv_laws sampleEnv_codes _ _ _ q])
      (use e in \<open>simp_all add: sampleEnv_def background_def staleRequest_def prod_eq_iff\<close>)
  then show ?thesis
    by (simp add: writeBackendError_def writeJSONError_def documented_status_def sampleEnv_def
        code_names Let_def split: if_splits)
qed

end
