(* ===== verification/Features.thy ===== *)
theory Features
  imports Negotiation SensorMLView GraphModel
begin

text \<open>
  The pieces every write handler shares: the media type and body checks (\<open>observations.go\<close>,
  \<open>systems_post.go\<close>), links (\<open>systems.go\<close>, \<open>association_links.go\<close>) and the GeoJSON
  Feature body that \<open>systems_post.go\<close> decodes for Systems and other Feature-shaped resources.
  Texts of error messages that quote the request are cut to their constant part.
\<close>

section \<open>Content type and body\<close>

definition equal_fold :: "string \<Rightarrow> string \<Rightarrow> bool" where
  "equal_fold s t \<longleftrightarrow> fold_name s = fold_name t"

definition requireMediaTypeAny :: "env \<Rightarrow> string \<Rightarrow> string list \<Rightarrow> string option" where
  "requireMediaTypeAny X got candidates =
     (if candidates = [] then Some ''requireMediaTypeAny: no candidates provided (programmer error)''
      else if got = [] then Some (''Content-Type required (expected '' @ hd candidates @ '')'')
      else case ParseMediaType X got of
             None \<Rightarrow> Some ''malformed Content-Type''
           | Some mt \<Rightarrow>
               if list_ex (equal_fold mt) candidates then None else Some ''Content-Type not supported'')"

definition requireMediaType :: "env \<Rightarrow> string \<Rightarrow> string \<Rightarrow> string option" where
  "requireMediaType X got want = requireMediaTypeAny X got [want]"

text \<open>Reading the whole body, or the response that reports why not.\<close>

definition readBody :: "(string \<times> string) list \<Rightarrow> request \<Rightarrow> response + string" where
  "readBody hs r =
     (case Body r of
        BodyOk s \<Rightarrow> Inr s
      | BodyTooLarge n \<Rightarrow> Inl (writeJSONError hs 413 (''request body exceeds '' @ format_int n @ '' bytes''))
      | BodyError \<Rightarrow> Inl (writeJSONError hs 400 ''could not read request body''))"

text \<open>The 201 answer of the create handlers.\<close>

definition createdResponse :: "(string \<times> string) list \<Rightarrow> string \<Rightarrow> string \<Rightarrow> string \<Rightarrow> response" where
  "createdResponse hs location eid typ =
     \<lparr>Status = 201, Headers = hs @ [contentTypeJSON, (''Location'', location)],
      RespBody = JsonBody (JObj [(''status'', JStr ''created''), (''id'', JStr eid), (''type'', JStr typ)])\<rparr>"

lemma createdResponse_Status [simp]: "Status (createdResponse hs l e t) = 201"
  by (simp add: createdResponse_def)

lemma readBody_Status: "readBody hs r = Inl resp \<Longrightarrow> Status resp \<in> {413, 400}"
  by (auto simp: readBody_def split: body_read.splits)

section \<open>Links\<close>

record link =
  LinkHref :: string
  LinkRel :: string
  LinkType :: string
  LinkTitle :: string

definition linkJson :: "link \<Rightarrow> json" where
  "linkJson l = JObj ([(''href'', JStr (LinkHref l)), (''rel'', JStr (LinkRel l))] @
     omit_empty ''type'' (LinkType l) @ omit_empty ''title'' (LinkTitle l))"

definition linkKeys :: "string list" where
  "linkKeys = [''href'', ''rel'', ''type'', ''title'']"

definition decodeLink :: "json \<Rightarrow> link option" where
  "decodeLink j =
     do { kvs \<leftarrow> struct_members j;
          h \<leftarrow> string_field linkKeys kvs ''href'';
          r \<leftarrow> string_field linkKeys kvs ''rel'';
          ty \<leftarrow> string_field linkKeys kvs ''type'';
          ti \<leftarrow> string_field linkKeys kvs ''title'';
          Some \<lparr>LinkHref = h, LinkRel = r, LinkType = ty, LinkTitle = ti\<rparr> }"

definition json_link :: "string \<Rightarrow> string \<Rightarrow> string \<Rightarrow> link" where
  "json_link href rel ty = \<lparr>LinkHref = href, LinkRel = rel, LinkType = ty, LinkTitle = []\<rparr>"

definition linksFromHrefs :: "string list \<Rightarrow> string \<Rightarrow> link list" where
  "linksFromHrefs hrefs rel = map (\<lambda>h. json_link h rel MediaJSON) (filter (\<lambda>h. h \<noteq> []) hrefs)"

definition firstLinkFromHref :: "string \<Rightarrow> string \<Rightarrow> link option" where
  "firstLinkFromHref href rel = (if href = [] then None else Some (json_link href rel MediaJSON))"

definition triplesFromLinks :: "string \<Rightarrow> string \<Rightarrow> link list \<Rightarrow> triple list" where
  "triplesFromLinks eid predicate links =
     map (\<lambda>l. str_triple eid predicate (LinkHref l)) (filter (\<lambda>l. LinkHref l \<noteq> []) links)"

section \<open>The Feature body\<close>

record featureBodyProperties =
  UID :: string
  FeatureName :: string
  FeatureDescription :: string
  FeatureDefinition :: string
  DeployedSystemsLinks :: "link list"
  HostedProcedureLink :: "link option"
  ParentID :: string
  ParentLink :: "link option"

record systemFeatureBody =
  FeatureType :: string
  FeatureID :: string
  Geometry :: "json option"
  Properties :: featureBodyProperties

definition featurePropertyKeys :: "string list" where
  "featurePropertyKeys = [''uid'', ''name'', ''description'', ''definition'', ''deployedSystems@link'',
     ''hostedProcedure@link'', ''parent@id'', ''parent@link'']"

definition decodeFeatureProperties :: "json \<Rightarrow> featureBodyProperties option" where
  "decodeFeatureProperties j =
     do { kvs \<leftarrow> struct_members j;
          u \<leftarrow> string_field featurePropertyKeys kvs ''uid'';
          n \<leftarrow> string_field featurePropertyKeys kvs ''name'';
          d \<leftarrow> string_field featurePropertyKeys kvs ''description'';
          df \<leftarrow> string_field featurePropertyKeys kvs ''definition'';
          ds \<leftarrow> list_field decodeLink featurePropertyKeys kvs ''deployedSystems@link'';
          hp \<leftarrow> ptr_field decodeLink featurePropertyKeys kvs ''hostedProcedure@link'';
          pid \<leftarrow> string_field featurePropertyKeys kvs ''parent@id'';
          pl \<leftarrow> ptr_field decodeLink featurePropertyKeys kvs ''parent@link'';
          Some \<lparr>UID = u, FeatureName = n, FeatureDescription = d, FeatureDefinition = df,
                DeployedSystemsLinks = ds, HostedProcedureLink = hp, ParentID = pid, ParentLink = pl\<rparr> }"

definition emptyProperties :: featureBodyProperties where
  "emptyProperties = \<lparr>UID = [], FeatureName = [], FeatureDescription = [], FeatureDefinition = [],
     DeployedSystemsLinks = [], HostedProcedureLink = None, ParentID = [], ParentLink = None\<rparr>"

definition featureKeys :: "string list" where
  "featureKeys = [''type'', ''id'', ''geometry'', ''properties'']"

text \<open>A \<open>json.RawMessage\<close> field takes its last value as it is, null included.\<close>

definition raw_field :: "string list \<Rightarrow> (string \<times> json) list \<Rightarrow> string \<Rightarrow> json option" where
  "raw_field keys kvs f = (case field_values keys kvs f of [] \<Rightarrow> None | vs \<Rightarrow> Some (last vs))"

definition decodeFeature :: "json \<Rightarrow> systemFeatureBody option" where
  "decodeFeature j =
     do { kvs \<leftarrow> struct_members j;
          ty \<leftarrow> string_field featureKeys kvs ''type'';
          i \<leftarrow> string_field featureKeys kvs ''id'';
          ps \<leftarrow> bind_last decodeFeatureProperties emptyProperties (field_values featureKeys kvs ''properties'');
          Some \<lparr>FeatureType = ty, FeatureID = i, Geometry = raw_field featureKeys kvs ''geometry'',
                Properties = ps\<rparr> }"

definition parseFeature :: "env \<Rightarrow> string \<Rightarrow> systemFeatureBody option" where
  "parseFeature X body = Option.bind (ParseJson X body) decodeFeature"

section \<open>Parents and locations\<close>

definition cut_at :: "string \<Rightarrow> string \<Rightarrow> string" where
  "cut_at sep s = (case str_index sep s of None \<Rightarrow> s | Some i \<Rightarrow> take i s)"

fun after_marker :: "string \<Rightarrow> string list \<Rightarrow> string" where
  "after_marker href [] = href"
| "after_marker href (m # ms) =
     (case str_index m href of Some i \<Rightarrow> drop (i + length m) href | None \<Rightarrow> after_marker href ms)"

definition parentIDFromFeature :: "systemFeatureBody \<Rightarrow> string list \<Rightarrow> string" where
  "parentIDFromFeature feat markers =
     (if ParentID (Properties feat) \<noteq> [] then ParentID (Properties feat)
      else case ParentLink (Properties feat) of
             None \<Rightarrow> []
           | Some l \<Rightarrow>
               cut_at ''/'' (cut_at ''#'' (cut_at ''?'' (after_marker (trim_space (LinkHref l)) markers))))"

definition parentIDFromSystemFeature :: "systemFeatureBody \<Rightarrow> string" where
  "parentIDFromSystemFeature feat = parentIDFromFeature feat [''/systems/'']"

definition parentIDFromDeploymentFeature :: "systemFeatureBody \<Rightarrow> string" where
  "parentIDFromDeploymentFeature feat = parentIDFromFeature feat [''/deployments/'']"

definition locationTriplesFromGeometry :: "env \<Rightarrow> string \<Rightarrow> json option \<Rightarrow> triple list" where
  "locationTriplesFromGeometry X eid geometry =
     (case geometry of
        None \<Rightarrow> []
      | Some g \<Rightarrow>
          if g = JNull then []
          else str_triple eid PredPosition (JsonText X g) # pointProjectionTriplesFromGeometry X eid geometry)"

definition systemFeatureTriples :: "env \<Rightarrow> string \<Rightarrow> systemFeatureBody \<Rightarrow> triple list" where
  "systemFeatureTriples X entityID feat =
     (let ps = Properties feat in
      [str_triple entityID PredType SSNSystem, str_triple entityID PredUniqueID (UID ps)] @
      opt_triple entityID PredLabel (FeatureName ps) @
      opt_triple entityID PredDescription (FeatureDescription ps) @
      locationTriplesFromGeometry X entityID (Geometry feat))"

definition buildSystemTriplesFromFeature :: "env \<Rightarrow> string \<Rightarrow> string + (string \<times> triple list)" where
  "buildSystemTriplesFromFeature X body =
     (case parseFeature X body of
        None \<Rightarrow> Inl ''invalid JSON Feature''
      | Some feat \<Rightarrow>
          let ps = Properties feat in
          if FeatureType feat \<noteq> ''Feature'' then Inl ''expected Feature''
          else if UID ps = [] then Inl ''properties.uid required''
          else
            let entityID = mintSystemEntityID X (UID ps);
                parentID = parentIDFromSystemFeature feat;
                triples = systemFeatureTriples X entityID feat
            in if parentID = [] then Inr (entityID, triples)
               else case ValidateEntityID (Ids X) parentID of
                      Some e \<Rightarrow> Inl ''properties.parent@id invalid''
                    | None \<Rightarrow> Inr (entityID, triples @ [ref_triple X entityID PredIsHostedBy parentID]))"

lemma locationTriples_pieces:
  "t \<in> set (locationTriplesFromGeometry X eid g) \<Longrightarrow>
     Subject t = eid \<and> Predicate t \<in> set (PredPosition # geoPredicates)"
  using pointProjection_pieces [of t X eid g]
  by (auto simp: locationTriplesFromGeometry_def split: option.splits if_splits)

text \<open>A Feature body never leaves the System contract: its facts are about the minted ID, under
  declared predicates.\<close>

lemma systemFeatureTriples_declared:
  assumes "t \<in> set (systemFeatureTriples X eid feat)"
  shows "Subject t = eid \<and> Predicate t \<in> set (PredType # systemPredicates)"
proof -
  have ps: "{PredType, PredLabel, PredDescription, PredUniqueID, PredPosition} \<union> set geoPredicates \<subseteq> set (PredType # systemPredicates)"
    by (auto simp: systemPredicates_def commonPredicates_def)
  have "Subject t = eid \<and> Predicate t \<in> {PredType, PredLabel, PredDescription, PredUniqueID, PredPosition} \<union> set geoPredicates"
    using assms locationTriples_pieces [of t X eid "Geometry feat"]
      in_pieces(1) [of t eid PredLabel] in_pieces(1) [of t eid PredDescription]
    unfolding systemFeatureTriples_def Let_def set_append list.set by (elim UnE insertE emptyE) simp_all
  with ps show ?thesis by blast
qed

lemma buildSystemTriplesFromFeature_ok:
  assumes "buildSystemTriplesFromFeature X body = Inr (eid, ts)"
  shows "\<exists>feat. parseFeature X body = Some feat \<and> FeatureType feat = ''Feature'' \<and>
     UID (Properties feat) \<noteq> [] \<and> eid = mintSystemEntityID X (UID (Properties feat)) \<and>
     ts = systemFeatureTriples X eid feat @
       (if parentIDFromSystemFeature feat = [] then []
        else [ref_triple X eid PredIsHostedBy (parentIDFromSystemFeature feat)])"
  using assms unfolding buildSystemTriplesFromFeature_def Let_def
  by (auto split: option.splits if_splits)

lemma buildSystemTriplesFromFeature_declared:
  assumes "buildSystemTriplesFromFeature X body = Inr (eid, ts)"
  shows "ts \<noteq> [] \<and> (\<forall>t \<in> set ts. Subject t = eid \<and> Predicate t \<in> set (PredType # systemPredicates))"
proof -
  from buildSystemTriplesFromFeature_ok [OF assms] obtain feat where
    ts: "ts = systemFeatureTriples X eid feat @
       (if parentIDFromSystemFeature feat = [] then []
        else [ref_triple X eid PredIsHostedBy (parentIDFromSystemFeature feat)])" by blast
  have "PredIsHostedBy \<in> set (PredType # systemPredicates)" by (simp add: systemPredicates_def)
  then have "\<forall>t \<in> set ts. Subject t = eid \<and> Predicate t \<in> set (PredType # systemPredicates)"
    using systemFeatureTriples_declared [of _ X eid feat] unfolding ts by auto
  moreover have "ts \<noteq> []" by (simp add: ts systemFeatureTriples_def Let_def)
  ultimately show ?thesis by blast
qed

end
