(* ===== verification/PatchMerge.thy ===== *)
theory PatchMerge
  imports Features
begin

text \<open>
  What the two PATCH merges have in common, as an interface: a merge that, predicate by predicate,
  either keeps the triples it is given or replaces them by those of the request body. The client
  lemmas hold for every such merge; \<open>SystemWrites\<close> and \<open>DatastreamWrites\<close> interpret it on
  \<open>mergePatchSystemTriples\<close> and \<open>mergePatchDatastreamTriples\<close>.
\<close>

lemma set_by_predicate: "(\<And>p. set (at p xs) = set (at p ys)) \<Longrightarrow> set xs = set ys"
proof -
  have "t \<in> set xs \<longleftrightarrow> t \<in> set (at (Predicate t) xs)" for t and xs :: "triple list"
    by (simp add: at_def)
  then show "(\<And>p. set (at p xs) = set (at p ys)) \<Longrightarrow> set xs = set ys" by blast
qed

locale patch_merge =
  fixes merge :: "triple list \<Rightarrow> triple list"
    and replacement :: "string \<Rightarrow> triple list option"
  assumes kept: "replacement p = None \<Longrightarrow> at p (merge ts) = at p ts"
    and replaced: "replacement p = Some rs \<Longrightarrow> set (at p (merge ts)) = set rs"
    and replacement_predicate: "replacement p = Some rs \<Longrightarrow> t \<in> set rs \<Longrightarrow> Predicate t = p"
begin

lemma merge_first: "replacement p = None \<Longrightarrow> firstStringObject (merge ts) [p] = firstStringObject ts [p]"
  by (simp add: first_at [of "merge ts"] first_at [of ts] kept)

lemma merge_value:
  assumes "replacement p = Some [str_triple s p v]"
  shows "firstStringObject (merge ts) [p] = Some v"
proof -
  have eq: "set (at p (merge ts)) = {str_triple s p v}" using replaced [OF assms] by simp
  then obtain u us where u: "at p (merge ts) = u # us" by (cases "at p (merge ts)") auto
  with eq have "u = str_triple s p v" by auto
  with u show ?thesis by (subst first_at) simp
qed

lemma merge_set:
  "set (merge ts) = {t \<in> set ts. replacement (Predicate t) = None} \<union>
     {t. \<exists>rs. replacement (Predicate t) = Some rs \<and> t \<in> set rs}"
proof (rule set_eqI)
  fix t
  have at: "t \<in> set xs \<longleftrightarrow> t \<in> set (at (Predicate t) xs)" for xs by (simp add: at_def)
  show "t \<in> set (merge ts) \<longleftrightarrow> t \<in> {t \<in> set ts. replacement (Predicate t) = None} \<union>
      {t. \<exists>rs. replacement (Predicate t) = Some rs \<and> t \<in> set rs}"
  proof (cases "replacement (Predicate t)")
    case None
    with kept [OF this, of ts] at [of "merge ts"] at [of ts] show ?thesis by simp
  next
    case (Some rs)
    with replaced [OF Some, of ts] at [of "merge ts"] show ?thesis by simp
  qed
qed

lemma merge_idempotent: "set (merge (merge ts)) = set (merge ts)"
proof (rule set_by_predicate)
  fix p
  show "set (at p (merge (merge ts))) = set (at p (merge ts))"
  proof (cases "replacement p")
    case None
    then show ?thesis by (simp add: kept)
  next
    case (Some rs)
    then show ?thesis using replaced by metis
  qed
qed

lemma merge_subjects:
  assumes "\<forall>t \<in> set ts. Subject t = eid"
    and "\<And>p rs. replacement p = Some rs \<Longrightarrow> \<forall>t \<in> set rs. Subject t = eid"
  shows "\<forall>t \<in> set (merge ts). Subject t = eid"
  using assms unfolding merge_set by blast

text \<open>When the merge is sent as a reconcile of predicates that hold all the replaced ones, the entity
  ends with the replacements in place and every other predicate as it was.\<close>

lemma merge_reconciled:
  assumes "owned ps new = owned ps (merge old)" "others ps new = others ps old"
    and "\<And>p rs. replacement p = Some rs \<Longrightarrow> p \<in> set ps"
  shows "set (at p new) = (case replacement p of None \<Rightarrow> set (at p old) | Some rs \<Rightarrow> set rs)"
proof -
  have at: "set (at p xs) = (if p \<in> set ps then {t \<in> owned ps xs. Predicate t = p}
      else {t \<in> others ps xs. Predicate t = p})" for xs
    by (auto simp: at_def owned_def others_def)
  have "set (at p new) = (if p \<in> set ps then set (at p (merge old)) else set (at p old))"
    unfolding at assms(1,2) by simp
  then show ?thesis using kept [of p old] replaced [of p _ old] assms(3) by (auto split: option.split)
qed

text \<open>A PATCH of facts that a contract declares stays within the contract.\<close>

lemma merge_declared:
  assumes "checkFacts c eid i ts = None"
    and "\<And>p rs. replacement p = Some rs \<Longrightarrow> p \<in> set (allowedPredicates c) \<and> (\<forall>t \<in> set rs. Subject t = eid)"
  shows "checkFacts c eid j (merge ts) = None"
  using assms replacement_predicate unfolding checkFacts_None merge_set by blast

end

end
