(* ===== verification/WriteOutcome.thy ===== *)
theory WriteOutcome
  imports PatchMerge
begin

text \<open>
  What a write request leaves in the graph, whatever resource it is about: the contract that the
  properties of the write handlers state, and the lemmas that lead a handler's branch to it.
\<close>

definition invalidPathID :: "string \<Rightarrow> string \<Rightarrow> string \<Rightarrow> response" where
  "invalidPathID what pathID e =
     writeJSONError [attemptedID pathID] 400 (''invalid '' @ what @ '' id: '' @ e)"

section \<open>What a write leaves in the graph\<close>

definition uncertain :: "response \<Rightarrow> bool" where
  "uncertain resp \<longleftrightarrow> map_of (Headers resp) ''X-CS-Commit-Uncertain'' = Some ''true''"

text \<open>A handler's contract: on its success status the specification holds between the contents
  before and after; on any other response either the client is told that the outcome is uncertain,
  or nothing has changed.\<close>

definition write_outcome :: "nat \<Rightarrow> (contents \<Rightarrow> contents \<Rightarrow> bool) \<Rightarrow> response \<Rightarrow> contents \<Rightarrow> contents \<Rightarrow> bool" where
  "write_outcome ok spec resp m m' \<longleftrightarrow>
     (if Status resp = ok then spec m m' else uncertain resp \<or> m' = m)"

lemma backendError_Status:
  "Status (fst (writeBackendError X hs e g)) \<in> {400, 404, 409, 500, 503}"
  by (simp add: writeBackendError_Status)

lemma backendError_World [simp]: "World (snd (writeBackendError X hs e g)) = World g"
  by (auto simp: writeBackendError_def Let_def split: option.splits)

lemma backendError_uncertain:
  "uncertain (fst (writeBackendError X [attemptedID i] e g)) \<longleftrightarrow> commitUnknownOf e \<noteq> None"
  by (simp add: uncertain_def writeBackendError_Headers attemptedID_def contentTypeJSON_def split: option.split)

lemma outcome_same: "Status resp \<noteq> ok \<Longrightarrow> write_outcome ok spec resp m m"
  by (simp add: write_outcome_def)

lemma outcome_backend:
  assumes "writeBackendError X [attemptedID i] e g = (resp, g')" "ok \<in> {201, 204}"
    and "commitUnknownOf e = None \<Longrightarrow> ents (World g) = m"
  shows "write_outcome ok spec resp m (ents (World g'))"
proof -
  from assms(1) have r: "resp = fst (writeBackendError X [attemptedID i] e g)" "World g' = World g"
    using backendError_World [of X "[attemptedID i]" e g] by simp_all
  have "Status resp \<noteq> ok" using backendError_Status [of X "[attemptedID i]" e g] assms(2) r(1) by auto
  with assms(3) r backendError_uncertain [of X i e g] show ?thesis
    by (auto simp: write_outcome_def)
qed

lemma readBody_ok: "readBody hs r = Inr body \<Longrightarrow> Body r = BodyOk body"
  by (auto simp: readBody_def split: body_read.splits)

section \<open>Merges\<close>

text \<open>A PATCH keeps the entity, and predicate by predicate either what it had or what the body gives.\<close>

definition patch_spec :: "string \<Rightarrow> (string \<Rightarrow> triple list option) \<Rightarrow> contents \<Rightarrow> contents \<Rightarrow> bool" where
  "patch_spec eid replacement m m' \<longleftrightarrow>
     (\<exists>old r new kv. m eid = Some (old, r) \<and> m' = m(eid \<mapsto> (new, kv)) \<and>
        (\<forall>p. set (at p new) = (case replacement p of None \<Rightarrow> set (at p old) | Some rs \<Rightarrow> set rs)))"

lemma replaceEntity_patch:
  assumes law: "reconcile_law X B ents" and merge: "patch_merge merge replacement"
    and ex: "Entity ex = Some e" "ents (World g) (EntityID e) = Some (EntityTriples e, KVRevision ex)"
    and run: "replaceEntityTriples X B ctx ex (merge (EntityTriples e)) identity g = (Inr (), g')"
    and owned: "\<And>ps p rs. \<lbrakk>ps \<in> {systemPredicates, datastreamPredicates}; replacement p = Some rs;
        \<forall>t \<in> set (merge (EntityTriples e)). Predicate t \<in> {PredType, EntityIndexingProfile X} \<union> set ps\<rbrakk>
        \<Longrightarrow> p \<in> set ps"
  shows "patch_spec (EntityID e) replacement (ents (World g)) (ents (World g'))"
proof -
  obtain ps old new kv where
    r: "ps \<in> {systemPredicates, datastreamPredicates}"
      "ents (World g) (EntityID e) = Some (old, KVRevision ex)"
      "ents (World g') = (ents (World g))(EntityID e \<mapsto> (new, kv))"
      "owned ps new = owned ps (merge (EntityTriples e))" "others ps new = others ps old"
      "\<forall>t \<in> set (merge (EntityTriples e)). Predicate t \<in> {PredType, EntityIndexingProfile X} \<union> set ps"
    using reconcile_contents [OF law run [unfolded replaceEntityTriples_def]] ex(1) by auto
  with ex(2) have "old = EntityTriples e" by simp
  with r patch_merge.merge_reconciled [OF merge r(4)] owned [OF r(1) _ r(6)] show ?thesis
    unfolding patch_spec_def by blast
qed

lemma fetchEntityExact_state:
  assumes "query_law X B ents" "fetchEntityExact X B eid g = (Inr ex, g')"
  shows "\<exists>e. Entity ex = Some e \<and> EntityID e = eid \<and>
    ents (World g) eid = Some (EntityTriples e, KVRevision ex) \<and> ents (World g') = ents (World g)"
  using fetchEntityExact_ok [OF assms(2)] fetchEntityExact_contents [OF assms] assms(1)
  unfolding query_law_def by fastforce

end
