(* ===== verification/GraphEffects.thy ===== *)
theory GraphEffects
  imports GraphModel
begin

text \<open>
  What a request may do to the graph whatever its reply, also when the reply is lost: the service
  applies a mutation as a single compare-and-set on one entity or not at all, and a query changes
  nothing. Together with what the gateway sends, this bounds every write with an unknown outcome.
\<close>

definition created :: "env \<Rightarrow> string \<Rightarrow> triple list \<Rightarrow> contents \<Rightarrow> contents \<Rightarrow> bool" where
  "created X eid ts m m' \<longleftrightarrow>
     m eid = None \<and>
     (\<exists>new kv. m' = m(eid \<mapsto> (new, kv)) \<and>
        others [EntityIndexingProfile X] new = others [EntityIndexingProfile X] ts)"

definition reconciled :: "string \<Rightarrow> nat \<Rightarrow> string list \<Rightarrow> triple list \<Rightarrow> contents \<Rightarrow> contents \<Rightarrow> bool" where
  "reconciled eid kv ps ts m m' \<longleftrightarrow>
     (\<exists>old new kv'. m eid = Some (old, kv) \<and> m' = m(eid \<mapsto> (new, kv')) \<and>
        owned ps new = owned ps ts \<and> others ps new = others ps old)"

fun effect :: "env \<Rightarrow> graph_request \<Rightarrow> contents \<Rightarrow> contents \<Rightarrow> bool" where
  "effect X (CreateEntityRequest eid ts mt sr pr tr rq) m m' = created X eid ts m m'"
| "effect X (ReconcilePredicatesRequest eid kv ps ts tr rq) m m' = reconciled eid kv ps ts m m'"
| "effect X (DeleteEntityRequest eid kv tr rq) m m' = ((\<exists>old. m eid = Some (old, kv)) \<and> m' = m(eid := None))"
| "effect X _ m m' = False"

definition effect_law :: "env \<Rightarrow> 's backend \<Rightarrow> ('s \<Rightarrow> contents) \<Rightarrow> bool" where
  "effect_law X B ents \<longleftrightarrow>
     (\<forall>req w. let m = ents w; m' = ents (snd (Request B req w)) in m' = m \<or> effect X req m m')"

lemma effect_query:
  assumes "effect_law X B ents"
  shows "ents (snd (Request B (EntityQuery i) w)) = ents w"
  using assms unfolding effect_law_def Let_def by (metis effect.simps(4))

lemma requestTypedMutation_effect:
  assumes "effect_law X B ents" "requestTypedMutation X B ctx payload a g = (r, g')"
  shows "ents (World g') = ents (World g) \<or> effect X payload (ents (World g)) (ents (World g'))"
  using assms requestTypedMutation_World [of X B ctx payload a g] unfolding effect_law_def Let_def by force

lemma fetchEntityExact_effect:
  assumes "effect_law X B ents" "fetchEntityExact X B eid g = (r, g')"
  shows "ents (World g') = ents (World g)"
proof (cases r)
  case (Inl e)
  with fetchEntityExact_err [of X B eid g e g'] assms effect_query [OF assms(1)] show ?thesis by force
next
  case (Inr ex)
  with fetchEntityExact_ok [of X B eid g ex g'] assms(2) effect_query [OF assms(1), of eid "World g"] show ?thesis
    by fastforce
qed

lemma createProjectedEntity_effect:
  assumes "effect_law X B ents"
    and "createProjectedEntity X B ctx name eid ts mt sr identity op g = (r, g')"
  shows "ents (World g') = ents (World g) \<or> created X eid ts (ents (World g)) (ents (World g'))"
  using assms(2) unfolding createProjectedEntity_def
  by (auto simp: Let_def auditMutation_def split: if_splits option.splits prod.splits sum.splits reply_data.splits outcome.splits
      dest!: newMutationAttempt_eq requestTypedMutation_effect [OF assms(1)])

text \<open>The outside world moves by requests only.\<close>

definition sent :: "'s backend \<Rightarrow> 's \<Rightarrow> 's \<Rightarrow> bool" where
  "sent B w w' \<longleftrightarrow> w' = w \<or> (\<exists>req. w' = snd (Request B req w))"

lemma requestTypedMutation_sent:
  "requestTypedMutation X B ctx payload a g = (r, g') \<Longrightarrow> sent B (World g) (World g')"
  using requestTypedMutation_World [of X B ctx payload a g] by (auto simp: sent_def)

lemma createProjectedEntity_sent:
  "createProjectedEntity X B ctx name eid ts mt sr identity op g = (r, g') \<Longrightarrow> sent B (World g) (World g')"
  unfolding createProjectedEntity_def
  by (auto simp: Let_def auditMutation_def sent_def [of B w w for w] split: if_splits option.splits prod.splits
      sum.splits reply_data.splits outcome.splits
      dest!: newMutationAttempt_eq requestTypedMutation_sent)

lemma fetchEntityExact_sent:
  assumes "fetchEntityExact X B eid g = (r, g')"
  shows "sent B (World g) (World g')"
proof (cases r)
  case (Inl e)
  with fetchEntityExact_err [of X B eid g e g'] assms show ?thesis by (auto simp: sent_def)
next
  case (Inr ex)
  with fetchEntityExact_ok [of X B eid g ex g'] assms obtain d where
    "Request B (EntityQuery eid) (World g) = (d, World g')" by blast
  then have "World g' = snd (Request B (EntityQuery eid) (World g))" by simp
  then show ?thesis unfolding sent_def by blast
qed

lemma memory_effect: "effect_law sampleEnv memoryBackend memoryContents"
  unfolding effect_law_def Let_def memoryBackend_def backend.select_convs
proof (intro allI)
  fix req w
  show "memoryContents (snd (memoryRequest req w)) = memoryContents w \<or>
      effect sampleEnv req (memoryContents w) (memoryContents (snd (memoryRequest req w)))"
    by (cases req) (auto simp: memoryContents_def created_def reconciled_def update_conv' delete_conv' Let_def
        owned_def others_def triplesForPredicates_def split: option.splits if_splits prod.splits)
qed

end
