(* ===== verification/SchemaArtifacts.thy ===== *)
theory SchemaArtifacts
  imports WriteOutcome GraphEffects
begin

text \<open>
  \<open>schema_artifacts.go\<close> and the schema normalisation of \<open>datastream.go\<close>: a SWE schema is brought
  to its canonical text, stored in the object store under its SHA-256, and only then given an
  immutable entity in the graph. The object store is \<open>GetBytes\<close> and \<open>PutBytes\<close> of the backend.
\<close>

section \<open>Canonical schemas\<close>

definition normalizeSWESchema :: "env \<Rightarrow> string \<Rightarrow> gerr + string" where
  "normalizeSWESchema X raw =
     (let raw' = trim_space raw in
      if raw' = [] then Inr []
      else case ParseJson X raw' of
             None \<Rightarrow> Inl (Plain ''unmarshal schema'')
           | Some doc \<Rightarrow>
               (case UnmarshalSchema doc of
                  Inl e \<Rightarrow> Inl (Plain ''unmarshal schema'')
                | Inr schema \<Rightarrow>
                    (case MarshalSchema (Some schema) of
                       Inl e \<Rightarrow> Inl (Plain ''marshal schema'')
                     | Inr canon \<Rightarrow> Inr (JsonText X canon))))"

section \<open>Artifacts\<close>

definition schemaArtifactContentType :: string where "schemaArtifactContentType = MediaJSON"
definition schemaArtifactStorageInstance :: string where "schemaArtifactStorageInstance = ''objectstore''"

definition contentAddressedSchemaArtifactID :: "env \<Rightarrow> string \<Rightarrow> string" where
  "contentAddressedSchemaArtifactID X digest = SchemaArtifactIDPrefix (Cfg X) @ ''.sha256-'' @ digest"

definition schemaArtifactObjectKey :: "string \<Rightarrow> string" where
  "schemaArtifactObjectKey artifactID =
     (case split_last_dot artifactID of None \<Rightarrow> artifactID | Some (pre, token) \<Rightarrow> token) @ ''.json''"

definition storageReferencesEqual :: "storage_ref option \<Rightarrow> storage_ref option \<Rightarrow> bool" where
  "storageReferencesEqual left right =
     (case (left, right) of
        (Some l, Some r) \<Rightarrow> StorageInstance l = StorageInstance r \<and> StorageKey l = StorageKey r \<and>
                            ContentType l = ContentType r \<and> StorageSize l = StorageSize r
      | _ \<Rightarrow> left = right)"

definition schemaArtifactRole :: "string \<Rightarrow> string option" where
  "schemaArtifactRole relationshipPredicate =
     (if relationshipPredicate = PredDatastreamSchema then Some ''resultSchema''
      else if relationshipPredicate = predControlStreamSchema then Some ''commandSchema''
      else None)"

definition isSWESchemaArtifact :: "triple list \<Rightarrow> bool" where
  "isSWESchemaArtifact ts \<longleftrightarrow> firstStringObject ts [PredType] = Some SWESchemaDocumentIRI"

text \<open>The digest is compared through its hex text, which determines it.\<close>

definition verifySchemaArtifactBytes :: "env \<Rightarrow> string \<Rightarrow> string \<Rightarrow> string \<Rightarrow> gerr option" where
  "verifySchemaArtifactBytes X actual canon digest =
     (if Sha256Hex (Ids X) actual \<noteq> digest \<or> actual \<noteq> canon
      then Some (Plain ''object bytes do not match canonical digest identity'') else None)"

text \<open>The error of a read that gave no bytes.\<close>

fun storeError :: "store_result \<Rightarrow> nats_error" where
  "storeError ObjectNotFound = OtherNats ''object not found''"
| "storeError (StoreFail e) = e"
| "storeError (Bytes b) = OtherNats []"

text \<open>Reading an object and comparing it with what it should be.\<close>

definition verifyStored ::
  "env \<Rightarrow> 's backend \<Rightarrow> string \<Rightarrow> string \<Rightarrow> string \<Rightarrow> 's gateway \<Rightarrow> gerr option \<times> 's gateway"
where
  "verifyStored X B key canon digest g =
     (let (res, w) = GetBytes B key (World g); g' = g\<lparr>World := w\<rparr>; op = ''createSchemaArtifact'' in
      case res of
        Bytes b \<Rightarrow> (map_option (Wrap op) (verifySchemaArtifactBytes X b canon digest), g')
      | _ \<Rightarrow> (Some (classifyTransport op (storeError res)), g'))"

text \<open>Durability first: the object is there and right, or is put and read back.\<close>

definition ensureObject ::
  "env \<Rightarrow> 's backend \<Rightarrow> string \<Rightarrow> string \<Rightarrow> string \<Rightarrow> 's gateway \<Rightarrow> gerr option \<times> 's gateway"
where
  "ensureObject X B key canon digest g =
     (let (res, w) = GetBytes B key (World g); g1 = g\<lparr>World := w\<rparr>; op = ''createSchemaArtifact'' in
      case res of
        Bytes b \<Rightarrow> (map_option (Wrap op) (verifySchemaArtifactBytes X b canon digest), g1)
      | StoreFail e \<Rightarrow> (Some (classifyTransport op e), g1)
      | ObjectNotFound \<Rightarrow>
          (let (put, w2) = PutBytes B key canon (World g1); g2 = g1\<lparr>World := w2\<rparr> in
           case put of
             Some e \<Rightarrow> (Some (classifyTransport op e), g2)
           | None \<Rightarrow> verifyStored X B key canon digest g2))"

definition artifactTriples :: "string \<Rightarrow> triple list" where
  "artifactTriples artifactID = [str_triple artifactID PredType SWESchemaDocumentIRI]"

definition artifactStorageRef :: "string \<Rightarrow> string \<Rightarrow> storage_ref" where
  "artifactStorageRef key canon =
     \<lparr>StorageInstance = schemaArtifactStorageInstance, StorageKey = key,
      ContentType = schemaArtifactContentType, StorageSize = length canon\<rparr>"

text \<open>After the object: the entity is created, or found and compared when it exists.\<close>

definition publishArtifact ::
  "env \<Rightarrow> 's backend \<Rightarrow> context_state \<Rightarrow> string \<Rightarrow> string \<Rightarrow> string \<Rightarrow> Identity \<Rightarrow> 's gateway \<Rightarrow>
   gerr option \<times> 's gateway"
where
  "publishArtifact X B ctx artifactID canon digest identity g =
     (let key = schemaArtifactObjectKey artifactID; sref = artifactStorageRef key canon;
          op = ''createSchemaArtifact'' in
      case createProjectedEntity X B ctx schemaArtifactProjectionContractName artifactID
             (artifactTriples artifactID) schemaArtifactProjectionMessageType (Some sref) identity op g of
        (Inr _, g1) \<Rightarrow> (None, g1)
      | (Inl createErr, g1) \<Rightarrow>
          if \<not> isEntityConflict createErr then (Some createErr, g1)
          else (case fetchEntityExact X B artifactID g1 of
                  (Inl e, g2) \<Rightarrow> (Some e, g2)
                | (Inr current, g2) \<Rightarrow>
                    (case Entity current of
                       None \<Rightarrow> (Some (Wrap op (Plain ''immutable schema artifact conflicts'')), g2)
                     | Some e \<Rightarrow>
                         if \<not> isSWESchemaArtifact (EntityTriples e) \<or>
                            \<not> storageReferencesEqual (EntityStorageRef e) (Some sref)
                         then (Some (Wrap op (Plain ''immutable schema artifact conflicts'')), g2)
                         else verifyStored X B key canon digest g2)))"

definition createSchemaArtifact ::
  "env \<Rightarrow> 's backend \<Rightarrow> context_state \<Rightarrow> string \<Rightarrow> string \<Rightarrow> string \<Rightarrow> Identity \<Rightarrow> 's gateway \<Rightarrow>
   (gerr + triple) \<times> 's gateway"
where
  "createSchemaArtifact X B ctx parentID rel rawSchema identity g =
     (let op = ''createSchemaArtifact'' in
      if parentID = [] then (Inl (WrapInvalid op (Plain ''parent entity ID required'')), g)
      else if schemaArtifactRole rel = None
        then (Inl (WrapInvalid op (Plain ''unsupported schema relationship predicate'')), g)
      else case normalizeSWESchema X rawSchema of
        Inl e \<Rightarrow> (Inl (WrapInvalid op e), g)
      | Inr canon \<Rightarrow>
          if canon = [] then (Inl (WrapInvalid op (Plain ''SWE schema required'')), g)
          else
          (let digest = Sha256Hex (Ids X) canon;
               artifactID = contentAddressedSchemaArtifactID X digest;
               key = schemaArtifactObjectKey artifactID in
           case validateProjectedTriples X artifactID (artifactTriples artifactID) of
             Some e \<Rightarrow> (Inl (WrapInvalid op e), g)
           | None \<Rightarrow>
               if \<not> StoreReady g
               then (Inl (WrapTransient op (Plain ''schema artifact object store not initialized'')), g)
               else
               (case ensureObject X B key canon digest g of
                  (Some e, g1) \<Rightarrow> (Inl e, g1)
                | (None, g1) \<Rightarrow>
                    (case publishArtifact X B ctx artifactID canon digest identity g1 of
                       (Some e, g2) \<Rightarrow> (Inl e, g2)
                     | (None, g2) \<Rightarrow> (Inr (ref_triple X parentID rel artifactID), g2)))))"

text \<open>\<open>readSchemaArtifact\<close>: \<open>Inr None\<close> when the resource names no schema.\<close>

definition readSchemaArtifact ::
  "env \<Rightarrow> 's backend \<Rightarrow> triple list \<Rightarrow> string \<Rightarrow> 's gateway \<Rightarrow> (gerr + string option) \<times> 's gateway"
where
  "readSchemaArtifact X B ts rel g =
     (let op = ''readSchemaArtifact'' in
      case firstStringObject ts [rel] of
        None \<Rightarrow> (Inr None, g)
      | Some artifactID \<Rightarrow>
          (case fetchEntity X B artifactID g of
             (Inl e, g1) \<Rightarrow> (Inl e, g1)
           | (Inr artifact, g1) \<Rightarrow>
               if \<not> isSWESchemaArtifact (EntityTriples artifact)
               then (Inl (Wrap op (Plain ''not a SWE schema artifact'')), g1)
               else (case EntityStorageRef artifact of
                       None \<Rightarrow> (Inl (Wrap op (Plain ''no storage reference'')), g1)
                     | Some sref \<Rightarrow>
                         if \<not> StoreReady g1
                         then (Inl (WrapTransient op (Plain ''schema artifact object store not initialized'')), g1)
                         else (let (res, w) = GetBytes B (StorageKey sref) (World g1); g2 = g1\<lparr>World := w\<rparr> in
                               case res of
                                 Bytes b \<Rightarrow> (Inr (Some b), g2)
                               | _ \<Rightarrow> (Inl (classifyTransport op (storeError res)), g2)))))"

lemma firstStringObject_Some:
  "firstStringObject ts ps = Some v \<Longrightarrow> \<exists>t \<in> set ts. Predicate t \<in> set ps \<and> Object t = OStr v"
  by (induction ts) (auto split: obj.splits if_splits)

section \<open>The object before the entity\<close>

text \<open>What is assumed of the object store: reading changes nothing and gives what is there, storing
  changes no other object, and the store and the graph are separate.\<close>

definition store_law :: "'s backend \<Rightarrow> ('s \<Rightarrow> contents) \<Rightarrow> ('s \<Rightarrow> string \<Rightarrow> string option) \<Rightarrow> bool" where
  "store_law B ents objs \<longleftrightarrow>
     (\<forall>k w r w'. GetBytes B k w = (r, w') \<longrightarrow>
        ents w' = ents w \<and> objs w' = objs w \<and> (\<forall>b. r = Bytes b \<longrightarrow> objs w k = Some b)) \<and>
     (\<forall>k b w r w'. PutBytes B k b w = (r, w') \<longrightarrow>
        ents w' = ents w \<and> (\<forall>k'. k' \<noteq> k \<longrightarrow> objs w' k' = objs w k')) \<and>
     (\<forall>req w. objs (snd (Request B req w)) = objs w)"

lemma store_get:
  "store_law B ents objs \<Longrightarrow> GetBytes B k w = (r, w') \<Longrightarrow>
     ents w' = ents w \<and> objs w' = objs w \<and> (\<forall>b. r = Bytes b \<longrightarrow> objs w k = Some b)"
  unfolding store_law_def by blast

lemma store_put:
  "store_law B ents objs \<Longrightarrow> PutBytes B k b w = (r, w') \<Longrightarrow>
     ents w' = ents w \<and> (\<forall>k'. k' \<noteq> k \<longrightarrow> objs w' k' = objs w k')"
  unfolding store_law_def by blast

lemma store_sent: "store_law B ents objs \<Longrightarrow> sent B w w' \<Longrightarrow> objs w' = objs w"
  unfolding store_law_def sent_def by blast

lemma verifyStored_sound:
  assumes "store_law B ents objs" "verifyStored X B key canon digest g = (e, g')"
  shows "ents (World g') = ents (World g) \<and> objs (World g') = objs (World g) \<and>
     (e = None \<longrightarrow> objs (World g') key = Some canon)"
  using assms(2) store_get [OF assms(1), of key "World g"]
  by (auto simp: verifyStored_def verifySchemaArtifactBytes_def Let_def
      split: prod.splits store_result.splits if_splits)

lemma ensureObject_sound:
  assumes "store_law B ents objs" "ensureObject X B key canon digest g = (e, g')"
  shows "ents (World g') = ents (World g) \<and> (\<forall>k. k \<noteq> key \<longrightarrow> objs (World g') k = objs (World g) k) \<and>
     (e = None \<longrightarrow> objs (World g') key = Some canon)"
proof -
  obtain r w where get: "GetBytes B key (World g) = (r, w)" by fastforce
  note g1 = store_get [OF assms(1) get]
  show ?thesis
  proof (cases r)
    case ObjectNotFound
    obtain p w2 where put: "PutBytes B key canon w = (p, w2)" by fastforce
    note g2 = store_put [OF assms(1) put]
    show ?thesis
    proof (cases p)
      case None
      with assms(2) get put ObjectNotFound have
        "verifyStored X B key canon digest (g\<lparr>World := w2\<rparr>) = (e, g')"
        by (simp add: ensureObject_def Let_def)
      from verifyStored_sound [OF assms(1) this] g1 g2 show ?thesis by auto
    next
      case (Some err)
      with assms(2) get put ObjectNotFound g1 g2 show ?thesis
        by (auto simp: ensureObject_def Let_def)
    qed
  next
    case (StoreFail err)
    with assms(2) get g1 show ?thesis by (auto simp: ensureObject_def Let_def)
  next
    case (Bytes b)
    with assms(2) get g1 show ?thesis
      by (auto simp: ensureObject_def Let_def verifySchemaArtifactBytes_def split: if_splits)
  qed
qed

lemma publishArtifact_sound:
  assumes "effect_law X B ents" "store_law B ents objs"
    and "publishArtifact X B ctx aid canon digest identity g = (e, g')"
  shows "objs (World g') = objs (World g) \<and>
     (ents (World g') = ents (World g) \<or>
      created X aid (artifactTriples aid) (ents (World g)) (ents (World g')))"
proof -
  obtain r g1 where c: "createProjectedEntity X B ctx schemaArtifactProjectionContractName aid
      (artifactTriples aid) schemaArtifactProjectionMessageType
      (Some (artifactStorageRef (schemaArtifactObjectKey aid) canon)) identity ''createSchemaArtifact'' g = (r, g1)"
    by fastforce
  have s1: "objs (World g1) = objs (World g)"
    by (rule store_sent [OF assms(2) createProjectedEntity_sent [OF c]])
  have e1: "ents (World g1) = ents (World g) \<or> created X aid (artifactTriples aid) (ents (World g)) (ents (World g1))"
    by (rule createProjectedEntity_effect [OF assms(1) c])
  obtain r2 g2 where f: "fetchEntityExact X B aid g1 = (r2, g2)" by fastforce
  have s2: "objs (World g2) = objs (World g1)" "ents (World g2) = ents (World g1)"
    by (rule store_sent [OF assms(2) fetchEntityExact_sent [OF f]], rule fetchEntityExact_effect [OF assms(1) f])
  have "g' = g1 \<or> g' = g2 \<or> (\<exists>e'. verifyStored X B (schemaArtifactObjectKey aid) canon digest g2 = (e', g'))"
    using assms(3) c f by (auto simp: publishArtifact_def Let_def split: sum.splits if_splits option.splits)
  then have "objs (World g') = objs (World g1) \<and> ents (World g') = ents (World g1)"
    using s2 verifyStored_sound [OF assms(2)] by fastforce
  with s1 e1 show ?thesis by simp
qed

text \<open>Claim C25: no schema entity is ever visible without its bytes. However \<open>createSchemaArtifact\<close>
  ends, with a success, an error or an unknown outcome, either the graph is as it was, or the one
  thing added to it is the artifact's entity and the object it refers to holds the canonical text
  of the schema: the object is put and read back before the entity is sent.\<close>

theorem artifact_ordering:
  assumes "effect_law X B ents" "store_law B ents objs"
    and "createSchemaArtifact X B ctx parentID rel raw identity g = (res, g')"
  shows "ents (World g') = ents (World g) \<or>
    (\<exists>canon aid. normalizeSWESchema X raw = Inr canon \<and>
       aid = contentAddressedSchemaArtifactID X (Sha256Hex (Ids X) canon) \<and>
       objs (World g') (schemaArtifactObjectKey aid) = Some canon \<and>
       created X aid (artifactTriples aid) (ents (World g)) (ents (World g')))"
proof (cases "normalizeSWESchema X raw")
  case (Inl e)
  with assms(3) show ?thesis by (auto simp: createSchemaArtifact_def Let_def split: if_splits)
next
  case (Inr canon)
  let ?d = "Sha256Hex (Ids X) canon"
  let ?aid = "contentAddressedSchemaArtifactID X ?d"
  let ?key = "schemaArtifactObjectKey ?aid"
  obtain e g1 where ens: "ensureObject X B ?key canon ?d g = (e, g1)" by fastforce
  obtain e2 g2 where pub: "publishArtifact X B ctx ?aid canon ?d identity g1 = (e2, g2)" by fastforce
  have "g' = g \<or> g' = g1 \<or> e = None \<and> g' = g2"
    using assms(3) Inr ens pub by (auto simp: createSchemaArtifact_def Let_def split: if_splits option.splits)
  with ensureObject_sound [OF assms(2) ens] publishArtifact_sound [OF assms(1,2) pub] Inr show ?thesis
    by metis
qed

text \<open>A success of \<open>createSchemaArtifact\<close> means that the schema can be read: the object
  holds its canonical text under the key its digest names, the graph has the artifact's entity with
  the schema document type, and the triple that is returned leads from the parent to it. This
  holds whether the artifact was created or, on a conflict, found and compared.\<close>

theorem artifact_created:
  assumes "graph_contract X B ents" "store_law B ents objs" "EntityIndexingProfile X \<noteq> PredType"
    and "createSchemaArtifact X B ctx parentID rel raw identity g = (Inr t, g')"
  shows "\<exists>canon aid ts kv u. normalizeSWESchema X raw = Inr canon \<and> canon \<noteq> [] \<and>
     aid = contentAddressedSchemaArtifactID X (Sha256Hex (Ids X) canon) \<and> t = ref_triple X parentID rel aid \<and>
     objs (World g') (schemaArtifactObjectKey aid) = Some canon \<and>
     ents (World g') aid = Some (ts, kv) \<and>
     u \<in> set ts \<and> Predicate u = PredType \<and> Object u = OStr SWESchemaDocumentIRI"
proof -
  have laws: "query_law X B ents" "create_law X B ents" using assms(1) by (simp_all add: graph_contract_def)
  from assms(4) obtain canon where norm: "normalizeSWESchema X raw = Inr canon" "canon \<noteq> []"
    by (auto simp: createSchemaArtifact_def Let_def split: if_splits sum.splits)
  let ?d = "Sha256Hex (Ids X) canon"
  let ?aid = "contentAddressedSchemaArtifactID X ?d"
  let ?key = "schemaArtifactObjectKey ?aid"
  obtain e g1 where ens: "ensureObject X B ?key canon ?d g = (e, g1)" by fastforce
  obtain e2 g2 where pub: "publishArtifact X B ctx ?aid canon ?d identity g1 = (e2, g2)" by fastforce
  have ok: "e = None" "e2 = None" "g' = g2" "t = ref_triple X parentID rel ?aid"
    using assms(4) norm ens pub by (auto simp: createSchemaArtifact_def Let_def split: if_splits option.splits)
  have o1: "objs (World g1) ?key = Some canon"
    using ensureObject_sound [OF assms(2) ens] ok(1) by simp
  obtain r g3 where c: "createProjectedEntity X B ctx schemaArtifactProjectionContractName ?aid
      (artifactTriples ?aid) schemaArtifactProjectionMessageType
      (Some (artifactStorageRef ?key canon)) identity ''createSchemaArtifact'' g1 = (r, g3)"
    by fastforce
  have s3: "objs (World g3) = objs (World g1)"
    by (rule store_sent [OF assms(2) createProjectedEntity_sent [OF c]])
  show ?thesis
  proof (cases r)
    case (Inr u)
    then have "r = Inr ()" by simp
    from create_contents [OF laws(2) c [unfolded this]] obtain new kv where
      new: "ents (World g3) ?aid = Some (new, kv)"
        "others [EntityIndexingProfile X] new = others [EntityIndexingProfile X] (artifactTriples ?aid)"
      by (metis fun_upd_same)
    have "str_triple ?aid PredType SWESchemaDocumentIRI \<in> others [EntityIndexingProfile X] new"
      unfolding new(2) using assms(3) by (simp add: others_def artifactTriples_def)
    then have "str_triple ?aid PredType SWESchemaDocumentIRI \<in> set new" by (simp add: others_def)
    moreover have "g' = g3" using pub c Inr ok by (simp add: publishArtifact_def Let_def)
    ultimately show ?thesis using norm ok(4) new(1) s3 o1 by fastforce
  next
    case (Inl err)
    with pub c ok have "isEntityConflict err" by (auto simp: publishArtifact_def Let_def split: if_splits)
    obtain r4 g4 where f: "fetchEntityExact X B ?aid g3 = (r4, g4)" by fastforce
    with pub c Inl ok obtain ex where ex: "r4 = Inr ex" by (cases r4) (auto simp: publishArtifact_def Let_def split: if_splits)
    from fetchEntityExact_state [OF laws(1) f [unfolded ex]] obtain ent where
      ent: "Entity ex = Some ent" "ents (World g3) ?aid = Some (EntityTriples ent, KVRevision ex)"
        "ents (World g4) = ents (World g3)" by blast
    from pub c Inl ok f ex ent \<open>isEntityConflict err\<close> have
      art: "isSWESchemaArtifact (EntityTriples ent)" "verifyStored X B ?key canon ?d g4 = (None, g2)"
      by (auto simp: publishArtifact_def Let_def split: if_splits)
    from verifyStored_sound [OF assms(2) art(2)] ent ok(3) have
      "objs (World g') ?key = Some canon" "ents (World g') ?aid = Some (EntityTriples ent, KVRevision ex)" by metis+
    moreover have "\<exists>u \<in> set (EntityTriples ent). Predicate u = PredType \<and> Object u = OStr SWESchemaDocumentIRI"
      using art(1) firstStringObject_Some [of "EntityTriples ent" "[PredType]"] by (auto simp: isSWESchemaArtifact_def)
    ultimately show ?thesis using norm ok(4) by blast
  qed
qed

section \<open>Artifact IDs\<close>

lemma sha256_token: "length d = 64 \<Longrightarrow> list_all is_lower_hex d \<Longrightarrow> id_token (''sha256-'' @ d)"
  by (auto simp: id_token_def is_alnum_def list_all_iff id_char_def is_lower_hex_def is_digit_def)

text \<open>Claim C34: the bound on artifact IDs. Under a prefix that the configuration check accepts, the ID of
  a content-addressed artifact is valid exactly when the prefix leaves 72 bytes. The check leaves
  room for 67 (the minted \<open>h-\<close> digests), so prefixes in between are accepted at start-up and then
  give an invalid ID for every schema.\<close>

theorem artifact_id_bound:
  assumes "entity_id_laws (Ids X)" "validateEntityIDPrefix (Ids X) (SchemaArtifactIDPrefix (Cfg X)) f = None"
  shows "ValidateEntityID (Ids X) (contentAddressedSchemaArtifactID X (Sha256Hex (Ids X) s)) = None \<longleftrightarrow>
    length (SchemaArtifactIDPrefix (Cfg X)) + 72 \<le> MaxEntityIDBytes (Ids X)"
proof -
  let ?p = "SchemaArtifactIDPrefix (Cfg X)"
  let ?d = "''sha256-'' @ Sha256Hex (Ids X) s"
  have d: "id_token ?d" "length ?d = 71"
    using assms(1) sha256_token [of "Sha256Hex (Ids X) s"] by (simp_all add: entity_id_laws_def)
  have "go_split ''.'' (?p @ ''.'' @ ?d) = go_split ''.'' ?p @ [?d]"
    by (rule go_split_snoc) (rule id_token_no_dot [OF d(1)])
  moreover have "contentAddressedSchemaArtifactID X (Sha256Hex (Ids X) s) = ?p @ ''.'' @ ?d"
    by (simp add: contentAddressedSchemaArtifactID_def)
  moreover have "list_all id_token (go_split ''.'' ?p)" "length (go_split ''.'' ?p) = 5"
    using assms by (simp_all add: entity_id_laws_def validateEntityIDPrefix_None)
  ultimately show ?thesis using assms(1) d by (simp add: entity_id_laws_def)
qed

section \<open>Canonical text is stable\<close>

text \<open>What is assumed of \<open>encoding/json\<close>: the text it writes for a schema document that came from a
  scanned text is not blank and scans back to the document.\<close>

definition schema_text_laws :: "env \<Rightarrow> bool" where
  "schema_text_laws X \<longleftrightarrow>
     (\<forall>s j r doc. ParseJson X s = Some j \<and> UnmarshalSchema j = Inr r \<and> MarshalSchema (Some r) = Inr doc \<longrightarrow>
        ParseJson X (JsonText X doc) = Some doc \<and> trim_space (JsonText X doc) = JsonText X doc \<and> JsonText X doc \<noteq> [])"

lemma normalize_stable:
  assumes "schema_text_laws X" "normalizeSWESchema X raw = Inr canon"
  shows "normalizeSWESchema X canon = Inr canon"
proof (cases "trim_space raw = []")
  case True
  with assms(2) have "canon = []" by (simp add: normalizeSWESchema_def)
  then show ?thesis by (simp add: normalizeSWESchema_def)
next
  case False
  with assms(2) obtain j r doc where p: "ParseJson X (trim_space raw) = Some j" "UnmarshalSchema j = Inr r"
      "MarshalSchema (Some r) = Inr doc" "canon = JsonText X doc"
    by (auto simp: normalizeSWESchema_def Let_def split: option.splits sum.splits)
  have t: "ParseJson X canon = Some doc" "trim_space canon = canon" "canon \<noteq> []"
    using assms(1) [unfolded schema_text_laws_def, rule_format, OF conjI [OF p(1) conjI [OF p(2,3)]]] p(4)
    by simp_all
  from UnmarshalSchema_valid [OF p(2)] obtain doc' where "MarshalSchema (Some r) = Inr doc'" "UnmarshalSchema doc' = Inr r"
    by (rule MarshalSchema_valid)
  with p(3) have "UnmarshalSchema doc = Inr r" by simp
  with t p(3,4) show ?thesis by (simp add: normalizeSWESchema_def)
qed

text \<open>Normalisation is idempotent: the canonical text of a schema is its own canonical
  text, so storing a schema, reading it back and storing it again names the same artifact.\<close>

theorem schema_canonical:
  assumes "schema_text_laws X" "normalizeSWESchema X raw = Inr canon"
  shows "normalizeSWESchema X canon = Inr canon"
  using assms by (rule normalize_stable)

end
