(* ===== verification/Reads.thy ===== *)
theory Reads
  imports WriteOutcome SchemaArtifacts
begin

text \<open>
  What the GET handlers share: \<open>advanced_filters.go\<close> (query strings, time ranges), the limit, the
  list and batch queries of \<open>systems.go\<close>, and the shape of their answers. An answer to a HEAD has
  the headers and no body.
\<close>

section \<open>Query strings and time ranges\<close>

definition queryString :: "request \<Rightarrow> string \<Rightarrow> string" where
  "queryString r name = trim_space (query_get r name)"

definition queryHasAny :: "request \<Rightarrow> string list \<Rightarrow> bool" where
  "queryHasAny r names \<longleftrightarrow> list_ex (\<lambda>n. queryString r n \<noteq> []) names"

text \<open>Instants are nanoseconds since 1970; the zero \<open>time.Time\<close> is the first instant of year 1.\<close>

definition zeroTime :: int where "zeroTime = - 62135596800 * 1000000000"
definition lastTime :: int where "lastTime = 253402300799 * 1000000000"

definition parseResourceTimeEndpoint :: "stdlib \<Rightarrow> string \<Rightarrow> int \<Rightarrow> int option" where
  "parseResourceTimeEndpoint S v openValue =
     (let v' = trim_space v in
      if v' = [] \<or> v' = ''..'' then Some openValue else ParseTime S v')"

definition parseResourceTimeRange :: "stdlib \<Rightarrow> string \<Rightarrow> (int \<times> int) option" where
  "parseResourceTimeRange S v =
     (let v' = trim_space v in
      if v' = [] then None
      else if str_contains v' ''/'' then
        (case go_split ''/'' v' of
           [a, b] \<Rightarrow>
             Option.bind (parseResourceTimeEndpoint S a zeroTime) (\<lambda>s.
               map_option (\<lambda>e. (s, e)) (parseResourceTimeEndpoint S b lastTime))
         | _ \<Rightarrow> None)
      else map_option (\<lambda>t. (t, t)) (parseResourceTimeEndpoint S v' zeroTime))"

definition resourceTimeIntersects :: "stdlib \<Rightarrow> string \<Rightarrow> string \<Rightarrow> bool" where
  "resourceTimeIntersects S candidate requested =
     (case (parseResourceTimeRange S candidate, parseResourceTimeRange S requested) of
        (Some (cs, ce), Some (rs, re)) \<Rightarrow> \<not> ce < rs \<and> \<not> re < cs
      | _ \<Rightarrow> False)"

section \<open>Limits\<close>

definition parseLimit :: "string \<Rightarrow> int \<Rightarrow> int \<Rightarrow> string + int" where
  "parseLimit raw defaultLimit maxLimit =
     (if raw = [] then Inr defaultLimit
      else case go_atoi raw of
        None \<Rightarrow> Inl ''limit must be an integer''
      | Some n \<Rightarrow>
          if n < 1 then Inl ''limit must be >= 1''
          else if n > maxLimit then Inl ''limit must be <= the ceiling''
          else Inr n)"

text \<open>The bounds a validated configuration puts on a limit.\<close>

definition limits_ok :: "env \<Rightarrow> bool" where
  "limits_ok X \<longleftrightarrow>
     1 \<le> DefaultListLimit (Cfg X) \<and> DefaultListLimit (Cfg X) \<le> MaxListLimit (Cfg X) \<and> MaxListLimit (Cfg X) < 2 ^ 63"

lemma parseLimit_bounds:
  "limits_ok X \<Longrightarrow> parseLimit raw (DefaultListLimit (Cfg X)) (MaxListLimit (Cfg X)) = Inr n \<Longrightarrow>
     1 \<le> n \<and> n \<le> MaxListLimit (Cfg X) \<and> n < 2 ^ 63"
  by (auto simp: limits_ok_def parseLimit_def split: option.splits if_splits)

text \<open>The loop of the collections: append what passes, stop when there are \<open>limit\<close> of them.\<close>

fun takeMatching :: "('a \<Rightarrow> bool) \<Rightarrow> int \<Rightarrow> 'a list \<Rightarrow> 'a list \<Rightarrow> 'a list" where
  "takeMatching P limit acc [] = acc"
| "takeMatching P limit acc (x # xs) =
     (if P x then
        let acc' = acc @ [x] in
        if int (length acc') = limit then acc' else takeMatching P limit acc' xs
      else takeMatching P limit acc xs)"

lemma takeMatching_take:
  "int (length acc) < limit \<Longrightarrow>
     takeMatching P limit acc xs = acc @ take (nat limit - length acc) (filter P xs)"
proof (induction xs arbitrary: acc)
  case (Cons x xs)
  show ?case
  proof (cases "P x")
    case True
    show ?thesis
    proof (cases "int (length acc) + 1 = limit")
      case False
      with Cons True show ?thesis
        by (simp add: Let_def) (subst take_Cons', auto)
    next
      case full: True
      then have "nat limit - length acc = Suc 0" by linarith
      with True full show ?thesis by (simp add: Let_def)
    qed
  qed (use Cons in simp)
qed simp

section \<open>Answers\<close>

definition okResponse :: "request \<Rightarrow> (string \<times> string) list \<Rightarrow> body \<Rightarrow> response" where
  "okResponse r hs b = \<lparr>Status = 200, Headers = hs, RespBody = (if Method r = ''HEAD'' then NoBody else b)\<rparr>"

text \<open>A handler may panic (\<open>None\<close>); the outermost middleware answers 500 then.\<close>

definition recoverMiddleware :: "response option \<times> 's gateway \<Rightarrow> response \<times> 's gateway" where
  "recoverMiddleware res =
     (case res of
        (Some resp, g) \<Rightarrow> (resp, g)
      | (None, g) \<Rightarrow> (writeJSONError [] 500 ''internal server error'', g\<lparr>Errs := Suc (Errs g)\<rparr>))"

section \<open>Lists of entities\<close>

definition listEntitiesByType ::
  "env \<Rightarrow> 's backend \<Rightarrow> string \<Rightarrow> int \<Rightarrow> string \<Rightarrow> 's gateway \<Rightarrow> (gerr + string list) \<times> 's gateway"
where
  "listEntitiesByType X B typeIRI limit op g =
     (let (reply, w) = Request B (PredicateQuery PredType typeIRI limit) (World g); g' = g\<lparr>World := w\<rparr> in
      case reply of
        NatsFail e \<Rightarrow>
          (Inl (if e = Canceled then WrapTransient op (NatsErr e) else classifyTransport op e), g')
      | Rejected code s \<Rightarrow>
          let e = replyError code s in
          (Inl (if IsInvalid X e then WrapInvalid op e
                else if IsTransient X e then WrapTransient op e else Wrap op e), g')
      | Data d \<Rightarrow>
          (case d of
             PredicateResponse ids \<Rightarrow> (Inr ids, g')
           | _ \<Rightarrow> (Inl (Wrap op (Plain ''decode predicate response'')), g')))"

text \<open>One reply of a batch: the states it may add, the missing IDs it may take away.\<close>

fun addStates :: "string list \<Rightarrow> entity_state list \<Rightarrow> (string \<rightharpoonup> entity_state) \<Rightarrow> (gerr + (string \<rightharpoonup> entity_state))" where
  "addStates requested [] m = Inr m"
| "addStates requested (s # ss) m =
     (if EntityID s \<notin> set requested
      then Inl (Wrap ''fetchEntitiesBatch'' (Plain ''batch response contains an unrequested entity''))
      else addStates requested ss (m(EntityID s \<mapsto> s)))"

fun dropMissing ::
  "string list \<Rightarrow> (string \<times> missing_reason) list \<Rightarrow> (string \<rightharpoonup> entity_state) \<Rightarrow> (gerr + (string \<rightharpoonup> entity_state))"
where
  "dropMissing requested [] m = Inr m"
| "dropMissing requested ((i, reason) # ms) m =
     (if i \<notin> set requested
      then Inl (Wrap ''fetchEntitiesBatch'' (Plain ''batch response reports an unrequested missing entity''))
      else case reason of
             ReasonOther s \<Rightarrow> Inl (Wrap ''fetchEntitiesBatch'' (Plain ''batch response has invalid missing reason''))
           | _ \<Rightarrow> dropMissing requested ms (m(i := None)))"

definition entityBatchChunkSize :: nat where "entityBatchChunkSize = 100"

definition fetchChunk ::
  "env \<Rightarrow> 's backend \<Rightarrow> string list \<Rightarrow> (string \<rightharpoonup> entity_state) \<Rightarrow> 's gateway \<Rightarrow>
   (gerr + (string \<rightharpoonup> entity_state)) \<times> 's gateway"
where
  "fetchChunk X B ids m g =
     (let op = ''fetchEntitiesBatch''; (reply, w) = Request B (BatchQuery ids) (World g); g' = g\<lparr>World := w\<rparr> in
      case reply of
        NatsFail e \<Rightarrow> (Inl (classifyTransport op e), g')
      | Rejected code s \<Rightarrow>
          let e = replyError code s in
          (Inl (if IsInvalid X e then WrapInvalid op e
                else if IsTransient X e then WrapTransient op e else Wrap op e), g')
      | Data d \<Rightarrow>
          (case d of
             BatchResponse states missing \<Rightarrow> (sbind (addStates ids states m) (dropMissing ids missing), g')
           | _ \<Rightarrow> (Inl (Wrap op (Plain ''decode batch entity states'')), g')))"

function fetchChunks ::
  "env \<Rightarrow> 's backend \<Rightarrow> string list \<Rightarrow> (string \<rightharpoonup> entity_state) \<Rightarrow> 's gateway \<Rightarrow>
   (gerr + (string \<rightharpoonup> entity_state)) \<times> 's gateway"
where
  "fetchChunks X B ids m g =
     (if ids = [] then (Inr m, g)
      else case fetchChunk X B (take entityBatchChunkSize ids) m g of
             (Inl e, g') \<Rightarrow> (Inl e, g')
           | (Inr m', g') \<Rightarrow> fetchChunks X B (drop entityBatchChunkSize ids) m' g')"
  by pat_completeness auto
termination
  by (relation "measure (\<lambda>(X, B, ids, m, g). length ids)") (auto simp: entityBatchChunkSize_def)

declare fetchChunks.simps [simp del]

definition fetchEntitiesBatch ::
  "env \<Rightarrow> 's backend \<Rightarrow> string list \<Rightarrow> 's gateway \<Rightarrow> (gerr + (string \<rightharpoonup> entity_state)) \<times> 's gateway"
where
  "fetchEntitiesBatch X B ids g =
     (case find (\<lambda>i. ValidateEntityID (Ids X) i \<noteq> None) ids of
        Some i \<Rightarrow> (Inl (WrapInvalid ''fetchEntitiesBatch'' (Plain ''validate entity id'')), g)
      | None \<Rightarrow> fetchChunks X B ids Map.empty g)"

end
