(* ===== verification/BatchReads.thy ===== *)
theory BatchReads
  imports Reads GraphModel
begin

text \<open>
  The batch query of the list handlers (\<open>fetchEntitiesBatch\<close>): the graph answers at most
  \<open>entityBatchChunkSize\<close> IDs at a time, the handler asks for any number.
\<close>

section \<open>The documented behaviour of a batch query\<close>

text \<open>A batch of permitted size is answered by the states of the entities that exist, and by the IDs
  of those that do not.\<close>

definition batch_answer :: "contents \<Rightarrow> string list \<Rightarrow> entity_state list \<Rightarrow> (string \<times> missing_reason) list \<Rightarrow> bool" where
  "batch_answer m ids states missing \<longleftrightarrow>
     (\<forall>s \<in> set states. EntityID s \<in> set ids \<and> map_option fst (m (EntityID s)) = Some (EntityTriples s)) \<and>
     (\<forall>(i, why) \<in> set missing. i \<in> set ids \<and> m i = None \<and> why \<in> {MissingNotFound, MissingError}) \<and>
     (\<forall>i \<in> set ids. m i \<noteq> None \<longrightarrow> i \<in> EntityID ` set states)"

definition batch_law :: "'s backend \<Rightarrow> ('s \<Rightarrow> contents) \<Rightarrow> bool" where
  "batch_law B contents \<longleftrightarrow>
     (\<forall>ids w. length ids \<le> entityBatchChunkSize \<longrightarrow>
        (\<exists>states missing w'. Request B (BatchQuery ids) w = (Data (BatchResponse states missing), w') \<and>
           contents w' = contents w \<and> batch_answer (contents w) ids states missing))"

lemma memory_batch: "batch_law memoryBackend memoryContents"
proof -
  define states where "states = (\<lambda>ids (w :: memory). concat (map (\<lambda>i. case map_of (Entities w) i of
      None \<Rightarrow> [] | Some (ts, kv) \<Rightarrow> [state_of i ts None]) ids))"
  define missing where "missing = (\<lambda>ids (w :: memory). concat (map (\<lambda>i. case map_of (Entities w) i of
      None \<Rightarrow> [(i, MissingNotFound)] | Some (p :: triple list \<times> nat) \<Rightarrow> []) ids))"
  have s: "s \<in> set (states ids w) \<longleftrightarrow>
      (\<exists>i \<in> set ids. \<exists>ts kv. map_of (Entities w) i = Some (ts, kv) \<and> s = state_of i ts None)" for s ids w
  proof (induction ids)
    case (Cons a ids)
    then show ?case by (cases "map_of (Entities w) a") (auto simp: states_def)
  qed (simp add: states_def)
  have "batch_answer (memoryContents w) ids (states ids w) (missing ids w)" for ids w
    unfolding batch_answer_def
  proof (intro conjI ballI impI)
    fix s assume "s \<in> set (states ids w)"
    then show "EntityID s \<in> set ids" "map_option fst (memoryContents w (EntityID s)) = Some (EntityTriples s)"
      by (auto simp: s memoryContents_def state_of_def)
  next
    fix i assume i: "i \<in> set ids" "memoryContents w i \<noteq> None"
    then obtain ts kv where "map_of (Entities w) i = Some (ts, kv)" by (auto simp: memoryContents_def)
    with i(1) have "state_of i ts None \<in> set (states ids w)" by (auto simp: s)
    then show "i \<in> EntityID ` set (states ids w)" by (force simp: state_of_def)
  next
    fix x assume "x \<in> set (missing ids w)"
    then show "case x of (i, why) \<Rightarrow> i \<in> set ids \<and> memoryContents w i = None \<and> why \<in> {MissingNotFound, MissingError}"
      by (induction ids) (auto simp: missing_def memoryContents_def split: option.splits)
  qed
  then show ?thesis by (simp add: batch_law_def memoryBackend_def memoryContents_def states_def missing_def)
qed

section \<open>The loop\<close>

text \<open>The states collected so far are those of the graph.\<close>

definition holds_states :: "contents \<Rightarrow> string set \<Rightarrow> (string \<rightharpoonup> entity_state) \<Rightarrow> bool" where
  "holds_states m asked found \<longleftrightarrow>
     (\<forall>i. map_option (\<lambda>s. (EntityID s, EntityTriples s)) (found i) =
        (if i \<in> asked then map_option (\<lambda>(ts, kv). (i, ts)) (m i) else None))"

lemma addStates_all:
  "EntityID ` set ss \<subseteq> set requested \<Longrightarrow> addStates requested ss found = Inr (found ++ map_of (rev (map (\<lambda>s. (EntityID s, s)) ss)))"
  by (induction ss arbitrary: found) (auto simp: map_add_def fun_eq_iff split: option.split)

lemma dropMissing_all:
  "\<forall>(i, why) \<in> set ms. i \<in> set requested \<and> why \<in> {MissingNotFound, MissingError} \<Longrightarrow>
   dropMissing requested ms found = Inr (found |` (- fst ` set ms))"
proof (induction ms arbitrary: found)
  case (Cons a ms)
  obtain i why where a: "a = (i, why)" by fastforce
  with Cons.prems have "dropMissing requested (a # ms) found = dropMissing requested ms (found(i := None))" by auto
  also have "\<dots> = Inr (found(i := None) |` (- fst ` set ms))" using Cons by auto
  also have "found(i := None) |` (- fst ` set ms) = found |` (- fst ` set (a # ms))"
    by (auto simp: a restrict_map_def fun_eq_iff)
  finally show ?case .
qed (simp add: restrict_map_def)

lemma fetchChunk_found:
  assumes "batch_law B contents" "length ids \<le> entityBatchChunkSize" "holds_states (contents (World g)) asked found"
  shows "\<exists>found' g'. fetchChunk X B ids found g = (Inr found', g') \<and> contents (World g') = contents (World g) \<and>
    holds_states (contents (World g)) (asked \<union> set ids) found'"
proof -
  let ?m = "contents (World g)"
  obtain states missing w' where r: "Request B (BatchQuery ids) (World g) = (Data (BatchResponse states missing), w')"
    "contents w' = ?m" "batch_answer ?m ids states missing"
    using assms(1,2) unfolding batch_law_def by blast
  let ?added = "map_of (rev (map (\<lambda>s. (EntityID s, s)) states))"
  define found' where "found' = (found ++ ?added) |` (- fst ` set missing)"
  have "addStates ids states found = Inr (found ++ ?added)"
    using r(3) by (intro addStates_all) (auto simp: batch_answer_def)
  moreover have "dropMissing ids missing (found ++ ?added) = Inr found'"
    unfolding found'_def using r(3) by (intro dropMissing_all) (auto simp: batch_answer_def)
  ultimately have f: "fetchChunk X B ids found g = (Inr found', g\<lparr>World := w'\<rparr>)"
    by (simp add: fetchChunk_def r(1))
  have "map_option (\<lambda>s. (EntityID s, EntityTriples s)) (found' i) =
      (if i \<in> asked \<union> set ids then map_option (\<lambda>(ts, kv). (i, ts)) (?m i) else None)" for i
  proof (cases "?added i")
    case None
    then have "i \<notin> EntityID ` set states" by (simp add: map_of_eq_None_iff image_image)
    with r(3) have "i \<in> set ids \<Longrightarrow> ?m i = None" unfolding batch_answer_def by blast
    moreover have "i \<in> fst ` set missing \<Longrightarrow> i \<in> set ids" using r(3) by (auto simp: batch_answer_def)
    moreover have "map_option (\<lambda>s. (EntityID s, EntityTriples s)) (found i) =
        (if i \<in> asked then map_option (\<lambda>(ts, kv). (i, ts)) (?m i) else None)"
      using assms(3) by (simp add: holds_states_def)
    ultimately show ?thesis using None by (cases "i \<in> set ids") (auto simp: found'_def restrict_map_def map_add_def split: if_splits)
  next
    case (Some s)
    then have s: "s \<in> set states" "EntityID s = i" by (auto dest: map_of_SomeD)
    then have "i \<in> set ids" "map_option fst (?m i) = Some (EntityTriples s)"
      using r(3) by (auto simp: batch_answer_def)
    moreover from this have "i \<notin> fst ` set missing" using r(3) by (auto simp: batch_answer_def)
    ultimately show ?thesis using Some s(2) by (auto simp: found'_def restrict_map_def map_add_def)
  qed
  with f r(2) show ?thesis by (simp add: holds_states_def)
qed

lemma fetchChunks_found:
  assumes "batch_law B contents"
  shows "holds_states (contents (World g)) asked found \<Longrightarrow>
    \<exists>found' g'. fetchChunks X B ids found g = (Inr found', g') \<and> contents (World g') = contents (World g) \<and>
      holds_states (contents (World g)) (asked \<union> set ids) found'"
proof (induction ids arbitrary: asked found g rule: length_induct)
  case (1 ids)
  let ?k = entityBatchChunkSize
  show ?case
  proof (cases "ids = []")
    case True
    with 1 show ?thesis by (subst fetchChunks.simps) simp
  next
    case False
    obtain found' g' where chunk: "fetchChunk X B (take ?k ids) found g = (Inr found', g')"
      "contents (World g') = contents (World g)"
      "holds_states (contents (World g)) (asked \<union> set (take ?k ids)) found'"
      using fetchChunk_found [OF assms, of "take ?k ids" g asked found X] 1(2) by auto
    have "length (drop ?k ids) < length ids" using False by (simp add: entityBatchChunkSize_def)
    with 1(1) chunk(2,3) obtain found'' g'' where rest: "fetchChunks X B (drop ?k ids) found' g' = (Inr found'', g'')"
      "contents (World g'') = contents (World g)"
      "holds_states (contents (World g)) (asked \<union> set (take ?k ids) \<union> set (drop ?k ids)) found''"
      by metis
    have "set (take ?k ids) \<union> set (drop ?k ids) = set ids"
      by (metis append_take_drop_id set_append)
    with rest(3) have "holds_states (contents (World g)) (asked \<union> set ids) found''"
      by (simp add: Un_assoc)
    with chunk(1) rest(1,2) False show ?thesis by (subst fetchChunks.simps) auto
  qed
qed

lemma fetchEntitiesBatch_found:
  assumes "batch_law B contents" "\<forall>i \<in> set ids. ValidateEntityID (Ids X) i = None"
  shows "\<exists>found g'. fetchEntitiesBatch X B ids g = (Inr found, g') \<and> contents (World g') = contents (World g) \<and>
    holds_states (contents (World g)) (set ids) found"
proof -
  have "find (\<lambda>i. ValidateEntityID (Ids X) i \<noteq> None) ids = None" using assms(2) by (simp add: find_None_iff)
  moreover have "holds_states (contents (World g)) {} Map.empty" by (simp add: holds_states_def)
  from fetchChunks_found [OF assms(1) this, of X ids] obtain found g' where
    "fetchChunks X B ids Map.empty g = (Inr found, g')" "contents (World g') = contents (World g)"
    "holds_states (contents (World g)) (set ids) found"
    by auto
  ultimately show ?thesis by (auto simp: fetchEntitiesBatch_def)
qed

text \<open>Claim C17: Reading in chunks is reading at once. For any number of valid entity IDs, although
  the graph answers at most a hundred at a time, \<open>fetchEntitiesBatch\<close> returns exactly the states that
  the graph holds of the requested entities, each under its own ID: none is lost between chunks, none
  that was not asked for appears, and the missing ones are left out.\<close>

theorem batch_reads_all:
  assumes "batch_law B contents" "\<forall>i \<in> set ids. ValidateEntityID (Ids X) i = None"
  shows "\<exists>found g'. fetchEntitiesBatch X B ids g = (Inr found, g') \<and>
    (\<forall>i. map_option (\<lambda>s. (EntityID s, EntityTriples s)) (found i) =
       (if i \<in> set ids then map_option (\<lambda>(ts, kv). (i, ts)) (contents (World g) i) else None))"
proof -
  obtain found g' where "fetchEntitiesBatch X B ids g = (Inr found, g')" "holds_states (contents (World g)) (set ids) found"
    using fetchEntitiesBatch_found [OF assms] by blast
  then show ?thesis unfolding holds_states_def by blast
qed

theorem batch_reads_all_witness:
  "\<exists>found g'. fetchEntitiesBatch sampleEnv memoryBackend (replicate 250 sampleSystemID) seededGateway = (Inr found, g') \<and>
     map_option EntityTriples (found sampleSystemID) = map_option fst (memoryContents (World seededGateway) sampleSystemID)"
proof -
  have "ValidateEntityID (Ids sampleEnv) sampleSystemID = None" by code_simp
  then have "\<forall>i \<in> set (replicate 250 sampleSystemID). ValidateEntityID (Ids sampleEnv) i = None" by simp
  from batch_reads_all [OF memory_batch this, of seededGateway] obtain found g' where
    run: "fetchEntitiesBatch sampleEnv memoryBackend (replicate 250 sampleSystemID) seededGateway = (Inr found, g')"
    "map_option (\<lambda>s. (EntityID s, EntityTriples s)) (found sampleSystemID) =
      map_option (\<lambda>(ts, kv). (sampleSystemID, ts)) (memoryContents (World seededGateway) sampleSystemID)"
    by auto
  from arg_cong [OF run(2), of "map_option snd"] run(1) show ?thesis
    by (auto simp: option.map_comp o_def split_def)
qed

end
