(* ===== verification/Collections.thy ===== *)
theory Collections
  imports BatchReads Negotiation
begin

text \<open>
  How the GET handlers are put together: the checks they open with, each in continuation style (it
  answers the request itself or hands on what it found), and the collections, which are read in two
  steps: the IDs of a class, then a batch of their states.
\<close>

section \<open>Checks\<close>

text \<open>What remains of a handler: the state to the response and the state it leaves.\<close>

type_synonym 's answer = "'s gateway \<Rightarrow> response \<times> 's gateway"

definition negotiated :: "env \<Rightarrow> ResourceFamily \<Rightarrow> request \<Rightarrow> (MediaType \<Rightarrow> 's answer) \<Rightarrow> 's answer" where
  "negotiated X fam r k g =
     (case NegotiateRequest (Std X) r fam of None \<Rightarrow> (WriteNotAcceptable fam, g) | Some media \<Rightarrow> k media g)"

definition withValidID :: "env \<Rightarrow> string \<Rightarrow> string \<Rightarrow> 's answer \<Rightarrow> 's answer" where
  "withValidID X what i k g =
     (case ValidateEntityID (Ids X) i of
        Some e \<Rightarrow> (writeJSONError [] 400 (''invalid '' @ what @ '' id: '' @ e), g)
      | None \<Rightarrow> k g)"

definition withLimit :: "env \<Rightarrow> request \<Rightarrow> (int \<Rightarrow> 's answer) \<Rightarrow> 's answer" where
  "withLimit X r k g =
     (case parseLimit (query_get r ''limit'') (DefaultListLimit (Cfg X)) (MaxListLimit (Cfg X)) of
        Inl e \<Rightarrow> (writeJSONError [] 400 e, g)
      | Inr limit \<Rightarrow> k limit g)"

text \<open>The entity of an ID, which must be of a kind.\<close>

definition withEntity ::
  "env \<Rightarrow> 's backend \<Rightarrow> (triple list \<Rightarrow> bool) \<Rightarrow> string \<Rightarrow> string \<Rightarrow> (entity_state \<Rightarrow> 's answer) \<Rightarrow> 's answer"
where
  "withEntity X B kind missing i k g =
     (case fetchEntity X B i g of
        (Inl e, g') \<Rightarrow> writeBackendError X [] e g'
      | (Inr state, g') \<Rightarrow>
          if kind (EntityTriples state) then k state g' else (writeJSONError [] 404 missing, g'))"

definition withListed ::
  "env \<Rightarrow> 's backend \<Rightarrow> string \<Rightarrow> int \<Rightarrow> string \<Rightarrow> (string list \<Rightarrow> 's answer) \<Rightarrow> 's answer"
where
  "withListed X B iri limit op k g =
     (case listEntitiesByType X B iri limit op g of
        (Inl e, g') \<Rightarrow> writeBackendError X [] e g'
      | (Inr ids, g') \<Rightarrow> k ids g')"

definition withBatch :: "env \<Rightarrow> 's backend \<Rightarrow> string list \<Rightarrow> ((string \<rightharpoonup> entity_state) \<Rightarrow> 's answer) \<Rightarrow> 's answer" where
  "withBatch X B ids k g =
     (case fetchEntitiesBatch X B ids g of
        (Inl e, g') \<Rightarrow> writeBackendError X [] e g'
      | (Inr states, g') \<Rightarrow> k states g')"

text \<open>What the checks answer on their own account.\<close>

lemma WriteNotAcceptable_Status [simp]: "Status (WriteNotAcceptable fam) = 406"
  by (simp add: WriteNotAcceptable_def writeNotAcceptableList_def)

abbreviation refusals :: "nat set" where "refusals \<equiv> {400, 404, 406, 409, 500, 503}"

lemma backendError_refusal: "writeBackendError X hs e g = (resp, g') \<Longrightarrow> Status resp \<in> refusals \<and> World g' = World g"
  using backendError_Status [of X hs e g] backendError_World [of X hs e g] by auto

lemma fetchEntity_stored:
  assumes "query_law X B contents" "fetchEntity X B i g = (res, g')"
  shows "contents (World g') = contents (World g) \<and>
    (\<forall>state. res = Inr state \<longrightarrow> EntityID state = i \<and> (\<exists>kv. contents (World g) i = Some (EntityTriples state, kv)))"
  using assms fetchEntityExact_contents [OF assms(1), of i g] fetchEntityExact_state [OF assms(1), of i g]
  by (fastforce simp: fetchEntity_def split: prod.splits sum.splits option.splits)

lemma withEntity_ok:
  assumes "query_law X B contents" "withEntity X B kind missing i k g = (resp, g')" "Status resp \<notin> refusals"
  shows "\<exists>state g1 kv. EntityID state = i \<and> contents (World g) i = Some (EntityTriples state, kv) \<and>
    kind (EntityTriples state) \<and> contents (World g1) = contents (World g) \<and> k state g1 = (resp, g')"
proof -
  obtain res g1 where f: "fetchEntity X B i g = (res, g1)" by fastforce
  note stored = fetchEntity_stored [OF assms(1) f]
  show ?thesis
  proof (cases res)
    case (Inl e)
    with f assms(2) have "writeBackendError X [] e g1 = (resp, g')" by (simp add: withEntity_def)
    with assms(3) show ?thesis by (auto dest: backendError_refusal)
  next
    case (Inr state)
    with stored obtain kv where "EntityID state = i" "contents (World g) i = Some (EntityTriples state, kv)"
      "contents (World g1) = contents (World g)" by blast
    moreover have "kind (EntityTriples state)" "k state g1 = (resp, g')"
      using f assms(2,3) Inr by (auto simp: withEntity_def split: if_splits)
    ultimately show ?thesis by blast
  qed
qed

lemma negotiated_ok:
  "negotiated X fam r k g = (resp, g') \<Longrightarrow> Status resp \<notin> refusals \<Longrightarrow> \<exists>media. NegotiateRequest (Std X) r fam = Some media \<and> k media g = (resp, g')"
  by (auto simp: negotiated_def split: option.splits)

lemma withValidID_ok:
  "withValidID X what i k g = (resp, g') \<Longrightarrow> Status resp \<notin> refusals \<Longrightarrow> ValidateEntityID (Ids X) i = None \<and> k g = (resp, g')"
  by (auto simp: withValidID_def split: option.splits)

section \<open>Bodies\<close>

text \<open>\<open>json.NewEncoder(w).Encode\<close> after the status: a body that cannot be encoded is found out too late,
  and only its absence shows. \<open>counted\<close>: the handler counts it as an error.\<close>

definition encodeBody :: "request \<Rightarrow> (string \<times> string) list \<Rightarrow> bool \<Rightarrow> json option \<Rightarrow> 's answer" where
  "encodeBody r hs counted body g =
     (case body of
        Some j \<Rightarrow> (okResponse r hs (JsonBody j), g)
      | None \<Rightarrow> (okResponse r hs NoBody, if counted \<and> Method r \<noteq> ''HEAD'' then g\<lparr>Errs := Suc (Errs g)\<rparr> else g))"

definition encodeJSON :: "request \<Rightarrow> json option \<Rightarrow> 's answer" where
  "encodeJSON r body = encodeBody r [contentTypeJSON] True body"

definition lossy :: "string \<times> string" where "lossy = (''X-CS-Reconstructed-Lossy'', ''true'')"

lemma encodeBody_World [simp]: "World (snd (encodeBody r hs c body g)) = World g"
  by (simp add: encodeBody_def split: option.split)

lemma encodeBody_Status [simp]: "Status (fst (encodeBody r hs c body g)) = 200"
  by (simp add: encodeBody_def okResponse_def split: option.split)

section \<open>Collections\<close>

text \<open>The loop over the IDs: a row of each state that gives one, until there are \<open>limit\<close> of them.\<close>

definition stateRow :: "(entity_state \<Rightarrow> 'a option) \<Rightarrow> (string \<rightharpoonup> entity_state) \<Rightarrow> string \<Rightarrow> 'a option" where
  "stateRow row states i = Option.bind (states i) row"

definition collectRows :: "(entity_state \<Rightarrow> 'a option) \<Rightarrow> (string \<rightharpoonup> entity_state) \<Rightarrow> int \<Rightarrow> string list \<Rightarrow> 'a list" where
  "collectRows row states limit ids =
     map (\<lambda>i. the (stateRow row states i)) (takeMatching (\<lambda>i. stateRow row states i \<noteq> None) limit [] ids)"

text \<open>The row of a state: what it shows, when it is of the kind and passes the filter.\<close>

definition rowOf :: "(triple list \<Rightarrow> bool) \<Rightarrow> (entity_state \<Rightarrow> 'a) \<Rightarrow> ('a \<Rightarrow> bool) \<Rightarrow> entity_state \<Rightarrow> 'a option" where
  "rowOf kind shown passes state =
     (if kind (EntityTriples state) \<and> passes (shown state) then Some (shown state) else None)"

section \<open>The documented behaviour of a predicate query\<close>

text \<open>The IDs of a class, up to the limit, taken from a list of all of them.\<close>

definition list_law :: "'s backend \<Rightarrow> ('s \<Rightarrow> contents) \<Rightarrow> ('s \<Rightarrow> string \<Rightarrow> string list) \<Rightarrow> bool" where
  "list_law B contents listing \<longleftrightarrow>
     (\<forall>iri n w. \<exists>w'. Request B (PredicateQuery PredType iri n) w =
         (Data (PredicateResponse (take (nat n) (listing w iri))), w') \<and> contents w' = contents w)"

definition lists_class :: "contents \<Rightarrow> string \<Rightarrow> string list \<Rightarrow> bool" where
  "lists_class m iri ids \<longleftrightarrow> distinct ids \<and>
     set ids = {i. \<exists>ts kv. m i = Some (ts, kv) \<and> (\<exists>t \<in> set ts. Predicate t = PredType \<and> Object t = OStr iri)}"

text \<open>Every stored entity has a valid ID.\<close>

definition ids_valid :: "env \<Rightarrow> contents \<Rightarrow> bool" where
  "ids_valid X m \<longleftrightarrow> (\<forall>i \<in> dom m. ValidateEntityID (Ids X) i = None)"

lemma listing_valid:
  assumes "lists_class m iri ids" "ids_valid X m"
  shows "\<forall>i \<in> set (take n ids). ValidateEntityID (Ids X) i = None"
  using assms by (fastforce simp: lists_class_def ids_valid_def dom_def dest: in_set_takeD)

lemma listed:
  assumes "list_law B contents listing"
  shows "\<exists>g'. listEntitiesByType X B iri n op g = (Inr (take (nat n) (listing (World g) iri)), g') \<and>
    contents (World g') = contents (World g)"
proof -
  obtain w' where "Request B (PredicateQuery PredType iri n) (World g) =
      (Data (PredicateResponse (take (nat n) (listing (World g) iri))), w')" "contents w' = contents (World g)"
    using assms unfolding list_law_def by blast
  then show ?thesis by (simp add: listEntitiesByType_def Let_def)
qed

section \<open>What a collection shows\<close>

definition storedView :: "(triple list \<Rightarrow> bool) \<Rightarrow> (entity_state \<Rightarrow> 'a) \<Rightarrow> contents \<Rightarrow> string \<Rightarrow> 'a option" where
  "storedView kind shown m i =
     (case m i of None \<Rightarrow> None | Some (ts, kv) \<Rightarrow> if kind ts then Some (shown (state_of i ts None)) else None)"

text \<open>The resources of a kind among some IDs, in their order.\<close>

definition viewsAmong :: "(triple list \<Rightarrow> bool) \<Rightarrow> (entity_state \<Rightarrow> 'a) \<Rightarrow> contents \<Rightarrow> string list \<Rightarrow> 'a list" where
  "viewsAmong kind shown m ids = List.map_filter (storedView kind shown m) ids"

lemma viewsAmong_length: "length (viewsAmong kind shown m ids) \<le> length ids"
  by (simp add: viewsAmong_def List.map_filter_def order_trans [OF length_filter_le])

text \<open>A resource is shown from its ID and its triples alone; so what a collection shows is what the graph
  holds.\<close>

locale resource_view =
  fixes kind :: "triple list \<Rightarrow> bool"
    and shown :: "entity_state \<Rightarrow> 'a"
  assumes shown_ref: "shown s = shown (state_of (EntityID s) (EntityTriples s) None)"
begin

lemma stateRow_stored:
  assumes "holds_states m asked states" "i \<in> asked"
  shows "stateRow (rowOf kind shown P) states i =
    Option.bind (storedView kind shown m i) (\<lambda>v. if P v then Some v else None)"
proof (cases "m i")
  case None
  have "map_option (\<lambda>s. (EntityID s, EntityTriples s)) (states i) = None"
    using assms None by (simp add: holds_states_def)
  with None show ?thesis by (simp add: stateRow_def storedView_def)
next
  case (Some p)
  obtain ts kv where p: "p = (ts, kv)" by fastforce
  have "map_option (\<lambda>s. (EntityID s, EntityTriples s)) (states i) = Some (i, ts)"
    using assms Some p by (simp add: holds_states_def)
  then obtain st where "states i = Some st" "EntityID st = i" "EntityTriples st = ts" by auto
  with shown_ref [of st] Some p show ?thesis by (auto simp: stateRow_def storedView_def rowOf_def)
qed

lemma collected:
  assumes "holds_states m (set ids) states" "1 \<le> limit"
  shows "collectRows (rowOf kind shown P) states limit ids = take (nat limit) (filter P (viewsAmong kind shown m ids))"
proof -
  let ?R = "stateRow (rowOf kind shown P) states"
  have "map (\<lambda>i. the (?R i)) (filter (\<lambda>i. ?R i \<noteq> None) xs) = filter P (viewsAmong kind shown m xs)" if "set xs \<subseteq> set ids" for xs
    using that
  proof (induction xs)
    case (Cons i xs)
    then show ?case
      using stateRow_stored [OF assms(1), of i P]
      by (cases "storedView kind shown m i") (auto simp: viewsAmong_def map_filter_simps)
  qed (simp add: viewsAmong_def map_filter_simps)
  moreover have "takeMatching (\<lambda>i. ?R i \<noteq> None) limit [] ids = take (nat limit) (filter (\<lambda>i. ?R i \<noteq> None) ids)"
    using assms(2) takeMatching_take [of "[]" limit "\<lambda>i. ?R i \<noteq> None" ids] by simp
  ultimately show ?thesis by (simp only: collectRows_def take_map [symmetric] subset_refl)
qed

lemma batch_collected:
  assumes "batch_law B contents" "\<forall>i \<in> set ids. ValidateEntityID (Ids X) i = None" "1 \<le> limit"
  shows "\<exists>g'. contents (World g') = contents (World g) \<and>
    withBatch X B ids (\<lambda>states. k (collectRows (rowOf kind shown P) states limit ids)) g =
      k (take (nat limit) (filter P (viewsAmong kind shown (contents (World g)) ids))) g'"
proof -
  obtain found g' where f: "fetchEntitiesBatch X B ids g = (Inr found, g')" "contents (World g') = contents (World g)"
    "holds_states (contents (World g)) (set ids) found"
    using fetchEntitiesBatch_found [OF assms(1,2)] by blast
  then show ?thesis by (auto simp: withBatch_def collected [OF f(3) assms(3)])
qed

text \<open>The IDs of a class from the graph, then their states: what a collection handler does once its checks
  have passed.\<close>

lemma list_collected:
  fixes n :: int
  assumes "list_law B contents listing" "batch_law B contents" "ids_valid X (contents (World g))"
    and "lists_class (contents (World g)) iri (listing (World g) iri)" "1 \<le> limit"
  defines "ids \<equiv> take (nat n) (listing (World g) iri)"
  shows "\<exists>g'. contents (World g') = contents (World g) \<and>
    withListed X B iri n op (\<lambda>ids. withBatch X B ids (\<lambda>states. k ids (collectRows (rowOf kind shown P) states limit ids))) g =
      k ids (take (nat limit) (filter P (viewsAmong kind shown (contents (World g)) ids))) g'"
proof -
  obtain g1 where l: "listEntitiesByType X B iri n op g = (Inr ids, g1)" "contents (World g1) = contents (World g)"
    using listed [OF assms(1), of X iri n op g] unfolding ids_def by blast
  have "\<forall>i \<in> set ids. ValidateEntityID (Ids X) i = None"
    unfolding ids_def by (rule listing_valid [OF assms(4,3)])
  from batch_collected [OF assms(2) this assms(5), of g1 "k ids" P] show ?thesis
    using l by (simp add: withListed_def)
qed

end

end
