(* ===== verification/Creations.thy ===== *)
theory Creations
  imports SchemaArtifacts
begin

text \<open>
  The POST handlers of the command, feasibility, system event, deployment, procedure, sampling feature
  and property resources have one shape: check the content type, read the body, translate it to the
  triples of one new entity, send them. \<open>createFromBody\<close> is that shape; the translation is the
  interface between it and a resource, and what a POST leaves in the graph is proved for every
  translation at once.
\<close>

definition createFromBody ::
  "env \<Rightarrow> 's backend \<Rightarrow> context_state \<Rightarrow> Identity \<Rightarrow> request \<Rightarrow> string list \<Rightarrow>
   (string \<Rightarrow> string + string \<times> triple list) \<Rightarrow> string \<Rightarrow> string \<Rightarrow> 's gateway \<Rightarrow> response \<times> 's gateway"
where
  "createFromBody X B ctx identity r accepted build path typ g =
     (case requireMediaTypeAny X (header_get r ''Content-Type'') accepted of
        Some e \<Rightarrow> (writeJSONError [(''Accept-Post'', go_join '', '' accepted)] 415 e, g)
      | None \<Rightarrow>
      (case readBody [] r of
        Inl resp \<Rightarrow> (resp, g)
      | Inr body \<Rightarrow>
      (case build body of
        Inl e \<Rightarrow> (writeJSONError [] 400 e, g)
      | Inr (entityID, triples) \<Rightarrow>
          (case ingestTriples X B ctx triples identity g of
             (Inl e, g') \<Rightarrow> writeBackendError X [attemptedID entityID] e g'
           | (Inr _, g') \<Rightarrow> (createdResponse [] (path @ entityID) entityID typ, g')))))"

section \<open>What a create leaves\<close>

lemma ingest_created:
  assumes "create_law X B ents" "list_all (\<lambda>t. Subject t = eid) ts"
    and "ingestTriples X B ctx ts identity g = (Inr (), g')"
  shows "created X eid ts (ents (World g)) (ents (World g'))"
proof -
  obtain s name mt where s: "singleSubject ts = Inr s" and
    c: "createProjectedEntity X B ctx name s ts mt None identity ''ingestTriples'' g = (Inr (), g')"
    using assms(3) by (auto simp: ingestTriples_def split: sum.splits prod.splits)
  from singleSubject_all [OF s] assms(2) have "s = eid" by (cases ts) auto
  with create_contents [OF assms(1) c] show ?thesis by (auto simp: created_def)
qed

lemma outcome_error:
  assumes "writeBackendError X [attemptedID i] e g = (resp, g')" "ok \<in> {201, 204}"
  shows "write_outcome ok spec resp (ents (World g)) (ents (World g'))"
  by (rule outcome_backend [OF assms]) simp

lemma outcome_done: "Status resp = ok \<Longrightarrow> spec m m' \<Longrightarrow> write_outcome ok spec resp m m'"
  by (simp add: write_outcome_def)

text \<open>The contract of a POST: a 201 names an entity that was not there and has the body's facts.\<close>

definition created_outcome ::
  "env \<Rightarrow> request \<Rightarrow> (string \<Rightarrow> string + string \<times> triple list) \<Rightarrow> string \<Rightarrow> string \<Rightarrow> response \<Rightarrow> contents \<Rightarrow> contents \<Rightarrow> bool"
where
  "created_outcome X r build path typ resp =
     write_outcome 201 (\<lambda>m m'. \<exists>body eid ts. Body r = BodyOk body \<and> build body = Inr (eid, ts) \<and>
       resp = createdResponse [] (path @ eid) eid typ \<and> created X eid ts m m') resp"

text \<open>A value that the body gives at most once is what the new entity is read back with.\<close>

lemma created_first:
  assumes "created X eid ts m m'" "m' eid = Some (new, kv)" "p \<noteq> EntityIndexingProfile X" "length (at p ts) \<le> 1"
  shows "firstStringObject new [p] = firstStringObject ts [p]"
proof -
  have "others [EntityIndexingProfile X] new = others [EntityIndexingProfile X] ts"
  proof -
    obtain new' kv' where n: "m' = m(eid \<mapsto> (new', kv'))"
      "others [EntityIndexingProfile X] new' = others [EntityIndexingProfile X] ts"
      using assms(1) unfolding created_def by blast
    with assms(2) have "new' = new" by simp
    with n(2) show ?thesis by simp
  qed
  then have same: "t \<in> set new \<longleftrightarrow> t \<in> set ts" if "Predicate t = p" for t
    using that assms(3) unfolding others_def by auto
  have eq: "set (at p new) = set (at p ts)"
    unfolding at_def using same by auto
  show ?thesis
  proof (cases "at p ts")
    case Nil
    with eq show ?thesis by (simp add: first_at [of new] first_at [of ts])
  next
    case (Cons t us)
    with assms(4) have t: "at p ts = [t]" by simp
    with eq have all: "set (at p new) = {t}" by simp
    then obtain us' where n: "at p new = t # us'" by (cases "at p new") auto
    have first: "firstStringObject xs [p] = None" if "set xs \<subseteq> {t}" "\<forall>v. Object t \<noteq> OStr v" for xs
      using that by (induction xs) (auto split: obj.split)
    have "Predicate t = p" using t by (auto simp: at_def filter_eq_Cons_iff)
    then show ?thesis
      using t n first [of us'] all by (cases "Object t") (auto simp: first_at [of new] first_at [of ts])
  qed
qed

locale resource_body =
  fixes build :: "string \<Rightarrow> string + string \<times> triple list"
    and typeIRI :: string
  assumes one_subject: "build body = Inr (eid, ts) \<Longrightarrow> list_all (\<lambda>t. Subject t = eid) ts"
    and typed: "build body = Inr (eid, ts) \<Longrightarrow> firstStringObject ts [PredType] = Some typeIRI"
begin

lemma create_outcome:
  assumes "graph_contract X B ents" "createFromBody X B ctx identity r accepted build path typ g = (resp, g')"
  shows "created_outcome X r build path typ resp (ents (World g)) (ents (World g'))"
proof -
  have laws: "create_law X B ents" "refusal_law X B ents" using assms(1) by (simp_all add: graph_contract_def)
  have stop: ?thesis if "g' = g" "Status resp \<noteq> 201" using that by (simp add: created_outcome_def outcome_same)
  show ?thesis
  proof (cases "requireMediaTypeAny X (header_get r ''Content-Type'') accepted")
    case (Some e)
    with assms(2) show ?thesis by (intro stop) (auto simp: createFromBody_def)
  next
    case None
    note pre = this
    show ?thesis
    proof (cases "readBody [] r")
      case (Inl resp')
      with pre assms(2) readBody_Status [OF Inl] show ?thesis by (intro stop) (auto simp: createFromBody_def)
    next
      case (Inr body)
      note body = this
      show ?thesis
      proof (cases "build body")
        case (Inl e)
        with pre assms(2) body show ?thesis by (intro stop) (auto simp: createFromBody_def)
      next
        case (Inr p)
        then obtain eid ts where b: "build body = Inr (eid, ts)" by (cases p) simp
        obtain res g1 where ing: "ingestTriples X B ctx ts identity g = (res, g1)" by fastforce
        show ?thesis
        proof (cases res)
          case (Inl e)
          have w: "writeBackendError X [attemptedID eid] e g1 = (resp, g')"
            using assms(2) pre body b ing Inl by (simp add: createFromBody_def)
          show ?thesis unfolding created_outcome_def
            by (rule outcome_backend [OF w]) (use ingest_refused [OF laws(2) ing [unfolded Inl]] in auto)
        next
          case (Inr u)
          then have ok: "res = Inr ()" by simp
          have "resp = createdResponse [] (path @ eid) eid typ" "g' = g1"
            using assms(2) pre body b ing ok by (simp_all add: createFromBody_def)
          with ingest_created [OF laws(1) one_subject [OF b] ing [unfolded ok]] b readBody_ok [OF body] show ?thesis
            unfolding created_outcome_def by (intro outcome_done) auto
        qed
      qed
    qed
  qed
qed

text \<open>A body whose ID is taken never gets a 201, and leaves the graph as it was unless the answer says
  that the outcome is uncertain.\<close>

lemma create_taken:
  assumes "graph_contract X B ents" "createFromBody X B ctx identity r accepted build path typ g = (resp, g')"
    and "Body r = BodyOk body" "build body = Inr (eid, ts)" "ents (World g) eid \<noteq> None"
  shows "Status resp \<noteq> 201 \<and> (uncertain resp \<or> ents (World g') = ents (World g))"
  using create_outcome [OF assms(1,2)] assms(3-5)
  by (auto simp: created_outcome_def write_outcome_def created_def split: if_splits)

text \<open>The type of the new entity is the resource's, whatever the graph adds to describe it.\<close>

lemma created_kind:
  assumes "build body = Inr (eid, ts)" "created X eid ts m m'" "EntityIndexingProfile X \<noteq> PredType"
  shows "\<exists>new kv t. m' eid = Some (new, kv) \<and> t \<in> set new \<and> Predicate t = PredType \<and> Object t = OStr typeIRI"
proof -
  obtain new kv where new: "m' = m(eid \<mapsto> (new, kv))"
      "others [EntityIndexingProfile X] new = others [EntityIndexingProfile X] ts"
    using assms(2) unfolding created_def by blast
  obtain t where "t \<in> set ts" "Predicate t = PredType" "Object t = OStr typeIRI"
    using firstStringObject_Some [OF typed [OF assms(1)]] by auto
  moreover from this have "t \<in> others [EntityIndexingProfile X] new"
    unfolding new(2) using assms(3) by (simp add: others_def)
  ultimately show ?thesis using new(1) by (auto simp: others_def)
qed

end

end
