(* ===== verification/Observations.thy ===== *)
theory Observations
  imports Reads SweText SweJson Negotiation
begin

text \<open>
  \<open>message/oms\<close> (the OMS Observation), \<open>observations.go\<close> (POST) and the stream reader of
  \<open>component.go\<close>. Observations do not live in the graph: a POST publishes one message on the
  subject of its datastream, a GET reads the stream from a sequence number on.
\<close>

section \<open>Dynamic JSON values\<close>

text \<open>What \<open>json.Unmarshal\<close> makes of a document when it decodes into \<open>any\<close>; a map is kept as its
  members in key order, the order in which \<open>json.Marshal\<close> writes them. A number outside the range
  of float64 is an error.\<close>

datatype goval = GNil | GBool bool | GNum f64 | GStr string | GArr "goval list" | GMap "(string \<times> goval) list"

fun member_put :: "string \<Rightarrow> 'a \<Rightarrow> (string \<times> 'a) list \<Rightarrow> (string \<times> 'a) list" where
  "member_put k v [] = [(k, v)]"
| "member_put k v ((k', v') # r) =
     (if k = k' then (k, v) # r
      else if k < k' then (k, v) # (k', v') # r
      else (k', v') # member_put k v r)"

function decodeAny :: "(string \<Rightarrow> f64 option) \<Rightarrow> json \<Rightarrow> goval option" where
  "decodeAny pf JNull = Some GNil"
| "decodeAny pf (JBool b) = Some (GBool b)"
| "decodeAny pf (JNum t) = map_option GNum (pf t)"
| "decodeAny pf (JStr s) = Some (GStr s)"
| "decodeAny pf (JArr xs) = map_option GArr (those (map (decodeAny pf) xs))"
| "decodeAny pf (JObj kvs) =
     map_option (\<lambda>vs. GMap (fold (\<lambda>(k, v). member_put k v) (zip (map fst kvs) vs) []))
       (those (map (\<lambda>(k, j). decodeAny pf j) kvs))"
  by pat_completeness auto
termination
  by (relation "measure (\<lambda>(pf, j). size j)") (auto simp: size_json_arr size_json_obj simp del: json.size)

fun marshalGo :: "(f64 \<Rightarrow> string) \<Rightarrow> goval \<Rightarrow> json" where
  "marshalGo num GNil = JNull"
| "marshalGo num (GBool b) = JBool b"
| "marshalGo num (GNum f) = JNum (num f)"
| "marshalGo num (GStr s) = JStr s"
| "marshalGo num (GArr xs) = JArr (map (marshalGo num) xs)"
| "marshalGo num (GMap kvs) = JObj (map (\<lambda>(k, v). (k, marshalGo num v)) kvs)"

text \<open>\<open>json.Unmarshal\<close> into a \<open>map[string]any\<close>: null gives the nil map (\<open>Some None\<close>).\<close>

definition decodeMap :: "env \<Rightarrow> json \<Rightarrow> (string \<times> goval) list option option" where
  "decodeMap X j =
     (case decodeAny (ParseFloat (Std X)) j of
        Some GNil \<Rightarrow> Some None
      | Some (GMap m) \<Rightarrow> Some (Some m)
      | _ \<Rightarrow> None)"

lemma map_of_member_put [simp]: "map_of (member_put k v m) = (map_of m)(k \<mapsto> v)"
  by (induction m) (auto simp: fun_eq_iff)

section \<open>The OMS observation\<close>

datatype FeatureOfInterest = FoiHref string | FoiFeature json

record Observation =
  OmID :: string
  OmProcedure :: string
  OmObservedProperty :: string
  OmFeatureOfInterest :: "FeatureOfInterest option"
  OmPhenomenonTime :: string
  OmResultTime :: string
  OmResult :: goval

definition TypeObservation :: string where "TypeObservation = ''Observation''"

definition omsType :: message_type where
  "omsType = \<lparr>Domain = ''ogc'', MsgCategory = ''oms'', Version = ''v3''\<rparr>"

definition decodeFeatureOfInterest :: "env \<Rightarrow> json \<Rightarrow> FeatureOfInterest option" where
  "decodeFeatureOfInterest X j =
     (case j of
        JStr s \<Rightarrow> Some (FoiHref s)
      | JObj kvs \<Rightarrow> map_option FoiFeature (FeatureJson X j)
      | _ \<Rightarrow> None)"

definition featureOfInterestJson :: "FeatureOfInterest \<Rightarrow> json" where
  "featureOfInterestJson f =
     (case f of FoiFeature j \<Rightarrow> j | FoiHref s \<Rightarrow> if s = [] then JNull else JStr s)"

definition observationKeys :: "string list" where
  "observationKeys = [''id'', ''procedure'', ''observedProperty'', ''featureOfInterest'', ''phenomenonTime'',
     ''resultTime'', ''result'']"

definition decodeObservation :: "env \<Rightarrow> json \<Rightarrow> Observation option" where
  "decodeObservation X j =
     do { kvs \<leftarrow> struct_members j;
          ty \<leftarrow> string_field [''type''] kvs ''type'';
          if ty \<noteq> [] \<and> ty \<noteq> TypeObservation then None
          else do {
            i \<leftarrow> string_field observationKeys kvs ''id'';
            p \<leftarrow> string_field observationKeys kvs ''procedure'';
            op \<leftarrow> string_field observationKeys kvs ''observedProperty'';
            foi \<leftarrow> ptr_field (decodeFeatureOfInterest X) observationKeys kvs ''featureOfInterest'';
            pt \<leftarrow> string_field observationKeys kvs ''phenomenonTime'';
            rt \<leftarrow> string_field observationKeys kvs ''resultTime'';
            res \<leftarrow> bind_last (decodeAny (ParseFloat (Std X))) GNil (field_values observationKeys kvs ''result'');
            Some \<lparr>OmID = i, OmProcedure = p, OmObservedProperty = op, OmFeatureOfInterest = foi,
                  OmPhenomenonTime = pt, OmResultTime = rt, OmResult = res\<rparr> } }"

definition validateObservation :: "Observation \<Rightarrow> string option" where
  "validateObservation obs =
     (if OmProcedure obs = [] then Some ''procedure is required''
      else if OmObservedProperty obs = [] then Some ''observedProperty is required''
      else if OmResultTime obs = [] then Some ''resultTime is required''
      else None)"

definition observationJson :: "env \<Rightarrow> Observation \<Rightarrow> json" where
  "observationJson X obs =
     JObj ([(''type'', JStr TypeObservation)] @ omit_empty ''id'' (OmID obs) @
       [(''procedure'', JStr (OmProcedure obs)), (''observedProperty'', JStr (OmObservedProperty obs))] @
       omit_nil ''featureOfInterest'' featureOfInterestJson (OmFeatureOfInterest obs) @
       omit_empty ''phenomenonTime'' (OmPhenomenonTime obs) @
       [(''resultTime'', JStr (OmResultTime obs))] @
       (if OmResult obs = GNil then [] else [(''result'', marshalGo (JsonFloat X) (OmResult obs))]))"

text \<open>The triples the payload offers to the graph pipeline (\<open>graphable.go\<close>); the synthetic subject of
  an inline Feature is its \<open>id\<close> member: a string, a number's text, or the raw text.\<close>

definition foiTriple :: "env \<Rightarrow> Observation \<Rightarrow> string" where
  "foiTriple X obs =
     (case OmFeatureOfInterest obs of
        None \<Rightarrow> []
      | Some (FoiHref s) \<Rightarrow> s
      | Some (FoiFeature j) \<Rightarrow>
          (case j of
             JObj kvs \<Rightarrow>
               (case jmap kvs ''id'' of
                  None \<Rightarrow> []
                | Some (JStr s) \<Rightarrow> s
                | Some JNull \<Rightarrow> []
                | Some (JNum t) \<Rightarrow> t
                | Some v \<Rightarrow> JsonText X v)
           | _ \<Rightarrow> []))"

definition obj_of :: "env \<Rightarrow> goval \<Rightarrow> obj" where
  "obj_of X v =
     (case v of
        GStr s \<Rightarrow> OStr s
      | GNum f \<Rightarrow> OFloat f
      | GBool b \<Rightarrow> OBool b
      | _ \<Rightarrow> OJson (marshalGo (JsonFloat X) v))"

definition observationTriples :: "env \<Rightarrow> Observation \<Rightarrow> triple list" where
  "observationTriples X obs =
     (let i = OmID obs in
      if i = [] then []
      else [str_triple i ''oms.observation.type'' ''http://www.w3.org/ns/sosa/Observation''] @
        opt_triple i ''oms.observation.used-procedure'' (OmProcedure obs) @
        opt_triple i ''oms.observation.observed-property'' (OmObservedProperty obs) @
        opt_triple i ''oms.observation.has-feature-of-interest'' (foiTriple X obs) @
        opt_triple i ''oms.observation.result-time'' (OmResultTime obs) @
        opt_triple i ''oms.observation.phenomenon-time'' (OmPhenomenonTime obs) @
        (if OmResult obs = GNil then []
         else [\<lparr>Subject = i, Predicate = ''oms.observation.has-simple-result'',
                Object = obj_of X (OmResult obs), Datatype = []\<rparr>]))"

section \<open>POST\<close>

definition validateOpaqueResourceID :: "string \<Rightarrow> string option" where
  "validateOpaqueResourceID i =
     (if i = [] then Some ''id required''
      else if length i > 256 then Some ''id exceeds 256 bytes''
      else if list_ex (\<lambda>c. c \<in> {CHR '' '', CHR 0x09, CHR 0x0D, CHR 0x0A, CHR ''/'', CHR 0x5C, CHR ''?'', CHR ''#''}) i
        then Some ''id contains reserved path characters''
      else None)"

definition strip_prefix :: "string \<Rightarrow> string \<Rightarrow> string option" where
  "strip_prefix p s = (if take (length p) s = p then Some (drop (length p) s) else None)"

text \<open>\<open>Identity.AuditHeaders\<close>.\<close>

definition AuditHeaders :: "Identity \<Rightarrow> (string \<rightharpoonup> string)" where
  "AuditHeaders identity = (\<lambda>h.
     case Option.bind (strip_prefix ''X-CS-Forwarded-'' h) (Forwarded identity) of
       Some v \<Rightarrow> Some v
     | None \<Rightarrow>
         if h = ''X-CS-Subject'' \<and> IdSubject identity \<noteq> [] then Some (IdSubject identity)
         else if h = ''X-CS-Verified'' \<and> Verified identity then Some ''true''
         else None)"

definition publishObservation ::
  "env \<Rightarrow> 's backend \<Rightarrow> context_state \<Rightarrow> string \<Rightarrow> Observation \<Rightarrow> Identity \<Rightarrow> 's gateway \<Rightarrow> gerr option \<times> 's gateway"
where
  "publishObservation X B ctx subject obs identity g =
     (let op = ''publishObservation'' in
      if \<not> PublisherReady g then (Some (WrapTransient op (Plain ''publisher not initialized'')), g)
      else
        let hs = (AuditHeaders identity)(''X-CS-Payload-Type'' \<mapsto> TypeKey X omsType,
               ''X-Trace-ID'' \<mapsto> (if TraceID ctx = [] then NewTraceID ctx else TraceID ctx));
            (e, w) = PublishMsg B subject (EnvelopeText X (observationJson X obs)) hs (World g)
        in (map_option (classifyTransport op) e, g\<lparr>World := w\<rparr>))"

text \<open>The checks of the POST on the body, with the minted ID filled in.\<close>

definition decodeObservationPost :: "env \<Rightarrow> request \<Rightarrow> response + Observation" where
  "decodeObservationPost X r =
     (case ValidateEntityID (Ids X) (PathValue r ''datastreamID'') of
        Some e \<Rightarrow> Inl (writeJSONError [] 400 (''invalid datastream id: '' @ e))
      | None \<Rightarrow>
      (case requireMediaType X (header_get r ''Content-Type'') MediaOMS of
        Some e \<Rightarrow> Inl (writeJSONError [(''Accept-Post'', MediaOMS)] 415 e)
      | None \<Rightarrow>
      (case readBody [] r of
        Inl resp \<Rightarrow> Inl resp
      | Inr body \<Rightarrow>
      (case Option.bind (ParseJson X body) (decodeObservation X) of
        None \<Rightarrow> Inl (writeJSONError [] 400 ''invalid OMS Observation JSON'')
      | Some obs \<Rightarrow>
      (case validateObservation obs of
        Some e \<Rightarrow> Inl (writeJSONError [] 400 e)
      | None \<Rightarrow>
          if OmID obs = [] then Inr (obs\<lparr>OmID := NewUUID (Ids X)\<rparr>)
          else case validateOpaqueResourceID (OmID obs) of
                 Some e \<Rightarrow> Inl (writeJSONError [] 400 (''invalid observation id: '' @ e))
               | None \<Rightarrow> Inr obs)))))"

definition observationSubject :: "env \<Rightarrow> string \<Rightarrow> string" where
  "observationSubject X datastreamID = ObservationsSubjectPrefix (Cfg X) @ ''.'' @ datastreamID"

definition acceptedResponse :: "string \<Rightarrow> string \<Rightarrow> string \<Rightarrow> response" where
  "acceptedResponse datastreamID obsID subject =
     \<lparr>Status = 201,
      Headers = [contentTypeJSON, (''Location'', ''/datastreams/'' @ datastreamID @ ''/observations/'' @ obsID)],
      RespBody = JsonBody (JObj [(''status'', JStr ''accepted''), (''id'', JStr obsID), (''subject'', JStr subject)])\<rparr>"

definition handleObservationsPost ::
  "env \<Rightarrow> 's backend \<Rightarrow> context_state \<Rightarrow> Identity \<Rightarrow> request \<Rightarrow> 's gateway \<Rightarrow> response \<times> 's gateway"
where
  "handleObservationsPost X B ctx identity r g =
     (case decodeObservationPost X r of
        Inl resp \<Rightarrow> (resp, g)
      | Inr obs \<Rightarrow>
          let ds = PathValue r ''datastreamID''; subject = observationSubject X ds in
          (case publishObservation X B ctx subject obs identity g of
             (Some e, g') \<Rightarrow> writeBackendError X [] e g'
           | (None, g') \<Rightarrow> (acceptedResponse ds (OmID obs) subject, g')))"

end
