(* ===== verification/ControlStreams.thy ===== *)
theory ControlStreams
  imports Collections Creations Observations
begin

text \<open>
  \<open>controlstreams.go\<close>: control streams (the command channels of a system) and commands. A control
  stream's command schema is stored as an artifact before the control stream itself; a command is
  one entity. A \<open>map[string]any\<close> is its members in key order, \<open>None\<close> the nil map.
\<close>

section \<open>Resources\<close>

record controlledProperty =
  CpDefinition :: string
  CpLabel :: string
  CpDescription :: string

record controlStream =
  CsID :: string
  CsName :: string
  CsDescription :: string
  CsSystemID :: string
  CsSystemLink :: "link option"
  CsInputName :: string
  CsProperties :: "controlledProperty list option"
  CsIssueTime :: "string option"
  CsExecutionTime :: "string option"
  CsLive :: bool
  CsAsync :: bool
  CsFormats :: "string list"
  CsLinks :: "link list"

record commandSchema =
  CommandFormat :: string
  ParametersSchema :: "(string \<times> goval) list option"

record command =
  CmdID :: string
  CmdType :: string
  CmdControlStreamID :: string
  CmdControlStream :: "link option"
  CmdIssueTime :: string
  CmdExecutionTime :: string
  CmdStatus :: string
  CmdCurrentStatus :: string
  CmdSender :: string
  CmdParams :: string
  CmdLinks :: "link list"

definition controlledPropertyKeys :: "string list" where
  "controlledPropertyKeys = [''definition'', ''label'', ''description'']"

definition decodeControlledProperty :: "json \<Rightarrow> controlledProperty option" where
  "decodeControlledProperty j =
     do { kvs \<leftarrow> struct_members j;
          d \<leftarrow> string_field controlledPropertyKeys kvs ''definition'';
          l \<leftarrow> string_field controlledPropertyKeys kvs ''label'';
          c \<leftarrow> string_field controlledPropertyKeys kvs ''description'';
          Some \<lparr>CpDefinition = d, CpLabel = l, CpDescription = c\<rparr> }"

definition controlledPropertyJson :: "controlledProperty \<Rightarrow> json" where
  "controlledPropertyJson p =
     JObj (omit_empty ''definition'' (CpDefinition p) @ omit_empty ''label'' (CpLabel p) @
           omit_empty ''description'' (CpDescription p))"

text \<open>A nil slice is written as null, a nil time too.\<close>

definition nullable :: "('a \<Rightarrow> json) \<Rightarrow> 'a option \<Rightarrow> json" where
  "nullable enc x = (case x of None \<Rightarrow> JNull | Some v \<Rightarrow> enc v)"

definition controlStreamJson :: "controlStream \<Rightarrow> json" where
  "controlStreamJson cs =
     JObj ([(''id'', JStr (CsID cs)), (''name'', JStr (CsName cs))] @
       omit_empty ''description'' (CsDescription cs) @ omit_empty ''system@id'' (CsSystemID cs) @
       omit_nil ''system@link'' linkJson (CsSystemLink cs) @
       [(''inputName'', JStr (CsInputName cs)),
        (''controlledProperties'', nullable (\<lambda>ps. JArr (map controlledPropertyJson ps)) (CsProperties cs)),
        (''issueTime'', nullable JStr (CsIssueTime cs)), (''executionTime'', nullable JStr (CsExecutionTime cs)),
        (''live'', JBool (CsLive cs)), (''async'', JBool (CsAsync cs)), (''formats'', JArr (map JStr (CsFormats cs)))] @
       omit_list ''links'' linkJson (CsLinks cs))"

definition titled_link :: "string \<Rightarrow> string \<Rightarrow> string \<Rightarrow> link" where
  "titled_link href rel title = \<lparr>LinkHref = href, LinkRel = rel, LinkType = MediaJSON, LinkTitle = title\<rparr>"

definition controlledPropertiesFromTriples :: "env \<Rightarrow> triple list \<Rightarrow> controlledProperty list option" where
  "controlledPropertiesFromTriples X ts =
     (case firstStringObject ts [predControlStreamControlledProperties] of
        None \<Rightarrow> Some []
      | Some v \<Rightarrow>
          if v = [] then Some []
          else (case Option.bind (ParseJson X v) (ptr_member (list_member decodeControlledProperty)) of
                  Some props \<Rightarrow> props
                | None \<Rightarrow> Some []))"

definition controlStreamFromState :: "env \<Rightarrow> entity_state \<Rightarrow> controlStream" where
  "controlStreamFromState X state =
     (let ts = EntityTriples state; i = EntityID state; first = (\<lambda>p. firstStringObject ts [p]);
          self = ''/controlstreams/'' @ i; system = first PredControlStreamSystem in
      \<lparr>CsID = i,
       CsName = (case first PredLabel of Some v \<Rightarrow> v | None \<Rightarrow> i),
       CsDescription = or_empty (first PredDescription),
       CsSystemID = or_empty system,
       CsSystemLink = map_option (\<lambda>v. titled_link (''/systems/'' @ v) ''system'' v) system,
       CsInputName = (case first predControlStreamInputName of Some v \<Rightarrow> v | None \<Rightarrow> ''command''),
       CsProperties = controlledPropertiesFromTriples X ts,
       CsIssueTime = first predControlStreamIssueTime,
       CsExecutionTime = first predControlStreamExecutionTime,
       CsLive = True,
       CsAsync = (first predControlStreamAsync = Some ''true''),
       CsFormats = (case first predControlStreamCommandFormat of
          Some v \<Rightarrow> if v \<noteq> [] then [v] else [MediaJSON] | None \<Rightarrow> [MediaJSON]),
       CsLinks = [json_link self ''self'' MediaJSON, json_link self ''canonical'' MediaJSON,
          json_link (self @ ''/schema'') ''schema'' MediaJSON, json_link (self @ ''/commands'') ''commands'' MediaJSON]\<rparr>)"

definition isControlStreamKind :: "triple list \<Rightarrow> bool" where
  "isControlStreamKind ts \<longleftrightarrow> firstStringObject ts [PredType] = Some ControlStreamIRI"

definition commandFromState :: "entity_state \<Rightarrow> command" where
  "commandFromState state =
     (let ts = EntityTriples state; i = EntityID state; first = (\<lambda>p. firstStringObject ts [p]);
          cs = first PredCommandControlStream;
          status = (case first predCommandStatus of Some v \<Rightarrow> v | None \<Rightarrow> ''accepted'') in
      \<lparr>CmdID = i, CmdType = ''Command'', CmdControlStreamID = or_empty cs,
       CmdControlStream = map_option (\<lambda>v. titled_link (''/controlstreams/'' @ v) ''controlstream'' v) cs,
       CmdIssueTime = or_empty (first predCommandIssueTime),
       CmdExecutionTime = or_empty (first predCommandExecutionTime),
       CmdStatus = status, CmdCurrentStatus = status, CmdSender = or_empty (first predCommandSender),
       CmdParams = or_empty (first predCommandParams),
       CmdLinks = json_link (''/commands/'' @ i) ''canonical'' MediaJSON #
         (case cs of None \<Rightarrow> []
          | Some v \<Rightarrow> [json_link (''/controlstreams/'' @ v @ ''/commands'') ''controlstream'' MediaJSON])\<rparr>)"

definition isCommandKind :: "triple list \<Rightarrow> bool" where
  "isCommandKind ts \<longleftrightarrow> firstStringObject ts [PredType] = Some CommandIRI"

text \<open>A raw member that is kept as text: left out when empty, an encode error when it is not JSON.\<close>

definition raw_member :: "env \<Rightarrow> string \<Rightarrow> string \<Rightarrow> (string \<times> json) list option" where
  "raw_member X k s = (if s = [] then Some [] else map_option (\<lambda>j. [(k, j)]) (ParseJson X s))"

definition commandJson :: "env \<Rightarrow> command \<Rightarrow> json option" where
  "commandJson X c =
     map_option (\<lambda>params.
       JObj ([(''id'', JStr (CmdID c)), (''type'', JStr (CmdType c))] @
         omit_empty ''controlstream@id'' (CmdControlStreamID c) @
         omit_nil ''controlstream@link'' linkJson (CmdControlStream c) @
         omit_empty ''issueTime'' (CmdIssueTime c) @ omit_empty ''executionTime'' (CmdExecutionTime c) @
         omit_empty ''status'' (CmdStatus c) @ omit_empty ''currentStatus'' (CmdCurrentStatus c) @
         omit_empty ''sender'' (CmdSender c) @ params @ omit_list ''links'' linkJson (CmdLinks c)))
       (raw_member X ''params'' (CmdParams c))"

section \<open>Collections\<close>

text \<open>A collection that is its items and one link.\<close>

definition itemsJson :: "string \<Rightarrow> json list \<Rightarrow> json" where
  "itemsJson self items =
     JObj [(''items'', JArr items), (''links'', JArr [linkJson (json_link self ''self'' MediaJSON)])]"

record controlStreamCollectionFilters =
  FControlledProperty :: string
  FCsIssueTime :: string
  FCsExecutionTime :: string

definition controlStreamCollectionFiltersFromQuery :: "request \<Rightarrow> controlStreamCollectionFilters" where
  "controlStreamCollectionFiltersFromQuery r =
     \<lparr>FControlledProperty = queryString r ''controlledProperty'', FCsIssueTime = queryString r ''issueTime'',
      FCsExecutionTime = queryString r ''executionTime''\<rparr>"

definition noControlStreamFilters :: controlStreamCollectionFilters where
  "noControlStreamFilters = \<lparr>FControlledProperty = [], FCsIssueTime = [], FCsExecutionTime = []\<rparr>"

definition controlStreamFiltersActive :: "controlStreamCollectionFilters \<Rightarrow> bool" where
  "controlStreamFiltersActive f \<longleftrightarrow> FControlledProperty f \<noteq> [] \<or> FCsIssueTime f \<noteq> [] \<or> FCsExecutionTime f \<noteq> []"

definition controlledPropertiesContain :: "controlledProperty list option \<Rightarrow> string \<Rightarrow> bool" where
  "controlledPropertiesContain props expected \<longleftrightarrow>
     expected = [] \<or> list_ex (\<lambda>p. CpDefinition p = expected) (case props of None \<Rightarrow> [] | Some ps \<Rightarrow> ps)"

definition controlStreamMatchesFilters :: "env \<Rightarrow> controlStreamCollectionFilters \<Rightarrow> controlStream \<Rightarrow> bool" where
  "controlStreamMatchesFilters X f cs \<longleftrightarrow>
     \<not> (FControlledProperty f \<noteq> [] \<and> \<not> controlledPropertiesContain (CsProperties cs) (FControlledProperty f)) \<and>
     \<not> (FCsIssueTime f \<noteq> [] \<and> \<not> resourceTimeIntersects (Std X) (or_empty (CsIssueTime cs)) (FCsIssueTime f)) \<and>
     \<not> (FCsExecutionTime f \<noteq> [] \<and>
        \<not> resourceTimeIntersects (Std X) (or_empty (CsExecutionTime cs)) (FCsExecutionTime f))"

definition writeControlStreamCollection ::
  "env \<Rightarrow> 's backend \<Rightarrow> request \<Rightarrow> string list \<Rightarrow> string \<Rightarrow> controlStreamCollectionFilters \<Rightarrow> int \<Rightarrow> 's answer"
where
  "writeControlStreamCollection X B r ids systemFilter f limit =
     withBatch X B ids (\<lambda>states.
       encodeBody r [contentTypeJSON] False (Some (itemsJson ''/controlstreams'' (map controlStreamJson
         (collectRows (rowOf isControlStreamKind (controlStreamFromState X)
            (\<lambda>cs. \<not> (systemFilter \<noteq> [] \<and> CsSystemID cs \<noteq> systemFilter) \<and> controlStreamMatchesFilters X f cs))
            states limit ids)))))"

definition handleControlStreams :: "env \<Rightarrow> 's backend \<Rightarrow> request \<Rightarrow> 's answer" where
  "handleControlStreams X B r =
     negotiated X FamilyControlStreamCollection r (\<lambda>_.
     withLimit X r (\<lambda>limit.
       let f = controlStreamCollectionFiltersFromQuery r;
           listLimit = (if controlStreamFiltersActive f then MaxListLimit (Cfg X) else limit) in
     withListed X B ControlStreamIRI listLimit ''listControlStreamEntities'' (\<lambda>ids.
       writeControlStreamCollection X B r ids [] f limit)))"

definition handleSystemControlStreams :: "env \<Rightarrow> 's backend \<Rightarrow> request \<Rightarrow> 's answer" where
  "handleSystemControlStreams X B r =
     negotiated X FamilyControlStreamCollection r (\<lambda>_.
     withValidID X ''system'' (PathValue r ''id'') (
     withLimit X r (\<lambda>limit.
     withListed X B ControlStreamIRI limit ''listSystemControlStreamEntities'' (\<lambda>ids.
       writeControlStreamCollection X B r ids (PathValue r ''id'') noControlStreamFilters limit))))"

record commandCollectionFilters =
  FCmdIssueTime :: string
  FCmdExecutionTime :: string
  FCmdStatus :: string
  FCmdSender :: string

definition commandCollectionFiltersFromQuery :: "request \<Rightarrow> commandCollectionFilters" where
  "commandCollectionFiltersFromQuery r =
     \<lparr>FCmdIssueTime = queryString r ''issueTime'', FCmdExecutionTime = queryString r ''executionTime'',
      FCmdStatus = queryString r ''statusCode'', FCmdSender = queryString r ''sender''\<rparr>"

definition noCommandFilters :: commandCollectionFilters where
  "noCommandFilters = \<lparr>FCmdIssueTime = [], FCmdExecutionTime = [], FCmdStatus = [], FCmdSender = []\<rparr>"

definition commandFiltersActive :: "commandCollectionFilters \<Rightarrow> bool" where
  "commandFiltersActive f \<longleftrightarrow>
     FCmdIssueTime f \<noteq> [] \<or> FCmdExecutionTime f \<noteq> [] \<or> FCmdStatus f \<noteq> [] \<or> FCmdSender f \<noteq> []"

definition commandMatchesFilters :: "env \<Rightarrow> commandCollectionFilters \<Rightarrow> command \<Rightarrow> bool" where
  "commandMatchesFilters X f c \<longleftrightarrow>
     \<not> (FCmdIssueTime f \<noteq> [] \<and> \<not> resourceTimeIntersects (Std X) (CmdIssueTime c) (FCmdIssueTime f)) \<and>
     \<not> (FCmdExecutionTime f \<noteq> [] \<and> \<not> resourceTimeIntersects (Std X) (CmdExecutionTime c) (FCmdExecutionTime f)) \<and>
     \<not> (FCmdStatus f \<noteq> [] \<and> CmdStatus c \<noteq> FCmdStatus f \<and> CmdCurrentStatus c \<noteq> FCmdStatus f) \<and>
     \<not> (FCmdSender f \<noteq> [] \<and> CmdSender c \<noteq> FCmdSender f)"

definition commandCollectionJson :: "env \<Rightarrow> string \<Rightarrow> command list \<Rightarrow> json option" where
  "commandCollectionJson X self cs = map_option (itemsJson self) (those (map (commandJson X) cs))"

definition writeCommandCollection ::
  "env \<Rightarrow> 's backend \<Rightarrow> request \<Rightarrow> string list \<Rightarrow> string \<Rightarrow> string \<Rightarrow> commandCollectionFilters \<Rightarrow> int \<Rightarrow> 's answer"
where
  "writeCommandCollection X B r ids controlStreamFilter selfHref f limit =
     withBatch X B ids (\<lambda>states.
       encodeBody r [contentTypeJSON] False (commandCollectionJson X selfHref
         (collectRows (rowOf isCommandKind commandFromState
            (\<lambda>c. \<not> (controlStreamFilter \<noteq> [] \<and> CmdControlStreamID c \<noteq> controlStreamFilter) \<and> commandMatchesFilters X f c))
            states limit ids)))"

definition handleCommands :: "env \<Rightarrow> 's backend \<Rightarrow> request \<Rightarrow> 's answer" where
  "handleCommands X B r =
     negotiated X FamilyControlStreamCollection r (\<lambda>_.
     withLimit X r (\<lambda>limit.
       let f = commandCollectionFiltersFromQuery r;
           listLimit = (if commandFiltersActive f then MaxListLimit (Cfg X) else limit) in
     withListed X B CommandIRI listLimit ''listCommandEntities'' (\<lambda>ids.
       writeCommandCollection X B r ids [] ''/commands'' f limit)))"

definition handleControlStreamCommands :: "env \<Rightarrow> 's backend \<Rightarrow> request \<Rightarrow> 's answer" where
  "handleControlStreamCommands X B r =
     (let i = PathValue r ''id'' in
     negotiated X FamilyControlStreamCollection r (\<lambda>_.
     withValidID X ''controlstream'' i (
     withLimit X r (\<lambda>limit.
     withEntity X B isControlStreamKind ''entity is not a ControlStream'' i (\<lambda>_.
     withListed X B CommandIRI (MaxListLimit (Cfg X)) ''listControlStreamCommandEntities'' (\<lambda>ids.
       writeCommandCollection X B r ids i (''/controlstreams/'' @ i @ ''/commands'') noCommandFilters limit))))))"

section \<open>Items\<close>

definition handleControlStream :: "env \<Rightarrow> 's backend \<Rightarrow> request \<Rightarrow> 's answer" where
  "handleControlStream X B r =
     negotiated X FamilyControlStreamItem r (\<lambda>_.
     withValidID X ''controlstream'' (PathValue r ''id'') (
     withEntity X B isControlStreamKind ''entity is not a ControlStream'' (PathValue r ''id'') (\<lambda>state.
       encodeBody r [contentTypeJSON, lossy] False (Some (controlStreamJson (controlStreamFromState X state))))))"

definition handleCommand :: "env \<Rightarrow> 's backend \<Rightarrow> request \<Rightarrow> 's answer" where
  "handleCommand X B r =
     negotiated X FamilyControlStreamItem r (\<lambda>_.
     withValidID X ''command'' (PathValue r ''id'') (
     withEntity X B isCommandKind ''entity is not a Command'' (PathValue r ''id'') (\<lambda>state.
       encodeBody r [contentTypeJSON] False (commandJson X (commandFromState state)))))"

section \<open>Command schemas\<close>

text \<open>\<open>json.Marshal\<close> of a map that came from a document does not fail.\<close>

definition parametersJson :: "env \<Rightarrow> commandSchema \<Rightarrow> json" where
  "parametersJson X schema = nullable (\<lambda>kvs. marshalGo (JsonFloat X) (GMap kvs)) (ParametersSchema schema)"

definition commandSchemaJson :: "env \<Rightarrow> commandSchema \<Rightarrow> json" where
  "commandSchemaJson X schema =
     JObj [(''commandFormat'', JStr (CommandFormat schema)), (''parametersSchema'', parametersJson X schema)]"

definition normalizeCommandSchema :: "env \<Rightarrow> commandSchema \<Rightarrow> string + commandSchema" where
  "normalizeCommandSchema X schema =
     (let format = (if CommandFormat schema = [] then MediaJSON else CommandFormat schema) in
      if ParametersSchema schema = None then Inl ''parametersSchema required''
      else case UnmarshalSchema (parametersJson X schema) of
        Inl e \<Rightarrow> Inl ''invalid schema''
      | Inr r \<Rightarrow>
      (case MarshalSchema (Some r) of
        Inl e \<Rightarrow> Inl ''invalid schema''
      | Inr canon \<Rightarrow>
      (case decodeMap X canon of
        None \<Rightarrow> Inl ''decode canonical parametersSchema''
      | Some params \<Rightarrow> Inr \<lparr>CommandFormat = format, ParametersSchema = params\<rparr>)))"

definition commandParametersSchemaRaw :: "env \<Rightarrow> commandSchema \<Rightarrow> string" where
  "commandParametersSchemaRaw X schema = JsonText X (parametersJson X schema)"

definition stringAny :: "goval option \<Rightarrow> string" where
  "stringAny v = (case v of Some (GStr s) \<Rightarrow> s | _ \<Rightarrow> [])"

definition controlledPropertiesFromSchema :: "commandSchema \<Rightarrow> controlledProperty list" where
  "controlledPropertiesFromSchema schema =
     (case Option.bind (ParametersSchema schema) (\<lambda>kvs. map_of kvs ''fields'') of
        Some (GArr fs) \<Rightarrow>
          List.map_filter (\<lambda>v. case v of
             GMap m \<Rightarrow> Some \<lparr>CpDefinition = stringAny (map_of m ''definition''), CpLabel = stringAny (map_of m ''label''),
                        CpDescription = stringAny (map_of m ''description'')\<rparr>
           | _ \<Rightarrow> None) fs
      | _ \<Rightarrow> [])"

definition controlStreamSchemaFromState ::
  "env \<Rightarrow> 's backend \<Rightarrow> entity_state \<Rightarrow> 's gateway \<Rightarrow> (gerr + commandSchema) \<times> 's gateway"
where
  "controlStreamSchemaFromState X B state g =
     (let ts = EntityTriples state;
          format = (case firstStringObject ts [predControlStreamCommandFormat] of
             Some v \<Rightarrow> if v \<noteq> [] then v else MediaJSON | None \<Rightarrow> MediaJSON) in
      case readSchemaArtifact X B ts predControlStreamSchema g of
        (Inl e, g') \<Rightarrow> (Inl e, g')
      | (Inr None, g') \<Rightarrow>
          (Inr \<lparr>CommandFormat = format,
                ParametersSchema = Some [(''fields'', GArr []), (''type'', GStr ''DataRecord'')]\<rparr>, g')
      | (Inr (Some raw), g') \<Rightarrow>
          (case Option.bind (ParseJson X raw) (decodeMap X) of
             None \<Rightarrow> (Inl (Plain ''decode command schema artifact''), g')
           | Some params \<Rightarrow>
               (case normalizeCommandSchema X \<lparr>CommandFormat = format, ParametersSchema = params\<rparr> of
                  Inl e \<Rightarrow> (Inl (Plain e), g')
                | Inr schema \<Rightarrow> (Inr schema, g'))))"

text \<open>A HEAD of the schema does not read it.\<close>

definition handleControlStreamSchema :: "env \<Rightarrow> 's backend \<Rightarrow> request \<Rightarrow> 's answer" where
  "handleControlStreamSchema X B r =
     withValidID X ''controlstream'' (PathValue r ''id'') (
     withEntity X B isControlStreamKind ''entity is not a ControlStream'' (PathValue r ''id'') (\<lambda>state g.
       if Method r = ''HEAD'' then (okResponse r [contentTypeJSON] NoBody, g)
       else (case controlStreamSchemaFromState X B state g of
               (Inl e, g') \<Rightarrow> writeBackendError X [] e g'
             | (Inr schema, g') \<Rightarrow> encodeBody r [contentTypeJSON] False (Some (commandSchemaJson X schema)) g')))"

section \<open>POST of a control stream\<close>

record controlStreamPostBody =
  PbID :: string
  PbName :: string
  PbDescription :: string
  PbSystemID :: string
  PbInputName :: string
  PbProperties :: "controlledProperty list"
  PbIssueTime :: string
  PbExecutionTime :: string
  PbAsync :: bool
  PbSchema :: commandSchema

definition emptyCommandSchema :: commandSchema where
  "emptyCommandSchema = \<lparr>CommandFormat = [], ParametersSchema = None\<rparr>"

definition commandSchemaKeys :: "string list" where
  "commandSchemaKeys = [''commandFormat'', ''parametersSchema'']"

definition decodeCommandSchema :: "env \<Rightarrow> json \<Rightarrow> commandSchema option" where
  "decodeCommandSchema X j =
     do { kvs \<leftarrow> struct_members j;
          f \<leftarrow> string_field commandSchemaKeys kvs ''commandFormat'';
          p \<leftarrow> bind_last (decodeMap X) None (field_values commandSchemaKeys kvs ''parametersSchema'');
          Some \<lparr>CommandFormat = f, ParametersSchema = p\<rparr> }"

fun last_bool :: "json list \<Rightarrow> bool \<Rightarrow> bool option" where
  "last_bool [] acc = Some acc"
| "last_bool (JBool b # r) acc = last_bool r b"
| "last_bool (JNull # r) acc = last_bool r acc"
| "last_bool (x # r) acc = None"

definition controlStreamPostKeys :: "string list" where
  "controlStreamPostKeys = [''id'', ''name'', ''description'', ''system@id'', ''inputName'', ''controlledProperties'',
     ''issueTime'', ''executionTime'', ''async'', ''schema'']"

definition decodeControlStreamPost :: "env \<Rightarrow> json \<Rightarrow> controlStreamPostBody option" where
  "decodeControlStreamPost X j =
     do { kvs \<leftarrow> struct_members j;
          i \<leftarrow> string_field controlStreamPostKeys kvs ''id'';
          n \<leftarrow> string_field controlStreamPostKeys kvs ''name'';
          d \<leftarrow> string_field controlStreamPostKeys kvs ''description'';
          s \<leftarrow> string_field controlStreamPostKeys kvs ''system@id'';
          inp \<leftarrow> string_field controlStreamPostKeys kvs ''inputName'';
          ps \<leftarrow> list_field decodeControlledProperty controlStreamPostKeys kvs ''controlledProperties'';
          it \<leftarrow> string_field controlStreamPostKeys kvs ''issueTime'';
          et \<leftarrow> string_field controlStreamPostKeys kvs ''executionTime'';
          a \<leftarrow> last_bool (field_values controlStreamPostKeys kvs ''async'') False;
          sch \<leftarrow> bind_last (decodeCommandSchema X) emptyCommandSchema (field_values controlStreamPostKeys kvs ''schema'');
          Some \<lparr>PbID = i, PbName = n, PbDescription = d, PbSystemID = s, PbInputName = inp, PbProperties = ps,
                PbIssueTime = it, PbExecutionTime = et, PbAsync = a, PbSchema = sch\<rparr> }"

definition mintControlStreamEntityID :: "env \<Rightarrow> string \<Rightarrow> string" where
  "mintControlStreamEntityID X uniqueID = mintEntityID (Ids X) (ControlStreamIDPrefix (Cfg X)) uniqueID"

definition mintCommandEntityID :: "env \<Rightarrow> string \<Rightarrow> string" where
  "mintCommandEntityID X uniqueID = mintEntityID (Ids X) (CommandIDPrefix (Cfg X)) uniqueID"

definition controlStreamTriples :: "env \<Rightarrow> string \<Rightarrow> controlStreamPostBody \<Rightarrow> commandSchema \<Rightarrow> triple list" where
  "controlStreamTriples X eid b schema =
     (let props = (if PbProperties b = [] then controlledPropertiesFromSchema schema else PbProperties b) in
      [str_triple eid PredType ControlStreamIRI,
       str_triple eid PredLabel (PbName b),
       str_triple eid predControlStreamInputName (PbInputName b),
       str_triple eid predControlStreamAsync (if PbAsync b then ''true'' else ''false''),
       str_triple eid predControlStreamCommandFormat (CommandFormat schema),
       str_triple eid predControlStreamControlledProperties (JsonText X (JArr (map controlledPropertyJson props)))] @
      opt_triple eid PredDescription (PbDescription b) @
      (if PbSystemID b \<noteq> [] then [ref_triple X eid PredControlStreamSystem (PbSystemID b)] else []) @
      opt_triple eid predControlStreamIssueTime (PbIssueTime b) @
      opt_triple eid predControlStreamExecutionTime (PbExecutionTime b))"

definition buildControlStreamTriples :: "env \<Rightarrow> string \<Rightarrow> string + (string \<times> triple list \<times> commandSchema)" where
  "buildControlStreamTriples X body =
     (case Option.bind (ParseJson X body) (decodeControlStreamPost X) of
        None \<Rightarrow> Inl ''invalid control stream JSON''
      | Some b \<Rightarrow>
          if PbName b = [] then Inl ''name required''
          else if PbInputName b = [] then Inl ''inputName required''
          else if PbSystemID b \<noteq> [] \<and> ValidateEntityID (Ids X) (PbSystemID b) \<noteq> None then Inl ''system@id invalid''
          else
          (let entityID = (if PbID b = [] then mintControlStreamEntityID X (PbName b @ ''-'' @ PbInputName b) else PbID b) in
           if ValidateEntityID (Ids X) entityID \<noteq> None then Inl ''id invalid''
           else case normalizeCommandSchema X (PbSchema b) of
             Inl e \<Rightarrow> Inl ''schema invalid''
           | Inr schema \<Rightarrow> Inr (entityID, controlStreamTriples X entityID b schema, schema)))"

text \<open>Everything before the first effect: the refusal, or the ID, the triples and the schema.\<close>

definition decodeControlStreamRequest :: "env \<Rightarrow> request \<Rightarrow> response + (string \<times> triple list \<times> commandSchema)" where
  "decodeControlStreamRequest X r =
     (case requireMediaTypeAny X (header_get r ''Content-Type'') [MediaJSON] of
        Some e \<Rightarrow> Inl (writeJSONError [(''Accept-Post'', MediaJSON)] 415 e)
      | None \<Rightarrow>
      (case readBody [] r of
        Inl resp \<Rightarrow> Inl resp
      | Inr body \<Rightarrow>
      (case buildControlStreamTriples X body of
        Inl e \<Rightarrow> Inl (writeJSONError [] 400 e)
      | Inr built \<Rightarrow> Inr built)))"

definition handleControlStreamPost ::
  "env \<Rightarrow> 's backend \<Rightarrow> context_state \<Rightarrow> Identity \<Rightarrow> request \<Rightarrow> 's answer"
where
  "handleControlStreamPost X B ctx identity r g =
     (case decodeControlStreamRequest X r of
        Inl resp \<Rightarrow> (resp, g)
      | Inr (entityID, triples, schema) \<Rightarrow>
          let hs = [attemptedID entityID] in
          (case createSchemaArtifact X B ctx entityID predControlStreamSchema (commandParametersSchemaRaw X schema) identity g of
             (Inl e, g1) \<Rightarrow> writeBackendError X hs e g1
           | (Inr rel, g1) \<Rightarrow>
               (case ingestTriples X B ctx (triples @ [rel]) identity g1 of
                  (Inl e, g2) \<Rightarrow> writeBackendError X hs e g2
                | (Inr _, g2) \<Rightarrow>
                    (createdResponse [] (''/controlstreams/'' @ entityID) entityID ''ControlStream'', g2))))"

section \<open>POST of a command\<close>

text \<open>A raw field is its value, \<open>None\<close> when it is absent; it is JSON because the body is.\<close>

record commandPostBody =
  CbID :: string
  CbControlStreamID :: string
  CbIssueTime :: string
  CbExecutionTime :: string
  CbStatus :: string
  CbSender :: string
  CbParams :: "json option"

definition commandPostKeys :: "string list" where
  "commandPostKeys = [''id'', ''controlstream@id'', ''issueTime'', ''executionTime'', ''status'', ''sender'', ''params'']"

definition decodeCommandPost :: "json \<Rightarrow> commandPostBody option" where
  "decodeCommandPost j =
     do { kvs \<leftarrow> struct_members j;
          i \<leftarrow> string_field commandPostKeys kvs ''id'';
          cs \<leftarrow> string_field commandPostKeys kvs ''controlstream@id'';
          it \<leftarrow> string_field commandPostKeys kvs ''issueTime'';
          et \<leftarrow> string_field commandPostKeys kvs ''executionTime'';
          st \<leftarrow> string_field commandPostKeys kvs ''status'';
          sn \<leftarrow> string_field commandPostKeys kvs ''sender'';
          Some \<lparr>CbID = i, CbControlStreamID = cs, CbIssueTime = it, CbExecutionTime = et, CbStatus = st,
                CbSender = sn, CbParams = raw_field commandPostKeys kvs ''params''\<rparr> }"

text \<open>The triple of a raw field that is there and not null.\<close>

definition raw_triple :: "env \<Rightarrow> string \<Rightarrow> string \<Rightarrow> json option \<Rightarrow> triple list" where
  "raw_triple X eid p v =
     (case v of None \<Rightarrow> [] | Some j \<Rightarrow> if j = JNull then [] else [str_triple eid p (JsonText X j)])"

definition commandTriples :: "env \<Rightarrow> string \<Rightarrow> commandPostBody \<Rightarrow> triple list" where
  "commandTriples X eid b =
     [str_triple eid PredType CommandIRI,
      ref_triple X eid PredCommandControlStream (CbControlStreamID b),
      str_triple eid predCommandStatus (if CbStatus b = [] then ''accepted'' else CbStatus b)] @
     opt_triple eid predCommandIssueTime (CbIssueTime b) @
     opt_triple eid predCommandExecutionTime (CbExecutionTime b) @
     opt_triple eid predCommandSender (CbSender b) @
     raw_triple X eid predCommandParams (CbParams b)"

definition buildCommandTriples :: "env \<Rightarrow> string \<Rightarrow> string + string \<times> triple list" where
  "buildCommandTriples X body =
     (case Option.bind (ParseJson X body) decodeCommandPost of
        None \<Rightarrow> Inl ''invalid command JSON''
      | Some b \<Rightarrow>
          if CbControlStreamID b = [] then Inl ''controlstream@id required''
          else if ValidateEntityID (Ids X) (CbControlStreamID b) \<noteq> None then Inl ''controlstream@id invalid''
          else
          (let entityID = (if CbID b = [] then mintCommandEntityID X (CbControlStreamID b) else CbID b) in
           if ValidateEntityID (Ids X) entityID \<noteq> None then Inl ''id invalid''
           else Inr (entityID, commandTriples X entityID b)))"

definition handleCommandPost :: "env \<Rightarrow> 's backend \<Rightarrow> context_state \<Rightarrow> Identity \<Rightarrow> request \<Rightarrow> 's answer" where
  "handleCommandPost X B ctx identity r =
     createFromBody X B ctx identity r [MediaJSON] (buildCommandTriples X) ''/commands/'' ''Command''"

section \<open>OPTIONS\<close>

definition handleControlStreamsOptions :: response where
  "handleControlStreamsOptions = noContent [(''Allow'', ''GET, HEAD, POST, OPTIONS'')]"

definition handleControlStreamOptions :: response where
  "handleControlStreamOptions = noContent [(''Allow'', ''GET, HEAD, OPTIONS'')]"

definition handleCommandsOptions :: response where
  "handleCommandsOptions = noContent [(''Allow'', ''GET, HEAD, POST, OPTIONS'')]"

end
