(* ===== verification/FeatureViews.thy ===== *)
theory FeatureViews
  imports ControlStreams
begin

text \<open>
  What deployments, procedures, sampling features and systems have in common when they are read: the
  \<open>properties\<close> of a Feature (\<open>systems.go\<close>, \<open>sampling_features.go\<close>), the collections with their counts,
  the GeoJSON collections, and the SensorML documents (\<open>sensorml.go\<close>).
\<close>

section \<open>Feature properties\<close>

record featureProperties =
  FpUID :: string
  FpName :: string
  FpDescription :: string
  FpDeployedSystems :: "link list"
  FpHostedProcedure :: "link option"

definition emptyFeatureProperties :: featureProperties where
  "emptyFeatureProperties = \<lparr>FpUID = [], FpName = [], FpDescription = [], FpDeployedSystems = [], FpHostedProcedure = None\<rparr>"

definition featurePropertiesJson :: "featureProperties \<Rightarrow> json" where
  "featurePropertiesJson p =
     JObj (omit_empty ''uid'' (FpUID p) @ omit_empty ''name'' (FpName p) @ omit_empty ''description'' (FpDescription p) @
       omit_list ''deployedSystems@link'' linkJson (FpDeployedSystems p) @
       omit_nil ''hostedProcedure@link'' linkJson (FpHostedProcedure p))"

text \<open>The properties an entity has because it has a uid.\<close>

definition uidProperties :: "triple list \<Rightarrow> featureProperties option" where
  "uidProperties ts =
     map_option (\<lambda>v. emptyFeatureProperties\<lparr>FpUID := v, FpName := or_empty (firstStringObject ts [PredLabel]),
         FpDescription := or_empty (firstStringObject ts [PredDescription])\<rparr>)
       (firstStringObject ts [PredUniqueID])"

definition orEmptyProperties :: "featureProperties option \<Rightarrow> featureProperties" where
  "orEmptyProperties p = (case p of None \<Rightarrow> emptyFeatureProperties | Some q \<Rightarrow> q)"

text \<open>The \<open>map[string]any\<close> of a GeoJSON Feature, in key order.\<close>

definition geoJSONFeaturePropertiesFromState :: "string \<Rightarrow> entity_state \<Rightarrow> (string \<times> json) list" where
  "geoJSONFeaturePropertiesFromState featureType state =
     (let put = (\<lambda>k p m. case firstStringObject (EntityTriples state) [p] of None \<Rightarrow> m | Some v \<Rightarrow> member_put k (JStr v) m) in
      put ''description'' PredDescription (put ''name'' PredLabel (put ''uid'' PredUniqueID
        [(''featureType'', JStr featureType)])))"

section \<open>Counted collections\<close>

definition countedJson :: "string \<Rightarrow> string \<Rightarrow> json list \<Rightarrow> bool \<Rightarrow> link list \<Rightarrow> json" where
  "countedJson typ key items truncated links =
     JObj ([(''type'', JStr typ),
         (''numberMatched'', JNum (format_int (int (length items)))),
         (''numberReturned'', JNum (format_int (int (length items))))] @
       (if truncated then [(''truncated'', JBool True)] else []) @
       [(key, JArr items), (''links'', JArr (map linkJson links))])"

definition refJson :: "string \<Rightarrow> string \<Rightarrow> link list \<Rightarrow> json" where
  "refJson typ i links = JObj ([(''id'', JStr i), (''type'', JStr typ)] @ omit_list ''links'' linkJson links)"

text \<open>A Feature of a GeoJSON collection: its geometry is a raw member, null when there is none.\<close>

definition geoFeatureJson :: "string \<Rightarrow> json \<Rightarrow> (string \<times> json) list \<Rightarrow> link list \<Rightarrow> json" where
  "geoFeatureJson i geometry props links =
     JObj ([(''type'', JStr ''Feature''), (''id'', JStr i), (''geometry'', geometry), (''properties'', JObj props)] @
       omit_list ''links'' linkJson links)"

definition selfLinks :: "string \<Rightarrow> link list" where
  "selfLinks href = [json_link href ''self'' MediaJSON, json_link href ''canonical'' MediaJSON]"

definition contentTypeGeoJSON :: "string \<times> string" where
  "contentTypeGeoJSON = (''Content-Type'', MediaGeoJSON)"

text \<open>The position of an entity as a raw geometry; a stored text that is not JSON cannot be encoded.\<close>

definition storedGeometry :: "env \<Rightarrow> triple list \<Rightarrow> json option" where
  "storedGeometry X ts =
     (case firstStringObject ts [PredPosition] of
        None \<Rightarrow> Some JNull
      | Some v \<Rightarrow> if v = [] then Some JNull else ParseJson X v)"

section \<open>SensorML documents\<close>

text \<open>\<open>marshalSensorMLResource\<close>: the links become a member of the document, read back as a map.\<close>

definition marshalSensorMLResource :: "env \<Rightarrow> Process \<Rightarrow> link list \<Rightarrow> json option" where
  "marshalSensorMLResource X p links =
     (case MarshalProcess (JsonFloat X) p of
        None \<Rightarrow> None
      | Some doc \<Rightarrow>
          if links = [] then Some doc
          else (case decodeMap X doc of
                  Some (Some m) \<Rightarrow>
                    Some (JObj (member_put ''links'' (JArr (map linkJson links))
                      (map (\<lambda>(k, v). (k, marshalGo (JsonFloat X) v)) m)))
                | _ \<Rightarrow> None))"

text \<open>A document that was marshalled before the status is written.\<close>

definition mediaHeader :: "MediaType \<Rightarrow> string \<times> string" where
  "mediaHeader media = (''Content-Type'', media)"

definition writeDocument :: "env \<Rightarrow> request \<Rightarrow> (string \<times> string) list \<Rightarrow> gerr + json \<Rightarrow> 's answer" where
  "writeDocument X r hs doc g =
     (case doc of
        Inl e \<Rightarrow> writeBackendError X [] e g
      | Inr j \<Rightarrow> (okResponse r hs (JsonBody j), g))"

text \<open>An entity as a SensorML document: the reverse mapping, then the links.\<close>

definition sensorMLDocument :: "env \<Rightarrow> string \<Rightarrow> entity_state \<Rightarrow> link list \<Rightarrow> gerr + json" where
  "sensorMLDocument X op state links =
     (case processReconstructionFromState state of
        Inl e \<Rightarrow> Inl (Wrap op (Plain ''reverse mapping''))
      | Inr p \<Rightarrow>
          (case marshalSensorMLResource X p links of
             None \<Rightarrow> Inl (Wrap op (Plain ''marshal sensorml''))
           | Some j \<Rightarrow> Inr j))"

end
