(* ===== verification/Feasibility.thy ===== *)
theory Feasibility
  imports ControlStreams
begin

text \<open>\<open>feasibility.go\<close>: feasibility resources, the recorded result of a command's preflight.\<close>

section \<open>The resource\<close>

record feasibility =
  FeasID :: string
  FeasType :: string
  FeasControlStreamID :: string
  FeasControlStream :: "link option"
  FeasStatus :: string
  FeasParams :: string
  FeasParameters :: string
  FeasResult :: string
  FeasLinks :: "link list"

definition feasibilityFromState :: "entity_state \<Rightarrow> feasibility" where
  "feasibilityFromState state =
     (let ts = EntityTriples state; i = EntityID state; first = (\<lambda>p. firstStringObject ts [p]);
          self = ''/feasibility/'' @ i; cs = first PredFeasibilityControlStream;
          params = or_empty (first predFeasibilityParams) in
      \<lparr>FeasID = i, FeasType = ''Feasibility'', FeasControlStreamID = or_empty cs,
       FeasControlStream = map_option (\<lambda>v. titled_link (''/controlstreams/'' @ v) ''controlstream'' v) cs,
       FeasStatus = (case first predFeasibilityStatus of Some v \<Rightarrow> v | None \<Rightarrow> ''accepted''),
       FeasParams = params, FeasParameters = params, FeasResult = or_empty (first predFeasibilityResult),
       FeasLinks = [json_link self ''self'' MediaJSON, json_link self ''canonical'' MediaJSON,
          json_link (self @ ''/status'') ''status'' MediaJSON, json_link (self @ ''/result'') ''result'' MediaJSON] @
         (case cs of None \<Rightarrow> []
          | Some v \<Rightarrow> [json_link (''/controlstream/'' @ v @ ''/feasibility'') ''controlstream-feasibility'' MediaJSON])\<rparr>)"

definition isFeasibilityKind :: "triple list \<Rightarrow> bool" where
  "isFeasibilityKind ts \<longleftrightarrow> firstStringObject ts [PredType] = Some FeasibilityIRI"

definition feasibilityJson :: "env \<Rightarrow> feasibility \<Rightarrow> json option" where
  "feasibilityJson X f =
     do { params \<leftarrow> raw_member X ''params'' (FeasParams f);
          parameters \<leftarrow> raw_member X ''parameters'' (FeasParameters f);
          result \<leftarrow> raw_member X ''result'' (FeasResult f);
          Some (JObj ([(''id'', JStr (FeasID f)), (''type'', JStr (FeasType f))] @
            omit_empty ''controlstream@id'' (FeasControlStreamID f) @
            omit_nil ''controlstream@link'' linkJson (FeasControlStream f) @
            omit_empty ''status'' (FeasStatus f) @ params @ parameters @ result @
            omit_list ''links'' linkJson (FeasLinks f))) }"

section \<open>GET\<close>

definition writeFeasibilityCollection ::
  "env \<Rightarrow> 's backend \<Rightarrow> request \<Rightarrow> string list \<Rightarrow> string \<Rightarrow> string \<Rightarrow> int \<Rightarrow> 's answer"
where
  "writeFeasibilityCollection X B r ids controlStreamFilter selfHref limit =
     withBatch X B ids (\<lambda>states.
       encodeBody r [contentTypeJSON] False (map_option (itemsJson selfHref) (those (map (feasibilityJson X)
         (collectRows (rowOf isFeasibilityKind feasibilityFromState
            (\<lambda>f. \<not> (controlStreamFilter \<noteq> [] \<and> FeasControlStreamID f \<noteq> controlStreamFilter))) states limit ids)))))"

definition handleFeasibilities :: "env \<Rightarrow> 's backend \<Rightarrow> request \<Rightarrow> 's answer" where
  "handleFeasibilities X B r =
     negotiated X FamilyFeasibilityCollection r (\<lambda>_.
     withLimit X r (\<lambda>limit.
     withListed X B FeasibilityIRI limit ''listFeasibilityEntities'' (\<lambda>ids.
       writeFeasibilityCollection X B r ids [] ''/feasibility'' limit)))"

definition handleControlStreamFeasibility :: "env \<Rightarrow> 's backend \<Rightarrow> request \<Rightarrow> 's answer" where
  "handleControlStreamFeasibility X B r =
     (let i = PathValue r ''id'' in
     negotiated X FamilyFeasibilityCollection r (\<lambda>_.
     withValidID X ''controlstream'' i (
     withLimit X r (\<lambda>limit.
     withEntity X B isControlStreamKind ''entity is not a ControlStream'' i (\<lambda>_.
     withListed X B FeasibilityIRI (MaxListLimit (Cfg X)) ''listControlStreamFeasibilityEntities'' (\<lambda>ids.
       writeFeasibilityCollection X B r ids i (''/controlstream/'' @ i @ ''/feasibility'') limit))))))"

definition handleFeasibility :: "env \<Rightarrow> 's backend \<Rightarrow> request \<Rightarrow> 's answer" where
  "handleFeasibility X B r =
     negotiated X FamilyFeasibilityItem r (\<lambda>_.
     withValidID X ''feasibility'' (PathValue r ''id'') (
     withEntity X B isFeasibilityKind ''entity is not a Feasibility resource'' (PathValue r ''id'') (\<lambda>state.
       encodeBody r [contentTypeJSON] False (feasibilityJson X (feasibilityFromState state)))))"

definition fetchFeasibilityForSubresource ::
  "env \<Rightarrow> 's backend \<Rightarrow> request \<Rightarrow> (feasibility \<Rightarrow> 's answer) \<Rightarrow> 's answer"
where
  "fetchFeasibilityForSubresource X B r k =
     withValidID X ''feasibility'' (PathValue r ''id'') (
     withEntity X B isFeasibilityKind ''entity is not a Feasibility resource'' (PathValue r ''id'') (\<lambda>state.
       k (feasibilityFromState state)))"

definition handleFeasibilityStatus :: "env \<Rightarrow> 's backend \<Rightarrow> request \<Rightarrow> 's answer" where
  "handleFeasibilityStatus X B r =
     negotiated X FamilyFeasibilityCollection r (\<lambda>_.
     fetchFeasibilityForSubresource X B r (\<lambda>f.
       encodeBody r [contentTypeJSON] False (Some (itemsJson (''/feasibility/'' @ FeasID f @ ''/status'')
         [JObj [(''status'', JStr (FeasStatus f))]]))))"

definition handleFeasibilityResult :: "env \<Rightarrow> 's backend \<Rightarrow> request \<Rightarrow> 's answer" where
  "handleFeasibilityResult X B r =
     negotiated X FamilyFeasibilityCollection r (\<lambda>_.
     fetchFeasibilityForSubresource X B r (\<lambda>f.
       encodeBody r [contentTypeJSON] False (map_option (itemsJson (''/feasibility/'' @ FeasID f @ ''/result''))
         (if FeasResult f = [] then Some [] else map_option (\<lambda>j. [j]) (ParseJson X (FeasResult f))))))"

section \<open>POST\<close>

record feasibilityPostBody =
  FbID :: string
  FbControlStreamID :: string
  FbStatus :: string
  FbParams :: "json option"
  FbParameters :: "json option"
  FbResult :: "json option"

definition feasibilityPostKeys :: "string list" where
  "feasibilityPostKeys = [''id'', ''controlstream@id'', ''status'', ''params'', ''parameters'', ''result'']"

definition decodeFeasibilityPost :: "json \<Rightarrow> feasibilityPostBody option" where
  "decodeFeasibilityPost j =
     do { kvs \<leftarrow> struct_members j;
          i \<leftarrow> string_field feasibilityPostKeys kvs ''id'';
          cs \<leftarrow> string_field feasibilityPostKeys kvs ''controlstream@id'';
          st \<leftarrow> string_field feasibilityPostKeys kvs ''status'';
          Some \<lparr>FbID = i, FbControlStreamID = cs, FbStatus = st, FbParams = raw_field feasibilityPostKeys kvs ''params'',
                FbParameters = raw_field feasibilityPostKeys kvs ''parameters'',
                FbResult = raw_field feasibilityPostKeys kvs ''result''\<rparr> }"

definition mintFeasibilityEntityID :: "env \<Rightarrow> string \<Rightarrow> string" where
  "mintFeasibilityEntityID X uniqueID = mintEntityID (Ids X) (FeasibilityIDPrefix (Cfg X)) uniqueID"

definition feasibilityTriples :: "env \<Rightarrow> string \<Rightarrow> feasibilityPostBody \<Rightarrow> triple list" where
  "feasibilityTriples X eid b =
     [str_triple eid PredType FeasibilityIRI,
      ref_triple X eid PredFeasibilityControlStream (FbControlStreamID b),
      str_triple eid predFeasibilityStatus (if FbStatus b = [] then ''accepted'' else FbStatus b)] @
     raw_triple X eid predFeasibilityParams (case FbParams b of None \<Rightarrow> FbParameters b | Some j \<Rightarrow> Some j) @
     raw_triple X eid predFeasibilityResult (FbResult b)"

definition buildFeasibilityTriples :: "env \<Rightarrow> string \<Rightarrow> string + string \<times> triple list" where
  "buildFeasibilityTriples X body =
     (case Option.bind (ParseJson X body) decodeFeasibilityPost of
        None \<Rightarrow> Inl ''invalid feasibility JSON''
      | Some b \<Rightarrow>
          if FbControlStreamID b = [] then Inl ''controlstream@id required''
          else if ValidateEntityID (Ids X) (FbControlStreamID b) \<noteq> None then Inl ''controlstream@id invalid''
          else
          (let entityID = (if FbID b = [] then mintFeasibilityEntityID X (FbControlStreamID b) else FbID b) in
           if ValidateEntityID (Ids X) entityID \<noteq> None then Inl ''id invalid''
           else Inr (entityID, feasibilityTriples X entityID b)))"

definition handleFeasibilityPost :: "env \<Rightarrow> 's backend \<Rightarrow> context_state \<Rightarrow> Identity \<Rightarrow> request \<Rightarrow> 's answer" where
  "handleFeasibilityPost X B ctx identity r =
     createFromBody X B ctx identity r [MediaJSON] (buildFeasibilityTriples X) ''/feasibility/'' ''Feasibility''"

definition handleFeasibilitiesOptions :: response where
  "handleFeasibilitiesOptions = noContent [(''Allow'', ''GET, HEAD, POST, OPTIONS'')]"

definition handleFeasibilityOptions :: response where
  "handleFeasibilityOptions = noContent [(''Allow'', ''GET, HEAD, OPTIONS'')]"

end
