(* ===== verification/SystemEvents.thy ===== *)
theory SystemEvents
  imports ControlStreams
begin

text \<open>
  \<open>systemevents.go\<close>: events of a system, under \<open>/systemEvents\<close> and under the system's own path. An
  event without a time gets the time of the request, when it is posted and when it is shown.
\<close>

section \<open>The resource\<close>

record systemEvent =
  EvID :: string
  EvTime :: string
  EvEventTime :: string
  EvEventType :: string
  EvMessage :: string
  EvDescription :: string
  EvSystemID :: string
  EvSystemLink :: "link option"
  EvSystemUID :: string
  EvSeverity :: string
  EvSource :: string
  EvKeywords :: "string list"
  EvPayload :: "(string \<times> goval) list"
  EvLinks :: "link list"

definition defaultSystemEventType :: string where "defaultSystemEventType = ''SystemChanged''"
definition defaultSystemEventSource :: string where "defaultSystemEventSource = ''semconnect''"

definition systemEventFromState :: "env \<Rightarrow> entity_state \<Rightarrow> systemEvent" where
  "systemEventFromState X state =
     (let ts = EntityTriples state; i = EntityID state; first = (\<lambda>p. firstStringObject ts [p]);
          self = ''/systemEvents/'' @ i; time = first predSystemEventTime; system = first PredSystemEventSystem in
      \<lparr>EvID = i, EvTime = (case time of Some v \<Rightarrow> v | None \<Rightarrow> Now X), EvEventTime = or_empty time,
       EvEventType = (case first predSystemEventType of Some v \<Rightarrow> v | None \<Rightarrow> defaultSystemEventType),
       EvMessage = or_empty (first predSystemEventMessage), EvDescription = or_empty (first PredDescription),
       EvSystemID = or_empty system,
       EvSystemLink = map_option (\<lambda>v. titled_link (''/systems/'' @ v) ''system'' v) system,
       EvSystemUID = or_empty (first PredUniqueID), EvSeverity = or_empty (first predSystemEventSeverity),
       EvSource = (case first predSystemEventSource of Some v \<Rightarrow> v | None \<Rightarrow> defaultSystemEventSource),
       EvKeywords = (case first predSystemEventKeywords of None \<Rightarrow> []
          | Some v \<Rightarrow> (case Option.bind (ParseJson X v) (list_member string_elem) of None \<Rightarrow> [] | Some ks \<Rightarrow> ks)),
       EvPayload = (case first predSystemEventPayload of None \<Rightarrow> []
          | Some v \<Rightarrow> (case Option.bind (ParseJson X v) (decodeMap X) of Some (Some m) \<Rightarrow> m | _ \<Rightarrow> [])),
       EvLinks = [json_link self ''self'' MediaJSON, json_link self ''canonical'' MediaJSON] @
         (case system of None \<Rightarrow> []
          | Some v \<Rightarrow> [json_link (''/systems/'' @ v @ ''/events/'' @ i) ''alternate'' MediaJSON])\<rparr>)"

definition isSystemEventKind :: "triple list \<Rightarrow> bool" where
  "isSystemEventKind ts \<longleftrightarrow> firstStringObject ts [PredType] = Some SystemEventIRI"

definition systemEventJson :: "env \<Rightarrow> systemEvent \<Rightarrow> json" where
  "systemEventJson X ev =
     JObj ([(''id'', JStr (EvID ev)), (''time'', JStr (EvTime ev))] @ omit_empty ''eventTime'' (EvEventTime ev) @
       [(''eventType'', JStr (EvEventType ev))] @ omit_empty ''message'' (EvMessage ev) @
       omit_empty ''description'' (EvDescription ev) @ omit_empty ''system@id'' (EvSystemID ev) @
       omit_nil ''system@link'' linkJson (EvSystemLink ev) @ omit_empty ''systemUid'' (EvSystemUID ev) @
       omit_empty ''severity'' (EvSeverity ev) @ omit_empty ''source'' (EvSource ev) @
       omit_list ''keywords'' JStr (EvKeywords ev) @
       (if EvPayload ev = [] then [] else [(''payload'', marshalGo (JsonFloat X) (GMap (EvPayload ev)))]) @
       omit_list ''links'' linkJson (EvLinks ev))"

section \<open>GET\<close>

definition systemEventFilter :: "request \<Rightarrow> string" where
  "systemEventFilter r = queryString r ''eventType''"

definition systemEventMatchesFilters :: "string \<Rightarrow> systemEvent \<Rightarrow> bool" where
  "systemEventMatchesFilters eventType ev \<longleftrightarrow> eventType = [] \<or> EvEventType ev = eventType"

definition writeSystemEventCollection ::
  "env \<Rightarrow> 's backend \<Rightarrow> request \<Rightarrow> string list \<Rightarrow> string \<Rightarrow> string \<Rightarrow> int \<Rightarrow> 's answer"
where
  "writeSystemEventCollection X B r ids systemFilter eventType limit =
     withBatch X B ids (\<lambda>states.
       encodeBody r [contentTypeJSON] False (Some (itemsJson ''/systemEvents'' (map (systemEventJson X)
         (collectRows (rowOf isSystemEventKind (systemEventFromState X)
            (\<lambda>ev. \<not> (systemFilter \<noteq> [] \<and> EvSystemID ev \<noteq> systemFilter) \<and> systemEventMatchesFilters eventType ev))
            states limit ids)))))"

definition handleSystemEvents :: "env \<Rightarrow> 's backend \<Rightarrow> request \<Rightarrow> 's answer" where
  "handleSystemEvents X B r =
     negotiated X FamilySystemEventCollection r (\<lambda>_.
     withLimit X r (\<lambda>limit.
       let eventType = systemEventFilter r;
           listLimit = (if eventType \<noteq> [] then MaxListLimit (Cfg X) else limit) in
     withListed X B SystemEventIRI listLimit ''listSystemEventEntities'' (\<lambda>ids.
       writeSystemEventCollection X B r ids [] eventType limit)))"

definition handleSystemScopedEvents :: "env \<Rightarrow> 's backend \<Rightarrow> request \<Rightarrow> 's answer" where
  "handleSystemScopedEvents X B r =
     negotiated X FamilySystemEventCollection r (\<lambda>_.
     withValidID X ''system'' (PathValue r ''id'') (
     withLimit X r (\<lambda>limit.
     withListed X B SystemEventIRI limit ''listSystemScopedEventEntities'' (\<lambda>ids.
       writeSystemEventCollection X B r ids (PathValue r ''id'') [] limit))))"

definition writeSystemEventItem :: "env \<Rightarrow> 's backend \<Rightarrow> request \<Rightarrow> string \<Rightarrow> string \<Rightarrow> 's answer" where
  "writeSystemEventItem X B r eventID systemFilter =
     negotiated X FamilySystemEventItem r (\<lambda>_.
     withValidID X ''system event'' eventID (
     withEntity X B isSystemEventKind ''entity is not a SystemEvent'' eventID (\<lambda>state g.
       let ev = systemEventFromState X state in
       if systemFilter \<noteq> [] \<and> EvSystemID ev \<noteq> systemFilter
       then (writeJSONError [] 404 ''SystemEvent is not associated with the requested system'', g)
       else encodeBody r [contentTypeJSON, lossy] False (Some (systemEventJson X ev)) g)))"

definition handleSystemEvent :: "env \<Rightarrow> 's backend \<Rightarrow> request \<Rightarrow> 's answer" where
  "handleSystemEvent X B r = writeSystemEventItem X B r (PathValue r ''id'') []"

definition handleSystemScopedEvent :: "env \<Rightarrow> 's backend \<Rightarrow> request \<Rightarrow> 's answer" where
  "handleSystemScopedEvent X B r =
     withValidID X ''system'' (PathValue r ''id'') (
       writeSystemEventItem X B r (PathValue r ''eventID'') (PathValue r ''id''))"

section \<open>POST\<close>

record systemEventPostBody =
  EbID :: string
  EbTime :: string
  EbEventTime :: string
  EbEventType :: string
  EbMessage :: string
  EbDescription :: string
  EbSystemID :: string
  EbSystemUID :: string
  EbSeverity :: string
  EbSource :: string
  EbKeywords :: "string list"
  EbPayload :: "(string \<times> goval) list"

definition systemEventPostKeys :: "string list" where
  "systemEventPostKeys = [''id'', ''time'', ''eventTime'', ''eventType'', ''message'', ''description'', ''system@id'',
     ''systemUid'', ''severity'', ''source'', ''keywords'', ''payload'']"

definition decodeSystemEventPost :: "env \<Rightarrow> json \<Rightarrow> systemEventPostBody option" where
  "decodeSystemEventPost X j =
     do { kvs \<leftarrow> struct_members j;
          i \<leftarrow> string_field systemEventPostKeys kvs ''id'';
          t \<leftarrow> string_field systemEventPostKeys kvs ''time'';
          et \<leftarrow> string_field systemEventPostKeys kvs ''eventTime'';
          ty \<leftarrow> string_field systemEventPostKeys kvs ''eventType'';
          m \<leftarrow> string_field systemEventPostKeys kvs ''message'';
          d \<leftarrow> string_field systemEventPostKeys kvs ''description'';
          s \<leftarrow> string_field systemEventPostKeys kvs ''system@id'';
          u \<leftarrow> string_field systemEventPostKeys kvs ''systemUid'';
          sv \<leftarrow> string_field systemEventPostKeys kvs ''severity'';
          sr \<leftarrow> string_field systemEventPostKeys kvs ''source'';
          ks \<leftarrow> list_field string_elem systemEventPostKeys kvs ''keywords'';
          p \<leftarrow> bind_last (decodeMap X) None (field_values systemEventPostKeys kvs ''payload'');
          Some \<lparr>EbID = i, EbTime = t, EbEventTime = et, EbEventType = ty, EbMessage = m, EbDescription = d,
                EbSystemID = s, EbSystemUID = u, EbSeverity = sv, EbSource = sr, EbKeywords = ks,
                EbPayload = (case p of None \<Rightarrow> [] | Some kvs \<Rightarrow> kvs)\<rparr> }"

definition mintSystemEventEntityID :: "env \<Rightarrow> string \<Rightarrow> string" where
  "mintSystemEventEntityID X seed = mintEntityID (Ids X) (SystemEventIDPrefix (Cfg X)) seed"

definition first_of :: "string \<Rightarrow> string \<Rightarrow> string" where
  "first_of a b = (if a = [] then b else a)"

definition systemEventTriples :: "env \<Rightarrow> string \<Rightarrow> string \<Rightarrow> string \<Rightarrow> systemEventPostBody \<Rightarrow> triple list" where
  "systemEventTriples X eid systemID eventTime b =
     [str_triple eid PredType SystemEventIRI,
      ref_triple X eid PredSystemEventSystem systemID,
      str_triple eid predSystemEventTime eventTime,
      str_triple eid predSystemEventType (first_of (EbEventType b) defaultSystemEventType),
      str_triple eid predSystemEventSource (first_of (EbSource b) defaultSystemEventSource)] @
     opt_triple eid predSystemEventMessage (EbMessage b) @
     opt_triple eid PredDescription (EbDescription b) @
     opt_triple eid PredUniqueID (EbSystemUID b) @
     opt_triple eid predSystemEventSeverity (EbSeverity b) @
     (if EbKeywords b = [] then []
      else [str_triple eid predSystemEventKeywords (JsonText X (JArr (map JStr (EbKeywords b))))]) @
     (if EbPayload b = [] then []
      else [str_triple eid predSystemEventPayload (JsonText X (marshalGo (JsonFloat X) (GMap (EbPayload b))))])"

definition buildSystemEventTriples :: "env \<Rightarrow> string \<Rightarrow> string \<Rightarrow> string + string \<times> triple list" where
  "buildSystemEventTriples X pathSystemID body =
     (case Option.bind (ParseJson X body) (decodeSystemEventPost X) of
        None \<Rightarrow> Inl ''invalid system event JSON''
      | Some b \<Rightarrow>
          if pathSystemID \<noteq> [] \<and> EbSystemID b \<noteq> [] \<and> EbSystemID b \<noteq> pathSystemID
          then Inl ''system@id must match path system id''
          else
          (let systemID = (if pathSystemID \<noteq> [] then pathSystemID else EbSystemID b) in
           if systemID = [] then Inl ''system@id required''
           else if ValidateEntityID (Ids X) systemID \<noteq> None then Inl ''system@id invalid''
           else
           (let eventTime = first_of (first_of (EbEventTime b) (EbTime b)) (Now X);
                eventType = first_of (EbEventType b) defaultSystemEventType;
                entityID = (if EbID b = [] then mintSystemEventEntityID X (systemID @ ''-'' @ eventType @ ''-'' @ eventTime)
                            else EbID b) in
            if ValidateEntityID (Ids X) entityID \<noteq> None then Inl ''id invalid''
            else Inr (entityID, systemEventTriples X entityID systemID eventTime b))))"

definition handleSystemEventPostWithSystem ::
  "env \<Rightarrow> 's backend \<Rightarrow> context_state \<Rightarrow> Identity \<Rightarrow> request \<Rightarrow> string \<Rightarrow> 's answer"
where
  "handleSystemEventPostWithSystem X B ctx identity r pathSystemID =
     createFromBody X B ctx identity r [MediaJSON] (buildSystemEventTriples X pathSystemID) ''/systemEvents/'' ''SystemEvent''"

definition handleSystemEventPost :: "env \<Rightarrow> 's backend \<Rightarrow> context_state \<Rightarrow> Identity \<Rightarrow> request \<Rightarrow> 's answer" where
  "handleSystemEventPost X B ctx identity r = handleSystemEventPostWithSystem X B ctx identity r []"

definition handleSystemScopedEventPost :: "env \<Rightarrow> 's backend \<Rightarrow> context_state \<Rightarrow> Identity \<Rightarrow> request \<Rightarrow> 's answer" where
  "handleSystemScopedEventPost X B ctx identity r =
     withValidID X ''system'' (PathValue r ''id'') (
       handleSystemEventPostWithSystem X B ctx identity r (PathValue r ''id''))"

definition handleSystemEventsOptions :: response where
  "handleSystemEventsOptions = noContent [(''Allow'', ''GET, HEAD, POST, OPTIONS'')]"

definition handleSystemEventOptions :: response where
  "handleSystemEventOptions = noContent [(''Allow'', ''GET, HEAD, OPTIONS'')]"

end
