(* ===== verification/StaticEndpoints.thy ===== *)
theory StaticEndpoints
  imports FeatureViews Feasibility SystemEvents
begin

text \<open>
  The documents that do not come from the graph: \<open>landing.go\<close>, \<open>collections.go\<close>, \<open>conformance.go\<close>,
  \<open>api.go\<close>. What a request's connection says of itself (the \<open>Host\<close> of the request line, whether it came
  over TLS) and the two forms of the embedded OpenAPI document are values of their own.
\<close>

record peer =
  PeerHost :: string
  PeerTLS :: bool

definition absoluteBase :: "peer \<Rightarrow> request \<Rightarrow> string" where
  "absoluteBase p r =
     (let proto = header_get r ''X-Forwarded-Proto'';
          scheme = (if proto = ''http'' \<or> proto = ''https'' then proto else if PeerTLS p then ''https'' else ''http'');
          forwarded = header_get r ''X-Forwarded-Host''
      in scheme @ ''://'' @ (if forwarded = [] then PeerHost p else forwarded))"

text \<open>A link of a document: its path below the base.\<close>

definition docLink :: "string \<Rightarrow> string \<Rightarrow> string \<Rightarrow> MediaType \<Rightarrow> string \<Rightarrow> link" where
  "docLink base path rel media title = \<lparr>LinkHref = base @ path, LinkRel = rel, LinkType = media, LinkTitle = title\<rparr>"

section \<open>The landing page\<close>

definition landingLinks :: "string \<Rightarrow> link list" where
  "landingLinks base =
     [docLink base ''/'' ''self'' MediaJSON ''this document'',
      docLink base ''/conformance'' ''conformance'' MediaJSON ''conformance declaration'',
      docLink base ''/api'' ''service-desc'' MediaOAS3JSON ''OpenAPI 3.0 service definition'',
      docLink base ''/systems'' ''data'' MediaJSON ''system collection'',
      docLink base ''/datastreams'' ''data'' MediaJSON ''datastream collection'',
      docLink base ''/areas'' ''data'' MediaGeoJSON ''spatial filter (areas)'',
      docLink base ''/systems'' ''systems'' MediaJSON ''system resources'',
      docLink base ''/datastreams'' ''datastreams'' MediaJSON ''datastream resources'',
      docLink base ''/controlstreams'' ''controlstreams'' MediaJSON ''control stream resources'',
      docLink base ''/commands'' ''commands'' MediaJSON ''command resources'',
      docLink base ''/observations'' ''observations'' MediaJSON ''observation resources'',
      docLink base ''/systemEvents'' ''systemevents'' MediaJSON ''system event resources'']"

definition landingJson :: "string \<Rightarrow> json" where
  "landingJson base =
     JObj [(''title'', JStr ''Connected Systems gateway (semconnect)''),
       (''description'', JStr ''OGC API Connected Systems v1.0 gateway over the semstreams framework.''),
       (''links'', JArr (map linkJson (landingLinks base)))]"

definition handleLanding :: "env \<Rightarrow> peer \<Rightarrow> request \<Rightarrow> 's answer" where
  "handleLanding X p r =
     negotiated X FamilyService r (\<lambda>_.
       encodeBody r [contentTypeJSON] True (Some (landingJson (absoluteBase p r))))"

section \<open>Collections\<close>

record collectionMetadata =
  CollID :: string
  CollTitle :: string
  CollDescription :: string
  CollItemType :: string
  CollFeatureType :: string
  CollLinks :: "link list"

definition collectionMetadataJson :: "collectionMetadata \<Rightarrow> json" where
  "collectionMetadataJson c =
     JObj ([(''id'', JStr (CollID c)), (''title'', JStr (CollTitle c))] @ omit_empty ''description'' (CollDescription c) @
       [(''itemType'', JStr (CollItemType c))] @ omit_empty ''featureType'' (CollFeatureType c) @
       [(''links'', JArr (map linkJson (CollLinks c)))])"

text \<open>The GeoJSON items of a feature collection and its alternate.\<close>

definition featureLinks :: "string \<Rightarrow> string \<Rightarrow> string \<Rightarrow> link list" where
  "featureLinks base path what =
     [docLink base (path @ ''?f=geojson'') ''items'' MediaGeoJSON (what @ '' resources''),
      docLink base path ''alternate'' MediaJSON (what @ '' collection'')]"

definition facadeLinks :: "string \<Rightarrow> string \<Rightarrow> string \<Rightarrow> string \<Rightarrow> link list" where
  "facadeLinks base i path what =
     [docLink base (''/collections/'' @ i @ ''/items'') ''items'' MediaJSON (what @ '' resources''),
      docLink base path ''alternate'' MediaJSON (what @ '' collection'')]"

definition buildCollectionsMetadata :: "string \<Rightarrow> collectionMetadata list" where
  "buildCollectionsMetadata base =
     [\<lparr>CollID = ''all_systems'', CollTitle = ''All Connected Systems'',
       CollDescription = ''All systems registered on this server.'',
       CollItemType = ''feature'', CollFeatureType = ''sosa:System'', CollLinks = featureLinks base ''/systems'' ''system''\<rparr>,
      \<lparr>CollID = ''all_procedures'', CollTitle = ''All Procedures'',
       CollDescription = ''All procedures implemented by systems registered on this server.'',
       CollItemType = ''feature'', CollFeatureType = ''sosa:Procedure'', CollLinks = featureLinks base ''/procedures'' ''procedure''\<rparr>,
      \<lparr>CollID = ''all_deployments'', CollTitle = ''All Deployments'',
       CollDescription = ''All deployments registered on this server.'',
       CollItemType = ''feature'', CollFeatureType = ''sosa:Deployment'', CollLinks = featureLinks base ''/deployments'' ''deployment''\<rparr>,
      \<lparr>CollID = ''all_sampling_features'', CollTitle = ''All Sampling Features'',
       CollDescription = ''All sampling features registered on this server.'',
       CollItemType = ''feature'', CollFeatureType = ''sosa:Sample'',
       CollLinks = featureLinks base ''/samplingFeatures'' ''sampling feature''\<rparr>,
      \<lparr>CollID = ''all_properties'', CollTitle = ''All Observable Properties'',
       CollDescription = ''All observable property definitions registered on this server.'',
       CollItemType = ''sosa:Property'', CollFeatureType = [],
       CollLinks = [docLink base ''/properties'' ''items'' MediaJSON ''property resources'']\<rparr>,
      \<lparr>CollID = ''all_datastreams'', CollTitle = ''All Datastreams'',
       CollDescription = ''All datastreams produced by systems registered on this server.'',
       CollItemType = ''DataStream'', CollFeatureType = [],
       CollLinks = [docLink base ''/datastreams'' ''items'' MediaJSON ''datastream resources'']\<rparr>,
      \<lparr>CollID = ''all_system_events'', CollTitle = ''All System Events'',
       CollDescription = ''All system events registered on this server.'',
       CollItemType = ''SystemEvent'', CollFeatureType = [],
       CollLinks = facadeLinks base ''all_system_events'' ''/systemEvents'' ''system event''\<rparr>,
      \<lparr>CollID = ''all_feasibility'', CollTitle = ''All Command Feasibility Resources'',
       CollDescription = ''All command feasibility resources registered on this server.'',
       CollItemType = ''Feasibility'', CollFeatureType = [],
       CollLinks = facadeLinks base ''all_feasibility'' ''/feasibility'' ''feasibility''\<rparr>]"

definition collectionsJson :: "string \<Rightarrow> json" where
  "collectionsJson base =
     (let collections = map collectionMetadataJson (buildCollectionsMetadata base) in
      JObj [(''collections'', JArr collections), (''items'', JArr collections),
        (''links'', JArr [linkJson (docLink base ''/collections'' ''self'' MediaJSON ''this document'')])])"

definition handleCollections :: "env \<Rightarrow> peer \<Rightarrow> request \<Rightarrow> 's answer" where
  "handleCollections X p r =
     negotiated X FamilyService r (\<lambda>_.
       encodeBody r [contentTypeJSON] False (Some (collectionsJson (absoluteBase p r))))"

definition handleCollectionItems :: "env \<Rightarrow> 's backend \<Rightarrow> request \<Rightarrow> 's answer" where
  "handleCollectionItems X B r =
     negotiated X FamilyService r (\<lambda>_.
       if PathValue r ''id'' = ''all_system_events'' then handleSystemEvents X B r
       else if PathValue r ''id'' = ''all_feasibility'' then handleFeasibilities X B r
       else (\<lambda>g. (writeJSONError [] 404 ''collection items facade not available'', g)))"

section \<open>Conformance\<close>

definition conf_common :: string where "conf_common = ''http://www.opengis.net/spec/ogcapi-common-1/1.0/conf/''"
definition conf_systems1 :: string where "conf_systems1 = ''http://www.opengis.net/spec/ogcapi-connectedsystems-1/1.0/conf/''"
definition conf_systems2 :: string where "conf_systems2 = ''http://www.opengis.net/spec/ogcapi-connectedsystems-2/1.0/conf/''"

definition stageConformanceClasses :: "string list" where
  "stageConformanceClasses =
     [conf_common @ ''core'',
      conf_common @ ''json'',
      conf_common @ ''oas30'',
      conf_systems1 @ ''core'',
      conf_systems1 @ ''system'',
      conf_systems1 @ ''json'',
      conf_systems2 @ ''oms'',
      conf_systems1 @ ''sensorml'',
      conf_systems1 @ ''json-ld'',
      conf_systems1 @ ''geojson'',
      conf_systems1 @ ''advanced-filtering'',
      conf_systems1 @ ''subsystem'',
      conf_systems1 @ ''subdeployment'',
      conf_systems2 @ ''api-common'',
      conf_systems1 @ ''create-replace-delete'',
      conf_systems1 @ ''update'',
      conf_systems1 @ ''procedure'',
      conf_systems1 @ ''deployment'',
      conf_systems1 @ ''sf'',
      conf_systems1 @ ''property'',
      conf_systems2 @ ''controlstream'',
      conf_systems2 @ ''system-event'',
      conf_systems2 @ ''datastream'',
      conf_systems2 @ ''advanced-filtering'',
      conf_systems2 @ ''feasibility'']"

definition handleConformance :: "env \<Rightarrow> request \<Rightarrow> 's answer" where
  "handleConformance X r =
     negotiated X FamilyService r (\<lambda>_.
       encodeBody r [contentTypeJSON] False
         (Some (JObj [(''conformsTo'', JArr (map JStr stageConformanceClasses))])))"

section \<open>The service definition\<close>

record apiDocuments =
  OpenAPIYAML :: string
  OpenAPIJSON :: string

definition handleAPI :: "env \<Rightarrow> apiDocuments \<Rightarrow> request \<Rightarrow> 's answer" where
  "handleAPI X docs r =
     negotiated X FamilyAPI r (\<lambda>media g.
       (okResponse r [mediaHeader media]
          (TextBody (if media = MediaOAS3YAML then OpenAPIYAML docs else OpenAPIJSON docs)), g))"

end
