(* ===== verification/Properties.thy ===== *)
theory Properties
  imports FeatureViews
begin

text \<open>\<open>properties.go\<close>: observable properties.\<close>

record propertyResource =
  PropID :: string
  PropLabel :: string
  PropDescription :: string
  PropDefinition :: string
  PropBase :: string
  PropUID :: string
  PropLinks :: "link list"

definition propertyLinks :: "string \<Rightarrow> link list" where
  "propertyLinks i = selfLinks (''/properties/'' @ i) @ [json_link (''/properties/'' @ i) ''alternate'' MediaSensorML]"

text \<open>\<open>uid\<close> and \<open>uniqueId\<close> have the same value.\<close>

definition propertyFromState :: "entity_state \<Rightarrow> propertyResource" where
  "propertyFromState state =
     (let str = (\<lambda>p. or_empty (firstStringObject (EntityTriples state) [p])) in
      \<lparr>PropID = EntityID state, PropLabel = str PredLabel, PropDescription = str PredDescription,
       PropDefinition = str predPropertyDefinition, PropBase = str predPropertyBaseProperty, PropUID = str PredUniqueID,
       PropLinks = propertyLinks (EntityID state)\<rparr>)"

definition isPropertyKind :: "triple list \<Rightarrow> bool" where
  "isPropertyKind ts \<longleftrightarrow> firstStringObject ts [PredType] = Some SosaObservableProperty"

definition propertyMembers :: "string \<Rightarrow> propertyResource \<Rightarrow> (string \<times> json) list" where
  "propertyMembers typ p =
     [(''id'', JStr (PropID p)), (''type'', JStr typ)] @ omit_empty ''label'' (PropLabel p) @
     omit_empty ''description'' (PropDescription p) @ omit_empty ''definition'' (PropDefinition p) @
     omit_empty ''baseProperty'' (PropBase p) @ omit_empty ''uid'' (PropUID p) @ omit_empty ''uniqueId'' (PropUID p)"

definition propertyJson :: "propertyResource \<Rightarrow> json" where
  "propertyJson p = JObj (propertyMembers ''Property'' p @ [(''links'', JArr (map linkJson (PropLinks p)))])"

definition propertySensorML :: "propertyResource \<Rightarrow> json" where
  "propertySensorML p = JObj (propertyMembers ''DerivedProperty'' p @ omit_list ''links'' linkJson (PropLinks p))"

definition handleProperties :: "env \<Rightarrow> 's backend \<Rightarrow> request \<Rightarrow> 's answer" where
  "handleProperties X B r =
     negotiated X FamilyPropertyCollection r (\<lambda>_.
     withLimit X r (\<lambda>limit.
     withListed X B SosaObservableProperty limit ''listPropertyEntities'' (\<lambda>ids.
       encodeBody r [contentTypeJSON] False (Some (countedJson ''PropertyCollection'' ''items''
         (map (\<lambda>i. refJson ''Property'' i (propertyLinks i)) ids) (limit \<le> int (length ids))
         [json_link ''/properties'' ''self'' MediaJSON])))))"

definition handleProperty :: "env \<Rightarrow> 's backend \<Rightarrow> request \<Rightarrow> 's answer" where
  "handleProperty X B r =
     negotiated X FamilyPropertyItem r (\<lambda>media.
     withValidID X ''property'' (PathValue r ''id'') (
     withEntity X B isPropertyKind ''entity is not a Property'' (PathValue r ''id'') (\<lambda>state.
       if media = MediaJSON
       then encodeBody r [contentTypeJSON, lossy] False (Some (propertyJson (propertyFromState state)))
       else if media \<in> {MediaSensorML, MediaSensorMLLegacy}
       then writeDocument X r [mediaHeader media, lossy] (Inr (propertySensorML (propertyFromState state)))
       else (\<lambda>g. (WriteNotAcceptable FamilyPropertyItem, g)))))"

section \<open>POST\<close>

record propertyPostBody =
  PpUniqueID :: string
  PpUID :: string
  PpLabel :: string
  PpName :: string
  PpDescription :: string
  PpDefinition :: string
  PpBase :: string

definition propertyPostKeys :: "string list" where
  "propertyPostKeys = [''uniqueId'', ''uid'', ''label'', ''name'', ''description'', ''definition'', ''baseProperty'']"

definition decodePropertyPost :: "json \<Rightarrow> propertyPostBody option" where
  "decodePropertyPost j =
     do { kvs \<leftarrow> struct_members j;
          ui \<leftarrow> string_field propertyPostKeys kvs ''uniqueId'';
          u \<leftarrow> string_field propertyPostKeys kvs ''uid'';
          l \<leftarrow> string_field propertyPostKeys kvs ''label'';
          n \<leftarrow> string_field propertyPostKeys kvs ''name'';
          d \<leftarrow> string_field propertyPostKeys kvs ''description'';
          df \<leftarrow> string_field propertyPostKeys kvs ''definition'';
          b \<leftarrow> string_field propertyPostKeys kvs ''baseProperty'';
          Some \<lparr>PpUniqueID = ui, PpUID = u, PpLabel = l, PpName = n, PpDescription = d, PpDefinition = df, PpBase = b\<rparr> }"

definition mintPropertyEntityID :: "env \<Rightarrow> string \<Rightarrow> string" where
  "mintPropertyEntityID X uniqueID = mintEntityID (Ids X) (PropertyIDPrefix (Cfg X)) uniqueID"

definition propertyTriples :: "string \<Rightarrow> string \<Rightarrow> propertyPostBody \<Rightarrow> triple list" where
  "propertyTriples eid uid b =
     [str_triple eid PredType SosaObservableProperty, str_triple eid PredUniqueID uid] @
     opt_triple eid PredLabel (if PpLabel b = [] then PpName b else PpLabel b) @
     opt_triple eid PredDescription (PpDescription b) @
     opt_triple eid predPropertyDefinition (PpDefinition b) @
     opt_triple eid predPropertyBaseProperty (PpBase b)"

definition buildPropertyTriples :: "env \<Rightarrow> string \<Rightarrow> string + string \<times> triple list" where
  "buildPropertyTriples X body =
     (case Option.bind (ParseJson X body) decodePropertyPost of
        None \<Rightarrow> Inl ''invalid property JSON''
      | Some b \<Rightarrow>
          let uid = (if PpUniqueID b = [] then PpUID b else PpUniqueID b) in
          if uid = [] then Inl ''uniqueId required''
          else let entityID = mintPropertyEntityID X uid in Inr (entityID, propertyTriples entityID uid b))"

definition handlePropertyPost :: "env \<Rightarrow> 's backend \<Rightarrow> context_state \<Rightarrow> Identity \<Rightarrow> request \<Rightarrow> 's answer" where
  "handlePropertyPost X B ctx identity r =
     createFromBody X B ctx identity r [MediaSensorML, MediaSensorMLLegacy, MediaJSON] (buildPropertyTriples X)
       ''/properties/'' ''Property''"

definition handlePropertiesOptions :: response where
  "handlePropertiesOptions = noContent [(''Allow'', ''GET, HEAD, POST, OPTIONS'')]"

definition handlePropertyOptions :: "env \<Rightarrow> request \<Rightarrow> response" where
  "handlePropertyOptions X r =
     (case ValidateEntityID (Ids X) (PathValue r ''id'') of
        Some e \<Rightarrow> writeJSONError [] 400 (''invalid property id: '' @ e)
      | None \<Rightarrow> noContent [(''Allow'', ''GET, HEAD, OPTIONS'')])"

end
