(* ===== verification/Deployments.thy ===== *)
theory Deployments
  imports FeatureViews
begin

text \<open>\<open>deployments.go\<close>, \<open>deployments_post.go\<close>, \<open>deployments_subdeployments.go\<close>.\<close>

record deployment =
  DepID :: string
  DepLabel :: string
  DepDescription :: string
  DepUID :: string
  DepProperties :: "featureProperties option"
  DepGeometry :: string
  DepLinks :: "link list"

definition deployedSystemLinks :: "triple list \<Rightarrow> link list" where
  "deployedSystemLinks ts = linksFromHrefs (allStringObjects ts predDeploymentDeployedSystems) ''deployedSystem''"

definition deploymentFromState :: "entity_state \<Rightarrow> deployment" where
  "deploymentFromState state =
     (let ts = EntityTriples state; self = ''/deployments/'' @ EntityID state;
          str = (\<lambda>p. or_empty (firstStringObject ts [p])) in
      \<lparr>DepID = EntityID state, DepLabel = str PredLabel, DepDescription = str PredDescription, DepUID = str PredUniqueID,
       DepProperties = (if allStringObjects ts predDeploymentDeployedSystems = [] then uidProperties ts
          else Some ((orEmptyProperties (uidProperties ts))\<lparr>FpDeployedSystems := deployedSystemLinks ts\<rparr>)),
       DepGeometry = str PredPosition,
       DepLinks = selfLinks self @ [json_link self ''alternate'' MediaSensorML,
          json_link ''/samplingFeatures'' ''samplingFeatures'' MediaJSON, json_link ''/datastreams'' ''datastreams'' MediaJSON]\<rparr>)"

definition isDeploymentKind :: "triple list \<Rightarrow> bool" where
  "isDeploymentKind ts \<longleftrightarrow> firstStringObject ts [PredType] = Some SSNDeployment"

definition deploymentJson :: "env \<Rightarrow> deployment \<Rightarrow> json option" where
  "deploymentJson X d =
     map_option (\<lambda>geometry.
       JObj ([(''id'', JStr (DepID d)), (''type'', JStr ''Deployment'')] @ omit_empty ''label'' (DepLabel d) @
         omit_empty ''description'' (DepDescription d) @ omit_empty ''uid'' (DepUID d) @ omit_empty ''uniqueId'' (DepUID d) @
         omit_nil ''properties'' featurePropertiesJson (DepProperties d) @ geometry @
         [(''links'', JArr (map linkJson (DepLinks d)))]))
       (raw_member X ''geometry'' (DepGeometry d))"

definition deploymentSensorML :: "env \<Rightarrow> deployment \<Rightarrow> gerr + json" where
  "deploymentSensorML X d =
     (case raw_member X ''position'' (DepGeometry d) of
        None \<Rightarrow> Inl (Plain ''invalid raw JSON'')
      | Some position \<Rightarrow>
          Inr (JObj ([(''id'', JStr (DepID d)), (''type'', JStr ''Deployment'')] @ omit_empty ''label'' (DepLabel d) @
            omit_empty ''description'' (DepDescription d) @ omit_empty ''uid'' (DepUID d) @
            omit_empty ''uniqueId'' (DepUID d) @ position @
            omit_list ''deployedSystems'' linkJson (FpDeployedSystems (orEmptyProperties (DepProperties d))) @
            omit_list ''links'' linkJson (DepLinks d))))"

section \<open>Collections\<close>

definition deploymentRefLinks :: "string \<Rightarrow> link list" where
  "deploymentRefLinks i = selfLinks (''/deployments/'' @ i) @ [json_link (''/deployments/'' @ i) ''alternate'' MediaSensorML]"

definition deploymentFeature :: "env \<Rightarrow> (string \<rightharpoonup> entity_state) \<Rightarrow> string \<Rightarrow> json option" where
  "deploymentFeature X states i =
     (let links = selfLinks (''/deployments/'' @ i) in
      case states i of
        None \<Rightarrow> Some (geoFeatureJson i JNull [(''featureType'', JStr ''Deployment'')] links)
      | Some state \<Rightarrow>
          let ts = EntityTriples state; props = geoJSONFeaturePropertiesFromState ''Deployment'' state;
              props' = (if allStringObjects ts predDeploymentDeployedSystems = [] then props
                        else member_put ''deployedSystems@link'' (JArr (map linkJson (deployedSystemLinks ts))) props) in
          map_option (\<lambda>geometry. geoFeatureJson i geometry props' links) (storedGeometry X ts))"

definition writeDeploymentsGeoJSON :: "env \<Rightarrow> 's backend \<Rightarrow> request \<Rightarrow> string list \<Rightarrow> int \<Rightarrow> 's answer" where
  "writeDeploymentsGeoJSON X B r ids limit =
     withBatch X B ids (\<lambda>states.
       encodeBody r [contentTypeGeoJSON] False (map_option (\<lambda>features.
         countedJson ''FeatureCollection'' ''features'' features (limit \<le> int (length ids))
           [json_link ''/deployments'' ''self'' MediaGeoJSON]) (those (map (deploymentFeature X states) ids))))"

definition handleDeployments :: "env \<Rightarrow> 's backend \<Rightarrow> request \<Rightarrow> 's answer" where
  "handleDeployments X B r =
     negotiated X FamilyDeploymentCollection r (\<lambda>media.
     withLimit X r (\<lambda>limit.
     withListed X B SSNDeployment limit ''listDeploymentEntities'' (\<lambda>ids.
       if media = MediaGeoJSON then writeDeploymentsGeoJSON X B r ids limit
       else encodeBody r [contentTypeJSON] False (Some (countedJson ''DeploymentCollection'' ''items''
         (map (\<lambda>i. refJson ''Deployment'' i (deploymentRefLinks i)) ids) (limit \<le> int (length ids))
         [json_link ''/deployments'' ''self'' MediaJSON])))))"

definition deploymentChildOf :: "triple list \<Rightarrow> string \<Rightarrow> bool" where
  "deploymentChildOf ts parentID \<longleftrightarrow> firstStringObject ts [predDeploymentParent] = Some parentID"

definition handleDeploymentSubdeployments :: "env \<Rightarrow> 's backend \<Rightarrow> request \<Rightarrow> 's answer" where
  "handleDeploymentSubdeployments X B r =
     (let parentID = PathValue r ''id'' in
     negotiated X FamilyDeploymentCollection r (\<lambda>media.
       if media \<noteq> MediaJSON then (\<lambda>g. (WriteNotAcceptable FamilyDeploymentCollection, g)) else
     withValidID X ''deployment'' parentID (
     withLimit X r (\<lambda>limit.
     withEntity X B isDeploymentKind ''entity is not a Deployment'' parentID (\<lambda>_.
     withListed X B SSNDeployment (MaxListLimit (Cfg X)) ''listSubdeploymentEntities'' (\<lambda>ids.
     withBatch X B ids (\<lambda>states.
       let items = collectRows (rowOf (\<lambda>ts. isDeploymentKind ts \<and> deploymentChildOf ts parentID) EntityID (\<lambda>_. True)) states limit ids in
       encodeBody r [contentTypeJSON] False (Some (countedJson ''DeploymentCollection'' ''items''
         (map (\<lambda>i. refJson ''Deployment'' i (selfLinks (''/deployments/'' @ i))) items) (int (length items) = limit)
         [json_link (''/deployments/'' @ parentID @ ''/subdeployments'') ''self'' MediaJSON])))))))))"

section \<open>Items\<close>

definition handleDeployment :: "env \<Rightarrow> 's backend \<Rightarrow> request \<Rightarrow> 's answer" where
  "handleDeployment X B r =
     negotiated X FamilyDeploymentItem r (\<lambda>media.
     withValidID X ''deployment'' (PathValue r ''id'') (
     withEntity X B isDeploymentKind ''entity is not a Deployment'' (PathValue r ''id'') (\<lambda>state.
       if media = MediaJSON
       then encodeBody r [contentTypeJSON, lossy] False (deploymentJson X (deploymentFromState state))
       else if media \<in> {MediaSensorML, MediaSensorMLLegacy}
       then writeDocument X r [mediaHeader media, lossy] (deploymentSensorML X (deploymentFromState state))
       else (\<lambda>g. (WriteNotAcceptable FamilyDeploymentItem, g)))))"

section \<open>POST\<close>

definition mintDeploymentEntityID :: "env \<Rightarrow> string \<Rightarrow> string" where
  "mintDeploymentEntityID X uniqueID = mintEntityID (Ids X) (DeploymentIDPrefix (Cfg X)) uniqueID"

definition buildDeploymentTriplesFromFeature :: "env \<Rightarrow> string \<Rightarrow> string + string \<times> triple list" where
  "buildDeploymentTriplesFromFeature X body =
     (case parseFeature X body of
        None \<Rightarrow> Inl ''invalid JSON Feature''
      | Some feat \<Rightarrow>
          let ps = Properties feat; entityID = mintDeploymentEntityID X (UID ps); parentID = parentIDFromDeploymentFeature feat in
          if FeatureType feat \<noteq> ''Feature'' then Inl ''expected Feature''
          else if UID ps = [] then Inl ''properties.uid required''
          else if parentID \<noteq> [] \<and> ValidateEntityID (Ids X) parentID \<noteq> None then Inl ''properties.parent@id invalid''
          else Inr (entityID,
            [str_triple entityID PredType SSNDeployment, str_triple entityID PredUniqueID (UID ps)] @
            opt_triple entityID PredLabel (FeatureName ps) @
            opt_triple entityID PredDescription (FeatureDescription ps) @
            triplesFromLinks entityID predDeploymentDeployedSystems (DeployedSystemsLinks ps) @
            (if parentID \<noteq> [] then [ref_triple X entityID predDeploymentParent parentID] else []) @
            locationTriplesFromGeometry X entityID (Geometry feat)))"

definition handleDeploymentPost :: "env \<Rightarrow> 's backend \<Rightarrow> context_state \<Rightarrow> Identity \<Rightarrow> request \<Rightarrow> 's answer" where
  "handleDeploymentPost X B ctx identity r =
     createFromBody X B ctx identity r [MediaJSON, MediaGeoJSON] (buildDeploymentTriplesFromFeature X)
       ''/deployments/'' ''Deployment''"

definition handleDeploymentsOptions :: response where
  "handleDeploymentsOptions = noContent [(''Allow'', ''GET, HEAD, POST, OPTIONS'')]"

definition handleDeploymentOptions :: "env \<Rightarrow> request \<Rightarrow> response" where
  "handleDeploymentOptions X r =
     (case ValidateEntityID (Ids X) (PathValue r ''id'') of
        Some e \<Rightarrow> writeJSONError [] 400 (''invalid deployment id: '' @ e)
      | None \<Rightarrow> noContent [(''Allow'', ''GET, HEAD, OPTIONS'')])"

end
