(* ===== verification/Procedures.thy ===== *)
theory Procedures
  imports FeatureViews
begin

text \<open>\<open>procedures.go\<close> and \<open>procedures_post.go\<close>: procedures, which have no location.\<close>

record procedure =
  ProcID :: string
  ProcLabel :: string
  ProcDescription :: string
  ProcDefinition :: string
  ProcUID :: string
  ProcProperties :: "featureProperties option"
  ProcLinks :: "link list"

definition procedureFromState :: "entity_state \<Rightarrow> procedure" where
  "procedureFromState state =
     (let ts = EntityTriples state; self = ''/procedures/'' @ EntityID state;
          str = (\<lambda>p. or_empty (firstStringObject ts [p])) in
      \<lparr>ProcID = EntityID state, ProcLabel = str PredLabel, ProcDescription = str PredDescription,
       ProcDefinition = str PredDefinition, ProcUID = str PredUniqueID, ProcProperties = uidProperties ts,
       ProcLinks = selfLinks self @ [json_link self ''alternate'' MediaSensorML,
          json_link ''/systems'' ''implementingSystems'' MediaJSON]\<rparr>)"

definition isProcedureKind :: "triple list \<Rightarrow> bool" where
  "isProcedureKind ts \<longleftrightarrow> firstStringObject ts [PredType] = Some SosaProcedure"

definition procedureJson :: "procedure \<Rightarrow> json" where
  "procedureJson p =
     JObj ([(''id'', JStr (ProcID p)), (''type'', JStr ''Procedure'')] @ omit_empty ''label'' (ProcLabel p) @
       omit_empty ''description'' (ProcDescription p) @ omit_empty ''definition'' (ProcDefinition p) @
       omit_empty ''uid'' (ProcUID p) @ omit_empty ''uniqueId'' (ProcUID p) @
       omit_nil ''properties'' featurePropertiesJson (ProcProperties p) @ [(''links'', JArr (map linkJson (ProcLinks p)))])"

section \<open>GET\<close>

definition procedureRefLinks :: "string \<Rightarrow> link list" where
  "procedureRefLinks i = selfLinks (''/procedures/'' @ i) @ [json_link (''/procedures/'' @ i) ''alternate'' MediaSensorML]"

definition procedureFeature :: "(string \<rightharpoonup> entity_state) \<Rightarrow> string \<Rightarrow> json" where
  "procedureFeature states i =
     geoFeatureJson i JNull
       (case states i of
          None \<Rightarrow> [(''featureType'', JStr ''Procedure'')]
        | Some state \<Rightarrow> geoJSONFeaturePropertiesFromState ''Procedure'' state)
       (selfLinks (''/procedures/'' @ i))"

definition writeProceduresGeoJSON :: "env \<Rightarrow> 's backend \<Rightarrow> request \<Rightarrow> string list \<Rightarrow> int \<Rightarrow> 's answer" where
  "writeProceduresGeoJSON X B r ids limit =
     withBatch X B ids (\<lambda>states.
       encodeBody r [contentTypeGeoJSON] False (Some (countedJson ''FeatureCollection'' ''features''
         (map (procedureFeature states) ids) (limit \<le> int (length ids))
         [json_link ''/procedures'' ''self'' MediaGeoJSON])))"

definition handleProcedures :: "env \<Rightarrow> 's backend \<Rightarrow> request \<Rightarrow> 's answer" where
  "handleProcedures X B r =
     negotiated X FamilyProcedureCollection r (\<lambda>media.
     withLimit X r (\<lambda>limit.
     withListed X B SosaProcedure limit ''listProcedureEntities'' (\<lambda>ids.
       if media = MediaGeoJSON then writeProceduresGeoJSON X B r ids limit
       else encodeBody r [contentTypeJSON] False (Some (countedJson ''ProcedureCollection'' ''items''
         (map (\<lambda>i. refJson ''Procedure'' i (procedureRefLinks i)) ids) (limit \<le> int (length ids))
         [json_link ''/procedures'' ''self'' MediaJSON])))))"

definition handleProcedure :: "env \<Rightarrow> 's backend \<Rightarrow> request \<Rightarrow> 's answer" where
  "handleProcedure X B r =
     negotiated X FamilyProcedureItem r (\<lambda>media.
     withValidID X ''procedure'' (PathValue r ''id'') (
     withEntity X B isProcedureKind ''entity is not a Procedure'' (PathValue r ''id'') (\<lambda>state.
       if media = MediaJSON
       then encodeBody r [contentTypeJSON, lossy] False (Some (procedureJson (procedureFromState state)))
       else if media \<in> {MediaSensorML, MediaSensorMLLegacy}
       then writeDocument X r [mediaHeader media, lossy]
         (sensorMLDocument X ''writeProcedureSensorML'' state (ProcLinks (procedureFromState state)))
       else (\<lambda>g. (WriteNotAcceptable FamilyProcedureItem, g)))))"

section \<open>POST\<close>

definition mintProcedureEntityID :: "env \<Rightarrow> string \<Rightarrow> string" where
  "mintProcedureEntityID X uniqueID = mintEntityID (Ids X) (ProcedureIDPrefix (Cfg X)) uniqueID"

text \<open>The first type triple becomes that of a procedure; one is added when there is none.\<close>

fun overrideType :: "triple list \<Rightarrow> triple list option" where
  "overrideType [] = None"
| "overrideType (t # ts) =
     (if Predicate t = PredType then Some (t\<lparr>Object := OStr SosaProcedure\<rparr> # ts)
      else map_option (Cons t) (overrideType ts))"

definition procedureTyped :: "string \<Rightarrow> triple list \<Rightarrow> triple list" where
  "procedureTyped entityID triples =
     (case overrideType triples of
        Some ts \<Rightarrow> ts
      | None \<Rightarrow> triples @ [str_triple entityID PredType SosaProcedure])"

definition buildProcedureTriplesFromSensorML :: "env \<Rightarrow> string \<Rightarrow> string + string \<times> triple list" where
  "buildProcedureTriplesFromSensorML X body =
     (case ParseJson X body of
        None \<Rightarrow> Inl ''invalid SensorML JSON''
      | Some doc \<Rightarrow>
          (case UnmarshalProcess (ParseFloat (Std X)) doc of
             Inl e \<Rightarrow> Inl ''invalid SensorML JSON''
           | Inr process \<Rightarrow>
               let entityID = mintProcedureEntityID X (UniqueID (Base process));
                   triples = sensorMLRootTriples X entityID process in
               if triples = [] then Inl ''SensorML process produced no representable triples''
               else Inr (entityID, procedureTyped entityID triples)))"

definition buildProcedureTriplesFromFeature :: "env \<Rightarrow> string \<Rightarrow> string + string \<times> triple list" where
  "buildProcedureTriplesFromFeature X body =
     (case parseFeature X body of
        None \<Rightarrow> Inl ''invalid JSON Feature''
      | Some feat \<Rightarrow>
          let ps = Properties feat; entityID = mintProcedureEntityID X (UID ps) in
          if FeatureType feat \<noteq> ''Feature'' then Inl ''expected Feature''
          else if UID ps = [] then Inl ''properties.uid required''
          else Inr (entityID,
            [str_triple entityID PredType SosaProcedure, str_triple entityID PredUniqueID (UID ps)] @
            opt_triple entityID PredLabel (FeatureName ps) @
            opt_triple entityID PredDescription (FeatureDescription ps) @
            opt_triple entityID PredDefinition (FeatureDefinition ps)))"

definition postedProcedureTriples :: "env \<Rightarrow> string \<Rightarrow> string \<Rightarrow> string + string \<times> triple list" where
  "postedProcedureTriples X ct body =
     (if or_empty (ParseMediaType X ct) \<in> {MediaSensorML, MediaSensorMLLegacy}
      then buildProcedureTriplesFromSensorML X body
      else buildProcedureTriplesFromFeature X body)"

definition handleProcedurePost :: "env \<Rightarrow> 's backend \<Rightarrow> context_state \<Rightarrow> Identity \<Rightarrow> request \<Rightarrow> 's answer" where
  "handleProcedurePost X B ctx identity r =
     createFromBody X B ctx identity r [MediaSensorML, MediaSensorMLLegacy, MediaJSON, MediaGeoJSON]
       (postedProcedureTriples X (header_get r ''Content-Type'')) ''/procedures/'' ''Procedure''"

definition handleProceduresOptions :: response where
  "handleProceduresOptions = noContent [(''Allow'', ''GET, HEAD, POST, OPTIONS'')]"

definition handleProcedureOptions :: "env \<Rightarrow> request \<Rightarrow> response" where
  "handleProcedureOptions X r =
     (case ValidateEntityID (Ids X) (PathValue r ''id'') of
        Some e \<Rightarrow> writeJSONError [] 400 (''invalid procedure id: '' @ e)
      | None \<Rightarrow> noContent [(''Allow'', ''GET, HEAD, OPTIONS'')])"

end
