(* ===== verification/SamplingFeatures.thy ===== *)
theory SamplingFeatures
  imports FeatureViews
begin

text \<open>\<open>sampling_features.go\<close> and \<open>sampling_features_post.go\<close>.\<close>

record samplingFeature =
  SfID :: string
  SfLabel :: string
  SfDescription :: string
  SfUID :: string
  SfProperties :: "featureProperties option"
  SfGeometry :: string
  SfLinks :: "link list"

definition samplingFeatureFromState :: "entity_state \<Rightarrow> samplingFeature" where
  "samplingFeatureFromState state =
     (let ts = EntityTriples state; str = (\<lambda>p. or_empty (firstStringObject ts [p])) in
      \<lparr>SfID = EntityID state, SfLabel = str PredLabel, SfDescription = str PredDescription, SfUID = str PredUniqueID,
       SfProperties = (case firstStringObject ts [predSamplingFeatureHostedProcedure] of
          None \<Rightarrow> uidProperties ts
        | Some href \<Rightarrow>
            Some ((orEmptyProperties (uidProperties ts))\<lparr>FpHostedProcedure := firstLinkFromHref href ''hostedProcedure''\<rparr>)),
       SfGeometry = str PredPosition,
       SfLinks = selfLinks (''/samplingFeatures/'' @ EntityID state) @
         [json_link ''/datastreams'' ''datastreams'' MediaJSON, json_link ''/controlstreams'' ''controlstreams'' MediaJSON]\<rparr>)"

definition isSamplingFeatureKind :: "triple list \<Rightarrow> bool" where
  "isSamplingFeatureKind ts \<longleftrightarrow>
     firstStringObject ts [PredType] = Some SosaSample \<or> firstStringObject ts [PredType] = Some SosaFeatureOfInterest"

definition samplingFeatureJson :: "env \<Rightarrow> samplingFeature \<Rightarrow> json option" where
  "samplingFeatureJson X sf =
     map_option (\<lambda>geometry.
       JObj ([(''id'', JStr (SfID sf)), (''type'', JStr ''SamplingFeature'')] @ omit_empty ''label'' (SfLabel sf) @
         omit_empty ''description'' (SfDescription sf) @ omit_empty ''uid'' (SfUID sf) @
         omit_empty ''uniqueId'' (SfUID sf) @ omit_nil ''properties'' featurePropertiesJson (SfProperties sf) @
         geometry @ [(''links'', JArr (map linkJson (SfLinks sf)))]))
       (raw_member X ''geometry'' (SfGeometry sf))"

section \<open>GET\<close>

definition samplingFeatureFeature :: "env \<Rightarrow> (string \<rightharpoonup> entity_state) \<Rightarrow> string \<Rightarrow> json option" where
  "samplingFeatureFeature X states i =
     (let links = selfLinks (''/samplingFeatures/'' @ i) in
      case states i of
        None \<Rightarrow> Some (geoFeatureJson i JNull [(''featureType'', JStr ''SamplingFeature'')] links)
      | Some state \<Rightarrow>
          let ts = EntityTriples state; props = geoJSONFeaturePropertiesFromState ''SamplingFeature'' state;
              props' = (case firstStringObject ts [predSamplingFeatureHostedProcedure] of
                 None \<Rightarrow> props
               | Some href \<Rightarrow> member_put ''hostedProcedure@link''
                   (nullable linkJson (firstLinkFromHref href ''hostedProcedure'')) props) in
          map_option (\<lambda>geometry. geoFeatureJson i geometry props' links) (storedGeometry X ts))"

definition writeSamplingFeaturesGeoJSON :: "env \<Rightarrow> 's backend \<Rightarrow> request \<Rightarrow> string list \<Rightarrow> int \<Rightarrow> 's answer" where
  "writeSamplingFeaturesGeoJSON X B r ids limit =
     withBatch X B ids (\<lambda>states.
       encodeBody r [contentTypeGeoJSON] False (map_option (\<lambda>features.
         countedJson ''FeatureCollection'' ''features'' features (limit \<le> int (length ids))
           [json_link ''/samplingFeatures'' ''self'' MediaGeoJSON]) (those (map (samplingFeatureFeature X states) ids))))"

definition handleSamplingFeatures :: "env \<Rightarrow> 's backend \<Rightarrow> request \<Rightarrow> 's answer" where
  "handleSamplingFeatures X B r =
     negotiated X FamilySamplingFeatureCollection r (\<lambda>media.
     withLimit X r (\<lambda>limit.
     withListed X B SosaSample limit ''listSamplingFeatureEntities'' (\<lambda>ids.
       if media = MediaGeoJSON then writeSamplingFeaturesGeoJSON X B r ids limit
       else encodeBody r [contentTypeJSON] False (Some (countedJson ''SamplingFeatureCollection'' ''items''
         (map (\<lambda>i. refJson ''SamplingFeature'' i (selfLinks (''/samplingFeatures/'' @ i))) ids) (limit \<le> int (length ids))
         [json_link ''/samplingFeatures'' ''self'' MediaJSON])))))"

definition handleSamplingFeature :: "env \<Rightarrow> 's backend \<Rightarrow> request \<Rightarrow> 's answer" where
  "handleSamplingFeature X B r =
     negotiated X FamilySamplingFeatureItem r (\<lambda>_.
     withValidID X ''sampling feature'' (PathValue r ''id'') (
     withEntity X B isSamplingFeatureKind ''entity is not a SamplingFeature'' (PathValue r ''id'') (\<lambda>state.
       encodeBody r [contentTypeJSON, lossy] False (samplingFeatureJson X (samplingFeatureFromState state)))))"

section \<open>POST\<close>

definition mintSamplingFeatureEntityID :: "env \<Rightarrow> string \<Rightarrow> string" where
  "mintSamplingFeatureEntityID X uniqueID = mintEntityID (Ids X) (SamplingFeatureIDPrefix (Cfg X)) uniqueID"

definition buildSamplingFeatureTriplesFromFeature :: "env \<Rightarrow> string \<Rightarrow> string + string \<times> triple list" where
  "buildSamplingFeatureTriplesFromFeature X body =
     (case parseFeature X body of
        None \<Rightarrow> Inl ''invalid JSON Feature''
      | Some feat \<Rightarrow>
          let ps = Properties feat; entityID = mintSamplingFeatureEntityID X (UID ps) in
          if FeatureType feat \<noteq> ''Feature'' then Inl ''expected Feature''
          else if UID ps = [] then Inl ''properties.uid required''
          else Inr (entityID,
            [str_triple entityID PredType SosaSample, str_triple entityID PredUniqueID (UID ps)] @
            opt_triple entityID PredLabel (FeatureName ps) @
            opt_triple entityID PredDescription (FeatureDescription ps) @
            (case HostedProcedureLink ps of None \<Rightarrow> []
             | Some l \<Rightarrow> opt_triple entityID predSamplingFeatureHostedProcedure (LinkHref l)) @
            locationTriplesFromGeometry X entityID (Geometry feat)))"

definition handleSamplingFeaturePost :: "env \<Rightarrow> 's backend \<Rightarrow> context_state \<Rightarrow> Identity \<Rightarrow> request \<Rightarrow> 's answer" where
  "handleSamplingFeaturePost X B ctx identity r =
     createFromBody X B ctx identity r [MediaJSON, MediaGeoJSON] (buildSamplingFeatureTriplesFromFeature X)
       ''/samplingFeatures/'' ''SamplingFeature''"

definition handleSamplingFeaturesOptions :: response where
  "handleSamplingFeaturesOptions = noContent [(''Allow'', ''GET, HEAD, POST, OPTIONS'')]"

definition handleSamplingFeatureOptions :: "env \<Rightarrow> request \<Rightarrow> response" where
  "handleSamplingFeatureOptions X r =
     (case ValidateEntityID (Ids X) (PathValue r ''id'') of
        Some e \<Rightarrow> writeJSONError [] 400 (''invalid sampling feature id: '' @ e)
      | None \<Rightarrow> noContent [(''Allow'', ''GET, HEAD, OPTIONS'')])"

end
