(* ===== verification/FloatArith.thy ===== *)
theory FloatArith
  imports Float64
begin

text \<open>
  Go's \<open>+\<close>, \<open>-\<close>, \<open>*\<close> and \<open>/\<close> on \<open>float64\<close>: the exact result rounded to nearest, ties to even, with the
  special cases of IEEE 754. Every finite value is a whole multiple of \<open>2 ^ -1075\<close>; \<open>f64_scaled\<close> is
  that multiple, so the exact result is a fraction of two integers.
\<close>

definition f64_nan :: f64 where "f64_nan = 0x7FF8000000000001"

definition f64_signed :: "bool \<Rightarrow> int \<Rightarrow> f64" where
  "f64_signed neg mag = word_of_int (if neg then 2 ^ 63 + mag else mag)"

definition f64_scaled :: "f64 \<Rightarrow> int" where
  "f64_scaled x =
     (let e = nat (f64_mag x div 2 ^ 52); m = f64_mag x mod 2 ^ 52;
          v = (if e = 0 then 2 * m else (2 ^ 52 + m) * 2 ^ e)
      in if f64_neg x then - v else v)"

definition round_half_even :: "int \<Rightarrow> int \<Rightarrow> int" where
  "round_half_even a b =
     (let q = a div b; r = a mod b in if b < 2 * r \<or> (2 * r = b \<and> odd q) then q + 1 else q)"

text \<open>The magnitude of the positive fraction \<open>n / d\<close>: the exponent of its leading digit (at least that of
  the smallest normal number) gives the unit in the last place to round to; too large is infinite.\<close>

definition f64_round_fraction :: "int \<Rightarrow> int \<Rightarrow> int" where
  "f64_round_fraction n d =
     (let k = int (bit_len n) - int (bit_len d);
          below = (if 0 \<le> k then n < d * 2 ^ nat k else n * 2 ^ nat (- k) < d);
          e = max (if below then k - 1 else k) (- 1022);
          u = e - 52;
          m = (if 0 \<le> u then round_half_even n (d * 2 ^ nat u) else round_half_even (n * 2 ^ nat (- u)) d)
      in min ((e + 1022) * 2 ^ 52 + m) f64_inf_mag)"

definition f64_quotient :: "bool \<Rightarrow> int \<Rightarrow> int \<Rightarrow> f64" where
  "f64_quotient neg n d = f64_signed neg (if n = 0 then 0 else f64_round_fraction n d)"

definition f64_zero :: "f64 \<Rightarrow> bool" where
  "f64_zero x \<longleftrightarrow> f64_mag x = 0"

definition f64_add :: "f64 \<Rightarrow> f64 \<Rightarrow> f64" where
  "f64_add x y =
     (if f64_is_nan x \<or> f64_is_nan y then f64_nan
      else if f64_is_inf x then (if f64_is_inf y \<and> f64_neg x \<noteq> f64_neg y then f64_nan else x)
      else if f64_is_inf y then y
      else if f64_zero x \<and> f64_zero y then f64_signed (f64_neg x \<and> f64_neg y) 0
      else if f64_zero x then y
      else if f64_zero y then x
      else let s = f64_scaled x + f64_scaled y in f64_quotient (s < 0) \<bar>s\<bar> (2 ^ 1075))"

definition f64_minus :: "f64 \<Rightarrow> f64" where
  "f64_minus x = f64_signed (\<not> f64_neg x) (f64_mag x)"

definition f64_sub :: "f64 \<Rightarrow> f64 \<Rightarrow> f64" where
  "f64_sub x y = f64_add x (f64_minus y)"

definition f64_mul :: "f64 \<Rightarrow> f64 \<Rightarrow> f64" where
  "f64_mul x y =
     (let neg = (f64_neg x \<noteq> f64_neg y) in
      if f64_is_nan x \<or> f64_is_nan y then f64_nan
      else if f64_is_inf x \<or> f64_is_inf y then
        (if f64_zero x \<or> f64_zero y then f64_nan else f64_signed neg f64_inf_mag)
      else f64_quotient neg \<bar>f64_scaled x * f64_scaled y\<bar> (2 ^ 2150))"

definition f64_div :: "f64 \<Rightarrow> f64 \<Rightarrow> f64" where
  "f64_div x y =
     (let neg = (f64_neg x \<noteq> f64_neg y) in
      if f64_is_nan x \<or> f64_is_nan y then f64_nan
      else if f64_is_inf x then (if f64_is_inf y then f64_nan else f64_signed neg f64_inf_mag)
      else if f64_is_inf y then f64_signed neg 0
      else if f64_zero y then (if f64_zero x then f64_nan else f64_signed neg f64_inf_mag)
      else f64_quotient neg \<bar>f64_scaled x\<bar> \<bar>f64_scaled y\<bar>)"

section \<open>Signs and magnitudes\<close>

lemma f64_mag_bounds: "0 \<le> f64_mag x \<and> f64_mag x < 2 ^ 63"
proof -
  have "uint (take_bit 63 x) = take_bit 63 (uint x)" by (simp add: unsigned_take_bit_eq)
  then show ?thesis using take_bit_int_less_exp [of 63 "uint x"] by (simp add: f64_mag_def)
qed

lemma f64_signed_uint:
  assumes "0 \<le> m" and "m < 2 ^ 63"
  shows "uint (f64_signed neg m) = (if neg then 2 ^ 63 + m else m)"
proof -
  have "uint (f64_signed neg m) = (if neg then 2 ^ 63 + m else m) mod 2 ^ 64"
    unfolding f64_signed_def uint_word_of_int by simp
  then show ?thesis using assms by auto
qed

lemma f64_signed_mag:
  assumes "0 \<le> m" and "m < 2 ^ 63"
  shows "f64_mag (f64_signed neg m) = m"
proof -
  have "f64_mag (f64_signed neg m) = uint (f64_signed neg m) mod 2 ^ 63"
    by (simp only: f64_mag_def unsigned_take_bit_eq) (simp add: take_bit_eq_mod)
  then show ?thesis using assms by (simp add: f64_signed_uint)
qed

lemma f64_signed_neg:
  assumes "0 \<le> m" and "m < 2 ^ 63"
  shows "f64_neg (f64_signed neg m) \<longleftrightarrow> neg"
proof -
  have "(2 ^ 63 + m) div 2 ^ 63 = 1" using assms by (intro div_pos_geq [THEN trans]) simp_all
  then have "odd ((2 ^ 63 + m) div 2 ^ 63)" by simp
  then have "bit (2 ^ 63 + m) 63" unfolding bit_iff_odd .
  moreover have "\<not> bit m 63" using assms by (simp add: bit_iff_odd)
  ultimately show ?thesis using assms
    by (simp add: f64_neg_def f64_signed_uint flip: bit_uint_iff [where w="f64_signed neg m" and n=63, simplified])
qed

lemma f64_minus_mag [simp]: "f64_mag (f64_minus x) = f64_mag x"
  using f64_mag_bounds [of x] by (simp add: f64_minus_def f64_signed_mag)

lemma f64_minus_neg [simp]: "f64_neg (f64_minus x) \<longleftrightarrow> \<not> f64_neg x"
  using f64_mag_bounds [of x] by (simp add: f64_minus_def f64_signed_neg)

lemma f64_finite_mag: "f64_finite x \<longleftrightarrow> f64_mag x < f64_inf_mag"
  by (auto simp: f64_finite_def f64_is_nan_def f64_is_inf_def)

lemma f64_minus_finite [simp]: "f64_finite (f64_minus x) = f64_finite x"
  by (simp add: f64_finite_mag)

lemma f64_zero_signed [simp]: "f64_zero (f64_signed neg 0)"
  by (simp add: f64_zero_def f64_signed_mag)

lemma f64_zero_finite: "f64_zero x \<Longrightarrow> f64_finite x"
  by (simp add: f64_zero_def f64_finite_mag f64_inf_mag_def)

lemma f64_zero_scaled: "f64_zero x \<Longrightarrow> f64_scaled x = 0"
  by (simp add: f64_zero_def f64_scaled_def)

section \<open>What the zero results are\<close>

text \<open>The difference of equal finite values is a zero, zero times a finite value and zero divided by a
  value that is neither zero nor NaN are zeros, and adding a zero changes no value.\<close>

lemma f64_sub_same: "f64_finite x \<Longrightarrow> f64_zero (f64_sub x x)"
proof -
  assume fin: "f64_finite x"
  have "f64_scaled (f64_minus x) = - f64_scaled x" by (simp add: f64_scaled_def Let_def)
  with fin show ?thesis
    by (auto simp: f64_sub_def f64_add_def f64_finite_def f64_is_nan_def f64_is_inf_def f64_quotient_def f64_zero_def
        f64_signed_mag)
qed

lemma f64_mul_zero: "f64_zero x \<Longrightarrow> f64_finite y \<Longrightarrow> f64_zero (f64_mul x y)"
  using f64_zero_finite [of x]
  by (auto simp: f64_mul_def f64_finite_def f64_zero_scaled f64_quotient_def Let_def)

lemma f64_div_zero: "f64_zero x \<Longrightarrow> \<not> f64_is_nan y \<Longrightarrow> \<not> f64_zero y \<Longrightarrow> f64_zero (f64_div x y)"
  using f64_zero_finite [of x]
  by (auto simp: f64_div_def f64_finite_def f64_zero_scaled f64_quotient_def Let_def)

lemma f64_add_zero: "f64_zero x \<Longrightarrow> f64_finite y \<Longrightarrow> f64_key (f64_add x y) = f64_key y \<and> f64_finite (f64_add x y)"
  using f64_zero_finite [of x]
  by (auto simp: f64_add_def f64_finite_def f64_key_def f64_zero_def f64_signed_mag f64_inf_mag_def f64_is_nan_def
      f64_is_inf_def)

section \<open>Distinct values\<close>

text \<open>Because of the subnormal numbers the difference of distinct finite values is never a zero.\<close>

definition scaled_mag :: "int \<Rightarrow> int" where
  "scaled_mag n =
     (let e = nat (n div 2 ^ 52); m = n mod 2 ^ 52 in if e = 0 then 2 * m else (2 ^ 52 + m) * 2 ^ e)"

lemma f64_scaled_mag: "f64_scaled x = (if f64_neg x then - scaled_mag (f64_mag x) else scaled_mag (f64_mag x))"
  by (simp add: f64_scaled_def scaled_mag_def Let_def)

lemma scaled_mag_even: "even (scaled_mag n)"
  by (simp add: scaled_mag_def Let_def)

lemma scaled_mag_bounds:
  assumes "0 \<le> n"
  defines "e \<equiv> nat (n div 2 ^ 52)"
  shows "scaled_mag n < 2 ^ 53 * 2 ^ e" and "1 \<le> e \<Longrightarrow> 2 ^ 52 * 2 ^ e \<le> scaled_mag n" and "0 \<le> scaled_mag n"
proof -
  have m: "0 \<le> n mod 2 ^ 52" "n mod 2 ^ 52 < 2 ^ 52" by simp_all
  have "(2 ^ 52 + n mod 2 ^ 52) * 2 ^ e < (2 ^ 53 :: int) * 2 ^ e"
    using m by (intro mult_strict_right_mono) simp_all
  then show "scaled_mag n < 2 ^ 53 * 2 ^ e" using m by (simp add: scaled_mag_def e_def Let_def)
  have "(2 ^ 52 :: int) * 2 ^ e \<le> (2 ^ 52 + n mod 2 ^ 52) * 2 ^ e"
    using m by (intro mult_right_mono) simp_all
  then show "1 \<le> e \<Longrightarrow> 2 ^ 52 * 2 ^ e \<le> scaled_mag n" by (simp add: scaled_mag_def e_def Let_def)
  show "0 \<le> scaled_mag n" using m by (simp add: scaled_mag_def Let_def)
qed

lemma scaled_mag_less:
  assumes "0 \<le> a" "a < b"
  shows "scaled_mag a < scaled_mag b"
proof (cases "a div 2 ^ 52 = b div 2 ^ 52")
  case True
  have "2 ^ 52 * (a div 2 ^ 52) + a mod 2 ^ 52 = a" "2 ^ 52 * (b div 2 ^ 52) + b mod 2 ^ 52 = b"
    by (rule mult_div_mod_eq)+
  with assms(2) have "2 ^ 52 * (b div 2 ^ 52) + a mod 2 ^ 52 < 2 ^ 52 * (b div 2 ^ 52) + b mod 2 ^ 52"
    by (simp only: True [symmetric])
  then have "a mod 2 ^ 52 < b mod 2 ^ 52" by (simp only: add_less_cancel_left)
  then show ?thesis using True by (simp add: scaled_mag_def Let_def)
next
  case False
  have le: "a div 2 ^ 52 \<le> b div 2 ^ 52" using assms(2) by (intro zdiv_mono1) simp_all
  have nonneg: "0 \<le> a div 2 ^ 52" using assms(1) by (simp add: pos_imp_zdiv_nonneg_iff)
  have e: "nat (a div 2 ^ 52) + 1 \<le> nat (b div 2 ^ 52)" using le False nonneg by linarith
  then have "(2 :: int) ^ (nat (a div 2 ^ 52) + 1) \<le> 2 ^ nat (b div 2 ^ 52)" by (intro power_increasing) simp_all
  then have "(2 ^ 53 :: int) * 2 ^ nat (a div 2 ^ 52) \<le> 2 ^ 52 * 2 ^ nat (b div 2 ^ 52)" by simp
  moreover have "0 \<le> b" using assms by simp
  ultimately show ?thesis
    using scaled_mag_bounds(1) [OF assms(1)] scaled_mag_bounds(2) [OF \<open>0 \<le> b\<close>] e by linarith
qed

lemma f64_scaled_key: "f64_key x < f64_key y \<Longrightarrow> f64_scaled x < f64_scaled y"
proof -
  assume less: "f64_key x < f64_key y"
  have nonneg: "0 \<le> f64_mag x" "0 \<le> f64_mag y" using f64_mag_bounds by simp_all
  note b = scaled_mag_bounds(3) [OF nonneg(1)] scaled_mag_bounds(3) [OF nonneg(2)]
  have z: "scaled_mag 0 = 0" by (simp add: scaled_mag_def)
  show ?thesis
  proof (cases "f64_neg x \<longleftrightarrow> f64_neg y")
    case True
    with less nonneg show ?thesis
      using scaled_mag_less [of "f64_mag x" "f64_mag y"] scaled_mag_less [of "f64_mag y" "f64_mag x"]
      by (auto simp: f64_key_def f64_scaled_mag split: if_splits)
  next
    case False
    with less nonneg have neg: "f64_neg x" "\<not> f64_neg y" "f64_mag x \<noteq> 0 \<or> f64_mag y \<noteq> 0"
      by (auto simp: f64_key_def split: if_splits)
    then have "0 < scaled_mag (f64_mag x) \<or> 0 < scaled_mag (f64_mag y)"
      using scaled_mag_less [of 0 "f64_mag x"] scaled_mag_less [of 0 "f64_mag y"] nonneg z by force
    with neg b show ?thesis by (auto simp: f64_scaled_mag)
  qed
qed

lemma f64_round_fraction_pos:
  assumes "2 \<le> n"
  shows "0 < f64_round_fraction n (2 ^ 1075)"
proof -
  have half: "n * 2 ^ 1074 div 2 ^ 1075 = n div 2"
  proof -
    have "n * 2 ^ 1074 div 2 ^ 1075 = (2 ^ 1074 * n) div (2 ^ 1074 * 2)" by (simp add: mult.commute)
    also have "\<dots> = n div 2" by (rule div_mult_mult1) simp
    finally show ?thesis .
  qed
  have round: "a div b \<le> round_half_even a b" for a b :: int by (simp add: round_half_even_def Let_def)
  have nonneg: "0 \<le> round_half_even a b" if "0 \<le> a" "0 < b" for a b :: int
    using round [of a b] that by (meson order_trans pos_imp_zdiv_nonneg_iff)
  define e where "e = (let k = int (bit_len n) - int (bit_len (2 ^ 1075));
      below = (if 0 \<le> k then n < 2 ^ 1075 * 2 ^ nat k else n * 2 ^ nat (- k) < 2 ^ 1075)
      in max (if below then k - 1 else k) (- 1022))"
  define m where "m = (if 0 \<le> e - 52 then round_half_even n (2 ^ 1075 * 2 ^ nat (e - 52))
      else round_half_even (n * 2 ^ nat (- (e - 52))) (2 ^ 1075))"
  have eq: "f64_round_fraction n (2 ^ 1075) = min ((e + 1022) * 2 ^ 52 + m) f64_inf_mag"
    by (simp only: f64_round_fraction_def e_def m_def Let_def)
  have "- 1022 \<le> e" by (simp add: e_def Let_def)
  have m0: "0 \<le> m" using assms by (simp add: m_def nonneg)
  have "0 < (e + 1022) * 2 ^ 52 + m"
  proof (cases "e = - 1022")
    case True
    then have "m = round_half_even (n * 2 ^ 1074) (2 ^ 1075)" by (simp add: m_def)
    with round [of "n * 2 ^ 1074" "2 ^ 1075"] half have "n div 2 \<le> m" by simp
    with assms True show ?thesis by simp
  next
    case False
    with \<open>- 1022 \<le> e\<close> m0 show ?thesis by simp
  qed
  then show ?thesis unfolding eq f64_inf_mag_def by linarith
qed

lemma f64_round_fraction_le: "f64_round_fraction n d \<le> f64_inf_mag"
  unfolding f64_round_fraction_def Let_def by (rule min.cobounded2)

lemma f64_sub_distinct:
  assumes "f64_finite x" "f64_finite y" "f64_key x \<noteq> f64_key y"
  shows "\<not> f64_zero (f64_sub x y)"
proof -
  have fin: "\<not> f64_is_nan x" "\<not> f64_is_inf x" "\<not> f64_is_nan (f64_minus y)" "\<not> f64_is_inf (f64_minus y)"
    using assms(1,2) f64_minus_finite [of y] unfolding f64_finite_def by blast+
  have minus: "f64_zero (f64_minus y) = f64_zero y" by (simp add: f64_zero_def)
  have both: "\<not> (f64_zero x \<and> f64_zero y)" using assms(3) by (auto simp: f64_zero_def f64_key_def split: if_splits)
  define s where "s = f64_scaled x + f64_scaled (f64_minus y)"
  have s: "s = f64_scaled x - f64_scaled y" by (simp add: s_def f64_scaled_mag)
  have "even s" using scaled_mag_even by (simp add: s f64_scaled_mag)
  moreover have "s \<noteq> 0" using assms(3) f64_scaled_key [of x y] f64_scaled_key [of y x]
    by (cases "f64_key x < f64_key y") (simp_all add: s)
  ultimately have two: "2 \<le> \<bar>s\<bar>" by (auto elim!: evenE)
  define r where "r = f64_round_fraction \<bar>s\<bar> (2 ^ 1075)"
  have "0 < r" using f64_round_fraction_pos [OF two] by (simp only: r_def)
  moreover have "r \<le> f64_inf_mag" unfolding r_def by (rule f64_round_fraction_le)
  ultimately have "\<not> f64_zero (f64_signed neg r)" for neg
    by (simp add: f64_zero_def f64_signed_mag f64_inf_mag_def)
  moreover have "f64_quotient (s < 0) \<bar>s\<bar> (2 ^ 1075) = f64_signed (s < 0) r"
  proof -
    have "\<bar>s\<bar> \<noteq> 0" using two by linarith
    then show ?thesis by (simp only: f64_quotient_def r_def if_False)
  qed
  moreover have "f64_sub x y = (if f64_zero x then f64_minus y else if f64_zero y then x
      else f64_quotient (s < 0) \<bar>s\<bar> (2 ^ 1075))"
    using both by (simp only: f64_sub_def f64_add_def s_def [symmetric] Let_def fin minus simp_thms if_False if_cancel)
  ultimately show ?thesis using both minus by simp
qed

end
