(* ===== verification/SystemReads.thy ===== *)
theory SystemReads
  imports FeatureViews FloatArith
begin

text \<open>
  The read side of \<open>systems.go\<close>, \<open>systems_subsystems.go\<close> and \<open>systemhistory.go\<close>: the system collection
  with its filters (IDs, a keyword, a WKT polygon), one system in its three representations, the
  systems a system hosts, and its history, which is its current state.
\<close>

section \<open>A system\<close>

record system =
  SysID :: string
  SysLabel :: string
  SysDescription :: string
  SysDefinition :: string
  SysUID :: string
  SysProperties :: "featureProperties option"
  SysGeometry :: string
  SysHosts :: "string list"
  SysHostedBy :: string
  SysUsedProcedure :: string
  SysAttachedTo :: string
  SysIdentifiers :: "obj list"
  SysCapabilities :: "obj list"
  SysCharacteristics :: "obj list"
  SysLinks :: "link list"

definition objectsOf :: "triple list \<Rightarrow> string \<Rightarrow> obj list" where
  "objectsOf ts p = map Object (filter (\<lambda>t. Predicate t = p) ts)"

definition systemFromState :: "entity_state \<Rightarrow> system" where
  "systemFromState state =
     (let ts = EntityTriples state; self = ''/systems/'' @ EntityID state;
          str = (\<lambda>p. or_empty (firstStringObject ts [p])) in
      \<lparr>SysID = EntityID state, SysLabel = str PredLabel, SysDescription = str PredDescription,
       SysDefinition = str PredDefinition, SysUID = str PredUniqueID, SysProperties = uidProperties ts,
       SysGeometry = str PredPosition, SysHosts = allStringObjects ts PredHosts, SysHostedBy = str PredIsHostedBy,
       SysUsedProcedure = str PredUsedProcedure, SysAttachedTo = str PredAttachedTo,
       SysIdentifiers = objectsOf ts PredIdentifierValue, SysCapabilities = objectsOf ts PredCapabilityValue,
       SysCharacteristics = objectsOf ts PredCharacteristicValue,
       SysLinks = selfLinks self @
         [json_link self ''alternate'' MediaSensorML, json_link self ''alternate'' MediaJSONLD,
          json_link (self @ ''/datastreams'') ''datastreams'' MediaJSON,
          json_link (self @ ''/controlstreams'') ''controlstreams'' MediaJSON]\<rparr>)"

definition isSystemKind :: "triple list \<Rightarrow> bool" where
  "isSystemKind ts \<longleftrightarrow> firstStringObject ts [PredType] = Some SSNSystem \<or> firstStringObject ts [PredType] = Some SosaSensor"

text \<open>\<open>json.Marshal\<close> of an object; a float that is not finite cannot be written.\<close>

definition objJson :: "env \<Rightarrow> obj \<Rightarrow> json option" where
  "objJson X v =
     (case v of
        OStr s \<Rightarrow> Some (JStr s)
      | OFloat f \<Rightarrow> if f64_finite f then Some (JNum (JsonFloat X f)) else None
      | OBool b \<Rightarrow> Some (JBool b)
      | OJson j \<Rightarrow> Some j)"

definition omit_objs :: "env \<Rightarrow> string \<Rightarrow> obj list \<Rightarrow> (string \<times> json) list option" where
  "omit_objs X k vs = (if vs = [] then Some [] else map_option (\<lambda>js. [(k, JArr js)]) (those (map (objJson X) vs)))"

definition systemJson :: "env \<Rightarrow> system \<Rightarrow> json option" where
  "systemJson X s =
     do { geometry \<leftarrow> raw_member X ''geometry'' (SysGeometry s);
          ids \<leftarrow> omit_objs X ''identifiers'' (SysIdentifiers s);
          caps \<leftarrow> omit_objs X ''capabilities'' (SysCapabilities s);
          chars \<leftarrow> omit_objs X ''characteristics'' (SysCharacteristics s);
          Some (JObj ([(''id'', JStr (SysID s)), (''type'', JStr ''System'')] @ omit_empty ''label'' (SysLabel s) @
            omit_empty ''description'' (SysDescription s) @ omit_empty ''definition'' (SysDefinition s) @
            omit_empty ''uid'' (SysUID s) @ omit_empty ''uniqueId'' (SysUID s) @
            omit_nil ''properties'' featurePropertiesJson (SysProperties s) @ geometry @
            omit_list ''hosts'' JStr (SysHosts s) @ omit_empty ''hostedBy'' (SysHostedBy s) @
            omit_empty ''usedProcedure'' (SysUsedProcedure s) @ omit_empty ''attachedTo'' (SysAttachedTo s) @
            ids @ caps @ chars @ [(''links'', JArr (map linkJson (SysLinks s)))])) }"

section \<open>Filters\<close>

type_synonym wktPoint = "f64 \<times> f64"

record systemCollectionFilters =
  FIds :: "string list"
  FKeyword :: string
  FGeom :: "wktPoint list"

definition systemFiltersActive :: "systemCollectionFilters \<Rightarrow> bool" where
  "systemFiltersActive f \<longleftrightarrow> FIds f \<noteq> [] \<or> FKeyword f \<noteq> [] \<or> FGeom f \<noteq> []"

text \<open>The parts of an ID list, with whether a URI and a local ID have been seen.\<close>

fun idListParts :: "bool \<Rightarrow> bool \<Rightarrow> string list \<Rightarrow> string + string list" where
  "idListParts sawURI sawLocal [] = Inr []"
| "idListParts sawURI sawLocal (p # ps) =
     (let part = trim_space p; isURI = str_contains part ''://'';
          u = (sawURI \<or> isURI); l = (sawLocal \<or> \<not> isURI) in
      if part = [] then Inl ''id list must not contain empty values''
      else if u \<and> l then Inl ''id list must not mix local IDs and unique identifier URIs''
      else case idListParts u l ps of Inl e \<Rightarrow> Inl e | Inr ids \<Rightarrow> Inr (part # ids))"

definition parseIDListFilter :: "string list \<Rightarrow> string + string list" where
  "parseIDListFilter values = idListParts False False (concat (map (go_split '','') values))"

text \<open>\<open>strings.Fields\<close>: \<open>space_len\<close> is the length of the white space rune a string starts with.\<close>

definition space_len :: "string \<Rightarrow> nat" where
  "space_len s =
     (case s of
        [] \<Rightarrow> 0
      | c # _ \<Rightarrow> if ascii_space c then 1 else (case find (\<lambda>w. prefix w s) wide_spaces of None \<Rightarrow> 0 | Some w \<Rightarrow> length w))"

function fields_from :: "string \<Rightarrow> string \<Rightarrow> string list" where
  "fields_from acc s =
     (if s = [] then (if acc = [] then [] else [rev acc])
      else if space_len s = 0 then fields_from (hd s # acc) (tl s)
      else (if acc = [] then [] else [rev acc]) @ fields_from [] (drop (space_len s) s))"
  by pat_completeness auto
termination
  by (relation "measure (\<lambda>(acc, s). length s)") auto

declare fields_from.simps [simp del]

definition go_fields :: "string \<Rightarrow> string list" where
  "go_fields s = fields_from [] s"

definition parsePosition :: "stdlib \<Rightarrow> string \<Rightarrow> string + wktPoint" where
  "parsePosition S part =
     (case go_fields (trim_space part) of
        x # y # _ \<Rightarrow>
          (case ParseFloat S x of
             None \<Rightarrow> Inl ''invalid longitude''
           | Some lon \<Rightarrow>
               if \<not> f64_finite lon then Inl ''invalid longitude''
               else case ParseFloat S y of
                      None \<Rightarrow> Inl ''invalid latitude''
                    | Some lat \<Rightarrow> if \<not> f64_finite lat then Inl ''invalid latitude'' else Inr (lon, lat))
      | _ \<Rightarrow> Inl ''POLYGON positions must contain longitude and latitude'')"

fun parsePositions :: "stdlib \<Rightarrow> string list \<Rightarrow> string + wktPoint list" where
  "parsePositions S [] = Inr []"
| "parsePositions S (p # ps) =
     (case parsePosition S p of
        Inl e \<Rightarrow> Inl e
      | Inr pt \<Rightarrow> (case parsePositions S ps of Inl e \<Rightarrow> Inl e | Inr pts \<Rightarrow> Inr (pt # pts)))"

text \<open>\<open>POLYGON ((lon lat, \<dots>))\<close>, the ring closed. (No letter outside ASCII has one of POLYGON's as its upper
  case, so what passes the prefix test is at least as long.)\<close>

definition parseWKTPolygon :: "env \<Rightarrow> string \<Rightarrow> string + wktPoint list" where
  "parseWKTPolygon X raw =
     (let raw' = trim_space raw in
      if take 7 (ToUpper X raw') \<noteq> ''POLYGON'' then Inl ''only POLYGON WKT is supported''
      else let body = trim_space (drop 7 raw') in
        if take 2 body \<noteq> ''(('' \<or> drop (length body - 2) body \<noteq> ''))''
        then Inl ''POLYGON must use double-parenthesized coordinate rings''
        else let parts = go_split '','' (trim_space (take (length body - 4) (drop 2 body))) in
          if length parts < 4 then Inl ''POLYGON outer ring must contain at least four positions''
          else case parsePositions (Std X) parts of
            Inl e \<Rightarrow> Inl e
          | Inr pts \<Rightarrow>
              if \<not> f64_eq (fst (hd pts)) (fst (last pts)) \<or> \<not> f64_eq (snd (hd pts)) (snd (last pts))
              then Inl ''POLYGON outer ring must be closed'' else Inr pts)"

definition parseSystemCollectionFilters :: "env \<Rightarrow> request \<Rightarrow> string + systemCollectionFilters" where
  "parseSystemCollectionFilters X r =
     (case parseIDListFilter (Query r ''id'') of
        Inl e \<Rightarrow> Inl e
      | Inr ids \<Rightarrow>
          let q = trim_space (query_get r ''q''); keyword = (if q = [] then [] else ToLower X q);
              raw = trim_space (query_get r ''geom'') in
          if raw = [] then Inr \<lparr>FIds = ids, FKeyword = keyword, FGeom = []\<rparr>
          else case parseWKTPolygon X raw of
                 Inl e \<Rightarrow> Inl (''geom invalid: '' @ e)
               | Inr geom \<Rightarrow> Inr \<lparr>FIds = ids, FKeyword = keyword, FGeom = geom\<rparr>)"

definition systemMatchesKeyword :: "env \<Rightarrow> system \<Rightarrow> string \<Rightarrow> bool" where
  "systemMatchesKeyword X s q \<longleftrightarrow>
     list_ex (\<lambda>candidate. str_contains (ToLower X candidate) q)
       [SysID s, SysUID s, SysUID s, SysLabel s, SysDescription s, SysDefinition s]"

text \<open>The ray casting loop: the edge from the previous vertex to each vertex in turn.\<close>

definition edgeCrossed :: "wktPoint \<Rightarrow> wktPoint \<Rightarrow> wktPoint \<Rightarrow> bool" where
  "edgeCrossed p pi pj \<longleftrightarrow>
     f64_lt (snd p) (snd pi) \<noteq> f64_lt (snd p) (snd pj) \<and>
     f64_lt (fst p)
       (f64_add (f64_div (f64_mul (f64_sub (fst pj) (fst pi)) (f64_sub (snd p) (snd pi))) (f64_sub (snd pj) (snd pi)))
         (fst pi))"

fun crossings :: "wktPoint \<Rightarrow> wktPoint \<Rightarrow> wktPoint list \<Rightarrow> bool \<Rightarrow> bool" where
  "crossings p pj [] inside = inside"
| "crossings p pj (pi # ps) inside = crossings p pi ps (if edgeCrossed p pi pj then \<not> inside else inside)"

definition pointInPolygon :: "wktPoint \<Rightarrow> wktPoint list \<Rightarrow> bool" where
  "pointInPolygon p polygon = (if polygon = [] then False else crossings p (last polygon) polygon False)"

definition systemPointWithinWKTPolygon :: "env \<Rightarrow> system \<Rightarrow> wktPoint list \<Rightarrow> bool" where
  "systemPointWithinWKTPolygon X s polygon =
     (if SysGeometry s = [] then False
      else case Option.bind (ParseJson X (SysGeometry s)) (PointOf X) of
             None \<Rightarrow> False
           | Some (lon, lat, alt) \<Rightarrow> f64_finite lon \<and> f64_finite lat \<and> pointInPolygon (lon, lat) polygon)"

definition systemStateMatchesFilters :: "env \<Rightarrow> systemCollectionFilters \<Rightarrow> entity_state \<Rightarrow> bool" where
  "systemStateMatchesFilters X f state \<longleftrightarrow>
     (let s = systemFromState state in
      \<not> (FIds f \<noteq> [] \<and> EntityID state \<notin> set (FIds f) \<and> (SysUID s = [] \<or> SysUID s \<notin> set (FIds f))) \<and>
      \<not> (FKeyword f \<noteq> [] \<and> \<not> systemMatchesKeyword X s (FKeyword f)) \<and>
      \<not> (FGeom f \<noteq> [] \<and> \<not> systemPointWithinWKTPolygon X s (FGeom f)))"

section \<open>The collection\<close>

definition systemRefJson :: "string \<Rightarrow> string \<Rightarrow> string \<Rightarrow> link list \<Rightarrow> json" where
  "systemRefJson i name description links =
     JObj ([(''id'', JStr i), (''type'', JStr ''System'')] @ omit_empty ''name'' name @
       omit_empty ''description'' description @ omit_list ''links'' linkJson links)"

definition systemItem :: "(string \<rightharpoonup> entity_state) \<Rightarrow> string \<Rightarrow> json" where
  "systemItem states i =
     (let links = [json_link (''/systems/'' @ i) ''self'' MediaJSON] in
      case states i of
        None \<Rightarrow> systemRefJson i [] [] links
      | Some state \<Rightarrow> systemRefJson i (SysLabel (systemFromState state)) (SysDescription (systemFromState state)) links)"

text \<open>The Feature of a system: ID, geometry and properties in key order.\<close>

definition systemFeature :: "env \<Rightarrow> (string \<rightharpoonup> entity_state) \<Rightarrow> string \<Rightarrow> json \<times> json option \<times> (string \<times> json) list" where
  "systemFeature X states i =
     (case states i of
        None \<Rightarrow> (JStr i, None, [(''id'', JStr i), (''type'', JStr ''System'')])
      | Some state \<Rightarrow>
          let s = systemFromState state in
          (JStr i,
           Option.bind (firstStringObject (EntityTriples state) [PredPosition])
             (\<lambda>v. Option.bind (ParseJson X v) (GeometryJson X)),
           [(''definition'', JStr (SysDefinition s)), (''description'', JStr (SysDescription s)), (''id'', JStr i),
            (''label'', JStr (SysLabel s)), (''type'', JStr ''System'')]))"

definition listSystemEntities :: "env \<Rightarrow> 's backend \<Rightarrow> int \<Rightarrow> (string list \<Rightarrow> 's answer) \<Rightarrow> 's answer" where
  "listSystemEntities X B limit = withListed X B SSNSystem limit ''listSystemEntities''"

definition filterSystemEntities ::
  "env \<Rightarrow> 's backend \<Rightarrow> string list \<Rightarrow> systemCollectionFilters \<Rightarrow> int \<Rightarrow> (string list \<Rightarrow> 's answer) \<Rightarrow> 's answer"
where
  "filterSystemEntities X B ids f limit k =
     withBatch X B ids (\<lambda>states.
       k (takeMatching (\<lambda>i. case states i of None \<Rightarrow> False | Some state \<Rightarrow> systemStateMatchesFilters X f state) limit [] ids))"

definition writeSystems :: "env \<Rightarrow> 's backend \<Rightarrow> request \<Rightarrow> MediaType \<Rightarrow> int \<Rightarrow> string list \<Rightarrow> 's answer" where
  "writeSystems X B r media limit entities =
     withBatch X B entities (\<lambda>states.
       if media = MediaGeoJSON
       then encodeBody r [contentTypeGeoJSON] True (Some (FeaturesJson X (map (systemFeature X states) entities)))
       else encodeJSON r (Some (countedJson ''SystemCollection'' ''items'' (map (systemItem states) entities)
         (int (length entities) = limit) [json_link ''/systems'' ''self'' MediaJSON])))"

definition handleSystems :: "env \<Rightarrow> 's backend \<Rightarrow> request \<Rightarrow> 's answer" where
  "handleSystems X B r =
     negotiated X FamilySystemCollection r (\<lambda>media.
     withLimit X r (\<lambda>limit.
       case parseSystemCollectionFilters X r of
         Inl e \<Rightarrow> (\<lambda>g. (writeJSONError [] 400 e, g))
       | Inr f \<Rightarrow>
           listSystemEntities X B (if systemFiltersActive f then MaxListLimit (Cfg X) else limit) (\<lambda>ids.
             if systemFiltersActive f then filterSystemEntities X B ids f limit (writeSystems X B r media limit)
             else writeSystems X B r media limit ids)))"

section \<open>One system\<close>

definition writeSystemJSONWithLinks :: "env \<Rightarrow> request \<Rightarrow> entity_state \<Rightarrow> link list \<Rightarrow> 's answer" where
  "writeSystemJSONWithLinks X r state extraLinks =
     (let s = systemFromState state in
      encodeBody r [contentTypeJSON, lossy] True (systemJson X (s\<lparr>SysLinks := SysLinks s @ extraLinks\<rparr>)))"

definition writeSystemJSON :: "env \<Rightarrow> request \<Rightarrow> entity_state \<Rightarrow> 's answer" where
  "writeSystemJSON X r state = writeSystemJSONWithLinks X r state []"

definition writeSystemSensorML :: "env \<Rightarrow> request \<Rightarrow> entity_state \<Rightarrow> MediaType \<Rightarrow> 's answer" where
  "writeSystemSensorML X r state media =
     writeDocument X r [mediaHeader media, lossy]
       (sensorMLDocument X ''writeSystemSensorML'' state (SysLinks (systemFromState state)))"

definition writeSystemJSONLD :: "env \<Rightarrow> request \<Rightarrow> entity_state \<Rightarrow> 's answer" where
  "writeSystemJSONLD X r state g =
     (case SerializeJSONLD X (EntityTriples state) of
        None \<Rightarrow> writeBackendError X [] (Wrap ''writeSystemJSONLD'' (Plain ''serialize jsonld'')) g
      | Some s \<Rightarrow> (okResponse r [mediaHeader MediaJSONLD] (TextBody s), g))"

text \<open>The switch on the negotiated media type.\<close>

definition writeSystemItem :: "env \<Rightarrow> request \<Rightarrow> MediaType \<Rightarrow> entity_state \<Rightarrow> link list \<Rightarrow> 's answer" where
  "writeSystemItem X r media state extraLinks =
     (if media = MediaJSON then writeSystemJSONWithLinks X r state extraLinks
      else if media \<in> {MediaSensorML, MediaSensorMLLegacy} then writeSystemSensorML X r state media
      else if media = MediaJSONLD then writeSystemJSONLD X r state
      else (\<lambda>g. (WriteNotAcceptable FamilySystemItem, g)))"

definition handleSystem :: "env \<Rightarrow> 's backend \<Rightarrow> request \<Rightarrow> 's answer" where
  "handleSystem X B r =
     (let i = PathValue r ''id'' in
     withValidID X ''system'' i (
     negotiated X FamilySystemItem r (\<lambda>media.
     withEntity X B isSystemKind (''no system: '' @ i) i (\<lambda>state.
       writeSystemItem X r media state []))))"

section \<open>Subsystems\<close>

definition systemHostedBy :: "triple list \<Rightarrow> string \<Rightarrow> bool" where
  "systemHostedBy ts parentID \<longleftrightarrow> firstStringObject ts [PredIsHostedBy] = Some parentID"

definition subsystemItem :: "string \<Rightarrow> system \<Rightarrow> json" where
  "subsystemItem parentID s =
     systemRefJson (SysID s) (SysLabel s) (SysDescription s)
       [json_link (''/systems/'' @ parentID @ ''/subsystems/'' @ SysID s) ''self'' MediaJSON,
        json_link (''/systems/'' @ SysID s) ''canonical'' MediaJSON]"

definition handleSystemSubsystems :: "env \<Rightarrow> 's backend \<Rightarrow> request \<Rightarrow> 's answer" where
  "handleSystemSubsystems X B r =
     (let parentID = PathValue r ''id'' in
     negotiated X FamilySystemCollection r (\<lambda>media.
       if media \<noteq> MediaJSON then (\<lambda>g. (WriteNotAcceptable FamilySystemCollection, g)) else
     withValidID X ''system'' parentID (
     withLimit X r (\<lambda>limit.
     withEntity X B isSystemKind (''no system: '' @ parentID) parentID (\<lambda>_.
     listSystemEntities X B (MaxListLimit (Cfg X)) (\<lambda>ids.
     withBatch X B ids (\<lambda>states.
       let items = collectRows (rowOf (\<lambda>ts. isSystemKind ts \<and> systemHostedBy ts parentID) systemFromState (\<lambda>_. True)) states limit ids in
       encodeBody r [contentTypeJSON] False (Some (countedJson ''SystemCollection'' ''items''
         (map (subsystemItem parentID) items) (int (length items) = limit)
         [json_link (''/systems/'' @ parentID @ ''/subsystems'') ''self'' MediaJSON])))))))))"

definition handleSystemSubsystem :: "env \<Rightarrow> 's backend \<Rightarrow> request \<Rightarrow> 's answer" where
  "handleSystemSubsystem X B r =
     (let parentID = PathValue r ''id''; subsystemID = PathValue r ''subsystemID'' in
     withValidID X ''system'' parentID (
     withValidID X ''subsystem'' subsystemID (
     negotiated X FamilySystemItem r (\<lambda>media.
     withEntity X B isSystemKind (''no system: '' @ parentID) parentID (\<lambda>_.
     withEntity X B (\<lambda>ts. isSystemKind ts \<and> systemHostedBy ts parentID) (''no subsystem: '' @ subsystemID) subsystemID (\<lambda>state.
       writeSystemItem X r media state
         [\<lparr>LinkHref = ''/systems/'' @ parentID, LinkRel = ''parent'', LinkType = MediaJSON, LinkTitle = ''Parent system''\<rparr>]))))))"

section \<open>History\<close>

definition currentSystemRevisionID :: string where "currentSystemRevisionID = ''current''"

definition fetchSystemForHistory :: "env \<Rightarrow> 's backend \<Rightarrow> string \<Rightarrow> (entity_state \<Rightarrow> 's answer) \<Rightarrow> 's answer" where
  "fetchSystemForHistory X B i k = withValidID X ''system'' i (withEntity X B isSystemKind (''no system: '' @ i) i k)"

definition handleSystemHistory :: "env \<Rightarrow> 's backend \<Rightarrow> request \<Rightarrow> 's answer" where
  "handleSystemHistory X B r =
     negotiated X FamilySystemCollection r (\<lambda>_.
     fetchSystemForHistory X B (PathValue r ''id'') (\<lambda>state.
       let self = ''/systems/'' @ EntityID state in
       encodeBody r [contentTypeJSON, (''X-CS-History-Current-Only'', ''true'')] False
         (Some (countedJson ''SystemCollection'' ''items''
           [systemRefJson (EntityID state) [] []
              [titled_link (self @ ''/history/'' @ currentSystemRevisionID) ''self'' ''current revision'',
               titled_link self ''canonical'' ''current system resource'']] False
           [json_link (self @ ''/history'') ''self'' MediaJSON]))))"

definition handleSystemHistoryItem :: "env \<Rightarrow> 's backend \<Rightarrow> request \<Rightarrow> 's answer" where
  "handleSystemHistoryItem X B r =
     negotiated X FamilySystemItem r (\<lambda>_.
       if PathValue r ''revID'' \<noteq> currentSystemRevisionID
       then (\<lambda>g. (writeJSONError [] 404 (''system history revision not found: '' @ PathValue r ''revID''), g))
       else fetchSystemForHistory X B (PathValue r ''id'') (writeSystemJSON X r))"

definition handleSystemHistoryOptions :: response where
  "handleSystemHistoryOptions = noContent [(''Allow'', ''GET, HEAD, OPTIONS'')]"

end
