(* ===== verification/Spatial.thy ===== *)
theory Spatial
  imports FeatureViews
begin

text \<open>
  \<open>spatial.go\<close>: \<open>GET /areas\<close>, the entities in a bounding box or a polygon. The box and the rings are
  checked here because the spatial index does not check them; the index answers with a bare array.
\<close>

section \<open>Boxes\<close>

record boundsQuery =
  North :: f64
  South :: f64
  East :: f64
  West :: f64

fun bboxValues :: "stdlib \<Rightarrow> string list \<Rightarrow> string + f64 list" where
  "bboxValues S [] = Inr []"
| "bboxValues S (p # ps) =
     (case ParseFloat S (trim_space p) of
        None \<Rightarrow> Inl ''bbox value is not a number''
      | Some v \<Rightarrow>
          if \<not> f64_finite v then Inl ''bbox value is not a finite number''
          else case bboxValues S ps of Inl e \<Rightarrow> Inl e | Inr vs \<Rightarrow> Inr (v # vs))"

definition outside :: "int \<Rightarrow> f64 \<Rightarrow> bool" where
  "outside bound v \<longleftrightarrow> f64_lt v (f64_of_int (- bound)) \<or> f64_lt (f64_of_int bound) v"

definition parseBBox :: "env \<Rightarrow> string \<Rightarrow> string + boundsQuery" where
  "parseBBox X raw =
     (let parts = go_split '','' raw in
      if length parts \<noteq> 4 then Inl ''bbox must be 4 comma-separated values (minLon,minLat,maxLon,maxLat)''
      else case bboxValues (Std X) parts of
        Inl e \<Rightarrow> Inl e
      | Inr vals \<Rightarrow>
          let minLon = vals ! 0; minLat = vals ! 1; maxLon = vals ! 2; maxLat = vals ! 3 in
          if outside 180 minLon \<or> outside 180 maxLon then Inl ''bbox longitudes must be within [-180, 180]''
          else if outside 90 minLat \<or> outside 90 maxLat then Inl ''bbox latitudes must be within [-90, 90]''
          else if f64_lt maxLat minLat then Inl ''bbox minLat exceeds maxLat''
          else if f64_lt maxLon minLon then Inl ''bbox crossing antimeridian not supported''
          else Inr \<lparr>North = maxLat, South = minLat, East = maxLon, West = minLon\<rparr>)"

section \<open>Polygons\<close>

definition ringClosed :: "(f64 \<times> f64) list \<Rightarrow> bool" where
  "ringClosed ring \<longleftrightarrow>
     f64_eq (fst (hd ring)) (fst (last ring)) \<and> f64_eq (snd (hd ring)) (snd (last ring))"

fun ringErrors :: "(f64 \<times> f64) list list \<Rightarrow> string option" where
  "ringErrors [] = None"
| "ringErrors (ring # rings) =
     (if length ring < 4 then Some ''polygon ring has too few points; RFC 7946 requires at least 4''
      else if \<not> ringClosed ring then Some ''polygon ring is not closed''
      else ringErrors rings)"

definition validatePolygonRings :: "(f64 \<times> f64) list list \<Rightarrow> string option" where
  "validatePolygonRings rings =
     (if rings = [] then Some ''polygon must have at least one (outer) ring'' else ringErrors rings)"

definition parsePolygon :: "env \<Rightarrow> string \<Rightarrow> string + json" where
  "parsePolygon X raw =
     (case ParseJson X raw of
        None \<Rightarrow> Inl ''polygon parameter is not valid JSON''
      | Some j \<Rightarrow>
          if GeometryJson X j = None then Inl ''polygon parameter is not a valid GeoJSON geometry''
          else case PolygonOf X j of
            None \<Rightarrow> Inl ''polygon parameter is not a Polygon''
          | Some rings \<Rightarrow>
              (case validatePolygonRings rings of Some e \<Rightarrow> Inl e | None \<Rightarrow> Inr j))"

section \<open>The query\<close>

record spatialResult =
  SrID :: string
  SrType :: string
  SrLat :: f64
  SrLon :: f64
  SrAlt :: f64

definition spatialKeys :: "string list" where
  "spatialKeys = [''id'', ''type'', ''lat'', ''lon'', ''alt'']"

text \<open>A float field: each number overwrites it, null leaves it, anything else is a type error.\<close>

fun last_float :: "stdlib \<Rightarrow> json list \<Rightarrow> f64 \<Rightarrow> f64 option" where
  "last_float S [] acc = Some acc"
| "last_float S (JNum n # r) acc = Option.bind (ParseFloat S n) (last_float S r)"
| "last_float S (JNull # r) acc = last_float S r acc"
| "last_float S (x # r) acc = None"

definition float_field :: "stdlib \<Rightarrow> string list \<Rightarrow> (string \<times> json) list \<Rightarrow> string \<Rightarrow> f64 option" where
  "float_field S keys kvs f = last_float S (field_values keys kvs f) 0"

definition decodeSpatialResult :: "stdlib \<Rightarrow> json \<Rightarrow> spatialResult option" where
  "decodeSpatialResult S j =
     do { kvs \<leftarrow> struct_members j;
          i \<leftarrow> string_field spatialKeys kvs ''id'';
          t \<leftarrow> string_field spatialKeys kvs ''type'';
          lat \<leftarrow> float_field S spatialKeys kvs ''lat'';
          lon \<leftarrow> float_field S spatialKeys kvs ''lon'';
          alt \<leftarrow> float_field S spatialKeys kvs ''alt'';
          Some \<lparr>SrID = i, SrType = t, SrLat = lat, SrLon = lon, SrAlt = alt\<rparr> }"

text \<open>The bare array of results; anything else, and anything that does not decode, is an error.\<close>

definition decodeSpatialReply :: "stdlib \<Rightarrow> reply_data \<Rightarrow> spatialResult list option" where
  "decodeSpatialReply S d =
     (case d of JsonReply (JArr xs) \<Rightarrow> those (map (decodeSpatialResult S) xs) | _ \<Rightarrow> None)"

definition runSpatialQuery :: "env \<Rightarrow> 's backend \<Rightarrow> graph_request \<Rightarrow> (spatialResult list \<Rightarrow> 's answer) \<Rightarrow> 's answer" where
  "runSpatialQuery X B q k g =
     (let op = ''runSpatialQuery''; (reply, w) = Request B q (World g); g' = g\<lparr>World := w\<rparr> in
      case reply of
        NatsFail e \<Rightarrow> writeBackendError X [] (classifyTransport op e) g'
      | Rejected code s \<Rightarrow> writeBackendError X [] (Wrap op (replyError code s)) g'
      | Data d \<Rightarrow>
          (case decodeSpatialReply (Std X) d of
             None \<Rightarrow> writeBackendError X [] (Wrap op (Plain ''decode spatial response'')) g'
           | Some results \<Rightarrow> k results g'))"

definition querySpatialBounds :: "env \<Rightarrow> 's backend \<Rightarrow> boundsQuery \<Rightarrow> int \<Rightarrow> (spatialResult list \<Rightarrow> 's answer) \<Rightarrow> 's answer" where
  "querySpatialBounds X B q limit = runSpatialQuery X B (SpatialBoundsQuery (North q) (South q) (East q) (West q) limit)"

definition querySpatialPolygon :: "env \<Rightarrow> 's backend \<Rightarrow> json \<Rightarrow> int \<Rightarrow> (spatialResult list \<Rightarrow> 's answer) \<Rightarrow> 's answer" where
  "querySpatialPolygon X B poly limit = runSpatialQuery X B (SpatialPolygonQuery poly limit)"

section \<open>The handler\<close>

text \<open>An altitude of zero is taken for none.\<close>

definition spatialFeature :: "env \<Rightarrow> spatialResult \<Rightarrow> json \<times> json option \<times> (string \<times> json) list" where
  "spatialFeature X r =
     (JStr (SrID r),
      Some (PointJson X (SrLon r) (SrLat r) (if f64_eq (SrAlt r) 0 then None else Some (SrAlt r))),
      [(''href'', JStr (''/systems/'' @ SrID r)), (''type'', JStr (SrType r))])"

definition buildFeatureCollection :: "env \<Rightarrow> spatialResult list \<Rightarrow> json" where
  "buildFeatureCollection X results = FeaturesJson X (map (spatialFeature X) results)"

definition writeAreas :: "env \<Rightarrow> request \<Rightarrow> MediaType \<Rightarrow> spatialResult list \<Rightarrow> 's answer" where
  "writeAreas X r media results =
     encodeBody r [if media = MediaJSON then contentTypeJSON else contentTypeGeoJSON] True
       (Some (buildFeatureCollection X results))"

definition handleAreas :: "env \<Rightarrow> 's backend \<Rightarrow> request \<Rightarrow> 's answer" where
  "handleAreas X B r =
     negotiated X FamilySpatial r (\<lambda>media.
       let bboxRaw = query_get r ''bbox''; polyRaw = query_get r ''polygon'';
           refuse = (\<lambda>e g. (writeJSONError [] 400 e, g)) in
       if bboxRaw = [] \<and> polyRaw = [] then refuse ''exactly one of ?bbox or ?polygon required''
       else if bboxRaw \<noteq> [] \<and> polyRaw \<noteq> [] then refuse ''?bbox and ?polygon are mutually exclusive''
       else withLimit X r (\<lambda>limit.
         if bboxRaw \<noteq> [] then
           (case parseBBox X bboxRaw of
              Inl e \<Rightarrow> refuse e
            | Inr q \<Rightarrow> querySpatialBounds X B q limit (writeAreas X r media))
         else
           (case parsePolygon X polyRaw of
              Inl e \<Rightarrow> refuse e
            | Inr poly \<Rightarrow> querySpatialPolygon X B poly limit (writeAreas X r media))))"

section \<open>What reaches the index\<close>

text \<open>A box on the globe: finite values within the ranges of longitude and latitude, south below north
  and west before east.\<close>

definition worldBox :: "f64 \<Rightarrow> f64 \<Rightarrow> f64 \<Rightarrow> f64 \<Rightarrow> bool" where
  "worldBox north south east west \<longleftrightarrow>
     list_all f64_finite [north, south, east, west] \<and>
     f64_key (f64_of_int (- 90)) \<le> f64_key south \<and> f64_key south \<le> f64_key north \<and> f64_key north \<le> f64_key (f64_of_int 90) \<and>
     f64_key (f64_of_int (- 180)) \<le> f64_key west \<and> f64_key west \<le> f64_key east \<and> f64_key east \<le> f64_key (f64_of_int 180)"

definition closedRings :: "(f64 \<times> f64) list list \<Rightarrow> bool" where
  "closedRings rings \<longleftrightarrow> rings \<noteq> [] \<and> (\<forall>ring \<in> set rings. 4 \<le> length ring \<and> ringClosed ring)"

definition soundSpatialQuery :: "env \<Rightarrow> graph_request \<Rightarrow> bool" where
  "soundSpatialQuery X q \<longleftrightarrow>
     (\<exists>n s e we limit. q = SpatialBoundsQuery n s e we limit \<and> worldBox n s e we \<and> 1 \<le> limit \<and> limit \<le> MaxListLimit (Cfg X)) \<or>
     (\<exists>j rings limit. q = SpatialPolygonQuery j limit \<and> PolygonOf X j = Some rings \<and> closedRings rings \<and>
        1 \<le> limit \<and> limit \<le> MaxListLimit (Cfg X))"

lemma bboxValues_finite: "bboxValues S ps = Inr vs \<Longrightarrow> length vs = length ps \<and> list_all f64_finite vs"
  by (induction ps arbitrary: vs) (auto split: option.splits if_splits sum.splits)

lemma within_bounds:
  assumes "f64_finite v" "\<not> outside b v" "b = 90 \<or> b = 180"
  shows "f64_key (f64_of_int (- b)) \<le> f64_key v \<and> f64_key v \<le> f64_key (f64_of_int b)"
proof -
  have "\<not> f64_is_nan (f64_of_int b)" "\<not> f64_is_nan (f64_of_int (- b))"
    using assms(3) by (auto; code_simp)+
  with assms(1,2) show ?thesis by (auto simp: outside_def f64_finite_def f64_not_lt)
qed

lemma parseBBox_sound:
  assumes "parseBBox X raw = Inr q"
  shows "worldBox (North q) (South q) (East q) (West q)"
proof -
  obtain parts vals where v: "length parts = 4" "bboxValues (Std X) parts = Inr vals"
    "\<not> outside 180 (vals ! 0)" "\<not> outside 180 (vals ! 2)" "\<not> outside 90 (vals ! 1)" "\<not> outside 90 (vals ! 3)"
    "\<not> f64_lt (vals ! 3) (vals ! 1)" "\<not> f64_lt (vals ! 2) (vals ! 0)"
    "q = \<lparr>North = vals ! 3, South = vals ! 1, East = vals ! 2, West = vals ! 0\<rparr>"
    using assms by (auto simp: parseBBox_def Let_def split: if_splits sum.splits)
  have "length vals = 4" "list_all f64_finite vals" using bboxValues_finite [OF v(2)] v(1) by simp_all
  then have fin: "f64_finite (vals ! 0)" "f64_finite (vals ! 1)" "f64_finite (vals ! 2)" "f64_finite (vals ! 3)"
    by (simp_all add: list_all_length)
  then have "f64_key (vals ! 1) \<le> f64_key (vals ! 3)" "f64_key (vals ! 0) \<le> f64_key (vals ! 2)"
    using v(7,8) by (simp_all add: f64_finite_def f64_not_lt)
  with fin within_bounds [of _ 180] within_bounds [of _ 90] v(3-6,9) show ?thesis by (simp add: worldBox_def)
qed

lemma ringErrors_None: "ringErrors rings = None \<longleftrightarrow> (\<forall>ring \<in> set rings. 4 \<le> length ring \<and> ringClosed ring)"
  by (induction rings) auto

lemma parsePolygon_sound: "parsePolygon X raw = Inr j \<Longrightarrow> \<exists>rings. PolygonOf X j = Some rings \<and> closedRings rings"
  by (auto simp: parsePolygon_def validatePolygonRings_def closedRings_def ringErrors_None split: option.splits if_splits)

lemma runSpatialQuery_World:
  assumes "\<And>results g. World (snd (k results g)) = World g"
  shows "World (snd (runSpatialQuery X B q k g)) = snd (Request B q (World g))"
  by (simp add: runSpatialQuery_def Let_def assms split: prod.split nats_result.split option.split)

text \<open>Claim C24: \<open>GET /areas\<close> sends the index at most one query, and only a sound one: a box of finite values on
  the globe that does not cross the antimeridian, or a polygon whose rings are closed and have four
  points or more, and a limit between one and the configured maximum. Whatever else a request carries
  is refused before the index is asked.\<close>

theorem areas_query_sound:
  assumes "handleAreas X B r g = (resp, g')" "limits_ok X"
  shows "World g' = World g \<or> (\<exists>q. soundSpatialQuery X q \<and> World g' = snd (Request B q (World g)))"
proof -
  have written: "World (snd (writeAreas X r media results h)) = World h" for media results and h :: "'a gateway"
    by (simp add: writeAreas_def)
  show ?thesis
  proof (cases "NegotiateRequest (Std X) r FamilySpatial")
    case None
    with assms(1) show ?thesis by (auto simp: handleAreas_def negotiated_def)
  next
    case (Some media)
    note neg = this
    show ?thesis
    proof (cases "parseLimit (query_get r ''limit'') (DefaultListLimit (Cfg X)) (MaxListLimit (Cfg X))")
      case (Inl e)
      with assms(1) neg show ?thesis by (auto simp: handleAreas_def negotiated_def withLimit_def Let_def split: if_splits)
    next
      case (Inr limit)
      note l = parseLimit_bounds [OF assms(2) Inr]
      consider (box) q where "parseBBox X (query_get r ''bbox'') = Inr q" "querySpatialBounds X B q limit (writeAreas X r media) g = (resp, g')"
        | (poly) j where "parsePolygon X (query_get r ''polygon'') = Inr j" "querySpatialPolygon X B j limit (writeAreas X r media) g = (resp, g')"
        | "World g' = World g"
        using assms(1) neg Inr
        by (auto simp: handleAreas_def negotiated_def withLimit_def Let_def split: if_splits sum.splits)
      then show ?thesis
      proof cases
        case (box q)
        have "World g' = snd (Request B (SpatialBoundsQuery (North q) (South q) (East q) (West q) limit) (World g))"
          using runSpatialQuery_World [where k = "writeAreas X r media", OF written] box(2)
          by (metis querySpatialBounds_def snd_conv)
        with parseBBox_sound [OF box(1)] l show ?thesis unfolding soundSpatialQuery_def by blast
      next
        case (poly j)
        have "World g' = snd (Request B (SpatialPolygonQuery j limit) (World g))"
          using runSpatialQuery_World [where k = "writeAreas X r media", OF written] poly(2)
          by (metis querySpatialPolygon_def snd_conv)
        with parsePolygon_sound [OF poly(1)] l show ?thesis unfolding soundSpatialQuery_def by blast
      qed simp
    qed
  qed
qed

end
