(* ===== verification/SystemWrites.thy ===== *)
theory SystemWrites
  imports WriteOutcome
begin

text \<open>
  \<open>systems_post.go\<close>, \<open>systems_crd.go\<close>, \<open>systems_patch.go\<close>: POST, PUT, PATCH, DELETE and OPTIONS
  on \<open>/systems\<close>. A handler takes the request and the gateway state to the response and the state
  it leaves; \<open>identity\<close> is what \<open>IdentityFrom\<close> finds in the request's context.
\<close>

section \<open>POST\<close>

text \<open>The media type chooses the builder (the switch of \<open>handleSystemPost\<close>).\<close>

definition postedSystemTriples :: "env \<Rightarrow> string \<Rightarrow> string \<Rightarrow> string + string \<times> triple list" where
  "postedSystemTriples X ct body =
     (let mt = or_empty (ParseMediaType X ct) in
      if mt = MediaSensorML \<or> mt = MediaSensorMLLegacy
      then buildSystemTriplesFromSensorML X body
      else buildSystemTriplesFromFeature X body)"

definition handleSystemPost ::
  "env \<Rightarrow> 's backend \<Rightarrow> context_state \<Rightarrow> Identity \<Rightarrow> request \<Rightarrow> 's gateway \<Rightarrow> response \<times> 's gateway"
where
  "handleSystemPost X B ctx identity r g =
     (let ct = header_get r ''Content-Type'';
          accepted = [MediaSensorML, MediaSensorMLLegacy, MediaJSON, MediaGeoJSON] in
      case requireMediaTypeAny X ct accepted of
        Some e \<Rightarrow> (writeJSONError [(''Accept-Post'', go_join '', '' accepted)] 415 e, g)
      | None \<Rightarrow>
      (case readBody [] r of
        Inl resp \<Rightarrow> (resp, g)
      | Inr body \<Rightarrow>
          (case postedSystemTriples X ct body of
                Inl e \<Rightarrow> (writeJSONError [] 400 e, g)
              | Inr (entityID, triples) \<Rightarrow>
                  (case ingestProjectedTriples X B ctx entityID triples systemProjectionMessageType identity g of
                     (Inl e, g') \<Rightarrow> writeBackendError X [attemptedID entityID] e g'
                   | (Inr _, g') \<Rightarrow>
                       (createdResponse [] (''/systems/'' @ entityID) entityID ''System'', g')))))"

section \<open>PUT and DELETE\<close>

definition acceptJSONOrGeoJSON :: "string \<times> string" where
  "acceptJSONOrGeoJSON = (''Accept'', MediaJSON @ '', '' @ MediaGeoJSON)"

definition handleSystemPut ::
  "env \<Rightarrow> 's backend \<Rightarrow> context_state \<Rightarrow> Identity \<Rightarrow> request \<Rightarrow> 's gateway \<Rightarrow> response \<times> 's gateway"
where
  "handleSystemPut X B ctx identity r g =
     (let pathID = PathValue r ''id''; hs = [attemptedID pathID] in
      case ValidateEntityID (Ids X) pathID of
        Some e \<Rightarrow> (invalidPathID ''system'' pathID e, g)
      | None \<Rightarrow>
      (case requireMediaTypeAny X (header_get r ''Content-Type'') [MediaJSON, MediaGeoJSON] of
        Some e \<Rightarrow> (writeJSONError (hs @ [acceptJSONOrGeoJSON]) 415 e, g)
      | None \<Rightarrow>
      (case readBody hs r of
        Inl resp \<Rightarrow> (resp, g)
      | Inr body \<Rightarrow>
      (case buildSystemTriplesFromFeature X body of
        Inl e \<Rightarrow> (writeJSONError hs 400 e, g)
      | Inr (bodyID, triples) \<Rightarrow>
          if bodyID \<noteq> pathID then (writeJSONError hs 400 ''body uid does not match path'', g)
          else (case putEntityTriples X B ctx pathID triples identity g of
                  (Inl e, g') \<Rightarrow> writeBackendError X hs e g'
                | (Inr _, g') \<Rightarrow> (noContent hs, g'))))))"

definition handleSystemDelete ::
  "env \<Rightarrow> 's backend \<Rightarrow> context_state \<Rightarrow> Identity \<Rightarrow> request \<Rightarrow> 's gateway \<Rightarrow> response \<times> 's gateway"
where
  "handleSystemDelete X B ctx identity r g =
     (let pathID = PathValue r ''id''; hs = [attemptedID pathID] in
      case ValidateEntityID (Ids X) pathID of
        Some e \<Rightarrow> (invalidPathID ''system'' pathID e, g)
      | None \<Rightarrow>
          (case deleteEntity X B ctx pathID identity g of
             (Inl e, g') \<Rightarrow> writeBackendError X hs e g'
           | (Inr _, g') \<Rightarrow> (noContent hs, g')))"

fun uniquePredicates_from :: "string list \<Rightarrow> triple list \<Rightarrow> string list" where
  "uniquePredicates_from seen [] = []"
| "uniquePredicates_from seen (t # ts) =
     (if Predicate t \<in> set seen then uniquePredicates_from seen ts
      else Predicate t # uniquePredicates_from (Predicate t # seen) ts)"

definition uniquePredicates :: "triple list \<Rightarrow> string list" where
  "uniquePredicates ts = uniquePredicates_from [] ts"

definition handleSystemsOptions :: response where
  "handleSystemsOptions = noContent [(''Allow'', ''GET, HEAD, POST, OPTIONS'')]"

definition handleSystemOptions :: "env \<Rightarrow> request \<Rightarrow> response" where
  "handleSystemOptions X r =
     (case ValidateEntityID (Ids X) (PathValue r ''id'') of
        Some e \<Rightarrow> writeJSONError [] 400 (''invalid system id: '' @ e)
      | None \<Rightarrow> noContent [(''Allow'', ''GET, HEAD, PUT, PATCH, DELETE, OPTIONS'')])"

section \<open>PATCH\<close>

definition hasGeometry :: "systemFeatureBody \<Rightarrow> bool" where
  "hasGeometry feat \<longleftrightarrow> Geometry feat \<noteq> None \<and> Geometry feat \<noteq> Some JNull"

definition position_triple :: "env \<Rightarrow> string \<Rightarrow> systemFeatureBody \<Rightarrow> triple" where
  "position_triple X eid feat =
     str_triple eid PredPosition (case Geometry feat of None \<Rightarrow> [] | Some g \<Rightarrow> JsonText X g)"

definition saw :: "string \<Rightarrow> triple list \<Rightarrow> bool" where
  "saw p ts = list_ex (\<lambda>t. Predicate t = p) ts"

definition patchSystemTriple :: "env \<Rightarrow> string \<Rightarrow> systemFeatureBody \<Rightarrow> triple \<Rightarrow> triple list" where
  "patchSystemTriple X eid feat t =
     (let ps = Properties feat in
      if Predicate t = PredLabel \<and> FeatureName ps \<noteq> [] then [str_triple eid PredLabel (FeatureName ps)]
      else if Predicate t = PredDescription \<and> FeatureDescription ps \<noteq> []
        then [str_triple eid PredDescription (FeatureDescription ps)]
      else if Predicate t = PredPosition \<and> hasGeometry feat then [position_triple X eid feat]
      else if Predicate t \<in> set geoPredicates \<and> hasGeometry feat then []
      else [t])"

definition mergePatchSystemTriples ::
  "env \<Rightarrow> string \<Rightarrow> triple list \<Rightarrow> systemFeatureBody \<Rightarrow> triple list"
where
  "mergePatchSystemTriples X eid existing feat =
     (let ps = Properties feat in
      concat (map (patchSystemTriple X eid feat) existing) @
      (if FeatureName ps \<noteq> [] \<and> \<not> saw PredLabel existing
       then [str_triple eid PredLabel (FeatureName ps)] else []) @
      (if FeatureDescription ps \<noteq> [] \<and> \<not> saw PredDescription existing
       then [str_triple eid PredDescription (FeatureDescription ps)] else []) @
      (if hasGeometry feat \<and> \<not> saw PredPosition existing then [position_triple X eid feat] else []) @
      (if hasGeometry feat then pointProjectionTriplesFromGeometry X eid (Geometry feat) else []))"

definition handleSystemPatch ::
  "env \<Rightarrow> 's backend \<Rightarrow> context_state \<Rightarrow> Identity \<Rightarrow> request \<Rightarrow> 's gateway \<Rightarrow> response \<times> 's gateway"
where
  "handleSystemPatch X B ctx identity r g =
     (let pathID = PathValue r ''id''; hs = [attemptedID pathID] in
      case ValidateEntityID (Ids X) pathID of
        Some e \<Rightarrow> (invalidPathID ''system'' pathID e, g)
      | None \<Rightarrow>
      (case requireMediaTypeAny X (header_get r ''Content-Type'') [MediaJSON, MediaGeoJSON] of
        Some e \<Rightarrow> (writeJSONError (hs @ [acceptJSONOrGeoJSON]) 415 e, g)
      | None \<Rightarrow>
      (case readBody hs r of
        Inl resp \<Rightarrow> (resp, g)
      | Inr body \<Rightarrow>
      (case parseFeature X body of
        None \<Rightarrow> (writeJSONError hs 400 ''invalid JSON Feature'', g)
      | Some feat \<Rightarrow>
          if FeatureType feat \<notin> {[], ''Feature''} then (writeJSONError hs 400 ''expected Feature'', g)
          else
          (case fetchEntityExact X B pathID g of
             (Inl e, g') \<Rightarrow> writeBackendError X hs e g'
           | (Inr exact, g') \<Rightarrow>
               let existing = (case Entity exact of None \<Rightarrow> [] | Some e \<Rightarrow> EntityTriples e);
                   bodyUID = UID (Properties feat);
                   existingUID = or_empty (firstStringObject existing [PredUniqueID]) in
               if bodyUID \<noteq> [] \<and> existingUID = [] then
                 (writeJSONError hs 400
                    ''existing entity has no preserved uid; PATCH cannot establish one'', g')
               else if bodyUID \<noteq> [] \<and> bodyUID \<noteq> existingUID then
                 (writeJSONError hs 400 ''body properties.uid does not match existing entity uid'', g')
               else
                 (case replaceEntityTriples X B ctx exact
                         (mergePatchSystemTriples X pathID existing feat) identity g' of
                    (Inl e, g'') \<Rightarrow> writeBackendError X hs e g''
                  | (Inr _, g'') \<Rightarrow> (noContent hs, g'')))))))"

section \<open>The merge keeps its interface\<close>

text \<open>What the body gives for a predicate, when it addresses it.\<close>

definition systemReplacement :: "env \<Rightarrow> string \<Rightarrow> systemFeatureBody \<Rightarrow> string \<Rightarrow> triple list option" where
  "systemReplacement X eid feat p =
     (let ps = Properties feat in
      if p = PredLabel then
        (if FeatureName ps \<noteq> [] then Some [str_triple eid PredLabel (FeatureName ps)] else None)
      else if p = PredDescription then
        (if FeatureDescription ps \<noteq> [] then Some [str_triple eid PredDescription (FeatureDescription ps)] else None)
      else if p = PredPosition then
        (if hasGeometry feat then Some [position_triple X eid feat] else None)
      else if p \<in> set geoPredicates \<and> hasGeometry feat
        then Some (at p (pointProjectionTriplesFromGeometry X eid (Geometry feat)))
      else None)"

lemma at_concat_map: "at p (concat (map f ts)) = concat (map (\<lambda>t. at p (f t)) ts)"
  by (induction ts) simp_all

lemma concat_map_filter:
  "concat (map (\<lambda>t. if P t then h t else []) ts) = concat (map h (filter P ts))"
  by (induction ts) simp_all

lemma geo_neqs:
  "PredLabel \<notin> set geoPredicates" "PredDescription \<notin> set geoPredicates" "PredPosition \<notin> set geoPredicates"
  "PredLabel \<noteq> PredDescription" "PredLabel \<noteq> PredPosition" "PredDescription \<noteq> PredPosition"
  by (simp_all add: geoPredicates_def vocab_defs)

lemma position_triple_sel [simp]: "Predicate (position_triple X eid feat) = PredPosition" "Subject (position_triple X eid feat) = eid"
  by (simp_all add: position_triple_def)

lemma pointProjection_other:
  "p \<notin> set geoPredicates \<Longrightarrow> at p (pointProjectionTriplesFromGeometry X eid g) = []"
  using pointProjection_pieces by (fastforce simp: at_def filter_empty_conv)

text \<open>A predicate of the existing triples after the loop: as it was, or one copy of the
  replacement per occurrence, or gone.\<close>

lemma at_patched:
  "at p (concat (map (patchSystemTriple X eid feat) ts)) =
     (case systemReplacement X eid feat p of
        None \<Rightarrow> at p ts
      | Some rs \<Rightarrow> if p \<in> set geoPredicates then [] else concat (map (\<lambda>t. rs) (at p ts)))"
proof (induction ts)
  case Nil
  show ?case by (simp split: option.split)
next
  case (Cons t ts)
  have one: "at p (patchSystemTriple X eid feat t) =
      (case systemReplacement X eid feat p of
         None \<Rightarrow> at p [t]
       | Some rs \<Rightarrow> if p \<in> set geoPredicates then [] else concat (map (\<lambda>t. rs) (at p [t])))"
    using geo_neqs by (auto simp: patchSystemTriple_def systemReplacement_def Let_def)
  show ?case
    unfolding list.map concat.simps at_append one Cons.IH
    by (simp split: option.split)
qed

lemma saw_at: "saw p ts \<longleftrightarrow> at p ts \<noteq> []"
  by (induction ts) (auto simp: saw_def)

lemma system_merge_law: "patch_merge (\<lambda>ts. mergePatchSystemTriples X eid ts feat) (systemReplacement X eid feat)"
proof
  fix p ts assume "systemReplacement X eid feat p = None"
  then show "at p (mergePatchSystemTriples X eid ts feat) = at p ts"
    using geo_neqs pointProjection_other [of p X eid "Geometry feat"]
    by (auto simp: mergePatchSystemTriples_def Let_def at_patched systemReplacement_def split: if_splits)
next
  fix p rs ts assume r: "systemReplacement X eid feat p = Some rs"
  show "set (at p (mergePatchSystemTriples X eid ts feat)) = set rs"
  proof (cases "p \<in> set geoPredicates")
    case True
    with r geo_neqs show ?thesis
      by (auto simp: mergePatchSystemTriples_def Let_def at_patched systemReplacement_def split: if_splits)
  next
    case False
    have rep: "set (concat (map (\<lambda>t. rs) xs)) = (if xs = [] then {} else set rs)" for xs :: "triple list"
      by (induction xs) auto
    from False r geo_neqs show ?thesis
      using rep [of "at p ts"] pointProjection_other [OF False, of X eid "Geometry feat"]
      by (auto simp: mergePatchSystemTriples_def Let_def at_patched saw_at systemReplacement_def split: if_splits)
  qed
next
  fix p rs t assume "systemReplacement X eid feat p = Some rs" "t \<in> set rs"
  then show "Predicate t = p"
    by (auto simp: systemReplacement_def Let_def at_def split: if_splits)
qed

interpretation system_patch: patch_merge "\<lambda>ts. mergePatchSystemTriples X eid ts feat" "systemReplacement X eid feat"
  for X eid feat
  by (rule system_merge_law)

text \<open>Claim C12: PUT /systems/{id} over any graph service that keeps its contract. A 204 means that the
  body is a System Feature whose uid mints exactly the path's ID and that the PUT was carried out:
  the entity created with the body's facts, or its representation replaced. On every other answer
  the graph is untouched, unless the answer itself carries the uncertainty marker.\<close>

theorem system_put_outcome:
  assumes "graph_contract X B ents" "handleSystemPut X B ctx identity r g = (resp, g')"
  shows "write_outcome 204
    (\<lambda>m m'. \<exists>body ts. Body r = BodyOk body \<and>
       buildSystemTriplesFromFeature X body = Inr (PathValue r ''id'', ts) \<and>
       put_spec X (PathValue r ''id'') ts m m')
    resp (ents (World g)) (ents (World g'))"
proof -
  let ?id = "PathValue r ''id''"
  have stop: ?thesis if "g' = g" "Status resp \<noteq> 204" using that by (simp add: outcome_same)
  show ?thesis
  proof (cases "ValidateEntityID (Ids X) ?id = None \<and>
      requireMediaTypeAny X (header_get r ''Content-Type'') [MediaJSON, MediaGeoJSON] = None")
    case False
    with assms(2) show ?thesis
      by (intro stop) (auto simp: handleSystemPut_def Let_def invalidPathID_def split: option.splits)
  next
    case True
    note pre = this
    show ?thesis
    proof (cases "readBody [attemptedID ?id] r")
      case (Inl resp')
      with pre assms(2) readBody_Status [OF Inl] show ?thesis
        by (intro stop) (auto simp: handleSystemPut_def Let_def)
    next
      case (Inr body)
      show ?thesis
      proof (cases "\<exists>ts. buildSystemTriplesFromFeature X body = Inr (?id, ts)")
        case False
        with pre assms(2) Inr show ?thesis
          by (intro stop) (auto simp: handleSystemPut_def Let_def split: sum.splits if_splits)
      next
        case True
        then obtain ts where b: "buildSystemTriplesFromFeature X body = Inr (?id, ts)" by blast
        obtain res g1 where put: "putEntityTriples X B ctx ?id ts identity g = (res, g1)" by fastforce
        show ?thesis
        proof (cases res)
          case (Inl e)
          with pre assms(2) Inr b put have w: "writeBackendError X [attemptedID ?id] e g1 = (resp, g')"
            by (simp add: handleSystemPut_def Let_def)
          show ?thesis
            by (rule outcome_backend [OF w]) (use put_refused [OF assms(1) put [unfolded Inl]] in auto)
        next
          case (Inr u)
          then have ok: "res = Inr ()" by simp
          with pre assms(2) \<open>readBody _ r = Inr body\<close> b put have "resp = noContent [attemptedID ?id]" "g' = g1"
            by (simp_all add: handleSystemPut_def Let_def)
          moreover have "put_spec X ?id ts (ents (World g)) (ents (World g1))"
            using put_contents [OF assms(1) _ put [unfolded ok]] buildSystemTriplesFromFeature_declared [OF b]
            by (simp add: list_all_iff)
          ultimately show ?thesis
            using b readBody_ok [OF \<open>readBody _ r = Inr body\<close>] by (auto simp: write_outcome_def)
        qed
      qed
    qed
  qed
qed

text \<open>DELETE /systems/{id}: a 204 leaves the entity absent and everything else as it was,
  whether it existed or not; any other answer leaves the graph untouched or says it is uncertain.\<close>

theorem system_delete_outcome:
  assumes "graph_contract X B ents" "handleSystemDelete X B ctx identity r g = (resp, g')"
  shows "write_outcome 204 (\<lambda>m m'. m' = m(PathValue r ''id'' := None)) resp (ents (World g)) (ents (World g'))"
proof (cases "ValidateEntityID (Ids X) (PathValue r ''id'')")
  case (Some e)
  with assms(2) show ?thesis
    by (auto simp: handleSystemDelete_def invalidPathID_def Let_def intro!: outcome_same)
next
  case None
  let ?id = "PathValue r ''id''"
  obtain res g1 where del: "deleteEntity X B ctx ?id identity g = (res, g1)" by fastforce
  show ?thesis
  proof (cases res)
    case (Inl e)
    with None assms(2) del have w: "writeBackendError X [attemptedID ?id] e g1 = (resp, g')"
      by (simp add: handleSystemDelete_def Let_def)
    show ?thesis
      by (rule outcome_backend [OF w]) (use deleteEntity_refused [OF assms(1) del [unfolded Inl]] in auto)
  next
    case (Inr u)
    then have ok: "res = Inr ()" by simp
    with None assms(2) del have "resp = noContent [attemptedID ?id]" "g' = g1"
      by (simp_all add: handleSystemDelete_def Let_def)
    with delete_contents [OF assms(1) del [unfolded ok]] show ?thesis
      by (simp add: write_outcome_def)
  qed
qed

text \<open>POST creates one entity that was not there, with the facts of the body.\<close>

definition post_spec :: "env \<Rightarrow> string \<Rightarrow> triple list \<Rightarrow> contents \<Rightarrow> contents \<Rightarrow> bool" where
  "post_spec X eid ts m m' \<longleftrightarrow>
     m eid = None \<and>
     (\<exists>new kv. m' = m(eid \<mapsto> (new, kv)) \<and>
        others [EntityIndexingProfile X] new = others [EntityIndexingProfile X] ts)"

lemma ingestProjected_ok:
  assumes "graph_contract X B ents" "ingestProjectedTriples X B ctx eid ts mt identity g = (Inr (), g')"
  shows "post_spec X eid ts (ents (World g)) (ents (World g'))"
proof -
  have law: "create_law X B ents" using assms(1) by (simp add: graph_contract_def)
  from assms(2) have "createProjectedEntity X B ctx systemProjectionContractName eid ts mt None identity
      ''ingestTriples'' g = (Inr (), g')"
    by (simp add: ingestProjectedTriples_def split: option.splits)
  from create_contents [OF law this] show ?thesis by (auto simp: post_spec_def)
qed

lemma ingestProjected_refused:
  assumes "graph_contract X B ents" "ingestProjectedTriples X B ctx eid ts mt identity g = (Inl e, g')"
    "commitUnknownOf e = None"
  shows "ents (World g') = ents (World g)"
  using assms create_refused [of X B ents]
  by (auto simp: ingestProjectedTriples_def graph_contract_def split: option.splits)

text \<open>Claim C10: POST /systems: a 201 names the new entity in its Location and body, and the graph has
  gained exactly that entity, which did not exist, with the facts its body was translated to (from
  SensorML or from a GeoJSON Feature, by content type). On any other answer the graph is untouched
  or the client is told that the outcome is uncertain.\<close>

theorem system_post_outcome:
  assumes "graph_contract X B ents" "handleSystemPost X B ctx identity r g = (resp, g')"
  shows "write_outcome 201
    (\<lambda>m m'. \<exists>body eid ts. Body r = BodyOk body \<and>
       (buildSystemTriplesFromSensorML X body = Inr (eid, ts) \<or>
        buildSystemTriplesFromFeature X body = Inr (eid, ts)) \<and>
       resp = createdResponse [] (''/systems/'' @ eid) eid ''System'' \<and> post_spec X eid ts m m')
    resp (ents (World g)) (ents (World g'))"
proof -
  let ?ct = "header_get r ''Content-Type''"
  let ?acc = "[MediaSensorML, MediaSensorMLLegacy, MediaJSON, MediaGeoJSON]"
  have stop: ?thesis if "g' = g" "Status resp \<noteq> 201" using that by (simp add: outcome_same)
  show ?thesis
  proof (cases "requireMediaTypeAny X ?ct ?acc")
    case (Some e)
    with assms(2) show ?thesis by (intro stop) (auto simp: handleSystemPost_def Let_def)
  next
    case None
    note pre = this
    show ?thesis
    proof (cases "readBody [] r")
      case (Inl resp')
      with pre assms(2) readBody_Status [OF Inl] show ?thesis
        by (intro stop) (auto simp: handleSystemPost_def Let_def)
    next
      case (Inr body)
      note body = this
      let ?b = "postedSystemTriples X ?ct body"
      show ?thesis
      proof (cases ?b)
        case (Inl e)
        with pre assms(2) body show ?thesis by (intro stop) (auto simp: handleSystemPost_def Let_def)
      next
        case (Inr p)
        then obtain eid ts where b: "?b = Inr (eid, ts)" by (cases p) simp
        obtain res g1 where ing: "ingestProjectedTriples X B ctx eid ts systemProjectionMessageType identity g = (res, g1)"
          by fastforce
        show ?thesis
        proof (cases res)
          case (Inl e)
          have w: "writeBackendError X [attemptedID eid] e g1 = (resp, g')"
            using assms(2) pre body b ing Inl by (simp add: handleSystemPost_def Let_def)
          show ?thesis
            by (rule outcome_backend [OF w]) (use ingestProjected_refused [OF assms(1) ing [unfolded Inl]] in auto)
        next
          case (Inr u)
          then have ok: "res = Inr ()" by simp
          have "resp = createdResponse [] (''/systems/'' @ eid) eid ''System''" "g' = g1"
            using assms(2) pre body b ing ok by (simp_all add: handleSystemPost_def Let_def)
          with ingestProjected_ok [OF assms(1) ing [unfolded ok]] b readBody_ok [OF body] show ?thesis
            by (auto simp: write_outcome_def postedSystemTriples_def Let_def split: if_splits)
        qed
      qed
    qed
  qed
qed

section \<open>What PATCH leaves\<close>

lemma system_replaced_owned:
  assumes "EntityIndexingProfile X \<notin> set systemPredicates" "ps \<in> {systemPredicates, datastreamPredicates}"
    and "systemReplacement X eid feat p = Some rs"
    and "\<forall>t \<in> set (mergePatchSystemTriples X eid ts feat).
           Predicate t \<in> {PredType, EntityIndexingProfile X} \<union> set ps"
  shows "p \<in> set ps"
proof -
  have in_merge: "q \<in> set ps" if "systemReplacement X eid feat q = Some (t # us)"
    "q \<in> set systemPredicates" "q \<noteq> PredType" for q t us
  proof -
    have "t \<in> set (mergePatchSystemTriples X eid ts feat)" "Predicate t = q"
      using system_patch.replaced [OF that(1), of ts] system_patch.replacement_predicate [OF that(1), of t]
      by (auto simp: at_def)
    with that(2,3) assms(1,4) show ?thesis by auto
  qed
  have sys: "PredLabel \<in> set systemPredicates" "PredDescription \<in> set systemPredicates"
    "PredPosition \<in> set systemPredicates" "set geoPredicates \<subseteq> set systemPredicates"
    "PredLabel \<noteq> PredType" "PredDescription \<noteq> PredType" "PredPosition \<noteq> PredType"
    by (auto simp: systemPredicates_def commonPredicates_def vocab_defs)
  have noPos: "PredPosition \<notin> set datastreamPredicates"
    by (simp add: datastreamPredicates_def commonPredicates_def vocab_defs)
  show ?thesis
  proof (cases "hasGeometry feat")
    case True
    have "systemReplacement X eid feat PredPosition = Some [position_triple X eid feat]"
      using True geo_neqs by (auto simp: systemReplacement_def Let_def)
    with in_merge [OF this] sys noPos assms(2) have "ps = systemPredicates" by auto
    with assms(3) sys show ?thesis by (auto simp: systemReplacement_def Let_def split: if_splits)
  next
    case False
    with assms(3) in_merge [of p] sys show ?thesis
      by (auto simp: systemReplacement_def Let_def split: if_splits)
  qed
qed

text \<open>How PATCH ends: refused before the graph is asked, or after the exact read, or with the replacement of the
  merged triples.\<close>

lemma handleSystemPatch_cases:
  fixes r :: request
  assumes "handleSystemPatch X B ctx identity r g = (resp, g')"
  defines "i \<equiv> PathValue r ''id''"
  obtains "g' = g" "Status resp \<noteq> 204"
  | body feat e g1 where "Body r = BodyOk body" "parseFeature X body = Some feat" "fetchEntityExact X B i g = (Inl e, g1)"
      "writeBackendError X [attemptedID i] e g1 = (resp, g')"
  | body feat ex where "Body r = BodyOk body" "parseFeature X body = Some feat" "fetchEntityExact X B i g = (Inr ex, g')"
      "Status resp \<noteq> 204"
  | body feat ex g1 res g2 where "Body r = BodyOk body" "parseFeature X body = Some feat" "fetchEntityExact X B i g = (Inr ex, g1)"
      "replaceEntityTriples X B ctx ex
         (mergePatchSystemTriples X i (case Entity ex of None \<Rightarrow> [] | Some e \<Rightarrow> EntityTriples e) feat) identity g1 = (res, g2)"
      "(case res of Inl e \<Rightarrow> writeBackendError X [attemptedID i] e g2 | Inr _ \<Rightarrow> (noContent [attemptedID i], g2)) = (resp, g')"
proof -
  show ?thesis
  proof (cases "ValidateEntityID (Ids X) i = None \<and>
      requireMediaTypeAny X (header_get r ''Content-Type'') [MediaJSON, MediaGeoJSON] = None")
    case False
    with assms show ?thesis
      by (intro that(1)) (auto simp: handleSystemPatch_def Let_def invalidPathID_def split: option.splits)
  next
    case True
    note pre = this
    show ?thesis
    proof (cases "readBody [attemptedID i] r")
      case (Inl resp')
      with pre assms readBody_Status [OF Inl] show ?thesis by (intro that(1)) (auto simp: handleSystemPatch_def Let_def)
    next
      case (Inr body)
      show ?thesis
      proof (cases "\<exists>feat. parseFeature X body = Some feat \<and> FeatureType feat \<in> {[], ''Feature''}")
        case False
        with pre assms Inr show ?thesis
          by (intro that(1)) (auto simp: handleSystemPatch_def Let_def split: option.splits if_splits)
      next
        case True
        then obtain feat where feat: "parseFeature X body = Some feat" "FeatureType feat \<in> {[], ''Feature''}" by blast
        with pre assms(1) Inr readBody_ok [OF Inr] that(2-4) show ?thesis
          by (auto simp: handleSystemPatch_def Let_def i_def split: prod.splits sum.splits if_splits)
      qed
    qed
  qed
qed

text \<open>Claim C9: PATCH /systems/{id}: a 204 means that the entity was there and keeps, predicate by
  predicate, what it had, except that a non-empty name or description and a given geometry (its
  coordinates with it) are the body's. On any other answer the graph is untouched, or the client is
  told that the outcome is uncertain.\<close>

theorem system_patch_outcome:
  assumes "graph_contract X B ents" "EntityIndexingProfile X \<notin> set systemPredicates"
    and "handleSystemPatch X B ctx identity r g = (resp, g')"
  shows "write_outcome 204
    (\<lambda>m m'. \<exists>body feat. Body r = BodyOk body \<and> parseFeature X body = Some feat \<and>
       patch_spec (PathValue r ''id'') (systemReplacement X (PathValue r ''id'') feat) m m')
    resp (ents (World g)) (ents (World g'))"
proof -
  let ?id = "PathValue r ''id''"
  have laws: "query_law X B ents" "reconcile_law X B ents" "refusal_law X B ents"
    using assms(1) by (simp_all add: graph_contract_def)
  from assms(3) show ?thesis
  proof (cases rule: handleSystemPatch_cases)
    case 1
    then show ?thesis by (simp add: outcome_same)
  next
    case (2 body feat e g1)
    show ?thesis by (rule outcome_backend [OF 2(4)]) (use fetchEntityExact_contents [OF laws(1) 2(3)] in auto)
  next
    case (3 body feat ex)
    with fetchEntityExact_contents [OF laws(1) 3(3)] show ?thesis by (simp add: outcome_same)
  next
    case (4 body feat ex g1 res g2)
    with fetchEntityExact_state [OF laws(1)] obtain e where
      e: "Entity ex = Some e" "EntityID e = ?id" "ents (World g) ?id = Some (EntityTriples e, KVRevision ex)"
        "ents (World g1) = ents (World g)" by blast
    note run = 4(4) [unfolded e(1) option.case]
    show ?thesis
    proof (cases res)
      case (Inl err)
      with 4(5) have w: "writeBackendError X [attemptedID ?id] err g2 = (resp, g')" by simp
      show ?thesis
        by (rule outcome_backend [OF w])
          (use reconcile_refused [OF laws(3)] run Inl e(4) in \<open>auto simp: replaceEntityTriples_def\<close>)
    next
      case (Inr u)
      then have ok: "res = Inr ()" by simp
      with 4(5) have "resp = noContent [attemptedID ?id]" "g' = g2" by simp_all
      moreover have "patch_spec (EntityID e) (systemReplacement X ?id feat) (ents (World g1)) (ents (World g2))"
        by (rule replaceEntity_patch [OF laws(2) system_merge_law e(1) _ run [unfolded ok]])
          (use e(2-4) system_replaced_owned [OF assms(2)] in auto)
      ultimately show ?thesis using 4(1,2) e(2,4) by (auto simp: write_outcome_def)
    qed
  qed
qed

text \<open>Repeating a PATCH changes nothing: the merge of the merge has the same triples.\<close>

theorem system_patch_idempotent:
  "set (mergePatchSystemTriples X eid (mergePatchSystemTriples X eid ts feat) feat) =
   set (mergePatchSystemTriples X eid ts feat)"
  by (rule system_patch.merge_idempotent)

end
