(* ===== verification/Datastreams.thy ===== *)
theory Datastreams
  imports SchemaArtifacts
begin

text \<open>
  \<open>datastream.go\<close>: the Datastream resource, its JSON, the triples it is stored as and the way
  back. The \<open>Schema\<close> field is a \<open>json.RawMessage\<close>: the text of the member.
\<close>

section \<open>The resource\<close>

record observedProperty =
  ObsDefinition :: string
  ObsLabel :: string
  ObsDescription :: string

record Datastream =
  DsID :: string
  DsType :: string
  DsName :: string
  DsDescription :: string
  DsSystem :: string
  DsSystemID :: string
  DsSystemLink :: "link option"
  DsOutputName :: string
  DsObservedProperty :: string
  DsObservedProps :: "observedProperty list"
  DsPhenomenonTime :: string
  DsResultTime :: string
  DsFormats :: "string list"
  DsResultType :: string
  DsSchema :: string
  DsLinks :: "link list"

definition observedPropertyKeys :: "string list" where
  "observedPropertyKeys = [''definition'', ''label'', ''description'']"

definition decodeObservedProperty :: "json \<Rightarrow> observedProperty option" where
  "decodeObservedProperty j =
     do { kvs \<leftarrow> struct_members j;
          d \<leftarrow> string_field observedPropertyKeys kvs ''definition'';
          l \<leftarrow> string_field observedPropertyKeys kvs ''label'';
          c \<leftarrow> string_field observedPropertyKeys kvs ''description'';
          Some \<lparr>ObsDefinition = d, ObsLabel = l, ObsDescription = c\<rparr> }"

definition observedPropertyJson :: "observedProperty \<Rightarrow> json" where
  "observedPropertyJson p =
     JObj (omit_empty ''definition'' (ObsDefinition p) @ omit_empty ''label'' (ObsLabel p) @
           omit_empty ''description'' (ObsDescription p))"

definition datastreamKeys :: "string list" where
  "datastreamKeys = [''id'', ''type'', ''name'', ''description'', ''system'', ''system@id'', ''system@link'',
     ''outputName'', ''observedProperty'', ''observedProperties'', ''phenomenonTime'', ''resultTime'',
     ''formats'', ''resultType'', ''schema'', ''links'']"

definition decodeDatastream :: "env \<Rightarrow> json \<Rightarrow> Datastream option" where
  "decodeDatastream X j =
     do { kvs \<leftarrow> struct_members j;
          i \<leftarrow> string_field datastreamKeys kvs ''id'';
          ty \<leftarrow> string_field datastreamKeys kvs ''type'';
          n \<leftarrow> string_field datastreamKeys kvs ''name'';
          d \<leftarrow> string_field datastreamKeys kvs ''description'';
          s \<leftarrow> string_field datastreamKeys kvs ''system'';
          sid \<leftarrow> string_field datastreamKeys kvs ''system@id'';
          sl \<leftarrow> ptr_field decodeLink datastreamKeys kvs ''system@link'';
          out \<leftarrow> string_field datastreamKeys kvs ''outputName'';
          op \<leftarrow> string_field datastreamKeys kvs ''observedProperty'';
          ops \<leftarrow> list_field decodeObservedProperty datastreamKeys kvs ''observedProperties'';
          pt \<leftarrow> string_field datastreamKeys kvs ''phenomenonTime'';
          rt \<leftarrow> string_field datastreamKeys kvs ''resultTime'';
          fs \<leftarrow> list_field string_elem datastreamKeys kvs ''formats'';
          rty \<leftarrow> string_field datastreamKeys kvs ''resultType'';
          ls \<leftarrow> list_field decodeLink datastreamKeys kvs ''links'';
          Some \<lparr>DsID = i, DsType = ty, DsName = n, DsDescription = d, DsSystem = s, DsSystemID = sid,
                DsSystemLink = sl, DsOutputName = out, DsObservedProperty = op, DsObservedProps = ops,
                DsPhenomenonTime = pt, DsResultTime = rt, DsFormats = fs, DsResultType = rty,
                DsSchema = (case raw_field datastreamKeys kvs ''schema'' of None \<Rightarrow> [] | Some v \<Rightarrow> JsonText X v),
                DsLinks = ls\<rparr> }"

definition parseDatastream :: "env \<Rightarrow> string \<Rightarrow> Datastream option" where
  "parseDatastream X body = Option.bind (ParseJson X body) (decodeDatastream X)"

text \<open>What \<open>json.Marshal\<close> writes; it fails on a schema text that is not JSON.\<close>

definition datastreamJson :: "env \<Rightarrow> Datastream \<Rightarrow> json option" where
  "datastreamJson X d =
     map_option (\<lambda>schema.
       JObj ([(''id'', JStr (DsID d)), (''type'', JStr (DsType d))] @
         omit_empty ''name'' (DsName d) @ omit_empty ''description'' (DsDescription d) @
         omit_empty ''system'' (DsSystem d) @ omit_empty ''system@id'' (DsSystemID d) @
         omit_nil ''system@link'' linkJson (DsSystemLink d) @ omit_empty ''outputName'' (DsOutputName d) @
         omit_empty ''observedProperty'' (DsObservedProperty d) @
         omit_list ''observedProperties'' observedPropertyJson (DsObservedProps d) @
         omit_empty ''phenomenonTime'' (DsPhenomenonTime d) @ omit_empty ''resultTime'' (DsResultTime d) @
         omit_list ''formats'' JStr (DsFormats d) @ omit_empty ''resultType'' (DsResultType d) @
         schema @ [(''links'', JArr (map linkJson (DsLinks d)))]))
       (if DsSchema d = [] then Some []
        else map_option (\<lambda>j. [(''schema'', j)]) (ParseJson X (DsSchema d)))"

section \<open>Triples\<close>

definition datastreamFromState :: "entity_state \<Rightarrow> Datastream" where
  "datastreamFromState state =
     (let ts = EntityTriples state; i = EntityID state;
          str = (\<lambda>p. or_empty (firstStringObject ts [p]));
          self = ''/datastreams/'' @ i in
      \<lparr>DsID = i, DsType = ''Datastream'', DsName = str PredLabel, DsDescription = str PredDescription,
       DsSystem = str PredDatastreamSystem, DsSystemID = str PredDatastreamSystem,
       DsSystemLink = map_option (\<lambda>v. \<lparr>LinkHref = ''/systems/'' @ v, LinkRel = ''system'',
          LinkType = MediaJSON, LinkTitle = v\<rparr>) (firstStringObject ts [PredDatastreamSystem]),
       DsOutputName = ''result'', DsObservedProperty = str PredObservedProperty,
       DsObservedProps = (case firstStringObject ts [PredObservedProperty] of
          None \<Rightarrow> [] | Some v \<Rightarrow> [\<lparr>ObsDefinition = v, ObsLabel = [], ObsDescription = []\<rparr>]),
       DsPhenomenonTime = str predDatastreamPhenomenonTime, DsResultTime = str predDatastreamResultTime,
       DsFormats = [MediaJSON, MediaOMS], DsResultType = ''observation'', DsSchema = [],
       DsLinks = [json_link self ''self'' MediaJSON, json_link self ''canonical'' MediaJSON] @
         (if firstStringObject ts [PredDatastreamSchema] \<noteq> None
          then [json_link (self @ ''/schema'') ''schema'' MediaJSON] else []) @
         [json_link (self @ ''/observations'') ''observations'' MediaJSON]\<rparr>)"

definition isDatastreamKind :: "triple list \<Rightarrow> bool" where
  "isDatastreamKind ts \<longleftrightarrow> firstStringObject ts [PredType] = Some DatastreamTypeIRI"

definition datastreamToTriples :: "env \<Rightarrow> string \<Rightarrow> Datastream \<Rightarrow> triple list" where
  "datastreamToTriples X eid d =
     [str_triple eid PredType DatastreamTypeIRI] @
     opt_triple eid PredLabel (DsName d) @
     opt_triple eid PredDescription (DsDescription d) @
     (if DsSystem d \<noteq> [] then [ref_triple X eid PredDatastreamSystem (DsSystem d)] else []) @
     opt_triple eid PredObservedProperty (DsObservedProperty d) @
     opt_triple eid predDatastreamPhenomenonTime (DsPhenomenonTime d) @
     opt_triple eid predDatastreamResultTime (DsResultTime d)"

section \<open>The round trip\<close>

lemma at_opt_triple [simp]:
  "at p (opt_triple eid q v) = (if p = q then opt_triple eid q v else [])"
  by (auto simp: opt_triple_def)

lemma first_opt_triple: "or_empty (firstStringObject (opt_triple eid p v) [p]) = v"
  by (auto simp: opt_triple_def or_empty_def)

lemma datastream_neqs:
  "distinct [PredType, PredLabel, PredDescription, PredDatastreamSystem, PredObservedProperty,
     predDatastreamPhenomenonTime, predDatastreamResultTime, PredDatastreamSchema]"
  "distinct [PredDatastreamSchema, predDatastreamResultTime, predDatastreamPhenomenonTime, PredObservedProperty,
     PredDatastreamSystem, PredDescription, PredLabel, PredType]"
  by (simp_all add: vocab_defs)

text \<open>What is stored of a datastream: the schema travels as an artifact, the rest is derived.\<close>

definition stored :: "string \<Rightarrow> Datastream \<Rightarrow> string \<times> string \<times> string \<times> string \<times> string \<times> string \<times> string" where
  "stored eid d = (eid, DsName d, DsDescription d, DsSystem d, DsObservedProperty d, DsPhenomenonTime d, DsResultTime d)"

lemma datastream_lookup:
  fixes X eid d rel
  defines "ts \<equiv> datastreamToTriples X eid d @ rel"
  assumes "\<forall>t \<in> set rel. Predicate t = PredDatastreamSchema"
  shows "firstStringObject ts [PredType] = Some DatastreamTypeIRI"
    and "or_empty (firstStringObject ts [PredLabel]) = DsName d"
    and "or_empty (firstStringObject ts [PredDescription]) = DsDescription d"
    and "firstStringObject ts [PredDatastreamSystem] = (if DsSystem d = [] then None else Some (DsSystem d))"
    and "or_empty (firstStringObject ts [PredObservedProperty]) = DsObservedProperty d"
    and "or_empty (firstStringObject ts [predDatastreamPhenomenonTime]) = DsPhenomenonTime d"
    and "or_empty (firstStringObject ts [predDatastreamResultTime]) = DsResultTime d"
    and "firstStringObject ts [PredDatastreamSchema] = firstStringObject rel [PredDatastreamSchema]"
proof -
  have rel: "at p rel = (if p = PredDatastreamSchema then rel else [])" for p
    using assms(2) by (auto simp: at_def filter_id_conv filter_empty_conv)
  note d = datastream_neqs
  show "firstStringObject ts [PredType] = Some DatastreamTypeIRI"
    by (subst first_at) (use d in \<open>simp add: ts_def datastreamToTriples_def rel\<close>)
  show "or_empty (firstStringObject ts [PredLabel]) = DsName d"
    by (subst first_at) (use d in \<open>simp add: ts_def datastreamToTriples_def rel first_opt_triple\<close>)
  show "or_empty (firstStringObject ts [PredDescription]) = DsDescription d"
    by (subst first_at) (use d in \<open>simp add: ts_def datastreamToTriples_def rel first_opt_triple\<close>)
  show "firstStringObject ts [PredDatastreamSystem] = (if DsSystem d = [] then None else Some (DsSystem d))"
    by (subst first_at) (use d in \<open>simp add: ts_def datastreamToTriples_def rel\<close>)
  show "or_empty (firstStringObject ts [PredObservedProperty]) = DsObservedProperty d"
    by (subst first_at) (use d in \<open>simp add: ts_def datastreamToTriples_def rel first_opt_triple\<close>)
  show "or_empty (firstStringObject ts [predDatastreamPhenomenonTime]) = DsPhenomenonTime d"
    by (subst first_at) (use d in \<open>simp add: ts_def datastreamToTriples_def rel first_opt_triple\<close>)
  show "or_empty (firstStringObject ts [predDatastreamResultTime]) = DsResultTime d"
    by (subst first_at) (use d in \<open>simp add: ts_def datastreamToTriples_def rel first_opt_triple\<close>)
  show "firstStringObject ts [PredDatastreamSchema] = firstStringObject rel [PredDatastreamSchema]"
    by (subst first_at) (use d in \<open>simp add: ts_def datastreamToTriples_def rel\<close>)
qed

text \<open>Claim C33: a datastream is read back as it was stored: the triples written for it, whether or
  not a schema artifact is attached to them, are of the Datastream kind and give back its name,
  description, system, observed property and both times, each possibly empty, under its ID; the
  system appears in all three spellings, and the schema link exactly when there is a schema.\<close>

theorem datastream_roundtrip:
  fixes X eid d rel
  defines "state \<equiv> \<lparr>EntityID = eid, EntityTriples = datastreamToTriples X eid d @ rel, EntityStorageRef = None\<rparr>"
  assumes "rel = [] \<or> rel = [ref_triple X eid PredDatastreamSchema artifactID]"
  shows "isDatastreamKind (EntityTriples state) \<and>
    stored (DsID (datastreamFromState state)) (datastreamFromState state) = stored eid d \<and>
    DsSystemID (datastreamFromState state) = DsSystem d \<and>
    (DsSystemLink (datastreamFromState state) = None \<longleftrightarrow> DsSystem d = []) \<and>
    (''schema'' \<in> LinkRel ` set (DsLinks (datastreamFromState state)) \<longleftrightarrow> rel \<noteq> [])"
proof -
  have r: "\<forall>t \<in> set rel. Predicate t = PredDatastreamSchema" using assms(2) by auto
  note l = datastream_lookup [OF r, of X eid d]
  have c: "firstStringObject rel [PredDatastreamSchema] = None \<longleftrightarrow> rel = []"
    using assms(2) by auto
  show ?thesis
    using l c
    by (auto simp: state_def or_empty_def isDatastreamKind_def datastreamFromState_def stored_def Let_def json_link_def)
qed

end
