(* ===== verification/DatastreamWrites.thy ===== *)
theory DatastreamWrites
  imports Datastreams
begin

text \<open>
  \<open>datastream_post.go\<close>, \<open>datastream_crd.go\<close>, \<open>datastream_patch.go\<close>: POST, PUT, PATCH, DELETE and
  OPTIONS on \<open>/datastreams\<close>. A write with a schema makes two: the artifact (\<open>SchemaArtifacts\<close>) and
  then the datastream; a delete makes two: the entity and then the purge of its observations.
\<close>

section \<open>POST and PUT\<close>

definition mintDatastreamEntityID :: "env \<Rightarrow> string" where
  "mintDatastreamEntityID X = mintEntityID (Ids X) (DatastreamIDPrefix (Cfg X)) []"

text \<open>The checks POST and PUT make on the body, with the schema normalised.\<close>

definition requireDatastream :: "env \<Rightarrow> Datastream \<Rightarrow> string + Datastream" where
  "requireDatastream X d =
     (if DsSystem d = [] then Inl ''system required''
      else case ValidateEntityID (Ids X) (DsSystem d) of
        Some e \<Rightarrow> Inl (''invalid system reference: '' @ e)
      | None \<Rightarrow>
          if DsObservedProperty d = [] then Inl ''observedProperty required''
          else case normalizeSWESchema X (DsSchema d) of
                 Inl e \<Rightarrow> Inl ''invalid Datastream schema''
               | Inr schema \<Rightarrow> Inr (d\<lparr>DsSchema := schema\<rparr>))"

text \<open>The artifact of the body's schema, when it has one: its relationship triple.\<close>

definition attachSchema ::
  "env \<Rightarrow> 's backend \<Rightarrow> context_state \<Rightarrow> string \<Rightarrow> bool \<Rightarrow> string \<Rightarrow> Identity \<Rightarrow> 's gateway \<Rightarrow>
   (gerr + triple list) \<times> 's gateway"
where
  "attachSchema X B ctx eid has schema identity g =
     (if \<not> has then (Inr [], g)
      else case createSchemaArtifact X B ctx eid PredDatastreamSchema schema identity g of
             (Inl e, g') \<Rightarrow> (Inl e, g')
           | (Inr rel, g') \<Rightarrow> (Inr [rel], g'))"

text \<open>Everything before the first effect: the refusal, or the datastream to write.\<close>

definition decodeDatastreamPost :: "env \<Rightarrow> request \<Rightarrow> response + Datastream" where
  "decodeDatastreamPost X r =
     (case requireMediaType X (header_get r ''Content-Type'') MediaJSON of
        Some e \<Rightarrow> Inl (writeJSONError [(''Accept-Post'', MediaJSON)] 415 e)
      | None \<Rightarrow>
      (case readBody [] r of
        Inl resp \<Rightarrow> Inl resp
      | Inr body \<Rightarrow>
      (case parseDatastream X body of
        None \<Rightarrow> Inl (writeJSONError [] 400 ''invalid Datastream JSON'')
      | Some inp \<Rightarrow>
      (case (if DsID inp = [] then None else ValidateEntityID (Ids X) (DsID inp)) of
        Some e \<Rightarrow> Inl (writeJSONError [] 400 (''invalid Datastream id: '' @ e))
      | None \<Rightarrow>
      (case requireDatastream X inp of
        Inl e \<Rightarrow> Inl (writeJSONError [] 400 e)
      | Inr d \<Rightarrow> Inr d)))))"

definition handleDatastreamPost ::
  "env \<Rightarrow> 's backend \<Rightarrow> context_state \<Rightarrow> Identity \<Rightarrow> request \<Rightarrow> 's gateway \<Rightarrow> response \<times> 's gateway"
where
  "handleDatastreamPost X B ctx identity r g =
     (case decodeDatastreamPost X r of
        Inl resp \<Rightarrow> (resp, g)
      | Inr d \<Rightarrow>
          let entityID = (if DsID d = [] then mintDatastreamEntityID X else DsID d);
              hs = [attemptedID entityID] in
          (case attachSchema X B ctx entityID (DsSchema d \<noteq> []) (DsSchema d) identity g of
             (Inl e, g1) \<Rightarrow> writeBackendError X hs e g1
           | (Inr rel, g1) \<Rightarrow>
               (case ingestTriples X B ctx (datastreamToTriples X entityID d @ rel) identity g1 of
                  (Inl e, g2) \<Rightarrow> writeBackendError X hs e g2
                | (Inr _, g2) \<Rightarrow>
                    (createdResponse [] (''/datastreams/'' @ entityID) entityID ''Datastream'', g2))))"

definition decodeDatastreamPut :: "env \<Rightarrow> string \<Rightarrow> request \<Rightarrow> response + Datastream" where
  "decodeDatastreamPut X pathID r =
     (let hs = [attemptedID pathID] in
      case ValidateEntityID (Ids X) pathID of
        Some e \<Rightarrow> Inl (invalidPathID ''datastream'' pathID e)
      | None \<Rightarrow>
      (case requireMediaType X (header_get r ''Content-Type'') MediaJSON of
        Some e \<Rightarrow> Inl (writeJSONError (hs @ [(''Accept'', MediaJSON)]) 415 e)
      | None \<Rightarrow>
      (case readBody hs r of
        Inl resp \<Rightarrow> Inl resp
      | Inr body \<Rightarrow>
      (case parseDatastream X body of
        None \<Rightarrow> Inl (writeJSONError hs 400 ''invalid Datastream JSON'')
      | Some inp \<Rightarrow>
      (case requireDatastream X inp of
        Inl e \<Rightarrow> Inl (writeJSONError hs 400 e)
      | Inr d \<Rightarrow>
          if DsID d \<noteq> [] \<and> DsID d \<noteq> pathID then Inl (writeJSONError hs 400 ''body id does not match path'')
          else Inr d)))))"

definition handleDatastreamPut ::
  "env \<Rightarrow> 's backend \<Rightarrow> context_state \<Rightarrow> Identity \<Rightarrow> request \<Rightarrow> 's gateway \<Rightarrow> response \<times> 's gateway"
where
  "handleDatastreamPut X B ctx identity r g =
     (let pathID = PathValue r ''id''; hs = [attemptedID pathID] in
      case decodeDatastreamPut X pathID r of
        Inl resp \<Rightarrow> (resp, g)
      | Inr d \<Rightarrow>
          (case attachSchema X B ctx pathID (DsSchema d \<noteq> []) (DsSchema d) identity g of
             (Inl e, g1) \<Rightarrow> writeBackendError X hs e g1
           | (Inr rel, g1) \<Rightarrow>
               (case putEntityTriples X B ctx pathID (datastreamToTriples X pathID d @ rel) identity g1 of
                  (Inl e, g2) \<Rightarrow> writeBackendError X hs e g2
                | (Inr _, g2) \<Rightarrow> (noContent hs, g2))))"

section \<open>DELETE\<close>

definition purgeDatastreamObservations ::
  "env \<Rightarrow> 's backend \<Rightarrow> string \<Rightarrow> 's gateway \<Rightarrow> gerr option \<times> 's gateway"
where
  "purgeDatastreamObservations X B datastreamID g =
     (let op = ''handleDatastreamDelete'' in
      if \<not> CleanerReady g
      then (Some (WrapTransient op (Plain ''observation stream cleaner not initialized'')), g)
      else (let (e, w) = PurgeSubject B (ObservationsSubjectPrefix (Cfg X) @ ''.'' @ datastreamID) (World g)
            in (map_option (classifyTransport op) e, g\<lparr>World := w\<rparr>)))"

definition handleDatastreamDelete ::
  "env \<Rightarrow> 's backend \<Rightarrow> context_state \<Rightarrow> Identity \<Rightarrow> request \<Rightarrow> 's gateway \<Rightarrow> response \<times> 's gateway"
where
  "handleDatastreamDelete X B ctx identity r g =
     (let pathID = PathValue r ''id''; hs = [attemptedID pathID] in
      case ValidateEntityID (Ids X) pathID of
        Some e \<Rightarrow> (invalidPathID ''datastream'' pathID e, g)
      | None \<Rightarrow>
          (case deleteEntity X B ctx pathID identity g of
             (Inl e, g1) \<Rightarrow> writeBackendError X hs e g1
           | (Inr _, g1) \<Rightarrow>
               (case purgeDatastreamObservations X B pathID g1 of
                  (Some e, g2) \<Rightarrow>
                    writeBackendError X (hs @ [(''X-CS-Partial-Delete'', ''true''),
                      (''X-CS-Observation-Purge-Failed'', ''true'')]) e g2
                | (None, g2) \<Rightarrow> (noContent hs, g2))))"

definition handleDatastreamsOptions :: response where
  "handleDatastreamsOptions = noContent [(''Allow'', ''GET, HEAD, POST, OPTIONS'')]"

definition handleDatastreamOptions :: "env \<Rightarrow> request \<Rightarrow> response" where
  "handleDatastreamOptions X r =
     (case ValidateEntityID (Ids X) (PathValue r ''id'') of
        Some e \<Rightarrow> writeJSONError [] 400 (''invalid datastream id: '' @ e)
      | None \<Rightarrow> noContent [(''Allow'', ''GET, HEAD, PUT, PATCH, DELETE, OPTIONS'')])"

section \<open>PATCH\<close>

definition patchDatastreamTriple :: "env \<Rightarrow> string \<Rightarrow> Datastream \<Rightarrow> triple option \<Rightarrow> triple \<Rightarrow> triple" where
  "patchDatastreamTriple X eid patch schemaRel t =
     (if Predicate t = PredLabel \<and> DsName patch \<noteq> [] then str_triple eid PredLabel (DsName patch)
      else if Predicate t = PredDescription \<and> DsDescription patch \<noteq> []
        then str_triple eid PredDescription (DsDescription patch)
      else if Predicate t = PredDatastreamSystem \<and> DsSystem patch \<noteq> []
        then ref_triple X eid PredDatastreamSystem (DsSystem patch)
      else if Predicate t = PredObservedProperty \<and> DsObservedProperty patch \<noteq> []
        then str_triple eid PredObservedProperty (DsObservedProperty patch)
      else if Predicate t = PredDatastreamSchema
        then (case schemaRel of Some rel \<Rightarrow> rel | None \<Rightarrow> t)
      else t)"

definition mergePatchDatastreamTriples ::
  "env \<Rightarrow> string \<Rightarrow> triple list \<Rightarrow> Datastream \<Rightarrow> triple option \<Rightarrow> triple list"
where
  "mergePatchDatastreamTriples X eid existing patch schemaRel =
     map (patchDatastreamTriple X eid patch schemaRel) existing @
     (if DsName patch \<noteq> [] \<and> \<not> list_ex (\<lambda>t. Predicate t = PredLabel) existing
      then [str_triple eid PredLabel (DsName patch)] else []) @
     (if DsDescription patch \<noteq> [] \<and> \<not> list_ex (\<lambda>t. Predicate t = PredDescription) existing
      then [str_triple eid PredDescription (DsDescription patch)] else []) @
     (if DsSystem patch \<noteq> [] \<and> \<not> list_ex (\<lambda>t. Predicate t = PredDatastreamSystem) existing
      then [ref_triple X eid PredDatastreamSystem (DsSystem patch)] else []) @
     (if DsObservedProperty patch \<noteq> [] \<and> \<not> list_ex (\<lambda>t. Predicate t = PredObservedProperty) existing
      then [str_triple eid PredObservedProperty (DsObservedProperty patch)] else []) @
     (case schemaRel of
        Some rel \<Rightarrow> if list_ex (\<lambda>t. Predicate t = PredDatastreamSchema) existing then [] else [rel]
      | None \<Rightarrow> [])"

text \<open>The checks of PATCH on the body, with the schema normalised.\<close>

definition checkDatastreamPatch :: "env \<Rightarrow> string \<Rightarrow> Datastream \<Rightarrow> string + Datastream" where
  "checkDatastreamPatch X pathID d =
     (if DsType d \<notin> {[], ''Datastream''} then Inl ''expected Datastream''
      else if DsID d \<noteq> [] \<and> DsID d \<noteq> pathID then Inl ''body id does not match path''
      else case (if DsSystem d = [] then None else ValidateEntityID (Ids X) (DsSystem d)) of
        Some e \<Rightarrow> Inl (''invalid system reference: '' @ e)
      | None \<Rightarrow>
          if trim_space (DsSchema d) = [] then Inr d
          else if trim_space (DsSchema d) = ''null''
            then Inl ''schema null is not supported on PATCH; omit schema to leave it unchanged''
          else case normalizeSWESchema X (DsSchema d) of
                 Inl e \<Rightarrow> Inl ''invalid Datastream schema''
               | Inr schema \<Rightarrow> Inr (d\<lparr>DsSchema := schema\<rparr>))"

text \<open>The checks on what the datastream would be.\<close>

definition checkDatastreamMerged :: "env \<Rightarrow> Datastream \<Rightarrow> Datastream \<Rightarrow> string option" where
  "checkDatastreamMerged X current d =
     (let sys = (if DsSystem d \<noteq> [] then DsSystem d else DsSystem current);
          prop = (if DsObservedProperty d \<noteq> [] then DsObservedProperty d else DsObservedProperty current) in
      if sys = [] then Some ''system required after PATCH''
      else case ValidateEntityID (Ids X) sys of
        Some e \<Rightarrow> Some (''invalid system reference after PATCH: '' @ e)
      | None \<Rightarrow> if prop = [] then Some ''observedProperty required after PATCH'' else None)"

text \<open>The part of PATCH after the exact read. (A fetched exact entity is dereferenced;
  \<open>fetchEntityExact\<close> never returns a nil one.)\<close>

definition applyDatastreamPatch ::
  "env \<Rightarrow> 's backend \<Rightarrow> context_state \<Rightarrow> Identity \<Rightarrow> string \<Rightarrow> bool \<Rightarrow> Datastream \<Rightarrow> exact_entity \<Rightarrow>
   's gateway \<Rightarrow> response \<times> 's gateway"
where
  "applyDatastreamPatch X B ctx identity pathID hasSchema d exact g =
     (let hs = [attemptedID pathID] in
      case Entity exact of
        None \<Rightarrow> (writeJSONError hs 500 ''nil entity'', g)
      | Some existing \<Rightarrow>
          if \<not> isDatastreamKind (EntityTriples existing)
          then (writeJSONError hs 404 (''no datastream: '' @ pathID), g)
          else
          (case checkDatastreamMerged X (datastreamFromState existing) d of
             Some e \<Rightarrow> (writeJSONError hs 400 e, g)
           | None \<Rightarrow>
               (case attachSchema X B ctx pathID hasSchema (DsSchema d) identity g of
                  (Inl e, g1) \<Rightarrow> writeBackendError X hs e g1
                | (Inr rel, g1) \<Rightarrow>
                    (case replaceEntityTriples X B ctx exact
                            (mergePatchDatastreamTriples X pathID (EntityTriples existing) d
                               (case rel of [] \<Rightarrow> None | rt # _ \<Rightarrow> Some rt)) identity g1 of
                       (Inl e, g2) \<Rightarrow> writeBackendError X hs e g2
                     | (Inr _, g2) \<Rightarrow> (noContent hs, g2)))))"

text \<open>Before the read: the refusal, or the patch and whether it has a schema.\<close>

definition decodeDatastreamPatch :: "env \<Rightarrow> string \<Rightarrow> request \<Rightarrow> response + bool \<times> Datastream" where
  "decodeDatastreamPatch X pathID r =
     (let hs = [attemptedID pathID] in
      case ValidateEntityID (Ids X) pathID of
        Some e \<Rightarrow> Inl (invalidPathID ''datastream'' pathID e)
      | None \<Rightarrow>
      (case requireMediaType X (header_get r ''Content-Type'') MediaJSON of
        Some e \<Rightarrow> Inl (writeJSONError (hs @ [(''Accept'', MediaJSON)]) 415 e)
      | None \<Rightarrow>
      (case readBody hs r of
        Inl resp \<Rightarrow> Inl resp
      | Inr body \<Rightarrow>
      (case parseDatastream X body of
        None \<Rightarrow> Inl (writeJSONError hs 400 ''invalid Datastream JSON'')
      | Some inp \<Rightarrow>
      (case checkDatastreamPatch X pathID inp of
        Inl e \<Rightarrow> Inl (writeJSONError hs 400 e)
      | Inr d \<Rightarrow> Inr (trim_space (DsSchema inp) \<noteq> [], d))))))"

definition handleDatastreamPatch ::
  "env \<Rightarrow> 's backend \<Rightarrow> context_state \<Rightarrow> Identity \<Rightarrow> request \<Rightarrow> 's gateway \<Rightarrow> response \<times> 's gateway"
where
  "handleDatastreamPatch X B ctx identity r g =
     (let pathID = PathValue r ''id''; hs = [attemptedID pathID] in
      case decodeDatastreamPatch X pathID r of
        Inl resp \<Rightarrow> (resp, g)
      | Inr (hasSchema, d) \<Rightarrow>
          (case fetchEntityExact X B pathID g of
             (Inl e, g1) \<Rightarrow> writeBackendError X hs e g1
           | (Inr exact, g1) \<Rightarrow> applyDatastreamPatch X B ctx identity pathID hasSchema d exact g1))"

end
