(* ===== verification/ObservationReads.thy ===== *)
theory ObservationReads
  imports Observations
begin

text \<open>
  \<open>observations_get.go\<close>: reading the observation stream. A page is fetched from a cursor on, each
  message is unwrapped to its OMS payload (one that cannot be is skipped), and the page is written
  as a collection of resources, as bare payloads, or as rows of a SWE encoding.
\<close>

section \<open>Fetching\<close>

text \<open>\<open>jetstreamObservationReader.FetchSubject\<close>: the cursor is exclusive, JetStream's start inclusive.\<close>

definition FetchSubject ::
  "'s backend \<Rightarrow> string \<Rightarrow> int \<Rightarrow> nat \<Rightarrow> 's \<Rightarrow> (nats_error + stream_msg list) \<times> 's"
where
  "FetchSubject B subject limit startSeq w =
     Deliver B subject
       (if startSeq > 0 then Some (if startSeq < 2 ^ 64 - 1 then startSeq + 1 else startSeq) else None)
       limit w"

definition classifyJetStreamErr :: "nats_error \<Rightarrow> string \<Rightarrow> gerr" where
  "classifyJetStreamErr e op =
     (if e \<in> {NoResponders, Timeout, DeadlineExceeded, ConnectionClosed}
      then WrapTransient op (NatsErr e) else Wrap op (NatsErr e))"

text \<open>A message with its envelope taken off.\<close>

record observationMsg =
  Payload :: json
  MsgSeq :: nat
  OfSubject :: string

definition envelopePayload :: "env \<Rightarrow> string \<Rightarrow> json option" where
  "envelopePayload X bytes =
     Option.bind (ParseJson X bytes) (\<lambda>doc.
       Option.bind (struct_members doc) (\<lambda>kvs. raw_field [''payload''] kvs ''payload''))"

definition unwrap :: "env \<Rightarrow> string \<Rightarrow> stream_msg \<Rightarrow> observationMsg list" where
  "unwrap X subject m =
     (case envelopePayload X (MsgData m) of
        None \<Rightarrow> []
      | Some p \<Rightarrow> [\<lparr>Payload = p, MsgSeq = Sequence m,
                   OfSubject = (if MsgSubject m = [] then subject else MsgSubject m)\<rparr>])"

definition lastSequence :: "stream_msg list \<Rightarrow> nat" where
  "lastSequence ms = fold max (map Sequence ms) 0"

definition fetchObservationMessagesWithReader ::
  "env \<Rightarrow> 's backend \<Rightarrow> string \<Rightarrow> int \<Rightarrow> nat \<Rightarrow> 's gateway \<Rightarrow>
   (gerr + observationMsg list \<times> nat) \<times> 's gateway"
where
  "fetchObservationMessagesWithReader X B subject limit startSeq g =
     (let (res, w) = FetchSubject B subject limit startSeq (World g); g' = g\<lparr>World := w\<rparr> in
      case res of
        Inl e \<Rightarrow> (Inl (classifyJetStreamErr e ''handleObservationsGet''), g')
      | Inr ms \<Rightarrow> (Inr (concat (map (unwrap X subject) ms), lastSequence ms), g'))"

definition fetchObservationMessages ::
  "env \<Rightarrow> 's backend \<Rightarrow> string \<Rightarrow> int \<Rightarrow> nat \<Rightarrow> 's gateway \<Rightarrow>
   (gerr + observationMsg list \<times> nat) \<times> 's gateway"
where
  "fetchObservationMessages X B subject limit startSeq g =
     (if \<not> ReaderReady g
      then (Inl (WrapTransient ''fetchObservationMessages'' (Plain ''observation stream reader not initialized'')), g)
      else fetchObservationMessagesWithReader X B subject limit startSeq g)"

definition fetchObservations ::
  "env \<Rightarrow> 's backend \<Rightarrow> string \<Rightarrow> int \<Rightarrow> nat \<Rightarrow> 's gateway \<Rightarrow> (gerr + json list \<times> nat) \<times> 's gateway"
where
  "fetchObservations X B datastreamID limit startSeq g =
     (case fetchObservationMessagesWithReader X B (observationSubject X datastreamID) limit startSeq g of
        (Inl e, g') \<Rightarrow> (Inl e, g')
      | (Inr (ms, lastSeq), g') \<Rightarrow> (Inr (map Payload ms, lastSeq), g'))"

definition parseObservationAfter :: "string \<Rightarrow> string + nat" where
  "parseObservationAfter raw =
     (if raw = [] then Inr 0
      else case parse_uint 64 raw of
             None \<Rightarrow> Inl ''after must be a positive integer sequence''
           | Some n \<Rightarrow> Inr (nat n))"

section \<open>Resources\<close>

text \<open>A payload as a resource. Setting a member of the nil map that \<open>null\<close> decodes to panics.\<close>

datatype resource_result = Unusable | NilMapPanic | Resource json

definition observationResourceFromPayload :: "env \<Rightarrow> json \<Rightarrow> string \<Rightarrow> resource_result" where
  "observationResourceFromPayload X payload datastreamID =
     (case decodeMap X payload of
        None \<Rightarrow> Unusable
      | Some None \<Rightarrow> if datastreamID \<noteq> [] then NilMapPanic else Resource JNull
      | Some (Some m) \<Rightarrow>
          let m1 = (if datastreamID \<noteq> [] then member_put ''datastream@id'' (GStr datastreamID) m else m);
              m2 = (case (map_of m1 ''phenomenonTime'', map_of m1 ''resultTime'') of
                      (None, Some t) \<Rightarrow> member_put ''phenomenonTime'' t m1
                    | _ \<Rightarrow> m1)
          in Resource (marshalGo (JsonFloat X) (GMap m2)))"

fun collectResources :: "resource_result list \<Rightarrow> json list option" where
  "collectResources [] = Some []"
| "collectResources (Unusable # rs) = collectResources rs"
| "collectResources (NilMapPanic # rs) = None"
| "collectResources (Resource j # rs) = map_option (\<lambda>js. j # js) (collectResources rs)"

definition datastreamIDFromObservationSubject :: "string \<Rightarrow> string \<Rightarrow> string" where
  "datastreamIDFromObservationSubject pre subject =
     (case strip_prefix (pre @ ''.'') subject of None \<Rightarrow> [] | Some s \<Rightarrow> s)"

definition observationResourcesFromMessages :: "env \<Rightarrow> observationMsg list \<Rightarrow> string \<Rightarrow> json list option" where
  "observationResourcesFromMessages X ms fallback =
     collectResources (map (\<lambda>m. observationResourceFromPayload X (Payload m)
       (if fallback \<noteq> [] then fallback
        else datastreamIDFromObservationSubject (ObservationsSubjectPrefix (Cfg X)) (OfSubject m))) ms)"

definition observationResourcesFromPayloads :: "env \<Rightarrow> json list \<Rightarrow> string \<Rightarrow> json list option" where
  "observationResourcesFromPayloads X payloads datastreamID =
     collectResources (map (\<lambda>p. observationResourceFromPayload X p datastreamID) payloads)"

definition jsonResourceString :: "env \<Rightarrow> json \<Rightarrow> string \<Rightarrow> string" where
  "jsonResourceString X resource name =
     (case decodeMap X resource of
        Some (Some m) \<Rightarrow> (case map_of m name of Some (GStr s) \<Rightarrow> s | _ \<Rightarrow> [])
      | _ \<Rightarrow> [])"

definition observationResourceID :: "json \<Rightarrow> string" where
  "observationResourceID resource =
     or_empty (Option.bind (struct_members resource) (\<lambda>kvs. string_field [''id''] kvs ''id''))"

section \<open>Filters\<close>

record observationCollectionFilters =
  FPhenomenonTime :: string
  FResultTime :: string

definition observationCollectionFiltersFromQuery :: "request \<Rightarrow> observationCollectionFilters" where
  "observationCollectionFiltersFromQuery r =
     \<lparr>FPhenomenonTime = queryString r ''phenomenonTime'', FResultTime = queryString r ''resultTime''\<rparr>"

definition observationFiltersActive :: "observationCollectionFilters \<Rightarrow> bool" where
  "observationFiltersActive f \<longleftrightarrow> FPhenomenonTime f \<noteq> [] \<or> FResultTime f \<noteq> []"

definition observationResourceMatchesFilters :: "env \<Rightarrow> observationCollectionFilters \<Rightarrow> json \<Rightarrow> bool" where
  "observationResourceMatchesFilters X f item \<longleftrightarrow>
     (FPhenomenonTime f \<noteq> [] \<longrightarrow>
        resourceTimeIntersects (Std X) (jsonResourceString X item ''phenomenonTime'') (FPhenomenonTime f)) \<and>
     (FResultTime f \<noteq> [] \<longrightarrow>
        resourceTimeIntersects (Std X) (jsonResourceString X item ''resultTime'') (FResultTime f))"

definition filterObservationResources :: "env \<Rightarrow> json list \<Rightarrow> observationCollectionFilters \<Rightarrow> int \<Rightarrow> json list" where
  "filterObservationResources X items f limit =
     (if \<not> observationFiltersActive f
      then (if int (length items) > limit then take (nat limit) items else items)
      else takeMatching (observationResourceMatchesFilters X f) limit [] items)"

section \<open>The collection\<close>

definition collectionJson :: "int \<Rightarrow> bool \<Rightarrow> json list \<Rightarrow> link list \<Rightarrow> json" where
  "collectionJson n truncated items links =
     JObj ([(''type'', JStr ''ObservationCollection''), (''numberMatched'', JNum (format_int n)),
            (''numberReturned'', JNum (format_int n))] @
           (if truncated then [(''truncated'', JBool True)] else []) @
           [(''items'', JArr items), (''links'', JArr (map linkJson links))])"

definition observationsSelfLink :: "string \<Rightarrow> string \<Rightarrow> string" where
  "observationsSelfLink datastreamID rawQuery =
     (let base = ''/datastreams/'' @ datastreamID @ ''/observations'' in
      if rawQuery \<noteq> [] then base @ ''?'' @ rawQuery else base)"

definition observationsCollectionSelfLink :: "string \<Rightarrow> string" where
  "observationsCollectionSelfLink rawQuery =
     (if rawQuery = [] then ''/observations'' else ''/observations?'' @ rawQuery)"

definition pageQuery :: "int \<Rightarrow> nat \<Rightarrow> string" where
  "pageQuery limit lastSeq = ''?limit='' @ format_int limit @ ''&after='' @ format_int (int lastSeq)"

definition nextObservations :: "string \<Rightarrow> int \<Rightarrow> nat \<Rightarrow> link" where
  "nextObservations base limit lastSeq = json_link (base @ pageQuery limit lastSeq) ''next'' MediaJSON"

definition writeCollection ::
  "request \<Rightarrow> string \<Rightarrow> string \<Rightarrow> nat \<Rightarrow> json list \<Rightarrow> nat \<Rightarrow> int \<Rightarrow> response"
where
  "writeCollection r selfHref base count items lastSeq limit =
     (let truncated = (int count = limit \<and> lastSeq > 0);
          links = [json_link selfHref ''self'' MediaJSON] @
                  (if truncated then [nextObservations base limit lastSeq] else [])
      in okResponse r [contentTypeJSON] (JsonBody (collectionJson (int count) truncated items links)))"

text \<open>The first counts payloads and renders them; the second is given rendered, filtered items.\<close>

definition writeObservationsWrapped ::
  "env \<Rightarrow> request \<Rightarrow> string \<Rightarrow> json list \<Rightarrow> nat \<Rightarrow> int \<Rightarrow> response option"
where
  "writeObservationsWrapped X r datastreamID items lastSeq limit =
     map_option (\<lambda>resources. writeCollection r (observationsSelfLink datastreamID (RawQuery r))
         (''/datastreams/'' @ datastreamID @ ''/observations'') (length items) resources lastSeq limit)
       (observationResourcesFromPayloads X items datastreamID)"

definition writeObservationResourcesWrapped ::
  "request \<Rightarrow> string \<Rightarrow> json list \<Rightarrow> nat \<Rightarrow> int \<Rightarrow> response"
where
  "writeObservationResourcesWrapped r datastreamID items lastSeq limit =
     writeCollection r (observationsSelfLink datastreamID (RawQuery r))
       (''/datastreams/'' @ datastreamID @ ''/observations'') (length items) items lastSeq limit"

definition writeObservationsBare :: "request \<Rightarrow> json list \<Rightarrow> response" where
  "writeObservationsBare r items =
     okResponse r [(''Content-Type'', MediaOMS), (''X-CS-Items-Count'', format_int (int (length items)))]
       (JsonBody (JArr items))"

end
