(* ===== verification/SweRows.thy ===== *)
theory SweRows
  imports ObservationReads Datastreams
begin

text \<open>
  The SWE representations of observations (\<open>observations_get.go\<close>, \<open>datastream_schema.go\<close>): the rows
  are laid out by the datastream's stored schema, or, when it has none that can be read, by a
  schema inferred from the results.
\<close>

section \<open>The stored schema\<close>

definition fetchDatastreamObservationSchema ::
  "env \<Rightarrow> 's backend \<Rightarrow> string \<Rightarrow> 's gateway \<Rightarrow> DataRecord option \<times> 's gateway"
where
  "fetchDatastreamObservationSchema X B datastreamID g =
     (case fetchEntity X B datastreamID g of
        (Inl e, g1) \<Rightarrow> (None, g1)
      | (Inr state, g1) \<Rightarrow>
          (case readSchemaArtifact X B (EntityTriples state) PredDatastreamSchema g1 of
             (Inl e, g2) \<Rightarrow> (None, g2)
           | (Inr None, g2) \<Rightarrow> (None, g2)
           | (Inr (Some raw), g2) \<Rightarrow>
               (case ParseJson X raw of
                  None \<Rightarrow> (None, g2)
                | Some doc \<Rightarrow> (case UnmarshalSchema doc of Inl e \<Rightarrow> (None, g2) | Inr schema \<Rightarrow> (Some schema, g2)))))"

section \<open>Values and kinds\<close>

definition sweKindForValue :: "goval \<Rightarrow> ComponentKind" where
  "sweKindForValue v =
     (case v of GNil \<Rightarrow> [] | GBool b \<Rightarrow> KindBoolean | GNum f \<Rightarrow> KindQuantity | _ \<Rightarrow> KindText)"

definition widenSWEKind :: "ComponentKind \<Rightarrow> ComponentKind \<Rightarrow> ComponentKind" where
  "widenSWEKind current nxt =
     (if nxt = [] then current else if current = [] then nxt
      else if current = nxt then current else KindText)"

definition sweTextValue :: "env \<Rightarrow> goval \<Rightarrow> string" where
  "sweTextValue X v = (case v of GStr s \<Rightarrow> s | _ \<Rightarrow> trim_space (JsonText X (marshalGo (JsonFloat X) v)))"

text \<open>The dynamic value as the encoders see it.\<close>

definition any_of :: "env \<Rightarrow> goval \<Rightarrow> any" where
  "any_of X v =
     (case v of
        GNil \<Rightarrow> ANil
      | GBool b \<Rightarrow> ABool b
      | GNum f \<Rightarrow> AF64 f
      | GStr s \<Rightarrow> AStr s
      | _ \<Rightarrow> AOther (marshalGo (JsonFloat X) v))"

definition sweValueForKind :: "env \<Rightarrow> goval \<Rightarrow> ComponentKind \<Rightarrow> any" where
  "sweValueForKind X v kind =
     (if v = GNil then ANil
      else if kind = KindText then AStr (sweTextValue X v) else any_of X v)"

text \<open>A payload as a map; the nil map has no members.\<close>

definition payloadMap :: "env \<Rightarrow> json \<Rightarrow> (string \<times> goval) list option" where
  "payloadMap X j = map_option (\<lambda>m. case m of None \<Rightarrow> [] | Some kvs \<Rightarrow> kvs) (decodeMap X j)"

definition member :: "(string \<times> goval) list \<Rightarrow> string \<Rightarrow> goval" where
  "member m k = (case map_of m k of None \<Rightarrow> GNil | Some v \<Rightarrow> v)"

fun firstStringValue :: "(string \<times> goval) list \<Rightarrow> string list \<Rightarrow> string" where
  "firstStringValue m [] = []"
| "firstStringValue m (k # ks) = (case member m k of GStr s \<Rightarrow> s | _ \<Rightarrow> firstStringValue m ks)"

definition observationTime :: "(string \<times> goval) list \<Rightarrow> any" where
  "observationTime m =
     (let t = firstStringValue m [''phenomenonTime'', ''resultTime'', ''time''] in
      if t \<noteq> [] then AStr t else ANil)"

section \<open>Rows\<close>

definition labelled :: "string \<Rightarrow> string \<Rightarrow> CommonFields" where
  "labelled label def = \<lparr>LabelValue = label, DefinitionValue = def, NilValue = []\<rparr>"

definition sweComponentForKind :: "ComponentKind \<Rightarrow> DataComponent" where
  "sweComponentForKind kind =
     (if kind = KindBoolean then Boolean (labelled ''Result'' [])
      else if kind = KindText then Text (labelled ''Result'' [])
      else Quantity (labelled ''Result'' []) [] [])"

definition sweObservationSchema :: "ComponentKind \<Rightarrow> DataRecord" where
  "sweObservationSchema resultKind =
     DataRecord (labelled [] [])
       [Field ''time'' (Some (Time (labelled ''Observation time''
          ''http://www.opengis.net/def/property/OGC/0/SamplingTime'') [] [])),
        Field ''result'' (Some (sweComponentForKind resultKind))]"

definition sweRowsFromOMS :: "env \<Rightarrow> json list \<Rightarrow> DataRecord \<times> Values list" where
  "sweRowsFromOMS X items =
     (let raw = concat (map (\<lambda>i. case payloadMap X i of None \<Rightarrow> [] | Some m \<Rightarrow> [m]) items);
          widened = foldl (\<lambda>k m. widenSWEKind k (sweKindForValue (member m ''result''))) [] raw;
          kind = (if widened = [] then KindQuantity else widened)
      in (sweObservationSchema kind,
          map (\<lambda>m. [''time'' \<mapsto> observationTime m, ''result'' \<mapsto> sweValueForKind X (member m ''result'') kind]) raw))"

text \<open>The last rule, of a schema with one field, takes the result itself when it is not an object.\<close>

definition sweSchemaFieldValue :: "env \<Rightarrow> (string \<times> goval) list \<Rightarrow> Field \<Rightarrow> nat \<Rightarrow> any" where
  "sweSchemaFieldValue X obs f fieldCount =
     (let result = member obs ''result'';
          isText = (case Component f of None \<Rightarrow> False | Some c \<Rightarrow> Kind c = KindText)
      in if Name f = ''time'' then observationTime obs
         else let v = (if Name f = ''result'' then result
                       else case result of
                              GMap kvs \<Rightarrow> member kvs (Name f)
                            | _ \<Rightarrow> if fieldCount = 1 then result else GNil)
              in if isText then sweValueForKind X v KindText else any_of X v)"

definition sweRowsFromOMSWithSchema :: "env \<Rightarrow> json list \<Rightarrow> DataRecord \<Rightarrow> Values list" where
  "sweRowsFromOMSWithSchema X items schema =
     concat (map (\<lambda>i. case payloadMap X i of
         None \<Rightarrow> []
       | Some m \<Rightarrow> [foldl (\<lambda>row f. row(Name f \<mapsto> sweSchemaFieldValue X m f (length (Fields schema)))) Map.empty
                    (Fields schema)]) items)"

definition sweRowsForDatastream ::
  "env \<Rightarrow> 's backend \<Rightarrow> string \<Rightarrow> json list \<Rightarrow> 's gateway \<Rightarrow> (DataRecord \<times> Values list \<times> bool) \<times> 's gateway"
where
  "sweRowsForDatastream X B datastreamID items g =
     (case fetchDatastreamObservationSchema X B datastreamID g of
        (Some schema, g') \<Rightarrow> ((schema, sweRowsFromOMSWithSchema X items schema, True), g')
      | (None, g') \<Rightarrow> (case sweRowsFromOMS X items of (schema, rows) \<Rightarrow> ((schema, rows, False), g')))"

section \<open>The three encodings\<close>

text \<open>The common shape: encode unless the request is a HEAD, a failure is a 500 and counted, and an
  inferred schema is announced in a header.\<close>

definition writeSWE ::
  "request \<Rightarrow> string \<Rightarrow> string \<Rightarrow> bool \<Rightarrow> 'e + body \<Rightarrow> 's gateway \<Rightarrow> response \<times> 's gateway"
where
  "writeSWE r media what schemaBacked enc g =
     (if Method r = ''HEAD'' \<or> \<not> isl enc then
        (okResponse r ([(''Content-Type'', media)] @
           (if schemaBacked then [] else [(''X-CS-SWE-Subset'', ''observation-values'')]))
           (case enc of Inl e \<Rightarrow> NoBody | Inr b \<Rightarrow> b), g)
      else (writeJSONError [] 500 (''encode observations SWE '' @ what @ '' response''), g\<lparr>Errs := Suc (Errs g)\<rparr>))"

definition map_body :: "('a \<Rightarrow> body) \<Rightarrow> 'e + 'a \<Rightarrow> 'e + body" where
  "map_body f x = (case x of Inl e \<Rightarrow> Inl e | Inr v \<Rightarrow> Inr (f v))"

definition writeObservationsSWEJSON ::
  "env \<Rightarrow> 's backend \<Rightarrow> request \<Rightarrow> string \<Rightarrow> json list \<Rightarrow> 's gateway \<Rightarrow> response \<times> 's gateway"
where
  "writeObservationsSWEJSON X B r datastreamID items g =
     (case sweRowsForDatastream X B datastreamID items g of
        ((schema, rows, backed), g') \<Rightarrow>
          writeSWE r MediaSWEJSON ''JSON'' backed
            (map_body JsonBody (MarshalJSONRows (Std X) (JsonFloat X) (Some schema) rows)) g')"

definition csvEncoding :: "bool \<Rightarrow> TextEncoding" where
  "csvEncoding schemaBacked = DefaultTextEncoding\<lparr>EmitHeader := \<not> schemaBacked\<rparr>"

definition writeObservationsSWECsv ::
  "env \<Rightarrow> 's backend \<Rightarrow> request \<Rightarrow> string \<Rightarrow> json list \<Rightarrow> 's gateway \<Rightarrow> response \<times> 's gateway"
where
  "writeObservationsSWECsv X B r datastreamID items g =
     (case sweRowsForDatastream X B datastreamID items g of
        ((schema, rows, backed), g') \<Rightarrow>
          writeSWE r MediaSWECsv ''CSV'' backed
            (map_body TextBody (MarshalTextRows (Std X) (Some schema) rows (csvEncoding backed))) g')"

definition writeObservationsSWEBinary ::
  "env \<Rightarrow> 's backend \<Rightarrow> request \<Rightarrow> string \<Rightarrow> json list \<Rightarrow> 's gateway \<Rightarrow> response \<times> 's gateway"
where
  "writeObservationsSWEBinary X B r datastreamID items g =
     (case sweRowsForDatastream X B datastreamID items g of
        ((schema, rows, backed), g') \<Rightarrow>
          writeSWE r MediaSWEBinary ''binary'' backed
            (map_body (\<lambda>bs. TextBody (string_of bs))
               (MarshalBinaryRows (Std X) (Some schema) rows DefaultBinaryEncoding)) g')"

section \<open>GET\<close>

definition handleObservationsGet ::
  "env \<Rightarrow> 's backend \<Rightarrow> request \<Rightarrow> 's gateway \<Rightarrow> response option \<times> 's gateway"
where
  "handleObservationsGet X B r g =
     (let ds = PathValue r ''datastreamID'' in
      case ValidateEntityID (Ids X) ds of
        Some e \<Rightarrow> (Some (writeJSONError [] 400 (''invalid datastream id: '' @ e)), g)
      | None \<Rightarrow>
      (case NegotiateRequest (Std X) r FamilyObservationCollection of
        None \<Rightarrow> (Some (WriteNotAcceptable FamilyObservationCollection), g)
      | Some media \<Rightarrow>
      (case parseLimit (query_get r ''limit'') (DefaultListLimit (Cfg X)) (MaxListLimit (Cfg X)) of
        Inl e \<Rightarrow> (Some (writeJSONError [] 400 e), g)
      | Inr limit \<Rightarrow>
      (case parseObservationAfter (query_get r ''after'') of
        Inl e \<Rightarrow> (Some (writeJSONError [] 400 e), g)
      | Inr startSeq \<Rightarrow>
          if \<not> ReaderReady g then
            apfst Some (writeBackendError X [] (WrapTransient ''handleObservationsGet''
              (Plain ''observation stream reader not initialized'')) g)
          else
          let filters = observationCollectionFiltersFromQuery r;
              fetchLimit = (if media = MediaJSON \<and> observationFiltersActive filters
                            then MaxListLimit (Cfg X) else limit) in
          (case fetchObservations X B ds fetchLimit startSeq g of
             (Inl e, g1) \<Rightarrow> apfst Some (writeBackendError X [] e g1)
           | (Inr (items, lastSeq), g1) \<Rightarrow>
               if media = MediaOMS then (Some (writeObservationsBare r items), g1)
               else if media = MediaSWEJSON then apfst Some (writeObservationsSWEJSON X B r ds items g1)
               else if media = MediaSWECsv then apfst Some (writeObservationsSWECsv X B r ds items g1)
               else if media = MediaSWEBinary then apfst Some (writeObservationsSWEBinary X B r ds items g1)
               else if observationFiltersActive filters then
                 (map_option (\<lambda>resources. writeObservationResourcesWrapped r ds
                      (filterObservationResources X resources filters limit) lastSeq limit)
                    (observationResourcesFromPayloads X items ds), g1)
               else (writeObservationsWrapped X r ds items lastSeq limit, g1))))))"

definition handleGlobalObservations ::
  "env \<Rightarrow> 's backend \<Rightarrow> request \<Rightarrow> 's gateway \<Rightarrow> response option \<times> 's gateway"
where
  "handleGlobalObservations X B r g =
     (if NegotiateRequest (Std X) r FamilyDatastreamCollection \<noteq> Some MediaJSON
      then (Some (WriteNotAcceptable FamilyDatastreamCollection), g)
      else
      (case parseLimit (query_get r ''limit'') (DefaultListLimit (Cfg X)) (MaxListLimit (Cfg X)) of
        Inl e \<Rightarrow> (Some (writeJSONError [] 400 e), g)
      | Inr limit \<Rightarrow>
      (case parseObservationAfter (query_get r ''after'') of
        Inl e \<Rightarrow> (Some (writeJSONError [] 400 e), g)
      | Inr startSeq \<Rightarrow>
          let filters = observationCollectionFiltersFromQuery r;
              fetchLimit = (if observationFiltersActive filters then MaxListLimit (Cfg X) else limit) in
          (case fetchObservationMessages X B (ObservationsSubjectPrefix (Cfg X) @ ''.>'') fetchLimit startSeq g of
             (Inl e, g1) \<Rightarrow> apfst Some (writeBackendError X [] e g1)
           | (Inr (ms, lastSeq), g1) \<Rightarrow>
               (map_option (\<lambda>resources.
                    let items = (if observationFiltersActive filters
                                 then filterObservationResources X resources filters limit else resources)
                    in writeCollection r (observationsCollectionSelfLink (RawQuery r)) ''/observations''
                         (length items) items lastSeq limit)
                  (observationResourcesFromMessages X ms []), g1)))))"

text \<open>\<open>GET /observations/{obsID}\<close> scans the first page of the whole stream. A message whose payload
  panics is met only if no earlier one has the ID.\<close>

fun findObservation :: "env \<Rightarrow> string \<Rightarrow> observationMsg list \<Rightarrow> json option option" where
  "findObservation X obsID [] = Some None"
| "findObservation X obsID (m # ms) =
     (case observationResourceFromPayload X (Payload m)
             (datastreamIDFromObservationSubject (ObservationsSubjectPrefix (Cfg X)) (OfSubject m)) of
        NilMapPanic \<Rightarrow> None
      | Unusable \<Rightarrow> findObservation X obsID ms
      | Resource j \<Rightarrow> if observationResourceID j = obsID then Some (Some j) else findObservation X obsID ms)"

definition handleObservationGet ::
  "env \<Rightarrow> 's backend \<Rightarrow> request \<Rightarrow> 's gateway \<Rightarrow> response option \<times> 's gateway"
where
  "handleObservationGet X B r g =
     (if NegotiateRequest (Std X) r FamilyDatastreamCollection \<noteq> Some MediaJSON
      then (Some (WriteNotAcceptable FamilyDatastreamCollection), g)
      else let obsID = PathValue r ''obsID'' in
      (case validateOpaqueResourceID obsID of
        Some e \<Rightarrow> (Some (writeJSONError [] 400 (''invalid observation id: '' @ e)), g)
      | None \<Rightarrow>
          (case fetchObservationMessages X B (ObservationsSubjectPrefix (Cfg X) @ ''.>'') (MaxListLimit (Cfg X)) 0 g of
             (Inl e, g1) \<Rightarrow> apfst Some (writeBackendError X [] e g1)
           | (Inr (ms, lastSeq), g1) \<Rightarrow>
               (map_option (\<lambda>res. case res of
                    None \<Rightarrow> writeJSONError [] 404 ''observation not found''
                  | Some j \<Rightarrow> okResponse r [contentTypeJSON] (JsonBody j)) (findObservation X obsID ms), g1))))"

definition handleGlobalObservationsOptions :: response where
  "handleGlobalObservationsOptions = noContent [(''Allow'', ''GET, HEAD, OPTIONS'')]"

definition handleObservationOptions :: response where
  "handleObservationOptions = noContent [(''Allow'', ''GET, HEAD, OPTIONS'')]"

end
