(* ===== verification/DatastreamReads.thy ===== *)
theory DatastreamReads
  imports SweRows Collections
begin

text \<open>
  \<open>datastream_get.go\<close> and \<open>datastream_schema.go\<close>: the datastream collection, the datastreams of a
  system, one datastream and its schema. A collection is read in two steps, the IDs of a class and
  then a batch of their states.
\<close>

section \<open>Filters\<close>

record datastreamCollectionFilters =
  FObservedProperty :: string
  FDsPhenomenonTime :: string
  FDsResultTime :: string

definition datastreamCollectionFiltersFromQuery :: "request \<Rightarrow> datastreamCollectionFilters" where
  "datastreamCollectionFiltersFromQuery r =
     \<lparr>FObservedProperty = queryString r ''observedProperty'', FDsPhenomenonTime = queryString r ''phenomenonTime'',
      FDsResultTime = queryString r ''resultTime''\<rparr>"

definition noDatastreamFilters :: datastreamCollectionFilters where
  "noDatastreamFilters = \<lparr>FObservedProperty = [], FDsPhenomenonTime = [], FDsResultTime = []\<rparr>"

definition datastreamFiltersActive :: "datastreamCollectionFilters \<Rightarrow> bool" where
  "datastreamFiltersActive f \<longleftrightarrow> FObservedProperty f \<noteq> [] \<or> FDsPhenomenonTime f \<noteq> [] \<or> FDsResultTime f \<noteq> []"

definition propertyDefinitionsContain :: "('a \<Rightarrow> string) \<Rightarrow> 'a list \<Rightarrow> string \<Rightarrow> bool" where
  "propertyDefinitionsContain getDefinition properties expected \<longleftrightarrow>
     expected = [] \<or> list_ex (\<lambda>p. getDefinition p = expected) properties"

definition datastreamMatchesFilters :: "env \<Rightarrow> Datastream \<Rightarrow> datastreamCollectionFilters \<Rightarrow> bool" where
  "datastreamMatchesFilters X d f \<longleftrightarrow>
     \<not> (FObservedProperty f \<noteq> [] \<and> \<not> propertyDefinitionsContain ObsDefinition (DsObservedProps d) (FObservedProperty f)) \<and>
     \<not> (FDsPhenomenonTime f \<noteq> [] \<and> \<not> resourceTimeIntersects (Std X) (DsPhenomenonTime d) (FDsPhenomenonTime f)) \<and>
     \<not> (FDsResultTime f \<noteq> [] \<and> \<not> resourceTimeIntersects (Std X) (DsResultTime d) (FDsResultTime f))"

section \<open>Collections\<close>

definition datastreamRow :: "env \<Rightarrow> string \<Rightarrow> datastreamCollectionFilters \<Rightarrow> entity_state \<Rightarrow> Datastream option" where
  "datastreamRow X systemFilter f =
     rowOf isDatastreamKind datastreamFromState
       (\<lambda>d. \<not> (systemFilter \<noteq> [] \<and> DsSystemID d \<noteq> systemFilter) \<and> datastreamMatchesFilters X d f)"

definition datastreamCollectionJson :: "env \<Rightarrow> Datastream list \<Rightarrow> bool \<Rightarrow> json option" where
  "datastreamCollectionJson X items truncated =
     map_option (\<lambda>js. JObj ([(''type'', JStr ''DatastreamCollection''),
         (''numberMatched'', JNum (format_int (int (length items)))),
         (''numberReturned'', JNum (format_int (int (length items))))] @
        (if truncated then [(''truncated'', JBool True)] else []) @
        [(''items'', JArr js), (''links'', JArr [linkJson (json_link ''/datastreams'' ''self'' MediaJSON)])]))
       (those (map (datastreamJson X) items))"

definition writeDatastreamCollection ::
  "env \<Rightarrow> 's backend \<Rightarrow> request \<Rightarrow> string list \<Rightarrow> string \<Rightarrow> datastreamCollectionFilters \<Rightarrow> int \<Rightarrow> 's answer"
where
  "writeDatastreamCollection X B r ids systemFilter f limit =
     withBatch X B ids (\<lambda>states.
       encodeJSON r (datastreamCollectionJson X
         (collectRows (datastreamRow X systemFilter f) states limit ids) (int (length ids) = limit)))"

definition handleDatastreams :: "env \<Rightarrow> 's backend \<Rightarrow> request \<Rightarrow> 's answer" where
  "handleDatastreams X B r =
     negotiated X FamilyDatastreamCollection r (\<lambda>_.
     withLimit X r (\<lambda>limit.
       let f = datastreamCollectionFiltersFromQuery r;
           listLimit = (if datastreamFiltersActive f then MaxListLimit (Cfg X) else limit) in
     withListed X B DatastreamTypeIRI listLimit ''listDatastreamEntities'' (\<lambda>ids.
       writeDatastreamCollection X B r ids [] f limit)))"

definition handleSystemDatastreams :: "env \<Rightarrow> 's backend \<Rightarrow> request \<Rightarrow> 's answer" where
  "handleSystemDatastreams X B r =
     negotiated X FamilyDatastreamCollection r (\<lambda>_.
     withValidID X ''system'' (PathValue r ''id'') (
     withLimit X r (\<lambda>limit.
     withListed X B DatastreamTypeIRI limit ''listSystemDatastreamEntities'' (\<lambda>ids.
       writeDatastreamCollection X B r ids (PathValue r ''id'') noDatastreamFilters limit))))"

section \<open>One datastream\<close>

text \<open>The checks that the item and its schema share: a valid ID, an acceptable format, an entity that
  is a datastream.\<close>

definition openDatastream ::
  "env \<Rightarrow> 's backend \<Rightarrow> (MediaType option \<Rightarrow> bool) \<Rightarrow> request \<Rightarrow> 's gateway \<Rightarrow> (response + entity_state) \<times> 's gateway"
where
  "openDatastream X B acceptable r g =
     (let i = PathValue r ''id'' in
      case ValidateEntityID (Ids X) i of
        Some e \<Rightarrow> (Inl (writeJSONError [] 400 (''invalid datastream id: '' @ e)), g)
      | None \<Rightarrow>
          if \<not> acceptable (NegotiateRequest (Std X) r FamilyDatastreamItem)
          then (Inl (WriteNotAcceptable FamilyDatastreamItem), g)
          else (case fetchEntity X B i g of
                  (Inl e, g') \<Rightarrow> apfst Inl (writeBackendError X [] e g')
                | (Inr state, g') \<Rightarrow>
                    if isDatastreamKind (EntityTriples state) then (Inr state, g')
                    else (Inl (writeJSONError [] 404 (''no datastream: '' @ i)), g')))"

definition handleDatastream :: "env \<Rightarrow> 's backend \<Rightarrow> request \<Rightarrow> 's gateway \<Rightarrow> response \<times> 's gateway" where
  "handleDatastream X B r g =
     (case openDatastream X B (\<lambda>m. m \<noteq> None) r g of
        (Inl resp, g') \<Rightarrow> (resp, g')
      | (Inr state, g1) \<Rightarrow>
          (case readSchemaArtifact X B (EntityTriples state) PredDatastreamSchema g1 of
             (Inl e, g2) \<Rightarrow> writeBackendError X [] e g2
           | (Inr None, g2) \<Rightarrow> encodeJSON r (datastreamJson X (datastreamFromState state)) g2
           | (Inr (Some raw), g2) \<Rightarrow>
               (case normalizeSWESchema X raw of
                  Inl e \<Rightarrow> writeBackendError X [] (Wrap ''handleDatastream'' e) g2
                | Inr schema \<Rightarrow>
                    encodeJSON r (datastreamJson X ((datastreamFromState state)\<lparr>DsSchema := schema\<rparr>)) g2)))"

definition observationSchemaJson :: "env \<Rightarrow> json \<Rightarrow> json option" where
  "observationSchemaJson X canon =
     map_option (\<lambda>m. JObj [(''obsFormat'', JStr MediaJSON),
         (''resultSchema'', case m of None \<Rightarrow> JNull | Some kvs \<Rightarrow> marshalGo (JsonFloat X) (GMap kvs))])
       (decodeMap X canon)"

definition handleDatastreamSchema :: "env \<Rightarrow> 's backend \<Rightarrow> request \<Rightarrow> 's gateway \<Rightarrow> response \<times> 's gateway" where
  "handleDatastreamSchema X B r g =
     (let op = ''handleDatastreamSchema'' in
      case openDatastream X B (\<lambda>m. m = Some MediaJSON) r g of
        (Inl resp, g') \<Rightarrow> (resp, g')
      | (Inr state, g1) \<Rightarrow>
          (case readSchemaArtifact X B (EntityTriples state) PredDatastreamSchema g1 of
             (Inl e, g2) \<Rightarrow> writeBackendError X [] e g2
           | (Inr None, g2) \<Rightarrow> (writeJSONError [] 404 (''no datastream schema: '' @ PathValue r ''id''), g2)
           | (Inr (Some raw), g2) \<Rightarrow>
               (case ParseJson X raw of
                  None \<Rightarrow> writeBackendError X [] (Wrap op (Plain ''decode schema'')) g2
                | Some doc \<Rightarrow>
               (case UnmarshalSchema doc of
                  Inl e \<Rightarrow> writeBackendError X [] (Wrap op (Plain ''decode schema'')) g2
                | Inr schema \<Rightarrow>
               (case MarshalSchema (Some schema) of
                  Inl e \<Rightarrow> writeBackendError X [] (Wrap op (Plain ''encode schema'')) g2
                | Inr canon \<Rightarrow>
               (case observationSchemaJson X canon of
                  None \<Rightarrow> writeBackendError X [] (Wrap op (Plain ''decode canonical schema'')) g2
                | Some j \<Rightarrow> (okResponse r [contentTypeJSON] (JsonBody j), g2)))))))"

end
