(* ===== verification/Server.thy ===== *)
theory Server
  imports StaticEndpoints Properties Deployments Procedures SamplingFeatures SystemReads Spatial SystemWrites DatastreamWrites
    DatastreamReads SweRows
begin

text \<open>
  The gateway as a server: the route table and the middleware of \<open>handlers.go\<close>, the identity of
  \<open>identity.go\<close>, the health and the life cycle of \<open>component.go\<close>. \<open>net/http\<close>'s \<open>ServeMux\<close> is modelled as
  far as the program uses it: a pattern is a method and a path of literals and one-segment wildcards.
\<close>

section \<open>Health\<close>

definition Health :: "bool \<Rightarrow> bool \<Rightarrow> nat \<Rightarrow> bool \<times> string" where
  "Health running connected errs =
     (running \<and> connected \<and> errs = 0,
      if running then if connected then ''running'' else ''degraded'' else ''stopped'')"

definition handleHealth :: "bool \<Rightarrow> bool \<Rightarrow> request \<Rightarrow> 's answer" where
  "handleHealth running connected r g =
     (let (healthy, status) = Health running connected (Errs g) in
      (\<lparr>Status = (if healthy then 200 else 503), Headers = [contentTypeJSON],
        RespBody = JsonBody (JObj [(''status'', JStr status)])\<rparr>, g))"

section \<open>Routes\<close>

text \<open>A handler may panic; most do not, and the OPTIONS handlers do not touch the state at all.\<close>

type_synonym 's handler = "request \<Rightarrow> 's gateway \<Rightarrow> response option \<times> 's gateway"

definition answering :: "(request \<Rightarrow> 's answer) \<Rightarrow> 's handler" where
  "answering h r g = apfst Some (h r g)"

definition fixed :: "(request \<Rightarrow> response) \<Rightarrow> 's handler" where
  "fixed h r g = (Some (h r), g)"

text \<open>A method, the segments of a path (none: the root, \<open>/{$}\<close>), a handler. Every GET is also registered
  as a HEAD.\<close>

type_synonym 's route = "string \<times> string list \<times> 's handler"

definition getRoute :: "string list \<Rightarrow> 's handler \<Rightarrow> 's route list" where
  "getRoute pattern h = [(''GET'', pattern, h), (''HEAD'', pattern, h)]"

definition readRoutes :: "env \<Rightarrow> apiDocuments \<Rightarrow> bool \<Rightarrow> bool \<Rightarrow> peer \<Rightarrow> 's backend \<Rightarrow> 's route list" where
  "readRoutes X docs running connected p B =
     getRoute [] (answering (handleLanding X p)) @
     getRoute [''systems''] (answering (handleSystems X B)) @
     getRoute [''systems'', ''{id}''] (answering (handleSystem X B)) @
     getRoute [''systems'', ''{id}'', ''subsystems''] (answering (handleSystemSubsystems X B)) @
     getRoute [''systems'', ''{id}'', ''subsystems'', ''{subsystemID}''] (answering (handleSystemSubsystem X B)) @
     getRoute [''collections''] (answering (handleCollections X p)) @
     getRoute [''collections'', ''{id}'', ''items''] (answering (handleCollectionItems X B)) @
     getRoute [''conformance''] (answering (handleConformance X)) @
     getRoute [''health''] (answering (handleHealth running connected)) @
     getRoute [''datastreams''] (answering (handleDatastreams X B)) @
     getRoute [''datastreams'', ''{id}''] (answering (handleDatastream X B)) @
     getRoute [''datastreams'', ''{id}'', ''schema''] (answering (handleDatastreamSchema X B)) @
     getRoute [''datastreams'', ''{datastreamID}'', ''observations''] ((\<lambda>r. handleObservationsGet X B r)) @
     getRoute [''observations''] ((\<lambda>r. handleGlobalObservations X B r)) @
     getRoute [''observations'', ''{obsID}''] ((\<lambda>r. handleObservationGet X B r)) @
     getRoute [''systems'', ''{id}'', ''datastreams''] (answering (handleSystemDatastreams X B)) @
     getRoute [''api''] (answering (handleAPI X docs)) @
     getRoute [''areas''] (answering (handleAreas X B)) @
     getRoute [''procedures''] (answering (handleProcedures X B)) @
     getRoute [''procedures'', ''{id}''] (answering (handleProcedure X B)) @
     getRoute [''deployments''] (answering (handleDeployments X B)) @
     getRoute [''deployments'', ''{id}''] (answering (handleDeployment X B)) @
     getRoute [''deployments'', ''{id}'', ''subdeployments''] (answering (handleDeploymentSubdeployments X B)) @
     getRoute [''samplingFeatures''] (answering (handleSamplingFeatures X B)) @
     getRoute [''samplingFeatures'', ''{id}''] (answering (handleSamplingFeature X B)) @
     getRoute [''properties''] (answering (handleProperties X B)) @
     getRoute [''properties'', ''{id}''] (answering (handleProperty X B)) @
     getRoute [''controlstreams''] (answering (handleControlStreams X B)) @
     getRoute [''controlstreams'', ''{id}''] (answering (handleControlStream X B)) @
     getRoute [''controls'', ''{id}''] (answering (handleControlStream X B)) @
     getRoute [''controlstreams'', ''{id}'', ''schema''] (answering (handleControlStreamSchema X B)) @
     getRoute [''controlstreams'', ''{id}'', ''commands''] (answering (handleControlStreamCommands X B)) @
     getRoute [''commands''] (answering (handleCommands X B)) @
     getRoute [''commands'', ''{id}''] (answering (handleCommand X B)) @
     getRoute [''feasibility''] (answering (handleFeasibilities X B)) @
     getRoute [''feasibility'', ''{id}''] (answering (handleFeasibility X B)) @
     getRoute [''feasibility'', ''{id}'', ''status''] (answering (handleFeasibilityStatus X B)) @
     getRoute [''feasibility'', ''{id}'', ''result''] (answering (handleFeasibilityResult X B)) @
     getRoute [''controlstream'', ''{id}'', ''feasibility''] (answering (handleControlStreamFeasibility X B)) @
     getRoute [''systems'', ''{id}'', ''controlstreams''] (answering (handleSystemControlStreams X B)) @
     getRoute [''systems'', ''{id}'', ''history''] (answering (handleSystemHistory X B)) @
     getRoute [''systems'', ''{id}'', ''history'', ''{revID}''] (answering (handleSystemHistoryItem X B)) @
     getRoute [''systemEvents''] (answering (handleSystemEvents X B)) @
     getRoute [''systemEvents'', ''{id}''] (answering (handleSystemEvent X B)) @
     getRoute [''systems'', ''{id}'', ''events''] (answering (handleSystemScopedEvents X B)) @
     getRoute [''systems'', ''{id}'', ''events'', ''{eventID}''] (answering (handleSystemScopedEvent X B))"

definition optionsRoutes :: "env \<Rightarrow> 's route list" where
  "optionsRoutes X =
     [(''OPTIONS'', [''systems''], fixed (\<lambda>r. handleSystemsOptions)),
      (''OPTIONS'', [''systems'', ''{id}''], fixed (\<lambda>r. handleSystemOptions X r)),
      (''OPTIONS'', [''datastreams''], fixed (\<lambda>r. handleDatastreamsOptions)),
      (''OPTIONS'', [''datastreams'', ''{id}''], fixed (\<lambda>r. handleDatastreamOptions X r)),
      (''OPTIONS'', [''observations''], fixed (\<lambda>r. handleGlobalObservationsOptions)),
      (''OPTIONS'', [''observations'', ''{obsID}''], fixed (\<lambda>r. handleObservationOptions)),
      (''OPTIONS'', [''procedures''], fixed (\<lambda>r. handleProceduresOptions)),
      (''OPTIONS'', [''procedures'', ''{id}''], fixed (\<lambda>r. handleProcedureOptions X r)),
      (''OPTIONS'', [''deployments''], fixed (\<lambda>r. handleDeploymentsOptions)),
      (''OPTIONS'', [''deployments'', ''{id}''], fixed (\<lambda>r. handleDeploymentOptions X r)),
      (''OPTIONS'', [''samplingFeatures''], fixed (\<lambda>r. handleSamplingFeaturesOptions)),
      (''OPTIONS'', [''samplingFeatures'', ''{id}''], fixed (\<lambda>r. handleSamplingFeatureOptions X r)),
      (''OPTIONS'', [''properties''], fixed (\<lambda>r. handlePropertiesOptions)),
      (''OPTIONS'', [''properties'', ''{id}''], fixed (\<lambda>r. handlePropertyOptions X r)),
      (''OPTIONS'', [''controlstreams''], fixed (\<lambda>r. handleControlStreamsOptions)),
      (''OPTIONS'', [''controlstreams'', ''{id}''], fixed (\<lambda>r. handleControlStreamOptions)),
      (''OPTIONS'', [''commands''], fixed (\<lambda>r. handleCommandsOptions)),
      (''OPTIONS'', [''feasibility''], fixed (\<lambda>r. handleFeasibilitiesOptions)),
      (''OPTIONS'', [''feasibility'', ''{id}''], fixed (\<lambda>r. handleFeasibilityOptions)),
      (''OPTIONS'', [''systems'', ''{id}'', ''history''], fixed (\<lambda>r. handleSystemHistoryOptions)),
      (''OPTIONS'', [''systems'', ''{id}'', ''history'', ''{revID}''], fixed (\<lambda>r. handleSystemHistoryOptions)),
      (''OPTIONS'', [''systemEvents''], fixed (\<lambda>r. handleSystemEventsOptions)),
      (''OPTIONS'', [''systemEvents'', ''{id}''], fixed (\<lambda>r. handleSystemEventOptions)),
      (''OPTIONS'', [''systems'', ''{id}'', ''events''], fixed (\<lambda>r. handleSystemEventsOptions)),
      (''OPTIONS'', [''systems'', ''{id}'', ''events'', ''{eventID}''], fixed (\<lambda>r. handleSystemEventOptions))]"

definition writeRoutes :: "env \<Rightarrow> 's backend \<Rightarrow> context_state \<Rightarrow> Identity \<Rightarrow> 's route list" where
  "writeRoutes X B ctx identity =
     [(''POST'', [''systems''], answering (handleSystemPost X B ctx identity)),
      (''PUT'', [''systems'', ''{id}''], answering (handleSystemPut X B ctx identity)),
      (''DELETE'', [''systems'', ''{id}''], answering (handleSystemDelete X B ctx identity)),
      (''PATCH'', [''systems'', ''{id}''], answering (handleSystemPatch X B ctx identity)),
      (''POST'', [''datastreams''], answering (handleDatastreamPost X B ctx identity)),
      (''PUT'', [''datastreams'', ''{id}''], answering (handleDatastreamPut X B ctx identity)),
      (''DELETE'', [''datastreams'', ''{id}''], answering (handleDatastreamDelete X B ctx identity)),
      (''PATCH'', [''datastreams'', ''{id}''], answering (handleDatastreamPatch X B ctx identity)),
      (''POST'', [''datastreams'', ''{datastreamID}'', ''observations''], answering (handleObservationsPost X B ctx identity)),
      (''POST'', [''procedures''], answering (handleProcedurePost X B ctx identity)),
      (''POST'', [''deployments''], answering (handleDeploymentPost X B ctx identity)),
      (''POST'', [''samplingFeatures''], answering (handleSamplingFeaturePost X B ctx identity)),
      (''POST'', [''properties''], answering (handlePropertyPost X B ctx identity)),
      (''POST'', [''controlstreams''], answering (handleControlStreamPost X B ctx identity)),
      (''POST'', [''commands''], answering (handleCommandPost X B ctx identity)),
      (''POST'', [''feasibility''], answering (handleFeasibilityPost X B ctx identity)),
      (''POST'', [''systemEvents''], answering (handleSystemEventPost X B ctx identity)),
      (''POST'', [''systems'', ''{id}'', ''events''], answering (handleSystemScopedEventPost X B ctx identity))]"

text \<open>\<open>RegisterHTTPHandlers\<close>. The patterns are disjoint, so their order does not matter.\<close>

definition RegisterHTTPHandlers ::
  "env \<Rightarrow> apiDocuments \<Rightarrow> bool \<Rightarrow> bool \<Rightarrow> peer \<Rightarrow> 's backend \<Rightarrow> context_state \<Rightarrow> Identity \<Rightarrow> 's route list"
where
  "RegisterHTTPHandlers X docs running connected p B ctx identity =
     readRoutes X docs running connected p B @ writeRoutes X B ctx identity @ optionsRoutes X"

section \<open>Matching\<close>

definition wildcard :: "string \<Rightarrow> bool" where
  "wildcard seg \<longleftrightarrow> take 1 seg = ''{''"

text \<open>The values of a pattern's wildcards on a path; a wildcard takes one segment that is not empty.\<close>

fun matchPath :: "string list \<Rightarrow> string list \<Rightarrow> (string \<times> string) list option" where
  "matchPath [] [] = Some []"
| "matchPath (p # ps) (s # ss) =
     (if wildcard p then if s = [] then None else map_option (Cons (butlast (tl p), s)) (matchPath ps ss)
      else if p = s then matchPath ps ss else None)"
| "matchPath _ _ = None"

definition bindPath :: "(string \<times> string) list \<Rightarrow> request \<Rightarrow> request" where
  "bindPath vs r = r\<lparr>PathValue := (\<lambda>k. or_empty (map_of vs k))\<rparr>"

fun findRoute :: "'s route list \<Rightarrow> string \<Rightarrow> string list \<Rightarrow> ((string \<times> string) list \<times> 's handler) option" where
  "findRoute [] m path = None"
| "findRoute ((m', pattern, h) # rs) m path =
     (case if m' = m then matchPath pattern path else None of
        Some vs \<Rightarrow> Some (vs, h)
      | None \<Rightarrow> findRoute rs m path)"

text \<open>What \<open>ServeMux\<close> answers itself: 405 with the methods it knows for the path, in the order of
  \<open>sort.Strings\<close>, when there are any, else 404.\<close>

definition allowedMethods :: "'s route list \<Rightarrow> string list \<Rightarrow> string list" where
  "allowedMethods rs path =
     sort (remdups (map fst (filter (\<lambda>(m, pattern, h). matchPath pattern path \<noteq> None) rs)))"

definition plainError :: "(string \<times> string) list \<Rightarrow> nat \<Rightarrow> string \<Rightarrow> response" where
  "plainError hs status msg =
     \<lparr>Status = status,
      Headers = hs @ [(''Content-Type'', ''text/plain; charset=utf-8''), (''X-Content-Type-Options'', ''nosniff'')],
      RespBody = TextBody (msg @ [CHR 0x0A])\<rparr>"

definition muxRefusal :: "'s route list \<Rightarrow> string list \<Rightarrow> response" where
  "muxRefusal rs path =
     (let methods = allowedMethods rs path in
      if methods \<noteq> [] then plainError [(''Allow'', go_join '', '' methods)] 405 ''Method Not Allowed''
      else plainError [] 404 ''404 page not found'')"

section \<open>Middleware\<close>

definition Anonymous :: Identity where
  "Anonymous = \<lparr>IdSubject = [], Forwarded = Map.empty, Verified = False\<rparr>"

definition IdentityMiddleware :: "request \<Rightarrow> Identity" where
  "IdentityMiddleware r =
     (let u = header_get r ''X-Forwarded-User''; e = header_get r ''X-Forwarded-Email'';
          f = Forwarded Anonymous; f' = (if u = [] then f else f(''User'' \<mapsto> u))
      in Anonymous\<lparr>Forwarded := if e = [] then f' else f'(''Email'' \<mapsto> e)\<rparr>)"

text \<open>\<open>http.MaxBytesReader\<close>: reading a body beyond the limit is an error that carries the limit.\<close>

definition bodyLimitMiddleware :: "env \<Rightarrow> request \<Rightarrow> request" where
  "bodyLimitMiddleware X r =
     (case Body r of
        BodyOk s \<Rightarrow>
          if MaxRequestBytes (Cfg X) < int (length s) then r\<lparr>Body := BodyTooLarge (MaxRequestBytes (Cfg X))\<rparr> else r
      | _ \<Rightarrow> r)"

record 's server =
  Gateway :: "'s gateway"
  Requests :: nat
  Initialized :: bool
  Running :: bool
  Connected :: bool

text \<open>The chain around a handler: recover, identity, body limit, request count.\<close>

definition countingMiddleware :: "'s server \<Rightarrow> 's server" where
  "countingMiddleware s = s\<lparr>Requests := Suc (Requests s)\<rparr>"

definition middleware :: "env \<Rightarrow> 's handler \<Rightarrow> request \<Rightarrow> 's server \<Rightarrow> response \<times> 's server" where
  "middleware X h r s =
     (let s1 = countingMiddleware s;
          (resp, g) = recoverMiddleware (h (bodyLimitMiddleware X r) (Gateway s1))
      in (resp, s1\<lparr>Gateway := g\<rparr>))"

text \<open>A request on a path that the server's mux receives.\<close>

definition serveHTTP ::
  "env \<Rightarrow> apiDocuments \<Rightarrow> 's backend \<Rightarrow> peer \<Rightarrow> context_state \<Rightarrow> string list \<Rightarrow> request \<Rightarrow> 's server \<Rightarrow> response \<times> 's server"
where
  "serveHTTP X docs B p ctx path r s =
     (let routes = RegisterHTTPHandlers X docs (Running s) (Connected s) p B ctx (IdentityMiddleware r) in
      case findRoute routes (Method r) path of
        None \<Rightarrow> (muxRefusal routes path, s)
      | Some (vs, h) \<Rightarrow> middleware X h (bindPath vs r) s)"

section \<open>Life cycle\<close>

datatype lifecycle_error =
    NatsRequired
  | InvalidConfig config_error
  | NotInitialized
  | ContextCancelled
  | StartFailed string

text \<open>\<open>New\<close>: defaults, then validation. A server that is not there yet has no handles.\<close>

definition newServer :: "entity_ids \<Rightarrow> Config \<Rightarrow> bool \<Rightarrow> 's \<Rightarrow> string list \<Rightarrow> lifecycle_error + Config \<times> 's server" where
  "newServer E c nats w fresh =
     (if \<not> nats then Inl NatsRequired
      else let cfg = ApplyDefaults c in
        case validateConfig E cfg of
          Some e \<Rightarrow> Inl (InvalidConfig e)
        | None \<Rightarrow> Inr (cfg, \<lparr>Gateway = \<lparr>World = w, Audit = [], Errs = 0, FreshIDs = fresh, StoreReady = False,
             CleanerReady = False, PublisherReady = False, ReaderReady = False\<rparr>,
             Requests = 0, Initialized = False, Running = False, Connected = True\<rparr>))"

definition Initialize :: "env \<Rightarrow> 's server \<Rightarrow> lifecycle_error option \<times> 's server" where
  "Initialize X s =
     (if Initialized s then (None, s)
      else case validateConfig (Ids X) (Cfg X) of
        Some e \<Rightarrow> (Some (InvalidConfig e), s)
      | None \<Rightarrow> (None, s\<lparr>Initialized := True\<rparr>))"

text \<open>How the calls that \<open>Start\<close> makes end: the stream, the JetStream handle, the object store, the
  contracts, the listener.\<close>

record start_results =
  StreamError :: "string option"
  JetStreamError :: "string option"
  StoreError :: "string option"
  ContractsError :: "string option"
  ListenError :: "string option"

definition storeHandles :: "'s server \<Rightarrow> 's server" where
  "storeHandles s =
     s\<lparr>Gateway := (Gateway s)\<lparr>StoreReady := True, CleanerReady := True, PublisherReady := True, ReaderReady := True\<rparr>\<rparr>"

definition Start :: "env \<Rightarrow> context_state \<Rightarrow> start_results \<Rightarrow> 's server \<Rightarrow> lifecycle_error option \<times> 's server" where
  "Start X ctx res s =
     (if Cancelled ctx \<noteq> None then (Some ContextCancelled, s)
      else if \<not> Initialized s then (Some NotInitialized, s)
      else if Running s then (None, s)
      else case StreamError res of Some e \<Rightarrow> (Some (StartFailed e), s)
      | None \<Rightarrow>
      (case JetStreamError res of Some e \<Rightarrow> (Some (StartFailed e), s)
      | None \<Rightarrow>
      (case StoreError res of Some e \<Rightarrow> (Some (StartFailed e), s)
      | None \<Rightarrow>
          let s' = storeHandles s in
          case ContractsError res of Some e \<Rightarrow> (Some (StartFailed e), s')
          | None \<Rightarrow>
              if StandaloneServer (Cfg X) \<and> ListenError res \<noteq> None then (Some (StartFailed (the (ListenError res))), s')
              else (None, s'\<lparr>Running := True\<rparr>))))"

text \<open>\<open>Stop\<close>: the server is marked as stopped before the listener is shut down, which may fail.\<close>

definition Stop :: "string option \<Rightarrow> 's server \<Rightarrow> lifecycle_error option \<times> 's server" where
  "Stop shutdown s =
     (if \<not> Running s then (None, s) else (map_option StartFailed shutdown, s\<lparr>Running := False\<rparr>))"

end
