(* ===== verification/SafeMethods.thy ===== *)
theory SafeMethods
  imports Server GraphModel
begin

text \<open>
  GET, HEAD and OPTIONS are safe: whatever the request, the graph is afterwards what it was. The
  argument is compositional: \<open>keeps\<close> says that a computation leaves the graph alone, the collection
  \<open>keeps\<close> has one rule for every piece the handlers are built from.
\<close>

named_theorems keeps

text \<open>The documented behaviour of the framework: its queries and the reads of the object store and of the
  observation stream change no entity.\<close>

fun is_query :: "graph_request \<Rightarrow> bool" where
  "is_query (EntityQuery i) = True"
| "is_query (BatchQuery ids) = True"
| "is_query (PredicateQuery p v n) = True"
| "is_query (SpatialBoundsQuery n s e w limit) = True"
| "is_query (SpatialPolygonQuery j limit) = True"
| "is_query _ = False"

definition read_only :: "'s backend \<Rightarrow> ('s \<Rightarrow> contents) \<Rightarrow> bool" where
  "read_only B ents \<longleftrightarrow>
     (\<forall>q w. is_query q \<longrightarrow> ents (snd (Request B q w)) = ents w) \<and>
     (\<forall>n w. ents (snd (GetBytes B n w)) = ents w) \<and>
     (\<forall>flt start n w. ents (snd (Deliver B flt start n w)) = ents w)"

definition keeps :: "('s \<Rightarrow> contents) \<Rightarrow> ('s gateway \<Rightarrow> 'a \<times> 's gateway) \<Rightarrow> bool" where
  "keeps ents k \<longleftrightarrow> (\<forall>g. ents (World (snd (k g))) = ents (World g))"

lemma keepsI: "(\<And>g. ents (World (snd (k g))) = ents (World g)) \<Longrightarrow> keeps ents k"
  by (simp add: keeps_def)

lemma keepsD: "keeps ents k \<Longrightarrow> k g = (x, g') \<Longrightarrow> ents (World g') = ents (World g)"
  unfolding keeps_def by (metis snd_conv)

lemma read_onlyD:
  assumes "read_only B ents"
  shows "is_query q \<Longrightarrow> Request B q w = (x, w') \<Longrightarrow> ents w' = ents w"
    and "GetBytes B n w = (y, w') \<Longrightarrow> ents w' = ents w"
    and "Deliver B flt start l w = (z, w') \<Longrightarrow> ents w' = ents w"
  using assms unfolding read_only_def by (metis snd_conv)+

lemmas query_keeps =
  read_onlyD(1) [where q = "EntityQuery i" for i, simplified]
  read_onlyD(1) [where q = "BatchQuery ids" for ids, simplified]
  read_onlyD(1) [where q = "PredicateQuery p v n" for p v n, simplified]

section \<open>Pieces\<close>

lemma keeps_pair [keeps]: "keeps ents (\<lambda>g. (x, g))"
  by (simp add: keeps_def)

lemma keeps_refuse [keeps]: "keeps ents (Pair x)"
  by (simp add: keeps_def)

lemma keeps_error [keeps]: "keeps ents (writeBackendError X hs e)"
  by (simp add: keeps_def)

lemma keeps_encodeBody [keeps]: "keeps ents (encodeBody r hs c body)"
  by (simp add: keeps_def)

lemma keeps_encodeJSON [keeps]: "keeps ents (encodeJSON r body)"
  by (simp add: keeps_def encodeJSON_def)

lemma keeps_document [keeps]: "keeps ents (writeDocument X r hs doc)"
  by (auto simp: keeps_def writeDocument_def split: sum.split)

lemma keeps_if [keeps]: "(b \<Longrightarrow> keeps ents k) \<Longrightarrow> (\<not> b \<Longrightarrow> keeps ents k') \<Longrightarrow> keeps ents (if b then k else k')"
  by simp

lemma keeps_sum [keeps]:
  "(\<And>e. v = Inl e \<Longrightarrow> keeps ents (f e)) \<Longrightarrow> (\<And>x. v = Inr x \<Longrightarrow> keeps ents (k x)) \<Longrightarrow> keeps ents (case v of Inl e \<Rightarrow> f e | Inr x \<Rightarrow> k x)"
  by (cases v) simp_all

lemma keeps_option [keeps]:
  "(v = None \<Longrightarrow> keeps ents f) \<Longrightarrow> (\<And>x. v = Some x \<Longrightarrow> keeps ents (k x)) \<Longrightarrow> keeps ents (case v of None \<Rightarrow> f | Some x \<Rightarrow> k x)"
  by (cases v) simp_all

lemma keeps_negotiated [keeps]: "(\<And>media. keeps ents (k media)) \<Longrightarrow> keeps ents (negotiated X fam r k)"
  by (auto simp: keeps_def negotiated_def split: option.split)

lemma keeps_withValidID [keeps]: "keeps ents k \<Longrightarrow> keeps ents (withValidID X what i k)"
  by (auto simp: keeps_def withValidID_def split: option.split)

lemma keeps_withLimit [keeps]: "(\<And>n. keeps ents (k n)) \<Longrightarrow> keeps ents (withLimit X r k)"
  by (auto simp: keeps_def withLimit_def split: sum.split)

lemma keeps_fetchEntityExact [keeps]: "read_only B ents \<Longrightarrow> keeps ents (fetchEntityExact X B i)"
  by (rule keepsI)
    (auto simp: fetchEntityExact_def Let_def split: prod.splits option.splits nats_result.splits reply_data.splits entity_payload.splits
      dest: query_keeps)

lemma keeps_fetchEntity [keeps]: "read_only B ents \<Longrightarrow> keeps ents (fetchEntity X B i)"
  by (rule keepsI)
    (auto simp: fetchEntity_def split: prod.splits sum.splits option.splits dest: keepsD [OF keeps_fetchEntityExact])

lemma keeps_listEntitiesByType [keeps]: "read_only B ents \<Longrightarrow> keeps ents (listEntitiesByType X B iri n op)"
  by (rule keepsI)
    (auto simp: listEntitiesByType_def Let_def split: prod.splits nats_result.splits reply_data.splits dest: query_keeps)

lemma keeps_withEntity [keeps]:
  assumes "read_only B ents" "\<And>state. keeps ents (k state)"
  shows "keeps ents (withEntity X B kind missing i k)"
proof (rule keepsI)
  fix g :: "'a gateway"
  obtain res g1 where f: "fetchEntity X B i g = (res, g1)" by fastforce
  from keepsD [OF keeps_fetchEntity [OF assms(1)] f] assms(2)
  show "ents (World (snd (withEntity X B kind missing i k g))) = ents (World g)"
    by (auto simp: withEntity_def f keeps_def split: sum.split)
qed

lemma keeps_withListed [keeps]:
  assumes "read_only B ents" "\<And>ids. keeps ents (k ids)"
  shows "keeps ents (withListed X B iri n op k)"
proof (rule keepsI)
  fix g :: "'a gateway"
  obtain res g1 where f: "listEntitiesByType X B iri n op g = (res, g1)" by fastforce
  from keepsD [OF keeps_listEntitiesByType [OF assms(1)] f] assms(2)
  show "ents (World (snd (withListed X B iri n op k g))) = ents (World g)"
    by (auto simp: withListed_def f keeps_def split: sum.split)
qed

lemma keeps_fetchChunk: "read_only B ents \<Longrightarrow> keeps ents (fetchChunk X B ids found)"
  by (rule keepsI)
    (auto simp: fetchChunk_def Let_def split: prod.splits nats_result.splits reply_data.splits sum.splits option.splits dest: query_keeps)

lemma fetchChunks_keeps: "read_only B ents \<Longrightarrow> ents (World (snd (fetchChunks X B ids found g))) = ents (World g)"
proof (induction X B ids found g rule: fetchChunks.induct)
  case (1 X B ids found g)
  show ?case
  proof (cases "ids = []")
    case False
    obtain res g1 where c: "fetchChunk X B (take entityBatchChunkSize ids) found g = (res, g1)" by fastforce
    from keepsD [OF keeps_fetchChunk [OF 1(2)] c] 1(1) [OF False c [symmetric]] 1(2) show ?thesis
      by (subst fetchChunks.simps) (auto simp: False c split: sum.split)
  qed (simp add: fetchChunks.simps)
qed

lemma keeps_fetchEntitiesBatch [keeps]: "read_only B ents \<Longrightarrow> keeps ents (fetchEntitiesBatch X B ids)"
  by (rule keepsI)
    (simp add: fetchEntitiesBatch_def fetchChunks_keeps split: option.split)

lemma keeps_withBatch [keeps]:
  assumes "read_only B ents" "\<And>states. keeps ents (k states)"
  shows "keeps ents (withBatch X B ids k)"
proof (rule keepsI)
  fix g :: "'a gateway"
  obtain res g1 where f: "fetchEntitiesBatch X B ids g = (res, g1)" by fastforce
  from keepsD [OF keeps_fetchEntitiesBatch [OF assms(1)] f] assms(2)
  show "ents (World (snd (withBatch X B ids k g))) = ents (World g)"
    by (auto simp: withBatch_def f keeps_def split: sum.split)
qed

lemma keeps_spatial [keeps]:
  assumes "read_only B ents" "is_query q" "\<And>results. keeps ents (k results)"
  shows "keeps ents (runSpatialQuery X B q k)"
proof (rule keepsI)
  fix g :: "'a gateway"
  obtain reply w where q: "Request B q (World g) = (reply, w)" by fastforce
  from read_onlyD(1) [OF assms(1,2) q] assms(3)
  show "ents (World (snd (runSpatialQuery X B q k g))) = ents (World g)"
    by (simp add: runSpatialQuery_def Let_def q keeps_def split: nats_result.split option.split)
qed

lemma keeps_readSchemaArtifact [keeps]:
  assumes "read_only B ents"
  shows "keeps ents (readSchemaArtifact X B ts p)"
  by (rule keepsI)
    (auto simp: readSchemaArtifact_def Let_def split: prod.splits sum.splits option.splits store_result.splits
      dest!: read_onlyD(2) [OF assms] keepsD [OF keeps_fetchEntity [OF assms]])

text \<open>A read of the stream is a query of its own; a handler that may panic keeps the graph all the same.\<close>

lemma keeps_reader:
  assumes "read_only B ents"
  shows "keeps ents (fetchObservationMessagesWithReader X B subject limit startSeq)"
  by (rule keepsI)
    (auto simp: fetchObservationMessagesWithReader_def FetchSubject_def Let_def
      split: prod.splits sum.splits if_splits dest!: read_onlyD(3) [OF assms])

lemma keeps_messages [keeps]:
  assumes "read_only B ents"
  shows "keeps ents (fetchObservationMessages X B subject limit startSeq)"
  by (rule keepsI)
    (auto simp: fetchObservationMessages_def split: if_splits intro: keeps_reader [OF assms, unfolded keeps_def, rule_format])

lemma keeps_observations [keeps]:
  assumes "read_only B ents"
  shows "keeps ents (fetchObservations X B ds limit startSeq)"
  by (rule keepsI)
    (auto simp: fetchObservations_def split: prod.splits sum.splits dest!: keepsD [OF keeps_messages [OF assms]] keepsD [OF keeps_reader [OF assms]])

lemma keeps_observationSchema [keeps]:
  assumes "read_only B ents"
  shows "keeps ents (fetchDatastreamObservationSchema X B ds)"
  by (rule keepsI)
    (auto simp: fetchDatastreamObservationSchema_def Let_def split: prod.splits sum.splits option.splits if_splits
      dest!: keepsD [OF keeps_fetchEntity [OF assms]] keepsD [OF keeps_readSchemaArtifact [OF assms]])

lemma keeps_rows [keeps]:
  assumes "read_only B ents"
  shows "keeps ents (sweRowsForDatastream X B ds items)"
  by (rule keepsI)
    (auto simp: sweRowsForDatastream_def Let_def split: prod.splits sum.splits option.splits if_splits
      dest!: keepsD [OF keeps_observationSchema [OF assms]])

lemma keeps_swe [keeps]:
  assumes "read_only B ents"
  shows "keeps ents (writeObservationsSWEJSON X B r ds items)" "keeps ents (writeObservationsSWECsv X B r ds items)"
    "keeps ents (writeObservationsSWEBinary X B r ds items)"
  by (rule keepsI,
      force simp: writeObservationsSWEJSON_def writeObservationsSWECsv_def writeObservationsSWEBinary_def writeSWE_def Let_def
        split: prod.splits sum.splits option.splits if_splits dest!: keepsD [OF keeps_rows [OF assms]])+

lemma apfst_pair: "snd (apfst f p) = snd p"
  by (cases p) simp

lemma keeps_some: "keeps ents (h r) \<Longrightarrow> keeps ents (answering h r)"
  by (simp add: keeps_def answering_def apfst_pair)

lemma keeps_fixed: "keeps ents (fixed h r)"
  by (simp add: keeps_def fixed_def)

section \<open>Handlers\<close>

lemma keeps_jsonld [keeps]: "keeps ents (writeSystemJSONLD X r state)"
  by (rule keepsI) (simp add: writeSystemJSONLD_def split: option.split)

lemmas read_handlers =
  handleSystems_def handleSystem_def handleSystemSubsystems_def handleSystemSubsystem_def
  handleDatastreams_def handleSystemDatastreams_def handleAreas_def handleProcedures_def
  handleProcedure_def handleDeployments_def handleDeployment_def handleDeploymentSubdeployments_def
  handleSamplingFeatures_def handleSamplingFeature_def handleProperties_def handleProperty_def
  handleControlStreams_def handleControlStream_def handleControlStreamCommands_def handleCommands_def
  handleCommand_def handleFeasibilities_def handleFeasibility_def handleFeasibilityStatus_def
  handleFeasibilityResult_def handleControlStreamFeasibility_def handleSystemControlStreams_def handleSystemHistory_def
  handleSystemHistoryItem_def handleSystemEvents_def handleSystemEvent_def handleSystemScopedEvents_def
  handleSystemScopedEvent_def

lemmas read_helpers =
  writeSystems_def listSystemEntities_def filterSystemEntities_def writeSystemItem_def
  writeSystemJSONWithLinks_def writeSystemJSON_def writeSystemSensorML_def fetchSystemForHistory_def
  writeDatastreamCollection_def querySpatialBounds_def querySpatialPolygon_def writeAreas_def
  writeProceduresGeoJSON_def writeDeploymentsGeoJSON_def writeSamplingFeaturesGeoJSON_def writeControlStreamCollection_def
  writeCommandCollection_def writeFeasibilityCollection_def fetchFeasibilityForSubresource_def writeSystemEventCollection_def
  writeSystemEventItem_def

lemma keeps_writers [keeps]: "keeps ents (writeAreas X r media results)" "keeps ents (writeSystemJSON X r state)"
  by (simp_all add: keeps_def writeAreas_def writeSystemJSON_def writeSystemJSONWithLinks_def Let_def)

text \<open>Every handler is taken apart into its pieces and put together again by their rules.\<close>

lemma keeps_systems [keeps]:
  assumes "read_only B ents"
  shows "keeps ents (handleSystems X B r)" "keeps ents (handleSystem X B r)"
    "keeps ents (handleSystemSubsystems X B r)" "keeps ents (handleSystemSubsystem X B r)"
    "keeps ents (handleSystemHistory X B r)" "keeps ents (handleSystemHistoryItem X B r)"
  by (simp only: read_handlers read_helpers Let_def, intro keeps assms; simp add: keeps_def)+

lemma keeps_events [keeps]:
  assumes "read_only B ents"
  shows "keeps ents (handleSystemEvents X B r)" "keeps ents (handleSystemEvent X B r)"
    "keeps ents (handleSystemScopedEvents X B r)" "keeps ents (handleSystemScopedEvent X B r)"
  by (simp only: read_handlers read_helpers Let_def, intro keeps assms; simp add: keeps_def)+

lemma keeps_streams [keeps]:
  assumes "read_only B ents"
  shows "keeps ents (handleDatastreams X B r)" "keeps ents (handleSystemDatastreams X B r)"
    "keeps ents (handleControlStreams X B r)" "keeps ents (handleControlStream X B r)"
    "keeps ents (handleControlStreamCommands X B r)" "keeps ents (handleCommands X B r)"
    "keeps ents (handleCommand X B r)" "keeps ents (handleFeasibilities X B r)"
    "keeps ents (handleFeasibility X B r)" "keeps ents (handleFeasibilityStatus X B r)"
    "keeps ents (handleFeasibilityResult X B r)" "keeps ents (handleControlStreamFeasibility X B r)"
    "keeps ents (handleSystemControlStreams X B r)"
  by (simp only: read_handlers read_helpers Let_def, intro keeps assms; simp add: keeps_def)+

lemma keeps_features [keeps]:
  assumes "read_only B ents"
  shows "keeps ents (handleAreas X B r)" "keeps ents (handleProcedures X B r)"
    "keeps ents (handleProcedure X B r)" "keeps ents (handleDeployments X B r)"
    "keeps ents (handleDeployment X B r)" "keeps ents (handleDeploymentSubdeployments X B r)"
    "keeps ents (handleSamplingFeatures X B r)" "keeps ents (handleSamplingFeature X B r)"
    "keeps ents (handleProperties X B r)" "keeps ents (handleProperty X B r)"
  by (simp only: read_handlers read_helpers Let_def, intro keeps assms; simp add: keeps_def)+

lemma keeps_openDatastream:
  assumes "read_only B ents"
  shows "keeps ents (openDatastream X B acceptable r)"
  by (rule keepsI)
    (auto simp: openDatastream_def Let_def apfst_pair split: prod.splits sum.splits option.splits if_splits
      dest!: keepsD [OF keeps_fetchEntity [OF assms]])

lemma keeps_datastream [keeps]:
  assumes "read_only B ents"
  shows "keeps ents (handleDatastream X B r)" "keeps ents (handleDatastreamSchema X B r)"
  by (rule keepsI,
      force simp: handleDatastream_def handleDatastreamSchema_def encodeJSON_def Let_def
        split: prod.splits sum.splits option.splits
        dest!: keepsD [OF keeps_openDatastream [OF assms]] keepsD [OF keeps_readSchemaArtifact [OF assms]])+

lemma keeps_writeSWE: "World (snd (writeSWE r media what backed enc g)) = World g"
  by (simp add: writeSWE_def)

lemma keeps_observations_get:
  assumes "read_only B ents"
  shows "keeps ents (handleObservationsGet X B r)" "keeps ents (handleGlobalObservations X B r)" "keeps ents (handleObservationGet X B r)"
proof -
  note swe = keeps_swe [OF assms, unfolded keeps_def, rule_format]
  show "keeps ents (handleObservationsGet X B r)"
    by (rule keepsI)
      (auto simp: handleObservationsGet_def Let_def apfst_pair swe split: prod.splits sum.splits option.splits
        dest!: keepsD [OF keeps_observations [OF assms]])
  show "keeps ents (handleGlobalObservations X B r)"
    by (rule keepsI)
      (auto simp: handleGlobalObservations_def Let_def apfst_pair split: prod.splits sum.splits option.splits
        dest!: keepsD [OF keeps_messages [OF assms]])
  show "keeps ents (handleObservationGet X B r)"
    by (rule keepsI)
      (auto simp: handleObservationGet_def Let_def apfst_pair split: prod.splits sum.splits option.splits
        dest!: keepsD [OF keeps_messages [OF assms]])
qed

lemma keeps_documents [keeps]:
  "keeps ents (handleLanding X p r)" "keeps ents (handleCollections X p r)" "keeps ents (handleConformance X r)"
  "keeps ents (handleHealth running connected r)" "keeps ents (handleAPI X docs r)"
  by (simp_all add: keeps_def handleLanding_def handleCollections_def handleConformance_def handleAPI_def handleHealth_def
      negotiated_def split: option.split prod.split)

lemma keeps_collectionItems [keeps]: "read_only B ents \<Longrightarrow> keeps ents (handleCollectionItems X B r)"
  unfolding handleCollectionItems_def by (intro keeps)

lemma keeps_controlStreamSchema [keeps]:
  assumes "read_only B ents"
  shows "keeps ents (handleControlStreamSchema X B r)"
proof -
  have "keeps ents (controlStreamSchemaFromState X B state)" for state
    by (rule keepsI)
      (auto simp: controlStreamSchemaFromState_def Let_def split: prod.splits sum.splits option.splits
        dest!: keepsD [OF keeps_readSchemaArtifact [OF assms]])
  note schema = keepsD [OF this]
  show ?thesis
    unfolding handleControlStreamSchema_def
    by (intro keeps assms keepsI) (auto split: prod.splits sum.splits dest!: schema)
qed

section \<open>Every route\<close>

definition routes_keep :: "('s \<Rightarrow> contents) \<Rightarrow> 's route list \<Rightarrow> bool" where
  "routes_keep ents rs \<longleftrightarrow> (\<forall>(m, pattern, h) \<in> set rs. \<forall>r. keeps ents (h r))"

lemma routes_keep_simps [simp]:
  "routes_keep ents []"
  "routes_keep ents ((m, pattern, h) # rs) \<longleftrightarrow> (\<forall>r. keeps ents (h r)) \<and> routes_keep ents rs"
  "routes_keep ents (rs @ rs') \<longleftrightarrow> routes_keep ents rs \<and> routes_keep ents rs'"
  "routes_keep ents (getRoute pattern h) \<longleftrightarrow> (\<forall>r. keeps ents (h r))"
  by (simp_all add: routes_keep_def getRoute_def ball_Un)

lemma read_routes_keep:
  assumes "read_only B ents"
  shows "routes_keep ents (readRoutes X docs running connected p B)"
  unfolding readRoutes_def routes_keep_simps
  by (intro conjI allI keeps_some keeps_observations_get keeps assms)

lemma options_routes_keep: "routes_keep ents (optionsRoutes X)"
  by (simp add: optionsRoutes_def keeps_fixed)

lemma write_routes_methods: "(m, pattern, h) \<in> set (writeRoutes X B ctx identity) \<Longrightarrow> m \<notin> {''GET'', ''HEAD'', ''OPTIONS''}"
  by (auto simp: writeRoutes_def)

lemma findRoute_registered: "findRoute rs m path = Some (vs, h) \<Longrightarrow> \<exists>pattern. (m, pattern, h) \<in> set rs \<and> matchPath pattern path = Some vs"
proof (induction rs)
  case (Cons a rs)
  obtain m' pattern h' where "a = (m', pattern, h')" by (cases a)
  with Cons show ?case by (cases "if m' = m then matchPath pattern path else None") (auto split: if_splits)
qed simp

text \<open>Claim C4: GET, HEAD and OPTIONS are safe: whatever path, query and headers a request with one of these methods
  has, whatever it is answered, and even if its handler panics, no entity of the graph is created, changed
  or removed.\<close>

theorem safe_methods_keep_graph:
  assumes "read_only B ents" "Method r \<in> {''GET'', ''HEAD'', ''OPTIONS''}"
    and "serveHTTP X docs B p ctx path r s = (resp, s')"
  shows "ents (World (Gateway s')) = ents (World (Gateway s))"
proof (cases "findRoute (RegisterHTTPHandlers X docs (Running s) (Connected s) p B ctx (IdentityMiddleware r)) (Method r) path")
  case None
  with assms(3) show ?thesis by (simp add: serveHTTP_def Let_def)
next
  case (Some vh)
  then obtain vs h where f: "findRoute (RegisterHTTPHandlers X docs (Running s) (Connected s) p B ctx (IdentityMiddleware r))
      (Method r) path = Some (vs, h)" by (cases vh) simp
  from findRoute_registered [OF f] obtain pattern where
    "(Method r, pattern, h) \<in> set (readRoutes X docs (Running s) (Connected s) p B @ optionsRoutes X)"
    using assms(2) write_routes_methods unfolding RegisterHTTPHandlers_def set_append by blast
  moreover have "routes_keep ents (readRoutes X docs (Running s) (Connected s) p B @ optionsRoutes X)"
    by (simp only: routes_keep_simps read_routes_keep [OF assms(1)] options_routes_keep simp_thms)
  ultimately have k: "keeps ents (h r')" for r' unfolding routes_keep_def by fast
  have same: "Gateway (countingMiddleware s) = Gateway s" by (simp add: countingMiddleware_def)
  obtain res g where h: "h (bodyLimitMiddleware X (bindPath vs r)) (Gateway s) = (res, g)" by fastforce
  obtain answer g' where rec: "recoverMiddleware (res, g) = (answer, g')" by fastforce
  then have "World g' = World g" by (auto simp: recoverMiddleware_def split: option.splits)
  moreover from assms(3) have "Gateway s' = g'"
    by (auto simp: serveHTTP_def Let_def f middleware_def same h rec)
  ultimately show ?thesis using keepsD [OF k h] by simp
qed

end
