(* ===== verification/DatastreamOutcomes.thy ===== *)
theory DatastreamOutcomes
  imports DatastreamWrites Creations
begin

text \<open>
  What the datastream writes leave in the graph, the object store and the observation stream. A write
  is an artifact step (nothing, or one verified schema artifact) followed by a write on the
  datastream's own entity; a delete removes the entity before it purges the observations.
\<close>

section \<open>The artifact step\<close>

definition artifact_step :: "env \<Rightarrow> string \<Rightarrow> contents \<Rightarrow> contents \<Rightarrow> bool" where
  "artifact_step X raw m m' \<longleftrightarrow>
     m' = m \<or>
     (\<exists>canon aid. normalizeSWESchema X raw = Inr canon \<and> canon \<noteq> [] \<and>
        aid = contentAddressedSchemaArtifactID X (Sha256Hex (Ids X) canon) \<and>
        created X aid (artifactTriples aid) m m')"

lemma artifact_step_refl [simp]: "artifact_step X raw m m"
  by (simp add: artifact_step_def)

lemma artifact_step_keeps: "artifact_step X raw m m' \<Longrightarrow> m i = Some e \<Longrightarrow> m' i = Some e"
  by (auto simp: artifact_step_def created_def)

lemma createSchemaArtifact_step:
  assumes "effect_law X B ents" "store_law B ents objs"
    and "createSchemaArtifact X B ctx parentID rel raw identity g = (res, g')"
  shows "artifact_step X raw (ents (World g)) (ents (World g'))"
proof (cases "normalizeSWESchema X raw")
  case (Inl e)
  with assms(3) show ?thesis by (auto simp: createSchemaArtifact_def Let_def split: if_splits)
next
  case (Inr canon)
  let ?d = "Sha256Hex (Ids X) canon"
  let ?aid = "contentAddressedSchemaArtifactID X ?d"
  obtain e g1 where ens: "ensureObject X B (schemaArtifactObjectKey ?aid) canon ?d g = (e, g1)" by fastforce
  obtain e2 g2 where pub: "publishArtifact X B ctx ?aid canon ?d identity g1 = (e2, g2)" by fastforce
  have "g' = g \<or> g' = g1 \<or> e = None \<and> canon \<noteq> [] \<and> g' = g2"
    using assms(3) Inr ens pub by (auto simp: createSchemaArtifact_def Let_def split: if_splits option.splits)
  with ensureObject_sound [OF assms(2) ens] publishArtifact_sound [OF assms(1,2) pub] Inr show ?thesis
    unfolding artifact_step_def by metis
qed

lemma createSchemaArtifact_rel:
  "createSchemaArtifact X B ctx eid rel raw identity g = (Inr t, g') \<Longrightarrow> \<exists>aid. t = ref_triple X eid rel aid"
  by (auto simp: createSchemaArtifact_def Let_def split: if_splits sum.splits option.splits prod.splits)

lemma attachSchema_step:
  assumes "effect_law X B ents" "store_law B ents objs"
    and "attachSchema X B ctx eid has schema identity g = (res, g')"
  shows "artifact_step X schema (ents (World g)) (ents (World g'))"
  using assms(3) createSchemaArtifact_step [OF assms(1,2)]
  by (auto simp: attachSchema_def split: if_splits prod.splits sum.splits)

lemma attachSchema_rel:
  "attachSchema X B ctx eid has schema identity g = (Inr rel, g') \<Longrightarrow>
     rel = [] \<or> (\<exists>aid. rel = [ref_triple X eid PredDatastreamSchema aid])"
  by (auto simp: attachSchema_def split: if_splits prod.splits sum.splits dest: createSchemaArtifact_rel)

lemma datastreamToTriples_subject: "t \<in> set (datastreamToTriples X eid d) \<Longrightarrow> Subject t = eid"
  by (auto simp: datastreamToTriples_def opt_triple_def split: if_splits)

lemma datastream_facts_subject:
  "rel = [] \<or> (\<exists>aid. rel = [ref_triple X eid PredDatastreamSchema aid]) \<Longrightarrow>
     list_all (\<lambda>t. Subject t = eid) (datastreamToTriples X eid d @ rel)"
  using datastreamToTriples_subject by (fastforce simp: list_all_iff)

section \<open>POST and PUT\<close>

text \<open>The contract of a datastream write: an artifact step for the body's schema, then a write.\<close>

definition datastream_write ::
  "env \<Rightarrow> string \<Rightarrow> nat \<Rightarrow> (contents \<Rightarrow> contents \<Rightarrow> bool) \<Rightarrow> response \<Rightarrow> contents \<Rightarrow> contents \<Rightarrow> bool"
where
  "datastream_write X raw ok spec resp m m' \<longleftrightarrow>
     (\<exists>m1. artifact_step X raw m m1 \<and> write_outcome ok spec resp m1 m')"

lemma datastream_writeI:
  "artifact_step X raw m m1 \<Longrightarrow> write_outcome ok spec resp m1 m' \<Longrightarrow> datastream_write X raw ok spec resp m m'"
  by (auto simp: datastream_write_def)

lemma datastream_write_same: "Status resp \<noteq> ok \<Longrightarrow> datastream_write X raw ok spec resp m m"
  by (rule datastream_writeI [OF artifact_step_refl]) (rule outcome_same)

text \<open>The facts of a datastream write: those of the body, and the link to its artifact.\<close>

definition datastream_facts :: "env \<Rightarrow> string \<Rightarrow> Datastream \<Rightarrow> triple list \<Rightarrow> bool" where
  "datastream_facts X eid d ts \<longleftrightarrow>
     ts = datastreamToTriples X eid d \<or>
     (\<exists>aid. ts = datastreamToTriples X eid d @ [ref_triple X eid PredDatastreamSchema aid])"

lemma datastream_factsI:
  "rel = [] \<or> (\<exists>aid. rel = [ref_triple X eid PredDatastreamSchema aid]) \<Longrightarrow>
     datastream_facts X eid d (datastreamToTriples X eid d @ rel)"
  by (auto simp: datastream_facts_def)

lemma post_refused: "decodeDatastreamPost X r = Inl resp \<Longrightarrow> Status resp \<in> {400, 413, 415}"
  by (auto simp: decodeDatastreamPost_def dest: readBody_Status split: option.splits sum.splits)

lemma requireDatastream_ok:
  "requireDatastream X inp = Inr d \<Longrightarrow>
     DsSystem d \<noteq> [] \<and> ValidateEntityID (Ids X) (DsSystem d) = None \<and> DsObservedProperty d \<noteq> []"
  by (auto simp: requireDatastream_def split: if_splits option.splits sum.splits)

definition posted :: "env \<Rightarrow> request \<Rightarrow> response \<Rightarrow> contents \<Rightarrow> contents \<Rightarrow> bool" where
  "posted X r resp m m' \<longleftrightarrow>
     (\<exists>eid d ts. decodeDatastreamPost X r = Inr d \<and> datastream_facts X eid d ts \<and>
        (DsID d \<noteq> [] \<longrightarrow> eid = DsID d) \<and>
        resp = createdResponse [] (''/datastreams/'' @ eid) eid ''Datastream'' \<and> created X eid ts m m')"

text \<open>POST /datastreams is an artifact step followed by the create of one datastream: a 201
  names an entity that was not there and has the body's facts (and the link to its artifact), under
  the body's own ID when it gives one. On any other answer the graph has gained at most the schema
  artifact, or the client is told that the outcome is uncertain.\<close>

theorem datastream_post_outcome:
  assumes "graph_contract X B ents" "effect_law X B ents" "store_law B ents objs"
    and "handleDatastreamPost X B ctx identity r g = (resp, g')"
  shows "datastream_write X (case decodeDatastreamPost X r of Inl _ \<Rightarrow> [] | Inr d \<Rightarrow> DsSchema d) 201
    (posted X r resp)
    resp (ents (World g)) (ents (World g'))"
proof (cases "decodeDatastreamPost X r")
  case (Inl resp')
  with assms(4) post_refused [OF Inl] have "g' = g" "Status resp \<noteq> 201"
    by (auto simp: handleDatastreamPost_def)
  then show ?thesis by (simp add: datastream_write_same)
next
  case (Inr d)
  note dec = this
  have laws: "create_law X B ents" "refusal_law X B ents" using assms(1) by (simp_all add: graph_contract_def)
  define eid where "eid = (if DsID d = [] then mintDatastreamEntityID X else DsID d)"
  obtain res g1 where att: "attachSchema X B ctx eid (DsSchema d \<noteq> []) (DsSchema d) identity g = (res, g1)" by fastforce
  have step: "artifact_step X (case decodeDatastreamPost X r of Inl _ \<Rightarrow> [] | Inr d \<Rightarrow> DsSchema d)
      (ents (World g)) (ents (World g1))"
    using attachSchema_step [OF assms(2,3) att] dec by simp
  show ?thesis
  proof (rule datastream_writeI [OF step], cases res)
    case (Inl e)
    have w: "writeBackendError X [attemptedID eid] e g1 = (resp, g')"
      using assms(4) dec att Inl by (simp add: handleDatastreamPost_def Let_def eid_def)
    show "write_outcome 201 (posted X r resp)
        resp (ents (World g1)) (ents (World g'))"
      by (rule outcome_error [OF w]) simp
  next
    case (Inr rel)
    note rel = attachSchema_rel [OF att [unfolded Inr]]
    let ?ts = "datastreamToTriples X eid d @ rel"
    obtain res2 g2 where ing: "ingestTriples X B ctx ?ts identity g1 = (res2, g2)" by fastforce
    show "write_outcome 201 (posted X r resp)
        resp (ents (World g1)) (ents (World g'))"
    proof (cases res2)
      case (Inl e)
      have w: "writeBackendError X [attemptedID eid] e g2 = (resp, g')"
        using assms(4) dec att Inr ing Inl by (simp add: handleDatastreamPost_def Let_def eid_def)
      show ?thesis
        by (rule outcome_backend [OF w]) (use ingest_refused [OF laws(2) ing [unfolded Inl]] in auto)
    next
      case (Inr u)
      then have ok: "res2 = Inr ()" by simp
      have "resp = createdResponse [] (''/datastreams/'' @ eid) eid ''Datastream''" "g' = g2"
        using assms(4) dec att \<open>res = Inr rel\<close> ing ok by (simp_all add: handleDatastreamPost_def Let_def eid_def)
      moreover have "created X eid ?ts (ents (World g1)) (ents (World g2))"
        by (rule ingest_created [OF laws(1) datastream_facts_subject [OF rel] ing [unfolded ok]])
      moreover have "DsID d \<noteq> [] \<longrightarrow> eid = DsID d" by (simp add: eid_def)
      ultimately show ?thesis
        using dec datastream_factsI [OF rel, of d] by (intro outcome_done) (auto simp: posted_def)
    qed
  qed
qed

lemma put_refused_status: "decodeDatastreamPut X i r = Inl resp \<Longrightarrow> Status resp \<in> {400, 413, 415}"
  by (auto simp: decodeDatastreamPut_def invalidPathID_def Let_def dest: readBody_Status
      split: option.splits sum.splits if_splits)

text \<open>PUT /datastreams/{id} is an artifact step followed by the PUT of the datastream: a 204
  means that the entity was created with the body's facts or has its representation replaced by
  them; on any other answer the graph has gained at most the schema artifact, or the client is told
  that the outcome is uncertain. An existing datastream is never lost.\<close>

theorem datastream_put_outcome:
  assumes "graph_contract X B ents" "effect_law X B ents" "store_law B ents objs"
    and "handleDatastreamPut X B ctx identity r g = (resp, g')"
  shows "datastream_write X (case decodeDatastreamPut X (PathValue r ''id'') r of Inl _ \<Rightarrow> [] | Inr d \<Rightarrow> DsSchema d) 204
    (\<lambda>m m'. \<exists>d ts. decodeDatastreamPut X (PathValue r ''id'') r = Inr d \<and>
       datastream_facts X (PathValue r ''id'') d ts \<and> put_spec X (PathValue r ''id'') ts m m')
    resp (ents (World g)) (ents (World g'))"
proof (cases "decodeDatastreamPut X (PathValue r ''id'') r")
  case (Inl resp')
  with assms(4) put_refused_status [OF Inl] have "g' = g" "Status resp \<noteq> 204"
    by (auto simp: handleDatastreamPut_def)
  then show ?thesis by (simp add: datastream_write_same)
next
  case (Inr d)
  note dec = this
  let ?id = "PathValue r ''id''"
  obtain res g1 where att: "attachSchema X B ctx ?id (DsSchema d \<noteq> []) (DsSchema d) identity g = (res, g1)" by fastforce
  have step: "artifact_step X (case decodeDatastreamPut X ?id r of Inl _ \<Rightarrow> [] | Inr d \<Rightarrow> DsSchema d)
      (ents (World g)) (ents (World g1))"
    using attachSchema_step [OF assms(2,3) att] dec by simp
  show ?thesis
  proof (rule datastream_writeI [OF step], cases res)
    case (Inl e)
    have w: "writeBackendError X [attemptedID ?id] e g1 = (resp, g')"
      using assms(4) dec att Inl by (simp add: handleDatastreamPut_def Let_def)
    show "write_outcome 204 (\<lambda>m m'. \<exists>d ts. decodeDatastreamPut X ?id r = Inr d \<and>
       datastream_facts X ?id d ts \<and> put_spec X ?id ts m m') resp (ents (World g1)) (ents (World g'))"
      by (rule outcome_error [OF w]) simp
  next
    case (Inr rel)
    note rel = attachSchema_rel [OF att [unfolded Inr]]
    let ?ts = "datastreamToTriples X ?id d @ rel"
    obtain res2 g2 where put: "putEntityTriples X B ctx ?id ?ts identity g1 = (res2, g2)" by fastforce
    show "write_outcome 204 (\<lambda>m m'. \<exists>d ts. decodeDatastreamPut X ?id r = Inr d \<and>
       datastream_facts X ?id d ts \<and> put_spec X ?id ts m m') resp (ents (World g1)) (ents (World g'))"
    proof (cases res2)
      case (Inl e)
      have w: "writeBackendError X [attemptedID ?id] e g2 = (resp, g')"
        using assms(4) dec att Inr put Inl by (simp add: handleDatastreamPut_def Let_def)
      show ?thesis
        by (rule outcome_backend [OF w]) (use put_refused [OF assms(1) put [unfolded Inl]] in auto)
    next
      case (Inr u)
      then have ok: "res2 = Inr ()" by simp
      have "resp = noContent [attemptedID ?id]" "g' = g2"
        using assms(4) dec att \<open>res = Inr rel\<close> put ok by (simp_all add: handleDatastreamPut_def Let_def)
      moreover have "put_spec X ?id ?ts (ents (World g1)) (ents (World g2))"
        by (rule put_contents [OF assms(1) datastream_facts_subject [OF rel] put [unfolded ok]])
      ultimately show ?thesis
        using dec datastream_factsI [OF rel, of d] by (intro outcome_done) auto
    qed
  qed
qed

section \<open>DELETE\<close>

text \<open>The stream is separate from the graph.\<close>

definition purge_law :: "'s backend \<Rightarrow> ('s \<Rightarrow> contents) \<Rightarrow> bool" where
  "purge_law B ents \<longleftrightarrow> (\<forall>s w. ents (snd (PurgeSubject B s w)) = ents w)"

text \<open>What a DELETE leaves. \<open>Partial\<close> is the answer's own marker.\<close>

definition partial_delete :: "response \<Rightarrow> bool" where
  "partial_delete resp \<longleftrightarrow> map_of (Headers resp) ''X-CS-Partial-Delete'' = Some ''true''"

lemma backendError_Headers:
  "Headers (fst (writeBackendError X hs e g)) =
     hs @ (case commitUnknownOf e of
             None \<Rightarrow> [] | Some c \<Rightarrow> [(''X-CS-Commit-Uncertain'', ''true''), (''X-CS-Correlation-ID'', c)]) @ [contentTypeJSON]"
  unfolding writeBackendError_def Let_def writeJSONError_def
  by (cases "commitUnknownOf e") simp_all

lemma partial_backendError:
  "partial_delete (fst (writeBackendError X [attemptedID i] e g)) \<longleftrightarrow> False"
  "partial_delete (fst (writeBackendError X ([attemptedID i] @ [(''X-CS-Partial-Delete'', ''true'')] @ hs) e g)) \<longleftrightarrow> True"
  unfolding partial_delete_def backendError_Headers
  by (cases "commitUnknownOf e"; simp add: attemptedID_def contentTypeJSON_def)+

text \<open>Claim C18: DELETE /datastreams/{id} never claims more than it did. On a 204 the entity is gone and
  the last thing done was a purge of its observation subject that succeeded; when the purge failed
  the answer carries the partial-delete marker, and the entity is gone although the status is an
  error; otherwise nothing has changed or the answer says that the outcome is uncertain. Nothing but
  this one entity is ever removed.\<close>

theorem datastream_delete_outcome:
  assumes "graph_contract X B ents" "purge_law B ents"
    and "handleDatastreamDelete X B ctx identity r g = (resp, g')"
  shows "(let i = PathValue r ''id''; m = ents (World g); m' = ents (World g') in
     if Status resp = 204
     then m' = m(i := None) \<and>
          (\<exists>w. PurgeSubject B (ObservationsSubjectPrefix (Cfg X) @ ''.'' @ i) w = (None, World g'))
     else if partial_delete resp then m' = m(i := None)
     else uncertain resp \<or> m' = m)"
proof (cases "ValidateEntityID (Ids X) (PathValue r ''id'')")
  case (Some e)
  with assms(3) show ?thesis
    by (auto simp: handleDatastreamDelete_def invalidPathID_def Let_def partial_delete_def writeJSONError_def
        attemptedID_def contentTypeJSON_def)
next
  case None
  let ?id = "PathValue r ''id''"
  obtain res g1 where del: "deleteEntity X B ctx ?id identity g = (res, g1)" by fastforce
  show ?thesis
  proof (cases res)
    case (Inl e)
    with None assms(3) del have w: "writeBackendError X [attemptedID ?id] e g1 = (resp, g')"
      by (simp add: handleDatastreamDelete_def Let_def)
    have "write_outcome 204 (\<lambda>m m'. False) resp (ents (World g)) (ents (World g'))"
      by (rule outcome_backend [OF w]) (use deleteEntity_refused [OF assms(1) del [unfolded Inl]] in auto)
    moreover have "\<not> partial_delete resp" using w partial_backendError(1) [of X ?id e g1] by simp
    ultimately show ?thesis by (simp add: write_outcome_def Let_def split: if_splits)
  next
    case (Inr u)
    then have ok: "res = Inr ()" by simp
    note gone = delete_contents [OF assms(1) del [unfolded ok]]
    obtain p g2 where purge: "purgeDatastreamObservations X B ?id g1 = (p, g2)" by fastforce
    have same: "ents (World g2) = ents (World g1)"
      using purge assms(2) unfolding purge_law_def
      by (auto simp: purgeDatastreamObservations_def Let_def split: if_splits prod.splits) (metis snd_conv)
    show ?thesis
    proof (cases p)
      case (Some e)
      let ?hs = "[attemptedID ?id] @ [(''X-CS-Partial-Delete'', ''true'')] @ [(''X-CS-Observation-Purge-Failed'', ''true'')]"
      from None assms(3) del ok purge Some have w: "writeBackendError X ?hs e g2 = (resp, g')"
        by (simp add: handleDatastreamDelete_def Let_def)
      then have "resp = fst (writeBackendError X ?hs e g2)" "World g' = World g2"
        using backendError_World [of X ?hs e g2] by simp_all
      with partial_backendError(2) [of X ?id _ e g2] backendError_Status [of X ?hs e g2] same gone show ?thesis
        by (auto simp: Let_def)
    next
      case None': None
      from None assms(3) del ok purge None' have r: "resp = noContent [attemptedID ?id]" "g' = g2"
        by (simp_all add: handleDatastreamDelete_def Let_def)
      obtain w where "PurgeSubject B (ObservationsSubjectPrefix (Cfg X) @ ''.'' @ ?id) w = (None, World g2)"
        using purge None' by (auto simp: purgeDatastreamObservations_def Let_def split: if_splits prod.splits)
      with r same gone show ?thesis by (auto simp: Let_def)
    qed
  qed
qed

section \<open>PATCH\<close>

text \<open>What the body, with the artifact of its schema, gives for a predicate.\<close>

definition datastreamReplacement ::
  "env \<Rightarrow> string \<Rightarrow> Datastream \<Rightarrow> string option \<Rightarrow> string \<Rightarrow> triple list option"
where
  "datastreamReplacement X eid d art p =
     (if p = PredLabel then (if DsName d \<noteq> [] then Some [str_triple eid p (DsName d)] else None)
      else if p = PredDescription
        then (if DsDescription d \<noteq> [] then Some [str_triple eid p (DsDescription d)] else None)
      else if p = PredDatastreamSystem
        then (if DsSystem d \<noteq> [] then Some [ref_triple X eid p (DsSystem d)] else None)
      else if p = PredObservedProperty
        then (if DsObservedProperty d \<noteq> [] then Some [str_triple eid p (DsObservedProperty d)] else None)
      else if p = PredDatastreamSchema then map_option (\<lambda>aid. [ref_triple X eid p aid]) art
      else None)"

definition mergeDatastream :: "env \<Rightarrow> string \<Rightarrow> Datastream \<Rightarrow> string option \<Rightarrow> triple list \<Rightarrow> triple list" where
  "mergeDatastream X eid d art ts =
     mergePatchDatastreamTriples X eid ts d (map_option (ref_triple X eid PredDatastreamSchema) art)"

lemma at_patchedDatastream:
  "at p (map (patchDatastreamTriple X eid d (map_option (ref_triple X eid PredDatastreamSchema) art)) ts) =
     (case datastreamReplacement X eid d art p of
        None \<Rightarrow> at p ts
      | Some rs \<Rightarrow> map (\<lambda>t. hd rs) (at p ts))"
proof (induction ts)
  case (Cons t ts)
  have "at p [patchDatastreamTriple X eid d (map_option (ref_triple X eid PredDatastreamSchema) art) t] =
      (case datastreamReplacement X eid d art p of None \<Rightarrow> at p [t] | Some rs \<Rightarrow> map (\<lambda>t. hd rs) (at p [t]))"
    using datastream_neqs by (cases art) (auto simp: patchDatastreamTriple_def datastreamReplacement_def)
  with Cons.IH show ?case by (simp split: option.splits if_splits)
qed (simp split: option.split)

lemma exists_at: "list_ex (\<lambda>t. Predicate t = p) ts \<longleftrightarrow> at p ts \<noteq> []"
  by (induction ts) auto

lemma at_if: "at p (if b then [t] else []) = (if b \<and> Predicate t = p then [t] else [])"
  by simp

lemma at_rel:
  "at p (case art of None \<Rightarrow> [] | Some aid \<Rightarrow> ((\<lambda>rel. if b then [] else [rel]) \<circ> ref_triple X eid q) aid) =
     (if q = p \<and> \<not> b then map (ref_triple X eid q) (case art of None \<Rightarrow> [] | Some a \<Rightarrow> [a]) else [])"
  by (cases art) auto

lemma at_mergeDatastream:
  "at p (mergeDatastream X eid d art ts) =
     (case datastreamReplacement X eid d art p of
        None \<Rightarrow> at p ts
      | Some rs \<Rightarrow> if at p ts = [] then rs else map (\<lambda>t. hd rs) (at p ts))"
proof -
  note defs = mergeDatastream_def mergePatchDatastreamTriples_def at_append at_patchedDatastream exists_at at_if
    at_rel datastreamReplacement_def
  consider "p = PredLabel" | "p = PredDescription" | "p = PredDatastreamSystem" | "p = PredObservedProperty"
    | "p = PredDatastreamSchema" | "p \<notin> {PredLabel, PredDescription, PredDatastreamSystem, PredObservedProperty, PredDatastreamSchema}"
    by blast
  then show ?thesis
  proof cases
    case 1 then show ?thesis using datastream_neqs by (simp add: defs)
  next
    case 2 then show ?thesis using datastream_neqs by (simp add: defs)
  next
    case 3 then show ?thesis using datastream_neqs by (simp add: defs)
  next
    case 4 then show ?thesis using datastream_neqs by (simp add: defs)
  next
    case 5 then show ?thesis using datastream_neqs by (simp add: defs split: option.split)
  next
    case 6
    then have "PredLabel \<noteq> p" "PredDescription \<noteq> p" "PredDatastreamSystem \<noteq> p" "PredObservedProperty \<noteq> p"
      "PredDatastreamSchema \<noteq> p" by auto
    with 6 show ?thesis by (simp add: defs)
  qed
qed

lemma datastreamReplacement_one: "datastreamReplacement X eid d art p = Some rs \<Longrightarrow> \<exists>t. rs = [t] \<and> Predicate t = p"
  by (auto simp: datastreamReplacement_def split: if_splits)

lemma datastream_merge_law: "patch_merge (mergeDatastream X eid d art) (datastreamReplacement X eid d art)"
proof
  fix p ts assume "datastreamReplacement X eid d art p = None"
  then show "at p (mergeDatastream X eid d art ts) = at p ts" by (simp add: at_mergeDatastream)
next
  fix p rs ts assume r: "datastreamReplacement X eid d art p = Some rs"
  from datastreamReplacement_one [OF r] r show "set (at p (mergeDatastream X eid d art ts)) = set rs"
    by (cases "at p ts") (auto simp: at_mergeDatastream)
next
  fix p rs t assume "datastreamReplacement X eid d art p = Some rs" "t \<in> set rs"
  with datastreamReplacement_one show "Predicate t = p" by fastforce
qed

interpretation datastream_patch: patch_merge "mergeDatastream X eid d art" "datastreamReplacement X eid d art"
  for X eid d art
  by (rule datastream_merge_law)

lemma datastream_replaced_owned:
  assumes "EntityIndexingProfile X \<notin> set datastreamPredicates" "datastreamReplacement X eid d art p = Some rs"
    and "\<forall>t \<in> set (mergeDatastream X eid d art ts). Predicate t \<in> {PredType, EntityIndexingProfile X} \<union> set ps"
  shows "p \<in> set ps"
proof -
  from datastreamReplacement_one [OF assms(2)] obtain t where t: "rs = [t]" "Predicate t = p" by blast
  with datastream_patch.replaced [OF assms(2), of ts] have "t \<in> set (mergeDatastream X eid d art ts)"
    by (auto simp: at_def)
  with assms(3) t(2) have p: "p \<in> {PredType, EntityIndexingProfile X} \<union> set ps" by blast
  have "p \<in> {PredLabel, PredDescription, PredDatastreamSystem, PredObservedProperty, PredDatastreamSchema}"
    using assms(2) by (auto simp: datastreamReplacement_def split: if_splits)
  moreover have "{PredLabel, PredDescription, PredDatastreamSystem, PredObservedProperty, PredDatastreamSchema}
      \<subseteq> set datastreamPredicates - {PredType}"
    by (simp add: datastreamPredicates_def commonPredicates_def vocab_defs)
  ultimately have "p \<in> set datastreamPredicates" "p \<noteq> PredType" by auto
  with p assms(1) show ?thesis by auto
qed

lemma patch_refused_status: "decodeDatastreamPatch X i r = Inl resp \<Longrightarrow> Status resp \<in> {400, 413, 415}"
  by (auto simp: decodeDatastreamPatch_def invalidPathID_def Let_def dest: readBody_Status
      split: option.splits sum.splits if_splits)

definition datastream_at :: "contents \<Rightarrow> string \<Rightarrow> bool" where
  "datastream_at m i \<longleftrightarrow> (\<exists>ts kv. m i = Some (ts, kv) \<and> isDatastreamKind ts)"

definition patched :: "env \<Rightarrow> request \<Rightarrow> contents \<Rightarrow> contents \<Rightarrow> bool" where
  "patched X r m m' \<longleftrightarrow>
     (\<exists>has d art. decodeDatastreamPatch X (PathValue r ''id'') r = Inr (has, d) \<and>
        datastream_at m (PathValue r ''id'') \<and>
        patch_spec (PathValue r ''id'') (datastreamReplacement X (PathValue r ''id'') d art) m m' \<and>
        (art \<noteq> None \<longleftrightarrow> has))"

text \<open>After the read: the artifact step, then the reconcile.\<close>

lemma applyDatastreamPatch_outcome:
  assumes "graph_contract X B ents" "effect_law X B ents" "store_law B ents objs"
    and "EntityIndexingProfile X \<notin> set datastreamPredicates"
    and ex: "Entity exact = Some e" "EntityID e = i" "ents (World g) i = Some (EntityTriples e, KVRevision exact)"
    and run: "applyDatastreamPatch X B ctx identity i has d exact g = (resp, g')"
  shows "datastream_write X (DsSchema d) 204
    (\<lambda>m m'. \<exists>art. datastream_at m i \<and> patch_spec i (datastreamReplacement X i d art) m m' \<and> (art \<noteq> None \<longleftrightarrow> has))
    resp (ents (World g)) (ents (World g'))"
proof -
  have laws: "reconcile_law X B ents" "refusal_law X B ents" using assms(1) by (simp_all add: graph_contract_def)
  let ?spec = "\<lambda>m m'. \<exists>art. datastream_at m i \<and> patch_spec i (datastreamReplacement X i d art) m m' \<and> (art \<noteq> None \<longleftrightarrow> has)"
  show ?thesis
  proof (cases "isDatastreamKind (EntityTriples e) \<and> checkDatastreamMerged X (datastreamFromState e) d = None")
    case False
    with run ex(1) have "g' = g" "Status resp \<noteq> 204"
      by (auto simp: applyDatastreamPatch_def Let_def split: option.splits if_splits)
    then show ?thesis by (simp add: datastream_write_same)
  next
    case True
    obtain res g1 where att: "attachSchema X B ctx i has (DsSchema d) identity g = (res, g1)" by fastforce
    note step = attachSchema_step [OF assms(2,3) att]
    show ?thesis
    proof (rule datastream_writeI [OF step], cases res)
      case (Inl err)
      have w: "writeBackendError X [attemptedID i] err g1 = (resp, g')"
        using run ex(1) True att Inl by (simp add: applyDatastreamPatch_def Let_def)
      show "write_outcome 204 ?spec resp (ents (World g1)) (ents (World g'))"
        by (rule outcome_error [OF w]) simp
    next
      case (Inr rel)
      define art where "art = (case rel of [] \<Rightarrow> None | rt # _ \<Rightarrow> (case Object rt of OStr s \<Rightarrow> Some s | _ \<Rightarrow> None))"
      have rel: "(case rel of [] \<Rightarrow> None | rt # _ \<Rightarrow> Some rt) = map_option (ref_triple X i PredDatastreamSchema) art"
        "art \<noteq> None \<longleftrightarrow> has"
        using attachSchema_rel [OF att [unfolded Inr]] att Inr
        by (auto simp: art_def attachSchema_def split: if_splits sum.splits prod.splits)
      obtain res2 g2 where rep: "replaceEntityTriples X B ctx exact (mergeDatastream X i d art (EntityTriples e)) identity g1 = (res2, g2)"
        by fastforce
      have h: "(case res2 of Inl err \<Rightarrow> writeBackendError X [attemptedID i] err g2
          | Inr _ \<Rightarrow> (noContent [attemptedID i], g2)) = (resp, g')"
        using run ex(1) True att Inr rep rel(1) by (simp add: applyDatastreamPatch_def Let_def mergeDatastream_def)
      show "write_outcome 204 ?spec resp (ents (World g1)) (ents (World g'))"
      proof (cases res2)
        case (Inl err)
        with h have w: "writeBackendError X [attemptedID i] err g2 = (resp, g')" by simp
        show ?thesis
          by (rule outcome_backend [OF w])
            (use reconcile_refused [OF laws(2)] rep Inl in \<open>auto simp: replaceEntityTriples_def\<close>)
      next
        case (Inr u)
        then have ok: "res2 = Inr ()" by simp
        with h have "resp = noContent [attemptedID i]" "g' = g2" by simp_all
        moreover have "patch_spec (EntityID e) (datastreamReplacement X i d art) (ents (World g1)) (ents (World g2))"
          by (rule replaceEntity_patch [OF laws(1) datastream_merge_law ex(1) _ rep [unfolded ok]])
            (use ex artifact_step_keeps [OF step] datastream_replaced_owned [OF assms(4)] in auto)
        moreover have "datastream_at (ents (World g1)) i"
          using True artifact_step_keeps [OF step ex(3)] by (auto simp: datastream_at_def)
        ultimately show ?thesis using ex(2) rel(2) by (intro outcome_done) auto
      qed
    qed
  qed
qed

text \<open>Claim C22: PATCH /datastreams/{id} is an artifact step followed by the update of a datastream that
  was there: a 204 means that the entity is a datastream and, predicate by predicate, has what it had, except the name,
  description, system and observed property that the body gives, and the schema link when it gives
  a schema. On any other answer the graph has gained at most the schema artifact, or the client is
  told that the outcome is uncertain.\<close>

theorem datastream_patch_outcome:
  assumes "graph_contract X B ents" "effect_law X B ents" "store_law B ents objs"
    and "EntityIndexingProfile X \<notin> set datastreamPredicates"
    and "handleDatastreamPatch X B ctx identity r g = (resp, g')"
  shows "datastream_write X
    (case decodeDatastreamPatch X (PathValue r ''id'') r of Inl _ \<Rightarrow> [] | Inr (has, d) \<Rightarrow> DsSchema d) 204
    (patched X r) resp (ents (World g)) (ents (World g'))"
proof (cases "decodeDatastreamPatch X (PathValue r ''id'') r")
  case (Inl resp')
  with assms(5) patch_refused_status [OF Inl] have "g' = g" "Status resp \<noteq> 204"
    by (auto simp: handleDatastreamPatch_def)
  then show ?thesis by (simp add: datastream_write_same)
next
  case (Inr hd)
  then obtain has d where dec: "decodeDatastreamPatch X (PathValue r ''id'') r = Inr (has, d)" by (cases hd) simp
  have q: "query_law X B ents" using assms(1) by (simp add: graph_contract_def)
  let ?id = "PathValue r ''id''"
  obtain res g1 where fetch: "fetchEntityExact X B ?id g = (res, g1)" by fastforce
  have same: "ents (World g1) = ents (World g)" by (rule fetchEntityExact_contents [OF q fetch])
  show ?thesis
  proof (cases res)
    case (Inl e)
    with assms(5) dec fetch have w: "writeBackendError X [attemptedID ?id] e g1 = (resp, g')"
      by (simp add: handleDatastreamPatch_def Let_def)
    have "write_outcome 204 (patched X r) resp (ents (World g)) (ents (World g'))"
      by (rule outcome_backend [OF w]) (use same in auto)
    then show ?thesis by (rule datastream_writeI [OF artifact_step_refl])
  next
    case (Inr ex)
    with fetchEntityExact_state [OF q] fetch obtain e where e: "Entity ex = Some e" "EntityID e = ?id"
      "ents (World g) ?id = Some (EntityTriples e, KVRevision ex)" by blast
    have run: "applyDatastreamPatch X B ctx identity ?id has d ex g1 = (resp, g')"
      using assms(5) dec fetch Inr by (simp add: handleDatastreamPatch_def Let_def)
    from applyDatastreamPatch_outcome [OF assms(1-4) e(1,2) _ run] e(3) same show ?thesis
      unfolding datastream_write_def write_outcome_def patched_def dec by (auto split: if_splits)
  qed
qed

text \<open>PATCH /datastreams/{id} drops the times. Whatever the body says, the phenomenon and result
  times of the merged datastream are the old ones, although POST and PUT store the body's.\<close>

theorem datastream_patch_ignores_times:
  assumes "p \<in> {predDatastreamPhenomenonTime, predDatastreamResultTime}"
  shows "firstStringObject (mergePatchDatastreamTriples X eid ts d
      (map_option (ref_triple X eid PredDatastreamSchema) art)) [p] = firstStringObject ts [p]"
proof -
  have "datastreamReplacement X eid d art p = None"
    using assms datastream_neqs by (auto simp: datastreamReplacement_def)
  from datastream_patch.merge_first [OF this] show ?thesis by (simp add: mergeDatastream_def)
qed

end
