(* ===== verification/CommandOutcomes.thy ===== *)
theory CommandOutcomes
  imports Feasibility SystemEvents DatastreamOutcomes
begin

text \<open>
  What the control stream, command, feasibility and system event handlers do to the graph and show of
  it. Their bodies are interpretations of \<open>resource_body\<close>, their resources of \<open>resource_view\<close>.
\<close>

section \<open>Bodies\<close>

lemma opt_triple_subject [simp]: "list_all (\<lambda>t. Subject t = eid) (opt_triple eid p v)"
  by (simp add: opt_triple_def)

lemma raw_triple_subject [simp]: "list_all (\<lambda>t. Subject t = eid) (raw_triple X eid p v)"
  by (simp add: raw_triple_def split: option.split)

lemma ref_triple_subject [simp]: "Subject (ref_triple X eid p v) = eid"
  by (simp add: ref_triple_def)

interpretation command_body: resource_body "buildCommandTriples X" CommandIRI for X
  by unfold_locales (auto simp: buildCommandTriples_def commandTriples_def Let_def split: option.splits if_splits)

interpretation feasibility_body: resource_body "buildFeasibilityTriples X" FeasibilityIRI for X
  by unfold_locales (auto simp: buildFeasibilityTriples_def feasibilityTriples_def Let_def split: option.splits if_splits)

interpretation system_event_body: resource_body "buildSystemEventTriples X pathSystemID" SystemEventIRI for X pathSystemID
  by unfold_locales (auto simp: buildSystemEventTriples_def systemEventTriples_def Let_def split: option.splits if_splits)

section \<open>Views\<close>

interpretation control_stream_view: resource_view isControlStreamKind "controlStreamFromState X" for X
  by unfold_locales (simp add: controlStreamFromState_def state_of_def)

interpretation command_view: resource_view isCommandKind commandFromState
  by unfold_locales (simp add: commandFromState_def state_of_def)

interpretation feasibility_view: resource_view isFeasibilityKind feasibilityFromState
  by unfold_locales (simp add: feasibilityFromState_def state_of_def)

interpretation system_event_view: resource_view isSystemEventKind "systemEventFromState X" for X
  by unfold_locales (simp add: systemEventFromState_def state_of_def)

section \<open>Commands\<close>

definition commandPredicates :: "string list" where
  "commandPredicates = [PredType, PredCommandControlStream, predCommandStatus, predCommandIssueTime,
     predCommandExecutionTime, predCommandSender, predCommandParams]"

text \<open>A command as its body gives it.\<close>

definition commandOfBody :: "env \<Rightarrow> string \<Rightarrow> commandPostBody \<Rightarrow> command \<Rightarrow> bool" where
  "commandOfBody X eid b c \<longleftrightarrow>
     CmdID c = eid \<and> CmdControlStreamID c = CbControlStreamID b \<and>
     CmdStatus c = (if CbStatus b = [] then ''accepted'' else CbStatus b) \<and> CmdCurrentStatus c = CmdStatus c \<and>
     CmdIssueTime c = CbIssueTime b \<and> CmdExecutionTime c = CbExecutionTime b \<and> CmdSender c = CbSender b \<and>
     CmdParams c = (case CbParams b of None \<Rightarrow> [] | Some j \<Rightarrow> if j = JNull then [] else JsonText X j)"

lemma command_neqs:
  "distinct commandPredicates" "distinct (rev commandPredicates)"
  by (simp_all add: commandPredicates_def vocab_defs)

lemma at_raw_triple [simp]: "at p (raw_triple X eid q v) = (if p = q then raw_triple X eid q v else [])"
  by (auto simp: raw_triple_def split: option.split)

lemma command_lookup:
  fixes X eid b
  defines "ts \<equiv> commandTriples X eid b"
  shows "p \<in> set commandPredicates \<Longrightarrow> length (at p ts) \<le> 1"
    and "firstStringObject ts [PredType] = Some CommandIRI"
    and "firstStringObject ts [PredCommandControlStream] = Some (CbControlStreamID b)"
    and "firstStringObject ts [predCommandStatus] = Some (if CbStatus b = [] then ''accepted'' else CbStatus b)"
    and "or_empty (firstStringObject ts [predCommandIssueTime]) = CbIssueTime b"
    and "or_empty (firstStringObject ts [predCommandExecutionTime]) = CbExecutionTime b"
    and "or_empty (firstStringObject ts [predCommandSender]) = CbSender b"
    and "or_empty (firstStringObject ts [predCommandParams]) =
      (case CbParams b of None \<Rightarrow> [] | Some j \<Rightarrow> if j = JNull then [] else JsonText X j)"
proof -
  note d = command_neqs [simplified commandPredicates_def rev.simps append.simps distinct.simps list.set]
  have short: "length (opt_triple eid q v) \<le> 1" "length (raw_triple X eid q w) \<le> 1" for q v w
    by (simp_all add: opt_triple_def raw_triple_def split: option.split)
  show "p \<in> set commandPredicates \<Longrightarrow> length (at p ts) \<le> 1"
    using d short by (auto simp: ts_def commandTriples_def commandPredicates_def)
  show "firstStringObject ts [PredType] = Some CommandIRI"
    by (subst first_at) (use d in \<open>simp add: ts_def commandTriples_def\<close>)
  show "firstStringObject ts [PredCommandControlStream] = Some (CbControlStreamID b)"
    by (subst first_at) (use d in \<open>simp add: ts_def commandTriples_def\<close>)
  show "firstStringObject ts [predCommandStatus] = Some (if CbStatus b = [] then ''accepted'' else CbStatus b)"
    by (subst first_at) (use d in \<open>simp add: ts_def commandTriples_def\<close>)
  show "or_empty (firstStringObject ts [predCommandIssueTime]) = CbIssueTime b"
    by (subst first_at) (use d in \<open>simp add: ts_def commandTriples_def first_opt_triple\<close>)
  show "or_empty (firstStringObject ts [predCommandExecutionTime]) = CbExecutionTime b"
    by (subst first_at) (use d in \<open>simp add: ts_def commandTriples_def first_opt_triple\<close>)
  show "or_empty (firstStringObject ts [predCommandSender]) = CbSender b"
    by (subst first_at) (use d in \<open>simp add: ts_def commandTriples_def first_opt_triple\<close>)
  show "or_empty (firstStringObject ts [predCommandParams]) =
      (case CbParams b of None \<Rightarrow> [] | Some j \<Rightarrow> if j = JNull then [] else JsonText X j)"
    by (subst first_at) (use d in \<open>auto simp: ts_def commandTriples_def raw_triple_def or_empty_def split: option.split\<close>)
qed

text \<open>Claim C11: a posted command is stored as it was posted. A 201 to \<open>POST /commands\<close> names an
  entity that was not there; the graph then holds under that ID a command whose control stream,
  times, sender and parameters are those of the body and whose status is the body's, or accepted
  when it gives none.\<close>

theorem posted_command_stored:
  assumes "graph_contract X B ents" "EntityIndexingProfile X \<notin> set commandPredicates"
    and "handleCommandPost X B ctx identity r g = (resp, g')" "Status resp = 201"
  shows "\<exists>body j b eid ts kv. Body r = BodyOk body \<and> ParseJson X body = Some j \<and> decodeCommandPost j = Some b \<and>
    resp = createdResponse [] (''/commands/'' @ eid) eid ''Command'' \<and>
    ents (World g) eid = None \<and> ents (World g') eid = Some (ts, kv) \<and> isCommandKind ts \<and>
    commandOfBody X eid b (commandFromState (state_of eid ts None))"
proof -
  from command_body.create_outcome [OF assms(1) assms(3) [unfolded handleCommandPost_def]] assms(4)
  obtain body eid bts where c: "Body r = BodyOk body" "buildCommandTriples X body = Inr (eid, bts)"
    "resp = createdResponse [] (''/commands/'' @ eid) eid ''Command''" "created X eid bts (ents (World g)) (ents (World g'))"
    by (auto simp: created_outcome_def write_outcome_def)
  then obtain j b where b: "ParseJson X body = Some j" "decodeCommandPost j = Some b" "bts = commandTriples X eid b"
    by (auto simp: buildCommandTriples_def Let_def split: option.splits if_splits bind_splits)
  obtain ts kv where s: "ents (World g') eid = Some (ts, kv)" "ents (World g) eid = None"
    using c(4) by (auto simp: created_def)
  have first: "firstStringObject ts [p] = firstStringObject bts [p]" if "p \<in> set commandPredicates" for p
    using created_first [OF c(4) s(1), of p] command_lookup(1) [OF that, of X eid b] assms(2) that b(3) by auto
  note look = first [simplified commandPredicates_def list.set, simplified]
  have "isCommandKind ts \<and> commandOfBody X eid b (commandFromState (state_of eid ts None))"
    using command_lookup(2-) [of X eid b] look
    by (auto simp: isCommandKind_def commandOfBody_def commandFromState_def state_of_def Let_def b(3) or_empty_def)
  with c b s show ?thesis by blast
qed

text \<open>A body of \<open>POST /commands\<close> without an ID, for a control stream.\<close>

definition anonymousCommand :: "env \<Rightarrow> request \<Rightarrow> string \<Rightarrow> bool" where
  "anonymousCommand X r cs \<longleftrightarrow>
     (\<exists>body j b. Body r = BodyOk body \<and> ParseJson X body = Some j \<and> decodeCommandPost j = Some b \<and>
        CbID b = [] \<and> CbControlStreamID b = cs)"

text \<open>Claim C31: two commands without an ID collide. The ID minted for a command depends on its control
  stream only; once one was accepted, every further command for the same control stream that does
  not bring an ID is refused, whatever it asks for, and leaves the graph as it was (unless the
  answer says that the outcome is uncertain).\<close>

theorem anonymous_commands_collide:
  assumes "graph_contract X B ents" "anonymousCommand X r cs" "anonymousCommand X r' cs"
    and "handleCommandPost X B ctx identity r g = (resp, g1)" "Status resp = 201"
    and "handleCommandPost X B ctx' identity' r' g1 = (resp', g2)"
  shows "Status resp' \<noteq> 201 \<and> (uncertain resp' \<or> ents (World g2) = ents (World g1))"
proof -
  have minted: "\<exists>body. Body r = BodyOk body \<and> (\<forall>eid ts. buildCommandTriples X body = Inr (eid, ts) \<longrightarrow> eid = mintCommandEntityID X cs)"
    if "anonymousCommand X r cs" for r
    using that by (auto simp: anonymousCommand_def buildCommandTriples_def Let_def split: option.splits if_splits)
  from command_body.create_outcome [OF assms(1) assms(4) [unfolded handleCommandPost_def]] assms(5) minted [OF assms(2)]
  have taken: "ents (World g1) (mintCommandEntityID X cs) \<noteq> None"
    by (fastforce simp: created_outcome_def write_outcome_def created_def)
  obtain body where body: "Body r' = BodyOk body"
    "\<And>eid ts. buildCommandTriples X body = Inr (eid, ts) \<Longrightarrow> eid = mintCommandEntityID X cs"
    using minted [OF assms(3)] by blast
  note outcome = command_body.create_outcome [OF assms(1) assms(6) [unfolded handleCommandPost_def]]
  show ?thesis
  proof (cases "buildCommandTriples X body")
    case (Inl e)
    with outcome body(1) show ?thesis by (auto simp: created_outcome_def write_outcome_def split: if_splits)
  next
    case (Inr p)
    then obtain ts where "buildCommandTriples X body = Inr (mintCommandEntityID X cs, ts)"
      using body(2) by (cases p) auto
    from command_body.create_taken [OF assms(1) assms(6) [unfolded handleCommandPost_def] body(1) this taken]
    show ?thesis .
  qed
qed

section \<open>Lists\<close>

text \<open>The documented answer to the query of an entity that exists: its state; nothing moves.\<close>

definition read_law :: "'s backend \<Rightarrow> ('s \<Rightarrow> contents) \<Rightarrow> ('s \<Rightarrow> 'l) \<Rightarrow> bool" where
  "read_law B contents listing \<longleftrightarrow>
     (\<forall>i w ts kv. contents w i = Some (ts, kv) \<and> kv \<noteq> 0 \<longrightarrow>
        (\<exists>st w'. Request B (EntityQuery i) w = (Data (EntityResponse (EntityGood st) kv), w') \<and>
           EntityID st = i \<and> EntityTriples st = ts \<and> contents w' = contents w \<and> listing w' = listing w))"

lemma withEntity_stored:
  assumes "read_law B contents listing" "contents (World g) i = Some (ts, kv)" "kv \<noteq> 0" "ValidateEntityID (Ids X) i = None" "kind ts"
  shows "\<exists>state g'. withEntity X B kind missing i k g = k state g' \<and> EntityID state = i \<and> EntityTriples state = ts \<and>
    contents (World g') = contents (World g) \<and> listing (World g') = listing (World g)"
proof -
  obtain st w' where "Request B (EntityQuery i) (World g) = (Data (EntityResponse (EntityGood st) kv), w')"
    "EntityID st = i" "EntityTriples st = ts" "contents w' = contents (World g)" "listing w' = listing (World g)"
    using assms(1-3) unfolding read_law_def by blast
  with assms(3-5) have "withEntity X B kind missing i k g = k st (g\<lparr>World := w'\<rparr>)" "EntityID st = i" "EntityTriples st = ts"
    "contents (World (g\<lparr>World := w'\<rparr>)) = contents (World g)" "listing (World (g\<lparr>World := w'\<rparr>)) = listing (World g)"
    by (simp_all add: withEntity_def fetchEntity_def fetchEntityExact_def Let_def)
  then show ?thesis by blast
qed

text \<open>The commands of a control stream are selected before they are cut: a GET of
  \<open>/controlstreams/{id}/commands\<close> for a stored control stream shows the first of its own commands up to
  the limit, each as it is stored, in the order of the graph's listing, out of the first commands up
  to the configured maximum; it changes nothing.\<close>

theorem control_stream_commands:
  assumes "list_law B contents listing" "batch_law B contents" "read_law B contents listing"
    and "ids_valid X (contents (World g))" "limits_ok X"
    and "lists_class (contents (World g)) CommandIRI (listing (World g) CommandIRI)"
    and "NegotiateRequest (Std X) r FamilyControlStreamCollection \<noteq> None"
    and "parseLimit (query_get r ''limit'') (DefaultListLimit (Cfg X)) (MaxListLimit (Cfg X)) = Inr limit"
    and "PathValue r ''id'' = cs" "cs \<noteq> []" "contents (World g) cs = Some (ts, kv)" "kv \<noteq> 0" "isControlStreamKind ts"
  defines "read \<equiv> take (nat (MaxListLimit (Cfg X))) (listing (World g) CommandIRI)"
  shows "\<exists>g'. contents (World g') = contents (World g) \<and>
    handleControlStreamCommands X B r g =
      encodeBody r [contentTypeJSON] False
        (commandCollectionJson X (''/controlstreams/'' @ cs @ ''/commands'')
          (take (nat limit) (filter (\<lambda>c. CmdControlStreamID c = cs)
            (viewsAmong isCommandKind commandFromState (contents (World g)) read)))) g'"
proof -
  have "1 \<le> limit" using parseLimit_bounds [OF assms(5,8)] by simp
  have valid: "ValidateEntityID (Ids X) cs = None" using assms(4,11) by (auto simp: ids_valid_def)
  define k where "k = (\<lambda>state :: entity_state. withListed X B CommandIRI (MaxListLimit (Cfg X)) ''listControlStreamCommandEntities''
     (\<lambda>ids. writeCommandCollection X B r ids cs (''/controlstreams/'' @ cs @ ''/commands'') noCommandFilters limit))"
  have run: "handleControlStreamCommands X B r g =
      withEntity X B isControlStreamKind ''entity is not a ControlStream'' cs k g"
    using assms(7-9) valid
    by (auto simp: handleControlStreamCommands_def negotiated_def withValidID_def withLimit_def k_def Let_def)
  obtain state g1 where e: "withEntity X B isControlStreamKind ''entity is not a ControlStream'' cs k g = k state g1"
    "contents (World g1) = contents (World g)" "listing (World g1) = listing (World g)"
    using withEntity_stored [where contents = contents and listing = listing and g = g and kind = isControlStreamKind and k = k,
        OF assms(3,11,12) valid assms(13)] by blast
  have same: "(\<lambda>c. \<not> (cs \<noteq> [] \<and> CmdControlStreamID c \<noteq> cs) \<and> commandMatchesFilters X noCommandFilters c) =
      (\<lambda>c. CmdControlStreamID c = cs)"
    using assms(10) by (simp add: commandMatchesFilters_def noCommandFilters_def)
  have indexed: "lists_class (contents (World g1)) CommandIRI (listing (World g1) CommandIRI)" "ids_valid X (contents (World g1))"
    using assms(4,6) e(2,3) by simp_all
  note found = command_view.list_collected [where X = X
      and k = "\<lambda>ids cmds. encodeBody r [contentTypeJSON] False (commandCollectionJson X (''/controlstreams/'' @ cs @ ''/commands'') cmds)"
      and P = "\<lambda>c. CmdControlStreamID c = cs" and op = "''listControlStreamCommandEntities''",
      OF assms(1,2) indexed(2,1) \<open>1 \<le> limit\<close>, of "MaxListLimit (Cfg X)"]
  have k: "k state = withListed X B CommandIRI (MaxListLimit (Cfg X)) ''listControlStreamCommandEntities''
      (\<lambda>ids. withBatch X B ids (\<lambda>states. encodeBody r [contentTypeJSON] False
        (commandCollectionJson X (''/controlstreams/'' @ cs @ ''/commands'')
          (collectRows (rowOf isCommandKind commandFromState (\<lambda>c. CmdControlStreamID c = cs)) states limit ids))))"
    by (simp only: k_def writeCommandCollection_def same)
  show ?thesis
    unfolding run e(1) k read_def by (rule found [unfolded e(2,3)])
qed

section \<open>Control streams\<close>

text \<open>A control stream as its body gives it, with the link to its schema artifact.\<close>

definition controlStreamPosted :: "env \<Rightarrow> request \<Rightarrow> response \<Rightarrow> contents \<Rightarrow> contents \<Rightarrow> bool" where
  "controlStreamPosted X r resp m m' \<longleftrightarrow>
     (\<exists>eid ts schema aid. decodeControlStreamRequest X r = Inr (eid, ts, schema) \<and>
        resp = createdResponse [] (''/controlstreams/'' @ eid) eid ''ControlStream'' \<and>
        created X eid (ts @ [ref_triple X eid predControlStreamSchema aid]) m m')"

definition requestSchema :: "env \<Rightarrow> request \<Rightarrow> string" where
  "requestSchema X r =
     (case decodeControlStreamRequest X r of Inl _ \<Rightarrow> [] | Inr (eid, ts, schema) \<Rightarrow> commandParametersSchemaRaw X schema)"

lemma decodeControlStreamRequest_refused: "decodeControlStreamRequest X r = Inl resp \<Longrightarrow> Status resp \<in> {400, 413, 415}"
  by (auto simp: decodeControlStreamRequest_def dest: readBody_Status split: option.splits sum.splits)

lemma decodeControlStreamRequest_subject:
  "decodeControlStreamRequest X r = Inr (eid, ts, schema) \<Longrightarrow> list_all (\<lambda>t. Subject t = eid) ts"
  by (auto simp: decodeControlStreamRequest_def buildControlStreamTriples_def controlStreamTriples_def Let_def
      split: option.splits sum.splits if_splits)

text \<open>POST /controlstreams is an artifact step followed by the create of one control stream: a
  201 names an entity that was not there and has the body's facts and the link to the artifact of
  its command schema. On any other answer the graph has gained at most the schema artifact, or the
  client is told that the outcome is uncertain.\<close>

theorem control_stream_post_outcome:
  assumes "graph_contract X B ents" "effect_law X B ents" "store_law B ents objs"
    and "handleControlStreamPost X B ctx identity r g = (resp, g')"
  shows "datastream_write X (requestSchema X r) 201 (controlStreamPosted X r resp) resp (ents (World g)) (ents (World g'))"
proof (cases "decodeControlStreamRequest X r")
  case (Inl resp')
  with assms(4) decodeControlStreamRequest_refused [OF Inl] have "g' = g" "Status resp \<noteq> 201"
    by (auto simp: handleControlStreamPost_def)
  then show ?thesis by (simp add: datastream_write_same)
next
  case (Inr d)
  then obtain eid ts schema where dec: "decodeControlStreamRequest X r = Inr (eid, ts, schema)" by (cases d) auto
  have laws: "create_law X B ents" "refusal_law X B ents" using assms(1) by (simp_all add: graph_contract_def)
  obtain res g1 where art: "createSchemaArtifact X B ctx eid predControlStreamSchema (commandParametersSchemaRaw X schema)
      identity g = (res, g1)" by fastforce
  have step: "artifact_step X (requestSchema X r) (ents (World g)) (ents (World g1))"
    using createSchemaArtifact_step [OF assms(2,3) art] by (simp add: requestSchema_def dec)
  show ?thesis
  proof (rule datastream_writeI [OF step], cases res)
    case (Inl e)
    have w: "writeBackendError X [attemptedID eid] e g1 = (resp, g')"
      using assms(4) dec art Inl by (simp add: handleControlStreamPost_def Let_def)
    show "write_outcome 201 (controlStreamPosted X r resp) resp (ents (World g1)) (ents (World g'))"
      by (rule outcome_error [OF w]) simp
  next
    case (Inr rel)
    then obtain aid where rel: "rel = ref_triple X eid predControlStreamSchema aid"
      using createSchemaArtifact_rel art by blast
    obtain res2 g2 where ing: "ingestTriples X B ctx (ts @ [rel]) identity g1 = (res2, g2)" by fastforce
    show "write_outcome 201 (controlStreamPosted X r resp) resp (ents (World g1)) (ents (World g'))"
    proof (cases res2)
      case (Inl e)
      have w: "writeBackendError X [attemptedID eid] e g2 = (resp, g')"
        using assms(4) dec art Inr ing Inl by (simp add: handleControlStreamPost_def Let_def)
      show ?thesis
        by (rule outcome_backend [OF w]) (use ingest_refused [OF laws(2) ing [unfolded Inl]] in auto)
    next
      case (Inr u)
      then have ok: "res2 = Inr ()" by simp
      have "resp = createdResponse [] (''/controlstreams/'' @ eid) eid ''ControlStream''" "g' = g2"
        using assms(4) dec art \<open>res = Inr rel\<close> ing ok by (simp_all add: handleControlStreamPost_def Let_def)
      moreover have "created X eid (ts @ [rel]) (ents (World g1)) (ents (World g2))"
        using decodeControlStreamRequest_subject [OF dec] rel
        by (intro ingest_created [OF laws(1) _ ing [unfolded ok]]) simp
      ultimately show ?thesis
        using dec rel by (intro outcome_done) (auto simp: controlStreamPosted_def)
    qed
  qed
qed

section \<open>System events\<close>

lemma system_event_triples:
  "firstStringObject (systemEventTriples X eid sys t b) [PredSystemEventSystem] = Some sys"
  "length (at PredSystemEventSystem (systemEventTriples X eid sys t b)) = 1"
  "length (at PredType (systemEventTriples X eid sys t b)) = 1"
  by (simp_all add: systemEventTriples_def opt_triple_def vocab_defs)

text \<open>An event posted under a system is that system's: a 201 to \<open>POST
  /systems/{id}/events\<close> names an entity that was not there and is now stored as an event of exactly the
  system of the path, whatever system its body names.\<close>

theorem scoped_event_posted:
  assumes "graph_contract X B ents" "EntityIndexingProfile X \<notin> {PredType, PredSystemEventSystem}"
    and "handleSystemScopedEventPost X B ctx identity r g = (resp, g')" "Status resp = 201" "PathValue r ''id'' \<noteq> []"
  shows "\<exists>eid ts kv. resp = createdResponse [] (''/systemEvents/'' @ eid) eid ''SystemEvent'' \<and>
    ents (World g) eid = None \<and> ents (World g') eid = Some (ts, kv) \<and> isSystemEventKind ts \<and>
    EvSystemID (systemEventFromState X (state_of eid ts None)) = PathValue r ''id''"
proof -
  let ?sys = "PathValue r ''id''"
  have "createFromBody X B ctx identity r [MediaJSON] (buildSystemEventTriples X ?sys) ''/systemEvents/'' ''SystemEvent'' g = (resp, g')"
    using assms(3,4) withValidID_ok [of X "''system''" ?sys _ g resp g']
    by (auto simp: handleSystemScopedEventPost_def handleSystemEventPostWithSystem_def)
  from system_event_body.create_outcome [OF assms(1) this] assms(4)
  obtain body eid bts where c: "buildSystemEventTriples X ?sys body = Inr (eid, bts)"
    "resp = createdResponse [] (''/systemEvents/'' @ eid) eid ''SystemEvent''" "created X eid bts (ents (World g)) (ents (World g'))"
    by (auto simp: created_outcome_def write_outcome_def)
  then obtain t b where b: "bts = systemEventTriples X eid ?sys t b"
    using assms(5) by (auto simp: buildSystemEventTriples_def Let_def split: option.splits if_splits)
  obtain ts kv where s: "ents (World g') eid = Some (ts, kv)" "ents (World g) eid = None"
    using c(3) by (auto simp: created_def)
  have "firstStringObject ts [p] = firstStringObject bts [p]" if "p \<in> {PredType, PredSystemEventSystem}" for p
    using created_first [OF c(3) s(1), of p] assms(2) that system_event_triples(2,3) [of X eid ?sys t b] b by auto
  then have "isSystemEventKind ts \<and> EvSystemID (systemEventFromState X (state_of eid ts None)) = ?sys"
    using system_event_body.typed [OF c(1)] system_event_triples(1) [of X eid ?sys t b] b
    by (simp add: isSystemEventKind_def systemEventFromState_def state_of_def Let_def or_empty_def)
  with c s show ?thesis by blast
qed

text \<open>An event is only shown under its own system: a 200 to \<open>GET
  /systems/{id}/events/{eventID}\<close> means that the graph holds an event under the ID and that its system
  is the one of the path; nothing is changed.\<close>

theorem scoped_event_shown:
  assumes "query_law X B ents" "handleSystemScopedEvent X B r g = (resp, g')" "Status resp = 200" "PathValue r ''id'' \<noteq> []"
  shows "ents (World g') = ents (World g) \<and>
    (\<exists>ts kv. ents (World g) (PathValue r ''eventID'') = Some (ts, kv) \<and> isSystemEventKind ts \<and>
       firstStringObject ts [PredSystemEventSystem] = Some (PathValue r ''id''))"
proof -
  let ?sys = "PathValue r ''id''"
  have ok: "Status resp \<notin> refusals" using assms(3) by simp
  have "writeSystemEventItem X B r (PathValue r ''eventID'') ?sys g = (resp, g')"
    using withValidID_ok [OF assms(2) [unfolded handleSystemScopedEvent_def] ok] by blast
  from withValidID_ok [THEN conjunct2, OF _ ok] negotiated_ok [OF this [unfolded writeSystemEventItem_def] ok]
  obtain state g1 kv where s: "EntityID state = PathValue r ''eventID''" "isSystemEventKind (EntityTriples state)"
    "ents (World g) (PathValue r ''eventID'') = Some (EntityTriples state, kv)" "ents (World g1) = ents (World g)"
    and k: "(let ev = systemEventFromState X state in
       if ?sys \<noteq> [] \<and> EvSystemID ev \<noteq> ?sys
       then (writeJSONError [] 404 ''SystemEvent is not associated with the requested system'', g1)
       else encodeBody r [contentTypeJSON, lossy] False (Some (systemEventJson X ev)) g1) = (resp, g')"
    using withEntity_ok [OF assms(1) _ ok, of isSystemEventKind] by blast
  have "EvSystemID (systemEventFromState X state) = ?sys" "World g' = World g1"
    using k assms(3,4) by (auto simp: Let_def encodeBody_def split: if_splits)
  then have "firstStringObject (EntityTriples state) [PredSystemEventSystem] = Some ?sys"
    using assms(4) by (auto simp: systemEventFromState_def Let_def or_empty_def split: option.splits)
  with s \<open>World g' = World g1\<close> show ?thesis by auto
qed

end
