(* ===== verification/FeatureOutcomes.thy ===== *)
theory FeatureOutcomes
  imports CommandOutcomes Properties Deployments Procedures SamplingFeatures SystemReads
begin

text \<open>
  What the property, deployment, procedure and sampling feature handlers do to the graph, and what the
  collections show of it: interpretations of \<open>resource_body\<close> and \<open>resource_view\<close>, with the system
  collection's filters, the subsystems of a system and the subdeployments of a deployment.
\<close>

section \<open>Bodies\<close>

lemma triplesFromLinks_subject [simp]: "list_all (\<lambda>t. Subject t = eid) (triplesFromLinks eid p links)"
  by (induction links) (auto simp: triplesFromLinks_def list_all_iff)

lemma locationTriples_subject [simp]: "list_all (\<lambda>t. Subject t = eid) (locationTriplesFromGeometry X eid g)"
  using locationTriples_pieces [of _ X eid g] by (auto simp: list_all_iff)

lemma overrideType_subject: "overrideType ts = Some ts' \<Longrightarrow> list_all (\<lambda>t. Subject t = e) ts' = list_all (\<lambda>t. Subject t = e) ts"
  by (induction ts arbitrary: ts') (auto split: if_splits)

lemma overrideType_typed: "overrideType ts = Some ts' \<Longrightarrow> firstStringObject ts' [PredType] = Some SosaProcedure"
  by (induction ts arbitrary: ts') (auto split: if_splits obj.splits)

lemma overrideType_None: "overrideType ts = None \<Longrightarrow> at PredType ts = []"
  by (induction ts) (auto simp: at_def split: if_splits)

interpretation property_body: resource_body "buildPropertyTriples X" SosaObservableProperty for X
  by unfold_locales (auto simp: buildPropertyTriples_def propertyTriples_def Let_def split: option.splits if_splits)

interpretation deployment_body: resource_body "buildDeploymentTriplesFromFeature X" SSNDeployment for X
  by unfold_locales (auto simp: buildDeploymentTriplesFromFeature_def Let_def split: option.splits if_splits)

interpretation sampling_feature_body: resource_body "buildSamplingFeatureTriplesFromFeature X" SosaSample for X
  by unfold_locales (auto simp: buildSamplingFeatureTriplesFromFeature_def Let_def split: option.splits if_splits)

lemma procedureTyped_typed: "firstStringObject (procedureTyped eid ts) [PredType] = Some SosaProcedure"
proof (cases "overrideType ts")
  case None
  with overrideType_None [OF None] show ?thesis by (subst first_at) (simp add: procedureTyped_def)
qed (simp add: procedureTyped_def overrideType_typed)

lemma procedureTyped_subject: "list_all (\<lambda>t. Subject t = eid) ts \<Longrightarrow> list_all (\<lambda>t. Subject t = eid) (procedureTyped eid ts)"
  by (auto simp: procedureTyped_def overrideType_subject split: option.split)

lemma sensorMLRootTriples_subject: "list_all (\<lambda>t. Subject t = eid) (sensorMLRootTriples X eid p)"
  by (auto simp: sensorMLRootTriples_def rootSubjectTriples_def list_all_iff)

lemma sensorML_procedure_built:
  assumes "buildProcedureTriplesFromSensorML X body = Inr (eid, ts)"
  shows "list_all (\<lambda>t. Subject t = eid) ts \<and> firstStringObject ts [PredType] = Some SosaProcedure"
proof -
  obtain process where "ts = procedureTyped eid (sensorMLRootTriples X eid process)"
    using assms by (auto simp: buildProcedureTriplesFromSensorML_def Let_def split: option.splits sum.splits if_splits)
  then show ?thesis by (simp add: procedureTyped_typed procedureTyped_subject sensorMLRootTriples_subject)
qed

lemma feature_procedure_built:
  assumes "buildProcedureTriplesFromFeature X body = Inr (eid, ts)"
  shows "list_all (\<lambda>t. Subject t = eid) ts \<and> firstStringObject ts [PredType] = Some SosaProcedure"
  using assms by (auto simp: buildProcedureTriplesFromFeature_def Let_def split: option.splits if_splits)

interpretation procedure_body: resource_body "postedProcedureTriples X ct" SosaProcedure for X ct
  by unfold_locales
    (use sensorML_procedure_built feature_procedure_built in \<open>auto simp: postedProcedureTriples_def split: if_splits\<close>)

section \<open>Views\<close>

interpretation system_view: resource_view kind systemFromState for kind
  by unfold_locales (simp add: systemFromState_def state_of_def)

interpretation property_view: resource_view isPropertyKind propertyFromState
  by unfold_locales (simp add: propertyFromState_def state_of_def)

interpretation deployment_view: resource_view isDeploymentKind deploymentFromState
  by unfold_locales (simp add: deploymentFromState_def state_of_def)

interpretation deployment_id_view: resource_view kind EntityID for kind
  by unfold_locales (simp add: state_of_def)

interpretation procedure_view: resource_view isProcedureKind procedureFromState
  by unfold_locales (simp add: procedureFromState_def state_of_def)

interpretation sampling_feature_view: resource_view isSamplingFeatureKind samplingFeatureFromState
  by unfold_locales (simp add: samplingFeatureFromState_def state_of_def)

end
