(* ===== verification/Reachable.thy ===== *)
theory Reachable
  imports DatastreamOutcomes SystemWrites
begin

text \<open>
  What the write handlers may do to the graph. Each of them moves it by a few permitted
  steps: a create of an entity that its contract accepts, a reconcile of the representation of an
  entity under its own contract, a delete. Here they are proved of the operations and of the handlers of systems
  and datastreams; \<open>ServerRuns\<close> adds the other handlers and draws the conclusion for whole runs of the server.
\<close>

section \<open>Well-formed entities\<close>

definition contractFor :: "env \<Rightarrow> string \<Rightarrow> triple list \<Rightarrow> contract option" where
  "contractFor X eid ts = projectionContractByName X (fst (projectionForTriples X eid ts))"

text \<open>Every fact, the framework's indexing profile aside, is about the entity and declared.\<close>

definition declared :: "env \<Rightarrow> contract \<Rightarrow> string \<Rightarrow> triple list \<Rightarrow> bool" where
  "declared X c eid ts \<longleftrightarrow>
     (\<forall>t \<in> set ts. Predicate t = EntityIndexingProfile X \<or>
        Subject t = eid \<and> Predicate t \<in> set (allowedPredicates c))"

definition typed :: "string \<Rightarrow> string \<Rightarrow> triple list \<Rightarrow> bool" where
  "typed eid iri ts \<longleftrightarrow> set (at PredType ts) = {str_triple eid PredType iri}"

definition well_formed :: "env \<Rightarrow> string \<Rightarrow> triple list \<Rightarrow> bool" where
  "well_formed X eid ts \<longleftrightarrow>
     (\<exists>iri c. typed eid iri ts \<and> contractFor X eid ts = Some c \<and> declared X c eid ts)"

definition well_formed_graph :: "env \<Rightarrow> contents \<Rightarrow> bool" where
  "well_formed_graph X m \<longleftrightarrow> (\<forall>eid ts kv. m eid = Some (ts, kv) \<longrightarrow> well_formed X eid ts)"

lemma typed_first: "typed eid iri ts \<Longrightarrow> firstStringObject ts [PredType] = Some iri"
proof -
  assume t: "typed eid iri ts"
  then obtain u us where u: "at PredType ts = u # us" by (cases "at PredType ts") (auto simp: typed_def)
  with t have "u = str_triple eid PredType iri" by (auto simp: typed_def)
  with u show ?thesis by (subst first_at) simp
qed

lemma contractFor_typed:
  "typed eid iri ts \<Longrightarrow> typed eid iri us \<Longrightarrow> contractFor X eid ts = contractFor X eid us"
  by (simp add: contractFor_def projectionForTriples_def typed_first)

lemma owned_declared:
  assumes "declared X c eid ts" "declared X c eid old"
    and "owned ps new = owned ps ts" "others ps new = others ps old"
  shows "declared X c eid new"
proof -
  have "set new = owned ps new \<union> others ps new" "owned ps ts \<subseteq> set ts" "others ps old \<subseteq> set old"
    by (auto simp: owned_def others_def)
  with assms(3,4) have "set new \<subseteq> set ts \<union> set old" by auto
  with assms(1,2) show ?thesis unfolding declared_def by blast
qed

lemma at_others: "p \<notin> set ps \<Longrightarrow> set (at p ts) = {t \<in> others ps ts. Predicate t = p}"
  by (auto simp: others_def at_def)

lemma others_typed:
  "others ps new = others ps old \<Longrightarrow> PredType \<notin> set ps \<Longrightarrow> set (at PredType new) = set (at PredType old)"
  by (simp add: at_others)

section \<open>The permitted steps\<close>

inductive permitted :: "env \<Rightarrow> contents \<Rightarrow> contents \<Rightarrow> bool" for X where
  perm_create: "created X eid ts m m' \<Longrightarrow> well_formed X eid ts \<Longrightarrow> permitted X m m'"
| perm_reconcile:
    "m eid = Some (old, kv) \<Longrightarrow> contractFor X eid old = Some c \<Longrightarrow> representationGroup X c = Some ps \<Longrightarrow>
     declared X c eid ts \<Longrightarrow> reconciled eid kv ps ts m m' \<Longrightarrow> permitted X m m'"

lemma representation_no_type:
  assumes "contractFor X eid old = Some c" "representationGroup X c = Some ps"
  shows "PredType \<notin> set ps"
proof -
  have "ps \<in> {systemPredicates, datastreamPredicates}"
    using representation_contract assms unfolding contractFor_def by blast
  then show ?thesis
    by (auto simp: systemPredicates_def datastreamPredicates_def commonPredicates_def geoPredicates_def vocab_defs)
qed

lemma permitted_well_formed:
  assumes "permitted X m m'" "well_formed_graph X m" "EntityIndexingProfile X \<noteq> PredType"
  shows "well_formed_graph X m'"
  using assms(1)
proof cases
  case (perm_create eid ts)
  then obtain new kv where m': "m' = m(eid \<mapsto> (new, kv))"
    "others [EntityIndexingProfile X] new = others [EntityIndexingProfile X] ts" by (auto simp: created_def)
  obtain iri c where wf: "typed eid iri ts" "contractFor X eid ts = Some c" "declared X c eid ts"
    using perm_create(2) by (auto simp: well_formed_def)
  have "typed eid iri new"
    using others_typed [OF m'(2)] wf(1) assms(3) by (simp add: typed_def)
  moreover have "declared X c eid new"
    using m'(2) wf(3) unfolding declared_def others_def by simp blast
  ultimately have "well_formed X eid new"
    using wf contractFor_typed unfolding well_formed_def by metis
  with m'(1) assms(2) show ?thesis by (simp add: well_formed_graph_def)
next
  case (perm_reconcile eid old kv c ps ts)
  from perm_reconcile(1,5) obtain new kv' where m': "m' = m(eid \<mapsto> (new, kv'))"
    "owned ps new = owned ps ts" "others ps new = others ps old" by (auto simp: reconciled_def)
  from assms(2) perm_reconcile(1) have "well_formed X eid old" by (auto simp: well_formed_graph_def)
  with perm_reconcile(2) obtain iri where wf: "typed eid iri old" "declared X c eid old"
    by (auto simp: well_formed_def)
  have "typed eid iri new"
    using others_typed [OF m'(3) representation_no_type [OF perm_reconcile(2,3)]] wf(1) by (simp add: typed_def)
  with owned_declared [OF perm_reconcile(4) wf(2) m'(2,3)] have "well_formed X eid new"
    using wf(1) perm_reconcile(2) contractFor_typed unfolding well_formed_def by metis
  with m'(1) assms(2) show ?thesis by (simp add: well_formed_graph_def)
qed

text \<open>An entity that is there stays, with the type facts it has.\<close>

definition retains :: "contents \<Rightarrow> contents \<Rightarrow> bool" where
  "retains m m' \<longleftrightarrow>
     (\<forall>eid ts kv. m eid = Some (ts, kv) \<longrightarrow>
        (\<exists>ts' kv'. m' eid = Some (ts', kv') \<and> set (at PredType ts') = set (at PredType ts)))"

lemma retains_trans: "retains m m1 \<Longrightarrow> retains m1 m' \<Longrightarrow> retains m m'"
  unfolding retains_def by metis

lemma permitted_retains:
  assumes "permitted X m m'"
  shows "retains m m'"
  using assms
proof cases
  case (perm_reconcile eid old kv c ps ts)
  from perm_reconcile(1,5) obtain new kv' where m': "m' = m(eid \<mapsto> (new, kv'))" "others ps new = others ps old"
    by (auto simp: reconciled_def)
  with others_typed [OF m'(2) representation_no_type [OF perm_reconcile(2,3)]] perm_reconcile(1) show ?thesis
    by (auto simp: retains_def)
qed (auto simp: retains_def created_def)

lemma permitted_run:
  assumes "(permitted X)\<^sup>*\<^sup>* m m'"
  shows "retains m m'"
    and "EntityIndexingProfile X \<noteq> PredType \<Longrightarrow> well_formed_graph X m \<Longrightarrow> well_formed_graph X m'"
  using assms
  by (induction rule: rtranclp_induct)
    (auto intro: retains_trans permitted_retains permitted_well_formed simp: retains_def [of m m])

section \<open>What the operations do\<close>

lemma createProjectedEntity_checked:
  assumes "effect_law X B ents"
    and "createProjectedEntity X B ctx name eid ts mt sr identity op g = (r, g')"
  shows "ents (World g') = ents (World g) \<or>
     created X eid ts (ents (World g)) (ents (World g')) \<and>
     (\<exists>c. projectionContractByName X name = Some c \<and> checkFacts c eid 0 ts = None)"
proof -
  have "World g' = World g \<or> (\<exists>c. projectionContractByName X name = Some c \<and> checkFacts c eid 0 ts = None)"
    using assms(2) unfolding createProjectedEntity_def
    by (auto simp: Let_def validateProjectionFacts_def split: if_splits option.splits sum.splits)
  with createProjectedEntity_effect [OF assms] show ?thesis by auto
qed

lemma checked_declared: "checkFacts c eid i ts = None \<Longrightarrow> declared X c eid ts"
  by (auto simp: checkFacts_None declared_def)

lemma create_permitted:
  assumes "effect_law X B ents"
    and "createProjectedEntity X B ctx name eid ts mt sr identity op g = (r, g')"
    and "at PredType ts = [str_triple eid PredType iri]" "fst (projectionForTriples X eid ts) = name"
  shows "(permitted X)\<^sup>*\<^sup>* (ents (World g)) (ents (World g'))"
  using createProjectedEntity_checked [OF assms(1,2)]
proof
  assume c: "created X eid ts (ents (World g)) (ents (World g')) \<and>
     (\<exists>c. projectionContractByName X name = Some c \<and> checkFacts c eid 0 ts = None)"
  with assms(3,4) checked_declared have "well_formed X eid ts"
    unfolding well_formed_def typed_def contractFor_def by fastforce
  with c show ?thesis by (blast intro: perm_create)
qed simp

lemma reconcileEntity_permitted:
  assumes "effect_law X B ents"
    and "reconcileEntity X B ctx exact desired identity op g = (r, g')"
    and "Entity exact = Some e" "ents (World g) (EntityID e) = Some (EntityTriples e, KVRevision exact)"
  shows "(permitted X)\<^sup>*\<^sup>* (ents (World g)) (ents (World g'))"
proof -
  let ?c = "contractFor X (EntityID e) (EntityTriples e)"
  have "World g' = World g \<or>
     (\<exists>c ps tr rq a g1 res g2. ?c = Some c \<and> representationGroup X c = Some ps \<and>
        checkFacts c (EntityID e) 0 desired = None \<and> World g1 = World g \<and> World g' = World g2 \<and>
        requestTypedMutation X B ctx (ReconcilePredicatesRequest (EntityID e) (KVRevision exact) ps
          (triplesForPredicates desired ps) tr rq) a g1 = (res, g2))"
    using assms(2,3) unfolding reconcileEntity_def contractFor_def
    by (auto simp: Let_def validateProjectionFacts_def auditMutation_def
        split: if_splits option.splits sum.splits prod.splits reply_data.splits
        dest!: newMutationAttempt_eq; blast)
  then show ?thesis
  proof (elim disjE exE conjE)
    fix c ps tr rq a g1 res g2
    assume c: "?c = Some c" "representationGroup X c = Some ps" "checkFacts c (EntityID e) 0 desired = None"
      and w: "World g1 = World g" "World g' = World g2"
      and run: "requestTypedMutation X B ctx (ReconcilePredicatesRequest (EntityID e) (KVRevision exact) ps
          (triplesForPredicates desired ps) tr rq) a g1 = (res, g2)"
    have "declared X c (EntityID e) (triplesForPredicates desired ps)"
      using checked_declared [OF c(3)] by (auto simp: declared_def triplesForPredicates_def)
    with requestTypedMutation_effect [OF assms(1) run] w c(1,2) assms(4) show ?thesis
      by (auto intro: perm_reconcile)
  qed simp
qed

definition removed :: "string \<Rightarrow> contents \<Rightarrow> contents \<Rightarrow> bool" where
  "removed eid m m' \<longleftrightarrow> m' = m \<or> m' = m(eid := None)"

lemma deleteExactEntity_removes:
  assumes "effect_law X B ents" "deleteExactEntity X B ctx exact identity g = (r, g')" "Entity exact = Some e"
  shows "removed (EntityID e) (ents (World g)) (ents (World g'))"
proof -
  have "World g' = World g \<or> (\<exists>kv tr rq a g1 res g2. World g1 = World g \<and> World g' = World g2 \<and>
      requestTypedMutation X B ctx (DeleteEntityRequest (EntityID e) kv tr rq) a g1 = (res, g2))"
    using assms(2,3) unfolding deleteExactEntity_def
    by (auto simp: Let_def auditMutation_def split: if_splits option.splits sum.splits prod.splits reply_data.splits
        dest!: newMutationAttempt_eq; blast)
  then show ?thesis
    using requestTypedMutation_effect [OF assms(1)] by (fastforce simp: removed_def)
qed

section \<open>What is created falls under the contract it is created with\<close>

text \<open>The contract of an entity whose type names none is chosen by comparing its ID with the ID
  prefixes as strings, without the dot; so the System prefix and the four others must not begin
  one another.\<close>

definition begins :: "string \<Rightarrow> string \<Rightarrow> bool" where
  "begins p s \<longleftrightarrow> take (length p) s = p"

definition separatePrefixes :: "Config \<Rightarrow> bool" where
  "separatePrefixes cfg \<longleftrightarrow>
     list_all (\<lambda>p. \<not> begins p (SystemIDPrefix cfg) \<and> \<not> begins (SystemIDPrefix cfg) p)
       [ProcedureIDPrefix cfg, DeploymentIDPrefix cfg, SamplingFeatureIDPrefix cfg, PropertyIDPrefix cfg]"

lemma begins_append: "begins p (s @ r) \<Longrightarrow> begins p s \<or> begins s p"
  unfolding begins_def by (metis nat_le_linear take_all_iff take_append take_take append_Nil2 diff_is_0_eq min_def take_eq_Nil)

definition ordinaryType :: "string \<Rightarrow> bool" where
  "ordinaryType iri \<longleftrightarrow>
     iri \<notin> {DatastreamTypeIRI, ControlStreamIRI, CommandIRI, SystemEventIRI, FeasibilityIRI, SWESchemaDocumentIRI}"

lemma system_projection:
  assumes "separatePrefixes (Cfg X)" "firstStringObject ts [PredType] = Some iri" "ordinaryType iri"
  shows "fst (projectionForTriples X (mintSystemEntityID X uid) ts) = systemProjectionContractName"
proof -
  have "\<exists>tok. mintSystemEntityID X uid = SystemIDPrefix (Cfg X) @ ''.'' @ tok"
    by (simp add: mintSystemEntityID_def mintEntityID_def mintEntityIDWithToken_def Let_def)
  then obtain tok where eid: "mintSystemEntityID X uid = SystemIDPrefix (Cfg X) @ ''.'' @ tok" ..
  have "\<not> begins p (mintSystemEntityID X uid)"
    if "p \<in> {ProcedureIDPrefix (Cfg X), DeploymentIDPrefix (Cfg X), SamplingFeatureIDPrefix (Cfg X), PropertyIDPrefix (Cfg X)}" for p
    using begins_append [of p "SystemIDPrefix (Cfg X)" "''.'' @ tok"] that assms(1)
    by (auto simp: eid separatePrefixes_def)
  then show ?thesis
    using assms(2,3) by (simp add: projectionForTriples_def ordinaryType_def begins_def Let_def)
qed

lemma type_predicates:
  "PredType \<notin> set structural" "PredPosition \<noteq> PredType" "PredUniqueID \<noteq> PredType" "PredLabel \<noteq> PredType"
  "PredDescription \<noteq> PredType" "PredType \<notin> set geoPredicates"
  by (simp_all add: structural_def geoPredicates_def vocab_defs)

lemma system_types: "ordinaryType SSNSystem" "ordinaryType (processClassIRI p)"
  by (cases p; simp add: ordinaryType_def processClassIRI_def vocab_defs)+

lemma feature_type:
  "at PredType (systemFeatureTriples X eid feat) = [str_triple eid PredType SSNSystem]"
  using type_predicates pointProjection_other [OF type_predicates(6)]
  by (simp add: systemFeatureTriples_def Let_def locationTriplesFromGeometry_def split: option.split)

lemma sensorML_type:
  "at PredType (sensorMLRootTriples X eid p) = [str_triple eid PredType (processClassIRI p)]"
  by (simp add: sensorMLRootTriples_eq at_base at_structural [OF type_predicates(1)])

section \<open>Every handler makes permitted steps\<close>

text \<open>What is assumed of the services: reads are sound, each request has at most its own effect, and
  the object store is separate from the graph.\<close>

definition services :: "env \<Rightarrow> 's backend \<Rightarrow> ('s \<Rightarrow> contents) \<Rightarrow> ('s \<Rightarrow> string \<Rightarrow> string option) \<Rightarrow> bool" where
  "services X B ents objs \<longleftrightarrow>
     query_law X B ents \<and> effect_law X B ents \<and> store_law B ents objs \<and>
     (\<forall>s w. ents (snd (PurgeSubject B s w)) = ents w)"

lemma servicesD:
  assumes "services X B ents objs"
  shows "query_law X B ents" "effect_law X B ents" "store_law B ents objs"
    "ents (snd (PurgeSubject B s w)) = ents w"
  using assms by (simp_all add: services_def)

definition steps :: "env \<Rightarrow> ('s \<Rightarrow> contents) \<Rightarrow> 's gateway \<Rightarrow> 's gateway \<Rightarrow> bool" where
  "steps X ents g g' \<longleftrightarrow> (permitted X)\<^sup>*\<^sup>* (ents (World g)) (ents (World g'))"

lemma steps_same: "ents (World g') = ents (World g) \<Longrightarrow> steps X ents g g'"
  by (simp add: steps_def)

lemma steps_refl [simp]: "steps X ents g g"
  by (simp add: steps_def)

lemma steps_trans: "steps X ents g g1 \<Longrightarrow> steps X ents g1 g' \<Longrightarrow> steps X ents g g'"
  unfolding steps_def by (rule rtranclp_trans)

lemma steps_error [simp]:
  "writeBackendError X hs e g = (resp, g') \<Longrightarrow> steps Y ents g0 g' = steps Y ents g0 g"
  using backendError_World [of X hs e g] by (simp add: steps_def)

lemma error_World: "writeBackendError X hs e g = (resp, g') \<Longrightarrow> World g' = World g"
  using backendError_World [of X hs e g] by simp

lemma fetch_steps:
  "services X B ents objs \<Longrightarrow> fetchEntityExact X B eid g = (r, g') \<Longrightarrow> steps X ents g g'"
  by (rule steps_same) (rule fetchEntityExact_contents [OF servicesD(1)])

lemma ingest_steps:
  assumes "services X B ents objs" "ingestTriples X B ctx ts identity g = (r, g')"
    and "at PredType ts = [str_triple eid PredType iri]"
  shows "steps X ents g g'"
proof (cases "singleSubject ts")
  case (Inl e)
  with assms(2) show ?thesis by (simp add: ingestTriples_def)
next
  case (Inr s)
  obtain name mt where p: "projectionForTriples X s ts = (name, mt)" by fastforce
  have "str_triple eid PredType iri \<in> set (at PredType ts)" by (simp add: assms(3))
  then have "str_triple eid PredType iri \<in> set ts" by (simp add: at_def)
  with singleSubject_all [OF Inr] have "s = eid" by auto
  with assms(2) Inr p have
    "createProjectedEntity X B ctx name eid ts mt None identity ''ingestTriples'' g = (r, g')"
    by (simp add: ingestTriples_def)
  from create_permitted [OF servicesD(2) [OF assms(1)] this assms(3)] p \<open>s = eid\<close> show ?thesis
    by (simp add: steps_def)
qed

lemma replace_steps:
  assumes "services X B ents objs" "replaceEntityTriples X B ctx exact ts identity g = (r, g')"
    and "Entity exact = Some e" "ents (World g) (EntityID e) = Some (EntityTriples e, KVRevision exact)"
  shows "steps X ents g g'"
  using reconcileEntity_permitted [OF servicesD(2) [OF assms(1)] _ assms(3,4)] assms(2)
  by (simp add: steps_def replaceEntityTriples_def)

lemma put_steps:
  assumes "services X B ents objs" "putEntityTriples X B ctx eid ts identity g = (r, g')"
    and "at PredType ts = [str_triple s PredType iri]"
  shows "steps X ents g g'"
proof -
  obtain res g1 where fetch: "fetchEntityExact X B eid g = (res, g1)" by fastforce
  note one = fetch_steps [OF assms(1) fetch]
  show ?thesis
  proof (cases res)
    case (Inl e)
    with assms(2) fetch one ingest_steps [OF assms(1) _ assms(3)] show ?thesis
      by (auto simp: putEntityTriples_def split: if_splits intro: steps_trans)
  next
    case (Inr ex)
    from fetchEntityExact_state [OF servicesD(1) [OF assms(1)] fetch [unfolded Inr]] obtain e where
      "Entity ex = Some e" "ents (World g1) (EntityID e) = Some (EntityTriples e, KVRevision ex)" by auto
    from replace_steps [OF assms(1) _ this] assms(2) fetch Inr one show ?thesis
      by (auto simp: putEntityTriples_def intro: steps_trans)
  qed
qed

lemma delete_removes:
  assumes "services X B ents objs" "deleteEntity X B ctx eid identity g = (r, g')"
  shows "removed eid (ents (World g)) (ents (World g'))"
proof -
  obtain res g1 where fetch: "fetchEntityExact X B eid g = (res, g1)" by fastforce
  note one = fetchEntityExact_contents [OF servicesD(1) [OF assms(1)] fetch]
  show ?thesis
  proof (cases res)
    case (Inl e)
    with assms(2) fetch one show ?thesis by (auto simp: deleteEntity_def removed_def split: if_splits)
  next
    case (Inr ex)
    from fetchEntityExact_state [OF servicesD(1) [OF assms(1)] fetch [unfolded Inr]] obtain e where
      e: "Entity ex = Some e" "EntityID e = eid" by auto
    from assms(2) fetch Inr have "deleteExactEntity X B ctx ex identity g1 = (r, g')" by (simp add: deleteEntity_def)
    from deleteExactEntity_removes [OF servicesD(2) [OF assms(1)] this e(1)] e(2) one show ?thesis by simp
  qed
qed

lemma publish_steps:
  assumes "services X B ents objs" "publishArtifact X B ctx aid canon digest identity g = (e, g')"
  shows "steps X ents g g'"
proof -
  note law = servicesD [OF assms(1)]
  let ?ref = "artifactStorageRef (schemaArtifactObjectKey aid) canon"
  obtain c g1 where create: "createProjectedEntity X B ctx schemaArtifactProjectionContractName aid
      (artifactTriples aid) schemaArtifactProjectionMessageType (Some ?ref) identity ''createSchemaArtifact'' g = (c, g1)"
    by fastforce
  obtain f g2 where fetch: "fetchEntityExact X B aid g1 = (f, g2)" by fastforce
  have "steps X ents g g1"
    unfolding steps_def
    by (rule create_permitted [OF law(2) create, where iri = SWESchemaDocumentIRI])
      (simp_all add: artifactTriples_def projectionForTriples_def vocab_defs)
  moreover have "steps X ents g1 g2" by (rule fetch_steps [OF assms(1) fetch])
  moreover have "g' = g1 \<or> g' = g2 \<or>
      (\<exists>e'. verifyStored X B (schemaArtifactObjectKey aid) canon digest g2 = (e', g'))"
    using assms(2) create fetch
    by (auto simp: publishArtifact_def Let_def split: sum.splits if_splits option.splits)
  ultimately show ?thesis
    using verifyStored_sound [OF law(3)] steps_same steps_trans by metis
qed

lemma artifact_steps:
  assumes "services X B ents objs" "createSchemaArtifact X B ctx eid rel schema identity g = (r, g')"
  shows "steps X ents g g'"
proof (cases "normalizeSWESchema X schema")
  case (Inl e)
  with assms(2) show ?thesis
    by (auto simp: createSchemaArtifact_def Let_def split: if_splits)
next
  case (Inr canon)
  let ?d = "Sha256Hex (Ids X) canon"
  let ?aid = "contentAddressedSchemaArtifactID X ?d"
  obtain e g1 where ens: "ensureObject X B (schemaArtifactObjectKey ?aid) canon ?d g = (e, g1)" by fastforce
  obtain e2 g2 where pub: "publishArtifact X B ctx ?aid canon ?d identity g1 = (e2, g2)" by fastforce
  have "steps X ents g g1"
    by (rule steps_same) (use ensureObject_sound [OF servicesD(3) [OF assms(1)] ens] in blast)
  moreover have "steps X ents g1 g2" by (rule publish_steps [OF assms(1) pub])
  moreover have "g' = g \<or> g' = g1 \<or> g' = g2"
    using assms(2) Inr ens pub
    by (auto simp: createSchemaArtifact_def Let_def split: if_splits option.splits)
  ultimately show ?thesis using steps_trans steps_refl by metis
qed

lemma attach_steps:
  assumes "services X B ents objs" "attachSchema X B ctx eid has schema identity g = (r, g')"
  shows "steps X ents g g'"
  using assms(2) artifact_steps [OF assms(1)]
  by (auto simp: attachSchema_def split: if_splits prod.splits sum.splits)

lemma datastream_type:
  assumes "rel = [] \<or> (\<exists>aid. rel = [ref_triple X eid PredDatastreamSchema aid])"
  shows "at PredType (datastreamToTriples Y eid d @ rel) = [str_triple eid PredType DatastreamTypeIRI]"
  using assms datastream_neqs by (auto simp: datastreamToTriples_def)

lemma datastream_post_steps:
  assumes "services X B ents objs" "handleDatastreamPost X B ctx identity r g = (resp, g')"
  shows "steps X ents g g'"
proof (cases "decodeDatastreamPost X r")
  case (Inl e)
  with assms(2) show ?thesis by (simp add: handleDatastreamPost_def)
next
  case (Inr d)
  define eid where "eid = (if DsID d = [] then mintDatastreamEntityID X else DsID d)"
  obtain a g1 where att: "attachSchema X B ctx eid (DsSchema d \<noteq> []) (DsSchema d) identity g = (a, g1)" by fastforce
  note one = attach_steps [OF assms(1) att]
  show ?thesis
  proof (cases a)
    case (Inl e)
    with assms(2) \<open>decodeDatastreamPost X r = Inr d\<close> att one show ?thesis
      by (simp add: handleDatastreamPost_def Let_def eid_def)
  next
    case (Inr rel)
    note ty = datastream_type [OF attachSchema_rel [OF att [unfolded Inr]]]
    obtain res g2 where ing: "ingestTriples X B ctx (datastreamToTriples X eid d @ rel) identity g1 = (res, g2)" by fastforce
    from steps_trans [OF one ingest_steps [OF assms(1) ing ty]] assms(2) Inr \<open>decodeDatastreamPost X r = Inr d\<close> att ing
    show ?thesis by (auto simp: handleDatastreamPost_def Let_def eid_def split: sum.splits)
  qed
qed

lemma datastream_put_steps:
  assumes "services X B ents objs" "handleDatastreamPut X B ctx identity r g = (resp, g')"
  shows "steps X ents g g'"
proof (cases "decodeDatastreamPut X (PathValue r ''id'') r")
  case (Inl e)
  with assms(2) show ?thesis by (simp add: handleDatastreamPut_def Let_def)
next
  case (Inr d)
  let ?id = "PathValue r ''id''"
  obtain a g1 where att: "attachSchema X B ctx ?id (DsSchema d \<noteq> []) (DsSchema d) identity g = (a, g1)" by fastforce
  note one = attach_steps [OF assms(1) att]
  show ?thesis
  proof (cases a)
    case (Inl e)
    with assms(2) \<open>decodeDatastreamPut X ?id r = Inr d\<close> att one show ?thesis
      by (simp add: handleDatastreamPut_def Let_def)
  next
    case (Inr rel)
    note ty = datastream_type [OF attachSchema_rel [OF att [unfolded Inr]]]
    obtain res g2 where put: "putEntityTriples X B ctx ?id (datastreamToTriples X ?id d @ rel) identity g1 = (res, g2)" by fastforce
    from steps_trans [OF one put_steps [OF assms(1) put ty]] assms(2) Inr \<open>decodeDatastreamPut X ?id r = Inr d\<close> att put
    show ?thesis by (auto simp: handleDatastreamPut_def Let_def split: sum.splits)
  qed
qed

lemma apply_patch_steps:
  assumes "services X B ents objs" "applyDatastreamPatch X B ctx identity i has d exact g = (resp, g')"
    and ex: "Entity exact = Some e" "EntityID e = i" "ents (World g) i = Some (EntityTriples e, KVRevision exact)"
  shows "steps X ents g g'"
proof (cases "isDatastreamKind (EntityTriples e) \<and> checkDatastreamMerged X (datastreamFromState e) d = None")
  case False
  with assms(2) ex(1) show ?thesis
    by (auto simp: applyDatastreamPatch_def Let_def split: option.splits if_splits)
next
  case True
  obtain a g1 where att: "attachSchema X B ctx i has (DsSchema d) identity g = (a, g1)" by fastforce
  note one = attach_steps [OF assms(1) att]
  show ?thesis
  proof (cases a)
    case (Inl err)
    with assms(2) ex(1) True att one show ?thesis by (simp add: applyDatastreamPatch_def Let_def)
  next
    case (Inr rel)
    let ?new = "mergePatchDatastreamTriples X i (EntityTriples e) d (case rel of [] \<Rightarrow> None | rt # _ \<Rightarrow> Some rt)"
    obtain res g2 where rep: "replaceEntityTriples X B ctx exact ?new identity g1 = (res, g2)" by fastforce
    note law = servicesD [OF assms(1)]
    have "ents (World g1) (EntityID e) = Some (EntityTriples e, KVRevision exact)"
      using artifact_step_keeps [OF attachSchema_step [OF law(2,3) att] ex(3)] ex(2) by simp
    from steps_trans [OF one replace_steps [OF assms(1) rep ex(1) this]] assms(2) ex(1) True att Inr rep
    show ?thesis by (auto simp: applyDatastreamPatch_def Let_def split: sum.splits)
  qed
qed

lemma datastream_patch_steps:
  assumes "services X B ents objs" "handleDatastreamPatch X B ctx identity r g = (resp, g')"
  shows "steps X ents g g'"
proof (cases "decodeDatastreamPatch X (PathValue r ''id'') r")
  case (Inl e)
  with assms(2) show ?thesis by (simp add: handleDatastreamPatch_def Let_def)
next
  case (Inr p)
  then obtain has d where dec: "decodeDatastreamPatch X (PathValue r ''id'') r = Inr (has, d)" by (cases p) simp
  obtain res g1 where fetch: "fetchEntityExact X B (PathValue r ''id'') g = (res, g1)" by fastforce
  note one = fetch_steps [OF assms(1) fetch]
  show ?thesis
  proof (cases res)
    case (Inl e)
    with assms(2) dec fetch one show ?thesis by (simp add: handleDatastreamPatch_def Let_def)
  next
    case (Inr ex)
    from fetchEntityExact_state [OF servicesD(1) [OF assms(1)] fetch [unfolded Inr]] obtain e where
      e: "Entity ex = Some e" "EntityID e = PathValue r ''id''"
        "ents (World g1) (PathValue r ''id'') = Some (EntityTriples e, KVRevision ex)" by auto
    have "applyDatastreamPatch X B ctx identity (PathValue r ''id'') has d ex g1 = (resp, g')"
      using assms(2) dec fetch Inr by (simp add: handleDatastreamPatch_def Let_def)
    from steps_trans [OF one apply_patch_steps [OF assms(1) this e]] show ?thesis .
  qed
qed

lemma datastream_delete_removes:
  assumes "services X B ents objs" "handleDatastreamDelete X B ctx identity r g = (resp, g')"
  shows "removed (PathValue r ''id'') (ents (World g)) (ents (World g'))"
proof -
  obtain res g1 where del: "deleteEntity X B ctx (PathValue r ''id'') identity g = (res, g1)" by fastforce
  obtain e g2 where purge: "purgeDatastreamObservations X B (PathValue r ''id'') g1 = (e, g2)" by fastforce
  have "ents (World g2) = ents (World g1)"
    using purge servicesD(4) [OF assms(1)]
    by (auto simp: purgeDatastreamObservations_def Let_def split: if_splits prod.splits) (metis snd_conv)
  with delete_removes [OF assms(1) del] have
    "\<And>h. World h \<in> {World g, World g1, World g2} \<Longrightarrow> removed (PathValue r ''id'') (ents (World g)) (ents (World h))"
    by (auto simp: removed_def)
  with assms(2) del purge show ?thesis
    by (auto simp: handleDatastreamDelete_def Let_def split: option.splits sum.splits dest!: error_World)
qed

section \<open>Systems\<close>

lemma feature_system:
  assumes "buildSystemTriplesFromFeature X body = Inr (eid, ts)"
  shows "(\<exists>uid. eid = mintSystemEntityID X uid) \<and> at PredType ts = [str_triple eid PredType SSNSystem]"
proof -
  have "PredIsHostedBy \<noteq> PredType" by (simp add: vocab_defs)
  then show ?thesis
    using assms feature_type
    by (auto simp: buildSystemTriplesFromFeature_def Let_def split: if_splits option.splits)
qed

lemma sensorML_system:
  assumes "buildSystemTriplesFromSensorML X body = Inr (eid, ts)"
  shows "(\<exists>uid. eid = mintSystemEntityID X uid) \<and> (\<exists>p. at PredType ts = [str_triple eid PredType (processClassIRI p)])"
proof -
  have "at PredType (pointProjectionTriplesFromGeometry X eid g) = []" for g
    by (rule pointProjection_other [OF type_predicates(6)])
  then show ?thesis
    using assms sensorML_type
    by (auto simp: buildSystemTriplesFromSensorML_def Let_def split: if_splits option.splits sum.splits)
qed

lemma posted_system:
  assumes "postedSystemTriples X ct body = Inr (eid, ts)"
  shows "\<exists>uid iri. eid = mintSystemEntityID X uid \<and> at PredType ts = [str_triple eid PredType iri] \<and> ordinaryType iri"
proof (cases "buildSystemTriplesFromSensorML X body = Inr (eid, ts)")
  case True
  from sensorML_system [OF this] system_types(2) show ?thesis by blast
next
  case False
  with assms have "buildSystemTriplesFromFeature X body = Inr (eid, ts)"
    by (auto simp: postedSystemTriples_def Let_def split: if_splits)
  from feature_system [OF this] system_types(1) show ?thesis by blast
qed

lemma system_post_steps:
  assumes "services X B ents objs" "separatePrefixes (Cfg X)" "handleSystemPost X B ctx identity r g = (resp, g')"
  shows "steps X ents g g'"
proof (cases "\<exists>body eid ts. requireMediaTypeAny X (header_get r ''Content-Type'')
      [MediaSensorML, MediaSensorMLLegacy, MediaJSON, MediaGeoJSON] = None \<and> readBody [] r = Inr body \<and>
      postedSystemTriples X (header_get r ''Content-Type'') body = Inr (eid, ts)")
  case False
  with assms(3) show ?thesis
    by (auto simp: handleSystemPost_def Let_def split: option.splits sum.splits)
next
  case True
  then obtain body eid ts where b: "requireMediaTypeAny X (header_get r ''Content-Type'')
      [MediaSensorML, MediaSensorMLLegacy, MediaJSON, MediaGeoJSON] = None" "readBody [] r = Inr body"
      "postedSystemTriples X (header_get r ''Content-Type'') body = Inr (eid, ts)" by blast
  obtain uid iri where ty: "eid = mintSystemEntityID X uid" "at PredType ts = [str_triple eid PredType iri]" "ordinaryType iri"
    using posted_system [OF b(3)] by blast
  have "typed eid iri ts" by (simp add: typed_def ty(2))
  note sys = system_projection [OF assms(2) typed_first [OF this] ty(3), of uid, folded ty(1)]
  obtain res g1 where ing: "ingestProjectedTriples X B ctx eid ts systemProjectionMessageType identity g = (res, g1)" by fastforce
  have "steps X ents g g1"
  proof (cases "validateProjectedTriples X eid ts")
    case (Some e)
    with ing show ?thesis by (simp add: ingestProjectedTriples_def)
  next
    case None
    with ing have "createProjectedEntity X B ctx systemProjectionContractName eid ts systemProjectionMessageType None
        identity ''ingestTriples'' g = (res, g1)" by (simp add: ingestProjectedTriples_def)
    from create_permitted [OF servicesD(2) [OF assms(1)] this ty(2) sys] show ?thesis by (simp add: steps_def)
  qed
  with assms(3) b ing show ?thesis by (auto simp: handleSystemPost_def Let_def split: sum.splits)
qed

lemma system_put_steps:
  assumes "services X B ents objs" "handleSystemPut X B ctx identity r g = (resp, g')"
  shows "steps X ents g g'"
proof (cases "\<exists>body ts. ValidateEntityID (Ids X) (PathValue r ''id'') = None \<and>
      requireMediaTypeAny X (header_get r ''Content-Type'') [MediaJSON, MediaGeoJSON] = None \<and>
      readBody [attemptedID (PathValue r ''id'')] r = Inr body \<and>
      buildSystemTriplesFromFeature X body = Inr (PathValue r ''id'', ts)")
  case False
  with assms(2) show ?thesis
    by (auto simp: handleSystemPut_def Let_def split: option.splits sum.splits if_splits)
next
  case True
  then obtain body ts where b: "ValidateEntityID (Ids X) (PathValue r ''id'') = None"
      "requireMediaTypeAny X (header_get r ''Content-Type'') [MediaJSON, MediaGeoJSON] = None"
      "readBody [attemptedID (PathValue r ''id'')] r = Inr body"
      "buildSystemTriplesFromFeature X body = Inr (PathValue r ''id'', ts)" by blast
  obtain res g1 where put: "putEntityTriples X B ctx (PathValue r ''id'') ts identity g = (res, g1)" by fastforce
  from put_steps [OF assms(1) put] feature_system [OF b(4)] have "steps X ents g g1" by blast
  with assms(2) b put show ?thesis by (auto simp: handleSystemPut_def Let_def split: sum.splits)
qed

lemma system_delete_removes:
  assumes "services X B ents objs" "handleSystemDelete X B ctx identity r g = (resp, g')"
  shows "removed (PathValue r ''id'') (ents (World g)) (ents (World g'))"
proof -
  obtain res g1 where del: "deleteEntity X B ctx (PathValue r ''id'') identity g = (res, g1)" by fastforce
  from delete_removes [OF assms(1) del] have
    "\<And>h. World h \<in> {World g, World g1} \<Longrightarrow> removed (PathValue r ''id'') (ents (World g)) (ents (World h))"
    by (auto simp: removed_def)
  with assms(2) del show ?thesis
    by (auto simp: handleSystemDelete_def Let_def split: option.splits sum.splits dest!: error_World)
qed

lemma system_patch_steps:
  assumes "services X B ents objs" "handleSystemPatch X B ctx identity r g = (resp, g')"
  shows "steps X ents g g'"
proof -
  let ?id = "PathValue r ''id''"
  obtain res g1 where fetch: "fetchEntityExact X B ?id g = (res, g1)" by fastforce
  note one = fetch_steps [OF assms(1) fetch]
  show ?thesis
  proof (cases res)
    case (Inl e)
    with assms(2) fetch one show ?thesis
      by (auto simp: handleSystemPatch_def Let_def split: option.splits sum.splits if_splits)
  next
    case (Inr ex)
    from fetchEntityExact_state [OF servicesD(1) [OF assms(1)] fetch [unfolded Inr]] obtain e where
      e: "Entity ex = Some e" "ents (World g1) (EntityID e) = Some (EntityTriples e, KVRevision ex)" by auto
    have rep: "steps X ents g g2" if "replaceEntityTriples X B ctx ex ts identity g1 = (res2, g2)" for ts res2 g2
      by (rule steps_trans [OF one replace_steps [OF assms(1) that e]])
    from assms(2) fetch one Inr rep show ?thesis
      by (auto simp: handleSystemPatch_def Let_def split: option.splits sum.splits if_splits prod.splits)
  qed
qed

end
