(* ===== verification/ServerRuns.thy ===== *)
theory ServerRuns
  imports SafeMethods FeatureOutcomes Reachable
begin

text \<open>
  Runs of the whole server: any sequence of requests through the route table and the middleware, and of
  starts and stops. Every one of the eighteen write handlers makes permitted steps only, or removes the
  entity its path names; the reads, the OPTIONS and what the mux refuses change nothing. So
  the graph stays well formed, and no entity ever changes its type.
\<close>

section \<open>The remaining write handlers\<close>

text \<open>A body that describes one entity of one type.\<close>

locale typed_body =
  fixes build :: "string \<Rightarrow> string + string \<times> triple list" and typeIRI :: string
  assumes one_type: "build body = Inr (eid, ts) \<Longrightarrow> at PredType ts = [str_triple eid PredType typeIRI]"
begin

lemma create_steps:
  assumes "services X B ents objs" "createFromBody X B ctx identity r accepted build path typ g = (resp, g')"
  shows "steps X ents g g'"
proof (cases "\<exists>body eid ts. requireMediaTypeAny X (header_get r ''Content-Type'') accepted = None \<and>
      readBody [] r = Inr body \<and> build body = Inr (eid, ts)")
  case False
  with assms(2) show ?thesis
    by (auto simp: createFromBody_def split: option.splits sum.splits)
next
  case True
  then obtain body eid ts where b: "requireMediaTypeAny X (header_get r ''Content-Type'') accepted = None"
      "readBody [] r = Inr body" "build body = Inr (eid, ts)" by blast
  obtain res g1 where ing: "ingestTriples X B ctx ts identity g = (res, g1)" by fastforce
  from ingest_steps [OF assms(1) ing one_type [OF b(3)]] assms(2) b ing show ?thesis
    by (auto simp: createFromBody_def split: sum.splits)
qed

end

lemma at_ref [simp]: "at p (ref_triple X s q v # ts) = (if q = p then ref_triple X s q v # at p ts else at p ts)"
  by (simp add: at_def)

lemma type_neqs:
  "PredUniqueID \<noteq> PredType" "PredLabel \<noteq> PredType" "PredDescription \<noteq> PredType" "PredDefinition \<noteq> PredType"
  "PredCommandControlStream \<noteq> PredType" "predCommandStatus \<noteq> PredType" "predCommandIssueTime \<noteq> PredType"
  "predCommandExecutionTime \<noteq> PredType" "predCommandSender \<noteq> PredType" "predCommandParams \<noteq> PredType"
  "PredFeasibilityControlStream \<noteq> PredType" "predFeasibilityStatus \<noteq> PredType" "predFeasibilityParams \<noteq> PredType"
  "predFeasibilityResult \<noteq> PredType" "PredSystemEventSystem \<noteq> PredType" "predSystemEventTime \<noteq> PredType"
  "predSystemEventType \<noteq> PredType" "predSystemEventSource \<noteq> PredType" "predSystemEventMessage \<noteq> PredType"
  "predSystemEventSeverity \<noteq> PredType" "predSystemEventKeywords \<noteq> PredType" "predSystemEventPayload \<noteq> PredType"
  "predPropertyDefinition \<noteq> PredType" "predPropertyBaseProperty \<noteq> PredType"
  "predDeploymentDeployedSystems \<noteq> PredType" "predDeploymentParent \<noteq> PredType"
  "predSamplingFeatureHostedProcedure \<noteq> PredType" "predControlStreamInputName \<noteq> PredType"
  "predControlStreamAsync \<noteq> PredType" "predControlStreamCommandFormat \<noteq> PredType"
  "predControlStreamControlledProperties \<noteq> PredType" "PredControlStreamSystem \<noteq> PredType"
  "predControlStreamIssueTime \<noteq> PredType" "predControlStreamExecutionTime \<noteq> PredType" "predControlStreamSchema \<noteq> PredType"
  by (simp_all add: vocab_defs)

lemma at_links: "q \<noteq> p \<Longrightarrow> at p (triplesFromLinks eid q links) = []"
  by (induction links) (auto simp: triplesFromLinks_def)

lemma at_location: "at PredType (locationTriplesFromGeometry X eid geometry) = []"
  using type_predicates(2) pointProjection_other [OF type_predicates(6)]
  by (simp add: locationTriplesFromGeometry_def split: option.split)

lemmas one_type_simps = type_neqs type_neqs [symmetric] at_links at_location

lemma at_override:
  "at PredType ts = [str_triple eid PredType iri] \<Longrightarrow>
   \<exists>us. overrideType ts = Some us \<and> at PredType us = [str_triple eid PredType SosaProcedure]"
  by (induction ts) (auto simp: at_def str_triple_def)

lemma at_procedureTyped:
  "at PredType ts = [str_triple eid PredType iri] \<Longrightarrow> at PredType (procedureTyped eid' ts) = [str_triple eid PredType SosaProcedure]"
  using at_override [of ts eid iri] by (auto simp: procedureTyped_def)

interpretation command_typed: typed_body "buildCommandTriples X" CommandIRI for X
  by unfold_locales
    (auto simp: buildCommandTriples_def commandTriples_def Let_def one_type_simps split: option.splits if_splits)

interpretation feasibility_typed: typed_body "buildFeasibilityTriples X" FeasibilityIRI for X
  by unfold_locales
    (auto simp: buildFeasibilityTriples_def feasibilityTriples_def Let_def one_type_simps split: option.splits if_splits)

interpretation system_event_typed: typed_body "buildSystemEventTriples X pathSystemID" SystemEventIRI for X pathSystemID
  by unfold_locales
    (auto simp: buildSystemEventTriples_def systemEventTriples_def Let_def one_type_simps split: option.splits if_splits)

interpretation property_typed: typed_body "buildPropertyTriples X" SosaObservableProperty for X
  by unfold_locales
    (auto simp: buildPropertyTriples_def propertyTriples_def Let_def one_type_simps split: option.splits if_splits)

interpretation deployment_typed: typed_body "buildDeploymentTriplesFromFeature X" SSNDeployment for X
  by unfold_locales
    (auto simp: buildDeploymentTriplesFromFeature_def Let_def one_type_simps split: option.splits if_splits)

interpretation sampling_feature_typed: typed_body "buildSamplingFeatureTriplesFromFeature X" SosaSample for X
  by unfold_locales
    (auto simp: buildSamplingFeatureTriplesFromFeature_def Let_def one_type_simps split: option.splits if_splits)

lemma sensorML_procedure_typed:
  "buildProcedureTriplesFromSensorML X body = Inr (eid, ts) \<Longrightarrow> at PredType ts = [str_triple eid PredType SosaProcedure]"
  using at_procedureTyped [OF sensorML_type]
  by (auto simp: buildProcedureTriplesFromSensorML_def Let_def split: option.splits sum.splits if_splits)

lemma feature_procedure_typed:
  "buildProcedureTriplesFromFeature X body = Inr (eid, ts) \<Longrightarrow> at PredType ts = [str_triple eid PredType SosaProcedure]"
  by (auto simp: buildProcedureTriplesFromFeature_def Let_def one_type_simps split: option.splits if_splits)

interpretation procedure_typed: typed_body "postedProcedureTriples X ct" SosaProcedure for X ct
  by unfold_locales
    (use sensorML_procedure_typed feature_procedure_typed in \<open>auto simp: postedProcedureTriples_def split: if_splits\<close>)

lemma control_stream_typed:
  "buildControlStreamTriples X body = Inr (eid, ts, schema) \<Longrightarrow>
   at PredType (ts @ [ref_triple X eid predControlStreamSchema v]) = [str_triple eid PredType ControlStreamIRI]"
  by (auto simp: buildControlStreamTriples_def controlStreamTriples_def Let_def one_type_simps
      split: option.splits if_splits sum.splits)

lemma artifact_relation:
  "createSchemaArtifact X B ctx eid rel schema identity g = (Inr t, g') \<Longrightarrow> \<exists>v. t = ref_triple X eid rel v"
  by (auto simp: createSchemaArtifact_def Let_def split: if_splits sum.splits option.splits prod.splits)

lemma control_stream_post_steps:
  assumes "services X B ents objs" "handleControlStreamPost X B ctx identity r g = (resp, g')"
  shows "steps X ents g g'"
proof (cases "decodeControlStreamRequest X r")
  case (Inl e)
  with assms(2) show ?thesis by (simp add: handleControlStreamPost_def)
next
  case (Inr built)
  then obtain eid ts schema where dec: "decodeControlStreamRequest X r = Inr (eid, ts, schema)" by (cases built) auto
  then obtain body where b: "buildControlStreamTriples X body = Inr (eid, ts, schema)"
    by (auto simp: decodeControlStreamRequest_def split: option.splits sum.splits)
  obtain res g1 where art: "createSchemaArtifact X B ctx eid predControlStreamSchema (commandParametersSchemaRaw X schema)
      identity g = (res, g1)" by fastforce
  note one = artifact_steps [OF assms(1) art]
  show ?thesis
  proof (cases res)
    case (Inl e)
    with assms(2) dec art one show ?thesis by (auto simp: handleControlStreamPost_def Let_def)
  next
    case (Inr rel)
    obtain res2 g2 where ing: "ingestTriples X B ctx (ts @ [rel]) identity g1 = (res2, g2)" by fastforce
    obtain v where "rel = ref_triple X eid predControlStreamSchema v" using artifact_relation art Inr by blast
    with control_stream_typed [OF b] have "at PredType (ts @ [rel]) = [str_triple eid PredType ControlStreamIRI]" by simp
    from steps_trans [OF one ingest_steps [OF assms(1) ing this]] assms(2) dec art Inr ing show ?thesis
      by (auto simp: handleControlStreamPost_def Let_def split: sum.splits)
  qed
qed

text \<open>What is assumed of the services when the whole server runs: the reads of every kind leave the graph as
  it is, and so does a publication on the observation stream.\<close>

definition server_services :: "env \<Rightarrow> 's backend \<Rightarrow> ('s \<Rightarrow> contents) \<Rightarrow> ('s \<Rightarrow> string \<Rightarrow> string option) \<Rightarrow> bool" where
  "server_services X B ents objs \<longleftrightarrow>
     services X B ents objs \<and> read_only B ents \<and> (\<forall>s d hs w. ents (snd (PublishMsg B s d hs w)) = ents w)"

lemma server_servicesD:
  assumes "server_services X B ents objs"
  shows "services X B ents objs" "read_only B ents" "PublishMsg B s d hs w = (e, w') \<Longrightarrow> ents w' = ents w"
  using assms unfolding server_services_def by (blast, blast, metis snd_conv)

lemma observation_post_steps:
  assumes "server_services X B ents objs" "handleObservationsPost X B ctx identity r g = (resp, g')"
  shows "steps X ents g g'"
proof (cases "decodeObservationPost X r")
  case (Inl e)
  with assms(2) show ?thesis by (simp add: handleObservationsPost_def)
next
  case (Inr obs)
  let ?subject = "observationSubject X (PathValue r ''datastreamID'')"
  obtain e g1 where pub: "publishObservation X B ctx ?subject obs identity g = (e, g1)" by fastforce
  have "ents (World g1) = ents (World g)"
    using pub server_servicesD(3) [OF assms(1)]
    by (auto simp: publishObservation_def Let_def split: if_splits prod.splits)
  then have "steps X ents g g1" by (rule steps_same)
  with assms(2) Inr pub show ?thesis by (auto simp: handleObservationsPost_def Let_def split: option.splits)
qed

lemma event_post_steps:
  assumes "services X B ents objs" "handleSystemScopedEventPost X B ctx identity r g = (resp, g')"
  shows "steps X ents g g'"
  using assms(2) system_event_typed.create_steps [OF assms(1)]
  by (auto simp: handleSystemScopedEventPost_def withValidID_def handleSystemEventPostWithSystem_def split: option.splits)

section \<open>Every route\<close>

text \<open>What a handler registered for a method and a pattern does to the graph.\<close>

definition route_effect :: "env \<Rightarrow> ('s \<Rightarrow> contents) \<Rightarrow> 's route \<Rightarrow> bool" where
  "route_effect X ents route \<longleftrightarrow>
     (case route of (m, pattern, h) \<Rightarrow>
        \<forall>r g res g'. h r g = (res, g') \<longrightarrow>
          (if m = ''DELETE''
           then pattern \<in> {[''systems'', ''{id}''], [''datastreams'', ''{id}'']} \<and>
             removed (PathValue r ''id'') (ents (World g)) (ents (World g'))
           else steps X ents g g'))"

lemma answering_eq: "answering h r g = (res, g') \<longleftrightarrow> (\<exists>resp. h r g = (resp, g') \<and> res = Some resp)"
  by (cases "h r g") (auto simp: answering_def)

lemma effect_answering:
  "m \<noteq> ''DELETE'' \<Longrightarrow> (\<And>r g resp g'. h r g = (resp, g') \<Longrightarrow> steps X ents g g') \<Longrightarrow>
   route_effect X ents (m, pattern, answering h)"
  by (auto simp: route_effect_def answering_eq)

lemma effect_deleting:
  "pattern \<in> {[''systems'', ''{id}''], [''datastreams'', ''{id}'']} \<Longrightarrow>
   (\<And>r g resp g'. h r g = (resp, g') \<Longrightarrow> removed (PathValue r ''id'') (ents (World g)) (ents (World g'))) \<Longrightarrow>
   route_effect X ents (''DELETE'', pattern, answering h)"
  by (auto simp: route_effect_def answering_eq)

lemma write_route_effect:
  assumes "server_services X B ents objs" "separatePrefixes (Cfg X)"
  shows "list_all (route_effect X ents) (writeRoutes X B ctx identity)"
proof -
  note s = server_servicesD(1) [OF assms(1)]
  show ?thesis
    unfolding writeRoutes_def list.pred_inject
    by (intro conjI TrueI effect_answering effect_deleting)
      (simp_all add: system_post_steps [OF s assms(2)] system_put_steps [OF s] system_patch_steps [OF s]
        system_delete_removes [OF s] datastream_post_steps [OF s] datastream_put_steps [OF s] datastream_patch_steps [OF s]
        datastream_delete_removes [OF s] observation_post_steps [OF assms(1)] control_stream_post_steps [OF s]
        event_post_steps [OF s] handleProcedurePost_def procedure_typed.create_steps [OF s]
        handleDeploymentPost_def deployment_typed.create_steps [OF s] handleSamplingFeaturePost_def
        sampling_feature_typed.create_steps [OF s] handlePropertyPost_def property_typed.create_steps [OF s]
        handleCommandPost_def command_typed.create_steps [OF s] handleFeasibilityPost_def
        feasibility_typed.create_steps [OF s] handleSystemEventPost_def handleSystemEventPostWithSystem_def
        system_event_typed.create_steps [OF s])
qed

lemma matched_empty: "matchPath [] path = Some vs \<Longrightarrow> path = [] \<and> vs = []"
  by (cases path) simp_all

lemma matched_id:
  assumes "pattern \<in> {[''systems'', ''{id}''], [''datastreams'', ''{id}'']}" "matchPath pattern path = Some vs"
  shows "path \<in> {[''systems'', or_empty (map_of vs ''id'')], [''datastreams'', or_empty (map_of vs ''id'')]}"
proof -
  from assms obtain kind where pattern: "pattern = [kind, ''{id}'']" and kind: "kind \<in> {''systems'', ''datastreams''}" by blast
  have w: "\<not> wildcard kind" "wildcard ''{id}''" using kind by (auto simp: wildcard_def)
  from assms(2) obtain x xs where p: "path = x # xs" unfolding pattern by (cases path) simp_all
  with assms(2) w have x: "x = kind" and rest: "matchPath [''{id}''] xs = Some vs" unfolding pattern by (simp_all split: if_splits)
  from rest obtain y ys where q: "xs = y # ys" by (cases xs) simp_all
  with rest w have "\<exists>z. matchPath [] ys = Some z \<and> vs = (''id'', y) # z" by (auto split: if_splits)
  with matched_empty have "ys = []" "vs = [(''id'', y)]" by blast+
  with p q x kind show ?thesis by (auto simp: or_empty_def)
qed

text \<open>A request moves the graph by permitted steps, or is the DELETE of the entity it may remove.\<close>

lemma serve_effect:
  assumes "server_services X B ents objs" "separatePrefixes (Cfg X)"
    and "serveHTTP X docs B p ctx path r s = (resp, s')"
  shows "steps X ents (Gateway s) (Gateway s') \<or>
    (\<exists>i. Method r = ''DELETE'' \<and> path \<in> {[''systems'', i], [''datastreams'', i]} \<and>
       removed i (ents (World (Gateway s))) (ents (World (Gateway s'))))"
proof (cases "findRoute (RegisterHTTPHandlers X docs (Running s) (Connected s) p B ctx (IdentityMiddleware r)) (Method r) path")
  case None
  with assms(3) show ?thesis by (simp add: serveHTTP_def Let_def)
next
  case (Some vh)
  then obtain vs h where f: "findRoute (RegisterHTTPHandlers X docs (Running s) (Connected s) p B ctx (IdentityMiddleware r))
      (Method r) path = Some (vs, h)" by (cases vh) simp
  have same: "Gateway (countingMiddleware s) = Gateway s" by (simp add: countingMiddleware_def)
  let ?r = "bodyLimitMiddleware X (bindPath vs r)"
  obtain res g where h: "h ?r (Gateway s) = (res, g)" by fastforce
  obtain answer g' where rec: "recoverMiddleware (res, g) = (answer, g')" by fastforce
  then have w: "World g' = World g" by (auto simp: recoverMiddleware_def split: option.splits)
  from assms(3) have s': "Gateway s' = g'"
    by (auto simp: serveHTTP_def Let_def f middleware_def same h rec)
  have id: "PathValue ?r ''id'' = or_empty (map_of vs ''id'')"
    by (cases "Body r") (simp_all add: bodyLimitMiddleware_def bindPath_def)
  from findRoute_registered [OF f] obtain pattern where
    reg: "(Method r, pattern, h) \<in> set (readRoutes X docs (Running s) (Connected s) p B @ optionsRoutes X) \<or>
      (Method r, pattern, h) \<in> set (writeRoutes X B ctx (IdentityMiddleware r))"
    and m: "matchPath pattern path = Some vs"
    unfolding RegisterHTTPHandlers_def set_append by blast
  from reg show ?thesis
  proof
    assume "(Method r, pattern, h) \<in> set (readRoutes X docs (Running s) (Connected s) p B @ optionsRoutes X)"
    moreover have "routes_keep ents (readRoutes X docs (Running s) (Connected s) p B @ optionsRoutes X)"
      by (simp only: routes_keep_simps read_routes_keep [OF server_servicesD(2) [OF assms(1)]] options_routes_keep simp_thms)
    ultimately have "keeps ents (h ?r)" unfolding routes_keep_def by fast
    from keepsD [OF this h] show ?thesis by (intro disjI1 steps_same) (simp add: s' w)
  next
    assume "(Method r, pattern, h) \<in> set (writeRoutes X B ctx (IdentityMiddleware r))"
    then have "route_effect X ents (Method r, pattern, h)"
      using write_route_effect [OF assms(1,2)] by (auto simp: list_all_iff)
    with h have e: "if Method r = ''DELETE''
        then pattern \<in> {[''systems'', ''{id}''], [''datastreams'', ''{id}'']} \<and>
          removed (PathValue ?r ''id'') (ents (World (Gateway s))) (ents (World g))
        else steps X ents (Gateway s) g"
      unfolding route_effect_def prod.case by blast
    show ?thesis
    proof (cases "Method r = ''DELETE''")
      case True
      with e matched_id [OF _ m] show ?thesis by (auto simp: id s' w)
    next
      case False
      with e show ?thesis by (simp add: s' w steps_def)
    qed
  qed
qed

section \<open>Runs\<close>

text \<open>The server answers one request after another, on any path, of any client; it may be started and
  stopped in between. A run is recorded by the methods and paths of its requests.\<close>

inductive serverRun :: "env \<Rightarrow> 's backend \<Rightarrow> (string \<times> string list) list \<Rightarrow> 's server \<Rightarrow> 's server \<Rightarrow> bool" for X B where
  run_none: "serverRun X B [] s s"
| run_request: "serverRun X B reqs s s1 \<Longrightarrow> serveHTTP X docs B p ctx path r s1 = (resp, s') \<Longrightarrow>
     serverRun X B (reqs @ [(Method r, path)]) s s'"
| run_start: "serverRun X B reqs s s1 \<Longrightarrow> Start X ctx results s1 = (e, s') \<Longrightarrow> serverRun X B reqs s s'"
| run_stop: "serverRun X B reqs s s1 \<Longrightarrow> Stop shutdown s1 = (e, s') \<Longrightarrow> serverRun X B reqs s s'"

inductive_cases run_nilE: "serverRun X B [] s s'"

lemma lifecycle_World:
  "Start X ctx results s = (e, s') \<Longrightarrow> World (Gateway s') = World (Gateway s)"
  "Stop shutdown s = (e, s') \<Longrightarrow> World (Gateway s') = World (Gateway s)"
  by (auto simp: Start_def Stop_def storeHandles_def Let_def split: if_splits option.splits)

lemma serve_well_formed:
  assumes "server_services X B ents objs" "separatePrefixes (Cfg X)" "EntityIndexingProfile X \<noteq> PredType"
    and "serveHTTP X docs B p ctx path r s = (resp, s')" "well_formed_graph X (ents (World (Gateway s)))"
  shows "well_formed_graph X (ents (World (Gateway s')))"
  using serve_effect [OF assms(1,2,4)]
proof (elim disjE exE conjE)
  assume "steps X ents (Gateway s) (Gateway s')"
  then show ?thesis using permitted_run(2) [OF _ assms(3,5)] by (simp add: steps_def)
next
  fix i assume "removed i (ents (World (Gateway s))) (ents (World (Gateway s')))"
  with assms(5) show ?thesis by (auto simp: removed_def well_formed_graph_def split: if_splits)
qed

text \<open>Claim C7: the graph stays well formed. Whatever requests the server answers from an empty graph on, with any
  method on any path, and however each of them ends (a refusal, a lost reply, a conflict, a panic, a
  success), every entity has exactly one type, falls under the contract its type and ID select, and every fact
  of it but the framework's indexing profile is about the entity itself under a predicate of that contract. The
  requests come one after another and nobody else writes to the graph; the System prefix and the other prefixes
  must not begin one another, since they are compared as strings.\<close>

theorem reachable_well_formed:
  assumes "server_services X B ents objs" "separatePrefixes (Cfg X)" "EntityIndexingProfile X \<noteq> PredType"
    and "serverRun X B reqs s s'" "ents (World (Gateway s)) = Map.empty"
  shows "well_formed_graph X (ents (World (Gateway s')))"
  using assms(4,5)
proof (induction rule: serverRun.induct)
  case (run_none s)
  then show ?case by (simp add: well_formed_graph_def)
next
  case (run_request reqs s s1 docs p ctx path r resp s')
  from serve_well_formed [OF assms(1-3) run_request.hyps(2) run_request.IH [OF run_request.prems]] show ?case .
qed (simp_all add: lifecycle_World)

text \<open>Claim C8: types are for life. Along every run of the server, over all its routes, an entity stays in the graph
  with the type it has, whatever is written to it or to others, as long as no request is a DELETE of its own
  path under the systems or the datastreams: no other request removes it.\<close>

theorem entities_persist:
  assumes "server_services X B ents objs" "separatePrefixes (Cfg X)" "serverRun X B reqs s s'"
    and "(''DELETE'', [''systems'', eid]) \<notin> set reqs" "(''DELETE'', [''datastreams'', eid]) \<notin> set reqs"
    and "ents (World (Gateway s)) eid = Some (ts, kv)"
  shows "\<exists>ts' kv'. ents (World (Gateway s')) eid = Some (ts', kv') \<and> set (at PredType ts') = set (at PredType ts)"
  using assms(3-6)
proof (induction rule: serverRun.induct)
  case (run_request reqs s s1 docs p ctx path r resp s')
  then obtain ts1 kv1 where one: "ents (World (Gateway s1)) eid = Some (ts1, kv1)"
    "set (at PredType ts1) = set (at PredType ts)" by auto
  from serve_effect [OF assms(1,2) run_request.hyps(2)] show ?case
  proof (elim disjE exE conjE)
    assume "steps X ents (Gateway s1) (Gateway s')"
    then have "retains (ents (World (Gateway s1))) (ents (World (Gateway s')))"
      by (auto simp: steps_def dest: permitted_run(1))
    with one show ?thesis unfolding retains_def by metis
  next
    fix i
    assume "Method r = ''DELETE''" "path \<in> {[''systems'', i], [''datastreams'', i]}"
      "removed i (ents (World (Gateway s1))) (ents (World (Gateway s')))"
    with run_request.prems(1,2) one show ?thesis by (auto simp: removed_def)
  qed
qed (auto simp: lifecycle_World)

end
