(* ===== verification/ServerProperties.thy ===== *)
theory ServerProperties
  imports SafeMethods
begin

text \<open>
  The route table and the life cycle of the server: no two patterns of one method meet on a path, which is
  also what \<open>ServeMux\<close> wants before it accepts them; the \<open>Allow\<close> headers name the registered methods; the
  links of the landing page and of the collections lead to registered routes; a running server has its
  handles.
\<close>

section \<open>Patterns that meet\<close>

fun overlap :: "string list \<Rightarrow> string list \<Rightarrow> bool" where
  "overlap [] [] = True"
| "overlap (p # ps) (q # qs) \<longleftrightarrow> (wildcard p \<or> wildcard q \<or> p = q) \<and> overlap ps qs"
| "overlap _ _ = False"

lemma matchPath_overlap: "matchPath p path \<noteq> None \<Longrightarrow> matchPath q path \<noteq> None \<Longrightarrow> overlap p q"
proof (induction p path arbitrary: q rule: matchPath.induct)
  case (2 p ps s ss)
  then show ?case by (cases q) (auto split: if_splits)
qed (auto elim: matchPath.elims)

fun disjoint_keys :: "(string \<times> string list) list \<Rightarrow> bool" where
  "disjoint_keys [] = True"
| "disjoint_keys ((m, p) # ks) \<longleftrightarrow> list_all (\<lambda>(m', q). m' = m \<longrightarrow> \<not> overlap p q) ks \<and> disjoint_keys ks"

fun apart :: "string list list \<Rightarrow> bool" where
  "apart [] = True"
| "apart (p # ps) \<longleftrightarrow> list_all (\<lambda>q. \<not> overlap p q) ps \<and> apart ps"

lemma disjoint_keys_append:
  "disjoint_keys (xs @ ys) \<longleftrightarrow>
   disjoint_keys xs \<and> disjoint_keys ys \<and> (\<forall>(m, p) \<in> set xs. \<forall>(m', q) \<in> set ys. m' = m \<longrightarrow> \<not> overlap p q)"
  by (induction xs rule: disjoint_keys.induct) (auto simp: list_all_iff)

lemma disjoint_keys_Pair: "disjoint_keys (map (Pair m) ps) \<longleftrightarrow> apart ps"
  by (induction ps) (auto simp: list_all_iff)

lemma disjoint_keys_pairs:
  "m \<noteq> m' \<Longrightarrow> disjoint_keys (concat (map (\<lambda>p. [(m, p), (m', p)]) ps)) \<longleftrightarrow> apart ps"
  by (induction ps) (auto simp: list_all_iff)

definition route_key :: "'s route \<Rightarrow> string \<times> string list" where
  "route_key = (\<lambda>(m, pattern, h). (m, pattern))"

lemma route_key_simps [simp]: "route_key (m, pattern, h) = (m, pattern)"
  by (simp add: route_key_def)

lemma findRoute_disjoint:
  assumes "disjoint_keys (map route_key rs)" "(m, pattern, h) \<in> set rs" "matchPath pattern path = Some vs"
  shows "findRoute rs m path = Some (vs, h)"
  using assms
proof (induction rs)
  case (Cons a rs)
  obtain m' p' h' where a: "a = (m', p', h')" by (cases a)
  show ?case
  proof (cases "a = (m, pattern, h)")
    case True
    with Cons.prems show ?thesis by simp
  next
    case False
    with Cons.prems have in_rs: "(m, pattern, h) \<in> set rs" by simp
    have "m' = m \<Longrightarrow> matchPath p' path = None"
    proof (rule ccontr)
      assume "m' = m" "matchPath p' path \<noteq> None"
      with Cons.prems(3) have "overlap p' pattern" by (simp add: matchPath_overlap)
      with Cons.prems(1) in_rs \<open>m' = m\<close> show False by (force simp: a list_all_iff)
    qed
    with Cons in_rs show ?thesis by (simp add: a)
  qed
qed simp

section \<open>The keys of the table\<close>

definition getKeys :: "string list list" where
  "getKeys =
     [[], [''systems''], [''systems'', ''{id}''], [''systems'', ''{id}'', ''subsystems''],
      [''systems'', ''{id}'', ''subsystems'', ''{subsystemID}''], [''collections''],
      [''collections'', ''{id}'', ''items''], [''conformance''], [''health''], [''datastreams''],
      [''datastreams'', ''{id}''], [''datastreams'', ''{id}'', ''schema''],
      [''datastreams'', ''{datastreamID}'', ''observations''], [''observations''], [''observations'', ''{obsID}''],
      [''systems'', ''{id}'', ''datastreams''], [''api''], [''areas''], [''procedures''], [''procedures'', ''{id}''],
      [''deployments''], [''deployments'', ''{id}''], [''deployments'', ''{id}'', ''subdeployments''],
      [''samplingFeatures''], [''samplingFeatures'', ''{id}''], [''properties''], [''properties'', ''{id}''],
      [''controlstreams''], [''controlstreams'', ''{id}''], [''controls'', ''{id}''],
      [''controlstreams'', ''{id}'', ''schema''], [''controlstreams'', ''{id}'', ''commands''], [''commands''],
      [''commands'', ''{id}''], [''feasibility''], [''feasibility'', ''{id}''], [''feasibility'', ''{id}'', ''status''],
      [''feasibility'', ''{id}'', ''result''], [''controlstream'', ''{id}'', ''feasibility''],
      [''systems'', ''{id}'', ''controlstreams''], [''systems'', ''{id}'', ''history''],
      [''systems'', ''{id}'', ''history'', ''{revID}''], [''systemEvents''], [''systemEvents'', ''{id}''],
      [''systems'', ''{id}'', ''events''], [''systems'', ''{id}'', ''events'', ''{eventID}'']]"

definition writeKeys :: "(string \<times> string list) list" where
  "writeKeys =
     [(''POST'', [''systems'']), (''PUT'', [''systems'', ''{id}'']), (''DELETE'', [''systems'', ''{id}'']),
      (''PATCH'', [''systems'', ''{id}'']), (''POST'', [''datastreams'']), (''PUT'', [''datastreams'', ''{id}'']),
      (''DELETE'', [''datastreams'', ''{id}'']), (''PATCH'', [''datastreams'', ''{id}'']),
      (''POST'', [''datastreams'', ''{datastreamID}'', ''observations'']), (''POST'', [''procedures'']),
      (''POST'', [''deployments'']), (''POST'', [''samplingFeatures'']), (''POST'', [''properties'']),
      (''POST'', [''controlstreams'']), (''POST'', [''commands'']), (''POST'', [''feasibility'']),
      (''POST'', [''systemEvents'']), (''POST'', [''systems'', ''{id}'', ''events''])]"

definition optionsKeys :: "string list list" where
  "optionsKeys =
     [[''systems''], [''systems'', ''{id}''], [''datastreams''], [''datastreams'', ''{id}''], [''observations''],
      [''observations'', ''{obsID}''], [''procedures''], [''procedures'', ''{id}''], [''deployments''],
      [''deployments'', ''{id}''], [''samplingFeatures''], [''samplingFeatures'', ''{id}''], [''properties''],
      [''properties'', ''{id}''], [''controlstreams''], [''controlstreams'', ''{id}''], [''commands''],
      [''feasibility''], [''feasibility'', ''{id}''], [''systems'', ''{id}'', ''history''],
      [''systems'', ''{id}'', ''history'', ''{revID}''], [''systemEvents''], [''systemEvents'', ''{id}''],
      [''systems'', ''{id}'', ''events''], [''systems'', ''{id}'', ''events'', ''{eventID}'']]"

definition serverKeys :: "(string \<times> string list) list" where
  "serverKeys = concat (map (\<lambda>p. [(''GET'', p), (''HEAD'', p)]) getKeys) @ writeKeys @ map (Pair ''OPTIONS'') optionsKeys"

lemma keys_of_routes:
  "map route_key (readRoutes X docs running connected p B) = concat (map (\<lambda>p. [(''GET'', p), (''HEAD'', p)]) getKeys)"
  "map route_key (writeRoutes X B ctx identity) = writeKeys"
  "map route_key (optionsRoutes X) = map (Pair ''OPTIONS'') optionsKeys"
  by (simp_all only: readRoutes_def getRoute_def getKeys_def writeRoutes_def writeKeys_def optionsRoutes_def optionsKeys_def
      list.map map_append concat.simps append.simps route_key_simps)

lemma server_keys: "map route_key (RegisterHTTPHandlers X docs running connected p B ctx identity) = serverKeys"
  by (simp only: RegisterHTTPHandlers_def map_append keys_of_routes serverKeys_def)

lemma read_keys_apart: "apart getKeys"
  by code_simp

lemma options_keys_apart: "apart optionsKeys"
  by code_simp

lemma write_keys_disjoint: "disjoint_keys writeKeys"
  by code_simp

lemma write_keys_methods: "k \<in> set writeKeys \<Longrightarrow> fst k \<notin> {''GET'', ''HEAD'', ''OPTIONS''}"
  by (auto simp: writeKeys_def)

lemma server_keys_disjoint: "disjoint_keys serverKeys"
  unfolding serverKeys_def
  by (auto simp: disjoint_keys_append disjoint_keys_pairs read_keys_apart disjoint_keys_Pair options_keys_apart
      write_keys_disjoint dest: write_keys_methods)

lemma server_routed:
  "(\<exists>h. (m, pattern, h) \<in> set (RegisterHTTPHandlers X docs running connected p B ctx identity)) \<longleftrightarrow> (m, pattern) \<in> set serverKeys"
  unfolding server_keys [symmetric, of X docs running connected p B ctx identity] by (force simp: route_key_def)

text \<open>Claim C19: Whatever route of the table matches the method and the path of a request is the one that serves it: no
  two patterns that are registered for one method match a common path, so the order of registration does
  not matter and \<open>ServeMux\<close>, which panics on a conflict, accepts the table.\<close>

theorem routes_unambiguous:
  assumes "(m, pattern, h) \<in> set (RegisterHTTPHandlers X docs running connected p B ctx identity)"
    and "matchPath pattern path = Some vs"
  shows "findRoute (RegisterHTTPHandlers X docs running connected p B ctx identity) m path = Some (vs, h)"
  using findRoute_disjoint [OF _ assms] by (simp only: server_keys server_keys_disjoint)

section \<open>Allow\<close>

definition methodsAt :: "string list \<Rightarrow> string list" where
  "methodsAt pattern = map fst (filter (\<lambda>k. snd k = pattern) serverKeys)"

lemma set_methodsAt:
  "set (methodsAt pattern) = {m. \<exists>h. (m, pattern, h) \<in> set (RegisterHTTPHandlers X docs running connected p B ctx identity)}"
  unfolding server_routed by (force simp: methodsAt_def)

definition postable :: "string list list" where
  "postable = [[''systems''], [''datastreams''], [''procedures''], [''deployments''], [''samplingFeatures''], [''properties''],
     [''controlstreams''], [''commands''], [''feasibility''], [''systemEvents''], [''systems'', ''{id}'', ''events'']]"

definition editable :: "string list list" where
  "editable = [[''systems'', ''{id}''], [''datastreams'', ''{id}'']]"

lemma methods_postable: "list_all (\<lambda>p. methodsAt p = [''GET'', ''HEAD'', ''POST'', ''OPTIONS'']) postable"
  by code_simp

lemma methods_editable:
  "list_all (\<lambda>p. methodsAt p = [''GET'', ''HEAD'', ''PUT'', ''DELETE'', ''PATCH'', ''OPTIONS'']) editable"
  by code_simp

definition readable :: "string list list" where
  "readable =
     [[''observations''], [''observations'', ''{obsID}''], [''procedures'', ''{id}''], [''deployments'', ''{id}''],
      [''samplingFeatures'', ''{id}''], [''properties'', ''{id}''], [''controlstreams'', ''{id}''], [''feasibility'', ''{id}''],
      [''systems'', ''{id}'', ''history''], [''systems'', ''{id}'', ''history'', ''{revID}''], [''systemEvents'', ''{id}''],
      [''systems'', ''{id}'', ''events'', ''{eventID}'']]"

lemma methods_readable: "list_all (\<lambda>p. methodsAt p = [''GET'', ''HEAD'', ''OPTIONS'']) readable"
  by code_simp

text \<open>What an \<open>Allow\<close> header should say of a pattern.\<close>

definition allows :: "string list \<Rightarrow> response \<Rightarrow> bool" where
  "allows pattern resp \<longleftrightarrow>
     (\<exists>ms. map_of (Headers resp) ''Allow'' = Some (go_join '', '' ms) \<and> set ms = set (methodsAt pattern))"

lemma allows_noContent:
  "set ms = set (methodsAt pattern) \<Longrightarrow> go_join '', '' ms = a \<Longrightarrow> allows pattern (noContent [(''Allow'', a)])"
  by (auto simp: allows_def noContent_def)

lemma allows_postable: "pattern \<in> set postable \<Longrightarrow> allows pattern (noContent [(''Allow'', ''GET, HEAD, POST, OPTIONS'')])"
  using methods_postable by (intro allows_noContent [of "[''GET'', ''HEAD'', ''POST'', ''OPTIONS'']"]) (auto simp: list_all_iff)

lemma allows_editable:
  "pattern \<in> set editable \<Longrightarrow> allows pattern (noContent [(''Allow'', ''GET, HEAD, PUT, PATCH, DELETE, OPTIONS'')])"
  using methods_editable
  by (intro allows_noContent [of "[''GET'', ''HEAD'', ''PUT'', ''PATCH'', ''DELETE'', ''OPTIONS'']"]) (auto simp: list_all_iff)

lemma allows_readable: "pattern \<in> set readable \<Longrightarrow> allows pattern (noContent [(''Allow'', ''GET, HEAD, OPTIONS'')])"
  using methods_readable by (intro allows_noContent [of "[''GET'', ''HEAD'', ''OPTIONS'']"]) (auto simp: list_all_iff)

text \<open>An OPTIONS route answers what is registered for its pattern, or refuses the ID of the path.\<close>

definition truthful :: "'s route \<Rightarrow> bool" where
  "truthful = (\<lambda>(m, pattern, h). \<forall>r g. \<exists>resp. h r g = (Some resp, g) \<and>
     (Status resp = 204 \<and> allows pattern resp \<or> Status resp = 400))"

lemma truthful_plain: "allows pattern (noContent hs) \<Longrightarrow> truthful (m, pattern, fixed (\<lambda>r. noContent hs))"
  by (simp add: truthful_def fixed_def)

lemma truthful_checked:
  "allows pattern (noContent hs) \<Longrightarrow>
   truthful (m, pattern, fixed (\<lambda>r. case check r of Some e \<Rightarrow> writeJSONError [] 400 (msg r e) | None \<Rightarrow> noContent hs))"
  unfolding truthful_def fixed_def by (auto simp: noContent_def split: option.split)

lemmas options_handlers =
  handleSystemsOptions_def handleSystemOptions_def handleDatastreamsOptions_def handleDatastreamOptions_def
  handleGlobalObservationsOptions_def handleObservationOptions_def handleProceduresOptions_def handleProcedureOptions_def
  handleDeploymentsOptions_def handleDeploymentOptions_def handleSamplingFeaturesOptions_def
  handleSamplingFeatureOptions_def handlePropertiesOptions_def handlePropertyOptions_def handleControlStreamsOptions_def
  handleControlStreamOptions_def handleCommandsOptions_def handleFeasibilitiesOptions_def handleFeasibilityOptions_def
  handleSystemHistoryOptions_def handleSystemEventsOptions_def handleSystemEventOptions_def

lemma options_truthful_all: "list_all truthful (optionsRoutes X)"
  unfolding optionsRoutes_def options_handlers list.pred_inject
  by (intro conjI TrueI truthful_plain truthful_checked allows_postable allows_editable allows_readable;
      simp add: postable_def editable_def readable_def)

text \<open>Claim C20: The \<open>Allow\<close> header of every OPTIONS answer is true: on each pattern that has an OPTIONS route, an
  answer of 204 lists exactly the methods that are registered for this pattern;
  any other answer is the 400 for a malformed ID. The state is not touched.\<close>

theorem options_truthful:
  assumes "(''OPTIONS'', pattern, h) \<in> set (RegisterHTTPHandlers X docs running connected p B ctx identity)"
  shows "\<exists>resp. h r g = (Some resp, g) \<and>
    (Status resp = 400 \<or>
     Status resp = 204 \<and>
     (\<exists>ms. map_of (Headers resp) ''Allow'' = Some (go_join '', '' ms) \<and>
           set ms = {m. \<exists>h'. (m, pattern, h') \<in> set (RegisterHTTPHandlers X docs running connected p B ctx identity)}))"
proof -
  have "(''OPTIONS'', pattern, h) \<in> set (optionsRoutes X)"
    using assms by (auto simp: RegisterHTTPHandlers_def writeRoutes_def readRoutes_def getRoute_def)
  with options_truthful_all [of X] have "truthful (''OPTIONS'', pattern, h)" by (auto simp: list_all_iff)
  then obtain resp where "h r g = (Some resp, g)" "Status resp = 204 \<and> allows pattern resp \<or> Status resp = 400"
    unfolding truthful_def by auto
  moreover note set_methodsAt [of pattern X docs running connected p B ctx identity]
  ultimately show ?thesis by (auto simp: allows_def)
qed

section \<open>Links that lead somewhere\<close>

definition pathText :: "string list \<Rightarrow> string" where
  "pathText segs = (if segs = [] then ''/'' else concat (map (\<lambda>seg. ''/'' @ seg) segs))"

definition documentLinks :: "string \<Rightarrow> link list" where
  "documentLinks base = landingLinks base @ concat (map CollLinks (buildCollectionsMetadata base))"

definition documentPaths :: "(string list \<times> string) list" where
  "documentPaths =
     [([], []), ([''conformance''], []), ([''api''], []), ([''systems''], []), ([''datastreams''], []),
      ([''areas''], []), ([''systems''], []), ([''datastreams''], []), ([''controlstreams''], []),
      ([''commands''], []), ([''observations''], []), ([''systemEvents''], []),
      ([''systems''], ''?f=geojson''), ([''systems''], []), ([''procedures''], ''?f=geojson''), ([''procedures''], []),
      ([''deployments''], ''?f=geojson''), ([''deployments''], []), ([''samplingFeatures''], ''?f=geojson''),
      ([''samplingFeatures''], []), ([''properties''], []), ([''datastreams''], []),
      ([''collections'', ''all_system_events'', ''items''], []), ([''systemEvents''], []),
      ([''collections'', ''all_feasibility'', ''items''], []), ([''feasibility''], [])]"

lemma document_hrefs: "map LinkHref (documentLinks base) = map (\<lambda>(segs, q). base @ pathText segs @ q) documentPaths"
  by (simp add: documentLinks_def landingLinks_def buildCollectionsMetadata_def featureLinks_def facadeLinks_def docLink_def
      documentPaths_def pathText_def)

lemma document_paths_known: "list_all (\<lambda>(segs, q). list_ex (\<lambda>p. matchPath p segs \<noteq> None) getKeys) documentPaths"
  by code_simp

lemma get_routed:
  assumes "p \<in> set getKeys" "matchPath p segs = Some vs"
  shows "\<exists>h. findRoute (RegisterHTTPHandlers X docs running connected peer B ctx identity) ''GET'' segs = Some (vs, h)"
proof -
  have "(''GET'', p) \<in> set serverKeys" using assms(1) by (simp add: serverKeys_def)
  then obtain h where "(''GET'', p, h) \<in> set (RegisterHTTPHandlers X docs running connected peer B ctx identity)"
    unfolding server_routed [symmetric, of "''GET''" p X docs running connected peer B ctx identity] ..
  from findRoute_disjoint [OF _ this assms(2)] show ?thesis by (simp only: server_keys server_keys_disjoint) blast
qed

text \<open>The documents the gateway advertises itself with are not stale: every link of the landing page and of
  the collections is the base URL followed by a path, and possibly the format parameter, and a GET of this
  path is routed to a handler, never to the 404 of the mux.\<close>

theorem advertised_served:
  assumes "l \<in> set (landingLinks base) \<union> (\<Union>c \<in> set (buildCollectionsMetadata base). set (CollLinks c))"
  shows "\<exists>segs query vs h. LinkHref l = base @ pathText segs @ query \<and> query \<in> {[], ''?f=geojson''} \<and>
    findRoute (RegisterHTTPHandlers X docs running connected p B ctx identity) ''GET'' segs = Some (vs, h)"
proof -
  from assms have "LinkHref l \<in> set (map LinkHref (documentLinks base))" by (auto simp: documentLinks_def)
  then obtain segs q where d: "(segs, q) \<in> set documentPaths" "LinkHref l = base @ pathText segs @ q"
    unfolding document_hrefs by auto
  from d(1) document_paths_known obtain pat vs where "pat \<in> set getKeys" "matchPath pat segs = Some vs"
    by (auto simp: list_all_iff list_ex_iff)
  from get_routed [OF this] obtain h
    where "findRoute (RegisterHTTPHandlers X docs running connected p B ctx identity) ''GET'' segs = Some (vs, h)" by blast
  moreover from d(1) have "q \<in> {[], ''?f=geojson''}" by (auto simp: documentPaths_def)
  ultimately show ?thesis using d(2) by blast
qed

section \<open>The life cycle\<close>

text \<open>What the runtime does with a server: it is initialised, started and stopped in any order, with any
  outcome of the calls that these make, and its connection comes and goes.\<close>

inductive lifecycle_step :: "env \<Rightarrow> 's server \<Rightarrow> 's server \<Rightarrow> bool" for X where
  initialized: "Initialize X s = (e, s') \<Longrightarrow> lifecycle_step X s s'"
| started: "Start X ctx res s = (e, s') \<Longrightarrow> lifecycle_step X s s'"
| stopped: "Stop shutdown s = (e, s') \<Longrightarrow> lifecycle_step X s s'"
| connection: "lifecycle_step X s (s\<lparr>Connected := b\<rparr>)"

definition handlesReady :: "'s server \<Rightarrow> bool" where
  "handlesReady s \<longleftrightarrow> StoreReady (Gateway s) \<and> CleanerReady (Gateway s) \<and> PublisherReady (Gateway s) \<and> ReaderReady (Gateway s)"

definition lifecycle_inv :: "env \<Rightarrow> 's server \<Rightarrow> bool" where
  "lifecycle_inv X s \<longleftrightarrow>
     (Running s \<longrightarrow> Initialized s \<and> handlesReady s) \<and> (Initialized s \<longrightarrow> validateConfig (Ids X) (Cfg X) = None)"

lemma lifecycle_init: "newServer E c nats w fresh = Inr (cfg, s) \<Longrightarrow> lifecycle_inv X s"
  by (auto simp: newServer_def Let_def lifecycle_inv_def split: if_splits option.splits)

lemma lifecycle_keeps: "lifecycle_step X s s' \<Longrightarrow> lifecycle_inv X s \<Longrightarrow> lifecycle_inv X s'"
  by (induction rule: lifecycle_step.induct)
    (auto simp: Initialize_def Start_def Stop_def storeHandles_def lifecycle_inv_def handlesReady_def Let_def
      split: if_splits option.splits)

text \<open>In whatever order a new server is initialised, started and stopped, and however each of these calls
  ends, a server that runs has been initialised under a configuration that validates and has its four
  handles (object store, cleaner, publisher, reader); a start that failed half-way never leaves it running.\<close>

theorem running_ready:
  assumes "newServer E c nats w fresh = Inr (cfg, s0)" "(lifecycle_step X)\<^sup>*\<^sup>* s0 s" "Running s"
  shows "Initialized s \<and> validateConfig (Ids X) (Cfg X) = None \<and>
    StoreReady (Gateway s) \<and> CleanerReady (Gateway s) \<and> PublisherReady (Gateway s) \<and> ReaderReady (Gateway s)"
proof -
  from assms(2) have "lifecycle_inv X s"
    by (induction rule: rtranclp_induct) (simp_all add: lifecycle_init [OF assms(1)] lifecycle_keeps)
  with assms(3) show ?thesis by (simp add: lifecycle_inv_def handlesReady_def)
qed

end
