(* ===== verification/SystemExamples.thy ===== *)
theory SystemExamples
  imports SystemWrites
begin

text \<open>
  The system handlers run on the in-memory graph of \<open>GraphModel\<close>: the hypotheses of their properties
  hold there, and a concrete request goes through each of them.
\<close>

section \<open>The handlers on the in-memory graph\<close>

definition jsonEnv :: "json \<Rightarrow> env" where
  "jsonEnv doc = sampleEnv\<lparr>ParseJson := (\<lambda>s. Some doc),
     Cfg := DefaultConfig\<lparr>SystemIDPrefix := ''o.p.d.s.t''\<rparr>\<rparr>"

definition systemID :: string where "systemID = ''o.p.d.s.t.s1''"

definition oneSystem :: "memory gateway" where
  "oneSystem = emptyGateway\<lparr>World :=
     \<lparr>Entities = [(systemID, [str_triple systemID PredType SSNSystem, str_triple systemID PredLabel ''S''], 1)],
      Objects = [], Messages = []\<rparr>\<rparr>"

definition requestOf :: "string \<Rightarrow> string \<Rightarrow> request" where
  "requestOf path ct =
     \<lparr>Method = ''PUT'', RawQuery = [], PathValue = (\<lambda>k. path), Query = (\<lambda>k. []),
      Header = (\<lambda>k. if k = ''Content-Type'' then [ct] else []), Body = BodyOk ''body''\<rparr>"

definition systemDoc :: "string \<Rightarrow> string \<Rightarrow> json" where
  "systemDoc uid name =
     JObj [(''type'', JStr ''Feature''),
           (''properties'', JObj [(''uid'', JStr uid), (''name'', JStr name)])]"

lemma jsonEnv_contract: "graph_contract (jsonEnv doc) memoryBackend memoryContents"
  using memory_contract
  by (simp add: jsonEnv_def graph_contract_def query_law_def create_law_def reconcile_law_def delete_law_def
      refusal_law_def)

definition putRun :: "response \<times> memory gateway" where
  "putRun = handleSystemPut (jsonEnv (systemDoc ''urn:x:s1'' ''T'')) memoryBackend background anonymous
     (requestOf systemID MediaJSON) oneSystem"

definition deleteRun :: "response \<times> memory gateway" where
  "deleteRun = handleSystemDelete (jsonEnv JNull) memoryBackend background anonymous
     (requestOf systemID []) oneSystem"

definition postRun :: "response \<times> memory gateway" where
  "postRun = handleSystemPost (jsonEnv (systemDoc ''urn:x:s2'' ''T'')) memoryBackend background anonymous
     (requestOf [] MediaJSON) oneSystem"

definition patchRun :: "response \<times> memory gateway" where
  "patchRun = handleSystemPatch (jsonEnv (systemDoc [] ''T'')) memoryBackend background anonymous
     (requestOf systemID MediaJSON) oneSystem"

lemma put_status: "Status (fst putRun) = 204" by code_simp
lemma delete_status: "Status (fst deleteRun) = 204" by code_simp
lemma post_status: "Status (fst postRun) = 201" by code_simp
lemma patch_status: "Status (fst patchRun) = 204" by code_simp

lemma run_eqs:
  "handleSystemPut (jsonEnv (systemDoc ''urn:x:s1'' ''T'')) memoryBackend background anonymous
     (requestOf systemID MediaJSON) oneSystem = (fst putRun, snd putRun)"
  "handleSystemDelete (jsonEnv JNull) memoryBackend background anonymous
     (requestOf systemID []) oneSystem = (fst deleteRun, snd deleteRun)"
  "handleSystemPost (jsonEnv (systemDoc ''urn:x:s2'' ''T'')) memoryBackend background anonymous
     (requestOf [] MediaJSON) oneSystem = (fst postRun, snd postRun)"
  "handleSystemPatch (jsonEnv (systemDoc [] ''T'')) memoryBackend background anonymous
     (requestOf systemID MediaJSON) oneSystem = (fst patchRun, snd patchRun)"
  by (simp_all only: putRun_def deleteRun_def postRun_def patchRun_def prod.collapse)

lemma path_of [simp]: "PathValue (requestOf path ct) k = path"
  by (simp add: requestOf_def)

lemma outcome_ok: "write_outcome ok spec resp m m' \<Longrightarrow> Status resp = ok \<Longrightarrow> spec m m'"
  by (simp add: write_outcome_def)

theorem system_put_outcome_witness:
  "\<exists>ts. put_spec (jsonEnv (systemDoc ''urn:x:s1'' ''T'')) systemID ts
      (memoryContents (World oneSystem)) (memoryContents (World (snd putRun)))"
proof -
  note w = system_put_outcome [OF jsonEnv_contract run_eqs(1)]
  show ?thesis using outcome_ok [OF w put_status] unfolding path_of by blast
qed

theorem system_delete_outcome_witness:
  "memoryContents (World (snd deleteRun)) = (memoryContents (World oneSystem))(systemID := None)"
proof -
  note w = system_delete_outcome [OF jsonEnv_contract run_eqs(2)]
  show ?thesis using outcome_ok [OF w delete_status] unfolding path_of by simp
qed

theorem system_post_outcome_witness:
  "\<exists>eid ts. post_spec (jsonEnv (systemDoc ''urn:x:s2'' ''T'')) eid ts
      (memoryContents (World oneSystem)) (memoryContents (World (snd postRun)))"
proof -
  note w = system_post_outcome [OF jsonEnv_contract run_eqs(3)]
  show ?thesis using outcome_ok [OF w post_status] unfolding path_of by blast
qed

lemma profile_not_system: "EntityIndexingProfile (jsonEnv doc) \<notin> set systemPredicates"
  by (simp add: jsonEnv_def sampleEnv_def systemPredicates_def commonPredicates_def geoPredicates_def vocab_defs)

theorem system_patch_outcome_witness:
  "\<exists>feat. patch_spec systemID
      (systemReplacement (jsonEnv (systemDoc [] ''T'')) systemID feat)
      (memoryContents (World oneSystem)) (memoryContents (World (snd patchRun)))"
proof -
  note w = system_patch_outcome [OF jsonEnv_contract profile_not_system run_eqs(4)]
  show ?thesis using outcome_ok [OF w patch_status] unfolding path_of by blast
qed

section \<open>The projection of a SensorML body\<close>

text \<open>A component that names its method, a body the read side renders: POST refuses it.\<close>

definition methodProcess :: Process where
  "methodProcess = PhysicalComponent ((bareBase ''p'')\<lparr>UniqueID := ''urn:x:s3''\<rparr>)
     (Some \<lparr>Href = ''urn:m'', RefTitle = [], Role = []\<rparr>) None"

definition methodEnv :: env where
  "methodEnv = jsonEnv (processJson (FormatFloat bitsStdlib) methodProcess)"

lemma method_parsed:
  "UnmarshalProcess (ParseFloat (Std methodEnv)) (processJson (FormatFloat bitsStdlib) methodProcess) = Inr methodProcess"
proof -
  have "float_text_laws (ParseFloat bitsStdlib) (FormatFloat bitsStdlib)"
    using bitsStdlib_laws by (simp add: float_text_laws_def stdlib_laws_def)
  moreover have "utf8Process methodProcess = methodProcess" by code_simp
  ultimately show ?thesis
    using process_roundtrip [of "ParseFloat bitsStdlib" "FormatFloat bitsStdlib" methodProcess]
    by (simp add: methodProcess_def base_ok_def bareBase_def methodEnv_def jsonEnv_def sampleEnv_def)
qed

lemma method_minted: "mintSystemEntityID methodEnv ''urn:x:s3'' = ''o.p.d.s.t.s3''"
  by code_simp

lemma method_projected:
  "buildSystemTriplesFromSensorML methodEnv body =
     Inr (''o.p.d.s.t.s3'', sensorMLRootTriples methodEnv ''o.p.d.s.t.s3'' methodProcess)"
proof -
  have "ParseJson methodEnv body = Some (processJson (FormatFloat bitsStdlib) methodProcess)"
    by (simp add: methodEnv_def jsonEnv_def)
  moreover have "UniqueID (Base methodProcess) = ''urn:x:s3''" "Position (Base methodProcess) = None"
    by (simp_all add: methodProcess_def bareBase_def)
  ultimately show ?thesis
    by (simp add: buildSystemTriplesFromSensorML_def method_parsed method_minted sensorMLRootTriples_eq
        baseTriples_def Let_def)
qed

theorem sensorml_projection_scope_witness:
  "validateProjectionFacts methodEnv (systemContract methodEnv) ''o.p.d.s.t.s3''
     (sensorMLRootTriples methodEnv ''o.p.d.s.t.s3'' methodProcess) \<noteq> None"
proof -
  have "MatchEntityIDPattern (Ids methodEnv) (SystemIDPrefix (Cfg methodEnv) @ ''.*'') ''o.p.d.s.t.s3'' = Inr True"
    by code_simp
  moreover have "EntityIndexingProfile methodEnv \<notin> {PredUsedProcedure, PredHasSubSystem}"
    by (simp add: methodEnv_def jsonEnv_def sampleEnv_def vocab_defs)
  moreover have "uses_undeclared f methodProcess" for f
    by (simp add: uses_undeclared_def methodProcess_def lossyRef_def)
  moreover have "ParseJson methodEnv [] = Some doc \<and> UnmarshalProcess (ParseFloat (Std methodEnv)) doc = Inr p
      \<Longrightarrow> p = methodProcess" for doc p
    using method_parsed by (simp add: methodEnv_def jsonEnv_def)
  ultimately show ?thesis using sensorml_projection_scope [OF method_projected [of "[]"]] by blast
qed

end
