(* ===== verification/DatastreamLists.thy ===== *)
theory DatastreamLists
  imports DatastreamReads WriteOutcome
begin

text \<open>What the datastream GETs show of a graph that answers: the item, the collection, the collection
  of a system.\<close>

section \<open>Collections\<close>

text \<open>A stored datastream, as \<open>datastreamFromState\<close> shows it, and those among some IDs.\<close>

definition shownDatastream :: "contents \<Rightarrow> string \<Rightarrow> Datastream" where
  "shownDatastream m i = datastreamFromState (state_of i (fst (the (m i))) None)"

abbreviation datastreamsAmong :: "contents \<Rightarrow> string list \<Rightarrow> Datastream list" where
  "datastreamsAmong \<equiv> viewsAmong isDatastreamKind datastreamFromState"

lemma datastreamFromState_ref:
  "datastreamFromState s = datastreamFromState (state_of (EntityID s) (EntityTriples s) None)"
  by (simp add: datastreamFromState_def state_of_def)

interpretation datastream_view: resource_view isDatastreamKind datastreamFromState
  by unfold_locales (rule datastreamFromState_ref)

lemma datastreamJson_shown: "datastreamJson X (datastreamFromState st) \<noteq> None"
  by (simp add: datastreamJson_def datastreamFromState_def Let_def)

lemma datastreamCollectionJson_shown:
  "set ds \<subseteq> range datastreamFromState \<Longrightarrow> datastreamCollectionJson X ds t \<noteq> None"
proof -
  assume "set ds \<subseteq> range datastreamFromState"
  then have "\<forall>d \<in> set ds. datastreamJson X d \<noteq> None" using datastreamJson_shown by fastforce
  then have "those (map (datastreamJson X) ds) \<noteq> None" by (induction ds) auto
  then show ?thesis by (simp add: datastreamCollectionJson_def)
qed

lemma viewsAmong_range: "set (viewsAmong kind shown m ids) \<subseteq> range shown"
  by (auto simp: viewsAmong_def storedView_def List.map_filter_def split: option.splits if_splits)

text \<open>The datastreams among the entities read, as a response.\<close>

lemma datastreams_encoded:
  assumes "\<exists>g1. contents (World g1) = contents (World g) \<and>
      h = encodeJSON r (datastreamCollectionJson X (take n (filter P (datastreamsAmong m ids))) t) g1"
  shows "\<exists>j g'. h = (okResponse r [contentTypeJSON] (JsonBody j), g') \<and> contents (World g') = contents (World g) \<and>
    datastreamCollectionJson X (take n (filter P (datastreamsAmong m ids))) t = Some j"
proof -
  let ?ds = "take n (filter P (datastreamsAmong m ids))"
  have "set ?ds \<subseteq> range datastreamFromState"
    using viewsAmong_range [of isDatastreamKind datastreamFromState m ids] set_take_subset [of n] by fastforce
  then obtain j where "datastreamCollectionJson X ?ds t = Some j"
    using datastreamCollectionJson_shown by fastforce
  with assms show ?thesis by (auto simp: encodeJSON_def encodeBody_def)
qed

text \<open>Claim C26: What a page of the datastream collection shows. A GET of \<open>/datastreams\<close> that passes
  negotiation and has a limit in range reads the first entities of the graph's listing, as many as the limit, with a
  filter as many as the configured maximum. It is answered by 200 and, of the entities read and in their order,
  the matching datastreams up to the limit, each as it is stored; it changes nothing. A matching datastream further
  down the listing is on no page, and with a filter the mark of truncation compares the number of entities read with
  the limit, so it does not tell.\<close>

theorem datastream_listing:
  assumes "list_law B contents listing" "batch_law B contents" "ids_valid X (contents (World g))" "limits_ok X"
    and "lists_class (contents (World g)) DatastreamTypeIRI (listing (World g) DatastreamTypeIRI)"
    and "NegotiateRequest (Std X) r FamilyDatastreamCollection \<noteq> None"
    and "parseLimit (query_get r ''limit'') (DefaultListLimit (Cfg X)) (MaxListLimit (Cfg X)) = Inr limit"
  defines "f \<equiv> datastreamCollectionFiltersFromQuery r"
  defines "read \<equiv> take (nat (if datastreamFiltersActive f then MaxListLimit (Cfg X) else limit))
      (listing (World g) DatastreamTypeIRI)"
  shows "\<exists>j g'. handleDatastreams X B r g = (okResponse r [contentTypeJSON] (JsonBody j), g') \<and>
    contents (World g') = contents (World g) \<and>
    datastreamCollectionJson X (take (nat limit) (filter (\<lambda>d. datastreamMatchesFilters X d f)
      (datastreamsAmong (contents (World g)) read))) (int (length read) = limit) = Some j"
proof -
  have "1 \<le> limit" using parseLimit_bounds [OF assms(4,7)] by simp
  from datastream_view.list_collected [OF assms(1-3,5) this,
      where k = "\<lambda>ids ds. encodeJSON r (datastreamCollectionJson X ds (int (length ids) = limit))"
        and P = "\<lambda>d. datastreamMatchesFilters X d f"]
  show ?thesis unfolding read_def
    using assms(6,7)
    by (intro datastreams_encoded) (auto simp: handleDatastreams_def negotiated_def withLimit_def Let_def f_def [symmetric]
        writeDatastreamCollection_def datastreamRow_def)
qed

text \<open>The datastreams of a system are cut before they are selected. \<open>GET
  /systems/{id}/datastreams\<close> reads the first datastreams of the whole graph up to the limit and
  keeps those of the system: a system whose datastreams come later in the listing is answered with
  an empty collection.\<close>

theorem system_datastreams_cut:
  assumes "list_law B contents listing" "batch_law B contents" "ids_valid X (contents (World g))" "limits_ok X"
    and "lists_class (contents (World g)) DatastreamTypeIRI (listing (World g) DatastreamTypeIRI)"
    and "NegotiateRequest (Std X) r FamilyDatastreamCollection \<noteq> None"
    and "parseLimit (query_get r ''limit'') (DefaultListLimit (Cfg X)) (MaxListLimit (Cfg X)) = Inr limit"
    and "PathValue r ''id'' = sys" "sys \<noteq> []" "ValidateEntityID (Ids X) sys = None"
  defines "read \<equiv> take (nat limit) (listing (World g) DatastreamTypeIRI)"
  shows "\<exists>j g'. handleSystemDatastreams X B r g = (okResponse r [contentTypeJSON] (JsonBody j), g') \<and>
    contents (World g') = contents (World g) \<and>
    datastreamCollectionJson X (filter (\<lambda>d. DsSystemID d = sys) (datastreamsAmong (contents (World g)) read))
      (int (length read) = limit) = Some j"
proof -
  let ?ds = "filter (\<lambda>d. DsSystemID d = sys) (datastreamsAmong (contents (World g)) read)"
  have "1 \<le> limit" using parseLimit_bounds [OF assms(4,7)] by simp
  note read = datastream_view.list_collected [OF assms(1-3,5) this,
      where k = "\<lambda>ids ds. encodeJSON r (datastreamCollectionJson X ds (int (length ids) = limit))"
        and P = "\<lambda>d. DsSystemID d = sys" and n = limit, folded read_def]
  have "length ?ds \<le> length (datastreamsAmong (contents (World g)) read)" by (rule length_filter_le)
  also have "\<dots> \<le> length read" by (rule viewsAmong_length)
  finally have "length ?ds \<le> nat limit" by (simp add: read_def)
  then have all: "take (nat limit) ?ds = ?ds" by simp
  have run: "handleSystemDatastreams X B r g =
      withListed X B DatastreamTypeIRI limit ''listSystemDatastreamEntities'' (\<lambda>ids. withBatch X B ids (\<lambda>states.
        encodeJSON r (datastreamCollectionJson X (collectRows (rowOf isDatastreamKind datastreamFromState
          (\<lambda>d. DsSystemID d = sys)) states limit ids) (int (length ids) = limit)))) g"
    using assms(6-10)
    by (auto simp: handleSystemDatastreams_def negotiated_def withValidID_def withLimit_def
        writeDatastreamCollection_def datastreamRow_def datastreamMatchesFilters_def noDatastreamFilters_def)
  show ?thesis
    unfolding run
    by (rule datastreams_encoded [where n = "nat limit" and P = "\<lambda>d. DsSystemID d = sys" and ids = read
          and m = "contents (World g)", unfolded all, OF read [unfolded all]])
qed

section \<open>One datastream\<close>

lemma openDatastream_stored:
  assumes "query_law X B contents" "openDatastream X B P r g = (res, g')"
  shows "contents (World g') = contents (World g) \<and>
    (case res of
       Inl resp \<Rightarrow> Status resp \<in> refusals
     | Inr state \<Rightarrow> EntityID state = PathValue r ''id'' \<and> isDatastreamKind (EntityTriples state) \<and>
         (\<exists>kv. contents (World g) (PathValue r ''id'') = Some (EntityTriples state, kv)))"
proof -
  obtain res1 g1 where f: "fetchEntity X B (PathValue r ''id'') g = (res1, g1)" by fastforce
  note stored = fetchEntity_stored [OF assms(1) f]
  have run: "openDatastream X B P r g =
    (case ValidateEntityID (Ids X) (PathValue r ''id'') of
       Some e \<Rightarrow> (Inl (writeJSONError [] 400 (''invalid datastream id: '' @ e)), g)
     | None \<Rightarrow>
         if \<not> P (NegotiateRequest (Std X) r FamilyDatastreamItem) then (Inl (WriteNotAcceptable FamilyDatastreamItem), g)
         else (case res1 of
                 Inl e \<Rightarrow> apfst Inl (writeBackendError X [] e g1)
               | Inr state \<Rightarrow>
                   if isDatastreamKind (EntityTriples state) then (Inr state, g1)
                   else (Inl (writeJSONError [] 404 (''no datastream: '' @ PathValue r ''id'')), g1)))"
    by (simp only: openDatastream_def Let_def f prod.case)
  show ?thesis
  proof (cases res1)
    case (Inl e)
    obtain resp g2 where w: "writeBackendError X [] e g1 = (resp, g2)" by fastforce
    show ?thesis
      using run assms(2) Inl w stored backendError_refusal [OF w] by (auto split: option.splits if_splits)
  next
    case (Inr state)
    with run assms(2) stored show ?thesis by (auto split: option.splits if_splits)
  qed
qed

lemma readSchemaArtifact_stored:
  assumes "query_law X B contents" "store_law B contents objs" "readSchemaArtifact X B ts rel g = (res, g')"
  shows "contents (World g') = contents (World g) \<and> (firstStringObject ts [rel] = None \<longrightarrow> res = Inr None)"
  using assms(3)
  by (fastforce simp: readSchemaArtifact_def Let_def dest: fetchEntity_stored [OF assms(1)] store_get [OF assms(2)]
      split: option.splits sum.splits prod.splits if_splits store_result.splits)

text \<open>GET of a datastream shows what is stored and changes nothing. A 200 means that the graph
  holds a datastream under the ID; the body is its representation, with a schema only if one is
  linked. An ID the graph does not hold or an entity of another kind is never answered by 200.\<close>

theorem datastream_get_outcome:
  assumes "query_law X B contents" "store_law B contents objs"
    and "handleDatastream X B r g = (resp, g')"
  defines "i \<equiv> PathValue r ''id''"
  shows "contents (World g') = contents (World g) \<and>
    (if Status resp = 200
     then \<exists>ts kv schema. contents (World g) i = Some (ts, kv) \<and> isDatastreamKind ts \<and>
       (firstStringObject ts [PredDatastreamSchema] = None \<longrightarrow> schema = []) \<and>
       resp = fst (encodeJSON r (datastreamJson X ((shownDatastream (contents (World g)) i)\<lparr>DsSchema := schema\<rparr>)) g)
     else Status resp \<in> refusals)"
proof -
  obtain res g1 where o: "openDatastream X B (\<lambda>m. m \<noteq> None) r g = (res, g1)" by fastforce
  note opened = openDatastream_stored [OF assms(1) o]
  show ?thesis
  proof (cases res)
    case (Inl refusal)
    with o assms(3) opened show ?thesis by (auto simp: handleDatastream_def)
  next
    case (Inr state)
    let ?ts = "EntityTriples state"
    obtain kv where state: "EntityID state = i" "isDatastreamKind ?ts" "contents (World g) i = Some (?ts, kv)"
      "contents (World g1) = contents (World g)"
      using opened Inr by (auto simp: i_def)
    have shown: "datastreamFromState state = shownDatastream (contents (World g)) i"
      using datastreamFromState_ref [of state] state by (simp add: shownDatastream_def)
    obtain res2 g2 where s: "readSchemaArtifact X B ?ts PredDatastreamSchema g1 = (res2, g2)" by fastforce
    note read = readSchemaArtifact_stored [OF assms(1,2) s]
    have same: "contents (World g2) = contents (World g)" using read state(4) by simp
    have answered: ?thesis
      if e: "encodeJSON r (datastreamJson X ((datastreamFromState state)\<lparr>DsSchema := schema\<rparr>)) g2 = (resp, g')"
        and n: "firstStringObject ?ts [PredDatastreamSchema] = None \<longrightarrow> schema = []" for schema
    proof -
      let ?body = "datastreamJson X ((shownDatastream (contents (World g)) i)\<lparr>DsSchema := schema\<rparr>)"
      have "resp = fst (encodeJSON r ?body g) \<and> Status resp = 200 \<and> World g' = World g2"
        using e unfolding shown by (cases ?body) (auto simp: encodeJSON_def encodeBody_def okResponse_def split: if_splits)
      with n state(2,3) same show ?thesis by auto
    qed
    have failed: ?thesis if "writeBackendError X [] e g2 = (resp, g')" for e
      using backendError_refusal [OF that] same by auto
    have plain: "(datastreamFromState state)\<lparr>DsSchema := []\<rparr> = datastreamFromState state"
      by (simp add: datastreamFromState_def Let_def)
    have run: "handleDatastream X B r g =
        (case res2 of
           Inl e \<Rightarrow> writeBackendError X [] e g2
         | Inr None \<Rightarrow> encodeJSON r (datastreamJson X (datastreamFromState state)) g2
         | Inr (Some raw) \<Rightarrow>
             (case normalizeSWESchema X raw of
                Inl e \<Rightarrow> writeBackendError X [] (Wrap ''handleDatastream'' e) g2
              | Inr schema \<Rightarrow> encodeJSON r (datastreamJson X ((datastreamFromState state)\<lparr>DsSchema := schema\<rparr>)) g2))"
      by (simp only: handleDatastream_def o Inr s prod.case sum.case)
    show ?thesis
    proof (cases res2)
      case (Inl e)
      with run assms(3) have "writeBackendError X [] e g2 = (resp, g')" by simp
      then show ?thesis by (rule failed)
    next
      case res2: (Inr schema)
      show ?thesis
      proof (cases schema)
        case None
        with run assms(3) res2 plain
        have "encodeJSON r (datastreamJson X ((datastreamFromState state)\<lparr>DsSchema := []\<rparr>)) g2 = (resp, g')" by simp
        then show ?thesis by (rule answered) simp
      next
        case (Some raw)
        with res2 read have linked: "firstStringObject ?ts [PredDatastreamSchema] \<noteq> None" by auto
        show ?thesis
        proof (cases "normalizeSWESchema X raw")
          case (Inl e)
          with run assms(3) res2 Some
          have "writeBackendError X [] (Wrap ''handleDatastream'' e) g2 = (resp, g')" by simp
          then show ?thesis by (rule failed)
        next
          case (Inr canon)
          with run assms(3) res2 Some
          have "encodeJSON r (datastreamJson X ((datastreamFromState state)\<lparr>DsSchema := canon\<rparr>)) g2 = (resp, g')" by simp
          then show ?thesis by (rule answered) (use linked in auto)
        qed
      qed
    qed
  qed
qed

end
