(* ===== verification/DatastreamListExamples.thy ===== *)
theory DatastreamListExamples
  imports DatastreamLists
begin

text \<open>The datastream GETs on an in-memory graph with two datastreams of two systems.\<close>

definition listed_ds :: "string \<Rightarrow> string \<Rightarrow> triple list" where
  "listed_ds i sys = [str_triple i PredType DatastreamTypeIRI, str_triple i PredDatastreamSystem sys]"

definition firstDs :: string where "firstDs = ''o.p.d.s.t.d1''"
definition secondDs :: string where "secondDs = ''o.p.d.s.t.d2''"
definition secondSystem :: string where "secondSystem = ''o.p.d.s.t.s2''"

definition twoDatastreams :: "memory gateway" where
  "twoDatastreams = emptyGateway\<lparr>World := \<lparr>Entities =
     [(firstDs, listed_ds firstDs ''o.p.d.s.t.s1'', 1), (secondDs, listed_ds secondDs secondSystem, 1)],
     Objects = [], Messages = []\<rparr>\<rparr>"

definition getRequest :: "string \<Rightarrow> (string \<times> string) list \<Rightarrow> request" where
  "getRequest path query =
     \<lparr>Method = ''GET'', RawQuery = [], PathValue = (\<lambda>k. path),
      Query = (\<lambda>k. case map_of query k of None \<Rightarrow> [] | Some v \<Rightarrow> [v]), Header = (\<lambda>k. []), Body = BodyOk []\<rparr>"

definition memoryListing :: "memory \<Rightarrow> string \<Rightarrow> string list" where
  "memoryListing w iri =
     map fst (filter (\<lambda>(i, ts, kv). \<exists>t \<in> set ts. Predicate t = PredType \<and> Object t = OStr iri) (Entities w))"

lemma memory_list: "list_law memoryBackend memoryContents memoryListing"
  by (simp add: list_law_def memoryBackend_def memoryListing_def take_map)

lemma memory_objects_store: "store_law memoryBackend memoryContents (\<lambda>w. map_of (Objects w))"
proof -
  have "Objects (snd (memoryRequest req w)) = Objects w" for req w
    by (cases req) (auto simp: Let_def split: option.splits)
  then show ?thesis
    by (auto simp: store_law_def memoryBackend_def memoryContents_def update_conv' split: option.splits)
qed

lemma two_listed: "memoryListing (World twoDatastreams) DatastreamTypeIRI = [firstDs, secondDs]"
  by code_simp

lemma two_contents:
  "memoryContents (World twoDatastreams) =
     [firstDs \<mapsto> (listed_ds firstDs ''o.p.d.s.t.s1'', 1), secondDs \<mapsto> (listed_ds secondDs secondSystem, 1)]"
  by (auto simp: memoryContents_def twoDatastreams_def firstDs_def secondDs_def fun_eq_iff)

lemma two_lists_class:
  "lists_class (memoryContents (World twoDatastreams)) DatastreamTypeIRI (memoryListing (World twoDatastreams) DatastreamTypeIRI)"
  by (auto simp: lists_class_def two_listed two_contents listed_ds_def firstDs_def secondDs_def)

lemma two_valid: "ids_valid sampleEnv (memoryContents (World twoDatastreams))" "limits_ok sampleEnv"
proof -
  have "ValidateEntityID (Ids sampleEnv) firstDs = None" "ValidateEntityID (Ids sampleEnv) secondDs = None"
    by code_simp+
  then show "ids_valid sampleEnv (memoryContents (World twoDatastreams))"
    by (auto simp: ids_valid_def two_contents)
  show "limits_ok sampleEnv" by (simp add: limits_ok_def sampleEnv_def DefaultConfig_def)
qed

lemma get_negotiated: "NegotiateRequest (Std sampleEnv) (getRequest path query) FamilyDatastreamCollection \<noteq> None"
  if "map_of query ''f'' = None"
proof -
  have "Negotiate (Std sampleEnv) [] FamilyDatastreamCollection \<noteq> None" by code_simp
  with that show ?thesis
    by (simp add: NegotiateRequest_def getRequest_def query_get_def header_get_def first_value_def)
qed

lemma get_limits:
  "parseLimit (query_get (getRequest path []) ''limit'') (DefaultListLimit (Cfg sampleEnv)) (MaxListLimit (Cfg sampleEnv)) = Inr 100"
  "parseLimit (query_get (getRequest path [(''limit'', ''1'')]) ''limit'') (DefaultListLimit (Cfg sampleEnv)) (MaxListLimit (Cfg sampleEnv)) = Inr 1"
proof -
  have "go_atoi ''1'' = Some 1" by code_simp
  then show
    "parseLimit (query_get (getRequest path []) ''limit'') (DefaultListLimit (Cfg sampleEnv)) (MaxListLimit (Cfg sampleEnv)) = Inr 100"
    "parseLimit (query_get (getRequest path [(''limit'', ''1'')]) ''limit'') (DefaultListLimit (Cfg sampleEnv)) (MaxListLimit (Cfg sampleEnv)) = Inr 1"
    by (simp_all add: parseLimit_def query_get_def getRequest_def first_value_def sampleEnv_def DefaultConfig_def)
qed

abbreviation both :: "Datastream list" where
  "both \<equiv> map (shownDatastream (memoryContents (World twoDatastreams))) [firstDs, secondDs]"

lemma kinds: "isDatastreamKind (listed_ds i s)"
  by (simp add: isDatastreamKind_def listed_ds_def)

lemma shown_system:
  "DsSystemID (shownDatastream (memoryContents (World twoDatastreams)) firstDs) = ''o.p.d.s.t.s1''"
  "DsSystemID (shownDatastream (memoryContents (World twoDatastreams)) secondDs) = secondSystem"
  by code_simp+

theorem datastream_listing_witness:
  "\<exists>j g'. handleDatastreams sampleEnv memoryBackend (getRequest [] []) twoDatastreams =
       (okResponse (getRequest [] []) [contentTypeJSON] (JsonBody j), g') \<and>
     datastreamCollectionJson sampleEnv both False = Some j"
proof -
  have f: "datastreamCollectionFiltersFromQuery (getRequest [] []) = noDatastreamFilters" by code_simp
  have "datastreamsAmong (memoryContents (World twoDatastreams)) [firstDs, secondDs] = both"
    by (simp add: viewsAmong_def storedView_def shownDatastream_def map_filter_simps two_contents kinds)
  moreover have "(\<lambda>d. datastreamMatchesFilters sampleEnv d noDatastreamFilters) = (\<lambda>d. True)"
    by (simp add: datastreamMatchesFilters_def noDatastreamFilters_def)
  ultimately show ?thesis
    using datastream_listing [OF memory_list memory_batch two_valid two_lists_class get_negotiated get_limits(1), of "[]"]
    by (auto simp: f two_listed datastreamFiltersActive_def noDatastreamFilters_def)
qed

text \<open>With a limit of one the second system has no datastreams, although one is stored.\<close>

theorem system_datastreams_cut_witness:
  "\<exists>j g'. handleSystemDatastreams sampleEnv memoryBackend (getRequest secondSystem [(''limit'', ''1'')]) twoDatastreams =
       (okResponse (getRequest secondSystem [(''limit'', ''1'')]) [contentTypeJSON] (JsonBody j), g') \<and>
     datastreamCollectionJson sampleEnv [] True = Some j \<and>
     DsSystemID (shownDatastream (memoryContents (World twoDatastreams)) secondDs) = secondSystem"
proof -
  have "datastreamsAmong (memoryContents (World twoDatastreams)) [firstDs] =
      [shownDatastream (memoryContents (World twoDatastreams)) firstDs]"
    by (simp add: viewsAmong_def storedView_def shownDatastream_def map_filter_simps two_contents kinds)
  moreover have "ValidateEntityID (Ids sampleEnv) secondSystem = None" by code_simp
  moreover have "PathValue (getRequest secondSystem [(''limit'', ''1'')]) ''id'' = secondSystem"
    by (simp add: getRequest_def)
  moreover have "secondSystem \<noteq> []" "''o.p.d.s.t.s1'' \<noteq> secondSystem" by (simp_all add: secondSystem_def)
  ultimately show ?thesis
    using system_datastreams_cut [OF memory_list memory_batch two_valid two_lists_class get_negotiated get_limits(2),
        of "secondSystem" secondSystem]
    by (auto simp: two_listed shown_system)
qed

theorem datastream_get_outcome_witness:
  "Status (fst (handleDatastream sampleEnv memoryBackend (getRequest secondDs []) twoDatastreams)) = 200 \<and>
   memoryContents (World (snd (handleDatastream sampleEnv memoryBackend (getRequest secondDs []) twoDatastreams))) =
     memoryContents (World twoDatastreams)"
proof
  let ?run = "handleDatastream sampleEnv memoryBackend (getRequest secondDs []) twoDatastreams"
  show "Status (fst ?run) = 200" by code_simp
  show "memoryContents (World (snd ?run)) = memoryContents (World twoDatastreams)"
    using datastream_get_outcome [OF memory_query memory_objects_store prod.collapse [symmetric]] by blast
qed

end
