(* ===== verification/RouteExamples.thy ===== *)
theory RouteExamples
  imports ServerProperties SystemExamples DatastreamListExamples
begin

text \<open>A server over the in-memory graph: its routes, a request that it serves, its start.\<close>

definition sampleDocs :: apiDocuments where
  "sampleDocs = \<lparr>OpenAPIYAML = ''openapi: 3.0.3'', OpenAPIJSON = ''{}''\<rparr>"

definition sampleHost :: peer where
  "sampleHost = \<lparr>PeerHost = ''localhost'', PeerTLS = False\<rparr>"

abbreviation sampleRoutes :: "memory route list" where
  "sampleRoutes \<equiv> RegisterHTTPHandlers sampleEnv sampleDocs True True sampleHost memoryBackend background anonymous"

theorem routes_unambiguous_witness:
  "findRoute sampleRoutes ''GET'' [''systems'', ''a''] =
     Some ([(''id'', ''a'')], answering (handleSystem sampleEnv memoryBackend))"
proof (rule routes_unambiguous)
  show "(''GET'', [''systems'', ''{id}''], answering (handleSystem sampleEnv memoryBackend)) \<in> set sampleRoutes"
    by (simp add: RegisterHTTPHandlers_def readRoutes_def getRoute_def)
  show "matchPath [''systems'', ''{id}''] [''systems'', ''a''] = Some [(''id'', ''a'')]" by code_simp
qed

theorem options_truthful_witness:
  "\<exists>ms. go_join '', '' ms = ''GET, HEAD, POST, OPTIONS'' \<and> set ms = {m. \<exists>h. (m, [''systems''], h) \<in> set sampleRoutes}"
proof -
  have "(''OPTIONS'', [''systems''], fixed (\<lambda>r. handleSystemsOptions)) \<in> set sampleRoutes"
    by (simp add: RegisterHTTPHandlers_def optionsRoutes_def)
  from options_truthful [OF this] show ?thesis
    by (auto simp: fixed_def handleSystemsOptions_def noContent_def)
qed

theorem advertised_served_witness:
  "\<exists>segs query vs h. ''http://localhost/conformance'' = ''http://localhost'' @ pathText segs @ query \<and>
     findRoute sampleRoutes ''GET'' segs = Some (vs, h)"
proof -
  let ?l = "docLink ''http://localhost'' ''/conformance'' ''conformance'' MediaJSON ''conformance declaration''"
  have "?l \<in> set (landingLinks ''http://localhost'')" by (simp add: landingLinks_def)
  then have "?l \<in> set (landingLinks ''http://localhost'') \<union>
      (\<Union>c \<in> set (buildCollectionsMetadata ''http://localhost''). set (CollLinks c))" by blast
  from advertised_served [OF this] show ?thesis by (simp add: docLink_def) blast
qed

section \<open>Safe methods\<close>

lemma memory_read_only: "read_only memoryBackend memoryContents"
proof -
  have "is_query q \<Longrightarrow> memoryContents (snd (memoryRequest q w)) = memoryContents w" for q w
    by (cases q) (auto simp: memoryContents_def split: option.split)
  then show ?thesis by (simp add: read_only_def memoryBackend_def)
qed

definition memoryServer :: "memory server" where
  "memoryServer = \<lparr>Gateway = oneSystem, Requests = 0, Initialized = True, Running = True, Connected = True\<rparr>"

definition served :: "response \<times> memory server" where
  "served = serveHTTP sampleEnv sampleDocs memoryBackend sampleHost background [''systems'', systemID] (getRequest [] []) memoryServer"

lemma served_run:
  "serveHTTP sampleEnv sampleDocs memoryBackend sampleHost background [''systems'', systemID] (getRequest [] []) memoryServer =
   (fst served, snd served)"
  by (simp only: served_def prod.collapse)

theorem safe_methods_keep_graph_witness:
  "memoryContents (World (Gateway (snd served))) = memoryContents (World oneSystem)"
proof -
  have "Method (getRequest [] []) \<in> {''GET'', ''HEAD'', ''OPTIONS''}" by (simp add: getRequest_def)
  from safe_methods_keep_graph [OF memory_read_only this served_run] show ?thesis by (simp add: memoryServer_def)
qed

section \<open>Start\<close>

definition allWell :: start_results where
  "allWell = \<lparr>StreamError = None, JetStreamError = None, StoreError = None, ContractsError = None, ListenError = None\<rparr>"

definition defaultEnv :: env where
  "defaultEnv = sampleEnv\<lparr>Cfg := ApplyDefaults DefaultConfig\<rparr>"

definition freshServer :: "memory server" where
  "freshServer = snd (projr (newServer sampleIds DefaultConfig True (World emptyGateway) []))"

definition initializedServer :: "memory server" where
  "initializedServer = snd (Initialize defaultEnv freshServer)"

definition startedServer :: "memory server" where
  "startedServer = snd (Start defaultEnv background allWell initializedServer)"

theorem running_ready_witness:
  "Initialized startedServer \<and> validateConfig (Ids defaultEnv) (Cfg defaultEnv) = None \<and> ReaderReady (Gateway startedServer)"
proof -
  have "\<not> isl (newServer sampleIds DefaultConfig True (World emptyGateway) [])" by code_simp
  then have new: "newServer sampleIds DefaultConfig True (World emptyGateway) [] =
      Inr (fst (projr (newServer sampleIds DefaultConfig True (World emptyGateway) [])), freshServer)"
    unfolding freshServer_def prod.collapse by (rule sum.collapse(2) [symmetric])
  have "lifecycle_step defaultEnv freshServer initializedServer" "lifecycle_step defaultEnv initializedServer startedServer"
    unfolding initializedServer_def startedServer_def by (rule lifecycle_step.intros, rule prod.collapse [symmetric])+
  then have "(lifecycle_step defaultEnv)\<^sup>*\<^sup>* freshServer startedServer" by (rule converse_rtranclp_into_rtranclp [OF _ r_into_rtranclp])
  moreover have "Running startedServer" by code_simp
  ultimately show ?thesis using running_ready [OF new, of defaultEnv startedServer] by simp
qed

end
