(* ===== verification/DatastreamExamples.thy ===== *)
theory DatastreamExamples
  imports DatastreamOutcomes SystemExamples
begin

text \<open>
  The schema artifacts and the datastream handlers on the in-memory graph, store and stream: the
  hypotheses of their properties hold there, and a concrete request goes through each handler.
\<close>

section \<open>The hypotheses\<close>

definition oneFieldSchema :: DataRecord where
  "oneFieldSchema = DataRecord \<lparr>LabelValue = [], DefinitionValue = [], NilValue = []\<rparr>
     [Field ''v'' (Some (Count \<lparr>LabelValue = [], DefinitionValue = [], NilValue = []\<rparr>))]"

definition schemaDoc :: json where
  "schemaDoc = projr (MarshalSchema (Some oneFieldSchema))"

text \<open>Every document has the text \<open>s\<close>; scanning it gives the schema, scanning anything else \<open>doc\<close>.\<close>

definition dsEnv :: "json \<Rightarrow> env" where
  "dsEnv doc = (jsonEnv doc)\<lparr>ParseJson := (\<lambda>s. Some (if s = ''s'' then schemaDoc else doc)), JsonText := (\<lambda>j. ''s'')\<rparr>"

definition memoryObjects :: "memory \<Rightarrow> string \<Rightarrow> string option" where
  "memoryObjects w = map_of (Objects w)"

lemma dsEnv_contract: "graph_contract (dsEnv doc) memoryBackend memoryContents"
  using memory_contract
  by (simp add: dsEnv_def jsonEnv_def graph_contract_def query_law_def create_law_def reconcile_law_def
      delete_law_def refusal_law_def)

lemma dsEnv_effect: "effect_law (dsEnv doc) memoryBackend memoryContents"
proof -
  have "effect (dsEnv doc) req m m' = effect sampleEnv req m m'" for req m m'
    by (cases req) (simp_all add: created_def dsEnv_def jsonEnv_def)
  with memory_effect show ?thesis by (simp add: effect_law_def)
qed

lemma memory_store: "store_law memoryBackend memoryContents memoryObjects"
proof -
  have "Objects (snd (memoryRequest req w)) = Objects w" for req w
    by (cases req) (auto simp: Let_def split: option.splits)
  then show ?thesis
    by (auto simp: store_law_def memoryBackend_def memoryContents_def memoryObjects_def update_conv' split: option.splits)
qed

lemma memory_purge: "purge_law memoryBackend memoryContents"
  by (simp add: purge_law_def memoryBackend_def memoryContents_def)

lemma profile_not_datastream: "EntityIndexingProfile (dsEnv doc) \<notin> set datastreamPredicates"
  by (simp add: dsEnv_def jsonEnv_def sampleEnv_def datastreamPredicates_def commonPredicates_def vocab_defs)

lemma profile_not_type: "EntityIndexingProfile (dsEnv doc) \<noteq> PredType"
  by (simp add: dsEnv_def jsonEnv_def sampleEnv_def vocab_defs)

section \<open>Schemas\<close>

lemma schema_marshalled:
  "MarshalSchema (Some oneFieldSchema) = Inr schemaDoc" "UnmarshalSchema schemaDoc = Inr oneFieldSchema"
proof -
  have "Validate (Some oneFieldSchema) = None" by (simp add: oneFieldSchema_def)
  then obtain doc where "MarshalSchema (Some oneFieldSchema) = Inr doc" "UnmarshalSchema doc = Inr oneFieldSchema"
    by (rule MarshalSchema_valid)
  then show "MarshalSchema (Some oneFieldSchema) = Inr schemaDoc" "UnmarshalSchema schemaDoc = Inr oneFieldSchema"
    by (simp_all add: schemaDoc_def)
qed

lemma trim_s: "trim_space ''s'' = ''s''" by code_simp

lemma schema_normal: "normalizeSWESchema (dsEnv doc) ''s'' = Inr ''s''"
  by (simp add: normalizeSWESchema_def trim_s dsEnv_def schema_marshalled)

theorem schema_canonical_witness: "normalizeSWESchema (dsEnv schemaDoc) ''s'' = Inr ''s''"
proof (rule schema_canonical)
  show "schema_text_laws (dsEnv schemaDoc)"
    by (auto simp: schema_text_laws_def dsEnv_def schema_marshalled trim_s)
  show "normalizeSWESchema (dsEnv schemaDoc) ''s'' = Inr ''s''" by (rule schema_normal)
qed

definition longPrefixEnv :: env where
  "longPrefixEnv = sampleEnv\<lparr>Cfg := DefaultConfig\<lparr>SchemaArtifactIDPrefix := replicate 180 CHR ''a'' @ ''.b.c.d.e''\<rparr>\<rparr>"

theorem artifact_id_bound_witness:
  "ValidateEntityID (Ids longPrefixEnv) (contentAddressedSchemaArtifactID longPrefixEnv (Sha256Hex (Ids longPrefixEnv) [])) \<noteq> None"
proof -
  have "Ids longPrefixEnv = sampleIds" by (simp add: longPrefixEnv_def sampleEnv_def)
  moreover have "validateEntityIDPrefix sampleIds (SchemaArtifactIDPrefix (Cfg longPrefixEnv)) [] = None" by code_simp
  moreover have "length (SchemaArtifactIDPrefix (Cfg longPrefixEnv)) = 188" by (simp add: longPrefixEnv_def)
  moreover have "MaxEntityIDBytes sampleIds = 255" by (simp add: sampleIds_def)
  ultimately show ?thesis using artifact_id_bound [of longPrefixEnv "[]" "[]"] sampleIds_laws by simp
qed

definition artifactRun :: "(gerr + triple) \<times> memory gateway" where
  "artifactRun = createSchemaArtifact (dsEnv JNull) memoryBackend background systemID PredDatastreamSchema ''s''
     anonymous oneSystem"

lemma artifact_run:
  "createSchemaArtifact (dsEnv JNull) memoryBackend background systemID PredDatastreamSchema ''s'' anonymous oneSystem =
   (Inr (projr (fst artifactRun)), snd artifactRun)"
proof -
  have "\<not> isl (fst artifactRun)" by code_simp
  then have "artifactRun = (Inr (projr (fst artifactRun)), snd artifactRun)"
    by (metis prod.collapse sum.collapse(2))
  then show ?thesis by (simp only: artifactRun_def)
qed

theorem artifact_created_witness:
  "\<exists>aid ts kv. memoryObjects (World (snd artifactRun)) (schemaArtifactObjectKey aid) = Some ''s'' \<and>
     memoryContents (World (snd artifactRun)) aid = Some (ts, kv)"
  using artifact_created [OF dsEnv_contract memory_store profile_not_type artifact_run] schema_normal [of JNull]
  by auto

theorem artifact_ordering_witness:
  "memoryContents (World (snd artifactRun)) = memoryContents (World oneSystem) \<or>
   (\<exists>aid. memoryObjects (World (snd artifactRun)) (schemaArtifactObjectKey aid) = Some ''s'')"
  using artifact_ordering [OF dsEnv_effect memory_store artifact_run] schema_normal [of JNull] by auto

section \<open>The handlers\<close>

definition dsID :: string where "dsID = ''o.p.d.s.t.d1''"

definition oneDatastream :: "memory gateway" where
  "oneDatastream = oneSystem\<lparr>World :=
     \<lparr>Entities = [(dsID, [str_triple dsID PredType DatastreamTypeIRI, str_triple dsID PredDatastreamSystem systemID,
                         str_triple dsID PredObservedProperty ''p''], 1)],
      Objects = [], Messages = []\<rparr>\<rparr>"

definition dsDoc :: json where
  "dsDoc = JObj [(''system'', JStr systemID), (''observedProperty'', JStr ''q'')]"

definition dsRequest :: "string \<Rightarrow> request" where "dsRequest path = requestOf path MediaJSON"

definition dsPostRun :: "response \<times> memory gateway" where
  "dsPostRun = handleDatastreamPost (dsEnv dsDoc) memoryBackend background anonymous (dsRequest []) oneSystem"
definition dsPutRun :: "response \<times> memory gateway" where
  "dsPutRun = handleDatastreamPut (dsEnv dsDoc) memoryBackend background anonymous (dsRequest dsID) oneDatastream"
definition dsPatchRun :: "response \<times> memory gateway" where
  "dsPatchRun = handleDatastreamPatch (dsEnv dsDoc) memoryBackend background anonymous (dsRequest dsID) oneDatastream"
definition dsDeleteRun :: "response \<times> memory gateway" where
  "dsDeleteRun = handleDatastreamDelete (dsEnv dsDoc) memoryBackend background anonymous (dsRequest dsID) oneDatastream"

lemma ds_post_status: "Status (fst dsPostRun) = 201" by code_simp
lemma ds_put_status: "Status (fst dsPutRun) = 204" by code_simp
lemma ds_patch_status: "Status (fst dsPatchRun) = 204" by code_simp
lemma ds_delete_status: "Status (fst dsDeleteRun) = 204" by code_simp

lemma ds_runs:
  "handleDatastreamPost (dsEnv dsDoc) memoryBackend background anonymous (dsRequest []) oneSystem =
     (fst dsPostRun, snd dsPostRun)"
  "handleDatastreamPut (dsEnv dsDoc) memoryBackend background anonymous (dsRequest dsID) oneDatastream =
     (fst dsPutRun, snd dsPutRun)"
  "handleDatastreamPatch (dsEnv dsDoc) memoryBackend background anonymous (dsRequest dsID) oneDatastream =
     (fst dsPatchRun, snd dsPatchRun)"
  "handleDatastreamDelete (dsEnv dsDoc) memoryBackend background anonymous (dsRequest dsID) oneDatastream =
     (fst dsDeleteRun, snd dsDeleteRun)"
  by (simp_all only: dsPostRun_def dsPutRun_def dsPatchRun_def dsDeleteRun_def prod.collapse)

lemma dsRequest_path [simp]: "PathValue (dsRequest path) k = path"
  by (simp add: dsRequest_def)

lemma datastream_write_ok:
  "datastream_write X raw ok spec resp m m' \<Longrightarrow> Status resp = ok \<Longrightarrow> \<exists>m1. artifact_step X raw m m1 \<and> spec m1 m'"
  by (auto simp: datastream_write_def write_outcome_def)

theorem datastream_post_outcome_witness:
  "\<exists>m1. posted (dsEnv dsDoc) (dsRequest []) (fst dsPostRun) m1 (memoryContents (World (snd dsPostRun)))"
  using datastream_write_ok [OF datastream_post_outcome [OF dsEnv_contract dsEnv_effect memory_store ds_runs(1)] ds_post_status]
  by blast

theorem datastream_put_outcome_witness:
  "\<exists>m1 ts. put_spec (dsEnv dsDoc) dsID ts m1 (memoryContents (World (snd dsPutRun)))"
  using datastream_write_ok [OF datastream_put_outcome [OF dsEnv_contract dsEnv_effect memory_store ds_runs(2)] ds_put_status]
  unfolding dsRequest_path by blast

theorem datastream_patch_outcome_witness:
  "\<exists>m1. patched (dsEnv dsDoc) (dsRequest dsID) m1 (memoryContents (World (snd dsPatchRun)))"
  using datastream_write_ok [OF datastream_patch_outcome
      [OF dsEnv_contract dsEnv_effect memory_store profile_not_datastream ds_runs(3)] ds_patch_status]
  by blast

theorem datastream_delete_outcome_witness:
  "memoryContents (World (snd dsDeleteRun)) = (memoryContents (World oneDatastream))(dsID := None)"
  using datastream_delete_outcome [OF dsEnv_contract memory_purge ds_runs(4)] ds_delete_status
  by (simp add: Let_def)

theorem datastream_roundtrip_witness:
  "isDatastreamKind (datastreamToTriples (dsEnv dsDoc) dsID (projl (Inl (datastreamFromState
      \<lparr>EntityID = dsID, EntityTriples = [str_triple dsID PredLabel ''n''], EntityStorageRef = None\<rparr>))))"
  using datastream_roundtrip [of "[]" "dsEnv dsDoc" dsID "[]" "datastreamFromState
      \<lparr>EntityID = dsID, EntityTriples = [str_triple dsID PredLabel ''n''], EntityStorageRef = None\<rparr>"] by simp

theorem datastream_patch_ignores_times_witness:
  "firstStringObject (mergePatchDatastreamTriples (dsEnv dsDoc) dsID [str_triple dsID predDatastreamResultTime ''old'']
      ((datastreamFromState \<lparr>EntityID = dsID, EntityTriples = [], EntityStorageRef = None\<rparr>)\<lparr>DsResultTime := ''new''\<rparr>) None)
    [predDatastreamResultTime] = Some ''old''"
  using datastream_patch_ignores_times [of predDatastreamResultTime "dsEnv dsDoc" dsID
      "[str_triple dsID predDatastreamResultTime ''old'']"
      "(datastreamFromState \<lparr>EntityID = dsID, EntityTriples = [], EntityStorageRef = None\<rparr>)\<lparr>DsResultTime := ''new''\<rparr>" None]
  by simp

end
