(* ===== verification/ReachableExamples.thy ===== *)
theory ReachableExamples
  imports ServerRuns RouteExamples DatastreamExamples
begin

text \<open>
  The invariants of the graph at work: the server on the in-memory services, answering POST /systems and
  then PUT /systems/{id}.
\<close>

definition runEnv :: env where
  "runEnv = jsonEnv (systemDoc ''urn:x:s2'' ''T'')"

definition serveSample :: "string \<Rightarrow> string list \<Rightarrow> memory server \<Rightarrow> response \<times> memory server" where
  "serveSample m path s =
     serveHTTP runEnv sampleDocs memoryBackend sampleHost background path ((requestOf [] MediaJSON)\<lparr>Method := m\<rparr>) s"

definition createdID :: string where "createdID = ''o.p.d.s.t.s2''"

definition emptyServer :: "memory server" where "emptyServer = memoryServer\<lparr>Gateway := emptyGateway\<rparr>"

definition createdServer :: "memory server" where
  "createdServer = snd (serveSample ''POST'' [''systems''] emptyServer)"

definition replacedServer :: "memory server" where
  "replacedServer = snd (serveSample ''PUT'' [''systems'', createdID] createdServer)"

abbreviation graphOf :: "memory server \<Rightarrow> contents" where
  "graphOf s \<equiv> memoryContents (World (Gateway s))"

lemma run_services: "services runEnv memoryBackend memoryContents memoryObjects"
proof -
  have "effect runEnv req m m' = effect sampleEnv req m m'" for req m m'
    by (cases req) (simp_all add: created_def runEnv_def jsonEnv_def)
  then have "effect_law runEnv memoryBackend memoryContents" using memory_effect by (simp add: effect_law_def)
  moreover have "query_law runEnv memoryBackend memoryContents"
    using jsonEnv_contract by (simp add: runEnv_def graph_contract_def)
  ultimately show ?thesis
    using memory_store memory_purge by (simp add: services_def purge_law_def)
qed

lemma run_separate: "separatePrefixes (Cfg runEnv)" by code_simp

lemma run_profile: "EntityIndexingProfile runEnv \<noteq> PredType"
  by (simp add: runEnv_def jsonEnv_def sampleEnv_def vocab_defs)

lemma run_server_services: "server_services runEnv memoryBackend memoryContents memoryObjects"
proof -
  have "memoryContents (snd (PublishMsg memoryBackend s d hs w)) = memoryContents w" for s d hs w
    by (simp add: memoryBackend_def memoryContents_def)
  with run_services memory_read_only show ?thesis unfolding server_services_def by blast
qed

lemma post_route:
  "findRoute (RegisterHTTPHandlers X docs ready connected p B ctx identity) ''POST'' [''systems''] =
   Some ([], answering (handleSystemPost X B ctx identity))"
  by (simp add: RegisterHTTPHandlers_def readRoutes_def optionsRoutes_def writeRoutes_def getRoute_def wildcard_def)

definition sampleIdentity :: Identity where
  "sampleIdentity = IdentityMiddleware ((requestOf [] MediaJSON)\<lparr>Method := ''POST''\<rparr>)"

definition samplePost :: "response \<times> memory gateway" where
  "samplePost = handleSystemPost runEnv memoryBackend background sampleIdentity
     (bodyLimitMiddleware runEnv (bindPath [] ((requestOf [] MediaJSON)\<lparr>Method := ''POST''\<rparr>))) emptyGateway"

lemma created_World: "World (Gateway createdServer) = World (snd samplePost)"
  unfolding createdServer_def serveSample_def serveHTTP_def Let_def
  by (cases samplePost) (simp add: post_route emptyServer_def memoryServer_def middleware_def countingMiddleware_def
      answering_def recoverMiddleware_def samplePost_def sampleIdentity_def)

lemma created_type:
  "(case memoryContents (World (snd samplePost)) createdID of None \<Rightarrow> False
     | Some (ts, kv) \<Rightarrow> at PredType ts = [str_triple createdID PredType SSNSystem])"
  by code_simp

lemma run_sample:
  "serverRun runEnv memoryBackend ([] @ [(m, path)]) s (snd (serveSample m path s))"
  using run_request [OF run_none, of runEnv sampleDocs memoryBackend sampleHost background path
      "(requestOf [] MediaJSON)\<lparr>Method := m\<rparr>" s "fst (serveSample m path s)" "snd (serveSample m path s)"]
  by (simp add: serveSample_def)

theorem reachable_well_formed_witness: "well_formed_graph runEnv (graphOf createdServer)"
  unfolding createdServer_def
  by (rule reachable_well_formed [OF run_server_services run_separate run_profile run_sample])
    (simp add: emptyServer_def emptyGateway_def memoryContents_def)

theorem entities_persist_witness:
  "\<exists>ts kv. graphOf replacedServer createdID = Some (ts, kv) \<and>
     set (at PredType ts) = {str_triple createdID PredType SSNSystem}"
proof -
  obtain ts kv where "graphOf createdServer createdID = Some (ts, kv)"
    "at PredType ts = [str_triple createdID PredType SSNSystem]"
    using created_type [folded created_World] by (auto split: option.splits)
  with entities_persist [OF run_server_services run_separate run_sample, of createdID "''PUT''" "[''systems'', createdID]"
      createdServer ts kv] show ?thesis by (simp add: replacedServer_def)
qed

end
