(* ===== verification/ObservationPaging.thy ===== *)
theory ObservationPaging
  imports SweRows GraphModel
begin

text \<open>
  What a client that follows the \<open>next\<close> links of \<open>GET /datastreams/{id}/observations\<close> sees. The
  stream is an interface: \<open>Deliver\<close> gives messages of a subject in order from a sequence number
  on, and may stop short of what was asked for (a fetch without waiting ends where the server has nothing
  ready); \<open>PublishMsg\<close> appends one. A stream whose reads are full is an extension of it. \<open>browse\<close> is the client.
\<close>

section \<open>The stream\<close>

definition matching :: "string \<Rightarrow> nat option \<Rightarrow> stream_msg list \<Rightarrow> stream_msg list" where
  "matching flt start ms =
     filter (\<lambda>m. subjectMatches flt (MsgSubject m) \<and> (case start of None \<Rightarrow> True | Some k \<Rightarrow> k \<le> Sequence m)) ms"

locale observation_stream =
  fixes B :: "'s backend" and msgs :: "'s \<Rightarrow> stream_msg list"
  assumes deliver: "Deliver B flt start n w = (res, w') \<Longrightarrow>
      msgs w' = msgs w \<and> (\<forall>ms. res = Inr ms \<longrightarrow> (\<exists>k \<le> nat n. ms = take k (matching flt start (msgs w))))"
    and publish: "PublishMsg B subject d hs w = (e, w') \<Longrightarrow>
      (e \<noteq> None \<and> msgs w' = msgs w) \<or>
      (\<exists>q. (\<forall>m \<in> set (msgs w). Sequence m < q) \<and>
           msgs w' = msgs w @ [\<lparr>MsgData = d, Sequence = q, MsgSubject = subject\<rparr>])"

definition full_reads :: "'s backend \<Rightarrow> ('s \<Rightarrow> stream_msg list) \<Rightarrow> bool" where
  "full_reads B msgs \<longleftrightarrow>
     (\<forall>flt start n w ms. fst (Deliver B flt start n w) = Inr ms \<longrightarrow> ms = take (nat n) (matching flt start (msgs w)))"

locale full_stream = observation_stream +
  assumes full: "full_reads B msgs"

text \<open>A stream in order: sequence numbers grow, are positive, and leave room below the largest
  \<open>uint64\<close>, where the reader's guard would deliver a message twice.\<close>

definition in_order :: "stream_msg list \<Rightarrow> bool" where
  "in_order ms \<longleftrightarrow>
     sorted_wrt (\<lambda>a b. Sequence a < Sequence b) ms \<and> (\<forall>m \<in> set ms. 0 < Sequence m \<and> Sequence m < 2 ^ 64 - 1)"

lemma lastSequence_append [simp]: "lastSequence (ms @ [m]) = max (lastSequence ms) (Sequence m)"
  by (simp add: lastSequence_def max.commute)

lemma lastSequence_bound: "m \<in> set ms \<Longrightarrow> Sequence m \<le> lastSequence ms"
  by (induction ms rule: rev_induct) auto

lemma lastSequence_limit: "\<forall>m \<in> set ms. Sequence m < 2 ^ 64 - 1 \<Longrightarrow> lastSequence ms < 2 ^ 64"
  by (induction ms rule: rev_induct) (auto simp: lastSequence_def)

lemma memory_sequence: "fold max (map Sequence ms) 0 = lastSequence ms"
  by (simp add: lastSequence_def)

interpretation memory_stream: observation_stream memoryBackend Messages
proof
  fix flt start n w res w'
  show "Deliver memoryBackend flt start n w = (res, w') \<Longrightarrow>
      Messages w' = Messages w \<and> (\<forall>ms. res = Inr ms \<longrightarrow> (\<exists>k \<le> nat n. ms = take k (matching flt start (Messages w))))"
    by (auto simp: memoryBackend_def matching_def)
next
  fix subject d hs w e w'
  assume "PublishMsg memoryBackend subject d hs w = (e, w')"
  then have "Messages w' = Messages w @
      [\<lparr>MsgData = d, Sequence = Suc (lastSequence (Messages w)), MsgSubject = subject\<rparr>]"
    by (auto simp: memoryBackend_def memory_sequence)
  moreover have "\<forall>m \<in> set (Messages w). Sequence m < Suc (lastSequence (Messages w))"
    by (auto simp: less_Suc_eq_le lastSequence_bound)
  ultimately show "(e \<noteq> None \<and> Messages w' = Messages w) \<or>
      (\<exists>q. (\<forall>m \<in> set (Messages w). Sequence m < q) \<and>
           Messages w' = Messages w @ [\<lparr>MsgData = d, Sequence = q, MsgSubject = subject\<rparr>])"
    by blast
qed

lemma memory_full: "full_reads memoryBackend Messages"
  by (simp add: full_reads_def memoryBackend_def matching_def)

interpretation memory_full_stream: full_stream memoryBackend Messages
  by unfold_locales (rule memory_full)

section \<open>Pages\<close>

text \<open>What is left after a cursor, and what is left after the page that starts there.\<close>

definition remaining :: "string \<Rightarrow> nat \<Rightarrow> stream_msg list \<Rightarrow> stream_msg list" where
  "remaining flt cursor ms = filter (\<lambda>m. cursor < Sequence m) (matching flt None ms)"

lemma sorted_filter_after:
  "sorted_wrt (\<lambda>a b. f a < f b) (ys @ z # zs) \<Longrightarrow> filter (\<lambda>m. f z < f m) (ys @ z # zs) = (zs :: 'a list)"
  for f :: "'a \<Rightarrow> nat"
  by (auto simp: sorted_wrt_append filter_empty_conv filter_id_conv less_not_sym)

lemma in_order_filter: "in_order ms \<Longrightarrow> in_order (filter P ms)"
  by (auto simp: in_order_def sorted_wrt_filter)

lemma remaining_start: "in_order ms \<Longrightarrow> remaining flt 0 ms = matching flt None ms"
  by (auto simp: remaining_def matching_def in_order_def intro!: filter_cong)

lemma remaining_order: "in_order ms \<Longrightarrow> in_order (remaining flt c ms)"
  by (simp add: remaining_def matching_def in_order_filter)

lemma lastSequence_sorted:
  "sorted_wrt (\<lambda>a b. Sequence a < Sequence b) (ys @ [z]) \<Longrightarrow> lastSequence (ys @ [z]) = Sequence z"
proof -
  assume s: "sorted_wrt (\<lambda>a b. Sequence a < Sequence b) (ys @ [z])"
  have "lastSequence ys \<le> k" if "\<forall>y \<in> set ys. Sequence y \<le> k" for k
    using that by (induction ys rule: rev_induct) (auto simp: lastSequence_def)
  with s show ?thesis by (fastforce simp: sorted_wrt_append max_def less_imp_le)
qed

lemma remaining_next:
  assumes "in_order ms" "take n (remaining flt c ms) \<noteq> []"
  defines "l \<equiv> lastSequence (take n (remaining flt c ms))"
  shows "remaining flt l ms = drop n (remaining flt c ms)" "c < l"
proof -
  let ?r = "remaining flt c ms"
  obtain ys z where t: "take n ?r = ys @ [z]" using assms(2) by (metis rev_exhaust)
  have r: "?r = ys @ z # drop n ?r" using append_take_drop_id [of n ?r] by (simp add: t)
  have o: "sorted_wrt (\<lambda>a b. Sequence a < Sequence b) ?r"
    using remaining_order [OF assms(1)] by (simp add: in_order_def)
  then have s: "sorted_wrt (\<lambda>a b. Sequence a < Sequence b) (ys @ z # drop n ?r)" using r by simp
  then have "sorted_wrt (\<lambda>a b. Sequence a < Sequence b) (ys @ [z])" by (auto simp: sorted_wrt_append)
  then have l: "l = Sequence z" unfolding l_def t by (rule lastSequence_sorted)
  have "z \<in> set ?r" using r by (metis in_set_conv_decomp)
  then show c: "c < l" by (simp add: l remaining_def)
  have "remaining flt l ms = filter (\<lambda>m. l < Sequence m) ?r"
    using c by (auto simp: remaining_def intro!: filter_cong)
  also have "\<dots> = drop n ?r" using sorted_filter_after [OF s] r by (metis l)
  finally show "remaining flt l ms = drop n ?r" .
qed

context observation_stream
begin

lemma fetch_page:
  assumes "FetchSubject B subject limit c w = (Inr ms, w')" "in_order (msgs w)"
  shows "\<exists>k \<le> nat limit. ms = take k (remaining subject c (msgs w)) \<and> msgs w' = msgs w \<and>
    (full_reads B msgs \<longrightarrow> k = nat limit)"
proof -
  let ?start = "if c > 0 then Some (if c < 2 ^ 64 - 1 then c + 1 else c) else None"
  have "(case ?start of None \<Rightarrow> True | Some k \<Rightarrow> k \<le> Sequence m) \<longleftrightarrow> c < Sequence m" if "m \<in> set (msgs w)" for m
    using that assms(2) by (auto simp: in_order_def Suc_le_eq split: if_splits)
  then have eq: "matching subject ?start (msgs w) = remaining subject c (msgs w)"
    by (auto simp: matching_def remaining_def intro!: filter_cong)
  from assms(1) have d: "Deliver B subject ?start limit w = (Inr ms, w')" by (simp add: FetchSubject_def)
  obtain k where k: "k \<le> nat limit" "ms = take k (remaining subject c (msgs w))" "msgs w' = msgs w"
    using deliver [OF d] by (auto simp: eq)
  show ?thesis
  proof (cases "full_reads B msgs")
    case True
    then have "ms = take (nat limit) (remaining subject c (msgs w))"
      unfolding full_reads_def eq [symmetric] using d by (metis fst_conv)
    with k(3) show ?thesis by blast
  qed (use k in blast)
qed

end

context full_stream
begin

lemma fetch_full:
  "FetchSubject B subject limit c w = (Inr ms, w') \<Longrightarrow> in_order (msgs w) \<Longrightarrow>
   ms = take (nat limit) (remaining subject c (msgs w)) \<and> msgs w' = msgs w"
  using fetch_page full by blast

end

section \<open>The client\<close>

text \<open>A client takes the items of a page and follows its \<open>next\<close> link; the server parses the query
  of the link. The values in these links are numerals, which need no escapes.\<close>

definition query_of :: "string \<Rightarrow> string \<Rightarrow> string list" where
  "query_of raw k =
     map snd (filter (\<lambda>kv. fst kv = k)
       (map (\<lambda>p. case str_index ''='' p of None \<Rightarrow> (p, []) | Some i \<Rightarrow> (take i p, drop (Suc i) p))
         (go_split ''&'' raw)))"

definition follow :: "request \<Rightarrow> string \<Rightarrow> request" where
  "follow r href =
     (let q = (case str_index ''?'' href of None \<Rightarrow> [] | Some i \<Rightarrow> drop (Suc i) href)
      in r\<lparr>RawQuery := q, Query := query_of q\<rparr>)"

definition top_member :: "response \<Rightarrow> string \<Rightarrow> json option" where
  "top_member resp k = (case RespBody resp of JsonBody (JObj kvs) \<Rightarrow> jmap kvs k | _ \<Rightarrow> None)"

definition items_of :: "response \<Rightarrow> json list" where
  "items_of resp = (case top_member resp ''items'' of Some (JArr xs) \<Rightarrow> xs | _ \<Rightarrow> [])"

definition next_href :: "response \<Rightarrow> string option" where
  "next_href resp =
     Option.bind (Option.bind (top_member resp ''links'') (list_member decodeLink)) (\<lambda>links.
       map_option LinkHref (find (\<lambda>l. LinkRel l = ''next'') links))"

fun browse :: "env \<Rightarrow> 's backend \<Rightarrow> nat \<Rightarrow> request \<Rightarrow> 's gateway \<Rightarrow> json list option" where
  "browse X B 0 r g = None"
| "browse X B (Suc fuel) r g =
     (case recoverMiddleware (handleObservationsGet X B r g) of
        (resp, g') \<Rightarrow>
          if Status resp \<noteq> 200 then None
          else case next_href resp of
                 None \<Rightarrow> Some (items_of resp)
               | Some h \<Rightarrow> map_option (\<lambda>more. items_of resp @ more) (browse X B fuel (follow r h) g'))"

lemma decodeLink_linkJson [simp]: "decodeLink (linkJson l) = Some l"
  by (cases l) (simp add: decodeLink_def linkJson_def struct_members_def string_field_def linkKeys_def)

lemma collection_page:
  fixes r selfHref base items limit lastSeq count
  assumes "Method r \<noteq> ''HEAD''"
  defines "resp \<equiv> writeCollection r selfHref base count items lastSeq limit"
  shows "Status resp = 200" "items_of resp = items"
    "next_href resp = (if int count = limit \<and> lastSeq > 0 then Some (base @ pageQuery limit lastSeq) else None)"
proof -
  have j: "RespBody resp = JsonBody (collectionJson (int count) (int count = limit \<and> lastSeq > 0) items
     ([json_link selfHref ''self'' MediaJSON] @
      (if int count = limit \<and> lastSeq > 0 then [nextObservations base limit lastSeq] else [])))"
    using assms by (simp add: writeCollection_def okResponse_def Let_def)
  show "Status resp = 200" by (simp add: resp_def writeCollection_def okResponse_def Let_def)
  show "items_of resp = items"
    by (simp add: items_of_def top_member_def j collectionJson_def jmap_def)
  have "list_member decodeLink (JArr (map linkJson ls)) = Some ls" for ls by simp
  then show "next_href resp = (if int count = limit \<and> lastSeq > 0 then Some (base @ pageQuery limit lastSeq) else None)"
    by (simp add: next_href_def top_member_def j collectionJson_def jmap_def json_link_def nextObservations_def
        del: list.map(2))
qed

text \<open>A request for the page after a cursor.\<close>

definition page_request :: "env \<Rightarrow> string \<Rightarrow> int \<Rightarrow> nat \<Rightarrow> request \<Rightarrow> bool" where
  "page_request X ds limit c r \<longleftrightarrow>
     Method r \<noteq> ''HEAD'' \<and> PathValue r ''datastreamID'' = ds \<and> ValidateEntityID (Ids X) ds = None \<and>
     NegotiateRequest (Std X) r FamilyObservationCollection = Some MediaJSON \<and> query_get r ''f'' = [] \<and>
     parseLimit (query_get r ''limit'') (DefaultListLimit (Cfg X)) (MaxListLimit (Cfg X)) = Inr limit \<and>
     parseObservationAfter (query_get r ''after'') = Inr c"

definition filtered :: "request \<Rightarrow> bool" where
  "filtered r \<longleftrightarrow> observationFiltersActive (observationCollectionFiltersFromQuery r)"

lemma format_int_clean: "c \<in> set (format_int n) \<Longrightarrow> c = CHR ''-'' \<or> is_digit c"
  using dec_digits_all_digits [of n] dec_digits_all_digits [of "- n"]
  by (auto simp: format_int_def list_all_iff split: if_splits)

lemma query_of_page:
  "query_of (''limit='' @ format_int n @ ''&after='' @ format_int m) k =
     (if k = ''limit'' then [format_int n] else if k = ''after'' then [format_int m] else [])"
proof -
  have c: "CHR ''&'' \<notin> set (format_int x)" for x
    using format_int_clean [of "CHR ''&''" x] by (auto simp: is_digit_def)
  have "go_split ''&'' ((''limit='' @ format_int n) @ CHR ''&'' # (''after='' @ format_int m)) =
      [''limit='' @ format_int n, ''after='' @ format_int m]"
    by (subst go_split_append) (auto simp: c go_split_none)
  moreover have "str_index ''='' (''limit='' @ x) = Some 5" "str_index ''='' (''after='' @ x) = Some 5" for x
    using str_index_single_append [of "CHR ''=''" "''limit''" x] str_index_single_append [of "CHR ''=''" "''after''" x]
    by simp_all
  ultimately show ?thesis by (simp add: query_of_def)
qed

lemma go_split_set: "c \<in> set s \<Longrightarrow> c = d \<or> (\<exists>t \<in> set (go_split [d] s). c \<in> set t)"
proof (induction "[d]" s rule: go_split.induct)
  case (1 s)
  show ?case
  proof (cases "str_index [d] s")
    case None
    with 1 show ?thesis by (subst go_split.simps) simp
  next
    case (Some i)
    then have split: "go_split [d] s = take i s # go_split [d] (drop (i + 1) s)"
      by (subst go_split.simps) simp
    have "d \<in> set s" using Some by (metis str_index_single_None option.distinct(1))
    then obtain a b where ab: "s = a @ d # b" "d \<notin> set a" by (meson split_list_first)
    then have i: "i = length a" using Some by (simp add: str_index_single_append)
    have "c \<in> set (take i s) \<or> c = d \<or> c \<in> set (drop (i + 1) s)" using 1(2) ab i by auto
    with 1(1) Some split show ?thesis by auto
  qed
qed

lemma entity_id_query: "entity_id_laws E \<Longrightarrow> ValidateEntityID E s = None \<Longrightarrow> CHR ''?'' \<notin> set s"
proof
  assume a: "entity_id_laws E" "ValidateEntityID E s = None" "CHR ''?'' \<in> set s"
  then have "list_all id_token (go_split ''.'' s)" by (simp add: entity_id_laws_def)
  with go_split_set [OF a(3), of "CHR ''.''"] obtain t where "id_token t" "CHR ''?'' \<in> set t"
    by (auto simp: list_all_iff)
  then show False
    by (cases t) (auto simp: id_token_def list_all_iff id_char_def is_alnum_def is_digit_def)
qed

lemma follow_query:
  assumes "CHR ''?'' \<notin> set base"
  shows "query_get (follow r (base @ pageQuery limit l)) k =
     (if k = ''limit'' then format_int limit else if k = ''after'' then format_int (int l) else [])"
proof -
  have "pageQuery limit l = CHR ''?'' # (''limit='' @ format_int limit @ ''&after='' @ format_int (int l))"
    by (simp add: pageQuery_def)
  then have "Query (follow r (base @ pageQuery limit l)) = query_of (''limit='' @ format_int limit @ ''&after='' @ format_int (int l))"
    by (simp only: follow_def Let_def str_index_single_append [OF assms] option.case) simp
  then show ?thesis by (simp only: query_get_def query_of_page first_value_def) simp
qed

lemma follow_next:
  assumes "page_request X ds limit c r" "CHR ''?'' \<notin> set base" "1 \<le> limit" "limit \<le> MaxListLimit (Cfg X)"
    "limit < 2 ^ 63" "l < 2 ^ 64"
  shows "page_request X ds limit l (follow r (base @ pageQuery limit l)) \<and> \<not> filtered (follow r (base @ pageQuery limit l))"
proof -
  let ?r = "follow r (base @ pageQuery limit l)"
  note get = follow_query [OF assms(2)]
  have [simp]: "Method ?r = Method r" "PathValue ?r = PathValue r" "Header ?r = Header r"
    by (simp_all add: follow_def Let_def)
  have "format_int limit \<noteq> []" "format_int (int l) \<noteq> []" by (simp_all add: format_int_nonempty)
  then have "parseLimit (format_int limit) (DefaultListLimit (Cfg X)) (MaxListLimit (Cfg X)) = Inr limit"
    "parseObservationAfter (format_int (int l)) = Inr l"
    using assms parse_int_format_int [of limit] parse_uint_digits [of "int l" 64]
    by (simp_all add: parseLimit_def parseObservationAfter_def go_atoi_def format_int_def)
  then show ?thesis
    using assms(1) unfolding page_request_def
    by (clarsimp simp: get NegotiateRequest_def filtered_def observationFiltersActive_def observationCollectionFiltersFromQuery_def
        queryString_def header_get_def)
qed

section \<open>Following the links\<close>

text \<open>A message whose envelope holds a payload that is a JSON object, with the resource it is shown as.\<close>

definition shown_as :: "env \<Rightarrow> string \<Rightarrow> (stream_msg \<Rightarrow> json) \<Rightarrow> stream_msg \<Rightarrow> bool" where
  "shown_as X ds resource m \<longleftrightarrow>
     (case envelopePayload X (MsgData m) of
        None \<Rightarrow> False
      | Some p \<Rightarrow> observationResourceFromPayload X p ds = Resource (resource m))"

lemma collectResources_all: "collectResources (map Resource js) = Some js"
  by (induction js) simp_all

lemma shown_unwrapped:
  "\<forall>m \<in> set ms. shown_as X ds resource m \<Longrightarrow>
     length (concat (map (unwrap X subject) ms)) = length ms \<and>
     map (\<lambda>p. observationResourceFromPayload X p ds) (map Payload (concat (map (unwrap X subject) ms))) =
       map Resource (map resource ms)"
  by (induction ms) (auto simp: shown_as_def unwrap_def split: option.splits)

lemma handle_page:
  assumes "page_request X ds limit c r" "ReaderReady g"
    "FetchSubject B (observationSubject X ds) (if filtered r then MaxListLimit (Cfg X) else limit) c (World g) = (Inr ms, w')"
  defines "payloads \<equiv> map Payload (concat (map (unwrap X (observationSubject X ds)) ms))"
  shows "handleObservationsGet X B r g =
    (if filtered r
     then map_option (\<lambda>resources. writeObservationResourcesWrapped r ds
            (filterObservationResources X resources (observationCollectionFiltersFromQuery r) limit) (lastSequence ms) limit)
          (observationResourcesFromPayloads X payloads ds)
     else writeObservationsWrapped X r ds payloads (lastSequence ms) limit, g\<lparr>World := w'\<rparr>)"
  using assms(1-3) unfolding payloads_def
  by (simp add: page_request_def handleObservationsGet_def Let_def fetchObservations_def filtered_def
      fetchObservationMessagesWithReader_def MediaJSON_def MediaOMS_def
      MediaSWEJSON_def MediaSWECsv_def MediaSWEBinary_def split del: if_split split: if_splits)

lemma shown_resources:
  fixes subject :: string
  assumes "\<forall>m \<in> set ms. shown_as X ds resource m"
  defines "payloads \<equiv> map Payload (concat (map (unwrap X subject) ms))"
  shows "length (concat (map (unwrap X subject) ms)) = length ms"
    "observationResourcesFromPayloads X payloads ds = Some (map resource ms)"
  using shown_unwrapped [OF assms(1), of subject]
  by (simp_all add: payloads_def observationResourcesFromPayloads_def collectResources_all del: map_map)

text \<open>A message without a readable envelope is dropped from its page.\<close>

lemma unwrap_le: "length (concat (map (unwrap X subject) ms)) \<le> length ms"
  by (induction ms) (auto simp: unwrap_def split: option.split)

lemma unwrap_skips:
  "m \<in> set ms \<Longrightarrow> envelopePayload X (MsgData m) = None \<Longrightarrow> length (concat (map (unwrap X subject) ms)) < length ms"
proof (induction ms)
  case (Cons a ms)
  have "length (unwrap X subject a) \<le> 1" "a = m \<Longrightarrow> unwrap X subject a = []"
    using Cons.prems by (simp_all add: unwrap_def split: option.split)
  with Cons unwrap_le [of X subject ms] show ?case by fastforce
qed simp

context observation_stream
begin

lemma fetch_succeeds:
  assumes "\<And>flt start n w. \<not> isl (fst (Deliver B flt start n w))" "in_order (msgs (World g))"
  obtains w' k where "FetchSubject B subject n c (World g) = (Inr (take k (remaining subject c (msgs (World g)))), w')"
    "msgs w' = msgs (World g)" "k \<le> nat n" "full_reads B msgs \<longrightarrow> k = nat n"
proof -
  obtain ms w' where f: "FetchSubject B subject n c (World g) = (Inr ms, w')"
    using assms(1) unfolding FetchSubject_def by (metis prod.collapse sum.collapse(2))
  with fetch_page [OF f assms(2)] that show ?thesis by blast
qed

lemma taken_shown:
  "\<forall>m \<in> set (matching subject None ms). shown_as X ds resource m \<Longrightarrow>
   \<forall>m \<in> set (take n (remaining subject c ms)). shown_as X ds resource m"
  by (auto simp: remaining_def dest: in_set_takeD)

lemma last_positive:
  "in_order ms \<Longrightarrow> lastSequence (take n (remaining subject c ms)) > 0 \<longleftrightarrow> take n (remaining subject c ms) \<noteq> []"
  using remaining_next(2) [of ms n subject c] by (cases "take n (remaining subject c ms) = []") (auto simp: lastSequence_def)

lemma served_page:
  assumes "page_request X ds limit c r" "\<not> filtered r" "ReaderReady g" "in_order (msgs (World g))"
    "\<And>flt start n w. \<not> isl (fst (Deliver B flt start n w))"
    "\<forall>m \<in> set (matching (observationSubject X ds) None (msgs (World g))). shown_as X ds resource m"
  defines "base \<equiv> ''/datastreams/'' @ ds @ ''/observations''"
  shows "\<exists>k page resp g'. page = take k (remaining (observationSubject X ds) c (msgs (World g))) \<and>
     k \<le> nat limit \<and> (full_reads B msgs \<longrightarrow> k = nat limit) \<and>
     handleObservationsGet X B r g = (Some resp, g') \<and> msgs (World g') = msgs (World g) \<and>
     ReaderReady g' \<and> Status resp = 200 \<and> items_of resp = map resource page \<and>
     next_href resp =
       (if int (length page) = limit \<and> page \<noteq> [] then Some (base @ pageQuery limit (lastSequence page)) else None)"
proof -
  let ?subject = "observationSubject X ds"
  obtain w' k where f: "FetchSubject B ?subject limit c (World g) = (Inr (take k (remaining ?subject c (msgs (World g)))), w')"
    "msgs w' = msgs (World g)" and k: "k \<le> nat limit" "full_reads B msgs \<longrightarrow> k = nat limit"
    using fetch_succeeds [OF assms(5,4)] by blast
  define page where "page = take k (remaining ?subject c (msgs (World g)))"
  note f = f [folded page_def]
  note shown = shown_resources [OF taken_shown [OF assms(6), of k c, folded page_def], of ?subject]
  let ?resp = "writeCollection r (observationsSelfLink ds (RawQuery r)) base (length page) (map resource page)
    (lastSequence page) limit"
  have h: "handleObservationsGet X B r g = (Some ?resp, g\<lparr>World := w'\<rparr>)"
    using handle_page [OF assms(1,3), of B page w'] assms(2) f(1)
    by (simp add: writeObservationsWrapped_def base_def shown del: map_map)
  have "Method r \<noteq> ''HEAD''" using assms(1) by (simp add: page_request_def)
  note c = collection_page [OF this, of "observationsSelfLink ds (RawQuery r)" base "length page" "map resource page"
      "lastSequence page" limit]
  show ?thesis
    by (rule exI [of _ k], rule exI [of _ page], rule exI [of _ ?resp], rule exI [of _ "g\<lparr>World := w'\<rparr>"])
      (use h c f(2) k assms(3) last_positive [OF assms(4), of k ?subject c] in \<open>auto simp: page_def\<close>)
qed

text \<open>With fuel for one page more than there are messages left, the client gets a first part of them, and
  all of them when no read is short.\<close>

lemma browse_remaining:
  assumes "entity_id_laws (Ids X)" "1 \<le> limit" "limit \<le> MaxListLimit (Cfg X)" "limit < 2 ^ 63"
    "\<And>flt start n w. \<not> isl (fst (Deliver B flt start n w))"
  shows "page_request X ds limit c r \<Longrightarrow> \<not> filtered r \<Longrightarrow> ReaderReady g \<Longrightarrow> in_order (msgs (World g)) \<Longrightarrow>
    \<forall>m \<in> set (matching (observationSubject X ds) None (msgs (World g))). shown_as X ds resource m \<Longrightarrow>
    length (remaining (observationSubject X ds) c (msgs (World g))) < fuel \<Longrightarrow>
    \<exists>k. browse X B fuel r g = Some (map resource (take k (remaining (observationSubject X ds) c (msgs (World g))))) \<and>
      (full_reads B msgs \<longrightarrow> length (remaining (observationSubject X ds) c (msgs (World g))) \<le> k)"
proof (induction fuel arbitrary: c r g)
  case (Suc fuel)
  let ?subject = "observationSubject X ds" and ?base = "''/datastreams/'' @ ds @ ''/observations''"
  let ?rest = "remaining ?subject c (msgs (World g))"
  obtain k page resp g' where k: "page = take k ?rest" "k \<le> nat limit" "full_reads B msgs \<longrightarrow> k = nat limit"
    and h: "handleObservationsGet X B r g = (Some resp, g')" "msgs (World g') = msgs (World g)"
    "ReaderReady g'" "Status resp = 200" "items_of resp = map resource page"
    "next_href resp =
       (if int (length page) = limit \<and> page \<noteq> [] then Some (?base @ pageQuery limit (lastSequence page)) else None)"
    using served_page [OF Suc.prems(1-4) assms(5) Suc.prems(5)] by blast
  show ?case
  proof (cases "int (length page) = limit \<and> page \<noteq> []")
    case False
    have "length ?rest \<le> k" if "full_reads B msgs"
    proof (rule ccontr)
      assume "\<not> length ?rest \<le> k"
      with that k(1,3) have "length page = nat limit" by simp
      with False assms(2) show False by auto
    qed
    moreover from False have "next_href resp = None" by (simp only: h(6)) auto
    ultimately show ?thesis using h(1,4,5) k(1) by (auto simp: recoverMiddleware_def)
  next
    case True
    let ?l = "lastSequence page"
    have "length page = nat limit" using True by linarith
    with k(1,2) have "k = nat limit" by (simp add: min_def split: if_splits)
    with k(1) have page: "page = take (nat limit) ?rest" by simp
    have "take (nat limit) ?rest \<noteq> []" using True by (simp add: page)
    note nxt = remaining_next [OF Suc.prems(4) this, folded page]
    have drop: "remaining ?subject ?l (msgs (World g')) = drop (nat limit) ?rest" using nxt(1) h(2) by simp
    have "?l < 2 ^ 64"
    proof (rule lastSequence_limit)
      show "\<forall>m \<in> set page. Sequence m < 2 ^ 64 - 1"
        using Suc.prems(4) by (auto simp: page remaining_def matching_def in_order_def dest!: in_set_takeD)
    qed
    moreover have "CHR ''?'' \<notin> set ?base"
      using entity_id_query [OF assms(1)] Suc.prems(1) by (auto simp: page_request_def)
    ultimately have "page_request X ds limit ?l (follow r (?base @ pageQuery limit ?l))"
      "\<not> filtered (follow r (?base @ pageQuery limit ?l))"
      using Suc.prems(1) assms(2-4) using follow_next [of X ds limit c r ?base ?l] by blast+
    moreover have "length (remaining ?subject ?l (msgs (World g'))) < fuel"
      using Suc.prems(6) True drop assms(2) by (auto simp: page)
    ultimately obtain k' where more: "browse X B fuel (follow r (?base @ pageQuery limit ?l)) g' =
        Some (map resource (take k' (drop (nat limit) ?rest)))"
      "full_reads B msgs \<longrightarrow> length (drop (nat limit) ?rest) \<le> k'"
      using Suc.IH [of ?l "follow r (?base @ pageQuery limit ?l)" g'] h(2,3) Suc.prems(4,5) drop by auto
    have "map resource page @ map resource (take k' (drop (nat limit) ?rest)) = map resource (take (nat limit + k') ?rest)"
      by (simp add: page take_add)
    moreover have "next_href resp = Some (?base @ pageQuery limit ?l)" using True by (simp only: h(6)) simp
    ultimately have "browse X B (Suc fuel) r g = Some (map resource (take (nat limit + k') ?rest))"
      using h(1,4,5) more(1) by (simp add: recoverMiddleware_def)
    with more(2) show ?thesis by fastforce
  qed
qed simp

end

section \<open>Properties\<close>

lemma page_limit:
  assumes "limits_ok X" "page_request X ds limit c r"
  shows "1 \<le> limit" "limit \<le> MaxListLimit (Cfg X)" "limit < 2 ^ 63"
  using assms parseLimit_bounds by (auto simp: page_request_def)


text \<open>One unreadable message ends the paging. The handler skips a message whose envelope
  cannot be decoded and counts only the others, so a page with such a message is short, is not
  marked as truncated and has no next link, however many messages the stream still holds.\<close>

theorem unreadable_message_ends_paging:
  assumes "full_stream B msgs" "in_order (msgs (World g))"
    and "page_request X ds limit c r" "\<not> filtered r" "ReaderReady g"
    and "m \<in> set (take (nat limit) (remaining (observationSubject X ds) c (msgs (World g))))"
    and "envelopePayload X (MsgData m) = None"
    and "handleObservationsGet X B r g = (Some resp, g')" "Status resp = 200"
  shows "next_href resp = None"
proof -
  let ?subject = "observationSubject X ds"
  obtain ms w' where f: "FetchSubject B ?subject limit c (World g) = (Inr ms, w')"
  proof (cases "FetchSubject B ?subject limit c (World g)")
    case (Pair res w')
    show ?thesis
    proof (cases res)
      case (Inl e)
      let ?e = "classifyJetStreamErr e ''handleObservationsGet''"
      have "handleObservationsGet X B r g = apfst Some (writeBackendError X [] ?e (g\<lparr>World := w'\<rparr>))"
        using Pair Inl assms(3-5)
        by (simp add: page_request_def handleObservationsGet_def Let_def fetchObservations_def filtered_def
            fetchObservationMessagesWithReader_def)
      then have "resp = fst (writeBackendError X [] ?e (g\<lparr>World := w'\<rparr>))"
        using assms(8) by (cases "writeBackendError X [] ?e (g\<lparr>World := w'\<rparr>)") simp
      then have "Status resp \<noteq> 200"
        using backendError_Status [of X "[]" ?e "g\<lparr>World := w'\<rparr>"] by auto
      with assms(9) show ?thesis by blast
    qed (use Pair that in blast)
  qed
  have "m \<in> set ms" using full_stream.fetch_full [OF assms(1) f assms(2)] assms(6) by simp
  then have short: "length (concat (map (unwrap X ?subject) ms)) < length ms"
    using assms(7) by (rule unwrap_skips)
  have "length ms \<le> nat limit"
    using full_stream.fetch_full [OF assms(1) f assms(2)] by simp
  with short have "int (length (concat (map (unwrap X ?subject) ms))) \<noteq> limit" by linarith
  moreover have "Method r \<noteq> ''HEAD''" using assms(3) by (simp add: page_request_def)
  moreover have "writeObservationsWrapped X r ds (map Payload (concat (map (unwrap X ?subject) ms)))
      (lastSequence ms) limit = Some resp"
    using handle_page [OF assms(3,5), of B ms w'] assms(4,8) f by simp
  ultimately show ?thesis
    by (auto simp: writeObservationsWrapped_def collection_page(3))
qed

text \<open>Claim C40: A filtered page skips what it does not show. With a time filter the handler reads up
  to the maximum limit, shows the first matches up to the limit, and, when there are that many, links
  to a page that starts after everything it has read and that has no filter: the further matches
  among what it has read are on no page, and the next page holds observations that do not match.\<close>

theorem filtered_page_skips:
  assumes "full_stream B msgs" "\<And>flt start n w. \<not> isl (fst (Deliver B flt start n w))"
    and "entity_id_laws (Ids X)" "limits_ok X"
    and "page_request X ds limit c r" "filtered r" "ReaderReady g" "in_order (msgs (World g))"
    and "\<forall>m \<in> set (matching (observationSubject X ds) None (msgs (World g))). shown_as X ds resource m"
  defines "rest \<equiv> remaining (observationSubject X ds) c (msgs (World g))"
  defines "hits \<equiv> filter (observationResourceMatchesFilters X (observationCollectionFiltersFromQuery r))
      (map resource (take (nat (MaxListLimit (Cfg X))) rest))"
  shows "\<exists>resp g'. handleObservationsGet X B r g = (Some resp, g') \<and>
    items_of resp = take (nat limit) hits \<and>
    (next_href resp = None \<longleftrightarrow> length hits < nat limit) \<and>
    (\<forall>h. next_href resp = Some h \<longrightarrow>
      (\<exists>l. page_request X ds limit l (follow r h) \<and> \<not> filtered (follow r h) \<and>
           remaining (observationSubject X ds) l (msgs (World g')) = drop (nat (MaxListLimit (Cfg X))) rest))"
proof -
  let ?subject = "observationSubject X ds" and ?n = "nat (MaxListLimit (Cfg X))"
  let ?base = "''/datastreams/'' @ ds @ ''/observations''"
  define page where "page = take ?n rest"
  obtain w' where f: "FetchSubject B ?subject (MaxListLimit (Cfg X)) c (World g) = (Inr page, w')"
    "msgs w' = msgs (World g)"
    using observation_stream.fetch_succeeds [OF full_stream.axioms(1) [OF assms(1)] assms(2,8)] full_stream.full [OF assms(1)]
    unfolding page_def rest_def by metis
  note limits = page_limit [OF assms(4,5)]
  have "\<forall>m \<in> set page. shown_as X ds resource m"
    using assms(9) by (auto simp: page_def rest_def remaining_def dest: in_set_takeD)
  note shown = shown_resources(2) [OF this, of ?subject]
  have items: "filterObservationResources X (map resource page) (observationCollectionFiltersFromQuery r) limit =
      take (nat limit) hits"
    using assms(6) limits(1) takeMatching_take [of "[]" limit]
    by (simp add: filterObservationResources_def filtered_def hits_def page_def del: filter_map)
  let ?items = "take (nat limit) hits"
  let ?resp = "writeObservationResourcesWrapped r ds ?items (lastSequence page) limit"
  have h: "handleObservationsGet X B r g = (Some ?resp, g\<lparr>World := w'\<rparr>)"
    using handle_page [OF assms(5,7), of B page w'] assms(6) f(1) by (simp add: shown items del: map_map)
  have "Method r \<noteq> ''HEAD''" using assms(5) by (simp add: page_request_def)
  note r = collection_page [OF this, of "observationsSelfLink ds (RawQuery r)" ?base "length ?items" ?items
      "lastSequence page" limit, folded writeObservationResourcesWrapped_def]
  have full: "int (length ?items) = limit \<longleftrightarrow> \<not> length hits < nat limit" using limits(1) by auto
  have last: "lastSequence page > 0 \<longleftrightarrow> page \<noteq> []"
    unfolding page_def rest_def
    using remaining_next(2) [OF assms(8), of ?n ?subject c]
    by (cases "take ?n (remaining ?subject c (msgs (World g))) = []") (auto simp: lastSequence_def)
  have "page \<noteq> []" if "\<not> length hits < nat limit"
    using that limits(1) by (auto simp: hits_def page_def)
  with full last have nxt: "next_href ?resp =
      (if length hits < nat limit then None else Some (?base @ pageQuery limit (lastSequence page)))"
    using r(3) by auto
  have after: "page_request X ds limit (lastSequence page) (follow r (?base @ pageQuery limit (lastSequence page))) \<and>
      \<not> filtered (follow r (?base @ pageQuery limit (lastSequence page)))"
  proof (rule follow_next [OF assms(5) _ limits])
    show "CHR ''?'' \<notin> set ?base"
      using entity_id_query [OF assms(3)] assms(5) by (auto simp: page_request_def)
    have "\<forall>m \<in> set page. Sequence m < 2 ^ 64 - 1"
      using assms(8) by (auto simp: page_def rest_def remaining_def matching_def in_order_def dest!: in_set_takeD)
    then show "lastSequence page < 2 ^ 64" by (rule lastSequence_limit)
  qed
  have "remaining ?subject (lastSequence page) (msgs w') = drop ?n rest" if "page \<noteq> []"
    using remaining_next(1) [OF assms(8), of ?n ?subject c] that f(2) by (simp add: page_def rest_def)
  then have "\<exists>l. page_request X ds limit l (follow r k) \<and> \<not> filtered (follow r k) \<and>
      remaining ?subject l (msgs w') = drop ?n rest" if "next_href ?resp = Some k" for k
    using that nxt after last \<open>\<not> length hits < nat limit \<Longrightarrow> page \<noteq> []\<close> by (auto split: if_splits)
  with h r(2) nxt show ?thesis
    by (intro exI [of _ ?resp] exI [of _ "g\<lparr>World := w'\<rparr>"]) auto
qed

end
