(* ===== verification/ObservationWrites.thy ===== *)
theory ObservationWrites
  imports ObservationPaging
begin

text \<open>
  An observation from its POST to the page that shows it: \<open>json.Marshal\<close> and \<open>json.Unmarshal\<close> on
  dynamic values are inverse on what the decoder makes, the stream grows by one message, and the
  resource shown for it has the members that were posted.
\<close>

section \<open>Dynamic values\<close>

text \<open>What \<open>json.Unmarshal\<close> produces: numbers that survive being written, maps in key order.\<close>

abbreviation by_key :: "(string \<times> goval) list \<Rightarrow> bool" where
  "by_key \<equiv> sorted_wrt (\<lambda>a b. fst a < fst b)"

fun decoded :: "(string \<Rightarrow> f64 option) \<Rightarrow> (f64 \<Rightarrow> string) \<Rightarrow> goval \<Rightarrow> bool" where
  "decoded pf num (GNum f) \<longleftrightarrow> pf (num f) = Some f"
| "decoded pf num (GArr xs) \<longleftrightarrow> list_all (decoded pf num) xs"
| "decoded pf num (GMap kvs) \<longleftrightarrow> by_key kvs \<and> list_all (\<lambda>(k, v). decoded pf num v) kvs"
| "decoded pf num v \<longleftrightarrow> True"

lemma member_put_keys [simp]: "fst ` set (member_put k v m) = insert k (fst ` set m)"
  by (induction k v m rule: member_put.induct) (simp_all add: insert_commute)

lemma member_put_values: "x \<in> set (member_put k v m) \<Longrightarrow> x = (k, v) \<or> x \<in> set m"
  by (induction m) (auto split: if_splits)

lemma member_put_by_key: "by_key m \<Longrightarrow> by_key (member_put k v m)"
proof (induction m)
  case (Cons a m)
  obtain k' v' where a: "a = (k', v')" by fastforce
  have "k' < fst x" if "x \<in> set (member_put k v m)" "k' < k" for x
    using member_put_values [OF that(1)] that(2) Cons.prems a by auto
  moreover have "k < fst x" if "x \<in> set m" "k < k'" for x
    using that Cons.prems a by (auto intro: less_trans)
  ultimately show ?case using Cons a by (cases k k' rule: linorder_cases) auto
qed simp

lemma member_put_last: "\<forall>x \<in> set m. fst x < k \<Longrightarrow> member_put k v m = m @ [(k, v)]"
  by (induction m) auto

abbreviation put_all :: "(string \<times> 'a) list \<Rightarrow> (string \<times> 'a) list \<Rightarrow> (string \<times> 'a) list" where
  "put_all \<equiv> fold (\<lambda>(k, v). member_put k v)"

lemma put_all_sorted: "by_key (m @ kvs) \<Longrightarrow> put_all kvs m = m @ kvs"
proof (induction kvs arbitrary: m)
  case (Cons a kvs)
  obtain k v where a: "a = (k, v)" by fastforce
  then have "member_put k v m = m @ [(k, v)]"
    using Cons.prems by (intro member_put_last) (auto simp: sorted_wrt_append)
  with Cons a show ?case by simp
qed simp

lemma put_all_by_key: "by_key m \<Longrightarrow> by_key (put_all kvs m)"
  by (induction kvs arbitrary: m) (auto intro: member_put_by_key)

lemma put_all_values: "x \<in> set (put_all kvs m) \<Longrightarrow> x \<in> set kvs \<or> x \<in> set m"
  by (induction kvs arbitrary: m) (fastforce dest: member_put_values)+

lemma map_of_put_all: "map_of (put_all kvs m) = map_of m ++ map_of (rev kvs)"
  by (induction kvs arbitrary: m) (auto simp: map_add_def fun_eq_iff split: option.split)

lemma decodeAny_decoded:
  shows "decodeAny pf j = Some v \<Longrightarrow> (\<And>t f. pf t = Some f \<Longrightarrow> pf (num f) = Some f) \<Longrightarrow> decoded pf num v"
proof (induction pf j arbitrary: v rule: decodeAny.induct)
  case (5 pf xs)
  then obtain vs where vs: "map (decodeAny pf) xs = map Some vs" "v = GArr vs" by (auto simp: those_eq_map)
  have "decoded pf num x" if "x \<in> set vs" for x
  proof -
    have "Some x \<in> decodeAny pf ` set xs" using that vs(1) by (metis image_eqI list.set_map)
    with 5 show ?thesis by fastforce
  qed
  with vs(2) show ?case by (simp add: list_all_iff)
next
  case (6 pf kvs)
  then obtain vs where vs: "map (\<lambda>(k, j). decodeAny pf j) kvs = map Some vs"
    "v = GMap (put_all (zip (map fst kvs) vs) [])"
    by (auto simp: those_eq_map)
  have "decoded pf num x" if "(k, x) \<in> set (put_all (zip (map fst kvs) vs) [])" for k x
  proof -
    have "x \<in> set vs" using put_all_values [OF that] by (auto dest: set_zip_rightD)
    then have "Some x \<in> (\<lambda>(k, j). decodeAny pf j) ` set kvs"
      using vs(1) by (metis image_eqI list.set_map)
    with 6 show ?thesis by fastforce
  qed
  with vs(2) show ?case by (auto simp: list_all_iff put_all_by_key)
qed auto

text \<open>Writing what was decoded and decoding it again gives it back.\<close>

lemma decodeAny_marshalGo: "decoded pf num v \<Longrightarrow> decodeAny pf (marshalGo num v) = Some v"
proof (induction v rule: marshalGo.induct)
  case (5 num xs)
  then show ?case by (auto simp: list_all_iff those_eq_map)
next
  case (6 num kvs)
  have "map (\<lambda>(k, j). decodeAny pf j) (map (\<lambda>(k, v). (k, marshalGo num v)) kvs) = map Some (map snd kvs)"
    using 6 by (auto simp: list_all_iff)
  moreover have "zip (map fst (map (\<lambda>(k, v). (k, marshalGo num v)) kvs)) (map snd kvs) = kvs"
    by (induction kvs) auto
  moreover have "put_all kvs [] = kvs" using put_all_sorted [of "[]" kvs] 6 by simp
  ultimately show ?case by (simp add: those_eq_map del: map_map list.map_comp)
qed simp_all

section \<open>The resource of a posted observation\<close>

text \<open>The documented behaviour of the text layer: a payload can be taken out of its envelope again,
  a number that was read is written so that it is read as the same number, and an inline feature is
  written as JSON.\<close>

definition observation_text_laws :: "env \<Rightarrow> bool" where
  "observation_text_laws X \<longleftrightarrow>
     (\<forall>p. envelopePayload X (EnvelopeText X p) = Some p) \<and>
     (\<forall>t f. ParseFloat (Std X) t = Some f \<longrightarrow> ParseFloat (Std X) (JsonFloat X f) = Some f) \<and>
     (\<forall>j j'. FeatureJson X j = Some j' \<longrightarrow> decodeAny (ParseFloat (Std X)) j' \<noteq> None)"

text \<open>What the resource holds, the time of the phenomenon taken from the result when it is not given.\<close>

definition posted_list :: "env \<Rightarrow> Observation \<Rightarrow> (string \<times> goval) list" where
  "posted_list X obs =
     [(''type'', GStr TypeObservation), (''id'', GStr (OmID obs)), (''procedure'', GStr (OmProcedure obs)),
      (''observedProperty'', GStr (OmObservedProperty obs))] @
     (case OmFeatureOfInterest obs of
        None \<Rightarrow> []
      | Some f \<Rightarrow> [(''featureOfInterest'', the (decodeAny (ParseFloat (Std X)) (featureOfInterestJson f)))]) @
     (if OmPhenomenonTime obs = [] then [] else [(''phenomenonTime'', GStr (OmPhenomenonTime obs))]) @
     [(''resultTime'', GStr (OmResultTime obs))] @
     (if OmResult obs = GNil then [] else [(''result'', OmResult obs)])"

definition posted_members :: "env \<Rightarrow> string \<Rightarrow> Observation \<Rightarrow> string \<rightharpoonup> goval" where
  "posted_members X ds obs = (map_of (posted_list X obs))
     (''datastream@id'' \<mapsto> GStr ds,
      ''phenomenonTime'' \<mapsto> GStr (if OmPhenomenonTime obs = [] then OmResultTime obs else OmPhenomenonTime obs))"

definition observation_ok :: "env \<Rightarrow> Observation \<Rightarrow> bool" where
  "observation_ok X obs \<longleftrightarrow>
     OmID obs \<noteq> [] \<and> decoded (ParseFloat (Std X)) (JsonFloat X) (OmResult obs) \<and>
     (\<forall>f. OmFeatureOfInterest obs = Some f \<longrightarrow> decodeAny (ParseFloat (Std X)) (featureOfInterestJson f) \<noteq> None)"

lemma map_of_rev_distinct: "distinct (map fst xs) \<Longrightarrow> map_of (rev xs) = map_of xs"
  by (induction xs) (auto simp: fun_eq_iff map_add_def image_iff split: option.split dest: map_of_SomeD)

lemma decodeAny_object:
  "(\<And>k j. (k, j) \<in> set kvs \<Longrightarrow> decodeAny pf j \<noteq> None) \<Longrightarrow>
   decodeAny pf (JObj kvs) = Some (GMap (put_all (map (\<lambda>(k, j). (k, the (decodeAny pf j))) kvs) []))"
proof -
  assume ok: "\<And>k j. (k, j) \<in> set kvs \<Longrightarrow> decodeAny pf j \<noteq> None"
  then have "map (\<lambda>(k, j). decodeAny pf j) kvs = map Some (map (\<lambda>(k, j). the (decodeAny pf j)) kvs)"
    by (induction kvs) fastforce+
  moreover have "zip (map fst kvs) (map (\<lambda>(k, j). the (decodeAny pf j)) kvs) =
      map (\<lambda>(k, j). (k, the (decodeAny pf j))) kvs"
    by (induction kvs) auto
  ultimately show ?thesis by (simp add: those_eq_map del: map_map)
qed

lemma posted_resource:
  assumes "observation_ok X obs" "ds \<noteq> []"
  shows "\<exists>m. observationResourceFromPayload X (observationJson X obs) ds = Resource (marshalGo (JsonFloat X) (GMap m)) \<and>
     map_of m = posted_members X ds obs"
proof -
  let ?pf = "ParseFloat (Std X)"
  obtain kvs where kvs: "observationJson X obs = JObj kvs" by (simp add: observationJson_def)
  have result: "decodeAny ?pf (marshalGo (JsonFloat X) (OmResult obs)) = Some (OmResult obs)"
    using assms(1) by (intro decodeAny_marshalGo) (simp add: observation_ok_def)
  define gs where "gs = map (\<lambda>(k, j). (k, the (decodeAny ?pf j))) kvs"
  have gs: "gs = posted_list X obs"
    using kvs assms(1) result
    by (auto simp: gs_def observationJson_def posted_list_def omit_empty_def omit_nil_def observation_ok_def
        split: option.splits)
  have "decodeAny ?pf j \<noteq> None" if "(k, j) \<in> set kvs" for k j
    using that assms(1) result kvs
    by (auto simp: observationJson_def omit_empty_def omit_nil_def observation_ok_def split: if_splits option.splits)
  from decodeAny_object [OF this] have "decodeMap X (observationJson X obs) = Some (Some (put_all gs []))"
    by (simp only: decodeMap_def kvs gs_def option.case goval.case)
  moreover have "distinct (map fst gs)"
    by (auto simp: gs posted_list_def split: option.splits)
  then have "map_of (rev gs) = map_of gs" by (rule map_of_rev_distinct)
  ultimately have m: "decodeMap X (observationJson X obs) = Some (Some (put_all gs []))"
    "map_of (put_all gs []) = map_of (posted_list X obs)"
    by (simp_all add: map_of_put_all gs)
  have t: "map_of (posted_list X obs) ''phenomenonTime'' =
      (if OmPhenomenonTime obs = [] then None else Some (GStr (OmPhenomenonTime obs)))"
    "map_of (posted_list X obs) ''resultTime'' = Some (GStr (OmResultTime obs))"
    by (simp_all add: posted_list_def map_add_def split: option.split)
  let ?m = "member_put ''datastream@id'' (GStr ds) (put_all gs [])"
  show ?thesis
  proof (cases "OmPhenomenonTime obs = []")
    case True
    with assms(2) t show ?thesis
      by (intro exI [of _ "member_put ''phenomenonTime'' (GStr (OmResultTime obs)) ?m"])
        (simp add: observationResourceFromPayload_def m(1) Let_def m(2) posted_members_def)
  next
    case False
    then have "((map_of (posted_list X obs))(''datastream@id'' \<mapsto> GStr ds)) ''phenomenonTime'' =
        Some (GStr (OmPhenomenonTime obs))" using t(1) by simp
    then have "posted_members X ds obs = (map_of (posted_list X obs))(''datastream@id'' \<mapsto> GStr ds)"
      using False by (simp add: posted_members_def fun_upd_idem del: fun_upd_apply)
    with assms(2) t False show ?thesis
      by (intro exI [of _ ?m]) (simp add: observationResourceFromPayload_def m(1) Let_def m(2))
  qed
qed

section \<open>The POST\<close>

lemma last_decoded:
  assumes "map dec vs = map Some rs" "last (z # rs) \<noteq> z"
  shows "\<exists>v. dec v = Some (last (z # rs))"
proof -
  have "rs \<noteq> []" "vs \<noteq> []" using assms by (auto split: if_splits)
  then have "dec (last vs) = Some (last (z # rs))"
    using arg_cong [OF assms(1), of last] by (simp add: last_map)
  then show ?thesis ..
qed

lemma decoded_observation:
  assumes "observation_text_laws X" "decodeObservation X j = Some obs"
  shows "decoded (ParseFloat (Std X)) (JsonFloat X) (OmResult obs)"
    "OmFeatureOfInterest obs = Some f \<Longrightarrow> decodeAny (ParseFloat (Std X)) (featureOfInterestJson f) \<noteq> None"
proof -
  let ?pf = "ParseFloat (Std X)"
  obtain kvs vs where r: "bind_last (decodeAny ?pf) GNil vs = Some (OmResult obs)"
    and f: "ptr_field (decodeFeatureOfInterest X) observationKeys kvs ''featureOfInterest'' = Some (OmFeatureOfInterest obs)"
    using assms(2) by (auto simp: decodeObservation_def bind_eq_Some_conv split: if_splits)
  have law: "\<And>t f. ?pf t = Some f \<Longrightarrow> ?pf (JsonFloat X f) = Some f"
    "\<And>j j'. FeatureJson X j = Some j' \<Longrightarrow> decodeAny ?pf j' \<noteq> None"
    using assms(1) by (auto simp: observation_text_laws_def)
  obtain rs where rs: "map (decodeAny ?pf) vs = map Some rs" "OmResult obs = last (GNil # rs)"
    using r by (auto simp: bind_last_def those_eq_map)
  show "decoded ?pf (JsonFloat X) (OmResult obs)"
  proof (cases "OmResult obs = GNil")
    case False
    then obtain v where "decodeAny ?pf v = Some (OmResult obs)"
      using last_decoded [of "decodeAny ?pf" vs rs GNil] rs by auto
    then show ?thesis by (rule decodeAny_decoded) (rule law(1))
  qed simp
  show "decodeAny ?pf (featureOfInterestJson f) \<noteq> None" if "OmFeatureOfInterest obs = Some f"
  proof (cases f)
    case (FoiFeature j)
    obtain fs where fs: "map (ptr_member (decodeFeatureOfInterest X))
        (field_values observationKeys kvs ''featureOfInterest'') = map Some fs"
      "OmFeatureOfInterest obs = last (None # fs)"
      using f by (auto simp: ptr_field_def bind_last_def those_eq_map)
    have "last (None # fs) = Some f" using fs(2) that by (rule trans [OF sym])
    with last_decoded [OF fs(1), of None]
    obtain v where "ptr_member (decodeFeatureOfInterest X) v = Some (Some f)"
      by (metis option.distinct(1))
    then have "decodeFeatureOfInterest X v = Some f" by (auto simp: ptr_member_def split: if_splits)
    with FoiFeature have "\<exists>k. FeatureJson X k = Some j"
      by (auto simp: decodeFeatureOfInterest_def split: json.splits)
    then obtain k where "FeatureJson X k = Some j" ..
    from law(2) [OF this] FoiFeature show ?thesis by (simp add: featureOfInterestJson_def)
  qed (simp add: featureOfInterestJson_def)
qed

lemma decoded_post:
  assumes "decodeObservationPost X r = Inr obs"
  obtains j where "decodeObservation X j = Some obs" "OmID obs \<noteq> []"
  | j obs' where "decodeObservation X j = Some obs'" "obs = obs'\<lparr>OmID := NewUUID (Ids X)\<rparr>"
  using assms
  by (auto simp: decodeObservationPost_def bind_eq_Some_conv split: option.splits sum.splits if_splits)

lemma post_observation_ok:
  assumes "observation_text_laws X" "entity_id_laws (Ids X)" "decodeObservationPost X r = Inr obs"
  shows "observation_ok X obs"
  using assms(3)
proof (cases rule: decoded_post)
  case (1 j)
  then show ?thesis using decoded_observation [OF assms(1) 1(1)] by (auto simp: observation_ok_def)
next
  case (2 j obs')
  have "id_token (NewUUID (Ids X))" using assms(2) by (simp add: entity_id_laws_def)
  then have "NewUUID (Ids X) \<noteq> []" by (auto simp: id_token_def)
  with 2 show ?thesis using decoded_observation [OF assms(1) 2(1)] by (auto simp: observation_ok_def)
qed

text \<open>Claim C16: A posted observation is in the stream, and is shown as it was posted. A POST answered
  with 201 was checked and appended to the stream as one message on the subject of its datastream,
  after all others; the resource that every page of the datastream shows for it has the posted
  members, the ID it was given, the datastream it belongs to, and a time of the phenomenon, taken
  from the result when the client gave none.\<close>

theorem posted_observation_shown:
  assumes "observation_stream B msgs" "observation_text_laws X" "entity_id_laws (Ids X)"
    and "handleObservationsPost X B ctx identity r g = (resp, g')" "Status resp = 201"
  defines "ds \<equiv> PathValue r ''datastreamID''"
  shows "\<exists>obs m msg. decodeObservationPost X r = Inr obs \<and>
     resp = acceptedResponse ds (OmID obs) (observationSubject X ds) \<and>
     msgs (World g') = msgs (World g) @ [msg] \<and> MsgSubject msg = observationSubject X ds \<and>
     (\<forall>other \<in> set (msgs (World g)). Sequence other < Sequence msg) \<and>
     shown_as X ds (\<lambda>_. marshalGo (JsonFloat X) (GMap m)) msg \<and> map_of m = posted_members X ds obs"
proof -
  have ok: "decodeObservationPost X r = Inr obs \<Longrightarrow> ValidateEntityID (Ids X) ds = None" for obs
    by (auto simp: decodeObservationPost_def ds_def split: option.splits)
  have refused: "decodeObservationPost X r = Inl e \<Longrightarrow> Status e \<noteq> 201" for e
    using readBody_Status [of "[]" r]
    by (auto simp: decodeObservationPost_def split: option.splits sum.splits if_splits)
  obtain obs where obs: "decodeObservationPost X r = Inr obs"
    using assms(4,5) refused by (cases "decodeObservationPost X r") (auto simp: handleObservationsPost_def)
  have backend: "writeBackendError X [] e g1 = (resp, g2) \<Longrightarrow> Status resp \<noteq> 201" for e g1 g2
    using backendError_Status [of X "[]" e g1] by auto
  have pub: "publishObservation X B ctx (observationSubject X ds) obs identity g = (None, g')"
    "resp = acceptedResponse ds (OmID obs) (observationSubject X ds)"
    using assms(4,5) obs backend
    by (auto simp: handleObservationsPost_def ds_def Let_def split: prod.splits option.splits)
  then obtain hs w' where send: "PublishMsg B (observationSubject X ds) (EnvelopeText X (observationJson X obs)) hs (World g)
      = (None, w')" "g' = g\<lparr>World := w'\<rparr>"
    by (auto simp: publishObservation_def Let_def split: if_splits prod.splits)
  obtain q where q: "\<forall>m \<in> set (msgs (World g)). Sequence m < q"
    "msgs w' = msgs (World g) @ [\<lparr>MsgData = EnvelopeText X (observationJson X obs), Sequence = q,
       MsgSubject = observationSubject X ds\<rparr>]"
    using observation_stream.publish [OF assms(1) send(1)] by blast
  have "ds \<noteq> []"
  proof
    assume "ds = []"
    with ok [OF obs] assms(3) have "list_all id_token (go_split ''.'' [])" by (simp add: entity_id_laws_def)
    then show False by (simp add: go_split_none id_token_def)
  qed
  from posted_resource [OF post_observation_ok [OF assms(2,3) obs] this]
  obtain m where m: "observationResourceFromPayload X (observationJson X obs) ds = Resource (marshalGo (JsonFloat X) (GMap m))"
    "map_of m = posted_members X ds obs" by blast
  have "envelopePayload X (EnvelopeText X (observationJson X obs)) = Some (observationJson X obs)"
    using assms(2) by (simp add: observation_text_laws_def)
  with m(1) have "shown_as X ds (\<lambda>_. marshalGo (JsonFloat X) (GMap m))
      \<lparr>MsgData = EnvelopeText X (observationJson X obs), Sequence = q, MsgSubject = observationSubject X ds\<rparr>"
    by (simp add: shown_as_def)
  with obs pub(2) q m(2) send(2) show ?thesis by fastforce
qed

end
