(* ===== verification/ObservationExamples.thy ===== *)
theory ObservationExamples
  imports ObservationWrites "HOL-Library.Countable"
begin

text \<open>
  The properties of the observation handlers on the in-memory stream: a first page and the pages
  after it, a stream with an unreadable message, a filtered page, a POST.
\<close>

section \<open>Pages\<close>

text \<open>A message with the text \<open>bad\<close> is not JSON, any other text is the ID and the time of an
  observation.\<close>

definition pageEnv :: env where
  "pageEnv = sampleEnv\<lparr>ParseJson := (\<lambda>s. if s = ''bad'' then None
     else Some (JObj [(''payload'', JObj [(''id'', JStr s), (''resultTime'', JStr s)])]))\<rparr>"

definition pageDatastream :: string where
  "pageDatastream = DatastreamIDPrefix DefaultConfig @ ''.d1''"

definition pageRequest :: "(string \<times> string) list \<Rightarrow> request" where
  "pageRequest query =
     \<lparr>Method = ''GET'', RawQuery = [], PathValue = (\<lambda>k. if k = ''datastreamID'' then pageDatastream else []),
      Query = (\<lambda>k. case map_of query k of None \<Rightarrow> [] | Some v \<Rightarrow> [v]), Header = (\<lambda>k. []), Body = BodyOk []\<rparr>"

definition pageGateway :: "string list \<Rightarrow> memory gateway" where
  "pageGateway texts = emptyGateway\<lparr>World := \<lparr>Entities = [], Objects = [], Messages =
     map (\<lambda>(i, t). \<lparr>MsgData = t, Sequence = i, MsgSubject = observationSubject pageEnv pageDatastream\<rparr>)
       (zip [1..<Suc (length texts)] texts)\<rparr>\<rparr>"

definition shownResource :: "stream_msg \<Rightarrow> json" where
  "shownResource m = JObj [(''datastream@id'', JStr pageDatastream), (''id'', JStr (MsgData m)),
     (''phenomenonTime'', JStr (MsgData m)), (''resultTime'', JStr (MsgData m))]"

lemma page_ids: "entity_id_laws (Ids pageEnv)" "limits_ok pageEnv"
  by (simp_all add: pageEnv_def sampleEnv_def sampleIds_laws limits_ok_def DefaultConfig_def)

lemma memory_reads: "\<not> isl (fst (Deliver memoryBackend flt start n w))"
  by (simp add: memoryBackend_def)

lemma page_resource:
  "observationResourceFromPayload pageEnv (JObj [(''id'', JStr s), (''resultTime'', JStr s)]) pageDatastream =
     Resource (JObj [(''datastream@id'', JStr pageDatastream), (''id'', JStr s),
       (''phenomenonTime'', JStr s), (''resultTime'', JStr s)])"
  by (simp add: observationResourceFromPayload_def decodeMap_def Let_def pageDatastream_def)

lemma page_payload:
  "envelopePayload pageEnv s =
     (if s = ''bad'' then None else Some (JObj [(''id'', JStr s), (''resultTime'', JStr s)]))"
  by (simp add: envelopePayload_def pageEnv_def struct_members_def raw_field_def)

lemma page_shown: "MsgData m \<noteq> ''bad'' \<Longrightarrow> shown_as pageEnv pageDatastream shownResource m"
  by (simp add: shown_as_def page_payload page_resource shownResource_def)

lemma page_messages:
  "Messages (World (pageGateway texts)) =
     map (\<lambda>(i, t). \<lparr>MsgData = t, Sequence = i, MsgSubject = observationSubject pageEnv pageDatastream\<rparr>)
       (zip [1..<Suc (length texts)] texts)"
  by (simp add: pageGateway_def del: upt_Suc)

lemma page_matching: "matching (observationSubject pageEnv pageDatastream) None (Messages (World (pageGateway texts))) =
    Messages (World (pageGateway texts))"
  by (auto simp: matching_def page_messages filter_id_conv)

lemma page_order: "length texts < 10 \<Longrightarrow> in_order (Messages (World (pageGateway texts)))"
proof -
  assume "length texts < 10"
  then have "sorted_wrt (\<lambda>a b. Sequence a < Sequence b) (Messages (World (pageGateway texts)))"
    by (auto simp: page_messages sorted_wrt_iff_nth_less simp del: upt_Suc)
  with \<open>length texts < 10\<close> show ?thesis
    by (auto simp: in_order_def page_messages dest: set_zip_leftD simp del: upt_Suc)
qed

lemma page_all_shown:
  "''bad'' \<notin> set texts \<Longrightarrow>
   \<forall>m \<in> set (matching (observationSubject pageEnv pageDatastream) None (Messages (World (pageGateway texts)))).
     shown_as pageEnv pageDatastream shownResource m"
  unfolding page_matching by (auto simp: page_messages dest: set_zip_rightD intro!: page_shown simp del: upt_Suc)

lemma page_ready: "ReaderReady (pageGateway texts)"
  by (simp add: pageGateway_def emptyGateway_def)

abbreviation limit_one :: request where "limit_one \<equiv> pageRequest [(''limit'', ''1'')]"
abbreviation limit_one_at :: request where "limit_one_at \<equiv> pageRequest [(''limit'', ''1''), (''resultTime'', ''t'')]"

lemma page_requests:
  "page_request pageEnv pageDatastream 1 0 limit_one" "\<not> filtered limit_one"
  "page_request pageEnv pageDatastream 1 0 limit_one_at" "filtered limit_one_at"
  by code_simp+


text \<open>The first message is unreadable; the second is never reached.\<close>

theorem unreadable_message_ends_paging_witness:
  "next_href (the (fst (handleObservationsGet pageEnv memoryBackend limit_one (pageGateway [''bad'', ''2''])))) = None \<and>
   length (Messages (World (pageGateway [''bad'', ''2'']))) = 2"
proof
  let ?g = "pageGateway [''bad'', ''2'']"
  let ?run = "handleObservationsGet pageEnv memoryBackend limit_one ?g"
  have "map_option Status (fst ?run) = Some 200" by code_simp
  then obtain resp where resp: "fst ?run = Some resp" "Status resp = 200" by auto
  let ?subject = "observationSubject pageEnv pageDatastream"
  let ?m = "\<lparr>MsgData = ''bad'', Sequence = 1, MsgSubject = ?subject\<rparr>"
  have "?m \<in> set (take (nat 1) (remaining ?subject 0 (Messages (World ?g))))"
    by (simp add: remaining_start [OF page_order] page_matching) (simp add: page_messages)
  moreover have "envelopePayload pageEnv (MsgData ?m) = None" by (simp add: page_payload)
  moreover have "?run = (Some resp, snd ?run)" using resp(1) by (metis prod.collapse)
  moreover have "length [''bad'', ''2''] < 10" by simp
  ultimately have "next_href resp = None"
    using unreadable_message_ends_paging [OF memory_full_stream.full_stream_axioms page_order page_requests(1,2)
        page_ready, of "[''bad'', ''2'']"] resp(2) by blast
  with resp(1) show "next_href (the (fst ?run)) = None" by simp
  show "length (Messages (World ?g)) = 2" by (simp add: page_messages)
qed

text \<open>Three observations match, one is shown, and the page after it starts behind all three.\<close>

theorem filtered_page_skips_witness:
  "\<exists>resp g'. handleObservationsGet pageEnv memoryBackend limit_one_at (pageGateway [''1'', ''2'', ''3'']) = (Some resp, g') \<and>
     (\<exists>h l. next_href resp = Some h \<and> page_request pageEnv pageDatastream 1 l (follow limit_one_at h) \<and>
        remaining (observationSubject pageEnv pageDatastream) l (Messages (World g')) = [])"
proof -
  let ?g = "pageGateway [''1'', ''2'', ''3'']" and ?subject = "observationSubject pageEnv pageDatastream"
  have rest: "remaining ?subject 0 (Messages (World ?g)) = Messages (World ?g)"
    by (simp add: remaining_start [OF page_order] page_matching)
  have n: "nat (MaxListLimit (Cfg pageEnv)) = 1000" by (simp add: pageEnv_def sampleEnv_def DefaultConfig_def)
  have hits: "filter (observationResourceMatchesFilters pageEnv (observationCollectionFiltersFromQuery limit_one_at))
      (map shownResource (Messages (World ?g))) = map shownResource (Messages (World ?g))"
    by code_simp
  have len: "length (Messages (World ?g)) = 3" by (simp add: page_messages)
  have all: "take 1000 (Messages (World ?g)) = Messages (World ?g)" "drop 1000 (Messages (World ?g)) = []"
    by (simp_all add: len)
  obtain resp g' where run: "handleObservationsGet pageEnv memoryBackend limit_one_at ?g = (Some resp, g')"
    "next_href resp \<noteq> None"
    "\<forall>h. next_href resp = Some h \<longrightarrow> (\<exists>l. page_request pageEnv pageDatastream 1 l (follow limit_one_at h) \<and>
       remaining ?subject l (Messages (World g')) = [])"
    using filtered_page_skips [OF memory_full_stream.full_stream_axioms memory_reads page_ids page_requests(3,4) page_ready
        page_order page_all_shown, of "[''1'', ''2'', ''3'']", unfolded rest n all hits length_map len]
    by fastforce
  then show ?thesis by blast
qed

section \<open>A POST\<close>

text \<open>An envelope whose text is a numeral of its payload, so that every payload can be taken out again.\<close>

instance json :: countable
  by countable_datatype

definition postedDoc :: json where
  "postedDoc = JObj [(''procedure'', JStr ''p''), (''observedProperty'', JStr ''o''), (''resultTime'', JStr ''t''),
     (''result'', JNum ''7'')]"

definition postEnv :: env where
  "postEnv = sampleEnv\<lparr>
     ParseJson := (\<lambda>s. Some (if s = ''doc'' then postedDoc else JObj [(''payload'', from_nat (length s))])),
     EnvelopeText := (\<lambda>p. replicate (to_nat p) CHR ''x''), FeatureJson := (\<lambda>j. None)\<rparr>"

lemma post_laws: "observation_text_laws postEnv" "entity_id_laws (Ids postEnv)"
proof -
  have "envelopePayload postEnv (EnvelopeText postEnv p) = Some p" for p
  proof -
    have "replicate n CHR ''x'' \<noteq> ''doc''" for n by (cases n) auto
    then show ?thesis by (simp add: envelopePayload_def postEnv_def struct_members_def raw_field_def)
  qed
  moreover have "parse_uint 64 (dec_digits (uint f)) = Some (uint f)" for f :: f64
    using uint_lt2p [of f] by (intro parse_uint_digits) simp_all
  ultimately show "observation_text_laws postEnv"
    by (auto simp: observation_text_laws_def postEnv_def sampleEnv_def bitsStdlib_def)
  show "entity_id_laws (Ids postEnv)" by (simp add: postEnv_def sampleEnv_def sampleIds_laws)
qed

definition postRequest :: request where
  "postRequest = (pageRequest [])\<lparr>Method := ''POST'', Body := BodyOk ''doc'',
     Header := (\<lambda>k. if k = ''Content-Type'' then [MediaOMS] else [])\<rparr>"

definition postedObservation :: Observation where
  "postedObservation = \<lparr>OmID = ''u'', OmProcedure = ''p'', OmObservedProperty = ''o'', OmFeatureOfInterest = None,
     OmPhenomenonTime = [], OmResultTime = ''t'', OmResult = GNum 7\<rparr>"

lemma post_accepted: "decodeObservationPost postEnv postRequest = Inr postedObservation"
proof -
  let ?E = "sampleEnv\<lparr>ParseJson := (\<lambda>s. Some postedDoc), FeatureJson := (\<lambda>j. None)\<rparr>"
  have foi: "decodeFeatureOfInterest postEnv = decodeFeatureOfInterest ?E"
    by (rule ext) (simp add: decodeFeatureOfInterest_def postEnv_def split: json.split)
  have same: "Std postEnv = Std ?E" "Ids postEnv = Ids ?E" "ParseJson postEnv ''doc'' = ParseJson ?E ''doc''"
    by (simp_all add: postEnv_def)
  have "decodeObservation postEnv = decodeObservation ?E"
    by (rule ext) (simp only: decodeObservation_def foi same)
  moreover have "requireMediaType postEnv = requireMediaType ?E"
    by (intro ext) (simp add: requireMediaType_def requireMediaTypeAny_def postEnv_def)
  moreover have "readBody [] postRequest = Inr ''doc''"
    by (simp add: readBody_def postRequest_def)
  ultimately have "decodeObservationPost postEnv postRequest = decodeObservationPost ?E postRequest"
    by (simp only: decodeObservationPost_def same sum.case)
  also have "\<dots> = Inr postedObservation" by code_simp
  finally show ?thesis .
qed

definition postRun :: "response \<times> memory gateway" where
  "postRun = handleObservationsPost postEnv memoryBackend background anonymous postRequest emptyGateway"

theorem posted_observation_shown_witness:
  "\<exists>m msg. Messages (World (snd postRun)) = [msg] \<and> map_of m = posted_members postEnv pageDatastream postedObservation \<and>
     shown_as postEnv pageDatastream (\<lambda>_. marshalGo (JsonFloat postEnv) (GMap m)) msg"
proof -
  have "Status (fst postRun) = 201"
    by (simp add: postRun_def handleObservationsPost_def post_accepted publishObservation_def emptyGateway_def Let_def
        memoryBackend_def acceptedResponse_def)
  moreover have "PathValue postRequest ''datastreamID'' = pageDatastream"
    by (simp add: postRequest_def pageRequest_def)
  moreover have "handleObservationsPost postEnv memoryBackend background anonymous postRequest emptyGateway =
      (fst postRun, snd postRun)" by (simp add: postRun_def)
  moreover have "Messages (World emptyGateway) = []" by (simp add: emptyGateway_def)
  ultimately show ?thesis
    using posted_observation_shown [OF memory_stream.observation_stream_axioms post_laws, of background anonymous
        postRequest emptyGateway "fst postRun" "snd postRun"] post_accepted
    by auto
qed

end
