(* ===== verification/SystemOutcomes.thy ===== *)
theory SystemOutcomes
  imports FeatureOutcomes Reachable
begin

text \<open>
  What the system and feature handlers promise: the filtered system collection is the first of the
  matching systems, a subsystem is only shown under its host, subsystems are selected before they are
  cut, a posted procedure is one; and the polygon test on a box is the half-open box.
\<close>

section \<open>The polygon test\<close>

lemma f64_zero_key: "f64_zero x \<Longrightarrow> f64_key x = 0"
  by (simp add: f64_zero_def f64_key_def)

lemma f64_finite_not_nan: "f64_finite x \<Longrightarrow> \<not> f64_is_nan x"
  by (simp add: f64_finite_def)

lemma vertical_edge:
  assumes "f64_finite e" "f64_finite (f64_sub y yi)" "\<not> f64_is_nan (f64_sub yj yi)" "\<not> f64_zero (f64_sub yj yi)"
  shows "edgeCrossed (x, y) (e, yi) (e, yj) \<longleftrightarrow> f64_lt y yi \<noteq> f64_lt y yj \<and> f64_lt x e"
proof -
  have "f64_zero (f64_div (f64_mul (f64_sub e e) (f64_sub y yi)) (f64_sub yj yi))"
    by (intro f64_div_zero f64_mul_zero f64_sub_same assms)
  from f64_add_zero [OF this assms(1)] have
    "f64_key (f64_add (f64_div (f64_mul (f64_sub e e) (f64_sub y yi)) (f64_sub yj yi)) e) = f64_key e"
    "\<not> f64_is_nan (f64_add (f64_div (f64_mul (f64_sub e e) (f64_sub y yi)) (f64_sub yj yi)) e)"
    by (simp_all add: f64_finite_not_nan)
  then show ?thesis using f64_finite_not_nan [OF assms(1)] by (simp add: edgeCrossed_def f64_lt_def)
qed

lemma horizontal_edge: "\<not> edgeCrossed p (x, y) (x', y)"
  by (simp add: edgeCrossed_def)

definition boxRing :: "f64 \<Rightarrow> f64 \<Rightarrow> f64 \<Rightarrow> f64 \<Rightarrow> wktPoint list" where
  "boxRing west south east north = [(west, south), (east, south), (east, north), (west, north), (west, south)]"

text \<open>Claim C23: on the closed ring of an axis-parallel box the ray casting loop, with its floating point
  arithmetic, computes exactly the half-open box: west and south edges belong to it, east and north
  edges do not. The differences of latitudes must not overflow (on latitudes they never do).\<close>

theorem box_polygon:
  assumes "f64_finite west" "f64_finite east" "f64_lt west east" "f64_lt south north" "f64_finite x" "f64_finite y"
    and "f64_finite (f64_sub y north)" "f64_finite (f64_sub y south)"
    and "f64_finite south" "f64_finite north" "f64_finite (f64_sub south north)" "f64_finite (f64_sub north south)"
  shows "pointInPolygon (x, y) (boxRing west south east north) \<longleftrightarrow>
    \<not> f64_lt x west \<and> f64_lt x east \<and> \<not> f64_lt y south \<and> f64_lt y north"
proof -
  have "f64_key south \<noteq> f64_key north" using assms(4) by (simp add: f64_lt_def)
  then have "\<not> f64_zero (f64_sub south north)" "\<not> f64_zero (f64_sub north south)"
    using f64_sub_distinct assms(9,10) by simp_all
  note assms = assms this
  have right: "edgeCrossed (x, y) (east, north) (east, south) \<longleftrightarrow> f64_lt y north \<noteq> f64_lt y south \<and> f64_lt x east"
    using assms by (intro vertical_edge) (auto simp: f64_finite_not_nan)
  have left: "edgeCrossed (x, y) (west, south) (west, north) \<longleftrightarrow> f64_lt y south \<noteq> f64_lt y north \<and> f64_lt x west"
    using assms by (intro vertical_edge) (auto simp: f64_finite_not_nan)
  have "f64_lt y south \<longrightarrow> f64_lt y north" "f64_lt x west \<longrightarrow> f64_lt x east"
    using assms(3,4) f64_lt_trans by blast+
  then show ?thesis
    by (auto simp: pointInPolygon_def boxRing_def right left horizontal_edge)
qed

section \<open>The filtered collection\<close>

definition storedStates :: "contents \<Rightarrow> string \<rightharpoonup> entity_state" where
  "storedStates m i = map_option (\<lambda>(ts, kv). state_of i ts None) (m i)"

lemma held_state:
  assumes "holds_states m asked states" "i \<in> asked"
  shows "map_option (\<lambda>s. (EntityID s, EntityTriples s)) (states i) =
    map_option (\<lambda>s. (EntityID s, EntityTriples s)) (storedStates m i)"
  using assms by (cases "m i") (auto simp: holds_states_def storedStates_def state_of_def)

text \<open>What a system shows rests on its ID and triples, so it may be read off the contents.\<close>

lemma systemFromState_cong:
  "EntityID s = EntityID s' \<Longrightarrow> EntityTriples s = EntityTriples s' \<Longrightarrow> systemFromState s = systemFromState s'"
  by (simp add: systemFromState_def)

lemma held_system:
  assumes "holds_states m asked states" "i \<in> asked"
  shows "systemItem states i = systemItem (storedStates m) i"
    and "(case states i of None \<Rightarrow> False | Some st \<Rightarrow> systemStateMatchesFilters X f st) =
      (case storedStates m i of None \<Rightarrow> False | Some st \<Rightarrow> systemStateMatchesFilters X f st)"
proof -
  note held = held_state [OF assms]
  show "systemItem states i = systemItem (storedStates m) i"
  proof (cases "states i")
    case (Some st)
    with held obtain st' where "storedStates m i = Some st'" "EntityID st = EntityID st'" "EntityTriples st = EntityTriples st'"
      by (cases "storedStates m i") auto
    with Some systemFromState_cong [of st st'] show ?thesis by (simp add: systemItem_def)
  qed (use held in \<open>simp add: systemItem_def\<close>)
  show "(case states i of None \<Rightarrow> False | Some st \<Rightarrow> systemStateMatchesFilters X f st) =
      (case storedStates m i of None \<Rightarrow> False | Some st \<Rightarrow> systemStateMatchesFilters X f st)"
  proof (cases "states i")
    case (Some st)
    with held obtain st' where "storedStates m i = Some st'" "EntityID st = EntityID st'" "EntityTriples st = EntityTriples st'"
      by (cases "storedStates m i") auto
    with Some systemFromState_cong [of st st'] show ?thesis by (simp add: systemStateMatchesFilters_def)
  qed (use held in simp)
qed

definition matchingSystems :: "env \<Rightarrow> systemCollectionFilters \<Rightarrow> contents \<Rightarrow> string list \<Rightarrow> string list" where
  "matchingSystems X f m ids =
     filter (\<lambda>i. case storedStates m i of None \<Rightarrow> False | Some st \<Rightarrow> systemStateMatchesFilters X f st) ids"

text \<open>Filters are applied before the limit: a filtered GET of \<open>/systems\<close> shows the first systems up
  to the limit, in the order of the graph's listing, that match every filter, out of the first systems
  up to the configured maximum, each with the name and description that are stored.\<close>

theorem system_collection_filtered:
  assumes "list_law B contents listing" "batch_law B contents" "ids_valid X (contents (World g))" "limits_ok X"
    and "lists_class (contents (World g)) SSNSystem (listing (World g) SSNSystem)"
    and "NegotiateRequest (Std X) r FamilySystemCollection = Some media" "media \<noteq> MediaGeoJSON"
    and "parseLimit (query_get r ''limit'') (DefaultListLimit (Cfg X)) (MaxListLimit (Cfg X)) = Inr limit"
    and "parseSystemCollectionFilters X r = Inr f" "systemFiltersActive f"
  defines "read \<equiv> take (nat (MaxListLimit (Cfg X))) (listing (World g) SSNSystem)"
    and "m \<equiv> contents (World g)"
  shows "\<exists>g'. contents (World g') = m \<and>
    (let ids = take (nat limit) (matchingSystems X f m read) in
     handleSystems X B r g =
       encodeJSON r (Some (countedJson ''SystemCollection'' ''items'' (map (systemItem (storedStates m)) ids)
         (int (length ids) = limit) [json_link ''/systems'' ''self'' MediaJSON])) g')"
proof -
  define ids where "ids = take (nat limit) (matchingSystems X f m read)"
  have limit: "1 \<le> limit" using parseLimit_bounds [OF assms(4,8)] by simp
  obtain g1 where l: "listEntitiesByType X B SSNSystem (MaxListLimit (Cfg X)) ''listSystemEntities'' g = (Inr read, g1)"
    "contents (World g1) = m"
    using listed [OF assms(1), of X SSNSystem "MaxListLimit (Cfg X)" "''listSystemEntities''" g] unfolding read_def m_def by blast
  have valid: "\<forall>i \<in> set read. ValidateEntityID (Ids X) i = None"
    unfolding read_def by (rule listing_valid [OF assms(5,3)])
  obtain states g2 where b: "fetchEntitiesBatch X B read g1 = (Inr states, g2)" "contents (World g2) = m"
    "holds_states m (set read) states"
    using fetchEntitiesBatch_found [OF assms(2) valid, of g1] l(2) by auto
  have "takeMatching P limit [] read = take (nat limit) (filter P read)" for P
    using takeMatching_take [of "[]" limit P read] limit by simp
  moreover have "filter (\<lambda>i. case states i of None \<Rightarrow> False | Some st \<Rightarrow> systemStateMatchesFilters X f st) read =
      matchingSystems X f m read"
    unfolding matchingSystems_def by (intro filter_cong refl held_system(2) [OF b(3)])
  ultimately have match: "takeMatching (\<lambda>i. case states i of None \<Rightarrow> False | Some st \<Rightarrow> systemStateMatchesFilters X f st) limit [] read = ids"
    by (simp add: ids_def)
  have "set ids \<subseteq> set read" by (auto simp: ids_def matchingSystems_def dest: in_set_takeD)
  with valid have valid': "\<forall>i \<in> set ids. ValidateEntityID (Ids X) i = None" by blast
  obtain states' g3 where c: "fetchEntitiesBatch X B ids g2 = (Inr states', g3)" "contents (World g3) = m"
    "holds_states m (set ids) states'"
    using fetchEntitiesBatch_found [OF assms(2) valid', of g2] b(2) by auto
  have items: "map (systemItem states') ids = map (systemItem (storedStates m)) ids"
    using held_system(1) [OF c(3)] by simp
  have "handleSystems X B r g = withListed X B SSNSystem (MaxListLimit (Cfg X)) ''listSystemEntities''
      (\<lambda>ids. filterSystemEntities X B ids f limit (writeSystems X B r media limit)) g"
    using assms(6,8-10) by (simp add: handleSystems_def negotiated_def withLimit_def listSystemEntities_def)
  also have "\<dots> = writeSystems X B r media limit ids g2"
    by (simp add: withListed_def l filterSystemEntities_def withBatch_def b(1) match)
  also have "\<dots> = encodeJSON r (Some (countedJson ''SystemCollection'' ''items'' (map (systemItem (storedStates m)) ids)
      (int (length ids) = limit) [json_link ''/systems'' ''self'' MediaJSON])) g3"
    using assms(7) by (simp add: writeSystems_def withBatch_def c(1) items)
  finally show ?thesis using c(2) unfolding ids_def [symmetric] Let_def by blast
qed

text \<open>A sensor that is not also typed as a system is readable, but no collection names it.\<close>

lemma sensor_not_listed:
  assumes "lists_class m SSNSystem ids" "m i = Some (ts, kv)" "\<forall>t \<in> set (at PredType ts). Object t = OStr SosaSensor"
  shows "i \<notin> set ids"
  using assms by (auto simp: lists_class_def at_def vocab_defs)

section \<open>Subsystems\<close>

lemma writeSystemItem_World: "writeSystemItem X r media state extra g = (resp, g') \<Longrightarrow> World g' = World g"
  by (auto simp: writeSystemItem_def writeSystemJSONWithLinks_def writeSystemSensorML_def writeSystemJSONLD_def Let_def
      writeDocument_def encodeBody_def dest: backendError_refusal split: if_splits option.splits sum.splits)

text \<open>A system is only shown as a subsystem of its host: a 200 to \<open>GET
  /systems/{id}/subsystems/{subsystemID}\<close> means that both are stored systems and that the second says it
  is hosted by the first; nothing is changed.\<close>

theorem subsystem_shown:
  assumes "query_law X B ents" "handleSystemSubsystem X B r g = (resp, g')" "Status resp = 200"
  shows "ents (World g') = ents (World g) \<and>
    (\<exists>pts pkv ts kv. ents (World g) (PathValue r ''id'') = Some (pts, pkv) \<and> isSystemKind pts \<and>
       ents (World g) (PathValue r ''subsystemID'') = Some (ts, kv) \<and> isSystemKind ts \<and>
       systemHostedBy ts (PathValue r ''id''))"
proof -
  let ?parent = "PathValue r ''id''" and ?sub = "PathValue r ''subsystemID''"
  have ok: "Status resp \<notin> refusals" using assms(3) by simp
  obtain media where k: "withEntity X B isSystemKind (''no system: '' @ ?parent) ?parent (\<lambda>_.
     withEntity X B (\<lambda>ts. isSystemKind ts \<and> systemHostedBy ts ?parent) (''no subsystem: '' @ ?sub) ?sub (\<lambda>state.
       writeSystemItem X r media state
         [\<lparr>LinkHref = ''/systems/'' @ ?parent, LinkRel = ''parent'', LinkType = MediaJSON, LinkTitle = ''Parent system''\<rparr>])) g
     = (resp, g')"
    using withValidID_ok [OF assms(2) [unfolded handleSystemSubsystem_def Let_def] ok]
      withValidID_ok [of X _ ?sub _ g resp g', OF _ ok] negotiated_ok [of X _ r _ g resp g', OF _ ok] by blast
  from withEntity_ok [OF assms(1) this ok] obtain pts pkv g1 where p: "ents (World g) ?parent = Some (pts, pkv)" "isSystemKind pts"
    "ents (World g1) = ents (World g)"
    and k1: "withEntity X B (\<lambda>ts. isSystemKind ts \<and> systemHostedBy ts ?parent) (''no subsystem: '' @ ?sub) ?sub (\<lambda>state.
       writeSystemItem X r media state
         [\<lparr>LinkHref = ''/systems/'' @ ?parent, LinkRel = ''parent'', LinkType = MediaJSON, LinkTitle = ''Parent system''\<rparr>]) g1
     = (resp, g')"
    by blast
  from withEntity_ok [OF assms(1) k1 ok] p(3) writeSystemItem_World show ?thesis using p(1,2) by metis
qed

text \<open>Subsystems are selected before they are cut: a GET of \<open>/systems/{id}/subsystems\<close> for a stored
  system shows the first of the systems it hosts up to the limit, each with its stored name and
  description, in the order of the graph's listing, out of the first systems up to the configured
  maximum; it changes nothing.\<close>

theorem subsystem_collection:
  assumes "list_law B contents listing" "batch_law B contents" "read_law B contents listing"
    and "ids_valid X (contents (World g))" "limits_ok X"
    and "lists_class (contents (World g)) SSNSystem (listing (World g) SSNSystem)"
    and "NegotiateRequest (Std X) r FamilySystemCollection = Some MediaJSON"
    and "parseLimit (query_get r ''limit'') (DefaultListLimit (Cfg X)) (MaxListLimit (Cfg X)) = Inr limit"
    and "PathValue r ''id'' = host" "contents (World g) host = Some (ts, kv)" "kv \<noteq> 0" "isSystemKind ts"
  defines "read \<equiv> take (nat (MaxListLimit (Cfg X))) (listing (World g) SSNSystem)"
  shows "\<exists>g'. contents (World g') = contents (World g) \<and>
    (let items = take (nat limit)
         (viewsAmong (\<lambda>ts. isSystemKind ts \<and> systemHostedBy ts host) systemFromState (contents (World g)) read) in
     handleSystemSubsystems X B r g =
       encodeBody r [contentTypeJSON] False (Some (countedJson ''SystemCollection'' ''items''
         (map (subsystemItem host) items) (int (length items) = limit)
         [json_link (''/systems/'' @ host @ ''/subsystems'') ''self'' MediaJSON])) g')"
proof -
  have "1 \<le> limit" using parseLimit_bounds [OF assms(5,8)] by simp
  have valid: "ValidateEntityID (Ids X) host = None" using assms(4,10) by (auto simp: ids_valid_def)
  define body where "body = (\<lambda>items. encodeBody r [contentTypeJSON] False (Some (countedJson ''SystemCollection'' ''items''
         (map (subsystemItem host) items) (int (length items) = limit)
         [json_link (''/systems/'' @ host @ ''/subsystems'') ''self'' MediaJSON])) :: 'a answer)"
  define k where "k = (\<lambda>state :: entity_state. withListed X B SSNSystem (MaxListLimit (Cfg X)) ''listSystemEntities''
     (\<lambda>ids. withBatch X B ids (\<lambda>states. body
       (collectRows (rowOf (\<lambda>ts. isSystemKind ts \<and> systemHostedBy ts host) systemFromState (\<lambda>_. True)) states limit ids))))"
  have run: "handleSystemSubsystems X B r g = withEntity X B isSystemKind (''no system: '' @ host) host k g"
    using assms(7-9) valid
    by (simp add: handleSystemSubsystems_def negotiated_def withValidID_def withLimit_def k_def body_def listSystemEntities_def Let_def)
  obtain state g1 where e: "withEntity X B isSystemKind (''no system: '' @ host) host k g = k state g1"
    "contents (World g1) = contents (World g)" "listing (World g1) = listing (World g)"
    using withEntity_stored [where contents = contents and listing = listing and g = g and kind = isSystemKind and k = k,
        OF assms(3,10,11) valid assms(12)] by blast
  have indexed: "lists_class (contents (World g1)) SSNSystem (listing (World g1) SSNSystem)" "ids_valid X (contents (World g1))"
    using assms(4,6) e(2,3) by simp_all
  note found = system_view.list_collected [where X = X and k = "\<lambda>_. body" and P = "\<lambda>_. True" and op = "''listSystemEntities''"
      and kind = "\<lambda>ts. isSystemKind ts \<and> systemHostedBy ts host",
      OF assms(1,2) indexed(2,1) \<open>1 \<le> limit\<close>, of "MaxListLimit (Cfg X)"]
  have "\<exists>g'. contents (World g') = contents (World g) \<and> k state g1 =
      body (take (nat limit) (viewsAmong (\<lambda>ts. isSystemKind ts \<and> systemHostedBy ts host) systemFromState (contents (World g)) read)) g'"
    using found unfolding e(2,3) read_def k_def by simp
  then show ?thesis unfolding run e(1) Let_def body_def .
qed

section \<open>Posted features\<close>

context resource_body begin

text \<open>When the body's triples have one type, a 201 leaves an entity of the resource's type.\<close>

lemma posted_typed:
  assumes "graph_contract X B ents" "createFromBody X B ctx identity r accepted build path typ g = (resp, g')"
    and "Status resp = 201" "EntityIndexingProfile X \<noteq> PredType"
    and "\<forall>body eid ts. build body = Inr (eid, ts) \<longrightarrow> length (at PredType ts) \<le> 1"
  shows "\<exists>body eid bts ts kv. Body r = BodyOk body \<and> build body = Inr (eid, bts) \<and>
    resp = createdResponse [] (path @ eid) eid typ \<and> created X eid bts (ents (World g)) (ents (World g')) \<and>
    ents (World g) eid = None \<and> ents (World g') eid = Some (ts, kv) \<and> firstStringObject ts [PredType] = Some typeIRI"
proof -
  obtain body eid bts where c: "Body r = BodyOk body" "build body = Inr (eid, bts)"
    "resp = createdResponse [] (path @ eid) eid typ" "created X eid bts (ents (World g)) (ents (World g'))"
    using create_outcome [OF assms(1,2)] assms(3) by (auto simp: created_outcome_def write_outcome_def)
  obtain ts kv where s: "ents (World g') eid = Some (ts, kv)" "ents (World g) eid = None"
    using c(4) by (auto simp: created_def)
  have "firstStringObject ts [PredType] = Some typeIRI"
    using created_first [OF c(4) s(1) assms(4) [symmetric]] assms(5) c(2) typed [OF c(2)] by simp
  with c s show ?thesis by blast
qed

end

lemma at_overrideType: "overrideType ts = Some us \<Longrightarrow> p \<noteq> PredType \<Longrightarrow> at p us = at p ts"
  by (induction ts arbitrary: us) (auto simp: at_def split: if_splits)

lemma overrideType_length: "overrideType ts = Some us \<Longrightarrow> length (at PredType us) = length (at PredType ts)"
  by (induction ts arbitrary: us) (auto simp: at_def split: if_splits)

text \<open>A SensorML process has one type triple, whatever its class.\<close>

lemma procedure_one_type:
  assumes "postedProcedureTriples X ct body = Inr (eid, ts)"
  shows "length (at PredType ts) \<le> 1"
proof -
  have sml: "length (at PredType (procedureTyped eid (sensorMLRootTriples X eid process))) \<le> 1" for process
    using overrideType_length [of "sensorMLRootTriples X eid process"] overrideType_None [of "sensorMLRootTriples X eid process"]
    by (auto simp: procedureTyped_def sensorML_type split: option.split)
  show ?thesis
    using assms sml pred_neqs
    by (auto simp: postedProcedureTriples_def buildProcedureTriplesFromSensorML_def buildProcedureTriplesFromFeature_def Let_def
        split: if_splits option.splits sum.splits)
qed

text \<open>What \<open>POST /procedures\<close> creates is a procedure: a 201, to a Feature or to a SensorML
  process of any class, names a new entity whose type is that of a procedure, so the reads of
  procedures accept it.\<close>

theorem posted_procedure_kind:
  assumes "graph_contract X B ents" "EntityIndexingProfile X \<noteq> PredType"
    and "handleProcedurePost X B ctx identity r g = (resp, g')" "Status resp = 201"
  shows "\<exists>eid ts kv. resp = createdResponse [] (''/procedures/'' @ eid) eid ''Procedure'' \<and>
    ents (World g) eid = None \<and> ents (World g') eid = Some (ts, kv) \<and> isProcedureKind ts"
proof -
  have one: "\<forall>body eid bts. postedProcedureTriples X (header_get r ''Content-Type'') body = Inr (eid, bts) \<longrightarrow>
      length (at PredType bts) \<le> 1"
    using procedure_one_type by blast
  from procedure_body.posted_typed [OF assms(1) assms(3) [unfolded handleProcedurePost_def] assms(4,2) one]
  obtain body eid bts ts kv where "resp = createdResponse [] (''/procedures/'' @ eid) eid ''Procedure''"
    "ents (World g) eid = None" "ents (World g') eid = Some (ts, kv)" "firstStringObject ts [PredType] = Some SosaProcedure"
    by (elim exE conjE) (rule that)
  then show ?thesis unfolding isProcedureKind_def by (intro exI conjI)
qed

lemma deployment_lookup:
  assumes "buildDeploymentTriplesFromFeature X body = Inr (eid, ts)"
  obtains feat where "parseFeature X body = Some feat" "length (at PredType ts) \<le> 1"
    "at predDeploymentParent ts =
       (let parent = parentIDFromDeploymentFeature feat in if parent = [] then [] else [ref_triple X eid predDeploymentParent parent])"
proof -
  have geo: "PredType \<notin> set geoPredicates" "predDeploymentParent \<notin> set geoPredicates"
    by (simp_all add: geoPredicates_def vocab_defs)
  have neq: "PredType \<noteq> PredPosition" "predDeploymentParent \<noteq> PredPosition" "predDeploymentParent \<noteq> PredType"
    "predDeploymentParent \<noteq> PredUniqueID" "predDeploymentParent \<noteq> PredLabel" "predDeploymentParent \<noteq> PredDescription"
    "predDeploymentParent \<noteq> predDeploymentDeployedSystems" "PredType \<noteq> predDeploymentDeployedSystems"
    by (simp_all add: vocab_defs)
  have links: "at p (triplesFromLinks eid predDeploymentDeployedSystems ls) = []" if "p \<noteq> predDeploymentDeployedSystems" for p ls
    using that by (auto simp: triplesFromLinks_def at_def filter_empty_conv)
  have loc: "at p (locationTriplesFromGeometry X eid gm) = []" if "p \<notin> set geoPredicates" "p \<noteq> PredPosition" for p gm
    using that pointProjection_other [OF that(1)] by (simp add: locationTriplesFromGeometry_def split: option.split)
  obtain feat where f: "parseFeature X body = Some feat"
    "ts = [str_triple eid PredType SSNDeployment, str_triple eid PredUniqueID (UID (Properties feat))] @
      opt_triple eid PredLabel (FeatureName (Properties feat)) @
      opt_triple eid PredDescription (FeatureDescription (Properties feat)) @
      triplesFromLinks eid predDeploymentDeployedSystems (DeployedSystemsLinks (Properties feat)) @
      (if parentIDFromDeploymentFeature feat \<noteq> [] then [ref_triple X eid predDeploymentParent (parentIDFromDeploymentFeature feat)] else []) @
      locationTriplesFromGeometry X eid (Geometry feat)"
    using assms by (auto simp: buildDeploymentTriplesFromFeature_def Let_def split: option.splits if_splits)
  show ?thesis
    by (rule that [OF f(1)])
      (use pred_neqs neq links [OF neq(7)] links [OF neq(8)] loc [OF geo(1) neq(1)] loc [OF geo(2) neq(2)] in
        \<open>auto simp: f(2) Let_def ref_triple_def\<close>)
qed

text \<open>What \<open>POST /deployments\<close> creates is a deployment under the parent its body names, if any: the
  subdeployments of the parent, and of no other deployment, include it.\<close>

theorem posted_deployment_child:
  assumes "graph_contract X B ents" "EntityIndexingProfile X \<notin> {PredType, predDeploymentParent}"
    and "handleDeploymentPost X B ctx identity r g = (resp, g')" "Status resp = 201"
  shows "\<exists>body feat eid ts kv. Body r = BodyOk body \<and> parseFeature X body = Some feat \<and>
    resp = createdResponse [] (''/deployments/'' @ eid) eid ''Deployment'' \<and>
    ents (World g) eid = None \<and> ents (World g') eid = Some (ts, kv) \<and> isDeploymentKind ts \<and>
    (\<forall>p. p \<noteq> [] \<longrightarrow> deploymentChildOf ts p = (parentIDFromDeploymentFeature feat = p))"
proof -
  have one: "\<forall>body eid bts. buildDeploymentTriplesFromFeature X body = Inr (eid, bts) \<longrightarrow> length (at PredType bts) \<le> 1"
    by (auto elim: deployment_lookup)
  have "EntityIndexingProfile X \<noteq> PredType" using assms(2) by simp
  from deployment_body.posted_typed [OF assms(1) assms(3) [unfolded handleDeploymentPost_def] assms(4) this one]
  obtain body eid bts ts kv where c: "Body r = BodyOk body" "buildDeploymentTriplesFromFeature X body = Inr (eid, bts)"
    "resp = createdResponse [] (''/deployments/'' @ eid) eid ''Deployment''"
    "created X eid bts (ents (World g)) (ents (World g'))"
    "ents (World g) eid = None" "ents (World g') eid = Some (ts, kv)" "firstStringObject ts [PredType] = Some SSNDeployment"
    by (elim exE conjE) (rule that)
  then have kind: "isDeploymentKind ts" by (simp add: isDeploymentKind_def)
  from deployment_lookup [OF c(2)] obtain feat where f: "parseFeature X body = Some feat"
    "at predDeploymentParent bts = (let parent = parentIDFromDeploymentFeature feat in
       if parent = [] then [] else [ref_triple X eid predDeploymentParent parent])" by metis
  have "firstStringObject ts [predDeploymentParent] = firstStringObject bts [predDeploymentParent]"
    using created_first [OF c(4,6), of predDeploymentParent] assms(2) f(2) by (auto simp: Let_def split: if_splits)
  then have "deploymentChildOf ts p = (parentIDFromDeploymentFeature feat = p)" if "p \<noteq> []" for p
    using that f(2) first_at [of bts predDeploymentParent] by (simp add: deploymentChildOf_def Let_def ref_triple_def)
  with c f(1) kind show ?thesis by metis
qed

end
