(* ===== verification/CommandExamples.thy ===== *)
theory CommandExamples
  imports CommandOutcomes SystemExamples DatastreamListExamples
begin

text \<open>The command and event properties on the in-memory graph.\<close>

section \<open>POST /commands\<close>

definition controlID :: string where "controlID = ''o.p.d.s.t.c1''"

definition commandDoc :: json where
  "commandDoc = JObj [(''controlstream@id'', JStr controlID), (''sender'', JStr ''me''), (''params'', JObj [])]"

definition commandEnv :: env where
  "commandEnv = (jsonEnv commandDoc)\<lparr>Cfg := (Cfg (jsonEnv commandDoc))\<lparr>CommandIDPrefix := ''o.p.d.s.cmd''\<rparr>\<rparr>"

definition commandRun :: "response \<times> memory gateway" where
  "commandRun = handleCommandPost commandEnv memoryBackend background anonymous (requestOf [] MediaJSON) oneSystem"

lemma command_status: "Status (fst commandRun) = 201"
  by code_simp


lemma command_run:
  "handleCommandPost commandEnv memoryBackend background anonymous (requestOf [] MediaJSON) oneSystem = (fst commandRun, snd commandRun)"
  by (simp only: commandRun_def prod.collapse)

lemma command_contract: "graph_contract commandEnv memoryBackend memoryContents"
  using memory_contract
  by (simp add: commandEnv_def jsonEnv_def graph_contract_def query_law_def create_law_def reconcile_law_def delete_law_def
      refusal_law_def)

lemma profile_not_command: "EntityIndexingProfile commandEnv \<notin> set commandPredicates"
  by (simp add: commandEnv_def jsonEnv_def sampleEnv_def commandPredicates_def vocab_defs)

theorem posted_command_stored_witness:
  "\<exists>eid ts kv. memoryContents (World oneSystem) eid = None \<and>
     memoryContents (World (snd commandRun)) eid = Some (ts, kv) \<and> isCommandKind ts"
  using posted_command_stored [OF command_contract profile_not_command command_run command_status] by blast

definition secondCommandRun :: "response \<times> memory gateway" where
  "secondCommandRun =
     handleCommandPost commandEnv memoryBackend background anonymous (requestOf [] MediaJSON) (snd commandRun)"

lemma second_command_run:
  "handleCommandPost commandEnv memoryBackend background anonymous (requestOf [] MediaJSON) (snd commandRun) =
   (fst secondCommandRun, snd secondCommandRun)"
  by (simp only: secondCommandRun_def prod.collapse)

lemma anonymous_command: "anonymousCommand commandEnv (requestOf [] MediaJSON) controlID"
proof -
  obtain b where "decodeCommandPost commandDoc = Some b" "CbID b = []" "CbControlStreamID b = controlID"
  proof -
    have "(case decodeCommandPost commandDoc of None \<Rightarrow> False | Some b \<Rightarrow> CbID b = [] \<and> CbControlStreamID b = controlID)"
      by code_simp
    then show ?thesis using that by (auto split: option.splits)
  qed
  then show ?thesis by (simp add: anonymousCommand_def requestOf_def commandEnv_def jsonEnv_def)
qed

theorem anonymous_commands_collide_witness:
  "Status (fst secondCommandRun) \<noteq> 201 \<and>
   (uncertain (fst secondCommandRun) \<or>
    memoryContents (World (snd secondCommandRun)) = memoryContents (World (snd commandRun)))"
  by (rule anonymous_commands_collide [OF command_contract anonymous_command anonymous_command command_run command_status
        second_command_run])

section \<open>The commands of a control stream\<close>

definition firstCommand :: string where "firstCommand = ''o.p.d.s.cmd.a''"
definition secondCommand :: string where "secondCommand = ''o.p.d.s.cmd.b''"

definition controlTriples :: "triple list" where
  "controlTriples = [str_triple controlID PredType ControlStreamIRI]"

definition cmdTriples :: "string \<Rightarrow> string \<Rightarrow> triple list" where
  "cmdTriples i cs = [str_triple i PredType CommandIRI, str_triple i PredCommandControlStream cs]"

definition twoCommands :: "memory gateway" where
  "twoCommands = emptyGateway\<lparr>World := \<lparr>Entities =
     [(controlID, controlTriples, 1), (firstCommand, cmdTriples firstCommand ''o.p.d.s.t.c2'', 1),
      (secondCommand, cmdTriples secondCommand controlID, 1)],
     Objects = [], Messages = []\<rparr>\<rparr>"


lemma command_contents:
  "memoryContents (World twoCommands) =
     [controlID \<mapsto> (controlTriples, 1), firstCommand \<mapsto> (cmdTriples firstCommand ''o.p.d.s.t.c2'', 1),
      secondCommand \<mapsto> (cmdTriples secondCommand controlID, 1)]"
  by (auto simp: memoryContents_def twoCommands_def controlID_def firstCommand_def secondCommand_def fun_eq_iff)

lemma commands_listed: "memoryListing (World twoCommands) CommandIRI = [firstCommand, secondCommand]"
  by code_simp

lemma memory_lists_class:
  assumes "distinct (map fst (Entities w))"
  shows "lists_class (memoryContents w) iri (memoryListing w iri)"
proof -
  have "(map_of (Entities w) i = Some (ts, kv)) = ((i, ts, kv) \<in> set (Entities w))" for i ts kv
    using assms by simp
  then show ?thesis
    using assms by (force simp: lists_class_def memoryListing_def memoryContents_def distinct_map_filter)
qed

lemma commands_class:
  "lists_class (memoryContents (World twoCommands)) CommandIRI (memoryListing (World twoCommands) CommandIRI)"
  by (rule memory_lists_class) (simp add: twoCommands_def controlID_def firstCommand_def secondCommand_def)

lemma memory_read: "read_law memoryBackend memoryContents listing"
  by (auto simp: read_law_def memoryBackend_def memoryContents_def state_of_def)

lemma commands_valid: "ids_valid sampleEnv (memoryContents (World twoCommands))"
proof -
  have "ValidateEntityID (Ids sampleEnv) controlID = None" "ValidateEntityID (Ids sampleEnv) firstCommand = None"
    "ValidateEntityID (Ids sampleEnv) secondCommand = None"
    by code_simp+
  then show ?thesis by (auto simp: ids_valid_def command_contents)
qed

lemma control_negotiated:
  "NegotiateRequest (Std sampleEnv) (getRequest path []) FamilyControlStreamCollection \<noteq> None"
proof -
  have "Negotiate (Std sampleEnv) [] FamilyControlStreamCollection \<noteq> None" by code_simp
  then show ?thesis by (simp add: NegotiateRequest_def getRequest_def query_get_def header_get_def first_value_def)
qed

lemma control_kind: "isControlStreamKind controlTriples" "\<And>i cs. isCommandKind (cmdTriples i cs)"
  by (simp_all add: isControlStreamKind_def isCommandKind_def controlTriples_def cmdTriples_def)

lemma command_streams:
  "CmdControlStreamID (commandFromState (state_of firstCommand (cmdTriples firstCommand ''o.p.d.s.t.c2'') None)) = ''o.p.d.s.t.c2''"
  "CmdControlStreamID (commandFromState (state_of secondCommand (cmdTriples secondCommand controlID) None)) = controlID"
  by code_simp+

theorem control_stream_commands_witness:
  "\<exists>g'. memoryContents (World g') = memoryContents (World twoCommands) \<and>
     handleControlStreamCommands sampleEnv memoryBackend (getRequest controlID []) twoCommands =
       encodeBody (getRequest controlID []) [contentTypeJSON] False
         (commandCollectionJson sampleEnv (''/controlstreams/'' @ controlID @ ''/commands'')
           [commandFromState (state_of secondCommand (cmdTriples secondCommand controlID) None)]) g'"
proof -
  have "viewsAmong isCommandKind commandFromState (memoryContents (World twoCommands)) [firstCommand, secondCommand] =
      [commandFromState (state_of firstCommand (cmdTriples firstCommand ''o.p.d.s.t.c2'') None),
       commandFromState (state_of secondCommand (cmdTriples secondCommand controlID) None)]"
    by (simp add: viewsAmong_def storedView_def map_filter_simps command_contents control_kind)
      (simp add: firstCommand_def secondCommand_def)
  moreover have "PathValue (getRequest controlID []) ''id'' = controlID" by (simp add: getRequest_def)
  moreover have "controlID \<noteq> []" "''o.p.d.s.t.c2'' \<noteq> controlID" by (simp_all add: controlID_def)
  moreover have "memoryContents (World twoCommands) controlID = Some (controlTriples, 1)"
    by (simp add: command_contents) (simp add: controlID_def firstCommand_def secondCommand_def)
  ultimately show ?thesis
    using control_stream_commands [OF memory_list memory_batch memory_read commands_valid two_valid(2) commands_class
        control_negotiated get_limits(1), of controlID controlID controlTriples 1] control_kind(1)
    by (simp add: commands_listed command_streams sampleEnv_def DefaultConfig_def)
qed

section \<open>The events of a system\<close>

definition eventID :: string where "eventID = ''o.p.d.s.e.e1''"

definition oneEvent :: "memory gateway" where
  "oneEvent = emptyGateway\<lparr>World := \<lparr>Entities =
     [(eventID, [str_triple eventID PredType SystemEventIRI, str_triple eventID PredSystemEventSystem systemID], 1)],
     Objects = [], Messages = []\<rparr>\<rparr>"

definition eventRequest :: request where
  "eventRequest = (getRequest [] [])\<lparr>PathValue := (\<lambda>k. if k = ''eventID'' then eventID else systemID)\<rparr>"

definition eventRun :: "response \<times> memory gateway" where
  "eventRun = handleSystemScopedEvent sampleEnv memoryBackend eventRequest oneEvent"

lemma event_run: "handleSystemScopedEvent sampleEnv memoryBackend eventRequest oneEvent = (fst eventRun, snd eventRun)"
  by (simp only: eventRun_def prod.collapse)

theorem scoped_event_shown_witness:
  "Status (fst eventRun) = 200 \<and> memoryContents (World (snd eventRun)) = memoryContents (World oneEvent)"
proof
  show status: "Status (fst eventRun) = 200" by code_simp
  have "PathValue eventRequest ''id'' \<noteq> []" by (simp add: eventRequest_def systemID_def)
  from scoped_event_shown [OF memory_query event_run status this]
  show "memoryContents (World (snd eventRun)) = memoryContents (World oneEvent)" by blast
qed

end
