(* ===== verification/ServerExamples.thy ===== *)
theory ServerExamples
  imports ServerProperties SystemOutcomes CommandExamples
begin

text \<open>The properties of the server, of the system reads and of the spatial query on concrete requests.\<close>

section \<open>Systems\<close>

definition filterRequest :: request where
  "filterRequest = getRequest [] [(''q'', ''s'')]"

definition keywordS :: systemCollectionFilters where
  "keywordS = \<lparr>FIds = [], FKeyword = ''s'', FGeom = []\<rparr>"

lemma one_system_listed: "memoryListing (World oneSystem) SSNSystem = [systemID]"
  by code_simp

lemma one_system_matches:
  "matchingSystems sampleEnv keywordS (memoryContents (World oneSystem)) [systemID] = [systemID]"
  by code_simp

lemma one_system_valid: "ids_valid sampleEnv (memoryContents (World oneSystem))"
proof -
  have "ValidateEntityID (Ids sampleEnv) systemID = None" by code_simp
  then show ?thesis by (auto simp: ids_valid_def memoryContents_def oneSystem_def split: if_splits)
qed

theorem system_collection_filtered_witness:
  "\<exists>g'. memoryContents (World g') = memoryContents (World oneSystem) \<and>
     handleSystems sampleEnv memoryBackend filterRequest oneSystem =
       encodeJSON filterRequest (Some (countedJson ''SystemCollection'' ''items''
         [systemItem (storedStates (memoryContents (World oneSystem))) systemID] False
         [json_link ''/systems'' ''self'' MediaJSON])) g'"
proof -
  have negotiated: "NegotiateRequest (Std sampleEnv) filterRequest FamilySystemCollection = Some MediaJSON" by code_simp
  have json: "MediaJSON \<noteq> MediaGeoJSON" by code_simp
  have filters: "parseSystemCollectionFilters sampleEnv filterRequest = Inr keywordS" by code_simp
  have limit: "parseLimit (query_get filterRequest ''limit'') (DefaultListLimit (Cfg sampleEnv)) (MaxListLimit (Cfg sampleEnv)) = Inr 100"
    by code_simp
  have active: "systemFiltersActive keywordS" by (simp add: systemFiltersActive_def keywordS_def)
  have listing: "lists_class (memoryContents (World oneSystem)) SSNSystem (memoryListing (World oneSystem) SSNSystem)"
    by (rule memory_lists_class) (simp add: oneSystem_def)
  have "MaxListLimit (Cfg sampleEnv) = 1000" by code_simp
  with system_collection_filtered [OF memory_list memory_batch one_system_valid two_valid(2) listing negotiated json limit
      filters active]
  show ?thesis by (simp add: one_system_listed one_system_matches)
qed

definition hostID :: string where "hostID = ''o.p.d.s.t.h1''"

definition hostedWorld :: "memory gateway" where
  "hostedWorld = emptyGateway\<lparr>World := \<lparr>Entities =
     [(hostID, [str_triple hostID PredType SSNSystem], 1),
      (systemID, [str_triple systemID PredType SSNSystem, str_triple systemID PredIsHostedBy hostID], 1)],
     Objects = [], Messages = []\<rparr>\<rparr>"

definition subsystemRequest :: request where
  "subsystemRequest = (getRequest [] [])\<lparr>PathValue := (\<lambda>k. if k = ''subsystemID'' then systemID else hostID)\<rparr>"

definition subsystemRun :: "response \<times> memory gateway" where
  "subsystemRun = handleSystemSubsystem sampleEnv memoryBackend subsystemRequest hostedWorld"

lemma subsystem_run:
  "handleSystemSubsystem sampleEnv memoryBackend subsystemRequest hostedWorld = (fst subsystemRun, snd subsystemRun)"
  by (simp only: subsystemRun_def prod.collapse)

theorem subsystem_shown_witness:
  "Status (fst subsystemRun) = 200 \<and> memoryContents (World (snd subsystemRun)) = memoryContents (World hostedWorld)"
proof
  show status: "Status (fst subsystemRun) = 200" by code_simp
  from subsystem_shown [OF memory_query subsystem_run status]
  show "memoryContents (World (snd subsystemRun)) = memoryContents (World hostedWorld)" by blast
qed

section \<open>Deployments\<close>

definition deploymentDoc :: json where
  "deploymentDoc =
     JObj [(''type'', JStr ''Feature''),
       (''properties'', JObj [(''uid'', JStr ''urn:x:d1''), (''name'', JStr ''D''), (''parent@id'', JStr hostID)])]"

definition deploymentRun :: "response \<times> memory gateway" where
  "deploymentRun = handleDeploymentPost (jsonEnv deploymentDoc) memoryBackend background anonymous
     (requestOf [] MediaJSON) oneSystem"

lemma deployment_run:
  "handleDeploymentPost (jsonEnv deploymentDoc) memoryBackend background anonymous (requestOf [] MediaJSON) oneSystem =
   (fst deploymentRun, snd deploymentRun)"
  by (simp only: deploymentRun_def prod.collapse)

theorem posted_deployment_child_witness:
  "\<exists>eid ts kv. memoryContents (World oneSystem) eid = None \<and>
     memoryContents (World (snd deploymentRun)) eid = Some (ts, kv) \<and> isDeploymentKind ts \<and> deploymentChildOf ts hostID"
proof -
  have status: "Status (fst deploymentRun) = 201" by code_simp
  have "EntityIndexingProfile (jsonEnv deploymentDoc) \<notin> {PredType, predDeploymentParent}"
    by (simp add: jsonEnv_def sampleEnv_def vocab_defs)
  from posted_deployment_child [OF jsonEnv_contract this deployment_run status]
  obtain body feat eid ts kv where "Body (requestOf [] MediaJSON) = BodyOk body"
    and d: "parseFeature (jsonEnv deploymentDoc) body = Some feat"
    "fst deploymentRun = createdResponse [] (''/deployments/'' @ eid) eid ''Deployment''"
    "memoryContents (World oneSystem) eid = None" "memoryContents (World (snd deploymentRun)) eid = Some (ts, kv)"
    "isDeploymentKind ts" "\<forall>p. p \<noteq> [] \<longrightarrow> deploymentChildOf ts p = (parentIDFromDeploymentFeature feat = p)"
    by (elim exE conjE) (rule that)
  from d(1) have "decodeFeature deploymentDoc = Some feat" by (simp add: parseFeature_def jsonEnv_def)
  moreover have "map_option parentIDFromDeploymentFeature (decodeFeature deploymentDoc) = Some hostID" by code_simp
  ultimately have "parentIDFromDeploymentFeature feat = hostID" by simp
  moreover have "hostID \<noteq> []" by (simp add: hostID_def)
  ultimately have "deploymentChildOf ts hostID" using d(6) by simp
  with d(3-5) show ?thesis by (intro exI conjI)
qed

section \<open>The spatial query\<close>

text \<open>An index that records what it is asked.\<close>

definition recorder :: "graph_request list backend" where
  "recorder =
     \<lparr>Request = (\<lambda>q w. (Data (JsonReply (JArr [])), w @ [q])), GetBytes = (\<lambda>k w. (ObjectNotFound, w)),
      PutBytes = (\<lambda>k b w. (None, w)), PurgeSubject = (\<lambda>s w. (None, w)), PublishMsg = (\<lambda>s d hs w. (None, w)),
      Deliver = (\<lambda>s start n w. (Inr [], w))\<rparr>"

definition recording :: "graph_request list gateway" where
  "recording =
     \<lparr>World = [], Audit = [], Errs = 0, FreshIDs = [], StoreReady = True, CleanerReady = True, PublisherReady = True,
      ReaderReady = True\<rparr>"

definition areasRun :: "response \<times> graph_request list gateway" where
  "areasRun = handleAreas sampleEnv recorder (getRequest [] [(''bbox'', ''0,0,0,0'')]) recording"

lemma areas_run:
  "handleAreas sampleEnv recorder (getRequest [] [(''bbox'', ''0,0,0,0'')]) recording = (fst areasRun, snd areasRun)"
  by (simp only: areasRun_def prod.collapse)

theorem areas_query_sound_witness: "\<exists>q. soundSpatialQuery sampleEnv q \<and> World (snd areasRun) = [q]"
proof -
  have "World (snd areasRun) \<noteq> []" by code_simp
  with areas_query_sound [OF areas_run two_valid(2)] show ?thesis by (auto simp: recorder_def recording_def)
qed

text \<open>The middle of the south edge of the unit square belongs to it.\<close>

theorem box_polygon_witness: "pointInPolygon (0x3FE0000000000000, 0) (boxRing 0 0 0x3FF0000000000000 0x3FF0000000000000)"
proof -
  have "f64_finite 0" "f64_finite 0x3FF0000000000000" "f64_finite 0x3FE0000000000000"
    "f64_finite (f64_sub 0 0x3FF0000000000000)" "f64_finite (f64_sub 0 0)" "f64_finite (f64_sub 0x3FF0000000000000 0)"
    by code_simp+
  moreover have "f64_lt 0 0x3FF0000000000000" "\<not> f64_lt 0x3FE0000000000000 0" "f64_lt 0x3FE0000000000000 0x3FF0000000000000"
    "\<not> f64_lt 0 0"
    by code_simp+
  ultimately show ?thesis using box_polygon [of 0 "0x3FF0000000000000" 0 "0x3FF0000000000000" "0x3FE0000000000000" 0]
    by simp
qed

end
