(* ===== verification/Discovery.thy ===== *)
theory Discovery
  imports ObservationReads
begin

text \<open>
  What the component says of itself to the runtime (\<open>component.go\<close>: its metadata, its ports, the stream
  it asks for), and the subjects of the observations: the stream captures every one of them, each
  datastream has its own, and the subject names the datastream.
\<close>

section \<open>Ports\<close>

record metadata =
  MetaName :: string
  MetaType :: string
  MetaDescription :: string
  MetaVersion :: string

definition componentName :: string where "componentName = ''cs-api''"

definition Meta :: metadata where
  "Meta = \<lparr>MetaName = componentName, MetaType = ''gateway'',
     MetaDescription = ''OGC API Connected Systems v1.0 HTTP gateway'', MetaVersion = ''0.1.0''\<rparr>"

text \<open>A request port: subject, timeout (written as a string in the code), and the type and version of
  its interface. A stream port: stream, subjects, storage, retention, replicas.\<close>

datatype port_config =
    NATSRequestPort string int "(string \<times> string) option"
  | JetStreamPort string "string list" string string int

record port_definition =
  PortName :: string
  PortRequired :: bool
  PortDescription :: string
  PortConfig :: port_config

definition observationSubjects :: "Config \<Rightarrow> string" where
  "observationSubjects cfg = ObservationsSubjectPrefix cfg @ ''.>''"

definition outputPortDefinitions :: "Config \<Rightarrow> port_definition list" where
  "outputPortDefinitions cfg =
     (let t = QueryTimeout cfg; graphQuery = Some (''graph.query'', ''v1'') in
      [\<lparr>PortName = ''graph-mutations'', PortRequired = True, PortDescription = ''typed revision-fenced graph mutation family'',
        PortConfig = NATSRequestPort ''graph.mutation.>'' t (Some (''semstreams.graph.mutation'', ''v1''))\<rparr>,
       \<lparr>PortName = ''entity-query'', PortRequired = True, PortDescription = ''fetch exact entity state and authority revision'',
        PortConfig = NATSRequestPort ''graph.query.entity'' t graphQuery\<rparr>,
       \<lparr>PortName = ''batch-query'', PortRequired = True, PortDescription = ''hydrate collection entity states in chunks'',
        PortConfig = NATSRequestPort ''graph.query.batch'' t graphQuery\<rparr>,
       \<lparr>PortName = ''predicate-query'', PortRequired = True, PortDescription = ''list entities by type'',
        PortConfig = NATSRequestPort ''graph.index.query.predicate'' t None\<rparr>,
       \<lparr>PortName = ''spatial-bounds-query'', PortRequired = True, PortDescription = ''bbox-filtered entity list'',
        PortConfig = NATSRequestPort ''graph.spatial.query.bounds'' t None\<rparr>,
       \<lparr>PortName = ''spatial-polygon-query'', PortRequired = True, PortDescription = ''polygon-contained entity list'',
        PortConfig = NATSRequestPort ''graph.spatial.query.polygon'' t None\<rparr>,
       \<lparr>PortName = ''observations'', PortRequired = True, PortDescription = ''OMS observation stream'',
        PortConfig = JetStreamPort (ObservationsStream cfg) [observationSubjects cfg] ''file'' ''limits'' (ObservationsReplicas cfg)\<rparr>])"

section \<open>The observation stream\<close>

text \<open>Retention by limits and file storage are fixed; the oldest messages are discarded.\<close>

record stream_config =
  StreamName :: string
  StreamSubjects :: "string list"
  StreamDescription :: string
  StreamMaxAge :: int
  StreamMaxBytes :: int
  StreamReplicas :: int

definition observationStreamConfig :: "Config \<Rightarrow> stream_config" where
  "observationStreamConfig cfg =
     \<lparr>StreamName = ObservationsStream cfg, StreamSubjects = [observationSubjects cfg],
      StreamDescription = ''cs-api observations published via POST /datastreams/{id}/observations'',
      StreamMaxAge = ObservationsMaxAge cfg, StreamMaxBytes = ObservationsMaxBytes cfg,
      StreamReplicas = ObservationsReplicas cfg\<rparr>"

section \<open>Subjects\<close>

lemma valid_id_tokens:
  assumes "entity_id_laws E" "ValidateEntityID E s = None"
  shows "''*'' \<notin> set (go_split ''.'' s)" "''>'' \<notin> set (go_split ''.'' s)"
proof -
  have "list_all id_token (go_split ''.'' s)" using assms by (simp add: entity_id_laws_def)
  moreover have "\<not> id_token ''*''" "\<not> id_token ''>''" by (simp_all add: id_token_def is_alnum_def is_digit_def)
  ultimately show "''*'' \<notin> set (go_split ''.'' s)" "''>'' \<notin> set (go_split ''.'' s)"
    by (auto simp: list_all_iff)
qed

lemma go_split_join_all: "go_join [c] (go_split [c] s) = s"
proof (induction s rule: length_induct)
  case (1 s)
  show ?case
  proof (cases "c \<in> set s")
    case True
    then obtain a b where s: "s = a @ c # b" "c \<notin> set a" by (auto dest: split_list_first)
    with 1 have "go_join [c] (go_split [c] b) = b" by simp
    moreover obtain x xs where "go_split [c] b = x # xs" using go_split_nonempty by (cases "go_split [c] b") auto
    ultimately show ?thesis by (simp add: s go_split_append)
  qed (simp add: go_split_none)
qed

lemma go_split_concat: "go_split [c] (p @ c # s) = go_split [c] p @ go_split [c] s"
proof (induction p rule: length_induct)
  case (1 p)
  show ?case
  proof (cases "c \<in> set p")
    case True
    then obtain a b where p: "p = a @ c # b" "c \<notin> set a" by (auto dest: split_list_first)
    with 1 have "go_split [c] (b @ c # s) = go_split [c] b @ go_split [c] s" by simp
    with p show ?thesis by (simp add: go_split_append)
  qed (simp add: go_split_none go_split_append)
qed

lemma tokensMatch_prefix: "ds \<noteq> [] \<Longrightarrow> tokensMatch (ps @ ds) (ps @ ss) = tokensMatch ds ss"
  by (induction ps) auto

lemma tokensMatch_exact:
  "''*'' \<notin> set ds \<Longrightarrow> ''>'' \<notin> set ds \<Longrightarrow> tokensMatch ds ss \<longleftrightarrow> ss = ds"
  by (induction ds ss rule: tokensMatch.induct) auto

lemma subjectMatches_below: "subjectMatches (pre @ ''.>'') (pre @ ''.'' @ s)"
proof -
  have "go_split ''.'' ''>'' = [''>'']" by (simp add: go_split_none)
  moreover obtain x xs where "go_split ''.'' s = x # xs" using go_split_nonempty by (cases "go_split ''.'' s") auto
  ultimately show ?thesis
    by (simp add: subjectMatches_def go_split_concat tokensMatch_prefix)
qed

lemma subjectMatches_other:
  assumes "''*'' \<notin> set (go_split ''.'' ds)" "''>'' \<notin> set (go_split ''.'' ds)"
  shows "subjectMatches (pre @ ''.'' @ ds) (pre @ ''.'' @ other) \<longleftrightarrow> other = ds"
proof -
  have "subjectMatches (pre @ ''.'' @ ds) (pre @ ''.'' @ other) \<longleftrightarrow> go_split ''.'' other = go_split ''.'' ds"
    by (simp add: subjectMatches_def go_split_concat tokensMatch_prefix go_split_nonempty tokensMatch_exact [OF assms])
  also have "\<dots> \<longleftrightarrow> other = ds" by (metis go_split_join_all)
  finally show ?thesis .
qed

text \<open>Claim C21: The subjects of observations keep datastreams apart: the subject on which the observations of a
  datastream are published is among those that the stream of the server captures, it is the subject of no
  other datastream, as a filter (of a listing or of the purge after a delete) it takes the messages of
  this datastream only, and the listing of all observations reads the datastream back from it.\<close>

theorem observation_subjects:
  assumes "entity_id_laws (Ids X)" "ValidateEntityID (Ids X) ds = None"
  shows "list_ex (\<lambda>s. subjectMatches s (observationSubject X ds)) (StreamSubjects (observationStreamConfig (Cfg X))) \<and>
    subjectMatches (observationSubject X ds) (observationSubject X other) = (other = ds) \<and>
    datastreamIDFromObservationSubject (ObservationsSubjectPrefix (Cfg X)) (observationSubject X ds) = ds"
proof (intro conjI)
  note tokens = valid_id_tokens [OF assms]
  show "list_ex (\<lambda>s. subjectMatches s (observationSubject X ds)) (StreamSubjects (observationStreamConfig (Cfg X)))"
    using subjectMatches_below [of "ObservationsSubjectPrefix (Cfg X)" ds]
    by (simp add: observationStreamConfig_def observationSubjects_def observationSubject_def)
  show "subjectMatches (observationSubject X ds) (observationSubject X other) = (other = ds)"
    unfolding observationSubject_def by (rule subjectMatches_other [OF tokens])
  show "datastreamIDFromObservationSubject (ObservationsSubjectPrefix (Cfg X)) (observationSubject X ds) = ds"
    by (simp add: datastreamIDFromObservationSubject_def observationSubject_def strip_prefix_def)
qed

theorem observation_subjects_witness:
  "\<forall>other. subjectMatches (observationSubject sampleEnv ''o.p.d.s.t.d1'') (observationSubject sampleEnv other) =
     (other = ''o.p.d.s.t.d1'')"
proof -
  have "entity_id_laws (Ids sampleEnv)" using sampleIds_laws by (simp add: sampleEnv_def)
  moreover have "ValidateEntityID (Ids sampleEnv) ''o.p.d.s.t.d1'' = None" by code_simp
  ultimately show ?thesis using observation_subjects [of sampleEnv "''o.p.d.s.t.d1''"] by blast
qed

end
