(* ===== verification/IndexReadiness.thy ===== *)
theory IndexReadiness
  imports Prelude
begin

text \<open>
  \<open>conformance/cmd/index-readiness/main.go\<close>: the wait for the graph index. A watch delivers updates of the
  index status; the loop first captures a target revision that stays the same over enough consecutive
  updates, then waits until the index has reached it. What the framework decides (\<open>EvaluateReadinessGate\<close>,
  the codes of a required reset) is a parameter; so is the evidence file, which takes or refuses each line
  given the lines it already has. Timestamps are left out.
\<close>

section \<open>Data\<close>

record index_status =
  StReady :: bool
  StState :: string
  StCode :: string
  StReason :: string
  IndexedRevision :: nat
  TargetRevision :: nat
  Lag :: nat
  BootstrapComplete :: bool

record evidence =
  Phase :: string
  Attempt :: nat
  EvReady :: bool
  EvState :: string
  EvCode :: string
  EvReason :: string
  EvIndexed :: nat
  EvTarget :: nat
  EvLag :: nat
  CapturedTargetRevision :: nat
  FinalIndexedRevision :: nat
  FinalObservedTarget :: nat
  StableTargetSampleCount :: nat
  EvError :: string

definition emptyEvidence :: evidence where
  "emptyEvidence =
     \<lparr>Phase = [], Attempt = 0, EvReady = False, EvState = [], EvCode = [], EvReason = [], EvIndexed = 0, EvTarget = 0,
      EvLag = 0, CapturedTargetRevision = 0, FinalIndexedRevision = 0, FinalObservedTarget = 0,
      StableTargetSampleCount = 0, EvError = []\<rparr>"

record readinessResult =
  ResTarget :: nat
  ResIndexed :: nat
  ResAttempts :: nat

text \<open>What the loop can receive: the end of its context, the end of the watch, the nil marker, a deleted
  key, bytes that do not decode, a status.\<close>

datatype watch_event =
    ContextDone string
  | WatchClosed
  | NilUpdate
  | KeyDeleted
  | BadStatus string
  | StatusUpdate index_status

record readiness_env =
  Gate :: "index_status \<Rightarrow> bool"
  ResetCode :: string
  ResetState :: string
  Accepts :: "evidence list \<Rightarrow> evidence \<Rightarrow> bool"

record wait_state =
  WPhase :: string
  LastTarget :: nat
  StableSamples :: nat
  CapturedTarget :: nat
  Attempts :: nat
  Written :: "evidence list"

section \<open>The loop\<close>

definition writeEvidence :: "readiness_env \<Rightarrow> evidence \<Rightarrow> wait_state \<Rightarrow> bool \<times> wait_state" where
  "writeEvidence X e st =
     (if Accepts X (Written st) e then (True, st\<lparr>Written := Written st @ [e]\<rparr>) else (False, st))"

text \<open>The events of failures are written if possible.\<close>

definition failWith :: "readiness_env \<Rightarrow> string \<Rightarrow> wait_state \<Rightarrow> (string + readinessResult) \<times> wait_state" where
  "failWith X err st =
     (Inl err, snd (writeEvidence X (emptyEvidence\<lparr>Phase := WPhase st, Attempt := Attempts st, EvError := err\<rparr>) st))"

definition eventForStatus :: "string \<Rightarrow> nat \<Rightarrow> nat \<Rightarrow> index_status \<Rightarrow> evidence" where
  "eventForStatus phase attempt samples status =
     emptyEvidence\<lparr>Phase := phase, Attempt := attempt, EvReady := StReady status, EvState := StState status,
       EvCode := StCode status, EvReason := StReason status, EvIndexed := IndexedRevision status,
       EvTarget := TargetRevision status, EvLag := Lag status, StableTargetSampleCount := samples\<rparr>"

definition countStable :: "index_status \<Rightarrow> wait_state \<Rightarrow> wait_state" where
  "countStable status st =
     (if 0 < TargetRevision status \<and> TargetRevision status = LastTarget st
      then st\<lparr>StableSamples := Suc (StableSamples st)\<rparr>
      else if 0 < TargetRevision status then st\<lparr>LastTarget := TargetRevision status, StableSamples := 1\<rparr>
      else st\<lparr>LastTarget := 0, StableSamples := 0\<rparr>)"

definition captureTarget :: "nat \<Rightarrow> index_status \<Rightarrow> wait_state \<Rightarrow> wait_state" where
  "captureTarget n status st =
     (if CapturedTarget st = 0 \<and> n \<le> StableSamples st
      then st\<lparr>CapturedTarget := TargetRevision status, WPhase := ''watch''\<rparr> else st)"

definition indexReady :: "readiness_env \<Rightarrow> index_status \<Rightarrow> nat \<Rightarrow> bool" where
  "indexReady X status captured \<longleftrightarrow>
     0 < captured \<and> BootstrapComplete status \<and> Gate X status \<and> StReady status \<and>
     captured \<le> TargetRevision status \<and> captured \<le> IndexedRevision status \<and>
     TargetRevision status \<le> IndexedRevision status"

text \<open>One decoded status: \<open>None\<close> goes on waiting.\<close>

definition handleStatus ::
  "readiness_env \<Rightarrow> nat \<Rightarrow> index_status \<Rightarrow> wait_state \<Rightarrow> (string + readinessResult) option \<times> wait_state"
where
  "handleStatus X n status st =
     (let st1 = countStable status st in
      case writeEvidence X (eventForStatus (WPhase st1) (Attempts st1) (StableSamples st1) status) st1 of
        (False, st2) \<Rightarrow> (Some (Inl ''archive graph index readiness status''), st2)
      | (True, st2) \<Rightarrow>
          if StCode status = ResetCode X \<or> StState status = ResetState X then (Some (Inl (ResetCode X)), st2)
          else let st3 = captureTarget n status st2; captured = CapturedTarget st3 in
            if 0 < captured \<and> TargetRevision status < captured
            then (Some (Inl ''graph index target revision regressed''),
                  snd (writeEvidence X (emptyEvidence\<lparr>Phase := ''target-regression'', Attempt := Attempts st3,
                    CapturedTargetRevision := captured, FinalIndexedRevision := IndexedRevision status,
                    FinalObservedTarget := TargetRevision status,
                    EvError := ''graph index target revision regressed''\<rparr>) st3))
            else if indexReady X status captured
            then (case writeEvidence X (emptyEvidence\<lparr>Phase := ''final'', Attempt := Attempts st3, EvReady := StReady status,
                      EvState := StState status, CapturedTargetRevision := captured,
                      FinalIndexedRevision := IndexedRevision status, FinalObservedTarget := TargetRevision status\<rparr>) st3 of
                    (True, st4) \<Rightarrow>
                      (Some (Inr \<lparr>ResTarget = captured, ResIndexed = IndexedRevision status, ResAttempts = Attempts st4\<rparr>), st4)
                  | (False, st4) \<Rightarrow> (Some (Inl ''archive final graph index readiness status''), st4))
            else (None, st3))"

text \<open>The loop over the events that arrive; \<open>None\<close>: it still waits when these are used up.\<close>

fun waitLoop ::
  "readiness_env \<Rightarrow> nat \<Rightarrow> watch_event list \<Rightarrow> wait_state \<Rightarrow> (string + readinessResult) option \<times> wait_state"
where
  "waitLoop X n [] st = (None, st)"
| "waitLoop X n (ContextDone e # evs) st = apfst Some (failWith X (''wait for graph index readiness: '' @ e) st)"
| "waitLoop X n (WatchClosed # evs) st = apfst Some (failWith X ''graph index readiness watch closed'' st)"
| "waitLoop X n (NilUpdate # evs) st = waitLoop X n evs st"
| "waitLoop X n (KeyDeleted # evs) st =
     apfst Some (failWith X ''graph index readiness key was deleted'' (st\<lparr>Attempts := Suc (Attempts st)\<rparr>))"
| "waitLoop X n (BadStatus e # evs) st =
     apfst Some (failWith X (''decode graph index readiness status: '' @ e) (st\<lparr>Attempts := Suc (Attempts st)\<rparr>))"
| "waitLoop X n (StatusUpdate status # evs) st =
     (case handleStatus X n status (st\<lparr>Attempts := Suc (Attempts st)\<rparr>) of
        (Some res, st') \<Rightarrow> (Some res, st')
      | (None, st') \<Rightarrow> waitLoop X n evs st')"

definition startWaiting :: wait_state where
  "startWaiting =
     \<lparr>WPhase = ''capture'', LastTarget = 0, StableSamples = 0, CapturedTarget = 0, Attempts = 0, Written = []\<rparr>"

text \<open>\<open>watch\<close>: the error of opening the watch, or the events that it delivers.\<close>

definition waitForReadiness ::
  "readiness_env \<Rightarrow> int \<Rightarrow> string + watch_event list \<Rightarrow> (string + readinessResult) option \<times> wait_state"
where
  "waitForReadiness X n watch =
     (if n < 2 then (Some (Inl ''stable sample count must be at least 2''), startWaiting)
      else case watch of
        Inl e \<Rightarrow> apfst Some (failWith X (''open graph index readiness watch: '' @ e) (startWaiting\<lparr>WPhase := ''watch''\<rparr>))
      | Inr evs \<Rightarrow> waitLoop X (nat n) evs startWaiting)"

section \<open>What has been heard\<close>

fun heard :: "watch_event list \<Rightarrow> index_status list" where
  "heard [] = []"
| "heard (StatusUpdate s # evs) = s # heard evs"
| "heard (e # evs) = heard evs"

lemma heard_append [simp]: "heard (evs @ evs') = heard evs @ heard evs'"
  by (induction evs rule: heard.induct) simp_all

definition lastTarget :: "index_status list \<Rightarrow> nat" where
  "lastTarget ss = (if ss = [] then 0 else TargetRevision (last ss))"

text \<open>The number of updates at the end that agree with the last one, none when that has no target.\<close>

definition stableRun :: "index_status list \<Rightarrow> nat" where
  "stableRun ss =
     (if lastTarget ss = 0 then 0 else length (takeWhile (\<lambda>s. TargetRevision s = lastTarget ss) (rev ss)))"

lemma lastTarget_snoc [simp]: "lastTarget (ss @ [s]) = TargetRevision s"
  by (simp add: lastTarget_def)

lemma stableRun_snoc:
  "stableRun (ss @ [s]) =
     (if TargetRevision s = 0 then 0 else if TargetRevision s = lastTarget ss then Suc (stableRun ss) else 1)"
proof (cases ss rule: rev_cases)
  case (snoc ss' s')
  then show ?thesis by (simp add: stableRun_def lastTarget_def)
qed (simp add: stableRun_def lastTarget_def)

text \<open>A run of enough equal targets, and no smaller one since.\<close>

definition settled :: "nat \<Rightarrow> index_status list \<Rightarrow> nat \<Rightarrow> bool" where
  "settled n ss T \<longleftrightarrow>
     0 < T \<and> (\<exists>pre block post. ss = pre @ block @ post \<and> length block = n \<and>
       list_all (\<lambda>s. TargetRevision s = T) block \<and> list_all (\<lambda>s. T \<le> TargetRevision s) post)"

lemma settledI:
  "0 < T \<Longrightarrow> ss = pre @ block @ post \<Longrightarrow> length block = n \<Longrightarrow> list_all (\<lambda>s. TargetRevision s = T) block \<Longrightarrow>
   list_all (\<lambda>s. T \<le> TargetRevision s) post \<Longrightarrow> settled n ss T"
  unfolding settled_def by blast

lemma settled_snoc: "settled n ss T \<Longrightarrow> T \<le> TargetRevision s \<Longrightarrow> settled n (ss @ [s]) T"
proof -
  assume "settled n ss T" and T: "T \<le> TargetRevision s"
  then obtain pre block post where "0 < T" "ss = pre @ block @ post" "length block = n"
    "list_all (\<lambda>s. TargetRevision s = T) block" "list_all (\<lambda>s. T \<le> TargetRevision s) post"
    unfolding settled_def by blast
  with T show ?thesis by (intro settledI [of T "ss @ [s]" pre block "post @ [s]"]) auto
qed

lemma takeWhile_rev_suffix:
  assumes "n \<le> length (takeWhile P (rev xs))"
  shows "\<exists>pre block. xs = pre @ block \<and> length block = n \<and> list_all P block"
proof (intro exI conjI)
  have n: "n \<le> length xs" using assms length_takeWhile_le [of P "rev xs"] by simp
  show "xs = take (length xs - n) xs @ drop (length xs - n) xs" by simp
  show "length (drop (length xs - n) xs) = n" using n by simp
  have "take n (rev xs) = take n (takeWhile P (rev xs))"
    using assms by (metis append_take_drop_id takeWhile_eq_take take_take min.absorb1)
  then have "\<forall>x \<in> set (take n (rev xs)). P x" by (metis in_set_takeD set_takeWhileD)
  then show "list_all P (drop (length xs - n) xs)" by (simp add: list_all_iff take_rev)
qed

lemma stableRun_settled:
  assumes "n \<le> stableRun ss" "0 < n"
  shows "settled n ss (lastTarget ss)"
proof -
  have T: "0 < lastTarget ss" using assms by (auto simp: stableRun_def split: if_splits)
  with assms(1) have "n \<le> length (takeWhile (\<lambda>s. TargetRevision s = lastTarget ss) (rev ss))" by (simp add: stableRun_def)
  from takeWhile_rev_suffix [OF this] obtain pre block where
    "ss = pre @ block" "length block = n" "list_all (\<lambda>s. TargetRevision s = lastTarget ss) block" by blast
  with T show ?thesis by (intro settledI [of _ ss pre block "[]"]) simp_all
qed

text \<open>The state of the loop after the statuses it has heard.\<close>

definition tracked :: "nat \<Rightarrow> index_status list \<Rightarrow> wait_state \<Rightarrow> bool" where
  "tracked n ss st \<longleftrightarrow>
     Attempts st = length ss \<and> LastTarget st = lastTarget ss \<and> StableSamples st = stableRun ss \<and>
     (CapturedTarget st \<noteq> 0 \<longrightarrow> settled n ss (CapturedTarget st)) \<and>
     (CapturedTarget st = 0 \<longrightarrow> stableRun ss < n)"

lemma tracked_start: "0 < n \<Longrightarrow> tracked n [] startWaiting"
  by (simp add: tracked_def startWaiting_def lastTarget_def stableRun_def)

lemma writeEvidence_state:
  "writeEvidence X e st = (ok, st') \<Longrightarrow>
   LastTarget st' = LastTarget st \<and> StableSamples st' = StableSamples st \<and> CapturedTarget st' = CapturedTarget st \<and>
   Attempts st' = Attempts st \<and> WPhase st' = WPhase st"
  by (auto simp: writeEvidence_def split: if_splits)

lemma countStable_state:
  assumes "LastTarget st = lastTarget ss" "StableSamples st = stableRun ss"
  shows "LastTarget (countStable s st) = TargetRevision s" "StableSamples (countStable s st) = stableRun (ss @ [s])"
    "CapturedTarget (countStable s st) = CapturedTarget st" "Attempts (countStable s st) = Attempts st"
  using assms by (auto simp: countStable_def stableRun_snoc)

lemma captureTarget_settled:
  assumes "CapturedTarget st \<noteq> 0 \<longrightarrow> settled n ss (CapturedTarget st)" "StableSamples st = stableRun (ss @ [s])" "0 < n"
    and "\<not> (0 < CapturedTarget (captureTarget n s st) \<and> TargetRevision s < CapturedTarget (captureTarget n s st))"
  shows "CapturedTarget (captureTarget n s st) \<noteq> 0 \<longrightarrow> settled n (ss @ [s]) (CapturedTarget (captureTarget n s st))"
  using assms stableRun_settled [of n "ss @ [s]"] settled_snoc [of n ss _ s]
  by (auto simp: captureTarget_def split: if_splits)

lemma captureTarget_state:
  "Attempts (captureTarget n s st) = Attempts st" "LastTarget (captureTarget n s st) = LastTarget st"
  "StableSamples (captureTarget n s st) = StableSamples st"
  "StableSamples st = stableRun (ss @ [s]) \<Longrightarrow> 0 < n \<Longrightarrow> CapturedTarget (captureTarget n s st) = 0 \<Longrightarrow> stableRun (ss @ [s]) < n"
  using stableRun_settled [of n "ss @ [s]"] by (auto simp: captureTarget_def settled_def split: if_splits)

section \<open>One status\<close>

text \<open>The state after the status has been counted, archived and, perhaps, captured.\<close>

lemma heard_state:
  assumes "tracked n ss st" "0 < n"
    and "writeEvidence X e (countStable s (st\<lparr>Attempts := Suc (Attempts st)\<rparr>)) = (ok, st2)"
  defines "st3 \<equiv> captureTarget n s st2"
  shows "Attempts st3 = Suc (length ss)" "LastTarget st3 = TargetRevision s" "StableSamples st3 = stableRun (ss @ [s])"
    "CapturedTarget st3 = 0 \<Longrightarrow> stableRun (ss @ [s]) < n"
    "\<not> (0 < CapturedTarget st3 \<and> TargetRevision s < CapturedTarget st3) \<Longrightarrow>
     CapturedTarget st3 \<noteq> 0 \<longrightarrow> settled n (ss @ [s]) (CapturedTarget st3)"
proof -
  note c = countStable_state [of "st\<lparr>Attempts := Suc (Attempts st)\<rparr>" ss s]
  note w = writeEvidence_state [OF assms(3)]
  have st2: "Attempts st2 = Suc (length ss)" "LastTarget st2 = TargetRevision s" "StableSamples st2 = stableRun (ss @ [s])"
    "CapturedTarget st2 = CapturedTarget st"
    using assms(1) c w by (simp_all add: tracked_def)
  then show "Attempts st3 = Suc (length ss)" "LastTarget st3 = TargetRevision s" "StableSamples st3 = stableRun (ss @ [s])"
    by (simp_all add: st3_def captureTarget_state(1-3))
  show "CapturedTarget st3 = 0 \<Longrightarrow> stableRun (ss @ [s]) < n"
    unfolding st3_def by (rule captureTarget_state(4) [OF st2(3) assms(2)])
  have "CapturedTarget st2 \<noteq> 0 \<longrightarrow> settled n ss (CapturedTarget st2)" using assms(1) st2(4) by (simp add: tracked_def)
  from captureTarget_settled [OF this st2(3) assms(2)]
  show "\<not> (0 < CapturedTarget st3 \<and> TargetRevision s < CapturedTarget st3) \<Longrightarrow>
     CapturedTarget st3 \<noteq> 0 \<longrightarrow> settled n (ss @ [s]) (CapturedTarget st3)"
    unfolding st3_def .
qed

lemma handleStatus_waits:
  assumes "tracked n ss st" "0 < n" "handleStatus X n s (st\<lparr>Attempts := Suc (Attempts st)\<rparr>) = (None, st')"
  shows "tracked n (ss @ [s]) st' \<and> \<not> indexReady X s (CapturedTarget st')"
proof -
  obtain e st2 where w: "writeEvidence X e (countStable s (st\<lparr>Attempts := Suc (Attempts st)\<rparr>)) = (True, st2)"
    "st' = captureTarget n s st2" "\<not> (0 < CapturedTarget st' \<and> TargetRevision s < CapturedTarget st')"
    "\<not> indexReady X s (CapturedTarget st')"
    using assms(3) unfolding handleStatus_def Let_def by (auto split: prod.splits bool.splits if_splits)
  from heard_state [OF assms(1,2) w(1), folded w(2)] w(3,4) show ?thesis by (simp add: tracked_def)
qed

lemma handleStatus_ready:
  assumes "tracked n ss st" "0 < n" "handleStatus X n s (st\<lparr>Attempts := Suc (Attempts st)\<rparr>) = (Some (Inr r), st')"
  shows "settled n (ss @ [s]) (ResTarget r) \<and> indexReady X s (ResTarget r) \<and> ResIndexed r = IndexedRevision s \<and>
    ResAttempts r = Suc (length ss)"
proof -
  obtain e st2 st3 e' where w: "writeEvidence X e (countStable s (st\<lparr>Attempts := Suc (Attempts st)\<rparr>)) = (True, st2)"
    "st3 = captureTarget n s st2" "\<not> (0 < CapturedTarget st3 \<and> TargetRevision s < CapturedTarget st3)"
    "indexReady X s (CapturedTarget st3)" "writeEvidence X e' st3 = (True, st')"
    "r = \<lparr>ResTarget = CapturedTarget st3, ResIndexed = IndexedRevision s, ResAttempts = Attempts st'\<rparr>"
    using assms(3) unfolding handleStatus_def Let_def by (auto split: prod.splits bool.splits if_splits)
  from w(4) have "CapturedTarget st3 \<noteq> 0" by (simp add: indexReady_def)
  with heard_state [OF assms(1,2) w(1), folded w(2)] w(3-6) writeEvidence_state [OF w(5)] show ?thesis by simp
qed

section \<open>The loop\<close>

lemma waitLoop_ready:
  assumes "waitLoop X n evs st = (Some (Inr r), st')" "tracked n ss st" "0 < n"
  shows "\<exists>used rest ts s. evs = used @ rest \<and> ss @ heard used = ts @ [s] \<and> settled n (ts @ [s]) (ResTarget r) \<and>
    indexReady X s (ResTarget r) \<and> ResIndexed r = IndexedRevision s \<and> ResAttempts r = length (ts @ [s])"
  using assms(1,2)
proof (induction evs arbitrary: ss st)
  case (Cons ev evs)
  show ?case
  proof (cases ev)
    case NilUpdate
    with Cons.prems have "waitLoop X n evs st = (Some (Inr r), st')" by simp
    from Cons.IH [OF this Cons.prems(2)] obtain used rest ts s where "evs = used @ rest" "ss @ heard used = ts @ [s]"
      "settled n (ts @ [s]) (ResTarget r)" "indexReady X s (ResTarget r)" "ResIndexed r = IndexedRevision s"
      "ResAttempts r = length (ts @ [s])" by blast
    then show ?thesis by (intro exI [of _ "ev # used"] exI [of _ rest] exI [of _ ts] exI [of _ s]) (simp add: NilUpdate)
  next
    case (StatusUpdate s)
    note up = this
    obtain res st1 where h: "handleStatus X n s (st\<lparr>Attempts := Suc (Attempts st)\<rparr>) = (res, st1)" by fastforce
    show ?thesis
    proof (cases res)
      case (Some a)
      with Cons.prems(1) h up have "handleStatus X n s (st\<lparr>Attempts := Suc (Attempts st)\<rparr>) = (Some (Inr r), st1)" by simp
      from handleStatus_ready [OF Cons.prems(2) assms(3) this] show ?thesis
        by (intro exI [of _ "[ev]"] exI [of _ evs] exI [of _ ss] exI [of _ s]) (simp add: up)
    next
      case None
      with Cons.prems(1) h up have l: "waitLoop X n evs st1 = (Some (Inr r), st')" by simp
      have "tracked n (ss @ [s]) st1" using handleStatus_waits [OF Cons.prems(2) assms(3)] h None by simp
      from Cons.IH [OF l this] obtain used rest ts t where "evs = used @ rest" "(ss @ [s]) @ heard used = ts @ [t]"
        "settled n (ts @ [t]) (ResTarget r)" "indexReady X t (ResTarget r)" "ResIndexed r = IndexedRevision t"
        "ResAttempts r = length (ts @ [t])" by blast
      then show ?thesis by (intro exI [of _ "ev # used"] exI [of _ rest] exI [of _ ts] exI [of _ t]) (simp add: up)
    qed
  qed (use Cons.prems in \<open>simp_all add: failWith_def\<close>)
qed simp

text \<open>Claim C13: When the wait for the index succeeds, the index has really caught up with a settled graph: the target it
  reports was the target of as many consecutive updates as asked for, no later update had a smaller one,
  and in the last update the index is bootstrapped, ready, past the framework's gate, and has indexed this
  target and the target of the update itself.\<close>

theorem readiness_sound:
  assumes "waitForReadiness X n (Inr evs) = (Some (Inr r), st)"
  shows "2 \<le> n \<and> (\<exists>used rest ts s. evs = used @ rest \<and> heard used = ts @ [s] \<and>
    settled (nat n) (ts @ [s]) (ResTarget r) \<and>
    BootstrapComplete s \<and> StReady s \<and> Gate X s \<and> ResTarget r \<le> TargetRevision s \<and> TargetRevision s \<le> IndexedRevision s \<and>
    ResIndexed r = IndexedRevision s \<and> ResAttempts r = length (heard used))"
proof -
  have n: "2 \<le> n" and l: "waitLoop X (nat n) evs startWaiting = (Some (Inr r), st)"
    using assms by (simp_all add: waitForReadiness_def split: if_splits)
  from waitLoop_ready [OF l tracked_start] n obtain used rest ts s where "evs = used @ rest" "heard used = ts @ [s]"
    "settled (nat n) (ts @ [s]) (ResTarget r)" "indexReady X s (ResTarget r)" "ResIndexed r = IndexedRevision s"
    "ResAttempts r = length (ts @ [s])" by auto
  with n show ?thesis unfolding indexReady_def by (intro conjI exI) auto
qed

section \<open>The wait ends\<close>

text \<open>Events without a failure: nil markers and statuses that ask for no reset.\<close>

definition calm :: "readiness_env \<Rightarrow> watch_event list \<Rightarrow> bool" where
  "calm X evs \<longleftrightarrow>
     list_all (\<lambda>ev. case ev of
         NilUpdate \<Rightarrow> True
       | StatusUpdate s \<Rightarrow> StCode s \<noteq> ResetCode X \<and> StState s \<noteq> ResetState X
       | _ \<Rightarrow> False) evs"

definition monotone_targets :: "index_status list \<Rightarrow> bool" where
  "monotone_targets ss \<longleftrightarrow> sorted (map TargetRevision ss)"

lemma settled_le:
  assumes "settled n ss T" "0 < n" "monotone_targets (ss @ [s])"
  shows "T \<le> TargetRevision s"
proof -
  from assms(1) obtain pre block post where "ss = pre @ block @ post" "length block = n" "list_all (\<lambda>s. TargetRevision s = T) block"
    unfolding settled_def by blast
  with assms(2) obtain t where "t \<in> set ss" "TargetRevision t = T" by (cases block) auto
  with assms(3) show ?thesis by (auto simp: monotone_targets_def sorted_append)
qed

lemma handleStatus_calm:
  assumes "tracked n ss st" "0 < n" "monotone_targets (ss @ [s])" "StCode s \<noteq> ResetCode X" "StState s \<noteq> ResetState X"
    and "\<And>log e. Accepts X log e" "handleStatus X n s (st\<lparr>Attempts := Suc (Attempts st)\<rparr>) = (res, st')"
  shows "res = None \<or> (\<exists>r. res = Some (Inr r))"
proof -
  have taken: "writeEvidence X e st \<noteq> (False, st')" for e st st'
    using assms(6) by (auto simp: writeEvidence_def)
  consider "res = None" | r where "res = Some (Inr r)"
    | e st2 where "writeEvidence X e (countStable s (st\<lparr>Attempts := Suc (Attempts st)\<rparr>)) = (True, st2)"
        "0 < CapturedTarget (captureTarget n s st2)" "TargetRevision s < CapturedTarget (captureTarget n s st2)"
    using assms(4,5,7) taken unfolding handleStatus_def Let_def by (auto split: prod.splits bool.splits if_splits)
  then show ?thesis
  proof cases
    case 3
    from writeEvidence_state [OF 3(1)] have "CapturedTarget st2 = CapturedTarget st" by (simp add: countStable_def)
    with 3(2,3) have "CapturedTarget st \<noteq> 0" "TargetRevision s < CapturedTarget st"
      by (auto simp: captureTarget_def split: if_splits)
    with assms(1) settled_le [OF _ assms(2,3), of "CapturedTarget st"] show ?thesis by (simp add: tracked_def)
  qed simp_all
qed

lemma waitLoop_calm:
  assumes "calm X evs" "monotone_targets (ss @ heard evs)" "tracked n ss st" "0 < n" "\<And>log e. Accepts X log e"
    and "waitLoop X n evs st = (res, st')"
  shows "(\<exists>r. res = Some (Inr r)) \<or> res = None \<and> tracked n (ss @ heard evs) st'"
  using assms(1-3,6)
proof (induction evs arbitrary: ss st)
  case (Cons ev evs)
  have calm: "calm X evs" using Cons.prems(1) by (simp add: calm_def)
  show ?case
  proof (cases ev)
    case NilUpdate
    with Cons.IH [OF calm] Cons.prems show ?thesis by simp
  next
    case (StatusUpdate s)
    obtain a st1 where h: "handleStatus X n s (st\<lparr>Attempts := Suc (Attempts st)\<rparr>) = (a, st1)" by fastforce
    have mono: "monotone_targets (ss @ [s])" using Cons.prems(2) by (simp add: StatusUpdate monotone_targets_def sorted_append)
    from Cons.prems(1) have "StCode s \<noteq> ResetCode X" "StState s \<noteq> ResetState X" by (simp_all add: calm_def StatusUpdate)
    from handleStatus_calm [OF Cons.prems(3) assms(4) mono this assms(5) h] show ?thesis
    proof
      assume "a = None"
      with h have "tracked n (ss @ [s]) st1" using handleStatus_waits [OF Cons.prems(3) assms(4)] by blast
      from Cons.IH [OF calm _ this] Cons.prems(2,4) h \<open>a = None\<close> show ?thesis by (simp add: StatusUpdate)
    qed (use Cons.prems(4) h in \<open>auto simp: StatusUpdate\<close>)
  qed (use Cons.prems(1) in \<open>simp_all add: calm_def\<close>)
qed simp

lemma waitLoop_append:
  "waitLoop X n (evs @ evs') st =
     (case waitLoop X n evs st of (None, st') \<Rightarrow> waitLoop X n evs' st' | (Some res, st') \<Rightarrow> (Some res, st'))"
  by (induction X n evs st rule: waitLoop.induct) (auto simp: failWith_def apfst_def map_prod_def split: prod.splits option.splits)

lemma stableRun_block:
  assumes "0 < n" "length block = n" "list_all (\<lambda>s. TargetRevision s = T) block" "0 < T"
  shows "lastTarget (pre @ block) = T \<and> n \<le> stableRun (pre @ block)"
proof -
  from assms(1,2) have "block \<noteq> []" by auto
  with assms(3) have last: "lastTarget (pre @ block) = T" by (simp add: lastTarget_def list_all_iff)
  have "takeWhile (\<lambda>s. TargetRevision s = T) (rev block @ rev pre) = rev block @ takeWhile (\<lambda>s. TargetRevision s = T) (rev pre)"
    using assms(3) by (intro takeWhile_append2) (simp add: list_all_iff)
  with last assms(2,4) show ?thesis by (simp add: stableRun_def)
qed

text \<open>Claim C14: The wait for the index ends: over a watch that does not fail and asks for no reset, whose targets do not
  go down, and with an evidence file that takes every line, a run of enough updates with one target ends the
  wait with success, at its last update at the latest, when in this update the index is bootstrapped, ready,
  past the gate and has indexed the target.\<close>

theorem readiness_returns:
  assumes "2 \<le> n" "calm X (evs @ [StatusUpdate s])" "\<And>log e. Accepts X log e" "monotone_targets (heard evs @ [s])"
    and "heard evs @ [s] = pre @ block" "length block = nat n" "list_all (\<lambda>s. TargetRevision s = T) block"
    and "0 < T" "indexReady X s T"
  shows "\<exists>r st. waitForReadiness X n (Inr (evs @ [StatusUpdate s])) = (Some (Inr r), st)"
proof -
  let ?n = "nat n"
  have n: "0 < ?n" using assms(1) by simp
  obtain res st where l: "waitLoop X ?n (evs @ [StatusUpdate s]) startWaiting = (res, st)" by fastforce
  have "monotone_targets ([] @ heard (evs @ [StatusUpdate s]))" using assms(4) by simp
  from waitLoop_calm [OF assms(2) this tracked_start [OF n] n assms(3) l]
  have "\<exists>r. res = Some (Inr r)"
  proof
    assume none: "res = None \<and> tracked ?n ([] @ heard (evs @ [StatusUpdate s])) st"
    then have tr: "tracked ?n (heard evs @ [s]) st" by simp
    note run = stableRun_block [OF n assms(6,7,8), of pre, folded assms(5)]
    obtain st1 where e: "waitLoop X ?n evs startWaiting = (None, st1)"
      using l none by (auto simp: waitLoop_append split: prod.splits option.splits)
    have "monotone_targets ([] @ heard evs)" using assms(4) by (simp add: monotone_targets_def sorted_append)
    with waitLoop_calm [OF _ this tracked_start [OF n] n assms(3) e] assms(2) have "tracked ?n (heard evs) st1"
      by (simp add: calm_def)
    moreover have "handleStatus X ?n s (st1\<lparr>Attempts := Suc (Attempts st1)\<rparr>) = (None, st)"
      using l none e by (auto simp: waitLoop_append split: prod.splits option.splits)
    ultimately have waits: "\<not> indexReady X s (CapturedTarget st)" using handleStatus_waits n by blast
    have "CapturedTarget st \<noteq> 0" using tr run by (auto simp: tracked_def)
    moreover have "CapturedTarget st \<le> TargetRevision s"
    proof -
      have "settled ?n (heard evs @ [s]) (CapturedTarget st)" using tr \<open>CapturedTarget st \<noteq> 0\<close> by (simp add: tracked_def)
      moreover have "monotone_targets ((heard evs @ [s]) @ [s])" using assms(4) by (simp add: monotone_targets_def sorted_append)
      ultimately show ?thesis using settled_le n by blast
    qed
    moreover have "TargetRevision s = T" using run by simp
    ultimately have "indexReady X s (CapturedTarget st)" using assms(9) by (simp add: indexReady_def)
    with waits show ?thesis ..
  qed
  with l assms(1) show ?thesis by (auto simp: waitForReadiness_def)
qed

section \<open>A concrete watch\<close>

definition sampleReadiness :: readiness_env where
  "sampleReadiness =
     \<lparr>Gate = StReady, ResetCode = ''graph_state_reset_required'', ResetState = ''reset_required'', Accepts = (\<lambda>log e. True)\<rparr>"

definition statusAt :: "nat \<Rightarrow> index_status" where
  "statusAt indexed =
     \<lparr>StReady = True, StState = ''live'', StCode = [], StReason = [], IndexedRevision = indexed, TargetRevision = 7,
      Lag = 7 - indexed, BootstrapComplete = True\<rparr>"

definition sampleWatch :: "watch_event list" where
  "sampleWatch = [StatusUpdate (statusAt 5), NilUpdate, StatusUpdate (statusAt 6), StatusUpdate (statusAt 7)]"

definition waitRun :: "(string + readinessResult) option \<times> wait_state" where
  "waitRun = waitForReadiness sampleReadiness 2 (Inr sampleWatch)"

lemma wait_run: "waitForReadiness sampleReadiness 2 (Inr sampleWatch) =
    (Some (Inr \<lparr>ResTarget = 7, ResIndexed = 7, ResAttempts = 3\<rparr>), snd waitRun)"
proof -
  have "fst waitRun = Some (Inr \<lparr>ResTarget = 7, ResIndexed = 7, ResAttempts = 3\<rparr>)" by code_simp
  then show ?thesis by (metis waitRun_def prod.collapse)
qed

theorem readiness_sound_witness:
  "\<exists>used rest ts s. sampleWatch = used @ rest \<and> heard used = ts @ [s] \<and> settled 2 (ts @ [s]) 7 \<and> IndexedRevision s = 7"
proof -
  from readiness_sound [OF wait_run] obtain used rest ts s where
    "sampleWatch = used @ rest" "heard used = ts @ [s]" "settled 2 (ts @ [s]) 7" "7 = IndexedRevision s" by auto
  then show ?thesis by (intro exI conjI) simp_all
qed

theorem readiness_returns_witness: "\<exists>r st. waitForReadiness sampleReadiness 2 (Inr sampleWatch) = (Some (Inr r), st)"
proof -
  let ?evs = "[StatusUpdate (statusAt 5), NilUpdate, StatusUpdate (statusAt 6)]"
  have "\<exists>r st. waitForReadiness sampleReadiness 2 (Inr (?evs @ [StatusUpdate (statusAt 7)])) = (Some (Inr r), st)"
    by (rule readiness_returns [where pre = "[statusAt 5]" and block = "[statusAt 6, statusAt 7]" and T = 7])
      (simp_all add: calm_def sampleReadiness_def statusAt_def monotone_targets_def indexReady_def)
  then show ?thesis by (simp add: sampleWatch_def)
qed

end
