(* ===== verification/RetainedScan.thy ===== *)
theory RetainedScan
  imports Observations
begin

text \<open>
  \<open>retained-scan/main.go\<close>: the scan of every retained record of the entity store, from the parsed flags
  to the exit. What the NATS client, the file system and the clock answer, the framework's decoder of entity
  states and the rendering of a value are parameters; every error of theirs ends the program.
\<close>

section \<open>Data\<close>

record retained =
  RtSequence :: nat
  RtSubject :: string
  RtOperation :: string
  RtTime :: string
  RtData :: string

datatype get_result = MsgNotFound | GetFailed string | Retained retained

text \<open>The state of the stream, and the status of the bucket.\<close>

record stream_info =
  InfoStream :: string
  InfoSubjects :: "string list"
  InfoMsgs :: nat
  InfoBytes :: nat
  FirstSeq :: nat
  LastSeq :: nat
  InfoNumSubjects :: nat
  InfoNumDeleted :: nat

record bucket_status =
  StatusBucket :: string
  StatusHistory :: int
  StatusBacking :: string

record scan_env =
  ScanConnect :: "string option"
  ScanJetStream :: "string option"
  ScanStream :: "string option"
  ScanInfo :: "string + stream_info"
  ScanBucket :: "string option"
  ScanStatus :: "string + bucket_status"
  ScanKeys :: "string + string list"
  ScanGet :: "string \<Rightarrow> string + nat"
  GetMsg :: "nat \<Rightarrow> get_result"
  ScanWrite :: "string \<Rightarrow> string option"
  CapturedNow :: string
  ServerID :: string
  DecodeState :: "string \<Rightarrow> string + string \<times> triple list"
  ShaHex :: "string \<Rightarrow> string"
  Sprint :: "obj \<Rightarrow> string"
  IsPrint :: "string \<Rightarrow> bool"
  BucketName :: string

record scan_record =
  RecSequence :: nat
  RecSubject :: string
  RecKey :: string
  RecOperation :: string
  RecTimestamp :: string
  RecBytes :: nat
  RecSHA256 :: string
  RecEntityID :: string
  RecTripleCount :: nat
  RecValid :: bool
  RecViolation :: string

record foreignEdge =
  EdgeSequence :: nat
  EdgeCurrent :: bool
  EdgeSourceKey :: string
  EdgeSubject :: string
  EdgePredicate :: string
  EdgeObject :: string

record report =
  FormatVersion :: string
  Validator :: string
  CapturedAt :: string
  NATSServerID :: string
  Bucket :: string
  ReportStream :: string
  ReportSubjects :: "string list"
  History :: int
  BackingStore :: string
  StreamMessages :: nat
  StreamBytes :: nat
  FirstSequence :: nat
  LastSequence :: nat
  StreamSubjectsCount :: nat
  DeletedSequenceGaps :: nat
  CurrentKeyCount :: nat
  RetainedRecordsFound :: nat
  RetainedRecordsScanned :: nat
  TombstoneRecords :: nat
  ViolationCount :: nat
  MissingSequenceCount :: nat
  CoverageComplete :: bool
  ZeroPoison :: bool
  CurrentKeys :: "string list"
  Records :: "scan_record list"
  HostedByForeignEdges :: "foreignEdge list"

definition streamName :: "scan_env \<Rightarrow> string" where
  "streamName X = ''KV_'' @ BucketName X"

definition newReport :: "scan_env \<Rightarrow> stream_info \<Rightarrow> bucket_status \<Rightarrow> string list \<Rightarrow> report" where
  "newReport X info status keys =
     \<lparr>FormatVersion = ''1.0.0'', Validator = ''graph.UnmarshalEntityState (beta.151 authoritative decoder)'',
      CapturedAt = CapturedNow X, NATSServerID = ServerID X, Bucket = StatusBucket status,
      ReportStream = InfoStream info, ReportSubjects = InfoSubjects info, History = StatusHistory status,
      BackingStore = StatusBacking status, StreamMessages = InfoMsgs info, StreamBytes = InfoBytes info,
      FirstSequence = FirstSeq info, LastSequence = LastSeq info, StreamSubjectsCount = InfoNumSubjects info,
      DeletedSequenceGaps = InfoNumDeleted info, CurrentKeyCount = length keys, RetainedRecordsFound = 0,
      RetainedRecordsScanned = 0, TombstoneRecords = 0, ViolationCount = 0, MissingSequenceCount = 0,
      CoverageComplete = False, ZeroPoison = False, CurrentKeys = keys, Records = [], HostedByForeignEdges = []\<rparr>"

section \<open>Quoting\<close>

text \<open>\<open>strconv.Quote\<close>, the verb \<open>%q\<close>: printable runes as they are, the rest escaped, a byte that is not
  UTF-8 as its value. Whether a rune beyond ASCII is printable is the parameter \<open>IsPrint\<close>.\<close>

fun hex_digits :: "nat \<Rightarrow> nat \<Rightarrow> string" where
  "hex_digits 0 n = []"
| "hex_digits (Suc w) n = hex_digits w (n div 16) @ [''0123456789abcdef'' ! (n mod 16)]"

definition rune_value :: "string \<Rightarrow> nat" where
  "rune_value t =
     (case map (\<lambda>c. of_char c :: nat) t of
        [a] \<Rightarrow> a
      | [a, b] \<Rightarrow> (a - 0xC0) * 64 + (b - 0x80)
      | [a, b, c] \<Rightarrow> ((a - 0xE0) * 64 + (b - 0x80)) * 64 + (c - 0x80)
      | [a, b, c, d] \<Rightarrow> (((a - 0xF0) * 64 + (b - 0x80)) * 64 + (c - 0x80)) * 64 + (d - 0x80)
      | _ \<Rightarrow> 0)"

definition asciiEscapes :: "(nat \<times> char) list" where
  "asciiEscapes =
     [(7, CHR ''a''), (8, CHR ''b''), (12, CHR ''f''), (10, CHR ''n''), (13, CHR ''r''), (9, CHR ''t''), (11, CHR ''v'')]"

definition quoteRune :: "scan_env \<Rightarrow> string \<Rightarrow> string" where
  "quoteRune X t =
     (let n = rune_value t in
      if t = [CHR 0x22] \<or> t = [CHR 0x5C] then CHR 0x5C # t
      else if (if n < 0x80 then 0x20 \<le> n \<and> n < 0x7F else IsPrint X t) then t
      else case map_of asciiEscapes n of
             Some c \<Rightarrow> [CHR 0x5C, c]
           | None \<Rightarrow>
               if n < 0x80 then [CHR 0x5C, CHR ''x''] @ hex_digits 2 n
               else if n < 0x10000 then [CHR 0x5C, CHR ''u''] @ hex_digits 4 n
               else [CHR 0x5C, CHR ''U''] @ hex_digits 8 n)"

function quoteRunes :: "scan_env \<Rightarrow> string \<Rightarrow> string" where
  "quoteRunes X s =
     (if s = [] then []
      else if utf8_len s = 0
      then [CHR 0x5C, CHR ''x''] @ hex_digits 2 (of_char (hd s)) @ quoteRunes X (drop 1 s)
      else quoteRune X (take (utf8_len s) s) @ quoteRunes X (drop (utf8_len s) s))"
  by pat_completeness auto
termination by (relation "measure (\<lambda>(X, s). length s)") auto

declare quoteRunes.simps [simp del]

definition quoted :: "scan_env \<Rightarrow> string \<Rightarrow> string" where
  "quoted X s = [CHR 0x22] @ quoteRunes X s @ [CHR 0x22]"

section \<open>Opening the store\<close>

definition called :: "string \<Rightarrow> string option \<Rightarrow> string + unit" where
  "called what e = (case e of None \<Rightarrow> Inr () | Some e \<Rightarrow> Inl (what @ '': '' @ e))"

definition answered :: "string \<Rightarrow> string + 'a \<Rightarrow> string + 'a" where
  "answered what r = (case r of Inl e \<Rightarrow> Inl (what @ '': '' @ e) | Inr x \<Rightarrow> Inr x)"

fun currentRevisions :: "scan_env \<Rightarrow> string list \<Rightarrow> (string \<rightharpoonup> nat) \<Rightarrow> string + (string \<rightharpoonup> nat)" where
  "currentRevisions X [] revs = Inr revs"
| "currentRevisions X (key # keys) revs =
     sbind (answered (''read current key '' @ key) (ScanGet X key))
       (\<lambda>n. currentRevisions X keys (revs(key \<mapsto> n)))"

definition openStore ::
  "scan_env \<Rightarrow> string + stream_info \<times> bucket_status \<times> string list \<times> (string \<rightharpoonup> nat)"
where
  "openStore X =
     sbind (called ''connect NATS'' (ScanConnect X)) (\<lambda>_.
     sbind (called ''create JetStream'' (ScanJetStream X)) (\<lambda>_.
     sbind (called (''open stream '' @ streamName X) (ScanStream X)) (\<lambda>_.
     sbind (answered ''stream info'' (ScanInfo X)) (\<lambda>info.
     sbind (called (''open bucket '' @ BucketName X) (ScanBucket X)) (\<lambda>_.
     sbind (answered ''bucket status'' (ScanStatus X)) (\<lambda>status.
     sbind (answered ''list current keys'' (ScanKeys X)) (\<lambda>keys.
     sbind (currentRevisions X (sort keys) Map.empty) (\<lambda>revs.
       Inr (info, status, sort keys, revs)))))))))"

section \<open>The scan\<close>

definition keyPrefix :: "scan_env \<Rightarrow> string" where
  "keyPrefix X = ''$KV.'' @ BucketName X @ ''.''"

definition trimPrefix :: "string \<Rightarrow> string \<Rightarrow> string" where
  "trimPrefix pre s = (case strip_prefix pre s of None \<Rightarrow> s | Some t \<Rightarrow> t)"

definition recordKey :: "scan_env \<Rightarrow> retained \<Rightarrow> string" where
  "recordKey X msg = trimPrefix (keyPrefix X) (RtSubject msg)"

text \<open>No header means a put.\<close>

definition operation :: "retained \<Rightarrow> string" where
  "operation msg = (if RtOperation msg = [] then ''PUT'' else RtOperation msg)"

definition newRecord :: "scan_env \<Rightarrow> retained \<Rightarrow> scan_record" where
  "newRecord X msg =
     \<lparr>RecSequence = RtSequence msg, RecSubject = RtSubject msg, RecKey = recordKey X msg, RecOperation = operation msg,
      RecTimestamp = RtTime msg, RecBytes = length (RtData msg), RecSHA256 = ShaHex X (RtData msg), RecEntityID = [],
      RecTripleCount = 0, RecValid = False, RecViolation = []\<rparr>"

text \<open>A key that is not current has the revision 0 of Go's map.\<close>

definition foreignEdges :: "scan_env \<Rightarrow> (string \<rightharpoonup> nat) \<Rightarrow> retained \<Rightarrow> triple list \<Rightarrow> foreignEdge list" where
  "foreignEdges X revs msg ts =
     map (\<lambda>t. \<lparr>EdgeSequence = RtSequence msg,
           EdgeCurrent = ((case revs (recordKey X msg) of None \<Rightarrow> 0 | Some n \<Rightarrow> n) = RtSequence msg),
           EdgeSourceKey = recordKey X msg, EdgeSubject = Subject t, EdgePredicate = Predicate t,
           EdgeObject = Sprint X (Object t)\<rparr>)
       (filter (\<lambda>t. Predicate t = ''sensorml.component.is-hosted-by'') ts)"

definition keyViolation :: "scan_env \<Rightarrow> string \<Rightarrow> string \<Rightarrow> string" where
  "keyViolation X key i = ''KV key '' @ quoted X key @ '' does not equal entity ID '' @ quoted X i"

definition scanMessage :: "scan_env \<Rightarrow> (string \<rightharpoonup> nat) \<Rightarrow> retained \<Rightarrow> report \<Rightarrow> report" where
  "scanMessage X revs msg rep =
     (let rec = newRecord X msg; r1 = rep\<lparr>RetainedRecordsFound := Suc (RetainedRecordsFound rep)\<rparr> in
      if operation msg \<noteq> ''PUT''
      then r1\<lparr>TombstoneRecords := Suc (TombstoneRecords r1), Records := Records r1 @ [rec\<lparr>RecValid := True\<rparr>]\<rparr>
      else let r2 = r1\<lparr>RetainedRecordsScanned := Suc (RetainedRecordsScanned r1)\<rparr> in
        case DecodeState X (RtData msg) of
          Inl e \<Rightarrow>
            r2\<lparr>ViolationCount := Suc (ViolationCount r2), Records := Records r2 @ [rec\<lparr>RecViolation := e\<rparr>]\<rparr>
        | Inr (i, ts) \<Rightarrow>
            if i \<noteq> recordKey X msg
            then r2\<lparr>ViolationCount := Suc (ViolationCount r2),
                    Records := Records r2 @ [rec\<lparr>RecViolation := keyViolation X (recordKey X msg) i\<rparr>]\<rparr>
            else r2\<lparr>HostedByForeignEdges := HostedByForeignEdges r2 @ foreignEdges X revs msg ts,
                    Records := Records r2 @ [rec\<lparr>RecValid := True, RecEntityID := i, RecTripleCount := length ts\<rparr>]\<rparr>)"

text \<open>The loop over the sequences; a read that fails for another reason than absence ends the program
  without a report.\<close>

fun scanSequences :: "scan_env \<Rightarrow> (string \<rightharpoonup> nat) \<Rightarrow> nat list \<Rightarrow> report \<Rightarrow> string + report" where
  "scanSequences X revs [] rep = Inr rep"
| "scanSequences X revs (q # qs) rep =
     (case GetMsg X q of
        MsgNotFound \<Rightarrow> scanSequences X revs qs (rep\<lparr>MissingSequenceCount := Suc (MissingSequenceCount rep)\<rparr>)
      | GetFailed e \<Rightarrow> Inl (''read retained sequence '' @ format_int (int q) @ '': '' @ e)
      | Retained msg \<Rightarrow> scanSequences X revs qs (scanMessage X revs msg rep))"

definition sequences :: "stream_info \<Rightarrow> nat list" where
  "sequences info = [FirstSeq info..<Suc (LastSeq info)]"

definition coverageComplete :: "report \<Rightarrow> bool" where
  "coverageComplete rep \<longleftrightarrow>
     RetainedRecordsFound rep = StreamMessages rep \<and>
     RetainedRecordsScanned rep + TombstoneRecords rep = RetainedRecordsFound rep"

definition zeroPoison :: "report \<Rightarrow> bool" where
  "zeroPoison rep \<longleftrightarrow> ViolationCount rep = 0"

section \<open>The program\<close>

text \<open>What the program writes to its output path, if anything, and how it ends: with the text on the
  error output and exit code 1, or with the line on the standard output.\<close>

definition failedText :: "report \<Rightarrow> string" where
  "failedText rep =
     ''retained scan failed: coverage='' @ (if CoverageComplete rep then ''true'' else ''false'') @
     '' poison='' @ format_int (int (ViolationCount rep)) @ '' bucket='' @ Bucket rep @ '' stream='' @ ReportStream rep"

definition passedText :: "report \<Rightarrow> string" where
  "passedText rep =
     ''retained scan passed: stream='' @ ReportStream rep @ '' bucket='' @ Bucket rep @
     '' records='' @ format_int (int (RetainedRecordsFound rep)) @
     '' scanned='' @ format_int (int (RetainedRecordsScanned rep)) @
     '' tombstones='' @ format_int (int (TombstoneRecords rep)) @
     '' current_keys='' @ format_int (int (CurrentKeyCount rep)) @
     '' last_revision='' @ format_int (int (LastSequence rep)) @
     '' violations='' @ format_int (int (ViolationCount rep))"

definition writeReport :: "scan_env \<Rightarrow> string \<Rightarrow> report \<Rightarrow> string + string \<Rightarrow> report option \<times> (string + string)" where
  "writeReport X output rep verdict =
     (case ScanWrite X output of
        Some e \<Rightarrow> (None, Inl (''write report: '' @ e))
      | None \<Rightarrow> (Some rep, verdict))"

definition retainedScan :: "scan_env \<Rightarrow> string \<Rightarrow> report option \<times> (string + string)" where
  "retainedScan X output =
     (if output = [] then (None, Inl ''-output is required'')
      else case openStore X of
        Inl e \<Rightarrow> (None, Inl e)
      | Inr (info, status, keys, revs) \<Rightarrow>
          (case scanSequences X revs (sequences info) (newReport X info status keys) of
             Inl e \<Rightarrow> (None, Inl e)
           | Inr r \<Rightarrow>
               let rep = r\<lparr>CoverageComplete := coverageComplete r, ZeroPoison := zeroPoison r\<rparr> in
               if \<not> CoverageComplete rep \<or> \<not> ZeroPoison rep \<or> Bucket rep \<noteq> BucketName X \<or>
                  ReportStream rep \<noteq> streamName X
               then writeReport X output rep (Inl (failedText rep))
               else writeReport X output rep (Inr (passedText rep))))"

section \<open>What the scan says\<close>

definition retainedAt :: "scan_env \<Rightarrow> nat list \<Rightarrow> retained list" where
  "retainedAt X qs = concat (map (\<lambda>q. case GetMsg X q of Retained msg \<Rightarrow> [msg] | _ \<Rightarrow> []) qs)"

definition readable :: "scan_env \<Rightarrow> nat \<Rightarrow> bool" where
  "readable X q \<longleftrightarrow> (case GetMsg X q of GetFailed e \<Rightarrow> False | _ \<Rightarrow> True)"

text \<open>A record the store may hold: a tombstone, or a state of the entity its key names.\<close>

definition soundRecord :: "scan_env \<Rightarrow> retained \<Rightarrow> bool" where
  "soundRecord X msg \<longleftrightarrow>
     operation msg \<noteq> ''PUT'' \<or> (\<exists>ts. DecodeState X (RtData msg) = Inr (recordKey X msg, ts))"

text \<open>The store opens: every call up to the reads of the current keys succeeds. A listing of no keys at all is
  an error of the client, not an empty list.\<close>

definition opens :: "scan_env \<Rightarrow> stream_info \<Rightarrow> bucket_status \<Rightarrow> string list \<Rightarrow> bool" where
  "opens X info status keys \<longleftrightarrow>
     ScanConnect X = None \<and> ScanJetStream X = None \<and> ScanStream X = None \<and> ScanBucket X = None \<and>
     ScanInfo X = Inr info \<and> ScanStatus X = Inr status \<and> ScanKeys X = Inr keys \<and>
     list_all (\<lambda>key. \<not> isl (ScanGet X key)) keys"

lemma sbind_Inr: "sbind r f = Inr y \<longleftrightarrow> (\<exists>x. r = Inr x \<and> f x = Inr y)"
  by (cases r) auto

lemma called_Inr: "called what e = Inr u \<longleftrightarrow> e = None"
  by (simp add: called_def split: option.split)

lemma answered_Inr: "answered what r = Inr x \<longleftrightarrow> r = Inr x"
  by (cases r) (simp_all add: answered_def)

lemma currentRevisions_ok:
  "(\<exists>revs'. currentRevisions X keys revs = Inr revs') \<longleftrightarrow> list_all (\<lambda>key. \<not> isl (ScanGet X key)) keys"
proof (induction keys arbitrary: revs)
  case (Cons key keys)
  then show ?case by (cases "ScanGet X key") (simp_all add: answered_def)
qed simp

lemma openStore_ok:
  "openStore X = Inr (info, status, keys', revs) \<longleftrightarrow>
     (\<exists>keys. opens X info status keys \<and> keys' = sort keys \<and> currentRevisions X keys' Map.empty = Inr revs)"
proof -
  have "list_all P (sort ks) = list_all P ks" for P and ks :: "string list" by (simp add: list_all_iff)
  then have "currentRevisions X (sort ks) Map.empty = Inr revs \<Longrightarrow> list_all (\<lambda>key. \<not> isl (ScanGet X key)) ks" for ks
    using currentRevisions_ok [of X "sort ks" Map.empty] by auto
  then show ?thesis
    by (auto simp: openStore_def opens_def sbind_Inr called_Inr answered_Inr)
qed

lemma scanMessage_counts:
  "RetainedRecordsFound (scanMessage X revs msg rep) = Suc (RetainedRecordsFound rep)"
  "RetainedRecordsScanned (scanMessage X revs msg rep) + TombstoneRecords (scanMessage X revs msg rep) =
     Suc (RetainedRecordsScanned rep + TombstoneRecords rep)"
  "ViolationCount (scanMessage X revs msg rep) = (if soundRecord X msg then 0 else 1) + ViolationCount rep"
  "StreamMessages (scanMessage X revs msg rep) = StreamMessages rep" "Bucket (scanMessage X revs msg rep) = Bucket rep"
  "ReportStream (scanMessage X revs msg rep) = ReportStream rep"
  by (auto simp: scanMessage_def Let_def soundRecord_def split: sum.split prod.split)

lemma scanSequences_counts:
  assumes "scanSequences X revs qs rep = Inr rep'"
  shows "RetainedRecordsFound rep' = RetainedRecordsFound rep + length (retainedAt X qs) \<and>
    RetainedRecordsScanned rep' + TombstoneRecords rep' = RetainedRecordsScanned rep + TombstoneRecords rep + length (retainedAt X qs) \<and>
    ViolationCount rep' = ViolationCount rep + length (filter (\<lambda>msg. \<not> soundRecord X msg) (retainedAt X qs)) \<and>
    StreamMessages rep' = StreamMessages rep \<and> Bucket rep' = Bucket rep \<and> ReportStream rep' = ReportStream rep"
  using assms
proof (induction qs arbitrary: rep)
  case (Cons q qs)
  show ?case
  proof (cases "GetMsg X q")
    case MsgNotFound
    with Cons.prems have "scanSequences X revs qs (rep\<lparr>MissingSequenceCount := Suc (MissingSequenceCount rep)\<rparr>) = Inr rep'" by simp
    from Cons.IH [OF this] show ?thesis by (simp add: retainedAt_def MsgNotFound)
  next
    case (Retained msg)
    with Cons.prems have "scanSequences X revs qs (scanMessage X revs msg rep) = Inr rep'" by simp
    from Cons.IH [OF this] show ?thesis by (simp add: retainedAt_def Retained scanMessage_counts)
  qed (use Cons.prems in simp)
qed (simp add: retainedAt_def)

lemma scanSequences_ok:
  "(\<exists>rep'. scanSequences X revs qs rep = Inr rep') \<longleftrightarrow> list_all (readable X) qs"
  by (induction qs arbitrary: rep) (auto simp: readable_def split: get_result.split)

lemma writeReport_passed:
  "\<not> isl (snd (writeReport X output rep v)) \<longleftrightarrow> ScanWrite X output = None \<and> \<not> isl v"
  by (simp add: writeReport_def split: option.split)

text \<open>Claim C27: The verdict of the retained scan. The program passes exactly when it was given an output path, every
  call that opens stream and bucket, lists the current keys and reads them succeeds, no read of a retained sequence
  fails, the records found are as many as the stream says it holds, every one of them is a tombstone
  or decodes to a state of the entity that its key names, bucket and stream are those of the entity store, and
  the report can be written. The second conjunct of the coverage check never decides: each record
  found is counted as scanned or as a tombstone.\<close>

theorem retained_scan_verdict:
  "\<not> isl (snd (retainedScan X output)) \<longleftrightarrow>
     output \<noteq> [] \<and> ScanWrite X output = None \<and>
     (\<exists>info status keys. opens X info status keys \<and> list_all (readable X) (sequences info) \<and>
        length (retainedAt X (sequences info)) = InfoMsgs info \<and>
        list_all (soundRecord X) (retainedAt X (sequences info)) \<and>
        StatusBucket status = BucketName X \<and> InfoStream info = streamName X)"
proof (cases "openStore X")
  case (Inl e)
  have "\<not> opens X info status keys" for info status keys
  proof
    assume o: "opens X info status keys"
    then have "list_all (\<lambda>key. \<not> isl (ScanGet X key)) (sort keys)" by (simp add: opens_def list_all_iff)
    then obtain revs where "currentRevisions X (sort keys) Map.empty = Inr revs" using currentRevisions_ok by blast
    with o have "openStore X = Inr (info, status, sort keys, revs)" by (auto simp: openStore_ok)
    with Inl show False by simp
  qed
  with Inl show ?thesis by (simp add: retainedScan_def)
next
  case (Inr opened)
  obtain info status keys' revs where o: "openStore X = Inr (info, status, keys', revs)" using Inr by (cases opened) auto
  then obtain keys where k: "opens X info status keys" by (auto simp: openStore_ok)
  have unique: "opens X i s ks \<longleftrightarrow> i = info \<and> s = status \<and> ks = keys" for i s ks
    using k by (auto simp: opens_def)
  let ?scan = "scanSequences X revs (sequences info) (newReport X info status keys')"
  show ?thesis
  proof (cases ?scan)
    case (Inl e)
    then have "\<not> list_all (readable X) (sequences info)" using scanSequences_ok by (metis sum.distinct(1))
    with Inl o unique show ?thesis by (simp add: retainedScan_def)
  next
    case (Inr rep)
    note c = scanSequences_counts [OF Inr]
    have "list_all (readable X) (sequences info)" using Inr scanSequences_ok by blast
    moreover have "coverageComplete rep \<longleftrightarrow> length (retainedAt X (sequences info)) = InfoMsgs info"
      using c by (simp add: coverageComplete_def newReport_def)
    moreover have "zeroPoison rep \<longleftrightarrow> list_all (soundRecord X) (retainedAt X (sequences info))"
      using c by (auto simp: zeroPoison_def newReport_def list_all_iff filter_empty_conv)
    moreover have "Bucket rep = StatusBucket status" "ReportStream rep = InfoStream info"
      using c by (simp_all add: newReport_def)
    ultimately show ?thesis
      using o Inr unique by (auto simp: retainedScan_def Let_def writeReport_passed)
  qed
qed

end
