(* ===== verification/JsonNumbers.thy ===== *)
theory JsonNumbers
  imports Json Strconv
begin

text \<open>
  Integer fields of a decoded document: each number overwrites the field, null leaves it, anything else
  (also a number that is not written as an integer, or one out of range) is a type error.
\<close>

fun last_int :: "json list \<Rightarrow> int \<Rightarrow> int option" where
  "last_int [] acc = Some acc"
| "last_int (JNum n # r) acc = Option.bind (parse_int 64 n) (last_int r)"
| "last_int (JNull # r) acc = last_int r acc"
| "last_int (x # r) acc = None"

lemma last_int_string: "JStr s \<in> set vs \<Longrightarrow> last_int vs acc = None"
  by (induction vs acc rule: last_int.induct) (auto split: Option.bind_splits)

end
