(* ===== verification/Probe.thy ===== *)
theory Probe
  imports JsonNumbers "HOL-Library.Monad_Syntax"
begin

text \<open>
  \<open>deploy/probe/main.go\<close>: the deployment probe. Its HTTP client is a parameter (a request and the state of
  the outside world to an error or a reply and the new state), and so are the JSON scanner (of a whole text
  and of the first value of a text), the normal form of a document, its text and the digest. The fixtures
  are arguments; how often \<open>retry\<close> gets to try before its deadline is a number.
\<close>

section \<open>The client\<close>

record http_call =
  CallMethod :: string
  CallURL :: string
  CallBody :: string
  CallContentType :: string

record http_reply =
  ReplyStatus :: nat
  ReplyLocation :: string
  ReplyBody :: string

record 's probe_env =
  Client :: "http_call \<Rightarrow> 's \<Rightarrow> (string + http_reply) \<times> 's"
  ParseAll :: "string \<Rightarrow> json option"
  ParseFirst :: "string \<Rightarrow> json option"
  Normalize :: "json \<Rightarrow> json option"
  CanonicalText :: "json \<Rightarrow> string"
  DigestHex :: "string \<Rightarrow> string"

type_synonym ('s, 'a) probing = "'s \<Rightarrow> (string + 'a) \<times> 's"

text \<open>A step that may fail, and what follows it.\<close>

definition pbind :: "('s, 'a) probing \<Rightarrow> ('a \<Rightarrow> ('s, 'b) probing) \<Rightarrow> ('s, 'b) probing" where
  "pbind m k = (\<lambda>s. case m s of (Inl e, s') \<Rightarrow> (Inl e, s') | (Inr a, s') \<Rightarrow> k a s')"

definition pfail :: "string \<Rightarrow> ('s, 'a) probing" where "pfail e = (\<lambda>s. (Inl e, s))"
definition preturn :: "'a \<Rightarrow> ('s, 'a) probing" where "preturn a = (\<lambda>s. (Inr a, s))"

definition prequire :: "bool \<Rightarrow> string \<Rightarrow> ('s, 'a) probing \<Rightarrow> ('s, 'a) probing" where
  "prequire b e k = (if b then k else pfail e)"

definition pget :: "'a option \<Rightarrow> string \<Rightarrow> ('a \<Rightarrow> ('s, 'b) probing) \<Rightarrow> ('s, 'b) probing" where
  "pget x e k = (case x of None \<Rightarrow> pfail e | Some a \<Rightarrow> k a)"

definition doRequest :: "'s probe_env \<Rightarrow> string \<Rightarrow> string \<Rightarrow> string \<Rightarrow> string \<Rightarrow> ('s, http_reply) probing" where
  "doRequest C method url body contentType =
     Client C \<lparr>CallMethod = method, CallURL = url, CallBody = body, CallContentType = contentType\<rparr>"

definition getOK :: "'s probe_env \<Rightarrow> string \<Rightarrow> string \<Rightarrow> ('s, http_reply) probing" where
  "getOK C url err = pbind (doRequest C ''GET'' url [] []) (\<lambda>resp. prequire (ReplyStatus resp = 200) err (preturn resp))"

section \<open>The preflight check\<close>

record accountDetail =
  AccName :: string
  AccID :: string

record jetStreamResponse =
  JsServerID :: "string option"
  JsAccounts :: "int option"
  JsStreams :: "int option"
  JsConsumers :: "int option"
  JsMessages :: "int option"
  JsBytes :: "int option"
  JsAccountDetails :: "accountDetail list option"

record jetStreamProof =
  ProofServerID :: string
  ProofAccount :: string
  ProofDomain :: string
  ProofStreams :: int
  ProofConsumers :: int
  ProofMessages :: int
  ProofBytes :: int

text \<open>The counts are looked at in the random order of a Go map, so which of several absent ones is named is
  not determined; the error is.\<close>

definition validateGreenfieldState :: "jetStreamResponse \<Rightarrow> string + jetStreamProof" where
  "validateGreenfieldState state =
     (case JsServerID state of
        None \<Rightarrow> Inl ''JetStream server_id is absent or empty''
      | Some server \<Rightarrow>
          if trim_space server = [] then Inl ''JetStream server_id is absent or empty''
          else if JsAccounts state = None then Inl ''JetStream accounts count is absent''
          else if JsAccounts state \<noteq> Some 1 then Inl ''JetStream account count, want 1''
          else (case JsAccountDetails state of
             None \<Rightarrow> Inl ''JetStream account_details is absent''
           | Some details \<Rightarrow>
               if length details \<noteq> 1 \<or> AccName (hd details) \<noteq> ''$G'' \<or> AccID (hd details) \<noteq> ''$G''
               then Inl ''JetStream account identity is not exactly $G''
               else if list_ex (\<lambda>c. c = None) [JsStreams state, JsConsumers state, JsMessages state, JsBytes state]
               then Inl ''JetStream count is absent''
               else if list_ex (\<lambda>c. c \<noteq> Some 0) [JsStreams state, JsConsumers state, JsMessages state, JsBytes state]
               then Inl ''NATS is not clean''
               else Inr \<lparr>ProofServerID = server, ProofAccount = ''$G'', ProofDomain = ''default (unset)'',
                      ProofStreams = 0, ProofConsumers = 0, ProofMessages = 0, ProofBytes = 0\<rparr>))"

text \<open>The preflight accepts exactly a NATS server that nobody has used: a server that names itself, with the
  global account alone and with no stream, no consumer, no message and no byte, all of these counts
  reported and none of them taken for zero when it is absent.\<close>

theorem greenfield_exact:
  "(\<exists>proof. validateGreenfieldState state = Inr proof) \<longleftrightarrow>
     (\<exists>server. JsServerID state = Some server \<and> trim_space server \<noteq> []) \<and> JsAccounts state = Some 1 \<and>
     (\<exists>d. JsAccountDetails state = Some [d] \<and> AccName d = ''$G'' \<and> AccID d = ''$G'') \<and>
     JsStreams state = Some 0 \<and> JsConsumers state = Some 0 \<and> JsMessages state = Some 0 \<and> JsBytes state = Some 0"
proof -
  have one: "length ds = Suc 0 \<longleftrightarrow> (\<exists>d. ds = [d])" for ds :: "accountDetail list" by (auto simp: length_Suc_conv)
  show ?thesis by (auto simp: validateGreenfieldState_def one split: option.splits if_splits)
qed

section \<open>Decoding\<close>

text \<open>A \<open>*int\<close> and a \<open>*string\<close> field are set back to nil by null.\<close>

definition int_member :: "json \<Rightarrow> int option" where
  "int_member j = (case j of JNum n \<Rightarrow> parse_int 64 n | _ \<Rightarrow> None)"

definition string_member :: "json \<Rightarrow> string option" where
  "string_member j = (case j of JStr s \<Rightarrow> Some s | _ \<Rightarrow> None)"

definition decodeAccount :: "json \<Rightarrow> accountDetail option" where
  "decodeAccount j =
     do { kvs \<leftarrow> struct_members j;
          n \<leftarrow> string_field [''name'', ''id''] kvs ''name'';
          i \<leftarrow> string_field [''name'', ''id''] kvs ''id'';
          Some \<lparr>AccName = n, AccID = i\<rparr> }"

definition jetStreamKeys :: "string list" where
  "jetStreamKeys = [''server_id'', ''accounts'', ''streams'', ''consumers'', ''messages'', ''bytes'', ''account_details'']"

definition decodeJetStream :: "json \<Rightarrow> jetStreamResponse option" where
  "decodeJetStream j =
     do { kvs \<leftarrow> struct_members j;
          let field = field_values jetStreamKeys kvs;
          server \<leftarrow> bind_last (ptr_member string_member) None (field ''server_id'');
          accounts \<leftarrow> bind_last (ptr_member int_member) None (field ''accounts'');
          streams \<leftarrow> bind_last (ptr_member int_member) None (field ''streams'');
          consumers \<leftarrow> bind_last (ptr_member int_member) None (field ''consumers'');
          messages \<leftarrow> bind_last (ptr_member int_member) None (field ''messages'');
          bytes \<leftarrow> bind_last (ptr_member int_member) None (field ''bytes'');
          details \<leftarrow> bind_last (ptr_member (list_member decodeAccount)) None (field ''account_details'');
          Some \<lparr>JsServerID = server, JsAccounts = accounts, JsStreams = streams, JsConsumers = consumers,
                JsMessages = messages, JsBytes = bytes, JsAccountDetails = details\<rparr> }"

definition preflight :: "'s probe_env \<Rightarrow> string \<Rightarrow> ('s, jetStreamProof) probing" where
  "preflight C natsURL =
     pbind (getOK C (natsURL @ ''/jsz?accounts=true'') ''JetStream status'') (\<lambda>resp.
     pget (Option.bind (ParseFirst C (ReplyBody resp)) decodeJetStream) ''decode JetStream state'' (\<lambda>state.
     case validateGreenfieldState state of Inl e \<Rightarrow> pfail e | Inr proof \<Rightarrow> preturn proof))"

section \<open>Seeding\<close>

definition expectedSystemID :: string where "expectedSystemID = ''c360.semconnect.systems.csapi.system.v1''"
definition expectedSystemUID :: string where "expectedSystemUID = ''urn:c360:semconnect:deployment-smoke:system:v1''"
definition expectedDatastreamID :: string where "expectedDatastreamID = ''c360.semconnect.systems.csapi.datastream.v1''"
definition expectedObservationID :: string where "expectedObservationID = ''deployment-smoke-observation-v1''"

definition observationPath :: string where
  "observationPath = ''/datastreams/'' @ expectedDatastreamID @ ''/observations''"

definition seedOne :: "'s probe_env \<Rightarrow> string \<Rightarrow> string \<Rightarrow> string \<Rightarrow> string \<Rightarrow> string \<Rightarrow> ('s, unit) probing" where
  "seedOne C url body contentType location what =
     pbind (doRequest C ''POST'' url body contentType) (\<lambda>resp.
     prequire (ReplyStatus resp = 201) (''seed canonical '' @ what @ '': status'') (
     prequire (ReplyLocation resp = location) (''seed '' @ what @ '' Location'') (preturn ())))"

definition seedFixtures :: "'s probe_env \<Rightarrow> string \<Rightarrow> string \<Rightarrow> string \<Rightarrow> string \<Rightarrow> ('s, unit) probing" where
  "seedFixtures C base systemBody datastreamBody observationBody =
     pbind (seedOne C (base @ ''/systems'') systemBody ''application/geo+json'' (''/systems/'' @ expectedSystemID) ''System'') (\<lambda>_.
     pbind (seedOne C (base @ ''/datastreams'') datastreamBody ''application/json''
       (''/datastreams/'' @ expectedDatastreamID) ''Datastream'') (\<lambda>_.
     seedOne C (base @ observationPath) observationBody ''application/om+json''
       (observationPath @ ''/'' @ expectedObservationID) ''Observation''))"

section \<open>The proof\<close>

record systemCollection =
  SysMatched :: int
  SysReturned :: int
  SysItems :: "string list"

record observationCollection =
  ObsMatched :: int
  ObsReturned :: int
  ObsItems :: "json list"

record smoke_result =
  SystemSHA256 :: string
  SystemNumberMatched :: int
  SystemNumberReturned :: int
  DatastreamSHA256 :: string
  SchemaSHA256 :: string
  GlobalObservationSHA256 :: string
  ScopedObservationSHA256 :: string
  GlobalNumberReturned :: int
  ScopedNumberReturned :: int

definition collectionKeys :: "string list" where
  "collectionKeys = [''numberMatched'', ''numberReturned'', ''items'']"

definition decodeSystemRef :: "json \<Rightarrow> string option" where
  "decodeSystemRef j = Option.bind (struct_members j) (\<lambda>kvs. string_field [''id''] kvs ''id'')"

definition decodeSystemCollection :: "json \<Rightarrow> systemCollection option" where
  "decodeSystemCollection j =
     do { kvs \<leftarrow> struct_members j;
          m \<leftarrow> last_int (field_values collectionKeys kvs ''numberMatched'') 0;
          n \<leftarrow> last_int (field_values collectionKeys kvs ''numberReturned'') 0;
          items \<leftarrow> bind_last (list_member decodeSystemRef) [] (field_values collectionKeys kvs ''items'');
          Some \<lparr>SysMatched = m, SysReturned = n, SysItems = items\<rparr> }"

definition decodeObservationCollection :: "json \<Rightarrow> observationCollection option" where
  "decodeObservationCollection j =
     do { kvs \<leftarrow> struct_members j;
          m \<leftarrow> last_int (field_values collectionKeys kvs ''numberMatched'') 0;
          n \<leftarrow> last_int (field_values collectionKeys kvs ''numberReturned'') 0;
          items \<leftarrow> bind_last raw_list [] (field_values collectionKeys kvs ''items'');
          Some \<lparr>ObsMatched = m, ObsReturned = n, ObsItems = items\<rparr> }"

text \<open>ID, uid and the uid of the properties.\<close>

definition decodeSystemResource :: "json \<Rightarrow> (string \<times> string \<times> string) option" where
  "decodeSystemResource j =
     do { kvs \<leftarrow> struct_members j;
          i \<leftarrow> string_field [''id'', ''uid'', ''properties''] kvs ''id'';
          u \<leftarrow> string_field [''id'', ''uid'', ''properties''] kvs ''uid'';
          p \<leftarrow> bind_last (\<lambda>v. Option.bind (struct_members v) (\<lambda>ps. string_field [''uid''] ps ''uid'')) []
            (field_values [''id'', ''uid'', ''properties''] kvs ''properties'');
          Some (i, u, p) }"

definition decodePair :: "string \<Rightarrow> json \<Rightarrow> (string \<times> string) option" where
  "decodePair other j =
     do { kvs \<leftarrow> struct_members j;
          i \<leftarrow> string_field [''id'', other] kvs ''id'';
          o' \<leftarrow> string_field [''id'', other] kvs other;
          Some (i, o') }"

definition getCollection :: "'s probe_env \<Rightarrow> string \<Rightarrow> ('s, systemCollection) probing" where
  "getCollection C base =
     pbind (getOK C (base @ ''/systems'') ''systems status'') (\<lambda>resp.
     pget (Option.bind (ParseFirst C (ReplyBody resp)) decodeSystemCollection) ''decode systems'' preturn)"

definition getItem :: "'s probe_env \<Rightarrow> string \<Rightarrow> ('s, json \<times> string \<times> string \<times> string) probing" where
  "getItem C base =
     pbind (getOK C (base @ ''/systems/'' @ expectedSystemID) ''system item status'') (\<lambda>resp.
     pget (Option.bind (ParseAll C (ReplyBody resp)) (Normalize C)) ''decode system item'' (\<lambda>canonical.
     pget (decodeSystemResource canonical) ''decode normalized system item'' (\<lambda>item. preturn (canonical, item))))"

definition getCanonicalJSON :: "'s probe_env \<Rightarrow> string \<Rightarrow> ('s, json) probing" where
  "getCanonicalJSON C url =
     pbind (getOK C url ''GET status'') (\<lambda>resp.
     pget (Option.bind (ParseFirst C (ReplyBody resp)) (Normalize C)) ''decode GET'' preturn)"

definition getObservationCollection :: "'s probe_env \<Rightarrow> string \<Rightarrow> ('s, observationCollection) probing" where
  "getObservationCollection C url =
     pbind (getCanonicalJSON C url) (\<lambda>body.
     pget (decodeObservationCollection body) ''decode ObservationCollection'' preturn)"

definition requireCanonicalObservation :: "'s probe_env \<Rightarrow> observationCollection \<Rightarrow> string + json" where
  "requireCanonicalObservation C c =
     (if ObsMatched c \<noteq> 1 \<or> ObsReturned c \<noteq> 1 \<or> length (ObsItems c) \<noteq> 1 then Inl ''counts not ready''
      else case decodePair ''datastream@id'' (hd (ObsItems c)) of
        None \<Rightarrow> Inl ''decode canonical Observation''
      | Some (i, ds) \<Rightarrow>
          if i \<noteq> expectedObservationID \<or> ds \<noteq> expectedDatastreamID then Inl ''canonical Observation mismatch''
          else case Normalize C (hd (ObsItems c)) of None \<Rightarrow> Inl ''normalize'' | Some j \<Rightarrow> Inr j)"

definition digestBytes :: "'s probe_env \<Rightarrow> json \<Rightarrow> string" where
  "digestBytes C j = DigestHex C (CanonicalText C j)"

definition pcanonical :: "'s probe_env \<Rightarrow> observationCollection \<Rightarrow> string \<Rightarrow> (json \<Rightarrow> ('s, 'b) probing) \<Rightarrow> ('s, 'b) probing" where
  "pcanonical C c what k = (case requireCanonicalObservation C c of Inl e \<Rightarrow> pfail (what @ e) | Inr j \<Rightarrow> k j)"

text \<open>One attempt of \<open>waitForProof\<close>.\<close>

definition proofAttempt :: "'s probe_env \<Rightarrow> string \<Rightarrow> ('s, smoke_result) probing" where
  "proofAttempt C base =
     pbind (getCollection C base) (\<lambda>coll.
     prequire (SysMatched coll = 1 \<and> SysReturned coll = 1 \<and> length (SysItems coll) = 1) ''system counts not ready'' (
     prequire (hd (SysItems coll) = expectedSystemID) ''system id'' (
     pbind (getItem C base) (\<lambda>(itemBody, i, uid, puid).
     prequire (i = expectedSystemID \<and> uid = expectedSystemUID \<and> puid = expectedSystemUID) ''canonical item mismatch'' (
     pbind (getCanonicalJSON C (base @ ''/datastreams/'' @ expectedDatastreamID)) (\<lambda>dsBody.
     pget (decodePair ''system@id'' dsBody) ''decode Datastream'' (\<lambda>(dsID, dsSystem).
     prequire (dsID = expectedDatastreamID \<and> dsSystem = expectedSystemID) ''canonical Datastream mismatch'' (
     pbind (getCanonicalJSON C (base @ ''/datastreams/'' @ expectedDatastreamID @ ''/schema'')) (\<lambda>schemaBody.
     pbind (getObservationCollection C (base @ ''/observations?limit=10'')) (\<lambda>global.
     pbind (getObservationCollection C (base @ observationPath @ ''?limit=10'')) (\<lambda>scoped.
     pcanonical C global ''global observations: '' (\<lambda>globalItem.
     pcanonical C scoped ''scoped observations: '' (\<lambda>scopedItem.
     preturn
       \<lparr>SystemSHA256 = digestBytes C itemBody, SystemNumberMatched = SysMatched coll,
        SystemNumberReturned = SysReturned coll, DatastreamSHA256 = digestBytes C dsBody,
        SchemaSHA256 = digestBytes C schemaBody, GlobalObservationSHA256 = digestBytes C globalItem,
        ScopedObservationSHA256 = digestBytes C scopedItem, GlobalNumberReturned = ObsReturned global,
        ScopedNumberReturned = ObsReturned scoped\<rparr>)))))))))))))"

section \<open>Retrying\<close>

text \<open>\<open>retry\<close>: the operation is tried once, and again at every tick that comes before the deadline.\<close>

fun retry :: "nat \<Rightarrow> ('s, 'a) probing \<Rightarrow> ('s, 'a) probing" where
  "retry n m s =
     (case m s of
        (Inr a, s') \<Rightarrow> (Inr a, s')
      | (Inl e, s') \<Rightarrow> (case n of 0 \<Rightarrow> (Inl (''probe deadline: '' @ e), s') | Suc n' \<Rightarrow> retry n' m s'))"

declare retry.simps [simp del]

definition waitHealthy :: "'s probe_env \<Rightarrow> nat \<Rightarrow> string \<Rightarrow> ('s, http_reply) probing" where
  "waitHealthy C n base = retry n (getOK C (base @ ''/health'') ''health status'')"

definition waitForProof :: "'s probe_env \<Rightarrow> nat \<Rightarrow> string \<Rightarrow> ('s, smoke_result) probing" where
  "waitForProof C n base = retry n (proofAttempt C base)"

record fixtures =
  SystemFixture :: string
  DatastreamFixture :: string
  ObservationFixture :: string

datatype probe_output = PreflightProof jetStreamProof | SmokeProof smoke_result

text \<open>\<open>run\<close>, with the two URLs and the numbers of tries.\<close>

definition runProbe ::
  "'s probe_env \<Rightarrow> fixtures \<Rightarrow> string \<Rightarrow> string \<Rightarrow> nat \<Rightarrow> nat \<Rightarrow> string list \<Rightarrow> ('s, probe_output) probing"
where
  "runProbe C fx natsURL base n n' args =
     (if args = [''preflight''] then pbind (preflight C natsURL) (\<lambda>p. preturn (PreflightProof p))
      else if args = [''seed''] \<or> args = [''verify-only''] then
        pbind (waitHealthy C n base) (\<lambda>_.
        pbind (if args = [''seed'']
               then seedFixtures C base (SystemFixture fx) (DatastreamFixture fx) (ObservationFixture fx) else preturn ()) (\<lambda>_.
        pbind (waitForProof C n' base) (\<lambda>p. preturn (SmokeProof p))))
      else pfail ''usage: canonical-smoke preflight|seed|verify-only'')"

section \<open>What the probe does to the world\<close>

text \<open>A computation keeps a property of the world.\<close>

named_theorems pkeeps

definition pkeep :: "('s \<Rightarrow> bool) \<Rightarrow> ('s, 'a) probing \<Rightarrow> bool" where
  "pkeep P m \<longleftrightarrow> (\<forall>s. P s \<longrightarrow> P (snd (m s)))"

lemma pkeep_bind [pkeeps]: "pkeep P m \<Longrightarrow> (\<And>a. pkeep P (k a)) \<Longrightarrow> pkeep P (pbind m k)"
  unfolding pkeep_def pbind_def by (auto split: prod.splits sum.splits)

lemma pkeep_pure [pkeeps]: "pkeep P (pfail e)" "pkeep P (preturn a)"
  by (simp_all add: pkeep_def pfail_def preturn_def)

lemma pkeep_branch [pkeeps]:
  "pkeep P k \<Longrightarrow> pkeep P (prequire b e k)"
  "(\<And>a. pkeep P (f a)) \<Longrightarrow> pkeep P (pget x e f)"
  "(\<And>j. pkeep P (g j)) \<Longrightarrow> pkeep P (pcanonical C c what g)"
  by (auto simp: prequire_def pget_def pcanonical_def pkeep_pure split: option.split sum.split)

lemma pkeep_case_sum [pkeeps]:
  "(\<And>e. pkeep P (f e)) \<Longrightarrow> (\<And>a. pkeep P (k a)) \<Longrightarrow> pkeep P (case x of Inl e \<Rightarrow> f e | Inr a \<Rightarrow> k a)"
  by (simp split: sum.split)

lemma pkeep_case_prod [pkeeps]: "(\<And>a b. pkeep P (k a b)) \<Longrightarrow> pkeep P (case_prod k p)"
  by (simp split: prod.split)

lemma pkeep_retry [pkeeps]:
  assumes "pkeep P m"
  shows "pkeep P (retry n m)"
proof -
  have "P s \<longrightarrow> P (snd (retry n m s))" for s
  proof (induction n arbitrary: s)
    case 0
    then show ?case using assms by (subst retry.simps) (auto simp: pkeep_def split: prod.splits sum.splits; metis snd_conv)
  next
    case (Suc n)
    then show ?case using assms
      by (subst retry.simps) (auto simp: pkeep_def split: prod.splits sum.splits; metis snd_conv)
  qed
  then show ?thesis by (simp add: pkeep_def)
qed

text \<open>The client sends no request but a GET.\<close>

definition gets_keep :: "'s probe_env \<Rightarrow> ('s \<Rightarrow> bool) \<Rightarrow> bool" where
  "gets_keep C P \<longleftrightarrow> (\<forall>url s. P s \<longrightarrow> P (snd (Client C \<lparr>CallMethod = ''GET'', CallURL = url, CallBody = [], CallContentType = []\<rparr> s)))"

lemma pkeep_get [pkeeps]: "gets_keep C P \<Longrightarrow> pkeep P (getOK C url err)"
  unfolding getOK_def by (intro pkeeps) (simp add: pkeep_def doRequest_def gets_keep_def)

text \<open>Verification is observation only: a run of the probe with \<open>verify-only\<close> or \<open>preflight\<close>, however its requests
  are answered and however often it retries, keeps every property of the world that single GET requests
  keep; in particular it creates no resource.\<close>

theorem verify_only_observes:
  assumes "gets_keep C P" "args \<noteq> [''seed'']" "P s"
  shows "P (snd (runProbe C fx natsURL base n n' args s))"
proof -
  have "pkeep P (preflight C natsURL)" "pkeep P (waitHealthy C n base)" "pkeep P (waitForProof C n' base)"
    unfolding preflight_def waitHealthy_def waitForProof_def proofAttempt_def getCollection_def getItem_def
      getCanonicalJSON_def getObservationCollection_def
    by (intro pkeeps assms(1))+
  then have "pkeep P (runProbe C fx natsURL base n n' args)"
    using assms(2) unfolding runProbe_def by (simp add: pkeeps)
  with assms(3) show ?thesis by (simp add: pkeep_def)
qed

text \<open>A world that counts the requests which are not GETs.\<close>

definition countingProbe :: "nat probe_env" where
  "countingProbe =
     \<lparr>Client = (\<lambda>c s. (Inr \<lparr>ReplyStatus = 200, ReplyLocation = [], ReplyBody = []\<rparr>, if CallMethod c = ''GET'' then s else Suc s)),
      ParseAll = (\<lambda>t. None), ParseFirst = (\<lambda>t. None), Normalize = Some, CanonicalText = (\<lambda>j. []), DigestHex = (\<lambda>t. t)\<rparr>"

theorem verify_only_observes_witness:
  "snd (runProbe countingProbe \<lparr>SystemFixture = [], DatastreamFixture = [], ObservationFixture = []\<rparr> [] [] 3 3 [''verify-only''] 0) = 0"
proof -
  have "gets_keep countingProbe (\<lambda>s. s = 0)" by (simp add: gets_keep_def countingProbe_def)
  from verify_only_observes [OF this, of "[''verify-only'']" 0] show ?thesis by simp
qed

end
