(* ===== verification/ServerMain.thy ===== *)
theory ServerMain
  imports ServerProperties JsonNumbers "HOL-Library.Monad_Syntax"
begin

text \<open>
  \<open>cmd/cs-api-server/main.go\<close>: the configuration file, the start of the server and its health check. The
  file system, the JSON scanner and the outcome of the calls to NATS are parameters.
\<close>

section \<open>The configuration file\<close>

record serverConfig =
  NATSURL :: string
  LogLevel :: string
  GatewayConfig :: Config

definition configKeys :: "string list" where
  "configKeys =
     [''nats_url'', ''log_level'', ''bind_address'', ''standalone_server'', ''query_timeout'',
      ''read_header_timeout'', ''read_timeout'', ''write_timeout'', ''idle_timeout'',
      ''max_request_bytes'', ''default_list_limit'', ''max_list_limit'', ''publish_timeout'',
      ''observations_stream'', ''observations_subject_prefix'', ''observations_max_age'',
      ''observations_max_bytes'', ''observations_replicas'', ''schema_artifacts_bucket'',
      ''schema_artifacts_max_bytes'', ''schema_artifacts_replicas'', ''system_id_prefix'',
      ''datastream_id_prefix'', ''procedure_id_prefix'', ''deployment_id_prefix'',
      ''sampling_feature_id_prefix'', ''property_id_prefix'', ''controlstream_id_prefix'',
      ''command_id_prefix'', ''feasibility_id_prefix'', ''system_event_id_prefix'',
      ''schema_artifact_id_prefix'']"

text \<open>\<open>json.Unmarshal\<close> into the defaults: what a member gives replaces the default.\<close>

definition decodeConfig :: "(string \<Rightarrow> json list) \<Rightarrow> Config \<Rightarrow> Config option" where
  "decodeConfig field c =
     do {bind_address \<leftarrow> last_string (field ''bind_address'') (BindAddress c);
          standalone_server \<leftarrow> last_bool (field ''standalone_server'') (StandaloneServer c);
          query_timeout \<leftarrow> last_int (field ''query_timeout'') (QueryTimeout c);
          read_header_timeout \<leftarrow> last_int (field ''read_header_timeout'') (ReadHeaderTimeout c);
          read_timeout \<leftarrow> last_int (field ''read_timeout'') (ReadTimeout c);
          write_timeout \<leftarrow> last_int (field ''write_timeout'') (WriteTimeout c);
          idle_timeout \<leftarrow> last_int (field ''idle_timeout'') (IdleTimeout c);
          max_request_bytes \<leftarrow> last_int (field ''max_request_bytes'') (MaxRequestBytes c);
          default_list_limit \<leftarrow> last_int (field ''default_list_limit'') (DefaultListLimit c);
          max_list_limit \<leftarrow> last_int (field ''max_list_limit'') (MaxListLimit c);
          publish_timeout \<leftarrow> last_int (field ''publish_timeout'') (PublishTimeout c);
          observations_stream \<leftarrow> last_string (field ''observations_stream'') (ObservationsStream c);
          observations_subject_prefix \<leftarrow> last_string (field ''observations_subject_prefix'') (ObservationsSubjectPrefix c);
          observations_max_age \<leftarrow> last_int (field ''observations_max_age'') (ObservationsMaxAge c);
          observations_max_bytes \<leftarrow> last_int (field ''observations_max_bytes'') (ObservationsMaxBytes c);
          observations_replicas \<leftarrow> last_int (field ''observations_replicas'') (ObservationsReplicas c);
          schema_artifacts_bucket \<leftarrow> last_string (field ''schema_artifacts_bucket'') (SchemaArtifactsBucket c);
          schema_artifacts_max_bytes \<leftarrow> last_int (field ''schema_artifacts_max_bytes'') (SchemaArtifactsMaxBytes c);
          schema_artifacts_replicas \<leftarrow> last_int (field ''schema_artifacts_replicas'') (SchemaArtifactsReplicas c);
          system_id_prefix \<leftarrow> last_string (field ''system_id_prefix'') (SystemIDPrefix c);
          datastream_id_prefix \<leftarrow> last_string (field ''datastream_id_prefix'') (DatastreamIDPrefix c);
          procedure_id_prefix \<leftarrow> last_string (field ''procedure_id_prefix'') (ProcedureIDPrefix c);
          deployment_id_prefix \<leftarrow> last_string (field ''deployment_id_prefix'') (DeploymentIDPrefix c);
          sampling_feature_id_prefix \<leftarrow> last_string (field ''sampling_feature_id_prefix'') (SamplingFeatureIDPrefix c);
          property_id_prefix \<leftarrow> last_string (field ''property_id_prefix'') (PropertyIDPrefix c);
          controlstream_id_prefix \<leftarrow> last_string (field ''controlstream_id_prefix'') (ControlStreamIDPrefix c);
          command_id_prefix \<leftarrow> last_string (field ''command_id_prefix'') (CommandIDPrefix c);
          feasibility_id_prefix \<leftarrow> last_string (field ''feasibility_id_prefix'') (FeasibilityIDPrefix c);
          system_event_id_prefix \<leftarrow> last_string (field ''system_event_id_prefix'') (SystemEventIDPrefix c);
          schema_artifact_id_prefix \<leftarrow> last_string (field ''schema_artifact_id_prefix'') (SchemaArtifactIDPrefix c);
          Some (c\<lparr>BindAddress := bind_address, StandaloneServer := standalone_server,
            QueryTimeout := query_timeout, ReadHeaderTimeout := read_header_timeout,
            ReadTimeout := read_timeout, WriteTimeout := write_timeout, IdleTimeout := idle_timeout,
            MaxRequestBytes := max_request_bytes, DefaultListLimit := default_list_limit,
            MaxListLimit := max_list_limit, PublishTimeout := publish_timeout,
            ObservationsStream := observations_stream,
            ObservationsSubjectPrefix := observations_subject_prefix,
            ObservationsMaxAge := observations_max_age, ObservationsMaxBytes := observations_max_bytes,
            ObservationsReplicas := observations_replicas, SchemaArtifactsBucket := schema_artifacts_bucket,
            SchemaArtifactsMaxBytes := schema_artifacts_max_bytes,
            SchemaArtifactsReplicas := schema_artifacts_replicas, SystemIDPrefix := system_id_prefix,
            DatastreamIDPrefix := datastream_id_prefix, ProcedureIDPrefix := procedure_id_prefix,
            DeploymentIDPrefix := deployment_id_prefix,
            SamplingFeatureIDPrefix := sampling_feature_id_prefix, PropertyIDPrefix := property_id_prefix,
            ControlStreamIDPrefix := controlstream_id_prefix, CommandIDPrefix := command_id_prefix,
            FeasibilityIDPrefix := feasibility_id_prefix, SystemEventIDPrefix := system_event_id_prefix,
            SchemaArtifactIDPrefix := schema_artifact_id_prefix\<rparr>) }"

definition decodeServerConfig :: "json \<Rightarrow> serverConfig \<Rightarrow> serverConfig option" where
  "decodeServerConfig j cfg =
     do { kvs \<leftarrow> struct_members j;
          let field = field_values configKeys kvs;
          url \<leftarrow> last_string (field ''nats_url'') (NATSURL cfg);
          level \<leftarrow> last_string (field ''log_level'') (LogLevel cfg);
          c \<leftarrow> decodeConfig field (GatewayConfig cfg);
          Some \<lparr>NATSURL = url, LogLevel = level, GatewayConfig = c\<rparr> }"

datatype main_error =
    DefaultInvalid config_error
  | ReadFailed string
  | ParseFailed
  | NatsURLRequired
  | ConfigRefused config_error
  | NatsFailed string
  | StartupFailed lifecycle_error
  | ShutdownFailed lifecycle_error

definition defaultServerConfig :: serverConfig where
  "defaultServerConfig = \<lparr>NATSURL = ''nats://localhost:4222'', LogLevel = ''info'', GatewayConfig = DefaultConfig\<rparr>"

text \<open>The text of a file, or the error of reading it; what the scanner makes of a text.\<close>

record files =
  ReadFile :: "string \<Rightarrow> string + string"
  ScanJson :: "string \<Rightarrow> json option"

definition loadConfig :: "entity_ids \<Rightarrow> files \<Rightarrow> string \<Rightarrow> main_error + serverConfig" where
  "loadConfig E fs path =
     (if path = [] then
        let c = ApplyDefaults (GatewayConfig defaultServerConfig) in
        case validateConfig E c of
          Some e \<Rightarrow> Inl (DefaultInvalid e)
        | None \<Rightarrow> Inr (defaultServerConfig\<lparr>GatewayConfig := c\<rparr>)
      else case ReadFile fs path of
        Inl e \<Rightarrow> Inl (ReadFailed e)
      | Inr raw \<Rightarrow>
          (case Option.bind (ScanJson fs raw) (\<lambda>j. decodeServerConfig j defaultServerConfig) of
             None \<Rightarrow> Inl ParseFailed
           | Some cfg \<Rightarrow>
               if NATSURL cfg = [] then Inl NatsURLRequired
               else let c = ApplyDefaults (GatewayConfig cfg) in
                 case validateConfig E c of
                   Some e \<Rightarrow> Inl (ConfigRefused e)
                 | None \<Rightarrow> Inr (cfg\<lparr>GatewayConfig := c\<rparr>)))"

section \<open>The run\<close>

record startup_results =
  NatsError :: "string option"
  ServiceResults :: start_results
  ShutdownError :: "string option"

text \<open>From the configuration to the server that waits for its signal. The environment is the gateway's, with
  the configuration that \<open>New\<close> keeps.\<close>

definition startup ::
  "env \<Rightarrow> files \<Rightarrow> string \<Rightarrow> startup_results \<Rightarrow> 's \<Rightarrow> string list \<Rightarrow> context_state \<Rightarrow> main_error + 's server"
where
  "startup X fs path res w fresh ctx =
     (case loadConfig (Ids X) fs path of
        Inl e \<Rightarrow> Inl e
      | Inr cfg \<Rightarrow>
      (case NatsError res of Some e \<Rightarrow> Inl (NatsFailed e)
      | None \<Rightarrow>
      (case newServer (Ids X) ((GatewayConfig cfg)\<lparr>StandaloneServer := True\<rparr>) True w fresh of
        Inl e \<Rightarrow> Inl (StartupFailed e)
      | Inr (kept, s) \<Rightarrow>
          let X' = X\<lparr>Cfg := kept\<rparr> in
          case Initialize X' s of
            (Some e, s1) \<Rightarrow> Inl (StartupFailed e)
          | (None, s1) \<Rightarrow>
              (case Start X' ctx (ServiceResults res) s1 of
                 (Some e, s2) \<Rightarrow> Inl (StartupFailed e)
               | (None, s2) \<Rightarrow> Inr s2))))"

text \<open>What \<open>run\<close> returns after the signal.\<close>

definition runServer ::
  "env \<Rightarrow> files \<Rightarrow> string \<Rightarrow> startup_results \<Rightarrow> 's \<Rightarrow> string list \<Rightarrow> context_state \<Rightarrow> main_error option"
where
  "runServer X fs path res w fresh ctx =
     (case startup X fs path res w fresh ctx of
        Inl e \<Rightarrow> Some e
      | Inr s \<Rightarrow> map_option ShutdownFailed (fst (Stop (ShutdownError res) s)))"

text \<open>\<open>checkHTTPHealth\<close>: the error of building or sending the request, or the status of the answer.\<close>

definition checkHTTPHealth :: "(string + nat) \<Rightarrow> string option" where
  "checkHTTPHealth answer =
     (case answer of
        Inl e \<Rightarrow> Some (''health request: '' @ e)
      | Inr status \<Rightarrow> if status \<noteq> 200 then Some ''health status'' else None)"

datatype log_level = LevelDebug | LevelInfo | LevelWarn | LevelError

definition buildLogger :: "string \<Rightarrow> log_level" where
  "buildLogger level =
     (if level = ''debug'' then LevelDebug else if level = ''warn'' then LevelWarn
      else if level = ''error'' then LevelError else LevelInfo)"

section \<open>What a loaded configuration is good for\<close>

lemma ApplyDefaults_standalone:
  "ApplyDefaults (c\<lparr>StandaloneServer := b\<rparr>) = (ApplyDefaults c)\<lparr>StandaloneServer := b\<rparr>"
  by (rule Config.equality) (simp_all add: ApplyDefaults_def Let_def)

lemma validate_standalone:
  assumes "validateConfig E c = None" "BindAddress c \<noteq> []"
  shows "validateConfig E (c\<lparr>StandaloneServer := b\<rparr>) = None"
  using assms by (auto simp: validateConfig_def idPrefixes_def split: if_splits)

lemma loadConfig_ok:
  assumes "loadConfig E fs path = Inr cfg"
  shows "\<exists>c. GatewayConfig cfg = ApplyDefaults c \<and> validateConfig E (GatewayConfig cfg) = None \<and> NATSURL cfg \<noteq> []"
  using assms by (auto simp: loadConfig_def Let_def defaultServerConfig_def split: if_splits option.splits sum.splits)

lemma defaults_bind: "BindAddress (ApplyDefaults c) \<noteq> []"
proof -
  have "BindAddress (ApplyDefaults c) = orDefault [] (BindAddress c) (BindAddress DefaultConfig)"
    by (simp add: ApplyDefaults_def Let_def)
  then show ?thesis by (simp add: orDefault_def DefaultConfig_def)
qed

text \<open>Claim C32: A configuration that loads is one the server starts with: once \<open>loadConfig\<close> has accepted a file (or no
  file is given and the defaults are accepted), none of the later checks, of \<open>New\<close> and of \<open>Initialize\<close>, refuses
  it, although \<open>run\<close> switches the standalone server on in between; with NATS, the stream, the stores, the
  contracts and the listener available the program reaches a server that runs with all its handles.\<close>

theorem loaded_config_starts:
  assumes "loadConfig (Ids X) fs path = Inr cfg" "NatsError res = None" "Cancelled ctx = None"
    and "ServiceResults res = \<lparr>StreamError = None, JetStreamError = None, StoreError = None, ContractsError = None, ListenError = None\<rparr>"
  shows "\<exists>s. startup X fs path res w fresh ctx = Inr s \<and> Running s \<and> Initialized s \<and>
    StoreReady (Gateway s) \<and> CleanerReady (Gateway s) \<and> PublisherReady (Gateway s) \<and> ReaderReady (Gateway s)"
proof -
  obtain c where c: "GatewayConfig cfg = ApplyDefaults c" "validateConfig (Ids X) (GatewayConfig cfg) = None"
    using loadConfig_ok [OF assms(1)] by blast
  let ?c = "(GatewayConfig cfg)\<lparr>StandaloneServer := True\<rparr>"
  have kept: "ApplyDefaults ?c = ?c" by (simp add: ApplyDefaults_standalone c(1) config_defaults_idempotent)
  have valid: "validateConfig (Ids X) ?c = None"
    using validate_standalone [OF c(2)] defaults_bind by (simp add: c(1))
  show ?thesis
    by (simp add: startup_def assms newServer_def Let_def kept valid Initialize_def Start_def storeHandles_def)
qed

text \<open>The example of the documentation is refused: a duration that is written as a string, as in the comment
  that shows the file format, is a parse error, whatever else the file holds.\<close>

theorem documented_config_refused:
  assumes "path \<noteq> []" "ReadFile fs path = Inr raw" "ScanJson fs raw = Some (JObj kvs)" "(''query_timeout'', JStr d) \<in> set kvs"
  shows "loadConfig E fs path = Inl ParseFailed"
proof -
  have "match_field configKeys ''query_timeout'' = Some ''query_timeout''" by code_simp
  with assms(4) have "JStr d \<in> set (field_values configKeys kvs ''query_timeout'')"
    by (force simp: field_values_def)
  note bad = last_int_string [OF this]
  have "decodeConfig (field_values configKeys kvs) c \<noteq> Some c'" for c c'
    unfolding decodeConfig_def by (simp add: Option.bind_eq_Some_conv bad)
  then have "decodeConfig (field_values configKeys kvs) c = None" for c by (metis not_None_eq)
  then have "decodeServerConfig (JObj kvs) cfg = None" for cfg
    by (simp add: decodeServerConfig_def struct_members_def Let_def)
  then show ?thesis by (simp add: loadConfig_def assms(1-3))
qed

section \<open>A concrete start\<close>

definition noFiles :: files where
  "noFiles = \<lparr>ReadFile = (\<lambda>p. Inr p), ScanJson = (\<lambda>t. Some (JObj [(''nats_url'', JStr ''n''), (''query_timeout'', JStr ''5s'')]))\<rparr>"

definition allServices :: startup_results where
  "allServices =
     \<lparr>NatsError = None,
      ServiceResults = \<lparr>StreamError = None, JetStreamError = None, StoreError = None, ContractsError = None, ListenError = None\<rparr>,
      ShutdownError = None\<rparr>"

theorem loaded_config_starts_witness:
  "\<exists>s. startup sampleEnv noFiles [] allServices (0::nat) [] background = Inr s \<and> Running s"
proof -
  have "\<not> isl (loadConfig (Ids sampleEnv) noFiles [])" by code_simp
  then have "loadConfig (Ids sampleEnv) noFiles [] = Inr (projr (loadConfig (Ids sampleEnv) noFiles []))" by simp
  from loaded_config_starts [OF this, of allServices background "0::nat" "[]"] show ?thesis
    by (auto simp: allServices_def background_def)
qed

theorem documented_config_refused_witness: "loadConfig sampleIds noFiles ''cs-api.json'' = Inl ParseFailed"
  by (rule documented_config_refused [where raw = "''cs-api.json''" and d = "''5s''"
        and kvs = "[(''nats_url'', JStr ''n''), (''query_timeout'', JStr ''5s'')]"])
    (simp_all add: noFiles_def)

end
