(* ===== verification/Spec2Isabelle.thy ===== *)
theory Spec2Isabelle
  imports SweText SweJson ReachableExamples ObservationExamples DatastreamListExamples SystemOutcomes ServerExamples RouteExamples
    Discovery IndexReadiness RetainedScan Probe ServerMain
begin

text \<open>
  A verification development for semconnect: an OGC API Connected Systems gateway over a knowledge graph
  (\<open>gateway/cs-api\<close>), the SWE Common codecs (\<open>pkg/swecommon\<close>) and parsers (\<open>parser/sensorml\<close>,
  \<open>message/oms\<close>) it uses, the program that serves it (\<open>cmd/cs-api-server\<close>) and three tools around it.

  \<^bold>\<open>The program.\<close> An HTTP request comes in through the mux and the middleware (\<open>handlers.go\<close>,
  \<open>identity.go\<close>), a handler negotiates the media type (\<open>negotiation.go\<close>), checks path and body, and talks
  over NATS to the graph service of the framework (semstreams): typed mutations (create, reconcile, delete,
  each fenced by a revision; \<open>graph_mutations.go\<close>), exact reads, batches of states, lists of a class,
  spatial queries. A resource is an entity of the graph: a six-token ID and a list of triples, whose type
  selects the contract (\<open>projection_contracts.go\<close>) that says which predicates it may carry and which of
  them a replacement owns. Schemas of datastreams and control streams are artifacts: bytes in an object store
  under their digest and an immutable entity that names them (\<open>schema_artifacts.go\<close>). Observations are not in
  the graph: they are messages of a JetStream stream, on one subject per datastream (\<open>observations.go\<close>,
  \<open>observations_get.go\<close>).

  \<^bold>\<open>How it is modelled.\<close> A handler is a function from the request and the state \<open>'s gateway\<close> (the outside
  world \<open>World\<close>, the audit trail, the error counter, the supply of fresh IDs, which handles \<open>Start\<close> has
  set) to the response and the new state. What lies outside \<open>src\<close> is a parameter: the record \<open>env\<close> holds
  the pure functions and constants of the framework and of Go's library (ID validators, JSON text, geojson,
  time and float text, media types), the record \<open>'s backend\<close> the six operations on the outside world. Errors
  are values: \<open>gerr\<close> below the HTTP layer, a status and a body above it; a panic is a response \<open>None\<close>
  that \<open>recoverMiddleware\<close> turns into a 500; a body that cannot be encoded after the status was written is a
  cut answer (\<open>encodeBody\<close>, \<open>encodeJSON\<close>). Strings are byte strings. JSON is a tree with the literal text of its
  numbers, members in order and duplicates kept, decoded the way \<open>encoding/json\<close> binds objects to structs
  (case folding, the last duplicate wins, null). Error texts are cut to their constant part. Floats are their
  64 bits, with comparison (\<open>Float64\<close>) and arithmetic (\<open>FloatArith\<close>) defined on them; integers are kept at
  their width where a conversion can wrap (\<open>SweValues\<close>).

  \<^bold>\<open>The theories\<close>, in the order in which they build on each other:

  \<^item> \<open>Prelude\<close> (strings, binds, filters, the collections of simp rules), \<open>Strconv\<close>, \<open>Float64\<close>, \<open>FloatArith\<close>,
    \<open>Json\<close>, \<open>JsonNumbers\<close>, \<open>Utf8\<close>, \<open>Http\<close>: what the code uses of Go's library.
  \<^item> \<open>SweValues\<close> (\<open>values.go\<close>), \<open>SweComponent\<close> (\<open>component.go\<close>, \<open>schema.go\<close>), \<open>SweBinary\<close>, \<open>SweText\<close>, \<open>SweJson\<close>
    (\<open>binary.go\<close>, \<open>text.go\<close>, \<open>json.go\<close>): the SWE Common codecs, with writers that may fail. The round trips of the
    binary codec are proved once in the locale \<open>byte_order_laws\<close> and interpreted for both byte orders.
  \<^item> \<open>EntityIds\<close>, \<open>Config\<close> (\<open>config.go\<close>), \<open>Vocabulary\<close>, \<open>Negotiation\<close>: IDs and their minting, the configuration,
    the predicate names and classes, content negotiation.
  \<^item> \<open>Graph\<close>, \<open>Projection\<close>, \<open>Mutations\<close>: the data of the graph, the contracts, the mutations and their error table.
    \<open>GraphContract\<close>, \<open>GraphModel\<close>, \<open>GraphEffects\<close> state what the service documents and prove what PUT and
    DELETE give on top of it; an in-memory graph keeps all of it.
  \<^item> \<open>Sensorml\<close> (\<open>parser/sensorml\<close>), \<open>SensorMLView\<close> (\<open>sensorml.go\<close>): processes, their JSON, their triples and the way
    back, with what is lost on it.
  \<^item> \<open>Features\<close>, \<open>WriteOutcome\<close>, \<open>PatchMerge\<close> (a locale), \<open>SystemWrites\<close>: the system writes (\<open>systems_post.go\<close>,
    \<open>systems_crd.go\<close>, \<open>systems_patch.go\<close>).
  \<^item> \<open>Datastreams\<close>, \<open>SchemaArtifacts\<close>, \<open>DatastreamWrites\<close>, \<open>DatastreamOutcomes\<close>: datastreams, their artifacts,
    their writes and what these leave behind.
  \<^item> \<open>Reads\<close>, \<open>BatchReads\<close>, \<open>Collections\<close> (the locale \<open>resource_view\<close>), \<open>DatastreamReads\<close>, \<open>DatastreamLists\<close>: the
    pieces of every GET, and the datastream GETs.
  \<^item> \<open>Observations\<close>, \<open>ObservationReads\<close>, \<open>SweRows\<close>, \<open>ObservationPaging\<close> (the locale \<open>observation_stream\<close>, whose reads
    may come out short, and \<open>full_stream\<close>, whose reads do not),
    \<open>ObservationWrites\<close>: observations from the POST to the page that shows them.
  \<^item> \<open>Creations\<close> (the locale \<open>resource_body\<close>: one POST shape), \<open>ControlStreams\<close>, \<open>Feasibility\<close>, \<open>SystemEvents\<close>,
    \<open>CommandOutcomes\<close>; \<open>FeatureViews\<close>, \<open>Properties\<close>, \<open>Deployments\<close>, \<open>Procedures\<close>, \<open>SamplingFeatures\<close>, \<open>FeatureOutcomes\<close>:
    the other resources, one interpretation of the two locales for each.
  \<^item> \<open>SystemReads\<close> (\<open>systems.go\<close>, \<open>systems_subsystems.go\<close>, \<open>systemhistory.go\<close>), \<open>Spatial\<close> (\<open>spatial.go\<close>),
    \<open>SystemOutcomes\<close>: the system GETs, the spatial query, the polygon test.
  \<^item> \<open>StaticEndpoints\<close> (\<open>landing.go\<close>, \<open>collections.go\<close>, \<open>conformance.go\<close>, \<open>api.go\<close>), \<open>Server\<close> (\<open>handlers.go\<close>,
    \<open>identity.go\<close>, \<open>component.go\<close>), \<open>Discovery\<close> (ports and stream of \<open>component.go\<close>), \<open>SafeMethods\<close>,
    \<open>ServerProperties\<close>: the whole server.
  \<^item> \<open>Reachable\<close>: the steps by which the writes of systems and datastreams change the graph, and what every step keeps.
    \<open>ServerRuns\<close>: the other ten write handlers (the locale \<open>typed_body\<close>), every route of the server, and the runs of the
    whole server: any requests, one after the other, from any clients.
  \<^item> \<open>ServerMain\<close> (\<open>cmd/cs-api-server\<close>), \<open>IndexReadiness\<close> (\<open>conformance/cmd/index-readiness\<close>), \<open>Probe\<close>
    (\<open>deploy/probe\<close>), \<open>RetainedScan\<close> (the retained scan under \<open>openspec/changes\<close>): the program and the tools.
  \<^item> The theories named \<open>...Examples\<close> run the handlers on in-memory services: there the hypotheses of
    the properties hold, and a concrete request goes through each.

  \<^bold>\<open>What is assumed of the services.\<close> \<open>graph_contract\<close>: a create succeeds only on an absent entity, a reconcile
  replaces exactly the named predicates of an entity at the expected revision, a delete removes it at that
  revision, a refusal changes nothing. \<open>effect_law\<close>: whatever the reply, a mutation is applied as one step or
  not at all. \<open>query_law\<close>, \<open>read_law\<close>, \<open>batch_law\<close>, \<open>list_law\<close>, \<open>read_only\<close>: queries answer from the contents and
  change nothing. \<open>store_law\<close>, \<open>purge_law\<close>, the locales \<open>observation_stream\<close> and \<open>full_stream\<close>: the object store
  and the stream. \<open>services\<close> and \<open>server_services\<close> join those that a run needs; nobody but the server writes to the
  graph in a run. \<open>entity_id_laws\<close>, \<open>errs_laws\<close>, \<open>wrap_laws\<close>, \<open>stdlib_laws\<close>, \<open>json_float_laws\<close>,
  \<open>float_text_laws\<close>, \<open>schema_text_laws\<close>, \<open>observation_text_laws\<close>: the framework's validators and error classes,
  and the round trips of Go's number, time and JSON texts. Each of them has an instance here.

  \<^bold>\<open>What the lemmas show.\<close>
  \<^item> Writes: one read and one mutation per request at the revision that was read; every answer is either a
    success with exactly the documented change, or leaves the graph as it was, or says that the outcome is
    uncertain, and then the audit trail says so too. PUT and DELETE refine abstract operations.
  \<^item> The graph: whatever requests the server answers, on any of its routes and one after the other, every entity has one
    type, falls under one contract and carries only facts that this contract declares (the framework's indexing profile
    apart); types never change; only a DELETE of its path under the systems or the datastreams removes an entity.
  \<^item> Reads: items and collections show what is stored, in the order of the listing, filtered before they are
    cut (where the code does so: two properties and several findings say where it does not); GET, HEAD and
    OPTIONS never change the graph, through the whole server.
  \<^item> Observations: a client that follows the next links gets messages once and in order, from the first on and with
    none left out, and all of them when no read of the stream comes out short and every message is readable; a posted
    observation is shown; subjects keep datastreams apart.
  \<^item> Codecs and parsers: round trips, what breaks them, and termination of the decoders.
  \<^item> The server: routes do not conflict, \<open>Allow\<close> headers and advertised links are true, a running server has its
    handles, a configuration that loads also starts.
  \<^item> The tools: the wait for the index is sound and ends; the verdict of the retained scan, with every call that
    can end it, is exact; verification
    by the probe only observes.

  \<^bold>\<open>Bounds and termination.\<close> All definitions are total but \<open>decodeRows\<close>, the record loop of the binary decoder,
  which is a \<open>partial_function\<close> with a proof that it returns on every input (each record takes a byte or ends
  the loop). Chunks of a batch, fields of a string and runs of characters recurse on a length. \<open>browse\<close>, the
  client that follows next links, has fuel: one more than the number of messages is enough. \<open>retry\<close> of the
  probe takes the number of tries that its deadline leaves. \<open>waitLoop\<close> recurses on the events that arrive, and
  \<open>None\<close> says that it still waits.

  \<^bold>\<open>Not modelled.\<close> Registration of predicates, payloads and components with the framework; \<open>DataFlow\<close>, uptime,
  timestamps and logging; flags, signals and process exit of the commands; locks (an operation is one step, requests
  are served one after the other); the prefix of \<open>RegisterHTTPHandlers\<close> (the standalone server uses the empty
  one), the redirects and path cleaning of \<open>ServeMux\<close>; fused multiply-add, which Go may use on some platforms for
  the polygon test; the text layer of JSON and CSV beyond what the codecs write themselves. The server's concurrency
  shows only where the code handles it: a revision that is no longer current is refused by the service.
\<close>

end
